(* ===== verification/Go_Prelude.thy ===== *)
theory Go_Prelude
  imports Main
begin

text \<open>
  What the development's theories share.
  \<^item> Go values: \<open>int\<close> and \<open>int64\<close> are 64 bits wide on the supported platforms. A value is an
    Isabelle \<open>int\<close>; every arithmetic operation of the code is followed by \<open>wrap64\<close>, so the
    wrap-around is in the model. Comparisons need no wrapping.
  \<^item> Go errors: a function that returns \<open>error\<close> is modelled by \<open>goerr + unit\<close>, one that returns
    \<open>(T, error)\<close> by \<open>goerr + T\<close>. \<open>Inr\<close> is the \<open>nil\<close> error, \<open>Inl\<close> carries the error value.
  \<^item> Go loops with early \<open>return err\<close>: \<open>foldE\<close>, with the loop variables as its state.
  \<^item> The interfaces of such loops: a loop whose variables stand for the elements taken so far
    (\<open>prefix_loop\<close>), the case of elements that must be good and must not clash with an
    earlier one (\<open>guarded_loop\<close>), the case where two elements clash when they have the same
    key (\<open>keyed_loop\<close>), and that where the loop variable is the set of keys (\<open>key_set_loop\<close>).
\<close>

section \<open>Collections of facts\<close>

named_theorems model_defs \<open>definitions of the model that proofs unfold together\<close>
named_theorems accept_iffs \<open>when a validator accepts, as an equivalence\<close>

section \<open>Errors\<close>

text \<open>
  \<open>E m\<close> is \<open>errors.New(m)\<close> (or a \<open>fmt.Errorf\<close> whose verbs are all \<open>%s\<close>, already expanded),
  \<open>EQuoted m a\<close> is \<open>fmt.Errorf\<close> with one \<open>%q\<close> verb, \<open>EWrap m e\<close> is \<open>fmt.Errorf(m + "%w", e)\<close>,
  \<open>EJoin es\<close> is \<open>errors.Join\<close> of the non-nil errors \<open>es\<close>, and \<open>Sentinel n\<close> is the package-level
  error variable \<open>n\<close>, compared by identity.
\<close>

datatype goerr =
    E string
  | EQuoted string string
  | EWrap string goerr
  | EJoin "goerr list"
  | Sentinel string

abbreviation ok :: "'e + unit" where
  "ok \<equiv> Inr ()"

definition accepted :: "'e + 'a \<Rightarrow> bool" where
  "accepted r = (case r of Inl _ \<Rightarrow> False | Inr _ \<Rightarrow> True)"

lemma accepted_simps [simp]:
  "accepted (Inl e) = False" "accepted (Inr x) = True"
  by (simp_all add: accepted_def)

lemma accepted_iff: "accepted r \<longleftrightarrow> (\<exists>x. r = Inr x)"
  by (cases r) auto

lemma accepted_unit: "accepted r \<longleftrightarrow> r = ok" for r :: "'e + unit"
  by (cases r) auto

definition bindE :: "'e + 'a \<Rightarrow> ('a \<Rightarrow> 'e + 'b) \<Rightarrow> 'e + 'b" where
  "bindE m f = (case m of Inl e \<Rightarrow> Inl e | Inr x \<Rightarrow> f x)"

lemma bindE_simps [simp]:
  "bindE (Inl e) f = Inl e" "bindE (Inr x) f = f x"
  by (simp_all add: bindE_def)

lemma bindE_Inr_iff: "bindE m f = Inr y \<longleftrightarrow> (\<exists>x. m = Inr x \<and> f x = Inr y)"
  by (cases m) auto

lemma bindE_Inl_iff: "bindE m f = Inl e \<longleftrightarrow> m = Inl e \<or> (\<exists>x. m = Inr x \<and> f x = Inl e)"
  by (cases m) auto

lemma accepted_bindE: "accepted (bindE m f) \<longleftrightarrow> (\<exists>x. m = Inr x \<and> accepted (f x))"
  by (cases m) auto

lemma accepted_bindE_const [simp]: "accepted (bindE m (\<lambda>_. Inr y)) \<longleftrightarrow> accepted m"
  by (cases m) auto

lemma accepted_bindE_ignore: "accepted (bindE m (\<lambda>_. r)) \<longleftrightarrow> accepted m \<and> accepted r"
  by (cases m) auto

lemma accepted_bindE_known:
  "(\<And>t. m = Inr t \<Longrightarrow> t = r) \<Longrightarrow> accepted (bindE m f) \<longleftrightarrow> accepted m \<and> accepted (f r)"
  by (cases m) auto

lemma accepted_if_error [simp]:
  "accepted (if b then Inl e else r) \<longleftrightarrow> \<not> b \<and> accepted r"
  by simp

lemma if_error_Inr: "(if b then Inl e else Inr x) = Inr t \<longleftrightarrow> \<not> b \<and> t = x"
  by auto

text \<open>\<open>errors.Join(first, err)\<close>: \<open>nil\<close> operands are dropped; \<open>first\<close> is never \<open>nil\<close> here.\<close>

definition joinE :: "goerr \<Rightarrow> goerr + 'a \<Rightarrow> goerr" where
  "joinE first r = (case r of Inl e \<Rightarrow> EJoin [first, e] | Inr _ \<Rightarrow> EJoin [first])"

section \<open>64-bit integers\<close>

definition min64 :: int where "min64 = - (2 ^ 63)"
definition max64 :: int where "max64 = 2 ^ 63 - 1"

definition wrap64 :: "int \<Rightarrow> int" where
  "wrap64 x = (x + 2 ^ 63) mod 2 ^ 64 - 2 ^ 63"

definition in64 :: "int \<Rightarrow> bool" where
  "in64 x \<longleftrightarrow> min64 \<le> x \<and> x \<le> max64"

lemma in64_wrap64 [simp]: "in64 (wrap64 x)"
  by (simp add: in64_def wrap64_def min64_def max64_def)

lemma wrap64_id: "in64 x \<Longrightarrow> wrap64 x = x"
  by (simp add: in64_def wrap64_def min64_def max64_def)

lemma wrap64_wrap64 [simp]: "wrap64 (wrap64 x) = wrap64 x"
  by (simp add: wrap64_id)

lemma wrap64_add_left [simp]: "wrap64 (wrap64 x + y) = wrap64 (x + y)"
proof -
  have "wrap64 x + y + 2 ^ 63 = (x + 2 ^ 63) mod 2 ^ 64 + y"
    by (simp add: wrap64_def)
  then have "(wrap64 x + y + 2 ^ 63) mod 2 ^ 64 = (x + 2 ^ 63 + y) mod 2 ^ 64"
    by (simp only: mod_add_left_eq)
  then have "(wrap64 x + y + 2 ^ 63) mod 2 ^ 64 = (x + y + 2 ^ 63) mod 2 ^ 64"
    by (simp only: ac_simps)
  then show ?thesis unfolding wrap64_def [of "wrap64 x + y"] wrap64_def [of "x + y"] by simp
qed

text \<open>\<open>time.Duration\<close> arithmetic: \<open>Time.Sub\<close> saturates at the bounds of \<open>int64\<close> nanoseconds.\<close>

definition sat64 :: "int \<Rightarrow> int" where
  "sat64 x = (if x < min64 then min64 else if max64 < x then max64 else x)"

lemma in64_sat64 [simp]: "in64 (sat64 x)"
  by (simp add: sat64_def in64_def min64_def max64_def)

lemma sat64_le_iff: "n \<le> max64 - 1 \<Longrightarrow> min64 \<le> n \<Longrightarrow> sat64 x \<le> n \<longleftrightarrow> x \<le> n"
  by (auto simp: sat64_def min64_def max64_def)

section \<open>Time\<close>

text \<open>
  A \<open>time.Time\<close> is its number of nanoseconds since the zero time (January 1, year 1, UTC):
  \<open>IsZero\<close>, \<open>After\<close>, \<open>Before\<close> and \<open>Sub\<close> depend on the instant only.
\<close>

type_synonym gotime = int

definition isZero :: "gotime \<Rightarrow> bool" where
  "isZero t \<longleftrightarrow> t = 0"

definition time_sub :: "gotime \<Rightarrow> gotime \<Rightarrow> int" where
  "time_sub a b = sat64 (a - b)"

definition seconds :: "int \<Rightarrow> int" where
  "seconds n = n * 1000000000"

section \<open>Loops with early return\<close>

fun foldE :: "('s \<Rightarrow> 'a \<Rightarrow> 'e + 's) \<Rightarrow> 's \<Rightarrow> 'a list \<Rightarrow> 'e + 's" where
  "foldE f s [] = Inr s"
| "foldE f s (x # xs) = bindE (f s x) (\<lambda>t. foldE f t xs)"

lemma foldE_append: "foldE f s (xs @ ys) = bindE (foldE f s xs) (\<lambda>t. foldE f t ys)"
  by (induction xs arbitrary: s) (auto simp: bindE_def split: sum.splits)

text \<open>An invariant every accepted step keeps holds after an accepted loop.\<close>

lemma foldE_invariant:
  assumes "foldE f s xs = Inr t" and "P s"
    and "\<And>s x t. P s \<Longrightarrow> x \<in> set xs \<Longrightarrow> f s x = Inr t \<Longrightarrow> P t"
  shows "P t"
  using assms
proof (induction xs arbitrary: s)
  case Nil
  then show ?case by simp
next
  case (Cons x xs)
  from Cons.prems(1) obtain u where u: "f s x = Inr u" "foldE f u xs = Inr t"
    by (auto simp: bindE_Inr_iff)
  from Cons.prems(2) u(1) have "P u" by (auto intro: Cons.prems(3))
  with u(2) show ?case by (rule Cons.IH) (auto intro: Cons.prems(3))
qed

lemma foldE_all:
  assumes "foldE f s xs = Inr t" and "\<And>s x t. f s x = Inr t \<Longrightarrow> Q x"
  shows "\<forall>x\<in>set xs. Q x"
  using assms(1) by (induction xs arbitrary: s) (auto simp: bindE_Inr_iff dest: assms(2))

text \<open>A loop whose state is a pure fold of the elements.\<close>

lemma foldE_fold:
  assumes "foldE f s xs = Inr t" and "\<And>s x t. f s x = Inr t \<Longrightarrow> h t = g (h s) x"
  shows "h t = foldl g (h s) xs"
  using assms(1)
proof (induction xs arbitrary: s)
  case Nil
  then show ?case by simp
next
  case (Cons x xs)
  from Cons.prems obtain u where u: "f s x = Inr u" "foldE f u xs = Inr t"
    by (auto simp: bindE_Inr_iff)
  then have "h t = foldl g (h u) xs" by (intro Cons.IH)
  with assms(2) [OF u(1)] show ?case by simp
qed

lemma distinct_sorted_wrt: "distinct (map f xs) \<longleftrightarrow> sorted_wrt (\<lambda>x y. f x \<noteq> f y) xs"
  by (induction xs) auto

subsection \<open>The interfaces of checking loops\<close>

text \<open>
  \<open>admits admit p xs\<close>: each element of \<open>xs\<close> is admitted after the elements before it, when
  the elements \<open>p\<close> came first. It is what a checking loop decides, said of the lists of elements alone.
\<close>

fun admits :: "('a list \<Rightarrow> 'a \<Rightarrow> bool) \<Rightarrow> 'a list \<Rightarrow> 'a list \<Rightarrow> bool" where
  "admits admit p [] = True"
| "admits admit p (x # xs) = (admit p x \<and> admits admit (p @ [x]) xs)"

lemma admits_iff: "admits admit p xs \<longleftrightarrow> (\<forall>k<length xs. admit (p @ take k xs) (xs ! k))"
proof (induction xs arbitrary: p)
  case Nil
  then show ?case by simp
next
  case (Cons x xs)
  have "(\<forall>k<length (x # xs). admit (p @ take k (x # xs)) ((x # xs) ! k)) \<longleftrightarrow>
      admit p x \<and> (\<forall>k<length xs. admit ((p @ [x]) @ take k xs) (xs ! k))"
    by (simp add: All_less_Suc2)
  then show ?case by (simp add: Cons.IH)
qed

text \<open>
  \<open>prefix_loop\<close>: \<open>rel p s\<close> says that the loop variables \<open>s\<close> hold what the loop has to know of the
  elements \<open>p\<close> it has taken. A step then decides \<open>admit p\<close> and keeps the relation.
\<close>

locale prefix_loop =
  fixes step :: "'s \<Rightarrow> 'a \<Rightarrow> 'e + 's"
    and rel :: "'a list \<Rightarrow> 's \<Rightarrow> bool"
    and admit :: "'a list \<Rightarrow> 'a \<Rightarrow> bool"
  assumes sim_accepts: "rel p s \<Longrightarrow> accepted (step s x) \<longleftrightarrow> admit p x"
    and sim_step: "rel p s \<Longrightarrow> step s x = Inr t \<Longrightarrow> rel (p @ [x]) t"
begin

lemma loop_refines: "rel p s \<Longrightarrow> accepted (foldE step s xs) \<longleftrightarrow> admits admit p xs"
proof (induction xs arbitrary: p s)
  case Nil
  then show ?case by simp
next
  case (Cons x xs)
  show ?case
  proof (cases "step s x")
    case (Inl e)
    with sim_accepts [OF Cons.prems, of x] show ?thesis by simp
  next
    case (Inr t)
    with sim_accepts [OF Cons.prems, of x] Cons.IH [OF sim_step [OF Cons.prems Inr]]
    show ?thesis by simp
  qed
qed

lemma loop_related: "rel p s \<Longrightarrow> foldE step s xs = Inr t \<Longrightarrow> rel (p @ xs) t"
proof (induction xs arbitrary: p s)
  case Nil
  then show ?case by simp
next
  case (Cons x xs)
  then obtain u where u: "step s x = Inr u" "foldE step u xs = Inr t"
    by (auto simp: bindE_Inr_iff)
  from sim_step [OF Cons.prems(1) u(1)] u(2) have "rel ((p @ [x]) @ xs) t" by (rule Cons.IH)
  then show ?case by simp
qed

end

text \<open>
  \<open>guarded_loop\<close>: an element is taken exactly when it is good by itself and fresh with respect to
  the loop variables; afterwards the fresh elements are those that were fresh before and do
  not clash with the one just taken.
\<close>

locale guarded_loop =
  fixes step :: "'s \<Rightarrow> 'a \<Rightarrow> 'e + 's"
    and good :: "'a \<Rightarrow> bool"
    and fresh :: "'s \<Rightarrow> 'a \<Rightarrow> bool"
    and clash :: "'a \<Rightarrow> 'a \<Rightarrow> bool"
    and init :: 's
  assumes step_accepts: "accepted (step s x) \<longleftrightarrow> good x \<and> fresh s x"
    and step_marks: "step s x = Inr t \<Longrightarrow> fresh t y \<longleftrightarrow> fresh s y \<and> \<not> clash x y"
    and init_fresh: "fresh init x"

sublocale guarded_loop \<subseteq> prefix_loop step
  "\<lambda>p s. \<forall>y. fresh s y \<longleftrightarrow> (\<forall>x\<in>set p. \<not> clash x y)"
  "\<lambda>p x. good x \<and> (\<forall>y\<in>set p. \<not> clash y x)"
  by unfold_locales (auto simp: step_accepts dest: step_marks)

lemma admits_clash:
  "admits (\<lambda>p x. good x \<and> (\<forall>y\<in>set p. \<not> clash y x)) p xs \<longleftrightarrow>
     (\<forall>x\<in>set xs. good x \<and> (\<forall>y\<in>set p. \<not> clash y x)) \<and> sorted_wrt (\<lambda>x y. \<not> clash x y) xs"
  by (induction xs arbitrary: p) auto

context guarded_loop
begin

text \<open>The loop accepts exactly the lists of good elements that do not clash pairwise.\<close>

lemma loop_accepts:
  "accepted (foldE step init xs) \<longleftrightarrow> (\<forall>x\<in>set xs. good x) \<and> sorted_wrt (\<lambda>x y. \<not> clash x y) xs"
  using loop_refines [where p = "[]" and s = init and xs = xs] by (simp add: init_fresh admits_clash)

lemma loop_result_fresh:
  "foldE step init xs = Inr t \<Longrightarrow> fresh t y \<longleftrightarrow> (\<forall>x\<in>set xs. \<not> clash x y)"
  using loop_related [where p = "[]" and s = init and xs = xs and t = t] by (simp add: init_fresh)

end

text \<open>The usual case: elements clash when their keys are equal.\<close>

locale keyed_loop = guarded_loop step good fresh "\<lambda>x y. key x = key y" init
  for step :: "'s \<Rightarrow> 'a \<Rightarrow> 'e + 's" and good fresh and key :: "'a \<Rightarrow> 'k" and init
begin

lemma keyed_accepts:
  "accepted (foldE step init xs) \<longleftrightarrow> (\<forall>x\<in>set xs. good x) \<and> distinct (map key xs)"
  by (simp add: loop_accepts distinct_sorted_wrt)

end

text \<open>
  The loop variable is the set of the keys taken so far. Such a loop may start from the keys of
  an earlier loop, and its result says which keys are taken afterwards.
\<close>

locale key_set_loop =
  fixes step :: "'k set \<Rightarrow> 'a \<Rightarrow> 'e + 'k set"
    and good :: "'a \<Rightarrow> bool"
    and key :: "'a \<Rightarrow> 'k"
  assumes step_Inr: "step s x = Inr t \<longleftrightarrow> good x \<and> key x \<notin> s \<and> t = insert (key x) s"

sublocale key_set_loop \<subseteq> keyed_loop step good "\<lambda>s x. key x \<notin> s" key "{}"
  by unfold_locales (auto simp: accepted_iff step_Inr)

context key_set_loop
begin

lemma fold_Inr:
  "foldE step s xs = Inr t \<longleftrightarrow>
     (\<forall>x\<in>set xs. good x) \<and> distinct (map key xs) \<and> key ` set xs \<inter> s = {} \<and> t = s \<union> key ` set xs"
proof (induction xs arbitrary: s)
  case Nil
  then show ?case by auto
next
  case (Cons x xs)
  have "foldE step s (x # xs) = Inr t \<longleftrightarrow>
      good x \<and> key x \<notin> s \<and> foldE step (insert (key x) s) xs = Inr t"
    by (auto simp: bindE_Inr_iff step_Inr)
  then show ?case by (auto simp: Cons.IH)
qed

lemma fold_accepted:
  "accepted (foldE step s xs) \<longleftrightarrow>
     (\<forall>x\<in>set xs. good x) \<and> distinct (map key xs) \<and> key ` set xs \<inter> s = {}"
  by (simp add: accepted_iff fold_Inr)

end

section \<open>Maps built by a loop\<close>

lemma foldl_upd_map_of:
  "foldl (\<lambda>m x. m(k x \<mapsto> v x)) m xs = m ++ map_of (rev (map (\<lambda>x. (k x, v x)) xs))"
  by (induction xs arbitrary: m) (auto simp: map_add_def fun_eq_iff split: option.splits)

lemma map_of_rev_pairs:
  assumes "distinct (map fst ps)"
  shows "map_of (rev ps) = map_of ps"
proof
  fix a
  have "distinct (map fst (rev ps))" using assms by (simp add: rev_map [symmetric])
  then have "map_of (rev ps) a = Some b \<longleftrightarrow> map_of ps a = Some b" for b
    using assms by (simp add: map_of_eq_Some_iff)
  then show "map_of (rev ps) a = map_of ps a"
    by (metis not_None_eq)
qed

lemma foldl_upd_distinct:
  assumes "distinct (map k xs)"
  shows "foldl (\<lambda>m x. m(k x \<mapsto> v x)) Map.empty xs = map_of (map (\<lambda>x. (k x, v x)) xs)"
proof -
  have "distinct (map fst (map (\<lambda>x. (k x, v x)) xs))"
    using assms by (simp add: o_def)
  then show ?thesis by (simp add: foldl_upd_map_of map_of_rev_pairs)
qed

lemma map_of_pairs_Some:
  assumes "distinct (map k xs)"
  shows "map_of (map (\<lambda>x. (k x, v x)) xs) a = Some b \<longleftrightarrow> (\<exists>x\<in>set xs. k x = a \<and> v x = b)"
proof -
  have "distinct (map fst (map (\<lambda>x. (k x, v x)) xs))"
    using assms by (simp add: o_def)
  then show ?thesis by (auto simp: map_of_eq_Some_iff)
qed

end
