(* ===== verification/Go_Regexp.thy ===== *)
theory Go_Regexp
  imports Go_Prelude
begin

text \<open>
  The part of Go's \<open>regexp\<close> package the program uses: \<open>MatchString\<close> of a pattern that is
  anchored at both ends (\<open>^...$\<close> without flags, where \<open>$\<close> is the end of the text). A string
  is a list of bytes. All classes of the patterns are ASCII, so a byte of a multi-byte rune
  or of invalid UTF-8 is in none of them, and matching bytes is matching runes.

  \<open>mat\<close> is the meaning of an expression, \<open>matchString\<close> an executable matcher by derivatives,
  and \<open>matchString_iff\<close> shows that they agree. The simplification rules at the end decide the
  shapes the patterns have.
\<close>

section \<open>Expressions and their meaning\<close>

text \<open>\<open>Cls rs\<close> is a character class, a list of inclusive ranges; \<open>Rep r lo hi\<close> is \<open>r{lo,hi}\<close>.\<close>

datatype rexp =
    Zero
  | One
  | Cls "(char \<times> char) list"
  | Alt rexp rexp
  | Seq rexp rexp
  | Star rexp
  | Rep rexp nat nat

definition in_range :: "char \<Rightarrow> char \<times> char \<Rightarrow> bool" where
  "in_range c r \<longleftrightarrow> of_char (fst r) \<le> (of_char c :: nat) \<and> (of_char c :: nat) \<le> of_char (snd r)"

definition in_cls :: "(char \<times> char) list \<Rightarrow> char \<Rightarrow> bool" where
  "in_cls rs c \<longleftrightarrow> list_ex (in_range c) rs"

inductive mat :: "rexp \<Rightarrow> string \<Rightarrow> bool" where
  mat_One: "mat One []"
| mat_Cls: "in_cls rs c \<Longrightarrow> mat (Cls rs) [c]"
| mat_AltL: "mat r u \<Longrightarrow> mat (Alt r s) u"
| mat_AltR: "mat s u \<Longrightarrow> mat (Alt r s) u"
| mat_Seq: "mat r u \<Longrightarrow> mat s v \<Longrightarrow> mat (Seq r s) (u @ v)"
| mat_Star0: "mat (Star r) []"
| mat_StarS: "mat r u \<Longrightarrow> mat (Star r) v \<Longrightarrow> mat (Star r) (u @ v)"
| mat_Rep0: "mat (Rep r 0 hi) []"
| mat_RepS: "mat r u \<Longrightarrow> mat (Rep r (lo - 1) hi) v \<Longrightarrow> mat (Rep r lo (Suc hi)) (u @ v)"

inductive_simps mat_Zero_iff [simp]: "mat Zero w"
inductive_simps mat_One_iff [simp]: "mat One w"
inductive_simps mat_Cls_iff [simp]: "mat (Cls rs) w"
inductive_simps mat_Alt_iff [simp]: "mat (Alt r s) w"
inductive_simps mat_Seq_iff: "mat (Seq r s) w"
inductive_simps mat_Rep_iff: "mat (Rep r lo hi) w"
inductive_cases mat_StarE: "mat (Star r) w"

section \<open>The matcher\<close>

fun nullable :: "rexp \<Rightarrow> bool" where
  "nullable Zero = False"
| "nullable One = True"
| "nullable (Cls rs) = False"
| "nullable (Alt r s) = (nullable r \<or> nullable s)"
| "nullable (Seq r s) = (nullable r \<and> nullable s)"
| "nullable (Star r) = True"
| "nullable (Rep r lo hi) = (lo = 0 \<or> (lo \<le> hi \<and> nullable r))"

text \<open>Constructors that keep derivatives small.\<close>

fun alt :: "rexp \<Rightarrow> rexp \<Rightarrow> rexp" where
  "alt Zero s = s"
| "alt r Zero = r"
| "alt r s = Alt r s"

fun seq :: "rexp \<Rightarrow> rexp \<Rightarrow> rexp" where
  "seq Zero s = Zero"
| "seq One s = s"
| "seq r Zero = Zero"
| "seq r s = Seq r s"

fun deriv :: "char \<Rightarrow> rexp \<Rightarrow> rexp" where
  "deriv c Zero = Zero"
| "deriv c One = Zero"
| "deriv c (Cls rs) = (if in_cls rs c then One else Zero)"
| "deriv c (Alt r s) = alt (deriv c r) (deriv c s)"
| "deriv c (Seq r s) =
     (if nullable r then alt (seq (deriv c r) s) (deriv c s) else seq (deriv c r) s)"
| "deriv c (Star r) = seq (deriv c r) (Star r)"
| "deriv c (Rep r lo hi) =
     (case hi of 0 \<Rightarrow> Zero | Suc h \<Rightarrow> seq (deriv c r) (Rep r (lo - 1) h))"

fun matchString :: "rexp \<Rightarrow> string \<Rightarrow> bool" where
  "matchString r [] = nullable r"
| "matchString r (c # cs) = matchString (deriv c r) cs"

section \<open>The matcher agrees with the meaning\<close>

lemma mat_alt [simp]: "mat (alt r s) w \<longleftrightarrow> mat (Alt r s) w"
  by (cases "(r, s)" rule: alt.cases) auto

lemma mat_seq [simp]: "mat (seq r s) w \<longleftrightarrow> mat (Seq r s) w"
  by (cases "(r, s)" rule: seq.cases) (auto simp: mat_Seq_iff)

lemma mat_Rep_Nil: "mat r [] \<Longrightarrow> lo \<le> hi \<Longrightarrow> mat (Rep r lo hi) []"
proof (induction hi arbitrary: lo)
  case 0
  then show ?case by (auto intro: mat_Rep0)
next
  case (Suc hi)
  then have "mat (Rep r (lo - 1) hi) []" by auto
  with Suc.prems(1) show ?case using mat_RepS [of r "[]" lo hi "[]"] by simp
qed

lemma mat_Rep_Nil_D: "mat p [] \<Longrightarrow> p = Rep r lo hi \<Longrightarrow> lo = 0 \<or> lo \<le> hi \<and> mat r []"
proof (induction p "[] :: string" arbitrary: lo hi rule: mat.induct)
  case (mat_RepS r' u lo' hi' v)
  then show ?case by fastforce
qed auto

lemma nullable_iff: "nullable r \<longleftrightarrow> mat r []"
proof (induction r)
  case (Rep r lo hi)
  then show ?case
    using mat_Rep_Nil [of r lo hi] mat_Rep_Nil_D [of "Rep r lo hi" r lo hi] mat_Rep0 by auto
qed (auto simp: mat_Seq_iff intro: mat_Star0)

text \<open>Iterating expressions: a non-empty match begins with a non-empty match of the body.\<close>

lemma mat_Star_Cons:
  "mat p w \<Longrightarrow> p = Star r \<Longrightarrow> w = c # cs \<Longrightarrow>
     \<exists>u v. cs = u @ v \<and> mat r (c # u) \<and> mat (Star r) v"
proof (induction p w arbitrary: cs rule: mat.induct)
  case (mat_StarS r' u v)
  show ?case
  proof (cases u)
    case Nil
    with mat_StarS show ?thesis by auto
  next
    case (Cons a u')
    with mat_StarS show ?thesis by auto
  qed
qed auto

lemma mat_Rep_Cons:
  "mat p w \<Longrightarrow> p = Rep r lo hi \<Longrightarrow> w = c # cs \<Longrightarrow>
     \<exists>u v h. cs = u @ v \<and> hi = Suc h \<and> mat r (c # u) \<and> mat (Rep r (lo - 1) h) v"
proof (induction p w arbitrary: lo hi cs rule: mat.induct)
  case (mat_RepS r' u lo' hi' v)
  show ?case
  proof (cases u)
    case Nil
    with mat_RepS.prems have v: "v = c # cs" and r: "r' = r" "lo' = lo" "hi = Suc hi'" by auto
    with mat_RepS.IH(2) obtain u2 v2 h where
      *: "cs = u2 @ v2" "hi' = Suc h" "mat r (c # u2)" "mat (Rep r (lo - 1 - 1) h) v2"
      by blast
    moreover have "mat r []" using mat_RepS.hyps(1) Nil r by simp
    ultimately have "mat (Rep r (lo - 1) (Suc h)) ([] @ v2)" by (intro mat.mat_RepS)
    with * r show ?thesis by auto
  next
    case (Cons a u')
    with mat_RepS show ?thesis by auto
  qed
qed auto

lemma mat_deriv: "mat (deriv c r) cs \<longleftrightarrow> mat r (c # cs)"
proof (induction r arbitrary: cs)
  case (Seq r s)
  have split: "mat (Seq r s) (c # cs) \<longleftrightarrow>
      (mat r [] \<and> mat s (c # cs)) \<or> (\<exists>u v. cs = u @ v \<and> mat r (c # u) \<and> mat s v)"
    by (auto simp: mat_Seq_iff Cons_eq_append_conv)
  show ?case unfolding split using Seq by (auto simp: mat_Seq_iff nullable_iff)
next
  case (Star r)
  show ?case
  proof
    assume "mat (deriv c (Star r)) cs"
    then obtain u v where "cs = u @ v" "mat r (c # u)" "mat (Star r) v"
      using Star by (auto simp: mat_Seq_iff)
    then show "mat (Star r) (c # cs)" using mat_StarS [of r "c # u" v] by simp
  next
    assume "mat (Star r) (c # cs)"
    from mat_Star_Cons [OF this refl refl] show "mat (deriv c (Star r)) cs"
      using Star by (auto simp: mat_Seq_iff)
  qed
next
  case (Rep r lo hi)
  show ?case
  proof
    assume "mat (deriv c (Rep r lo hi)) cs"
    then obtain u v h where "hi = Suc h" "cs = u @ v" "mat r (c # u)" "mat (Rep r (lo - 1) h) v"
      using Rep by (auto simp: mat_Seq_iff split: nat.splits)
    then show "mat (Rep r lo hi) (c # cs)" using mat_RepS [of r "c # u" lo h v] by simp
  next
    assume "mat (Rep r lo hi) (c # cs)"
    from mat_Rep_Cons [OF this refl refl] show "mat (deriv c (Rep r lo hi)) cs"
      using Rep by (auto simp: mat_Seq_iff) blast
  qed
qed auto

theorem matchString_iff: "matchString r w \<longleftrightarrow> mat r w"
  by (induction w arbitrary: r) (simp_all add: nullable_iff mat_deriv)

section \<open>The shapes of the program's patterns\<close>

text \<open>A literal prefix.\<close>

fun Lit :: "string \<Rightarrow> rexp" where
  "Lit [] = One"
| "Lit (c # cs) = Seq (Cls [(c, c)]) (Lit cs)"

definition Opt :: "rexp \<Rightarrow> rexp" where
  "Opt r = Alt r One"

lemma in_cls_singleton [simp]: "in_cls [(d, d)] c \<longleftrightarrow> c = d"
proof -
  have "of_char c = (of_char d :: nat) \<longleftrightarrow> c = d" by (rule of_char_eq_iff)
  then show ?thesis by (auto simp: in_cls_def in_range_def)
qed

lemma mat_Lit [simp]: "mat (Lit l) w \<longleftrightarrow> w = l"
  by (induction l arbitrary: w) (auto simp: mat_Seq_iff)

lemma mat_Lit_Seq: "mat (Seq (Lit l) r) w \<longleftrightarrow> (\<exists>v. w = l @ v \<and> mat r v)"
  by (auto simp: mat_Seq_iff)

lemma mat_Cls_Seq: "mat (Seq (Cls rs) r) w \<longleftrightarrow> (\<exists>c v. w = c # v \<and> in_cls rs c \<and> mat r v)"
  unfolding mat_Seq_iff mat_Cls_iff by (metis append_Cons append_Nil)

lemma mat_Opt: "mat (Opt r) w \<longleftrightarrow> w = [] \<or> mat r w"
  by (auto simp: Opt_def)

lemma mat_Rep_Cls:
  "mat (Rep (Cls rs) lo hi) w \<longleftrightarrow> lo \<le> length w \<and> length w \<le> hi \<and> list_all (in_cls rs) w"
proof (induction w arbitrary: lo hi)
  case Nil
  show ?case using nullable_iff [of "Rep (Cls rs) lo hi"] by simp
next
  case (Cons c w)
  have "mat (Rep (Cls rs) lo hi) (c # w) \<longleftrightarrow>
      (\<exists>h. hi = Suc h \<and> in_cls rs c \<and> mat (Rep (Cls rs) (lo - 1) h) w)"
    unfolding mat_deriv [symmetric] by (auto simp: mat_Seq_iff split: nat.splits if_splits)
  then show ?case using Cons.IH by (cases hi) auto
qed

lemma mat_Star_Cls: "mat (Star (Cls rs)) w \<longleftrightarrow> list_all (in_cls rs) w"
proof (induction w)
  case Nil
  show ?case by (simp add: mat_Star0)
next
  case (Cons c w)
  have "mat (Star (Cls rs)) (c # w) \<longleftrightarrow> in_cls rs c \<and> mat (Star (Cls rs)) w"
    unfolding mat_deriv [symmetric] by (auto simp: mat_Seq_iff)
  then show ?case using Cons.IH by simp
qed

text \<open>
  Patterns are rewritten by the facts above and never unfolded character by character; \<open>code_simp\<close>
  still runs the matcher on a closed string.
\<close>

declare Lit.simps [simp del] matchString.simps [simp del]

lemmas mat_shapes = mat_Lit_Seq mat_Cls_Seq mat_Opt mat_Rep_Cls mat_Star_Cls

text \<open>Character classes used by the patterns.\<close>

definition lower :: "(char \<times> char) list" where "lower = [(CHR ''a'', CHR ''z'')]"
definition upper :: "(char \<times> char) list" where "upper = [(CHR ''A'', CHR ''Z'')]"
definition digit :: "(char \<times> char) list" where "digit = [(CHR ''0'', CHR ''9'')]"
definition hex :: "(char \<times> char) list" where "hex = [(CHR ''a'', CHR ''f''), (CHR ''0'', CHR ''9'')]"
definition chars :: "string \<Rightarrow> (char \<times> char) list" where "chars cs = map (\<lambda>c. (c, c)) cs"

lemmas cls_defs = lower_def upper_def digit_def hex_def chars_def in_cls_def in_range_def

end
