(* ===== verification/Go_Strings.thy ===== *)
theory Go_Strings
  imports Go_Regexp "HOL-Library.Sublist"
begin

text \<open>
  The functions of Go's \<open>strings\<close>, \<open>encoding/base64\<close> and \<open>net/url\<close> packages that the validators of
  \<open>internal/model\<close> call, on strings as lists of bytes. \<open>net/url\<close> is the package of Go 1.25.0, the
  version \<open>go.mod\<close> names; of a parsed URL only the parts the program reads are kept.
\<close>

section \<open>Strings\<close>

text \<open>\<open>strings.Split(s, sep)\<close> and \<open>strings.Cut(s, sep)\<close> for a separator of one byte.\<close>

fun splitOn :: "char \<Rightarrow> string \<Rightarrow> string list" where
  "splitOn c [] = [[]]"
| "splitOn c (x # xs) =
     (if x = c then [] # splitOn c xs
      else case splitOn c xs of [] \<Rightarrow> [[x]] | p # ps \<Rightarrow> (x # p) # ps)"

definition cut :: "char \<Rightarrow> string \<Rightarrow> string \<times> string" where
  "cut c s = (takeWhile (\<lambda>x. x \<noteq> c) s, tl (dropWhile (\<lambda>x. x \<noteq> c) s))"

text \<open>\<open>strings.LastIndex\<close> of one byte, as the split it is used for.\<close>

definition before_last :: "char \<Rightarrow> string \<Rightarrow> string" where
  "before_last c s = rev (tl (dropWhile (\<lambda>x. x \<noteq> c) (rev s)))"

definition after_last :: "char \<Rightarrow> string \<Rightarrow> string" where
  "after_last c s = rev (takeWhile (\<lambda>x. x \<noteq> c) (rev s))"

definition trimPrefix :: "string \<Rightarrow> string \<Rightarrow> string" where
  "trimPrefix s p = (if prefix p s then drop (length p) s else s)"

definition join :: "char \<Rightarrow> string list \<Rightarrow> string" where
  "join c ps = (case ps of [] \<Rightarrow> [] | q # qs \<Rightarrow> q @ concat (map (\<lambda>p. c # p) qs))"

lemma splitOn_Cons: "splitOn c xs \<noteq> []"
  by (cases xs) (auto split: list.splits)

lemma join_splitOn: "join c (splitOn c s) = s"
proof (induction s)
  case Nil
  then show ?case by (simp add: join_def)
next
  case (Cons x xs)
  obtain p ps where p: "splitOn c xs = p # ps" using splitOn_Cons by (meson list.exhaust)
  with Cons.IH show ?case by (cases ps) (auto simp: join_def)
qed

lemma splitOn_no_sep: "p \<in> set (splitOn c s) \<Longrightarrow> c \<notin> set p"
  by (induction s arbitrary: p) (auto split: if_splits list.splits)

lemma join_Cons2: "join c (p # q # qs) = p @ c # join c (q # qs)"
  by (simp add: join_def)

lemma splitOn_last: "c \<notin> set p \<Longrightarrow> splitOn c p = [p]"
  by (induction p) auto

lemma splitOn_append: "c \<notin> set p \<Longrightarrow> splitOn c (p @ c # s) = p # splitOn c s"
  by (induction p) auto

lemma splitOn_join:
  "ps \<noteq> [] \<Longrightarrow> \<forall>p\<in>set ps. c \<notin> set p \<Longrightarrow> splitOn c (join c ps) = ps"
proof (induction ps)
  case (Cons p ps)
  then show ?case
    by (cases ps) (auto simp: join_Cons2 splitOn_append splitOn_last, simp add: join_def splitOn_last)
qed simp

section \<open>Standard base64\<close>

text \<open>
  \<open>base64.StdEncoding.DecodeString\<close>: carriage returns and newlines are skipped anywhere, four
  characters give three bytes, the last group may end in one or two padding characters, and
  nothing may follow padding. The bits that padding leaves over are ignored.
\<close>

definition b64_alphabet :: string where
  "b64_alphabet = ''ABCDEFGHIJKLMNOPQRSTUVWXYZabcdefghijklmnopqrstuvwxyz0123456789+/''"

fun index_of :: "'a list \<Rightarrow> 'a \<Rightarrow> nat option" where
  "index_of [] x = None"
| "index_of (y # ys) x = (if x = y then Some 0 else map_option Suc (index_of ys x))"

definition b64_val :: "char \<Rightarrow> nat option" where
  "b64_val c = index_of b64_alphabet c"

definition b64_bytes :: "nat list \<Rightarrow> nat list" where
  "b64_bytes vs =
     (case vs of
        [a, b, c, d] \<Rightarrow> let n = ((a * 64 + b) * 64 + c) * 64 + d in [n div 65536, n div 256 mod 256, n mod 256]
      | [a, b, c] \<Rightarrow> let n = (a * 64 + b) * 64 + c in [n div 1024, n div 4 mod 256]
      | [a, b] \<Rightarrow> [(a * 64 + b) div 16]
      | _ \<Rightarrow> [])"

fun b64_quads :: "string \<Rightarrow> nat list option" where
  "b64_quads [] = Some []"
| "b64_quads [a, b, c, d] =
     (case (b64_val a, b64_val b) of
        (Some x, Some y) \<Rightarrow>
          if c = CHR ''='' then (if d = CHR ''='' then Some (b64_bytes [x, y]) else None)
          else (case b64_val c of
              None \<Rightarrow> None
            | Some z \<Rightarrow>
                if d = CHR ''='' then Some (b64_bytes [x, y, z])
                else map_option (\<lambda>w. b64_bytes [x, y, z, w]) (b64_val d))
      | _ \<Rightarrow> None)"
| "b64_quads (a # b # c # d # s) =
     (case (b64_val a, b64_val b, b64_val c, b64_val d) of
        (Some x, Some y, Some z, Some w) \<Rightarrow> map_option (\<lambda>r. b64_bytes [x, y, z, w] @ r) (b64_quads s)
      | _ \<Rightarrow> None)"
| "b64_quads _ = None"

definition base64_decode :: "string \<Rightarrow> nat list option" where
  "base64_decode s = b64_quads (filter (\<lambda>c. c \<noteq> CHR 0x0A \<and> c \<noteq> CHR 0x0D) s)"

section \<open>URLs\<close>

record url =
  u_Scheme :: string
  u_Opaque :: string
  u_User :: bool
  u_Host :: string

definition byte :: "char \<Rightarrow> nat" where "byte c = of_char c"

definition is_alpha :: "char \<Rightarrow> bool" where "is_alpha c = in_cls (upper @ lower) c"
definition is_digit :: "char \<Rightarrow> bool" where "is_digit c = in_cls digit c"
definition is_alnum :: "char \<Rightarrow> bool" where "is_alnum c \<longleftrightarrow> is_alpha c \<or> is_digit c"

definition unhex :: "char \<Rightarrow> nat option" where
  "unhex c = (if is_digit c then Some (byte c - 48)
     else if in_cls [(CHR ''a'', CHR ''f'')] c then Some (byte c - 87)
     else if in_cls [(CHR ''A'', CHR ''F'')] c then Some (byte c - 55) else None)"

text \<open>The modes of \<open>unescape\<close>: what of the program's URLs goes through it.\<close>

datatype encoding = encodeHost | encodeZone | encodePath | encodeFragment | encodeUserPassword

text \<open>\<open>shouldEscape\<close> in the modes \<open>encodeHost\<close> and \<open>encodeZone\<close>, which agree.\<close>

definition shouldEscapeHost :: "char \<Rightarrow> bool" where
  "shouldEscapeHost c \<longleftrightarrow> \<not> (is_alnum c \<or> c \<in> set ''!$&()*+,;=:[]<>-_.~'' \<or> c = CHR 0x27 \<or> c = CHR 0x22)"

definition escape_ok :: "encoding \<Rightarrow> nat \<Rightarrow> nat \<Rightarrow> bool" where
  "escape_ok mode a b = (case mode of
     encodeHost \<Rightarrow> 8 \<le> a \<or> (a = 2 \<and> b = 5)
   | encodeZone \<Rightarrow> (a = 2 \<and> b = 5) \<or> a * 16 + b = 32 \<or> \<not> shouldEscapeHost (char_of (a * 16 + b))
   | _ \<Rightarrow> True)"

definition raw_ok :: "encoding \<Rightarrow> char \<Rightarrow> bool" where
  "raw_ok mode c = ((mode = encodeHost \<or> mode = encodeZone) \<longrightarrow> 128 \<le> byte c \<or> \<not> shouldEscapeHost c)"

fun unescape :: "encoding \<Rightarrow> string \<Rightarrow> string option" where
  "unescape mode [] = Some []"
| "unescape mode (c # s) =
     (if c = CHR ''%'' then
        (case s of
           x # y # rest \<Rightarrow>
             (case (unhex x, unhex y) of
                (Some a, Some b) \<Rightarrow>
                  if escape_ok mode a b
                  then map_option (\<lambda>r. char_of (a * 16 + b) # r) (unescape mode (drop 2 s)) else None
              | _ \<Rightarrow> None)
         | _ \<Rightarrow> None)
      else if raw_ok mode c then map_option (\<lambda>r. c # r) (unescape mode s) else None)"

definition validOptionalPort :: "string \<Rightarrow> bool" where
  "validOptionalPort port = (case port of [] \<Rightarrow> True | c # ds \<Rightarrow> c = CHR '':'' \<and> list_all is_digit ds)"

text \<open>\<open>strings.Index(s, "%25")\<close>, as the split before it.\<close>

fun split_zone :: "string \<Rightarrow> (string \<times> string) option" where
  "split_zone [] = None"
| "split_zone (c # s) =
     (if prefix ''%25'' (c # s) then Some ([], c # s)
      else map_option (\<lambda>(a, b). (c # a, b)) (split_zone s))"

definition parseHost :: "string \<Rightarrow> string option" where
  "parseHost host =
     (if prefix ''['' host then
        if CHR '']'' \<notin> set host then None
        else let inner = before_last CHR '']'' host; colonPort = after_last CHR '']'' host in
          if \<not> validOptionalPort colonPort then None
          else (case split_zone inner of
              None \<Rightarrow> unescape encodeHost host
            | Some (name, zone) \<Rightarrow>
                (case (unescape encodeHost name, unescape encodeZone zone,
                    unescape encodeHost (CHR '']'' # colonPort)) of
                   (Some h1, Some h2, Some h3) \<Rightarrow> Some (h1 @ h2 @ h3)
                 | _ \<Rightarrow> None))
      else if CHR '':'' \<in> set host \<and> \<not> validOptionalPort (CHR '':'' # after_last CHR '':'' host) then None
      else unescape encodeHost host)"

definition validUserinfo :: "string \<Rightarrow> bool" where
  "validUserinfo s = list_all (\<lambda>c. is_alnum c \<or> c \<in> set ''-._:~!$&()*+,;=%@'' \<or> c = CHR 0x27) s"

definition userinfo_ok :: "string \<Rightarrow> bool" where
  "userinfo_ok s \<longleftrightarrow> validUserinfo s \<and>
     (if CHR '':'' \<in> set s
      then unescape encodeUserPassword (fst (cut CHR '':'' s)) \<noteq> None \<and>
        unescape encodeUserPassword (snd (cut CHR '':'' s)) \<noteq> None
      else unescape encodeUserPassword s \<noteq> None)"

text \<open>\<open>parseAuthority\<close>: whether there is user information, and the host.\<close>

definition parseAuthority :: "string \<Rightarrow> (bool \<times> string) option" where
  "parseAuthority authority =
     (if CHR ''@'' \<notin> set authority then map_option (\<lambda>h. (False, h)) (parseHost authority)
      else case parseHost (after_last CHR ''@'' authority) of
          None \<Rightarrow> None
        | Some h \<Rightarrow> if userinfo_ok (before_last CHR ''@'' authority) then Some (True, h) else None)"

text \<open>\<open>getScheme\<close>; \<open>pre\<close> is what was read, in reverse.\<close>

fun getScheme_from :: "string \<Rightarrow> string \<Rightarrow> string \<Rightarrow> (string \<times> string) option" where
  "getScheme_from whole pre [] = Some ([], whole)"
| "getScheme_from whole pre (c # s) =
     (if is_alpha c then getScheme_from whole (c # pre) s
      else if is_digit c \<or> c \<in> set ''+-.'' then
        (if pre = [] then Some ([], whole) else getScheme_from whole (c # pre) s)
      else if c = CHR '':'' then (if pre = [] then None else Some (rev pre, s))
      else Some ([], whole))"

definition lower_byte :: "char \<Rightarrow> char" where
  "lower_byte c = (if in_cls upper c then char_of (byte c + 32) else c)"

definition parse_url :: "string \<Rightarrow> url option" where
  "parse_url raw =
     (let none = \<lparr>u_Scheme = [], u_Opaque = [], u_User = False, u_Host = []\<rparr> in
      if list_ex (\<lambda>c. byte c < 32 \<or> byte c = 127) raw then None
      else if raw = ''*'' then Some none
      else case getScheme_from raw [] raw of
        None \<Rightarrow> None
      | Some (sch, rest0) \<Rightarrow>
          let scheme = map lower_byte sch;
              rest = fst (cut CHR ''?'' rest0)
          in if \<not> prefix ''/'' rest then
               (if scheme \<noteq> [] then Some (none\<lparr>u_Scheme := scheme, u_Opaque := rest\<rparr>)
                else if CHR '':'' \<in> set (fst (cut CHR ''/'' rest)) then None
                else if unescape encodePath rest = None then None else Some none)
             else if (scheme \<noteq> [] \<or> \<not> prefix ''///'' rest) \<and> prefix ''//'' rest then
               (let after = drop 2 rest;
                    authority = takeWhile (\<lambda>c. c \<noteq> CHR ''/'') after;
                    path = dropWhile (\<lambda>c. c \<noteq> CHR ''/'') after
                in case parseAuthority authority of
                     None \<Rightarrow> None
                   | Some (user, host) \<Rightarrow>
                       if unescape encodePath path = None then None
                       else Some \<lparr>u_Scheme = scheme, u_Opaque = [], u_User = user, u_Host = host\<rparr>)
             else if unescape encodePath rest = None then None
             else Some (none\<lparr>u_Scheme := scheme\<rparr>))"

text \<open>\<open>url.Parse\<close>: the fragment is cut off first and checked last.\<close>

definition url_Parse :: "string \<Rightarrow> url option" where
  "url_Parse raw =
     (let (u, frag) = cut CHR ''#'' raw in
      case parse_url u of
        None \<Rightarrow> None
      | Some r \<Rightarrow> if frag \<noteq> [] \<and> unescape encodeFragment frag = None then None else Some r)"

text \<open>\<open>URL.Hostname\<close>.\<close>

definition url_Hostname :: "url \<Rightarrow> string" where
  "url_Hostname u =
     (let host = u_Host u;
          h = (if CHR '':'' \<in> set host \<and> validOptionalPort (CHR '':'' # after_last CHR '':'' host)
               then before_last CHR '':'' host else host)
      in if prefix ''['' h \<and> suffix '']'' h then butlast (tl h) else h)"

lemma getScheme_from_split:
  "getScheme_from whole pre s = Some (sch, rest) \<Longrightarrow> sch \<noteq> [] \<Longrightarrow>
     \<exists>mid. sch = rev pre @ mid \<and> s = mid @ CHR '':'' # rest"
  by (induction whole pre s rule: getScheme_from.induct) (force split: if_splits)+

text \<open>A parsed URL with a host begins with its scheme and two slashes, and the rest holds the host.\<close>

lemma parse_url_prefix:
  assumes "parse_url raw = Some u" and "u_Host u \<noteq> []" and "u_Scheme u \<noteq> []"
  obtains rest where "raw \<noteq> []" and "length (u_Scheme u) + 3 + 1 \<le> length raw"
    and "raw = take (length (u_Scheme u)) raw @ ''://'' @ rest" and "rest \<noteq> []"
proof -
  obtain sch rest0 where g: "getScheme_from raw [] raw = Some (sch, rest0)"
    using assms by (auto simp: parse_url_def Let_def split: if_splits option.splits)
  define rest where "rest = fst (cut CHR ''?'' rest0)"
  have s: "u_Scheme u = map lower_byte sch" and p: "prefix ''//'' rest"
    and a: "\<exists>x. parseAuthority (takeWhile (\<lambda>c. c \<noteq> CHR ''/'') (drop 2 rest)) = Some (x, u_Host u)"
    using assms g
    by (auto simp: parse_url_def Let_def rest_def [symmetric] split: if_splits option.splits prod.splits)
  have "sch \<noteq> []" using s assms(3) by auto
  with getScheme_from_split [OF g] have r: "raw = sch @ CHR '':'' # rest0" by auto
  obtain tail where t: "rest0 = rest @ tail"
    unfolding rest_def cut_def using takeWhile_dropWhile_id [of "\<lambda>x. x \<noteq> CHR ''?''" rest0] by (metis fst_conv)
  obtain more where m: "rest = ''//'' @ more" using p by (auto simp: prefix_def)
  have "parseHost [] = Some []" by (simp add: parseHost_def)
  then have "parseAuthority [] = Some (False, [])" by (simp add: parseAuthority_def)
  with a assms(2) have "more \<noteq> []" by (auto simp: m)
  with r s t m show thesis by (intro that [of "more @ tail"]; cases more) auto
qed

section \<open>Decimal numbers\<close>

text \<open>Decimal digits, \<open>%d\<close>, and \<open>%04d\<close>, which pads with zeros to four characters.\<close>

fun dec_digits :: "nat \<Rightarrow> string" where
  "dec_digits n = (if n < 10 then [char_of (48 + n)] else dec_digits (n div 10) @ [char_of (48 + n mod 10)])"

declare dec_digits.simps [simp del]

definition dec_int :: "int \<Rightarrow> string" where
  "dec_int n = (if n < 0 then CHR ''-'' # dec_digits (nat (- n)) else dec_digits (nat n))"

definition pad4 :: "int \<Rightarrow> string" where
  "pad4 n =
     (if n < 0 then CHR ''-'' # replicate (3 - length (dec_digits (nat (- n)))) CHR ''0'' @ dec_digits (nat (- n))
      else replicate (4 - length (dec_digits (nat n))) CHR ''0'' @ dec_digits (nat n))"

lemma dec_digits_digits: "c \<in> set (dec_digits n) \<Longrightarrow> is_digit c"
proof (induction n rule: dec_digits.induct)
  case (1 n)
  have "is_digit (char_of (48 + m))" if "m < 10" for m :: nat
  proof -
    from that have "m \<in> {0, 1, 2, 3, 4, 5, 6, 7, 8, 9}" by auto
    then show ?thesis by (auto simp: is_digit_def in_cls_def in_range_def digit_def)
  qed
  with 1 show ?case by (subst (asm) dec_digits.simps) (auto split: if_splits)
qed

fun dec_value :: "string \<Rightarrow> nat" where
  "dec_value s = foldl (\<lambda>n c. 10 * n + (byte c - 48)) 0 s"

lemma dec_value_digits: "dec_value (replicate k CHR ''0'' @ dec_digits n) = n"
proof -
  have z: "foldl (\<lambda>n c. 10 * n + (byte c - 48)) 0 (replicate k CHR ''0'') = 0"
    by (induction k) (simp_all add: byte_def)
  have d: "byte (char_of (48 + m)) - 48 = m" if "m < 10" for m
  proof -
    have "(48 + m) mod 256 = 48 + m" using that by (intro mod_less) simp
    then show ?thesis by (simp only: byte_def of_char_of add_diff_cancel_left')
  qed
  have "foldl (\<lambda>n c. 10 * n + (byte c - 48)) 0 (dec_digits n) = n"
  proof (induction n rule: dec_digits.induct)
    case (1 n)
    show ?case
      by (subst dec_digits.simps) (auto simp: 1 d)
  qed
  then show ?thesis by (simp add: z)
qed

lemma pad4_inj: "pad4 a = pad4 b \<Longrightarrow> 0 \<le> a \<Longrightarrow> 0 \<le> b \<Longrightarrow> a = b"
  unfolding pad4_def using dec_value_digits by (metis int_nat_eq linorder_not_less)

lemma pad4_no_dash: "0 \<le> n \<Longrightarrow> CHR ''-'' \<notin> set (pad4 n)"
  using dec_digits_digits [of "CHR ''-''" "nat n"]
  by (auto simp: pad4_def is_digit_def in_cls_def in_range_def digit_def)

lemma before_last_dash:
  assumes "c \<notin> set b"
  shows "before_last c (a @ c # b) = a" and "after_last c (a @ c # b) = b"
proof -
  have "dropWhile (\<lambda>x. x \<noteq> c) (rev b @ c # rev a) = c # rev a"
    using assms by (subst dropWhile_append2) auto
  then show "before_last c (a @ c # b) = a" by (simp add: before_last_def)
  have "takeWhile (\<lambda>x. x \<noteq> c) (rev b @ c # rev a) = rev b"
    using assms by (subst takeWhile_append2) auto
  then show "after_last c (a @ c # b) = b" by (simp add: after_last_def)
qed

end
