(* ===== verification/Model_Patterns.thy ===== *)
theory Model_Patterns
  imports Go_Regexp
begin

text \<open>
  The identifier, digest and name patterns of \<open>internal/model\<close> (\<open>model.go\<close>, \<open>cell.go\<close>,
  \<open>cell_v3.go\<close>), each a regular expression of \<open>Go_Regexp\<close>, with what it accepts as a
  statement about the string.
\<close>

section \<open>The patterns\<close>

definition alnum :: "(char \<times> char) list" where "alnum = upper @ lower @ digit"
definition lnum :: "(char \<times> char) list" where "lnum = lower @ digit"

definition namePattern :: rexp where
  "namePattern = Seq (Cls lnum) (Opt (Seq (Rep (Cls (lnum @ chars ''-'')) 0 61) (Cls lnum)))"

definition idPattern :: rexp where
  "idPattern = Seq (Alt (Lit ''sbx'') (Lit ''grant''))
     (Seq (Lit ''_'') (Rep (Cls (alnum @ chars ''_-'')) 8 60))"

definition setupIDPattern :: rexp where
  "setupIDPattern = Seq (Cls lnum) (Opt (Seq (Rep (Cls (lnum @ chars ''-'')) 0 62) (Cls lnum)))"

definition imagePattern :: rexp where
  "imagePattern = Seq (Cls lnum) (Seq (Star (Cls (lnum @ chars ''._:/-'')))
     (Seq (Lit ''@sha256:'') (Rep (Cls hex) 64 64)))"

definition setupDigestPattern :: rexp where
  "setupDigestPattern = Seq (Lit ''sha256:'') (Rep (Cls hex) 64 64)"

definition continuityIDPattern :: rexp where
  "continuityIDPattern = Seq (Cls alnum) (Rep (Cls (alnum @ chars ''_-'')) 0 127)"

definition managerEvidenceIDPattern :: rexp where
  "managerEvidenceIDPattern = Seq (Cls alnum) (Rep (Cls (alnum @ chars ''._:-'')) 3 159)"

definition npmPackagePattern :: rexp where
  "npmPackagePattern =
     Seq (Opt (Seq (Lit ''@'') (Seq (Cls lnum) (Seq (Rep (Cls (lnum @ chars ''._-'')) 0 62) (Lit ''/'')))))
       (Seq (Cls lnum) (Rep (Cls (lnum @ chars ''._-'')) 0 62))"

definition npmBinPattern :: rexp where
  "npmBinPattern = Seq (Cls lnum) (Rep (Cls (lnum @ chars ''._-'')) 0 62)"

definition relativePathPattern :: rexp where
  "relativePathPattern = Rep (Cls (alnum @ chars ''._/-'')) 1 256"

text \<open>The numeric identifier \<open>0|[1-9][0-9]*\<close> of a semantic version and its pre-release identifier.\<close>

definition semver_num :: rexp where
  "semver_num = Alt (Lit ''0'') (Seq (Cls [(CHR ''1'', CHR ''9'')]) (Star (Cls digit)))"

definition semver_pre :: rexp where
  "semver_pre = Alt semver_num
     (Seq (Star (Cls (alnum @ chars ''-''))) (Seq (Cls (upper @ lower @ chars ''-'')) (Star (Cls (alnum @ chars ''-'')))))"

definition plus :: "rexp \<Rightarrow> rexp" where "plus r = Seq r (Star r)"

definition semverPattern :: rexp where
  "semverPattern = Seq semver_num (Seq (Lit ''.'') (Seq semver_num (Seq (Lit ''.'') (Seq semver_num
     (Seq (Opt (Seq (Lit ''-'') (Seq semver_pre (Star (Seq (Lit ''.'') semver_pre)))))
       (Opt (Seq (Lit ''+'') (Seq (plus (Cls (alnum @ chars ''-'')))
          (Star (Seq (Lit ''.'') (plus (Cls (alnum @ chars ''-'')))))))))))))"

definition environmentNamePattern :: rexp where
  "environmentNamePattern = Seq (Cls upper) (Rep (Cls (upper @ digit @ chars ''_'')) 0 63)"

definition providerIDPattern :: rexp where
  "providerIDPattern = Seq (Cls lnum) (Rep (Cls (lnum @ chars ''-'')) 0 31)"

definition modelIDPattern :: rexp where
  "modelIDPattern = Seq (Cls alnum) (Rep (Cls (alnum @ chars ''._:/-'')) 0 127)"

text \<open>The anonymous pattern \<open>^[a-f0-9]{40}$\<close> of a native project id, compiled at each use.\<close>

definition nativeProjectPattern :: rexp where
  "nativeProjectPattern = Rep (Cls hex) 40 40"

definition cellNativeSessionIDPattern :: rexp where
  "cellNativeSessionIDPattern = Seq (Lit ''ses_'') (Rep (Cls (alnum @ chars ''_-'')) 4 64)"

definition cellNativeProjectPattern :: rexp where
  "cellNativeProjectPattern = Alt (Lit ''global'') (Rep (Cls hex) 40 40)"

definition cellFencePattern :: rexp where
  "cellFencePattern = Rep (Cls hex) 64 64"

definition cellV3SafeIDPattern :: rexp where
  "cellV3SafeIDPattern = Seq (Cls alnum) (Rep (Cls (alnum @ chars ''._:-'')) 0 127)"

definition cellV3ProviderIDPattern :: rexp where
  "cellV3ProviderIDPattern = Seq (Cls lnum) (Opt (Seq (Rep (Cls (lnum @ chars ''._-'')) 0 62) (Cls lnum)))"

definition cellV3RawDigestPattern :: rexp where
  "cellV3RawDigestPattern = Rep (Cls hex) 64 64"

section \<open>What the patterns accept\<close>

text \<open>An identifier: a first character of one class, then at most \<open>n\<close> of another.\<close>

definition ident :: "(char \<times> char) list \<Rightarrow> (char \<times> char) list \<Rightarrow> nat \<Rightarrow> nat \<Rightarrow> string \<Rightarrow> bool" where
  "ident first rest lo hi w = (case w of [] \<Rightarrow> False
     | c # cs \<Rightarrow> in_cls first c \<and> lo \<le> length cs \<and> length cs \<le> hi \<and> list_all (in_cls rest) cs)"

lemma match_ident:
  "matchString (Seq (Cls first) (Rep (Cls rest) lo hi)) w \<longleftrightarrow> ident first rest lo hi w"
  by (cases w) (auto simp: matchString_iff mat_shapes ident_def)

lemma match_continuityID:
  "matchString continuityIDPattern w \<longleftrightarrow> ident alnum (alnum @ chars ''_-'') 0 127 w"
  by (simp add: continuityIDPattern_def match_ident)

lemma match_safeID:
  "matchString cellV3SafeIDPattern w \<longleftrightarrow> ident alnum (alnum @ chars ''._:-'') 0 127 w"
  by (simp add: cellV3SafeIDPattern_def match_ident)

lemma match_digest:
  "matchString setupDigestPattern w \<longleftrightarrow>
     (\<exists>v. w = ''sha256:'' @ v \<and> length v = 64 \<and> list_all (in_cls hex) v)"
  by (auto simp: setupDigestPattern_def matchString_iff mat_shapes)

lemma match_fence:
  "matchString cellFencePattern w \<longleftrightarrow> length w = 64 \<and> list_all (in_cls hex) w"
  by (auto simp: cellFencePattern_def matchString_iff mat_shapes)

text \<open>
  Every identifier \<open>continuityIDPattern\<close> admits is also admitted by the wider \<open>safeId\<close>
  contract of the formatVersion 3 cell wire, never the other way round.
\<close>

lemma continuityID_safeID:
  "matchString continuityIDPattern w \<Longrightarrow> matchString cellV3SafeIDPattern w"
  by (cases w) (auto simp: match_continuityID match_safeID ident_def in_cls_def chars_def list_all_iff)

lemma continuityID_nonempty: "matchString continuityIDPattern w \<Longrightarrow> w \<noteq> []"
  by (auto simp: match_continuityID ident_def)

end
