(* ===== verification/Model_Setup.thy ===== *)
theory Model_Setup
  imports Go_Strings Model_Patterns
begin

text \<open>
  Setup operations (\<open>internal/model/model.go\<close>): the npm and archive materializers, the artifact
  source, the relative path rule, and the setup loop of \<open>ValidateManifest\<close>. What is shown: the
  aggregate size bound of an npm package set, that launchers name artifacts of the same set
  and no executable is installed twice, that a safe relative path has only proper components, that an
  accepted source is an https URL with a host and no user information and that slicing it cannot
  panic, and what the setup loop accepts and leaves in \<open>setupByID\<close>.
\<close>

section \<open>Data\<close>

record SetupArtifact =
  sa_ID :: "string"
  sa_Source :: "string"
  sa_SHA256 :: "string"
  sa_Format :: "string"
  sa_SizeBytes :: "int"
  sa_PackageName :: "string"
  sa_PackageVersion :: "string"
  sa_InstallAs :: "string"

record SetupLauncher =
  sl_Bin :: "string"
  sl_Kind :: "string"
  sl_ArtifactID :: "string"
  sl_Entrypoint :: "string"
  sl_Environment :: "(string \<times> string) list"

record SetupArchiveArtifact =
  aa_ID :: "string"
  aa_Source :: "string"
  aa_SHA256 :: "string"
  aa_Integrity :: "string"
  aa_Format :: "string"
  aa_SizeBytes :: "int"

record SetupArchiveBin =
  ab_Name :: "string"
  ab_Member :: "string"
  ab_SHA256 :: "string"
  ab_Version :: "string"
  ab_Environment :: "(string \<times> string) list"

record SetupMaterializer =
  sm_Kind :: "string"
  sm_Platform :: "string"
  sm_Artifacts :: "SetupArtifact list"
  sm_Bins :: "string list"
  sm_Launchers :: "SetupLauncher list"
  sm_Artifact :: "SetupArchiveArtifact option"
  sm_Bin :: "SetupArchiveBin option"

record SetupOperation =
  so_ID :: "string"
  so_SchemaVersion :: "int"
  so_SandboxID :: "string"
  so_SandboxGeneration :: "int"
  so_ProfileID :: "string"
  so_ProfileRevision :: "int"
  so_ProfileDigest :: "string"
  so_Materializer :: "SetupMaterializer"

definition MaxSetupArtifactBytes :: int where "MaxSetupArtifactBytes = 2147483648"

section \<open>Paths and sources\<close>

definition safeRelativePath :: "string \<Rightarrow> bool" where
  "safeRelativePath value =
     (if \<not> matchString relativePathPattern value \<or> CHR 0x5C \<in> set value \<or> prefix ''/'' value then False
      else list_all (\<lambda>part. \<not> (part = [] \<or> part = ''.'' \<or> part = ''..'')) (splitOn CHR ''/'' value))"

text \<open>A byte of \<open>value[len("https://"):]\<close> that the loop lets pass.\<close>

definition source_char :: "char \<Rightarrow> bool" where
  "source_char c \<longleftrightarrow> is_alnum c \<or> c \<in> set ''._~:/?#[]@!$&()*+,;=%-'' \<or> c = CHR 0x27 \<or> c = CHR 0x5C"

text \<open>
  The loop over the runes of the tail: a byte of a multi-byte or invalid rune is at least 128
  and in no range of the condition, so the loop over bytes rejects the same tails.
\<close>

definition validateSetupArtifactSource :: "string \<Rightarrow> goerr + unit" where
  "validateSetupArtifactSource value =
     (case url_Parse value of
        None \<Rightarrow> Inl (E ''artifact source must be an absolute HTTPS URL'')
      | Some parsed \<Rightarrow>
          if length value > length ''https://'' + 500 \<or> u_Scheme parsed \<noteq> ''https'' \<or>
             u_Host parsed = [] \<or> url_Hostname parsed = [] \<or> u_Opaque parsed \<noteq> [] \<or> u_User parsed \<or>
             CHR ''#'' \<in> set value
          then Inl (E ''artifact source must be an absolute HTTPS URL'')
          else if \<not> list_all source_char (drop (length ''https://'') value)
          then Inl (E ''artifact source contains an unsupported character'')
          else ok)"

section \<open>The npm materializer\<close>

text \<open>The loop variables \<open>seenArtifacts\<close>, \<open>seenAliases\<close> and \<open>aggregateSize\<close>.\<close>

record npm_acc =
  seenArtifacts :: "string set"
  seenAliases :: "string set"
  aggregateSize :: int

definition npm_artifact_step :: "npm_acc \<Rightarrow> SetupArtifact \<Rightarrow> goerr + npm_acc" where
  "npm_artifact_step acc artifact =
     (if \<not> matchString setupIDPattern (sa_ID artifact) \<or> sa_ID artifact \<in> seenArtifacts acc \<or>
         \<not> matchString setupDigestPattern (sa_SHA256 artifact) \<or>
         sa_Format artifact \<noteq> ''npm-tgz'' \<or> sa_SizeBytes artifact < 1 \<or>
         sa_SizeBytes artifact > MaxSetupArtifactBytes \<or>
         \<not> matchString npmPackagePattern (sa_PackageName artifact) \<or>
         \<not> matchString semverPattern (sa_PackageVersion artifact) \<or>
         \<not> matchString npmPackagePattern (sa_InstallAs artifact) \<or>
         sa_InstallAs artifact \<in> seenAliases acc
      then Inl (E ''invalid npm artifact'')
      else let size = wrap64 (aggregateSize acc + sa_SizeBytes artifact) in
        if size > MaxSetupArtifactBytes then Inl (E ''artifact size limit exceeded'')
        else if \<not> accepted (validateSetupArtifactSource (sa_Source artifact))
        then Inl (E ''invalid artifact source'')
        else Inr \<lparr>seenArtifacts = insert (sa_ID artifact) (seenArtifacts acc),
               seenAliases = insert (sa_InstallAs artifact) (seenAliases acc), aggregateSize = size\<rparr>)"

definition npm_bin_step :: "string set \<Rightarrow> string \<Rightarrow> goerr + string set" where
  "npm_bin_step seenBins bin =
     (if \<not> matchString npmBinPattern bin \<or> bin \<in> seenBins then Inl (E ''invalid npm bin'')
      else Inr (insert bin seenBins))"

text \<open>\<open>launcher.Environment["DISABLE_UPDATES"]\<close>: a missing key reads as the empty string.\<close>

definition env_get :: "(string \<times> string) list \<Rightarrow> string \<Rightarrow> string" where
  "env_get env k = (case map_of env k of None \<Rightarrow> [] | Some v \<Rightarrow> v)"

definition npm_launcher_step :: "string set \<Rightarrow> string set \<Rightarrow> SetupLauncher \<Rightarrow> goerr + string set" where
  "npm_launcher_step artifacts seenBins launcher =
     (if \<not> matchString npmBinPattern (sl_Bin launcher) \<or> sl_Bin launcher \<in> seenBins \<or>
         sl_Kind launcher \<noteq> ''node-module'' \<or> sl_ArtifactID launcher \<notin> artifacts \<or>
         \<not> safeRelativePath (sl_Entrypoint launcher) \<or>
         length (sl_Environment launcher) \<noteq> 1 \<or>
         env_get (sl_Environment launcher) ''DISABLE_UPDATES'' \<noteq> ''1''
      then Inl (E ''invalid npm launcher'')
      else Inr (insert (sl_Bin launcher) seenBins))"

definition npm_acc0 :: npm_acc where
  "npm_acc0 = \<lparr>seenArtifacts = {}, seenAliases = {}, aggregateSize = 0\<rparr>"

definition validateNPMMaterializer :: "SetupMaterializer \<Rightarrow> goerr + unit" where
  "validateNPMMaterializer materializer =
     (if sm_Platform materializer \<noteq> [] \<or> sm_Artifact materializer \<noteq> None \<or>
         sm_Bin materializer \<noteq> None \<or>
         length (sm_Artifacts materializer) < 1 \<or> length (sm_Artifacts materializer) > 8 \<or>
         length (sm_Bins materializer) > 8 \<or> length (sm_Launchers materializer) > 8 \<or>
         (sm_Bins materializer = [] \<and> sm_Launchers materializer = [])
      then Inl (E ''invalid npm materializer shape'')
      else bindE (foldE npm_artifact_step npm_acc0 (sm_Artifacts materializer)) (\<lambda>acc.
        bindE (foldE npm_bin_step {} (sm_Bins materializer)) (\<lambda>seenBins.
        bindE (foldE (npm_launcher_step (seenArtifacts acc)) seenBins (sm_Launchers materializer))
          (\<lambda>_. ok))))"

section \<open>The archive materializer\<close>

definition validateArchiveMaterializer :: "SetupMaterializer \<Rightarrow> goerr + unit" where
  "validateArchiveMaterializer materializer =
     (case (sm_Artifact materializer, sm_Bin materializer) of
        (Some artifact, Some bin) \<Rightarrow>
          if sm_Artifacts materializer \<noteq> [] \<or> sm_Bins materializer \<noteq> [] \<or> sm_Launchers materializer \<noteq> []
          then Inl (E ''invalid archive materializer shape'')
          else if \<not> matchString setupIDPattern (aa_ID artifact) \<or>
            \<not> matchString setupDigestPattern (aa_SHA256 artifact) \<or> aa_Format artifact \<noteq> ''tar-gz'' \<or>
            aa_SizeBytes artifact < 1 \<or> aa_SizeBytes artifact > MaxSetupArtifactBytes \<or>
            \<not> accepted (validateSetupArtifactSource (aa_Source artifact))
          then Inl (E ''invalid archive artifact'')
          else if sm_Platform materializer \<noteq> [] \<and> sm_Platform materializer \<noteq> ''linux/amd64''
          then Inl (E ''invalid archive platform'')
          else if aa_Integrity artifact \<noteq> [] \<and>
            (\<not> prefix ''sha512-'' (aa_Integrity artifact) \<or>
             (case base64_decode (trimPrefix (aa_Integrity artifact) ''sha512-'') of
                None \<Rightarrow> True | Some digest \<Rightarrow> length digest \<noteq> 64))
          then Inl (E ''invalid archive integrity'')
          else if \<not> matchString npmBinPattern (ab_Name bin) \<or> \<not> safeRelativePath (ab_Member bin)
          then Inl (E ''invalid archive bin'')
          else if ab_SHA256 bin \<noteq> [] \<and> \<not> matchString setupDigestPattern (ab_SHA256 bin)
          then Inl (E ''invalid archive bin digest'')
          else if ab_Version bin \<noteq> [] \<and> \<not> matchString semverPattern (ab_Version bin)
          then Inl (E ''invalid archive bin version'')
          else if length (ab_Environment bin) > 8 \<or>
            list_ex (\<lambda>(name, value). \<not> matchString environmentNamePattern name \<or> length value > 256 \<or>
              CHR 0x00 \<in> set value) (ab_Environment bin)
          then Inl (E ''invalid archive bin environment'')
          else
            let verified = (sm_Platform materializer \<noteq> [] \<or> aa_Integrity artifact \<noteq> [] \<or>
              ab_SHA256 bin \<noteq> [] \<or> ab_Version bin \<noteq> [] \<or> ab_Environment bin \<noteq> [])
            in if verified \<and> (sm_Platform materializer \<noteq> ''linux/amd64'' \<or> aa_Integrity artifact = [] \<or>
                 ab_SHA256 bin = [] \<or> ab_Version bin = [] \<or> ab_Environment bin = [])
               then Inl (E ''incomplete verified archive contract'')
               else ok
      | _ \<Rightarrow> Inl (E ''invalid archive materializer shape''))"

section \<open>The setup loop of ValidateManifest\<close>

definition materializer_error :: "SetupMaterializer \<Rightarrow> goerr + unit" where
  "materializer_error m =
     (if sm_Kind m = ''npm-package-set'' then validateNPMMaterializer m
      else if sm_Kind m = ''archive-binary'' then validateArchiveMaterializer m
      else Inl (E ''unsupported materializer''))"

text \<open>\<open>seenSetupIDs\<close> and \<open>setupByID\<close>.\<close>

definition setup_step ::
  "(string \<rightharpoonup> int) \<Rightarrow> string set \<times> (string \<rightharpoonup> SetupOperation) \<Rightarrow> SetupOperation \<Rightarrow>
   goerr + string set \<times> (string \<rightharpoonup> SetupOperation)" where
  "setup_step sandboxGenerations acc operation =
     (let (seenSetupIDs, setupByID) = acc in
      if \<not> matchString setupIDPattern (so_ID operation) \<or> so_ID operation \<in> seenSetupIDs
      then Inl (E ''invalid or duplicate setup operation identity'')
      else if (case sandboxGenerations (so_SandboxID operation) of
          None \<Rightarrow> True | Some generation \<Rightarrow> generation \<noteq> so_SandboxGeneration operation)
      then Inl (E (''setup operation '' @ so_ID operation @ '' has an invalid sandbox generation''))
      else if so_SchemaVersion operation \<noteq> 1 \<or> \<not> matchString setupIDPattern (so_ProfileID operation) \<or>
        so_ProfileRevision operation < 1 \<or> \<not> matchString setupDigestPattern (so_ProfileDigest operation)
      then Inl (E (''setup operation '' @ so_ID operation @ '' has an invalid immutable tuple''))
      else case materializer_error (so_Materializer operation) of
        Inl e \<Rightarrow> Inl (EWrap (''setup operation '' @ so_ID operation @ '' has an invalid materializer: '') e)
      | Inr _ \<Rightarrow> Inr (insert (so_ID operation) seenSetupIDs, setupByID(so_ID operation \<mapsto> operation)))"

section \<open>What paths and sources are accepted\<close>

text \<open>A safe relative path is its components joined by slashes, none of them empty or a dot entry.\<close>

lemma safeRelativePath_components:
  assumes "safeRelativePath p"
  obtains parts where "parts \<noteq> []" and "p = join CHR ''/'' parts"
    and "\<forall>q\<in>set parts. q \<noteq> [] \<and> q \<noteq> ''.'' \<and> q \<noteq> ''..'' \<and> CHR ''/'' \<notin> set q"
proof (rule that [of "splitOn CHR ''/'' p"])
  show "p = join CHR ''/'' (splitOn CHR ''/'' p)" by (simp add: join_splitOn)
  show "\<forall>q\<in>set (splitOn CHR ''/'' p). q \<noteq> [] \<and> q \<noteq> ''.'' \<and> q \<noteq> ''..'' \<and> CHR ''/'' \<notin> set q"
    using assms splitOn_no_sep [of _ "CHR ''/''" p]
    by (auto simp: safeRelativePath_def list_all_iff split: if_splits)
qed (rule splitOn_Cons)

lemma https_length: "length ''https://'' = 8"
  by simp

lemma source_accepted:
  "accepted (validateSetupArtifactSource v) \<longleftrightarrow>
     (\<exists>u. url_Parse v = Some u \<and> length v \<le> 508 \<and> u_Scheme u = ''https'' \<and> u_Host u \<noteq> [] \<and>
        url_Hostname u \<noteq> [] \<and> u_Opaque u = [] \<and> \<not> u_User u \<and> CHR ''#'' \<notin> set v \<and>
        list_all source_char (drop 8 v))"
  unfolding validateSetupArtifactSource_def https_length by (auto split: option.splits)

lemma url_Parse_no_fragment:
  assumes "CHR ''#'' \<notin> set v"
  shows "url_Parse v = parse_url v"
proof -
  have "takeWhile (\<lambda>x. x \<noteq> CHR ''#'') v = v"
    unfolding takeWhile_eq_all_conv using assms by metis
  moreover have "dropWhile (\<lambda>x. x \<noteq> CHR ''#'') v = []"
    unfolding dropWhile_eq_Nil_conv using assms by metis
  ultimately have "cut CHR ''#'' v = (v, [])" by (simp only: cut_def list.sel)
  then show ?thesis by (simp add: url_Parse_def split: option.splits)
qed

text \<open>The slice \<open>value[len("https://"):]\<close> is within bounds wherever the code reaches it.\<close>

lemma source_slice:
  assumes "url_Parse v = Some u" and "u_Scheme u = ''https''" and "u_Host u \<noteq> []" and "CHR ''#'' \<notin> set v"
  shows "length ''https://'' < length v" and "drop 5 v = ''://'' @ drop 8 v"
proof -
  have p: "parse_url v = Some u" using assms(1) url_Parse_no_fragment [OF assms(4)] by argo
  have s5: "length (u_Scheme u) = 5" by (simp add: assms(2))
  from p assms(3) obtain rest where l: "length (u_Scheme u) + 3 + 1 \<le> length v"
    and r: "v = take (length (u_Scheme u)) v @ ''://'' @ rest"
    by (rule parse_url_prefix) (auto simp: assms(2))
  from l show "length ''https://'' < length v" unfolding https_length s5 by linarith
  have "length (take 5 v) = 5" using l by (simp add: s5)
  then have "drop 5 (take 5 v @ ''://'' @ rest) = ''://'' @ rest" by simp
  then have d: "drop 5 v = ''://'' @ rest" using r unfolding s5 by argo
  have "drop 8 v = drop 3 (drop 5 v)" by simp
  then have "drop 8 v = rest" unfolding d by simp
  with d show "drop 5 v = ''://'' @ drop 8 v" by argo
qed

section \<open>What the npm materializer accepts\<close>

definition npm_artifact_ok :: "SetupArtifact \<Rightarrow> bool" where
  "npm_artifact_ok a \<longleftrightarrow>
     matchString setupIDPattern (sa_ID a) \<and> matchString setupDigestPattern (sa_SHA256 a) \<and>
     sa_Format a = ''npm-tgz'' \<and> 1 \<le> sa_SizeBytes a \<and> sa_SizeBytes a \<le> MaxSetupArtifactBytes \<and>
     matchString npmPackagePattern (sa_PackageName a) \<and>
     matchString semverPattern (sa_PackageVersion a) \<and>
     matchString npmPackagePattern (sa_InstallAs a) \<and>
     accepted (validateSetupArtifactSource (sa_Source a))"

definition npm_rel :: "SetupArtifact list \<Rightarrow> npm_acc \<Rightarrow> bool" where
  "npm_rel p s \<longleftrightarrow> seenArtifacts s = sa_ID ` set p \<and> seenAliases s = sa_InstallAs ` set p \<and>
     aggregateSize s = sum_list (map sa_SizeBytes p) \<and>
     0 \<le> aggregateSize s \<and> aggregateSize s \<le> MaxSetupArtifactBytes"

lemma npm_rel0: "npm_rel [] npm_acc0"
  by (simp add: npm_rel_def npm_acc0_def MaxSetupArtifactBytes_def)

definition npm_admit :: "SetupArtifact list \<Rightarrow> SetupArtifact \<Rightarrow> bool" where
  "npm_admit p a \<longleftrightarrow> npm_artifact_ok a \<and> sa_ID a \<notin> sa_ID ` set p \<and> sa_InstallAs a \<notin> sa_InstallAs ` set p \<and>
     sum_list (map sa_SizeBytes p) + sa_SizeBytes a \<le> MaxSetupArtifactBytes"

lemma npm_size_wrap:
  "npm_rel p s \<Longrightarrow> 1 \<le> z \<Longrightarrow> z \<le> MaxSetupArtifactBytes \<Longrightarrow>
     wrap64 (aggregateSize s + z) = sum_list (map sa_SizeBytes p) + z"
  unfolding npm_rel_def
  by (subst wrap64_id) (auto simp: in64_def min64_def max64_def MaxSetupArtifactBytes_def)

interpretation npm_loop: prefix_loop npm_artifact_step npm_rel npm_admit
proof unfold_locales
  fix p s a
  assume r: "npm_rel p s"
  show "accepted (npm_artifact_step s a) \<longleftrightarrow> npm_admit p a"
    using r npm_size_wrap [OF r, of "sa_SizeBytes a"]
    unfolding npm_artifact_step_def npm_admit_def npm_artifact_ok_def Let_def npm_rel_def
    by auto
next
  fix p s a t
  assume r: "npm_rel p s" and st: "npm_artifact_step s a = Inr t"
  then have z: "1 \<le> sa_SizeBytes a" "sa_SizeBytes a \<le> MaxSetupArtifactBytes"
    and t: "t = \<lparr>seenArtifacts = insert (sa_ID a) (seenArtifacts s),
      seenAliases = insert (sa_InstallAs a) (seenAliases s),
      aggregateSize = wrap64 (aggregateSize s + sa_SizeBytes a)\<rparr>"
    and b: "wrap64 (aggregateSize s + sa_SizeBytes a) \<le> MaxSetupArtifactBytes"
    by (auto simp: npm_artifact_step_def Let_def split: if_splits)
  from npm_size_wrap [OF r z] r z b show "npm_rel (p @ [a]) t"
    by (simp add: npm_rel_def t)
qed

definition npm_artifacts_ok :: "SetupArtifact list \<Rightarrow> bool" where
  "npm_artifacts_ok as \<longleftrightarrow> (\<forall>a\<in>set as. npm_artifact_ok a) \<and> distinct (map sa_ID as) \<and>
     distinct (map sa_InstallAs as) \<and> sum_list (map sa_SizeBytes as) \<le> MaxSetupArtifactBytes"

lemma npm_sizes_nonneg: "\<forall>a\<in>set as. npm_artifact_ok a \<Longrightarrow> 0 \<le> sum_list (map sa_SizeBytes as)"
  by (intro sum_list_nonneg) (auto simp: npm_artifact_ok_def)

lemma admits_npm:
  "npm_artifacts_ok p \<Longrightarrow> admits npm_admit p as \<longleftrightarrow> npm_artifacts_ok (p @ as)"
proof (induction as arbitrary: p)
  case Nil
  then show ?case by simp
next
  case (Cons a as)
  have snoc: "npm_artifacts_ok (p @ [a]) \<longleftrightarrow> npm_admit p a"
    using Cons.prems by (auto simp: npm_artifacts_ok_def npm_admit_def)
  have prefix: "npm_artifacts_ok (p @ [a])" if "npm_artifacts_ok ((p @ [a]) @ as)"
    using that npm_sizes_nonneg [of as] unfolding npm_artifacts_ok_def by auto
  show ?case using Cons.IH [of "p @ [a]"] snoc prefix by auto
qed

lemma npm_artifacts_accepted [accept_iffs]:
  "accepted (foldE npm_artifact_step npm_acc0 as) \<longleftrightarrow> npm_artifacts_ok as"
proof -
  have "npm_artifacts_ok []" by (simp add: npm_artifacts_ok_def MaxSetupArtifactBytes_def)
  from admits_npm [OF this, of as] show ?thesis by (simp add: npm_loop.loop_refines [OF npm_rel0])
qed

lemma npm_artifacts_result:
  "foldE npm_artifact_step npm_acc0 as = Inr acc \<Longrightarrow> seenArtifacts acc = sa_ID ` set as"
  using npm_loop.loop_related [OF npm_rel0] by (fastforce simp: npm_rel_def)

text \<open>Executables: the plain ones and those of the launchers share one set of names.\<close>

interpretation npm_bins: key_set_loop npm_bin_step "matchString npmBinPattern" "\<lambda>b. b"
  by unfold_locales (auto simp: npm_bin_step_def)

definition launcher_ok :: "string set \<Rightarrow> SetupLauncher \<Rightarrow> bool" where
  "launcher_ok arts l \<longleftrightarrow>
     matchString npmBinPattern (sl_Bin l) \<and> sl_Kind l = ''node-module'' \<and> sl_ArtifactID l \<in> arts \<and>
     safeRelativePath (sl_Entrypoint l) \<and> sl_Environment l = [(''DISABLE_UPDATES'', ''1'')]"

lemma single_env: "length env = 1 \<and> env_get env k = v \<longleftrightarrow> env = [(k, v)]" if "v \<noteq> []"
  using that by (cases env) (auto simp: env_get_def split: if_splits)

lemma npm_launcher_step_Inr:
  "npm_launcher_step arts s l = Inr t \<longleftrightarrow>
     launcher_ok arts l \<and> sl_Bin l \<notin> s \<and> t = insert (sl_Bin l) s"
  using single_env [of "''1''" "sl_Environment l" "''DISABLE_UPDATES''"]
  unfolding npm_launcher_step_def launcher_ok_def by auto

interpretation npm_launchers: key_set_loop "npm_launcher_step arts" "launcher_ok arts" sl_Bin
  for arts
  by unfold_locales (rule npm_launcher_step_Inr)

definition npm_ok :: "SetupMaterializer \<Rightarrow> bool" where
  "npm_ok m \<longleftrightarrow>
     sm_Platform m = [] \<and> sm_Artifact m = None \<and> sm_Bin m = None \<and>
     sm_Artifacts m \<noteq> [] \<and> length (sm_Artifacts m) \<le> 8 \<and>
     length (sm_Bins m) \<le> 8 \<and> length (sm_Launchers m) \<le> 8 \<and> sm_Bins m @ map sl_Bin (sm_Launchers m) \<noteq> [] \<and>
     npm_artifacts_ok (sm_Artifacts m) \<and>
     (\<forall>b\<in>set (sm_Bins m). matchString npmBinPattern b) \<and>
     (\<forall>l\<in>set (sm_Launchers m). launcher_ok (sa_ID ` set (sm_Artifacts m)) l) \<and>
     distinct (sm_Bins m @ map sl_Bin (sm_Launchers m))"

lemma npm_accepted [accept_iffs]: "accepted (validateNPMMaterializer m) \<longleftrightarrow> npm_ok m"
proof -
  have shape: "\<not> (sm_Platform m \<noteq> [] \<or> sm_Artifact m \<noteq> None \<or> sm_Bin m \<noteq> None \<or>
      length (sm_Artifacts m) < 1 \<or> length (sm_Artifacts m) > 8 \<or> length (sm_Bins m) > 8 \<or>
      length (sm_Launchers m) > 8 \<or> (sm_Bins m = [] \<and> sm_Launchers m = [])) \<longleftrightarrow>
      sm_Platform m = [] \<and> sm_Artifact m = None \<and> sm_Bin m = None \<and>
      sm_Artifacts m \<noteq> [] \<and> length (sm_Artifacts m) \<le> 8 \<and>
      length (sm_Bins m) \<le> 8 \<and> length (sm_Launchers m) \<le> 8 \<and> sm_Bins m @ map sl_Bin (sm_Launchers m) \<noteq> []"
    by auto
  have bins: "foldE npm_bin_step {} bs = Inr t \<Longrightarrow> t = set bs" for bs t
    by (simp add: npm_bins.fold_Inr)
  have rest: "accepted (bindE (foldE npm_artifact_step npm_acc0 (sm_Artifacts m)) (\<lambda>acc.
        bindE (foldE npm_bin_step {} (sm_Bins m)) (\<lambda>seenBins.
        bindE (foldE (npm_launcher_step (seenArtifacts acc)) seenBins (sm_Launchers m)) (\<lambda>_. ok)))) \<longleftrightarrow>
      npm_artifacts_ok (sm_Artifacts m) \<and> (\<forall>b\<in>set (sm_Bins m). matchString npmBinPattern b) \<and>
      (\<forall>l\<in>set (sm_Launchers m). launcher_ok (sa_ID ` set (sm_Artifacts m)) l) \<and>
      distinct (sm_Bins m @ map sl_Bin (sm_Launchers m))" (is "accepted ?r \<longleftrightarrow> ?s")
  proof (cases "accepted (foldE npm_artifact_step npm_acc0 (sm_Artifacts m)) \<and>
      accepted (foldE npm_bin_step {} (sm_Bins m))")
    case True
    then obtain acc seen where a: "foldE npm_artifact_step npm_acc0 (sm_Artifacts m) = Inr acc"
      and b: "foldE npm_bin_step {} (sm_Bins m) = Inr seen"
      by (auto simp: accepted_iff)
    have "accepted ?r \<longleftrightarrow> accepted (foldE (npm_launcher_step (seenArtifacts acc)) seen (sm_Launchers m))"
      by (simp add: a b)
    then show ?thesis
      using True npm_artifacts_accepted [of "sm_Artifacts m"] npm_bins.keyed_accepts [of "sm_Bins m"]
      by (auto simp: npm_launchers.fold_accepted npm_artifacts_result [OF a] bins [OF b])
  next
    case False
    then have "\<not> accepted ?r"
      by (cases "foldE npm_artifact_step npm_acc0 (sm_Artifacts m)";
          cases "foldE npm_bin_step {} (sm_Bins m)") simp_all
    moreover have "\<not> ?s"
      using False npm_artifacts_accepted [of "sm_Artifacts m"] npm_bins.keyed_accepts [of "sm_Bins m"]
      by auto
    ultimately show ?thesis by blast
  qed
  show ?thesis unfolding validateNPMMaterializer_def npm_ok_def accepted_if_error shape rest by blast
qed

section \<open>What the archive materializer accepts\<close>

definition archive_env_ok :: "(string \<times> string) list \<Rightarrow> bool" where
  "archive_env_ok env \<longleftrightarrow> length env \<le> 8 \<and>
     (\<forall>(name, value)\<in>set env. matchString environmentNamePattern name \<and> length value \<le> 256 \<and>
        CHR 0x00 \<notin> set value)"

definition archive_artifact_ok :: "SetupArchiveArtifact \<Rightarrow> bool" where
  "archive_artifact_ok a \<longleftrightarrow>
     matchString setupIDPattern (aa_ID a) \<and> matchString setupDigestPattern (aa_SHA256 a) \<and>
     aa_Format a = ''tar-gz'' \<and> 1 \<le> aa_SizeBytes a \<and> aa_SizeBytes a \<le> MaxSetupArtifactBytes \<and>
     accepted (validateSetupArtifactSource (aa_Source a))"

definition integrity_ok :: "string \<Rightarrow> bool" where
  "integrity_ok v \<longleftrightarrow> (\<exists>b d. v = ''sha512-'' @ b \<and> base64_decode b = Some d \<and> length d = 64)"

text \<open>Either no verification fence is present, or every one is, and each is well formed.\<close>

definition archive_contract :: "SetupMaterializer \<Rightarrow> SetupArchiveArtifact \<Rightarrow> SetupArchiveBin \<Rightarrow> bool" where
  "archive_contract m a b \<longleftrightarrow>
     sm_Platform m = [] \<and> aa_Integrity a = [] \<and> ab_SHA256 b = [] \<and> ab_Version b = [] \<and> ab_Environment b = [] \<or>
     sm_Platform m = ''linux/amd64'' \<and> integrity_ok (aa_Integrity a) \<and>
     matchString setupDigestPattern (ab_SHA256 b) \<and> matchString semverPattern (ab_Version b) \<and>
     ab_Environment b \<noteq> [] \<and> archive_env_ok (ab_Environment b)"

definition archive_ok :: "SetupMaterializer \<Rightarrow> bool" where
  "archive_ok m \<longleftrightarrow>
     (\<exists>a b. sm_Artifact m = Some a \<and> sm_Bin m = Some b \<and>
        sm_Artifacts m = [] \<and> sm_Bins m = [] \<and> sm_Launchers m = [] \<and> archive_artifact_ok a \<and>
        matchString npmBinPattern (ab_Name b) \<and> safeRelativePath (ab_Member b) \<and> archive_contract m a b)"

lemma integrity_check:
  "\<not> (\<not> prefix ''sha512-'' v \<or>
      (case base64_decode (trimPrefix v ''sha512-'') of None \<Rightarrow> True | Some digest \<Rightarrow> length digest \<noteq> 64)) \<longleftrightarrow>
   integrity_ok v"
  by (auto simp: integrity_ok_def trimPrefix_def prefix_def split: option.splits)

lemma integrity_nonempty: "integrity_ok v \<Longrightarrow> v \<noteq> []"
  by (auto simp: integrity_ok_def)

lemma digest_nonempty: "matchString setupDigestPattern v \<Longrightarrow> v \<noteq> []"
  by (auto simp: match_digest)

lemma semver_empty: "\<not> matchString semverPattern []"
  by code_simp

lemma semver_nonempty: "matchString semverPattern v \<Longrightarrow> v \<noteq> []"
  using semver_empty by auto

lemma env_check:
  "\<not> (length env > 8 \<or> list_ex (\<lambda>(name, value). \<not> matchString environmentNamePattern name \<or>
      length value > 256 \<or> CHR 0x00 \<in> set value) env) \<longleftrightarrow> archive_env_ok env"
  by (auto simp: archive_env_ok_def list_ex_iff)

lemma archive_accepted [accept_iffs]: "accepted (validateArchiveMaterializer m) \<longleftrightarrow> archive_ok m"
proof (cases "sm_Artifact m")
  case None
  then show ?thesis by (simp add: validateArchiveMaterializer_def archive_ok_def)
next
  case a: (Some a)
  show ?thesis
  proof (cases "sm_Bin m")
    case None
    with a show ?thesis by (simp add: validateArchiveMaterializer_def archive_ok_def)
  next
    case b: (Some b)
    have artifact: "\<not> (\<not> matchString setupIDPattern (aa_ID a) \<or>
        \<not> matchString setupDigestPattern (aa_SHA256 a) \<or> aa_Format a \<noteq> ''tar-gz'' \<or>
        aa_SizeBytes a < 1 \<or> aa_SizeBytes a > MaxSetupArtifactBytes \<or>
        \<not> accepted (validateSetupArtifactSource (aa_Source a))) \<longleftrightarrow> archive_artifact_ok a"
      by (auto simp: archive_artifact_ok_def)
    have contract: "\<not> (sm_Platform m \<noteq> [] \<and> sm_Platform m \<noteq> ''linux/amd64'') \<and>
        (aa_Integrity a = [] \<or> integrity_ok (aa_Integrity a)) \<and>
        \<not> (ab_SHA256 b \<noteq> [] \<and> \<not> matchString setupDigestPattern (ab_SHA256 b)) \<and>
        \<not> (ab_Version b \<noteq> [] \<and> \<not> matchString semverPattern (ab_Version b)) \<and>
        archive_env_ok (ab_Environment b) \<and>
        \<not> ((sm_Platform m \<noteq> [] \<or> aa_Integrity a \<noteq> [] \<or> ab_SHA256 b \<noteq> [] \<or> ab_Version b \<noteq> [] \<or>
             ab_Environment b \<noteq> []) \<and>
           (sm_Platform m \<noteq> ''linux/amd64'' \<or> aa_Integrity a = [] \<or> ab_SHA256 b = [] \<or>
             ab_Version b = [] \<or> ab_Environment b = [])) \<longleftrightarrow> archive_contract m a b"
      unfolding archive_contract_def
      using integrity_nonempty digest_nonempty semver_nonempty
      by (cases "ab_Environment b") (auto simp: archive_env_ok_def)
    have integrity: "\<not> (aa_Integrity a \<noteq> [] \<and> (\<not> prefix ''sha512-'' (aa_Integrity a) \<or>
        (case base64_decode (trimPrefix (aa_Integrity a) ''sha512-'') of
           None \<Rightarrow> True | Some digest \<Rightarrow> length digest \<noteq> 64))) \<longleftrightarrow>
        aa_Integrity a = [] \<or> integrity_ok (aa_Integrity a)"
      using integrity_check [of "aa_Integrity a"] by blast
    have spec: "archive_ok m \<longleftrightarrow> sm_Artifacts m = [] \<and> sm_Bins m = [] \<and> sm_Launchers m = [] \<and>
        archive_artifact_ok a \<and> matchString npmBinPattern (ab_Name b) \<and>
        safeRelativePath (ab_Member b) \<and> archive_contract m a b"
      by (simp add: archive_ok_def a b)
    show ?thesis
      unfolding validateArchiveMaterializer_def a b option.case prod.case accepted_if_error
        artifact env_check Let_def integrity accepted_simps spec contract [symmetric]
      by blast
  qed
qed

section \<open>What the setup loop accepts\<close>

definition setup_ok :: "(string \<rightharpoonup> int) \<Rightarrow> SetupOperation \<Rightarrow> bool" where
  "setup_ok gens op \<longleftrightarrow>
     matchString setupIDPattern (so_ID op) \<and> gens (so_SandboxID op) = Some (so_SandboxGeneration op) \<and>
     so_SchemaVersion op = 1 \<and> matchString setupIDPattern (so_ProfileID op) \<and>
     1 \<le> so_ProfileRevision op \<and> matchString setupDigestPattern (so_ProfileDigest op) \<and>
     (sm_Kind (so_Materializer op) = ''npm-package-set'' \<and> npm_ok (so_Materializer op) \<or>
      sm_Kind (so_Materializer op) = ''archive-binary'' \<and> archive_ok (so_Materializer op))"

lemma materializer_accepted:
  "accepted (materializer_error m) \<longleftrightarrow>
     sm_Kind m = ''npm-package-set'' \<and> npm_ok m \<or> sm_Kind m = ''archive-binary'' \<and> archive_ok m"
  by (auto simp: materializer_error_def accept_iffs)

lemma setup_step_Inr:
  "setup_step gens (seen, byID) op = Inr t \<longleftrightarrow>
     setup_ok gens op \<and> so_ID op \<notin> seen \<and> t = (insert (so_ID op) seen, byID(so_ID op \<mapsto> op))"
proof -
  have m: "(case materializer_error (so_Materializer op) of Inl e \<Rightarrow> Inl (f e) | Inr _ \<Rightarrow> Inr u) = Inr v \<longleftrightarrow>
      accepted (materializer_error (so_Materializer op)) \<and> v = u"
    for f :: "goerr \<Rightarrow> goerr" and u v :: "string set \<times> (string \<rightharpoonup> SetupOperation)"
    by (auto simp: accepted_iff split: sum.splits)
  show ?thesis
    unfolding setup_step_def setup_ok_def materializer_accepted [symmetric]
    by (auto simp: m split: option.splits)
qed

interpretation setup_loop: keyed_loop "setup_step gens" "setup_ok gens"
  "\<lambda>acc op. so_ID op \<notin> fst acc" so_ID "({}, Map.empty)"
  for gens
proof unfold_locales
  show "accepted (setup_step gens s x) \<longleftrightarrow> setup_ok gens x \<and> so_ID x \<notin> fst s" for s x
    by (cases s) (simp add: accepted_iff setup_step_Inr)
  show "so_ID y \<notin> fst t \<longleftrightarrow> so_ID y \<notin> fst s \<and> so_ID x \<noteq> so_ID y" if "setup_step gens s x = Inr t" for s x t y
    using that by (cases s) (auto simp: setup_step_Inr)
qed simp

definition setups_ok :: "(string \<rightharpoonup> int) \<Rightarrow> SetupOperation list \<Rightarrow> bool" where
  "setups_ok gens ops \<longleftrightarrow> (\<forall>op\<in>set ops. setup_ok gens op) \<and> distinct (map so_ID ops)"

lemma setups_accepted [accept_iffs]:
  "accepted (foldE (setup_step gens) ({}, Map.empty) ops) \<longleftrightarrow> setups_ok gens ops"
  by (simp add: setup_loop.keyed_accepts setups_ok_def)

definition setup_by_id :: "SetupOperation list \<Rightarrow> string \<rightharpoonup> SetupOperation" where
  "setup_by_id ops = map_of (map (\<lambda>op. (so_ID op, op)) ops)"

lemma setups_result:
  assumes "foldE (setup_step gens) ({}, Map.empty) ops = Inr t"
  shows "snd t = setup_by_id ops"
proof -
  have "distinct (map so_ID ops)"
    using assms setups_accepted [of gens ops] by (simp add: setups_ok_def)
  moreover have "snd t = foldl (\<lambda>m op. m(so_ID op \<mapsto> op)) (snd ({} :: string set, Map.empty)) ops"
    using assms
  proof (rule foldE_fold)
    show "snd t = (snd s)(so_ID op \<mapsto> op)" if "setup_step gens s op = Inr t" for s op t
      using that by (cases s) (auto simp: setup_step_Inr)
  qed
  ultimately show ?thesis by (simp add: setup_by_id_def foldl_upd_distinct)
qed

lemma setups_known:
  assumes "foldE (setup_step gens) ({}, Map.empty) ops = Inr t"
  shows "t = (so_ID ` set ops, setup_by_id ops)"
proof -
  have "fst t = foldl (\<lambda>A op. insert (so_ID op) A) (fst ({}, Map.empty :: string \<rightharpoonup> SetupOperation)) ops"
    using assms
  proof (rule foldE_fold)
    show "fst t = insert (so_ID op) (fst s)" if "setup_step gens s op = Inr t" for s op t
      using that by (cases s) (auto simp: setup_step_Inr)
  qed
  moreover have "foldl (\<lambda>A op. insert (so_ID op) A) A ops = so_ID ` set ops \<union> A" for A
    by (induction ops arbitrary: A) auto
  ultimately show ?thesis using setups_result [OF assms] by (cases t) simp
qed

lemma setup_by_id_Some:
  "setups_ok gens ops \<Longrightarrow> setup_by_id ops i = Some op \<longleftrightarrow> op \<in> set ops \<and> so_ID op = i"
  unfolding setup_by_id_def setups_ok_def by (subst map_of_pairs_Some) auto

end
