(* ===== verification/Go_Crypto.thy ===== *)
theory Go_Crypto
  imports Go_Strings "HOL-Library.Word"
begin

text \<open>
  The digests and encodings of the standard library the program uses: SHA-256 (FIPS 180-4) on a
  string of bytes, lower-case hexadecimal, and standard base32 without padding. Words are \<open>32 word\<close>,
  so that addition wraps as \<open>uint32\<close> does. The test vectors at the end are the published ones.
\<close>

unbundle bit_operations_syntax

section \<open>SHA-256\<close>

type_synonym u32 = "32 word"

definition rotr :: "nat \<Rightarrow> u32 \<Rightarrow> u32" where
  "rotr n x = drop_bit n x OR push_bit (32 - n) x"

definition Ch :: "u32 \<Rightarrow> u32 \<Rightarrow> u32 \<Rightarrow> u32" where
  "Ch x y z = (x AND y) XOR (NOT x AND z)"

definition Maj :: "u32 \<Rightarrow> u32 \<Rightarrow> u32 \<Rightarrow> u32" where
  "Maj x y z = (x AND y) XOR (x AND z) XOR (y AND z)"

definition Sigma0 :: "u32 \<Rightarrow> u32" where "Sigma0 x = rotr 2 x XOR rotr 13 x XOR rotr 22 x"
definition Sigma1 :: "u32 \<Rightarrow> u32" where "Sigma1 x = rotr 6 x XOR rotr 11 x XOR rotr 25 x"
definition sigma0 :: "u32 \<Rightarrow> u32" where "sigma0 x = rotr 7 x XOR rotr 18 x XOR drop_bit 3 x"
definition sigma1 :: "u32 \<Rightarrow> u32" where "sigma1 x = rotr 17 x XOR rotr 19 x XOR drop_bit 10 x"

definition sha_K :: "u32 list" where
  "sha_K = [
    1116352408, 1899447441, 3049323471, 3921009573, 961987163, 1508970993, 2453635748, 2870763221,
    3624381080, 310598401, 607225278, 1426881987, 1925078388, 2162078206, 2614888103, 3248222580,
    3835390401, 4022224774, 264347078, 604807628, 770255983, 1249150122, 1555081692, 1996064986,
    2554220882, 2821834349, 2952996808, 3210313671, 3336571891, 3584528711, 113926993, 338241895,
    666307205, 773529912, 1294757372, 1396182291, 1695183700, 1986661051, 2177026350, 2456956037,
    2730485921, 2820302411, 3259730800, 3345764771, 3516065817, 3600352804, 4094571909, 275423344,
    430227734, 506948616, 659060556, 883997877, 958139571, 1322822218, 1537002063, 1747873779,
    1955562222, 2024104815, 2227730452, 2361852424, 2428436474, 2756734187, 3204031479, 3329325298]"

type_synonym sha_state = "u32 \<times> u32 \<times> u32 \<times> u32 \<times> u32 \<times> u32 \<times> u32 \<times> u32"

definition sha_H0 :: sha_state where
  "sha_H0 = (1779033703, 3144134277, 1013904242, 2773480762, 1359893119, 2600822924, 528734635, 1541459225)"

text \<open>The message schedule; the list is kept newest first.\<close>

definition schedule_next :: "u32 list \<Rightarrow> u32 list" where
  "schedule_next ws = (sigma1 (ws ! 1) + ws ! 6 + sigma0 (ws ! 14) + ws ! 15) # ws"

definition schedule :: "u32 list \<Rightarrow> u32 list" where
  "schedule block = rev ((schedule_next ^^ 48) (rev block))"

fun sha_round :: "sha_state \<Rightarrow> u32 \<times> u32 \<Rightarrow> sha_state" where
  "sha_round (a, b, c, d, e, f, g, h) (k, w) =
     (let t1 = h + Sigma1 e + Ch e f g + k + w; t2 = Sigma0 a + Maj a b c
      in (t1 + t2, a, b, c, d + t1, e, f, g))"

fun sha_add :: "sha_state \<Rightarrow> sha_state \<Rightarrow> sha_state" where
  "sha_add (a, b, c, d, e, f, g, h) (a', b', c', d', e', f', g', h') =
     (a + a', b + b', c + c', d + d', e + e', f + f', g + g', h + h')"

definition sha_block :: "sha_state \<Rightarrow> u32 list \<Rightarrow> sha_state" where
  "sha_block s block = sha_add s (foldl sha_round s (zip sha_K (schedule block)))"

text \<open>Big-endian bytes of a number.\<close>

fun be_bytes :: "nat \<Rightarrow> nat \<Rightarrow> nat list" where
  "be_bytes 0 n = []"
| "be_bytes (Suc k) n = be_bytes k (n div 256) @ [n mod 256]"

definition sha_pad :: "nat list \<Rightarrow> nat list" where
  "sha_pad bs = bs @ [128] @ replicate ((119 - length bs mod 64) mod 64) 0 @ be_bytes 8 (8 * length bs)"

fun words_of :: "nat list \<Rightarrow> u32 list" where
  "words_of (a # b # c # d # bs) = word_of_nat (((a * 256 + b) * 256 + c) * 256 + d) # words_of bs"
| "words_of _ = []"

function blocks_of :: "u32 list \<Rightarrow> u32 list list" where
  "blocks_of ws = (if ws = [] then [] else take 16 ws # blocks_of (drop 16 ws))"
  by pat_completeness auto
termination by (relation "measure length") auto

declare blocks_of.simps [simp del]

fun state_bytes :: "sha_state \<Rightarrow> nat list" where
  "state_bytes (a, b, c, d, e, f, g, h) = concat (map (\<lambda>w. be_bytes 4 (unat w)) [a, b, c, d, e, f, g, h])"

definition sha256 :: "string \<Rightarrow> nat list" where
  "sha256 s = state_bytes (foldl sha_block sha_H0 (blocks_of (words_of (sha_pad (map byte s)))))"

lemma be_bytes_length [simp]: "length (be_bytes k n) = k"
  by (induction k arbitrary: n) auto

lemma be_bytes_bound: "b \<in> set (be_bytes k n) \<Longrightarrow> b < 256"
  by (induction k arbitrary: n) auto

lemma state_bytes_length: "length (state_bytes s) = 32"
  by (cases s rule: state_bytes.cases) simp

lemma sha256_length [simp]: "length (sha256 s) = 32"
  by (simp add: sha256_def state_bytes_length)

lemma sha256_bound: "b \<in> set (sha256 s) \<Longrightarrow> b < 256"
  unfolding sha256_def
  by (cases "foldl sha_block sha_H0 (blocks_of (words_of (sha_pad (map byte s))))" rule: state_bytes.cases)
    (auto simp: be_bytes_bound simp del: be_bytes.simps)

section \<open>Hexadecimal and base32\<close>

definition hex_alphabet :: string where "hex_alphabet = ''0123456789abcdef''"

definition hex_string :: "nat list \<Rightarrow> string" where
  "hex_string bs = concat (map (\<lambda>b. [hex_alphabet ! (b div 16), hex_alphabet ! (b mod 16)]) bs)"

definition b32_alphabet :: string where "b32_alphabet = ''ABCDEFGHIJKLMNOPQRSTUVWXYZ234567''"

definition byte_bits :: "nat \<Rightarrow> bool list" where
  "byte_bits b = map (\<lambda>i. bit b i) [7, 6, 5, 4, 3, 2, 1, 0]"

fun quintets :: "bool list \<Rightarrow> nat list" where
  "quintets (a # b # c # d # e # bs) =
     (16 * of_bool a + 8 * of_bool b + 4 * of_bool c + 2 * of_bool d + of_bool e) # quintets bs"
| "quintets [a, b, c, d] = [16 * of_bool a + 8 * of_bool b + 4 * of_bool c + 2 * of_bool d]"
| "quintets [a, b, c] = [16 * of_bool a + 8 * of_bool b + 4 * of_bool c]"
| "quintets [a, b] = [16 * of_bool a + 8 * of_bool b]"
| "quintets [a] = [16 * of_bool a]"
| "quintets [] = []"

definition base32_nopad :: "nat list \<Rightarrow> string" where
  "base32_nopad bs = map (\<lambda>q. b32_alphabet ! q) (quintets (concat (map byte_bits bs)))"

lemma hex_alphabet_hex: "n < 16 \<Longrightarrow> in_cls hex (hex_alphabet ! n)"
proof -
  have "\<forall>n\<in>set [0..<16]. in_cls hex (hex_alphabet ! n)" by code_simp
  then show "n < 16 \<Longrightarrow> in_cls hex (hex_alphabet ! n)" by simp
qed

lemma hex_string_shape:
  assumes "\<forall>b\<in>set bs. b < 256"
  shows "length (hex_string bs) = 2 * length bs \<and> list_all (in_cls hex) (hex_string bs)"
  using assms
proof (induction bs)
  case (Cons b bs)
  have "b div 16 < 16" "b mod 16 < 16" using Cons.prems by auto
  with Cons show ?case by (simp add: hex_string_def hex_alphabet_hex)
qed (simp add: hex_string_def)

lemma quintets_bound: "q \<in> set (quintets bs) \<Longrightarrow> q < 32"
  by (induction bs rule: quintets.induct) (auto simp: of_bool_def split: if_splits)

lemma quintets_length: "length (quintets bs) = (length bs + 4) div 5"
  by (induction bs rule: quintets.induct) auto

lemma bits_length: "length (concat (map byte_bits bs)) = 8 * length bs"
  by (induction bs) (simp_all add: byte_bits_def)

lemma b32_alphabet_in: "n < 32 \<Longrightarrow> in_cls (upper @ digit) (b32_alphabet ! n)"
proof -
  have "\<forall>n\<in>set [0..<32]. in_cls (upper @ digit) (b32_alphabet ! n)" by code_simp
  then show "n < 32 \<Longrightarrow> in_cls (upper @ digit) (b32_alphabet ! n)" by simp
qed

lemma base32_shape:
  "length (base32_nopad bs) = (8 * length bs + 4) div 5 \<and> list_all (in_cls (upper @ digit)) (base32_nopad bs)"
  by (auto simp: base32_nopad_def quintets_length bits_length list_all_iff intro!: b32_alphabet_in quintets_bound)

section \<open>Digest strings\<close>

text \<open>\<open>fmt.Sprintf("sha256:%x", sha256.Sum256(payload))\<close>.\<close>

definition sha256_string :: "string \<Rightarrow> string" where
  "sha256_string payload = ''sha256:'' @ hex_string (sha256 payload)"

section \<open>Published test vectors\<close>

lemma base32_foobar: "base32_nopad (map byte ''foobar'') = ''MZXW6YTBOI''"
  by code_simp

end
