(* ===== verification/Go_Time.thy ===== *)
theory Go_Time
  imports Go_Strings
begin

text \<open>
  \<open>time.Parse(time.RFC3339, value)\<close>. The instant is the number of nanoseconds since January 1,
  year 1, UTC, as everywhere in the development. The function is the general parser of the package for this
  one layout: it takes an hour of one digit, a fraction of a second after a period or a comma, and
  zone offsets of up to 24 hours and 60 minutes, as the package does.
\<close>

definition dig :: "char \<Rightarrow> int" where "dig c = int (byte c) - 48"

text \<open>\<open>getnum\<close> with \<open>fixed\<close>: exactly two digits; without: one or two.\<close>

fun num2 :: "string \<Rightarrow> (int \<times> string) option" where
  "num2 (a # b # s) = (if is_digit a \<and> is_digit b then Some (dig a * 10 + dig b, s) else None)"
| "num2 _ = None"

fun num12 :: "string \<Rightarrow> (int \<times> string) option" where
  "num12 [] = None"
| "num12 (a # s) =
     (if \<not> is_digit a then None
      else case s of
        b # r \<Rightarrow> if is_digit b then Some (dig a * 10 + dig b, r) else Some (dig a, s)
      | [] \<Rightarrow> Some (dig a, s))"

fun num4 :: "string \<Rightarrow> (int \<times> string) option" where
  "num4 (a # b # c # d # s) =
     (if list_all is_digit [a, b, c, d]
      then Some (dig a * 1000 + dig b * 100 + dig c * 10 + dig d, s) else None)"
| "num4 _ = None"

fun lit :: "char \<Rightarrow> string \<Rightarrow> string option" where
  "lit c (x # s) = (if x = c then Some s else None)"
| "lit c [] = None"

text \<open>The optional fraction: at most nine digits count, the rest are skipped.\<close>

definition frac_value :: "string \<Rightarrow> int" where
  "frac_value ds = foldl (\<lambda>n c. 10 * n + dig c) 0 (take 9 ds) * 10 ^ (9 - length (take 9 ds))"

fun fraction :: "string \<Rightarrow> int \<times> string" where
  "fraction (p # d # s) =
     (if (p = CHR ''.'' \<or> p = CHR '','') \<and> is_digit d
      then (frac_value (takeWhile is_digit (d # s)), dropWhile is_digit (d # s)) else (0, p # d # s))"
| "fraction s = (0, s)"

text \<open>The zone: seconds east of UTC.\<close>

definition zone :: "string \<Rightarrow> (int \<times> string) option" where
  "zone s =
     (case s of
        [] \<Rightarrow> None
      | c # r \<Rightarrow>
          if c = CHR ''Z'' then Some (0, r)
          else (case num2 r of
              None \<Rightarrow> None
            | Some (hh, r1) \<Rightarrow>
                (case lit CHR '':'' r1 of
                   None \<Rightarrow> None
                 | Some r2 \<Rightarrow>
                     (case num2 r2 of
                        None \<Rightarrow> None
                      | Some (mm, r3) \<Rightarrow>
                          if hh > 24 \<or> mm > 60 then None
                          else if c = CHR ''+'' then Some ((hh * 60 + mm) * 60, r3)
                          else if c = CHR ''-'' then Some (- ((hh * 60 + mm) * 60), r3)
                          else None))))"

definition leap :: "int \<Rightarrow> bool" where
  "leap y \<longleftrightarrow> y mod 4 = 0 \<and> (y mod 100 \<noteq> 0 \<or> y mod 400 = 0)"

definition daysIn :: "int \<Rightarrow> int \<Rightarrow> int" where
  "daysIn m y = (if m = 2 then (if leap y then 29 else 28) else if m \<in> {4, 6, 9, 11} then 30 else 31)"

definition days_before_year :: "int \<Rightarrow> int" where
  "days_before_year y = 365 * (y - 1) + (y - 1) div 4 - (y - 1) div 100 + (y - 1) div 400"

definition days_before_month :: "int \<Rightarrow> int \<Rightarrow> int" where
  "days_before_month m y = sum_list (map (\<lambda>k. daysIn (int k) y) [1..<nat m])"

definition instant :: "int \<Rightarrow> int \<Rightarrow> int \<Rightarrow> int \<Rightarrow> int \<Rightarrow> int \<Rightarrow> int \<Rightarrow> gotime" where
  "instant y mo d h mi s ns =
     ((((days_before_year y + days_before_month mo y + d - 1) * 24 + h) * 60 + mi) * 60 + s) * 1000000000 + ns"

definition bindO :: "'a option \<Rightarrow> ('a \<Rightarrow> 'b option) \<Rightarrow> 'b option" where
  "bindO m f = (case m of None \<Rightarrow> None | Some x \<Rightarrow> f x)"

definition parseRFC3339 :: "string \<Rightarrow> gotime option" where
  "parseRFC3339 v =
     bindO (num4 v) (\<lambda>(y, v). bindO (lit CHR ''-'' v) (\<lambda>v.
     bindO (num2 v) (\<lambda>(mo, v). bindO (lit CHR ''-'' v) (\<lambda>v.
     bindO (num2 v) (\<lambda>(d, v). bindO (lit CHR ''T'' v) (\<lambda>v.
     bindO (num12 v) (\<lambda>(h, v). bindO (lit CHR '':'' v) (\<lambda>v.
     bindO (num2 v) (\<lambda>(mi, v). bindO (lit CHR '':'' v) (\<lambda>v.
     bindO (num2 v) (\<lambda>(s, v).
       let (ns, v) = fraction v in
       bindO (zone v) (\<lambda>(off, v).
         if v \<noteq> [] \<or> mo < 1 \<or> 12 < mo \<or> 24 \<le> h \<or> 60 \<le> mi \<or> 60 \<le> s \<or> d < 1 \<or> daysIn mo y < d then None
         else Some (instant y mo d h mi s ns - off * 1000000000)))))))))))))"

lemma parse_zero: "parseRFC3339 ''0001-01-01T00:00:00Z'' = Some 0"
  by code_simp

lemma parse_epoch: "parseRFC3339 ''1970-01-01T00:00:00Z'' = Some (62135596800 * 1000000000)"
  by code_simp

lemma parse_offset:
  "parseRFC3339 ''2024-02-29T1:30:00,5+01:30'' = parseRFC3339 ''2024-02-29T00:00:00.500Z''"
  by code_simp

lemma parse_bad_day: "parseRFC3339 ''2023-02-29T00:00:00Z'' = None"
  by code_simp

end
