(* ===== verification/Model_Cell.thy ===== *)
theory Model_Cell
  imports Model_Setup Go_Json Go_Time
begin

text \<open>
  Cell services (\<open>internal/model/cell.go\<close>, \<open>internal/model/cell_v3.go\<close>): the formatVersion 2 and 3
  entries and their validators, the launch binding of a manager, the native ids derived from the
  launch operation, the canonical digests, the execution grant with its renewal, the prepared
  tuple and the preparation receipt, and the two loops of \<open>ValidateManifest\<close>. Shown: a prepare entry carries no
  execution authority, an execute entry carries a grant bound to every field of the entry, the grant's
  session and input are those of the launch operation, renewal keeps the identity, moves the
  expiry forward and is a strict order, and a receipt that validates fixes the entry's tuple.
\<close>

section \<open>Data\<close>

record ManagedServiceV2Profile =
  vp_SetupOperationID :: "string"
  vp_ProfileID :: "string"
  vp_ProfileRevision :: "int"
  vp_ProfileDigest :: "string"

record ManagedServiceV2Authority =
  va_ProviderID :: "string"
  va_ModelID :: "string option"
  va_AuthMode :: "string option"

record ManagedServiceV2Workspace =
  vw_SelectionID :: "string"
  vw_ProjectID :: "string"
  vw_WorkspaceEpoch :: "string"
  vw_ScopeRevision :: "int"
  vw_RootAttestation :: "string"

record ManagedServiceV2Instructions =
  vi_InstructionRevision :: "int"
  vi_InstructionDigest :: "string"

record ManagedServiceV2 =
  v2_FormatVersion :: "int"
  v2_TargetKind :: "string"
  v2_OperationID :: "string"
  v2_LaunchOperationID :: "string"
  v2_ActionRevision :: "int"
  v2_DesiredRevision :: "int"
  v2_DesiredState :: "string"
  v2_SessionMode :: "string"
  v2_ServiceRegistrationID :: "string"
  v2_OwnerCellID :: "string"
  v2_OwnerRole :: "string"
  v2_OwnerGeneration :: "int"
  v2_SandboxID :: "string"
  v2_SandboxGeneration :: "int"
  v2_ServiceGeneration :: "int"
  v2_ConfigDigest :: "string"
  v2_Fence :: "string"
  v2_Attempt :: "int"
  v2_Instance :: "string"
  v2_Role :: "string"
  v2_NativeSessionID :: "string"
  v2_NativeProjectID :: "string"
  v2_WorkspaceEpoch :: "string"
  v2_Workspace :: "ManagedServiceV2Workspace"
  v2_Instructions :: "ManagedServiceV2Instructions"
  v2_Profile :: "ManagedServiceV2Profile"
  v2_Authority :: "ManagedServiceV2Authority option"

record CellCredentialBindingV3 =
  kb_ConnectionID :: "string"
  kb_ConnectionRevision :: "int"
  kb_ProviderID :: "string"
  kb_AuthMode :: "string"

record CellParentIdentityV3 =
  kp_ParentExecutionID :: "string option"
  kp_ParentPacketID :: "string option"
  kp_PacketID :: "string"
  kp_PacketRevision :: "int"

record CellExecutionGrantV3 =
  eg_GrantID :: "string"
  eg_OperationID :: "string"
  eg_SessionID :: "string"
  eg_InputID :: "string"
  eg_ControllerID :: "string"
  eg_ControllerRevision :: "int"
  eg_AuthorityRevision :: "int"
  eg_Attempt :: "int"
  eg_Fence :: "string"
  eg_ParentExecutionID :: "string option"
  eg_ParentPacketID :: "string option"
  eg_PacketID :: "string"
  eg_PacketRevision :: "int"
  eg_ConfigDigest :: "string"
  eg_ProfileDigest :: "string"
  eg_WorkspaceDigest :: "string"
  eg_CredentialBindingDigest :: "string"
  eg_PreparedReceiptDigest :: "string"
  eg_ExpiresAt :: "string"

record CellServiceV3 =
  v3_FormatVersion :: "int"
  v3_TargetKind :: "string"
  v3_OperationID :: "string"
  v3_LaunchOperationID :: "string"
  v3_ActionRevision :: "int"
  v3_DesiredRevision :: "int"
  v3_DesiredState :: "string"
  v3_SessionMode :: "string"
  v3_ServiceRegistrationID :: "string"
  v3_OwnerCellID :: "string"
  v3_OwnerRole :: "string"
  v3_OwnerGeneration :: "int"
  v3_SandboxID :: "string"
  v3_SandboxGeneration :: "int"
  v3_ServiceGeneration :: "int"
  v3_ConfigDigest :: "string"
  v3_Fence :: "string"
  v3_Attempt :: "int"
  v3_Instance :: "string"
  v3_Role :: "string"
  v3_NativeSessionID :: "string"
  v3_NativeProjectID :: "string"
  v3_WorkspaceEpoch :: "string"
  v3_Workspace :: "ManagedServiceV2Workspace"
  v3_Instructions :: "ManagedServiceV2Instructions"
  v3_Profile :: "ManagedServiceV2Profile"
  v3_Authority :: "ManagedServiceV2Authority option"
  v3_LifecyclePhase :: "string"
  v3_PreparationID :: "string"
  v3_CredentialBinding :: "CellCredentialBindingV3"
  v3_ControllerID :: "string"
  v3_ControllerRevision :: "int"
  v3_AuthorityRevision :: "int"
  v3_ParentIdentity :: "CellParentIdentityV3"
  v3_RequestDigest :: "string"
  v3_PreparedReceiptDigest :: "string option"
  v3_ExecutionGrant :: "CellExecutionGrantV3 option"

record CellPreparedAuthorityV3 =
  pa_ProviderID :: "string"
  pa_AuthMode :: "string"
  pa_ModelID :: "string"

record PreparedTuple =
  pt_OperationID :: "string"
  pt_ControllerID :: "string"
  pt_ControllerRevision :: "int"
  pt_AuthorityRevision :: "int"
  pt_ServiceRegistrationID :: "string"
  pt_ServiceGeneration :: "int"
  pt_SandboxID :: "string"
  pt_SandboxGeneration :: "int"
  pt_ParentExecutionID :: "string option"
  pt_ParentPacketID :: "string option"
  pt_PacketID :: "string"
  pt_PacketRevision :: "int"
  pt_RequestDigest :: "string"
  pt_ConfigDigest :: "string"
  pt_ProfileDigest :: "string"
  pt_WorkspaceDigest :: "string"
  pt_CredentialBinding :: "CellCredentialBindingV3"
  pt_Authority :: "CellPreparedAuthorityV3"
  pt_Attempt :: "int"
  pt_Fence :: "string"

record PreparedReceipt =
  pr_FormatVersion :: "int"
  pr_PreparedTuple :: "PreparedTuple"
  pr_CredentialID :: "string"
  pr_NativeCredentialID :: "string"
  pr_BindingDigest :: "string"
  pr_PreparedReceiptDigest :: "string"

record CellPreparationView =
  pv_PreparationID :: "string"
  pv_TargetKind :: "string"
  pv_LifecyclePhase :: "string"
  pv_State :: "string"
  pv_OperationID :: "string"
  pv_SandboxGeneration :: "int"
  pv_ControllerID :: "string"
  pv_ControllerRevision :: "int"
  pv_AuthorityRevision :: "int"
  pv_WorkspaceDigest :: "string"
  pv_CredentialBindingDigest :: "string"
  pv_PreparedReceiptDigest :: "string"
  pv_CredentialID :: "string"
  pv_NativeCredentialID :: "string"

section \<open>formatVersion 2\<close>

definition SupportsCellExecution :: "string \<Rightarrow> bool" where
  "SupportsCellExecution contractVersion \<longleftrightarrow> contractVersion = ''0.1.47''"

definition ManagerLaunchBinding ::
  "ManagedServiceV2Authority option \<Rightarrow> goerr + string \<times> string \<times> string" where
  "ManagerLaunchBinding authority =
     (case authority of
        None \<Rightarrow> Inl (E ''cell manager authority binding is absent'')
      | Some authority \<Rightarrow>
          let providerID = va_ProviderID authority in
          if \<not> matchString providerIDPattern providerID
          then Inl (E ''cell manager authority provider is invalid'')
          else case va_ModelID authority of
            None \<Rightarrow> Inl (E ''cell manager authority model is absent'')
          | Some model \<Rightarrow>
              let modelID = trimPrefix model (providerID @ ''/'') in
              if modelID = [] \<or> \<not> matchString modelIDPattern modelID
              then Inl (E ''cell manager authority model is invalid'')
              else case va_AuthMode authority of
                None \<Rightarrow> Inl (E ''cell manager authority auth mode is absent'')
              | Some authMode \<Rightarrow>
                  if authMode \<noteq> ''api_key'' \<and> authMode \<noteq> ''chatgpt_subscription''
                  then Inl (E ''cell manager authority auth mode is invalid'')
                  else Inr (providerID, modelID, authMode))"

definition ValidCellNativeSessionID :: "string \<Rightarrow> bool" where
  "ValidCellNativeSessionID value = matchString cellNativeSessionIDPattern value"

definition validCellFence :: "string \<Rightarrow> bool" where
  "validCellFence fence = matchString cellFencePattern fence"

definition validCellAdapterStates :: "string list" where
  "validCellAdapterStates =
     [''absent'', ''bound'', ''pending'', ''running'', ''uncertain'', ''terminal'', ''exhausted'']"

definition validCellTerminalOutcomes :: "string list" where
  "validCellTerminalOutcomes = [''succeeded'', ''failed'', ''interrupted'']"

text \<open>The desired states and session modes every cell entry may name.\<close>

definition cell_state_ok :: "string \<Rightarrow> bool" where
  "cell_state_ok s \<longleftrightarrow> s = ''active'' \<or> s = ''paused'' \<or> s = ''stopped'' \<or> s = ''retired''"

definition session_mode_ok :: "string \<Rightarrow> bool" where
  "session_mode_ok s \<longleftrightarrow> s = ''create_initial'' \<or> s = ''lookup_only''"

definition v2_authority_ok :: "ManagedServiceV2Authority option \<Rightarrow> bool" where
  "v2_authority_ok authority =
     (case authority of
        None \<Rightarrow> True
      | Some authority \<Rightarrow>
          matchString providerIDPattern (va_ProviderID authority) \<and>
          (case va_ModelID authority of None \<Rightarrow> True | Some m \<Rightarrow> matchString modelIDPattern m) \<and>
          (case va_AuthMode authority of None \<Rightarrow> True | Some a \<Rightarrow> a = ''api_key'' \<or> a = ''chatgpt_subscription''))"

text \<open>The ready setup operation is exactly the profile that a cell entry names.\<close>

definition cell_profile_bad :: "SetupOperation option \<Rightarrow> string \<Rightarrow> int \<Rightarrow> ManagedServiceV2Profile \<Rightarrow> bool" where
  "cell_profile_bad profile sandboxID sandboxGeneration p =
     (case profile of
        None \<Rightarrow> True
      | Some profile \<Rightarrow>
          so_SandboxID profile \<noteq> sandboxID \<or> so_SandboxGeneration profile \<noteq> sandboxGeneration \<or>
          so_ProfileID profile \<noteq> vp_ProfileID p \<or> so_ProfileRevision profile \<noteq> vp_ProfileRevision p \<or>
          so_ProfileDigest profile \<noteq> vp_ProfileDigest p)"

definition ValidateManagedServiceV2 ::
  "ManagedServiceV2 \<Rightarrow> int \<Rightarrow> bool \<Rightarrow> SetupOperation option \<Rightarrow> goerr + unit" where
  "ValidateManagedServiceV2 entry sandboxGeneration sandboxExists profile =
     (if v2_FormatVersion entry \<noteq> 2 \<or> v2_TargetKind entry \<noteq> ''cell_session''
      then Inl (E ''cell entry envelope is invalid'')
      else if \<not> matchString continuityIDPattern (v2_OperationID entry) \<or> v2_ActionRevision entry < 1 \<or>
        v2_DesiredRevision entry < 1 \<or> \<not> matchString setupDigestPattern (vp_ProfileDigest (v2_Profile entry))
      then Inl (E ''cell entry revision or digest is invalid'')
      else if v2_ServiceGeneration entry < 1 \<or> v2_Attempt entry < 1 \<or> \<not> validCellFence (v2_Fence entry)
      then Inl (E ''cell entry service generation, attempt or fence is invalid'')
      else if \<not> cell_state_ok (v2_DesiredState entry)
      then Inl (E ''cell entry desired state is invalid'')
      else if \<not> session_mode_ok (v2_SessionMode entry)
      then Inl (E ''cell entry session mode is invalid'')
      else if \<not> matchString continuityIDPattern (v2_ServiceRegistrationID entry)
      then Inl (E ''cell entry service registration is invalid'')
      else if \<not> matchString continuityIDPattern (v2_OwnerCellID entry) \<or>
        (v2_OwnerRole entry \<noteq> ''manager'' \<and> v2_OwnerRole entry \<noteq> ''orchestrator'') \<or>
        v2_OwnerGeneration entry < 1
      then Inl (E ''cell entry owner authority is invalid'')
      else if \<not> matchString continuityIDPattern (v2_LaunchOperationID entry)
      then Inl (E ''cell entry launch operation is invalid'')
      else if \<not> matchString continuityIDPattern (v2_Instance entry) \<or>
        (v2_Role entry \<noteq> ''worker'' \<and> v2_Role entry \<noteq> ''reviewer'')
      then Inl (E ''cell entry instance or role is invalid'')
      else if \<not> sandboxExists \<or> sandboxGeneration \<noteq> v2_SandboxGeneration entry
      then Inl (E ''cell entry sandbox generation is not current'')
      else if \<not> matchString cellNativeSessionIDPattern (v2_NativeSessionID entry) \<or>
        \<not> matchString cellNativeProjectPattern (v2_NativeProjectID entry) \<or>
        \<not> matchString continuityIDPattern (v2_WorkspaceEpoch entry)
      then Inl (E ''cell entry native identity is invalid'')
      else if \<not> matchString continuityIDPattern (vw_SelectionID (v2_Workspace entry)) \<or>
        \<not> matchString continuityIDPattern (vw_ProjectID (v2_Workspace entry)) \<or>
        \<not> matchString continuityIDPattern (vw_WorkspaceEpoch (v2_Workspace entry)) \<or>
        vw_ScopeRevision (v2_Workspace entry) < 1 \<or>
        \<not> matchString setupDigestPattern (vw_RootAttestation (v2_Workspace entry))
      then Inl (E ''cell entry workspace contract is invalid'')
      else if vi_InstructionRevision (v2_Instructions entry) < 1 \<or>
        \<not> matchString setupDigestPattern (vi_InstructionDigest (v2_Instructions entry))
      then Inl (E ''cell entry instruction tuple is invalid'')
      else if \<not> v2_authority_ok (v2_Authority entry)
      then Inl (E ''cell entry authority is invalid'')
      else if cell_profile_bad profile (v2_SandboxID entry) (v2_SandboxGeneration entry) (v2_Profile entry)
      then Inl (E ''cell entry profile is not exactly ready'')
      else ok)"

section \<open>Native ids, digests and small checks of formatVersion 3\<close>

definition deriveNativeIDs :: "string \<Rightarrow> string \<times> string" where
  "deriveNativeIDs operationID =
     (let suffix = base32_nopad (sha256 operationID) in (''ses_'' @ suffix, ''msg_'' @ suffix))"

definition CredentialBinding_Validate :: "CellCredentialBindingV3 \<Rightarrow> goerr + unit" where
  "CredentialBinding_Validate binding =
     (if \<not> matchString cellV3SafeIDPattern (kb_ConnectionID binding) \<or> kb_ConnectionRevision binding < 1 \<or>
         \<not> matchString cellV3ProviderIDPattern (kb_ProviderID binding) \<or>
         (kb_AuthMode binding \<noteq> ''api_key'' \<and> kb_AuthMode binding \<noteq> ''chatgpt_subscription'')
      then Inl (E ''credential binding is invalid'') else ok)"

definition binding_json :: "CellCredentialBindingV3 \<Rightarrow> jval" where
  "binding_json binding = JObj
     [(''connectionId'', JStr (kb_ConnectionID binding)),
      (''connectionRevision'', JInt (kb_ConnectionRevision binding)),
      (''providerId'', JStr (kb_ProviderID binding)), (''authMode'', JStr (kb_AuthMode binding))]"

definition CredentialBinding_digest :: "CellCredentialBindingV3 \<Rightarrow> string" where
  "CredentialBinding_digest binding = canonicalSHA256 (binding_json binding)"

definition MatchesLease :: "CellCredentialBindingV3 \<Rightarrow> string \<Rightarrow> int \<Rightarrow> bool" where
  "MatchesLease binding connectionID connectionRevision \<longleftrightarrow>
     kb_ConnectionID binding = connectionID \<and> kb_ConnectionRevision binding = connectionRevision"

definition ParentIdentity_Validate :: "CellParentIdentityV3 \<Rightarrow> goerr + unit" where
  "ParentIdentity_Validate parent =
     (if (kp_ParentExecutionID parent = None) \<noteq> (kp_ParentPacketID parent = None)
      then Inl (E ''parent execution and packet must both be null or both present'')
      else if (case kp_ParentExecutionID parent of None \<Rightarrow> False | Some p \<Rightarrow> \<not> matchString cellV3SafeIDPattern p)
      then Inl (E ''parent execution is invalid'')
      else if (case kp_ParentPacketID parent of None \<Rightarrow> False | Some p \<Rightarrow> \<not> matchString cellV3SafeIDPattern p)
      then Inl (E ''parent packet is invalid'')
      else if \<not> matchString cellV3SafeIDPattern (kp_PacketID parent) \<or> kp_PacketRevision parent < 1
      then Inl (E ''packet identity is invalid'')
      else ok)"

definition nilableStringEqual :: "string option \<Rightarrow> string option \<Rightarrow> bool" where
  "nilableStringEqual left right =
     (case (left, right) of
        (Some a, Some b) \<Rightarrow> a = b
      | (None, None) \<Rightarrow> True
      | _ \<Rightarrow> False)"

lemma nilableStringEqual_iff [simp]: "nilableStringEqual a b \<longleftrightarrow> a = b"
  by (auto simp: nilableStringEqual_def split: option.splits)

definition workspaceIdentityDigest :: "ManagedServiceV2Workspace \<Rightarrow> string" where
  "workspaceIdentityDigest workspace = canonicalSHA256 (JObj
     [(''selectionId'', JStr (vw_SelectionID workspace)), (''projectId'', JStr (vw_ProjectID workspace)),
      (''workspaceEpoch'', JStr (vw_WorkspaceEpoch workspace)),
      (''scopeRevision'', JInt (vw_ScopeRevision workspace)),
      (''rootAttestation'', JStr (vw_RootAttestation workspace))])"

definition validCellV3Authority :: "ManagedServiceV2Authority option \<Rightarrow> bool" where
  "validCellV3Authority authority =
     (case authority of
        None \<Rightarrow> True
      | Some authority \<Rightarrow>
          matchString cellV3ProviderIDPattern (va_ProviderID authority) \<and>
          (case va_ModelID authority of None \<Rightarrow> True | Some m \<Rightarrow> matchString modelIDPattern m) \<and>
          (case va_AuthMode authority of None \<Rightarrow> True | Some a \<Rightarrow> a = ''api_key'' \<or> a = ''chatgpt_subscription''))"

definition validCellV3CredentialAuthority ::
  "ManagedServiceV2Authority option \<Rightarrow> CellCredentialBindingV3 \<Rightarrow> goerr + unit" where
  "validCellV3CredentialAuthority authority binding =
     (case authority of
        None \<Rightarrow> Inl (E ''cell v3 entry authority is required'')
      | Some authority \<Rightarrow>
          if va_ProviderID authority \<noteq> kb_ProviderID binding
          then Inl (E ''cell v3 credential binding provider does not match authority'')
          else if va_ModelID authority = None \<or> va_ModelID authority = Some []
          then Inl (E ''cell v3 authority model is required'')
          else if va_AuthMode authority \<noteq> Some (kb_AuthMode binding)
          then Inl (E ''cell v3 credential binding auth mode does not match authority'')
          else if kb_AuthMode binding = ''chatgpt_subscription'' \<and> kb_ProviderID binding \<noteq> ''openai''
          then Inl (E ''cell v3 subscription authority requires OpenAI'')
          else ok)"

section \<open>The execution grant\<close>

definition validateAgainst :: "CellExecutionGrantV3 \<Rightarrow> CellServiceV3 \<Rightarrow> goerr + unit" where
  "validateAgainst grant entry =
     (if \<not> matchString cellV3SafeIDPattern (eg_GrantID grant)
      then Inl (E ''cell v3 grant id is invalid'')
      else if eg_OperationID grant \<noteq> v3_LaunchOperationID entry
      then Inl (E ''cell v3 grant operation is inconsistent'')
      else let (derivedSessionID, derivedInputID) = deriveNativeIDs (v3_LaunchOperationID entry) in
        if eg_SessionID grant \<noteq> derivedSessionID \<or> eg_SessionID grant \<noteq> v3_NativeSessionID entry
        then Inl (E ''cell v3 grant session is inconsistent'')
        else if eg_InputID grant \<noteq> derivedInputID
        then Inl (E ''cell v3 grant input is inconsistent'')
        else if eg_ControllerID grant \<noteq> v3_ControllerID entry \<or>
          eg_ControllerRevision grant \<noteq> v3_ControllerRevision entry \<or>
          eg_AuthorityRevision grant \<noteq> v3_AuthorityRevision entry
        then Inl (E ''cell v3 grant controller authority is inconsistent'')
        else if eg_Attempt grant \<noteq> v3_Attempt entry \<or> eg_Fence grant \<noteq> v3_Fence entry
        then Inl (E ''cell v3 grant attempt or fence is inconsistent'')
        else if \<not> nilableStringEqual (eg_ParentExecutionID grant) (kp_ParentExecutionID (v3_ParentIdentity entry)) \<or>
          \<not> nilableStringEqual (eg_ParentPacketID grant) (kp_ParentPacketID (v3_ParentIdentity entry)) \<or>
          eg_PacketID grant \<noteq> kp_PacketID (v3_ParentIdentity entry) \<or>
          eg_PacketRevision grant \<noteq> kp_PacketRevision (v3_ParentIdentity entry)
        then Inl (E ''cell v3 grant parent identity is inconsistent'')
        else if eg_ConfigDigest grant \<noteq> v3_ConfigDigest entry \<or>
          eg_ProfileDigest grant \<noteq> vp_ProfileDigest (v3_Profile entry)
        then Inl (E ''cell v3 grant config or profile digest is inconsistent'')
        else if eg_WorkspaceDigest grant \<noteq> workspaceIdentityDigest (v3_Workspace entry)
        then Inl (E ''cell v3 grant workspace digest is inconsistent'')
        else if workspaceIdentityDigest (v3_Workspace entry) = vw_RootAttestation (v3_Workspace entry)
        then Inl (E ''cell v3 workspace digest must not equal the root attestation'')
        else if eg_CredentialBindingDigest grant \<noteq> CredentialBinding_digest (v3_CredentialBinding entry)
        then Inl (E ''cell v3 grant credential binding digest is inconsistent'')
        else if v3_PreparedReceiptDigest entry \<noteq> Some (eg_PreparedReceiptDigest grant)
        then Inl (E ''cell v3 grant prepared receipt digest is inconsistent'')
        else if parseRFC3339 (eg_ExpiresAt grant) = None
        then Inl (E ''cell v3 grant expiry is invalid'')
        else ok)"

definition Renews :: "CellExecutionGrantV3 \<Rightarrow> CellExecutionGrantV3 \<Rightarrow> bool" where
  "Renews grant older =
     (if eg_GrantID grant = [] \<or> eg_GrantID older = [] \<or> eg_GrantID grant = eg_GrantID older then False
      else if eg_OperationID grant \<noteq> eg_OperationID older \<or> eg_SessionID grant \<noteq> eg_SessionID older \<or>
        eg_InputID grant \<noteq> eg_InputID older \<or> eg_ControllerID grant \<noteq> eg_ControllerID older \<or>
        eg_ControllerRevision grant \<noteq> eg_ControllerRevision older \<or>
        eg_AuthorityRevision grant \<noteq> eg_AuthorityRevision older \<or>
        eg_Attempt grant \<noteq> eg_Attempt older \<or> eg_Fence grant \<noteq> eg_Fence older \<or>
        \<not> nilableStringEqual (eg_ParentExecutionID grant) (eg_ParentExecutionID older) \<or>
        \<not> nilableStringEqual (eg_ParentPacketID grant) (eg_ParentPacketID older) \<or>
        eg_PacketID grant \<noteq> eg_PacketID older \<or> eg_PacketRevision grant \<noteq> eg_PacketRevision older \<or>
        eg_ConfigDigest grant \<noteq> eg_ConfigDigest older \<or> eg_ProfileDigest grant \<noteq> eg_ProfileDigest older \<or>
        eg_WorkspaceDigest grant \<noteq> eg_WorkspaceDigest older \<or>
        eg_CredentialBindingDigest grant \<noteq> eg_CredentialBindingDigest older \<or>
        eg_PreparedReceiptDigest grant \<noteq> eg_PreparedReceiptDigest older
      then False
      else case parseRFC3339 (eg_ExpiresAt grant) of
        None \<Rightarrow> False
      | Some renewed \<Rightarrow>
          (case parseRFC3339 (eg_ExpiresAt older) of
             None \<Rightarrow> False
           | Some previous \<Rightarrow> previous < renewed))"

section \<open>ValidateManagedServiceV3\<close>

definition ValidateManagedServiceV3 ::
  "CellServiceV3 \<Rightarrow> int \<Rightarrow> bool \<Rightarrow> SetupOperation option \<Rightarrow> goerr + unit" where
  "ValidateManagedServiceV3 entry sandboxGeneration sandboxExists profile =
     (if v3_FormatVersion entry \<noteq> 3 \<or> v3_TargetKind entry \<noteq> ''cell_session''
      then Inl (E ''cell v3 entry envelope is invalid'')
      else if \<not> matchString cellV3SafeIDPattern (v3_OperationID entry) \<or>
        \<not> matchString cellV3SafeIDPattern (v3_LaunchOperationID entry) \<or>
        v3_ActionRevision entry < 1 \<or> v3_DesiredRevision entry < 1 \<or>
        \<not> matchString setupDigestPattern (v3_ConfigDigest entry)
      then Inl (E ''cell v3 entry revision or digest is invalid'')
      else if v3_ServiceGeneration entry < 1 \<or> v3_Attempt entry < 1 \<or> \<not> validCellFence (v3_Fence entry)
      then Inl (E ''cell v3 entry service generation, attempt or fence is invalid'')
      else if \<not> cell_state_ok (v3_DesiredState entry)
      then Inl (E ''cell v3 entry desired state is invalid'')
      else if \<not> session_mode_ok (v3_SessionMode entry)
      then Inl (E ''cell v3 entry session mode is invalid'')
      else if \<not> matchString cellV3SafeIDPattern (v3_ServiceRegistrationID entry) \<or>
        \<not> matchString cellV3SafeIDPattern (v3_OwnerCellID entry) \<or>
        (v3_OwnerRole entry \<noteq> ''manager'' \<and> v3_OwnerRole entry \<noteq> ''orchestrator'') \<or>
        v3_OwnerGeneration entry < 1
      then Inl (E ''cell v3 entry owner authority is invalid'')
      else if \<not> matchString cellV3SafeIDPattern (v3_SandboxID entry) \<or> v3_SandboxGeneration entry < 1
      then Inl (E ''cell v3 entry sandbox identity is invalid'')
      else if \<not> matchString cellV3SafeIDPattern (v3_Instance entry) \<or>
        (v3_Role entry \<noteq> ''worker'' \<and> v3_Role entry \<noteq> ''reviewer'')
      then Inl (E ''cell v3 entry instance or role is invalid'')
      else if \<not> matchString cellNativeSessionIDPattern (v3_NativeSessionID entry) \<or>
        \<not> matchString cellNativeProjectPattern (v3_NativeProjectID entry) \<or>
        \<not> matchString cellV3SafeIDPattern (v3_WorkspaceEpoch entry)
      then Inl (E ''cell v3 entry native identity is invalid'')
      else if v3_NativeSessionID entry \<noteq> fst (deriveNativeIDs (v3_LaunchOperationID entry))
      then Inl (E ''cell v3 entry native session does not match the launch operation'')
      else if \<not> matchString cellV3SafeIDPattern (vw_SelectionID (v3_Workspace entry)) \<or>
        \<not> matchString cellV3SafeIDPattern (vw_ProjectID (v3_Workspace entry)) \<or>
        \<not> matchString cellV3SafeIDPattern (vw_WorkspaceEpoch (v3_Workspace entry)) \<or>
        vw_ScopeRevision (v3_Workspace entry) < 1 \<or>
        \<not> matchString setupDigestPattern (vw_RootAttestation (v3_Workspace entry))
      then Inl (E ''cell v3 entry workspace contract is invalid'')
      else if vi_InstructionRevision (v3_Instructions entry) < 1 \<or>
        \<not> matchString setupDigestPattern (vi_InstructionDigest (v3_Instructions entry))
      then Inl (E ''cell v3 entry instruction tuple is invalid'')
      else if \<not> validCellV3Authority (v3_Authority entry)
      then Inl (E ''cell v3 entry authority is invalid'')
      else if \<not> sandboxExists \<or> sandboxGeneration \<noteq> v3_SandboxGeneration entry
      then Inl (E ''cell v3 entry sandbox generation is not current'')
      else if cell_profile_bad profile (v3_SandboxID entry) (v3_SandboxGeneration entry) (v3_Profile entry)
      then Inl (E ''cell v3 entry profile is not exactly ready'')
      else if v3_LifecyclePhase entry \<noteq> ''prepare'' \<and> v3_LifecyclePhase entry \<noteq> ''execute''
      then Inl (E ''cell v3 entry lifecycle phase is invalid'')
      else if \<not> matchString cellV3SafeIDPattern (v3_ControllerID entry) \<or>
        v3_ControllerRevision entry < 1 \<or> v3_AuthorityRevision entry < 1
      then Inl (E ''cell v3 entry controller authority is invalid'')
      else if \<not> matchString cellV3SafeIDPattern (v3_PreparationID entry)
      then Inl (E ''cell v3 entry preparation id is invalid'')
      else if \<not> accepted (CredentialBinding_Validate (v3_CredentialBinding entry))
      then Inl (E ''cell v3 entry credential binding is invalid'')
      else if \<not> accepted (validCellV3CredentialAuthority (v3_Authority entry) (v3_CredentialBinding entry))
      then Inl (E ''cell v3 credential binding does not match the entry authority'')
      else if \<not> accepted (ParentIdentity_Validate (v3_ParentIdentity entry))
      then Inl (E ''cell v3 entry parent identity is invalid'')
      else if \<not> matchString cellV3RawDigestPattern (v3_RequestDigest entry)
      then Inl (E ''cell v3 entry request digest is invalid'')
      else if v3_LifecyclePhase entry = ''prepare'' then
        (if v3_PreparedReceiptDigest entry \<noteq> None \<or> v3_ExecutionGrant entry \<noteq> None
         then Inl (E ''cell v3 prepare entry must not carry a grant or receipt digest'') else ok)
      else case v3_PreparedReceiptDigest entry of
        None \<Rightarrow> Inl (E ''cell v3 execute entry requires a prepared receipt digest'')
      | Some receipt \<Rightarrow>
          if \<not> matchString setupDigestPattern receipt
          then Inl (E ''cell v3 execute entry requires a prepared receipt digest'')
          else case v3_ExecutionGrant entry of
            None \<Rightarrow> Inl (E ''cell v3 execute entry requires an execution grant'')
          | Some grant \<Rightarrow> validateAgainst grant entry)"

section \<open>Preparation\<close>

definition PreparedTuple_of :: "CellServiceV3 \<Rightarrow> goerr + PreparedTuple" where
  "PreparedTuple_of entry =
     (case v3_Authority entry of
        Some authority \<Rightarrow>
          if \<not> validCellV3Authority (v3_Authority entry) \<or>
             \<not> accepted (validCellV3CredentialAuthority (v3_Authority entry) (v3_CredentialBinding entry))
          then Inl (E ''cell v3 prepared tuple requires exact model authority'')
          else Inr \<lparr>pt_OperationID = v3_LaunchOperationID entry, pt_ControllerID = v3_ControllerID entry,
            pt_ControllerRevision = v3_ControllerRevision entry, pt_AuthorityRevision = v3_AuthorityRevision entry,
            pt_ServiceRegistrationID = v3_ServiceRegistrationID entry,
            pt_ServiceGeneration = v3_ServiceGeneration entry, pt_SandboxID = v3_SandboxID entry,
            pt_SandboxGeneration = v3_SandboxGeneration entry,
            pt_ParentExecutionID = kp_ParentExecutionID (v3_ParentIdentity entry),
            pt_ParentPacketID = kp_ParentPacketID (v3_ParentIdentity entry),
            pt_PacketID = kp_PacketID (v3_ParentIdentity entry),
            pt_PacketRevision = kp_PacketRevision (v3_ParentIdentity entry),
            pt_RequestDigest = v3_RequestDigest entry, pt_ConfigDigest = v3_ConfigDigest entry,
            pt_ProfileDigest = vp_ProfileDigest (v3_Profile entry),
            pt_WorkspaceDigest = workspaceIdentityDigest (v3_Workspace entry),
            pt_CredentialBinding = v3_CredentialBinding entry,
            pt_Authority = \<lparr>pa_ProviderID = va_ProviderID authority,
              pa_AuthMode = (case va_AuthMode authority of None \<Rightarrow> [] | Some a \<Rightarrow> a),
              pa_ModelID = (case va_ModelID authority of None \<Rightarrow> [] | Some m \<Rightarrow> m)\<rparr>,
            pt_Attempt = v3_Attempt entry, pt_Fence = v3_Fence entry\<rparr>
      | None \<Rightarrow> Inl (E ''cell v3 prepared tuple requires exact model authority''))"

definition canonicalMap :: "PreparedTuple \<Rightarrow> jval" where
  "canonicalMap tuple = JObj
     [(''operationId'', JStr (pt_OperationID tuple)), (''controllerId'', JStr (pt_ControllerID tuple)),
      (''controllerRevision'', JInt (pt_ControllerRevision tuple)),
      (''authorityRevision'', JInt (pt_AuthorityRevision tuple)),
      (''serviceRegistrationId'', JStr (pt_ServiceRegistrationID tuple)),
      (''serviceGeneration'', JInt (pt_ServiceGeneration tuple)),
      (''sandboxId'', JStr (pt_SandboxID tuple)), (''sandboxGeneration'', JInt (pt_SandboxGeneration tuple)),
      (''parentExecutionId'', jopt (pt_ParentExecutionID tuple)),
      (''parentPacketId'', jopt (pt_ParentPacketID tuple)),
      (''packetId'', JStr (pt_PacketID tuple)), (''packetRevision'', JInt (pt_PacketRevision tuple)),
      (''requestDigest'', JStr (pt_RequestDigest tuple)), (''configDigest'', JStr (pt_ConfigDigest tuple)),
      (''profileDigest'', JStr (pt_ProfileDigest tuple)),
      (''workspaceDigest'', JStr (pt_WorkspaceDigest tuple)),
      (''credentialBinding'', binding_json (pt_CredentialBinding tuple)),
      (''authority'', JObj [(''providerId'', JStr (pa_ProviderID (pt_Authority tuple))),
        (''authMode'', JStr (pa_AuthMode (pt_Authority tuple))),
        (''modelId'', JStr (pa_ModelID (pt_Authority tuple)))]),
      (''attempt'', JInt (pt_Attempt tuple)), (''fence'', JStr (pt_Fence tuple))]"

definition PreparedTuple_Digest :: "PreparedTuple \<Rightarrow> string" where
  "PreparedTuple_Digest tuple = canonicalSHA256 (canonicalMap tuple)"

definition bindingDigest :: "PreparedTuple \<Rightarrow> string \<Rightarrow> string \<Rightarrow> string" where
  "bindingDigest tuple credentialID nativeCredentialID = canonicalSHA256 (JObj
     [(''preparedTuple'', canonicalMap tuple), (''credentialId'', JStr credentialID),
      (''nativeCredentialId'', JStr nativeCredentialID)])"

definition preparedReceiptDigest :: "PreparedTuple \<Rightarrow> string \<Rightarrow> string \<Rightarrow> string \<Rightarrow> string" where
  "preparedReceiptDigest tuple credentialID nativeCredentialID binding = canonicalSHA256 (JObj
     [(''preparedTuple'', canonicalMap tuple), (''credentialId'', JStr credentialID),
      (''nativeCredentialId'', JStr nativeCredentialID), (''bindingDigest'', JStr binding)])"

text \<open>
  \<open>strings.TrimSpace(s) == ""\<close>: every rune of \<open>s\<close> is white space. Of the runes above ASCII these are
  U+0085, U+00A0, U+1680, U+2000 to U+200A, U+2028, U+2029, U+202F, U+205F and U+3000.
\<close>

definition space_runes :: "nat list list" where
  "space_runes = [[9], [10], [11], [12], [13], [32], [194, 133], [194, 160], [225, 154, 128]] @
     map (\<lambda>b. [226, 128, b]) ([128..<139] @ [168, 169, 175]) @ [[226, 129, 159], [227, 128, 128]]"

function blank :: "nat list \<Rightarrow> bool" where
  "blank bs =
     (if bs = [] then True
      else list_ex (\<lambda>n. take n bs \<in> set space_runes \<and> blank (drop (max 1 n) bs)) [1, 2, 3])"
  by pat_completeness auto
termination by (relation "measure length") auto

declare blank.simps [simp del]

definition ValidateIntegrity :: "PreparedReceipt \<Rightarrow> goerr + unit" where
  "ValidateIntegrity receipt =
     (if pr_FormatVersion receipt \<noteq> 3 then Inl (E ''cell v3 prepared receipt format version is invalid'')
      else if \<not> matchString cellV3SafeIDPattern (pr_CredentialID receipt)
      then Inl (E ''cell v3 prepared receipt credential id is invalid'')
      else if blank (map byte (pr_NativeCredentialID receipt))
      then Inl (E ''cell v3 prepared receipt native credential id is invalid'')
      else if \<not> matchString setupDigestPattern (pr_BindingDigest receipt)
      then Inl (E ''cell v3 prepared receipt binding digest is invalid'')
      else let binding = bindingDigest (pr_PreparedTuple receipt) (pr_CredentialID receipt)
             (pr_NativeCredentialID receipt) in
        if pr_BindingDigest receipt \<noteq> binding
        then Inl (E ''cell v3 prepared receipt binding digest is inconsistent'')
        else if pr_PreparedReceiptDigest receipt \<noteq>
          preparedReceiptDigest (pr_PreparedTuple receipt) (pr_CredentialID receipt)
            (pr_NativeCredentialID receipt) binding
        then Inl (E ''cell v3 prepared receipt digest is inconsistent'')
        else ok)"

definition Receipt_ValidateFor :: "PreparedReceipt \<Rightarrow> CellServiceV3 \<Rightarrow> goerr + unit" where
  "Receipt_ValidateFor receipt entry =
     (if pr_FormatVersion receipt \<noteq> 3 then Inl (E ''cell v3 prepared receipt format version is invalid'')
      else bindE (PreparedTuple_of entry) (\<lambda>expectedTuple.
        if canonicalMap (pr_PreparedTuple receipt) \<noteq> canonicalMap expectedTuple
        then Inl (E ''cell v3 prepared receipt tuple does not match the entry'')
        else ValidateIntegrity receipt))"

definition View_ValidateFor :: "CellPreparationView \<Rightarrow> CellServiceV3 \<Rightarrow> PreparedReceipt \<Rightarrow> goerr + unit" where
  "View_ValidateFor view entry receipt =
     (if pv_PreparationID view \<noteq> v3_PreparationID entry \<or> pv_TargetKind view \<noteq> ''cell_session'' \<or>
         pv_LifecyclePhase view \<noteq> ''prepare'' \<or> pv_State view \<noteq> ''prepared'' \<or>
         pv_OperationID view \<noteq> v3_LaunchOperationID entry \<or>
         pv_SandboxGeneration view \<noteq> v3_SandboxGeneration entry \<or>
         pv_ControllerID view \<noteq> v3_ControllerID entry \<or>
         pv_ControllerRevision view \<noteq> v3_ControllerRevision entry \<or>
         pv_AuthorityRevision view \<noteq> v3_AuthorityRevision entry \<or>
         pv_WorkspaceDigest view \<noteq> pt_WorkspaceDigest (pr_PreparedTuple receipt) \<or>
         pv_CredentialBindingDigest view \<noteq> CredentialBinding_digest (v3_CredentialBinding entry) \<or>
         pv_PreparedReceiptDigest view \<noteq> pr_PreparedReceiptDigest receipt \<or>
         pv_CredentialID view \<noteq> pr_CredentialID receipt \<or>
         pv_NativeCredentialID view \<noteq> pr_NativeCredentialID receipt
      then Inl (E ''backend cell preparation acknowledgement identity mismatch'') else ok)"

definition ValidateExecutionAuthority :: "CellServiceV3 \<Rightarrow> PreparedReceipt \<Rightarrow> goerr + unit" where
  "ValidateExecutionAuthority entry receipt =
     (if v3_LifecyclePhase entry \<noteq> ''execute''
      then Inl (E ''cell v3 execution requires separately issued authority'')
      else case (v3_ExecutionGrant entry, v3_PreparedReceiptDigest entry) of
        (Some grant, Some digest) \<Rightarrow>
          bindE (Receipt_ValidateFor receipt entry) (\<lambda>_.
            if digest \<noteq> pr_PreparedReceiptDigest receipt
            then Inl (E ''cell v3 execution does not match the accepted preparation'')
            else validateAgainst grant entry)
      | _ \<Rightarrow> Inl (E ''cell v3 execution requires separately issued authority''))"

definition preparation_normalize :: "CellServiceV3 \<Rightarrow> CellServiceV3" where
  "preparation_normalize value = value\<lparr>v3_DesiredState := [], v3_DesiredRevision := 0, v3_ActionRevision := 0,
     v3_LifecyclePhase := [], v3_PreparedReceiptDigest := None, v3_ExecutionGrant := None\<rparr>"

definition SamePreparationIdentity :: "CellServiceV3 \<Rightarrow> CellServiceV3 \<Rightarrow> bool" where
  "SamePreparationIdentity entry other \<longleftrightarrow> preparation_normalize entry = preparation_normalize other"

definition SamePreparationIdentityExceptSessionMode :: "CellServiceV3 \<Rightarrow> CellServiceV3 \<Rightarrow> bool" where
  "SamePreparationIdentityExceptSessionMode entry other =
     SamePreparationIdentity (entry\<lparr>v3_SessionMode := []\<rparr>) (other\<lparr>v3_SessionMode := []\<rparr>)"

definition ValidCellV3SessionMode :: "string \<Rightarrow> bool" where
  "ValidCellV3SessionMode mode \<longleftrightarrow> mode = ''create_initial'' \<or> mode = ''lookup_only''"

section \<open>The loops of ValidateManifest\<close>

text \<open>\<open>seenCellServices\<close>, and \<open>seenCellV3Operations\<close> beside it in the second loop.\<close>

definition cell_v2_step ::
  "(string \<rightharpoonup> int) \<Rightarrow> (string \<rightharpoonup> SetupOperation) \<Rightarrow> string set \<Rightarrow> ManagedServiceV2 \<Rightarrow> goerr + string set" where
  "cell_v2_step sandboxGenerations setupByID seen entry =
     (let profile = setupByID (vp_SetupOperationID (v2_Profile entry));
          sandboxExists = (sandboxGenerations (v2_SandboxID entry) \<noteq> None);
          generation = (case sandboxGenerations (v2_SandboxID entry) of None \<Rightarrow> 0 | Some g \<Rightarrow> g);
          err = ValidateManagedServiceV2 entry generation sandboxExists profile
      in if v2_ServiceRegistrationID entry \<in> seen then Inl (E ''invalid cell service'')
         else if \<not> accepted err then Inl (joinE (E ''invalid cell service'') err)
         else Inr (insert (v2_ServiceRegistrationID entry) seen))"

definition cell_v3_step ::
  "(string \<rightharpoonup> int) \<Rightarrow> (string \<rightharpoonup> SetupOperation) \<Rightarrow> string set \<times> string set \<Rightarrow> CellServiceV3 \<Rightarrow>
   goerr + string set \<times> string set" where
  "cell_v3_step sandboxGenerations setupByID acc entry =
     (let (seen, operations) = acc;
          profile = setupByID (vp_SetupOperationID (v3_Profile entry));
          sandboxExists = (sandboxGenerations (v3_SandboxID entry) \<noteq> None);
          generation = (case sandboxGenerations (v3_SandboxID entry) of None \<Rightarrow> 0 | Some g \<Rightarrow> g);
          err = ValidateManagedServiceV3 entry generation sandboxExists profile
      in if v3_ServiceRegistrationID entry \<in> seen \<or> v3_OperationID entry \<in> operations
         then Inl (E ''invalid cell service'')
         else if \<not> accepted err then Inl (joinE (E ''invalid cell service'') err)
         else Inr (insert (v3_ServiceRegistrationID entry) seen, insert (v3_OperationID entry) operations))"

end
