(* ===== verification/Model_Cell_Laws.thy ===== *)
theory Model_Cell_Laws
  imports Model_Cell
begin

text \<open>
  What the cell validators of \<open>Model_Cell\<close> guarantee: the shape of derived ids and digests, the
  exact meaning of an accepted grant and of a renewal, what an accepted formatVersion 3 entry carries in each
  phase, that a receipt fixes the prepared tuple, and what the two cell loops accept.
\<close>

section \<open>Shapes\<close>

lemma derived_session_shape: "ValidCellNativeSessionID (fst (deriveNativeIDs op))"
proof -
  have "list_all (in_cls (upper @ digit)) (base32_nopad (sha256 op)) \<and> length (base32_nopad (sha256 op)) = 52"
    using base32_shape [of "sha256 op"] by simp
  moreover have "in_cls (alnum @ chars ''_-'') c" if "in_cls (upper @ digit) c" for c
    using that by (auto simp: in_cls_def alnum_def)
  ultimately have "list_all (in_cls (alnum @ chars ''_-'')) (base32_nopad (sha256 op)) \<and>
      length (base32_nopad (sha256 op)) = 52"
    by (auto simp: list_all_iff)
  then show ?thesis
    by (simp add: ValidCellNativeSessionID_def cellNativeSessionIDPattern_def deriveNativeIDs_def Let_def
        matchString_iff mat_shapes)
qed

lemma sha256_string_shape: "matchString setupDigestPattern (sha256_string payload)"
  using hex_string_shape [of "sha256 payload"] sha256_bound [of _ payload]
  by (auto simp: sha256_string_def match_digest)

lemma canonical_digest_shape: "matchString setupDigestPattern (canonicalSHA256 v)"
  by (simp add: canonicalSHA256_def sha256_string_shape)

lemma derived_ids_share_suffix:
  "\<exists>suffix. deriveNativeIDs op = (''ses_'' @ suffix, ''msg_'' @ suffix)"
  by (simp add: deriveNativeIDs_def Let_def)

section \<open>Grants\<close>

text \<open>A grant that names exactly the entry it authorises.\<close>

definition grant_binds :: "CellExecutionGrantV3 \<Rightarrow> CellServiceV3 \<Rightarrow> bool" where
  "grant_binds g e \<longleftrightarrow>
     eg_OperationID g = v3_LaunchOperationID e \<and> (eg_SessionID g, eg_InputID g) = deriveNativeIDs (v3_LaunchOperationID e) \<and>
     eg_SessionID g = v3_NativeSessionID e \<and> eg_ControllerID g = v3_ControllerID e \<and>
     eg_ControllerRevision g = v3_ControllerRevision e \<and> eg_AuthorityRevision g = v3_AuthorityRevision e \<and>
     eg_Attempt g = v3_Attempt e \<and> eg_Fence g = v3_Fence e \<and>
     \<lparr>kp_ParentExecutionID = eg_ParentExecutionID g, kp_ParentPacketID = eg_ParentPacketID g,
      kp_PacketID = eg_PacketID g, kp_PacketRevision = eg_PacketRevision g\<rparr> = v3_ParentIdentity e \<and>
     eg_ConfigDigest g = v3_ConfigDigest e \<and> eg_ProfileDigest g = vp_ProfileDigest (v3_Profile e) \<and>
     eg_WorkspaceDigest g = workspaceIdentityDigest (v3_Workspace e) \<and>
     eg_CredentialBindingDigest g = CredentialBinding_digest (v3_CredentialBinding e) \<and>
     v3_PreparedReceiptDigest e = Some (eg_PreparedReceiptDigest g)"

lemma grant_accepted:
  "accepted (validateAgainst g e) \<longleftrightarrow>
     grant_binds g e \<and> matchString cellV3SafeIDPattern (eg_GrantID g) \<and>
     eg_WorkspaceDigest g \<noteq> vw_RootAttestation (v3_Workspace e) \<and> parseRFC3339 (eg_ExpiresAt g) \<noteq> None"
proof -
  obtain s i where d: "deriveNativeIDs (v3_LaunchOperationID e) = (s, i)" by fastforce
  have p: "\<lparr>kp_ParentExecutionID = eg_ParentExecutionID g, kp_ParentPacketID = eg_ParentPacketID g,
      kp_PacketID = eg_PacketID g, kp_PacketRevision = eg_PacketRevision g\<rparr> = v3_ParentIdentity e \<longleftrightarrow>
      eg_ParentExecutionID g = kp_ParentExecutionID (v3_ParentIdentity e) \<and>
      eg_ParentPacketID g = kp_ParentPacketID (v3_ParentIdentity e) \<and>
      eg_PacketID g = kp_PacketID (v3_ParentIdentity e) \<and>
      eg_PacketRevision g = kp_PacketRevision (v3_ParentIdentity e)"
    by (cases "v3_ParentIdentity e") auto
  show ?thesis
    unfolding validateAgainst_def grant_binds_def p d Let_def prod.case accepted_if_error
      nilableStringEqual_iff accepted_simps prod.inject
    by argo
qed

text \<open>The fields that a renewal may change are the grant id and the expiry.\<close>

lemma renews_iff:
  "Renews g o' \<longleftrightarrow>
     eg_GrantID g \<noteq> [] \<and> eg_GrantID o' \<noteq> [] \<and> eg_GrantID g \<noteq> eg_GrantID o' \<and>
     g = o'\<lparr>eg_GrantID := eg_GrantID g, eg_ExpiresAt := eg_ExpiresAt g\<rparr> \<and>
     (\<exists>t u. parseRFC3339 (eg_ExpiresAt g) = Some t \<and> parseRFC3339 (eg_ExpiresAt o') = Some u \<and> u < t)"
proof -
  have "g = o'\<lparr>eg_GrantID := eg_GrantID g, eg_ExpiresAt := eg_ExpiresAt g\<rparr> \<longleftrightarrow>
      eg_OperationID g = eg_OperationID o' \<and> eg_SessionID g = eg_SessionID o' \<and>
      eg_InputID g = eg_InputID o' \<and> eg_ControllerID g = eg_ControllerID o' \<and>
      eg_ControllerRevision g = eg_ControllerRevision o' \<and> eg_AuthorityRevision g = eg_AuthorityRevision o' \<and>
      eg_Attempt g = eg_Attempt o' \<and> eg_Fence g = eg_Fence o' \<and>
      eg_ParentExecutionID g = eg_ParentExecutionID o' \<and> eg_ParentPacketID g = eg_ParentPacketID o' \<and>
      eg_PacketID g = eg_PacketID o' \<and> eg_PacketRevision g = eg_PacketRevision o' \<and>
      eg_ConfigDigest g = eg_ConfigDigest o' \<and> eg_ProfileDigest g = eg_ProfileDigest o' \<and>
      eg_WorkspaceDigest g = eg_WorkspaceDigest o' \<and>
      eg_CredentialBindingDigest g = eg_CredentialBindingDigest o' \<and>
      eg_PreparedReceiptDigest g = eg_PreparedReceiptDigest o'"
    by (cases g; cases o') auto
  then show ?thesis
    unfolding Renews_def nilableStringEqual_iff
    by (cases "parseRFC3339 (eg_ExpiresAt g)"; cases "parseRFC3339 (eg_ExpiresAt o')"; simp) argo+
qed

lemma renews_irrefl: "\<not> Renews g g"
  by (simp add: renews_iff)

lemma renews_expiry:
  "Renews g o' \<Longrightarrow> \<exists>t u. parseRFC3339 (eg_ExpiresAt g) = Some t \<and> parseRFC3339 (eg_ExpiresAt o') = Some u \<and> u < t"
  by (simp add: renews_iff)

lemma renews_asym: "Renews g o' \<Longrightarrow> \<not> Renews o' g"
  by (auto dest!: renews_expiry)

lemma renewal_binds: "Renews g o' \<Longrightarrow> grant_binds g e \<longleftrightarrow> grant_binds o' e"
proof -
  assume "Renews g o'"
  then have "g = o'\<lparr>eg_GrantID := eg_GrantID g, eg_ExpiresAt := eg_ExpiresAt g\<rparr>"
    by (simp add: renews_iff)
  moreover have "grant_binds (o'\<lparr>eg_GrantID := i, eg_ExpiresAt := x\<rparr>) e \<longleftrightarrow> grant_binds o' e" for i x
    by (simp add: grant_binds_def)
  ultimately show ?thesis by metis
qed

lemma renewal_workspace: "Renews g o' \<Longrightarrow> eg_WorkspaceDigest g = eg_WorkspaceDigest o'"
  by (simp add: Renews_def split: if_splits)

section \<open>Accepted formatVersion 3 entries\<close>

lemma v3_accepted_core:
  assumes "accepted (ValidateManagedServiceV3 e gen exists profile)"
  shows "exists \<and> gen = v3_SandboxGeneration e"
    and "\<not> cell_profile_bad profile (v3_SandboxID e) (v3_SandboxGeneration e) (v3_Profile e)"
    and "v3_NativeSessionID e = fst (deriveNativeIDs (v3_LaunchOperationID e))"
    and "validCellV3Authority (v3_Authority e)"
    and "accepted (validCellV3CredentialAuthority (v3_Authority e) (v3_CredentialBinding e))"
    and "v3_LifecyclePhase e = ''prepare'' \<or> v3_LifecyclePhase e = ''execute''"
  using assms unfolding ValidateManagedServiceV3_def accepted_if_error by argo+

lemma v3_accepted_phase:
  assumes "accepted (ValidateManagedServiceV3 e gen exists profile)"
  shows "v3_LifecyclePhase e = ''prepare'' \<and> v3_PreparedReceiptDigest e = None \<and> v3_ExecutionGrant e = None \<or>
     v3_LifecyclePhase e = ''execute'' \<and>
       (\<exists>g receipt. v3_ExecutionGrant e = Some g \<and> v3_PreparedReceiptDigest e = Some receipt \<and>
          matchString setupDigestPattern receipt \<and> accepted (validateAgainst g e))"
proof -
  have "accepted (if v3_LifecyclePhase e = ''prepare'' then
        (if v3_PreparedReceiptDigest e \<noteq> None \<or> v3_ExecutionGrant e \<noteq> None
         then Inl (E ''cell v3 prepare entry must not carry a grant or receipt digest'') else ok)
      else case v3_PreparedReceiptDigest e of
        None \<Rightarrow> Inl (E ''cell v3 execute entry requires a prepared receipt digest'')
      | Some receipt \<Rightarrow>
          if \<not> matchString setupDigestPattern receipt
          then Inl (E ''cell v3 execute entry requires a prepared receipt digest'')
          else case v3_ExecutionGrant e of
            None \<Rightarrow> Inl (E ''cell v3 execute entry requires an execution grant'')
          | Some grant \<Rightarrow> validateAgainst grant e)"
    using assms unfolding ValidateManagedServiceV3_def accepted_if_error by (elim conjE) assumption
  with v3_accepted_core(6) [OF assms] show ?thesis
    by (auto split: if_splits option.splits)
qed

lemma profile_exactly_ready:
  "\<not> cell_profile_bad profile sid gen p \<longleftrightarrow>
     (\<exists>op. profile = Some op \<and> so_SandboxID op = sid \<and> so_SandboxGeneration op = gen \<and>
        so_ProfileID op = vp_ProfileID p \<and> so_ProfileRevision op = vp_ProfileRevision p \<and>
        so_ProfileDigest op = vp_ProfileDigest p)"
  by (auto simp: cell_profile_bad_def split: option.splits)

section \<open>Receipts\<close>

lemma jopt_inj [simp]: "jopt a = jopt b \<longleftrightarrow> a = b"
  by (auto simp: jopt_def split: option.splits)

lemma binding_json_inj: "binding_json a = binding_json b \<longleftrightarrow> a = b"
  by (cases a; cases b) (auto simp: binding_json_def)

lemma canonicalMap_inj: "canonicalMap a = canonicalMap b \<longleftrightarrow> a = b"
proof
  assume h: "canonicalMap a = canonicalMap b"
  then have "pt_CredentialBinding a = pt_CredentialBinding b"
    by (simp add: canonicalMap_def binding_json_inj)
  moreover have "pt_Authority a = pt_Authority b"
    using h by (cases "pt_Authority a"; cases "pt_Authority b") (simp add: canonicalMap_def)
  ultimately show "a = b" using h by (cases a; cases b) (simp add: canonicalMap_def)
qed simp

lemma receipt_accepted:
  "accepted (Receipt_ValidateFor r e) \<longleftrightarrow>
     PreparedTuple_of e = Inr (pr_PreparedTuple r) \<and> accepted (ValidateIntegrity r)"
proof (cases "PreparedTuple_of e")
  case (Inr t)
  have "pr_FormatVersion r = 3" if "accepted (ValidateIntegrity r)"
    using that unfolding ValidateIntegrity_def accepted_if_error by argo
  with Inr show ?thesis
    unfolding Receipt_ValidateFor_def accepted_if_error by (auto simp: canonicalMap_inj)
qed (simp add: Receipt_ValidateFor_def)

lemma integrity_accepted:
  "accepted (ValidateIntegrity r) \<longleftrightarrow>
     pr_FormatVersion r = 3 \<and> matchString cellV3SafeIDPattern (pr_CredentialID r) \<and>
     \<not> blank (map byte (pr_NativeCredentialID r)) \<and>
     pr_BindingDigest r = bindingDigest (pr_PreparedTuple r) (pr_CredentialID r) (pr_NativeCredentialID r) \<and>
     pr_PreparedReceiptDigest r = preparedReceiptDigest (pr_PreparedTuple r) (pr_CredentialID r)
       (pr_NativeCredentialID r) (pr_BindingDigest r)"
proof -
  have "matchString setupDigestPattern (bindingDigest t c n)" for t c n
    by (simp add: bindingDigest_def canonical_digest_shape)
  then show ?thesis
    unfolding ValidateIntegrity_def Let_def accepted_if_error accepted_simps by metis
qed

lemma execution_accepted:
  "accepted (ValidateExecutionAuthority e r) \<longleftrightarrow>
     v3_LifecyclePhase e = ''execute'' \<and>
     (\<exists>g. v3_ExecutionGrant e = Some g \<and> v3_PreparedReceiptDigest e = Some (pr_PreparedReceiptDigest r) \<and>
        accepted (Receipt_ValidateFor r e) \<and> accepted (validateAgainst g e))"
proof (cases "v3_ExecutionGrant e")
  case None
  then show ?thesis by (simp add: ValidateExecutionAuthority_def)
next
  case g: (Some g)
  show ?thesis
  proof (cases "v3_PreparedReceiptDigest e")
    case None
    with g show ?thesis by (simp add: ValidateExecutionAuthority_def)
  next
    case (Some d)
    with g show ?thesis by (auto simp: ValidateExecutionAuthority_def accepted_bindE_ignore)
  qed
qed

lemma prepared_tuple_fields:
  assumes "PreparedTuple_of e = Inr t"
  shows "pt_OperationID t = v3_LaunchOperationID e" and "pt_Attempt t = v3_Attempt e"
    and "pt_Fence t = v3_Fence e" and "pt_SandboxGeneration t = v3_SandboxGeneration e"
    and "pt_WorkspaceDigest t = workspaceIdentityDigest (v3_Workspace e)"
    and "pt_CredentialBinding t = v3_CredentialBinding e"
  using assms by (auto simp: PreparedTuple_of_def split: option.splits if_splits)

lemma accepted_has_tuple:
  assumes "accepted (ValidateManagedServiceV3 e gen exists profile)"
  shows "\<exists>t. PreparedTuple_of e = Inr t"
  using v3_accepted_core(4,5) [OF assms]
  by (cases "v3_Authority e") (auto simp: PreparedTuple_of_def validCellV3CredentialAuthority_def)

text \<open>The preparation identity is an equivalence that the prepared tuple respects.\<close>

lemma same_preparation_tuple:
  assumes "SamePreparationIdentity a b"
  shows "PreparedTuple_of a = PreparedTuple_of b"
proof -
  have "PreparedTuple_of (preparation_normalize x) = PreparedTuple_of x" for x
    by (cases "v3_Authority x") (simp_all add: PreparedTuple_of_def preparation_normalize_def)
  with assms show ?thesis unfolding SamePreparationIdentity_def by metis
qed

lemma same_preparation_equiv:
  "equivp SamePreparationIdentity"
  unfolding SamePreparationIdentity_def by (rule equivpI) (auto simp: reflp_def symp_def transp_def)

section \<open>The cell loops\<close>

definition cell_v2_ok :: "(string \<rightharpoonup> int) \<Rightarrow> (string \<rightharpoonup> SetupOperation) \<Rightarrow> ManagedServiceV2 \<Rightarrow> bool" where
  "cell_v2_ok gens setups e \<longleftrightarrow>
     accepted (ValidateManagedServiceV2 e (case gens (v2_SandboxID e) of None \<Rightarrow> 0 | Some g \<Rightarrow> g)
       (gens (v2_SandboxID e) \<noteq> None) (setups (vp_SetupOperationID (v2_Profile e))))"

definition cell_v3_ok :: "(string \<rightharpoonup> int) \<Rightarrow> (string \<rightharpoonup> SetupOperation) \<Rightarrow> CellServiceV3 \<Rightarrow> bool" where
  "cell_v3_ok gens setups e \<longleftrightarrow>
     accepted (ValidateManagedServiceV3 e (case gens (v3_SandboxID e) of None \<Rightarrow> 0 | Some g \<Rightarrow> g)
       (gens (v3_SandboxID e) \<noteq> None) (setups (vp_SetupOperationID (v3_Profile e))))"

interpretation cell_v2_loop: key_set_loop "cell_v2_step gens setups" "cell_v2_ok gens setups"
  v2_ServiceRegistrationID
  for gens setups
  by unfold_locales (auto simp: cell_v2_step_def cell_v2_ok_def Let_def)

lemma cell_v3_step_Inr:
  "cell_v3_step gens setups (seen, ops) e = Inr t \<longleftrightarrow>
     cell_v3_ok gens setups e \<and> v3_ServiceRegistrationID e \<notin> seen \<and> v3_OperationID e \<notin> ops \<and>
     t = (insert (v3_ServiceRegistrationID e) seen, insert (v3_OperationID e) ops)"
  unfolding cell_v3_step_def cell_v3_ok_def Let_def by auto

interpretation cell_v3_loop: prefix_loop "cell_v3_step gens setups"
  "\<lambda>p s. s = (seen0 \<union> v3_ServiceRegistrationID ` set p, v3_OperationID ` set p)"
  "\<lambda>p e. cell_v3_ok gens setups e \<and> v3_ServiceRegistrationID e \<notin> seen0 \<union> v3_ServiceRegistrationID ` set p \<and>
     v3_OperationID e \<notin> v3_OperationID ` set p"
  for gens setups seen0
  by unfold_locales (auto simp: accepted_iff cell_v3_step_Inr)

lemma admits_v3:
  "admits (\<lambda>p e. ok_e e \<and> k e \<notin> A \<union> k ` set p \<and> h e \<notin> h ` set p) p es \<longleftrightarrow>
     (\<forall>e\<in>set es. ok_e e) \<and> distinct (map k es) \<and> distinct (map h es) \<and>
     k ` set es \<inter> (A \<union> k ` set p) = {} \<and> h ` set es \<inter> h ` set p = {}"
  by (induction es arbitrary: p) auto

lemma cell_v3_accepted:
  "accepted (foldE (cell_v3_step gens setups) (seen, {}) es) \<longleftrightarrow>
     (\<forall>e\<in>set es. cell_v3_ok gens setups e) \<and> distinct (map v3_ServiceRegistrationID es) \<and>
     distinct (map v3_OperationID es) \<and> v3_ServiceRegistrationID ` set es \<inter> seen = {}"
proof -
  have "accepted (foldE (cell_v3_step gens setups) (seen, {}) es) \<longleftrightarrow>
      admits (\<lambda>p e. cell_v3_ok gens setups e \<and>
        v3_ServiceRegistrationID e \<notin> seen \<union> v3_ServiceRegistrationID ` set p \<and>
        v3_OperationID e \<notin> v3_OperationID ` set p) [] es"
    by (rule cell_v3_loop.loop_refines) simp
  then show ?thesis by (simp only: admits_v3 list.set image_empty Un_empty_right Int_empty_right) simp
qed

end
