(* ===== verification/Model_Sandbox.thy ===== *)
theory Model_Sandbox
  imports Model_Patterns
begin

text \<open>
  Sandboxes, their resources and the access grants to them: the data of
  \<open>internal/model/model.go\<close>, the capacity computation of \<open>internal/capacity/capacity.go\<close>, and
  the two loops of \<open>ValidateManifest\<close> that check them. \<open>sandbox_step\<close> and \<open>grant_step\<close> are
  the bodies of the loops, with the loop variables as a record.
\<close>

section \<open>Data\<close>

record Resources =
  r_CPUMillicores :: "int"
  r_MemoryMiB :: "int"
  r_WorkspaceDiskGiB :: "int"
  r_PIDs :: "int"

record Sandbox =
  sb_ID :: "string"
  sb_Name :: "string"
  sb_Size :: "string"
  sb_Resources :: "Resources"
  sb_ImageDigest :: "string"
  sb_Lifetime :: "string"
  sb_ExpiresInSeconds :: "int option"
  sb_StartedAt :: "gotime option"
  sb_ExpiresAt :: "gotime option"
  sb_DesiredState :: "string"
  sb_Generation :: "int"
  sb_Cell :: "bool"

record AccessGrant =
  ag_ID :: "string"
  ag_SandboxID :: "string"
  ag_SSHPublicKey :: "string"
  ag_SSHFingerprint :: "string"
  ag_DesiredState :: "string"

definition Resources_Add :: "Resources \<Rightarrow> Resources \<Rightarrow> Resources" where
  "Resources_Add r other =
     \<lparr>r_CPUMillicores = wrap64 (r_CPUMillicores r + r_CPUMillicores other),
      r_MemoryMiB = wrap64 (r_MemoryMiB r + r_MemoryMiB other),
      r_WorkspaceDiskGiB = wrap64 (r_WorkspaceDiskGiB r + r_WorkspaceDiskGiB other),
      r_PIDs = wrap64 (r_PIDs r + r_PIDs other)\<rparr>"

definition Fits :: "Resources \<Rightarrow> Resources \<Rightarrow> bool" where
  "Fits r capacity \<longleftrightarrow>
     r_CPUMillicores r \<le> r_CPUMillicores capacity \<and>
     r_MemoryMiB r \<le> r_MemoryMiB capacity \<and>
     r_WorkspaceDiskGiB r \<le> r_WorkspaceDiskGiB capacity"

definition noResources :: Resources where
  "noResources = \<lparr>r_CPUMillicores = 0, r_MemoryMiB = 0, r_WorkspaceDiskGiB = 0, r_PIDs = 0\<rparr>"

section \<open>Capacity of the host\<close>

definition hostCPUReserveMillicores :: int where "hostCPUReserveMillicores = 500"
definition hostMemoryReserveMiB :: int where "hostMemoryReserveMiB = 512"
definition hostDiskReserveGiB :: int where "hostDiskReserveGiB = 5"

definition max_int :: "int \<Rightarrow> int \<Rightarrow> int" where
  "max_int left right = (if left > right then left else right)"

definition allocatable :: "int \<Rightarrow> int \<Rightarrow> int \<Rightarrow> Resources" where
  "allocatable cpuCount memoryMiB diskGiB =
     \<lparr>r_CPUMillicores = max_int 0 (wrap64 (wrap64 (cpuCount * 1000) - hostCPUReserveMillicores)),
      r_MemoryMiB = max_int 0 (wrap64 (memoryMiB - hostMemoryReserveMiB)),
      r_WorkspaceDiskGiB = max_int 0 (wrap64 (diskGiB - hostDiskReserveGiB)),
      r_PIDs = 32768\<rparr>"

section \<open>The sandbox loop\<close>

definition MinTemporarySeconds :: int where "MinTemporarySeconds = 900"
definition MaxTemporarySeconds :: int where "MaxTemporarySeconds = 86400"

definition validDesired :: "string \<Rightarrow> bool" where
  "validDesired s \<longleftrightarrow> s = ''running'' \<or> s = ''stopped'' \<or> s = ''deleted''"

text \<open>The loop variables of the sandbox loop.\<close>

record sandbox_acc =
  seenIDs :: "string set"
  seenNames :: "string set"
  sandboxStates :: "string \<rightharpoonup> string"
  sandboxGenerations :: "string \<rightharpoonup> int"
  allocated :: Resources

definition sandbox_acc0 :: sandbox_acc where
  "sandbox_acc0 = \<lparr>seenIDs = {}, seenNames = {}, sandboxStates = Map.empty,
     sandboxGenerations = Map.empty, allocated = noResources\<rparr>"

definition lifetime_error :: "Sandbox \<Rightarrow> goerr option" where
  "lifetime_error sb =
     (if sb_Lifetime sb = ''persistent'' then
        if sb_ExpiresInSeconds sb \<noteq> None \<or> sb_ExpiresAt sb \<noteq> None
        then Some (E (''persistent sandbox '' @ sb_ID sb @ '' has expiration'')) else None
      else if sb_Lifetime sb = ''temporary'' then
        (case sb_ExpiresInSeconds sb of
           None \<Rightarrow> Some (E (''temporary sandbox '' @ sb_ID sb @ '' has invalid expiration''))
         | Some n \<Rightarrow> if n < MinTemporarySeconds \<or> n > MaxTemporarySeconds
                     then Some (E (''temporary sandbox '' @ sb_ID sb @ '' has invalid expiration''))
                     else None)
      else Some (E (''invalid lifetime for '' @ sb_ID sb)))"

definition allocate :: "Resources \<Rightarrow> Sandbox \<Rightarrow> Resources" where
  "allocate a sb =
     (if sb_DesiredState sb \<noteq> ''deleted'' then
        let a = a\<lparr>r_WorkspaceDiskGiB := wrap64 (r_WorkspaceDiskGiB a + r_WorkspaceDiskGiB (sb_Resources sb))\<rparr>
        in if sb_DesiredState sb = ''running'' then
             a\<lparr>r_CPUMillicores := wrap64 (r_CPUMillicores a + r_CPUMillicores (sb_Resources sb)),
               r_MemoryMiB := wrap64 (r_MemoryMiB a + r_MemoryMiB (sb_Resources sb))\<rparr>
           else a
      else a)"

definition sandbox_step :: "sandbox_acc \<Rightarrow> Sandbox \<Rightarrow> goerr + sandbox_acc" where
  "sandbox_step acc sb =
     (if \<not> matchString idPattern (sb_ID sb) \<or> \<not> matchString namePattern (sb_Name sb)
      then Inl (EQuoted ''invalid sandbox identity '' (sb_ID sb))
      else if sb_ID sb \<in> seenIDs acc \<or> sb_Name sb \<in> seenNames acc
      then Inl (E ''duplicate sandbox identity'')
      else if \<not> validDesired (sb_DesiredState sb) \<or> sb_Generation sb < 1
      then Inl (E (''invalid desired state for '' @ sb_ID sb))
      else if sb_ImageDigest sb \<noteq> [] \<and> \<not> matchString imagePattern (sb_ImageDigest sb)
      then Inl (E (''invalid image digest for '' @ sb_ID sb))
      else if r_CPUMillicores (sb_Resources sb) < 1 \<or> r_MemoryMiB (sb_Resources sb) < 1 \<or>
        r_WorkspaceDiskGiB (sb_Resources sb) < 1 \<or> r_PIDs (sb_Resources sb) < 1
      then Inl (E (''invalid resource snapshot for '' @ sb_ID sb))
      else case lifetime_error sb of
        Some e \<Rightarrow> Inl e
      | None \<Rightarrow> Inr \<lparr>seenIDs = insert (sb_ID sb) (seenIDs acc),
          seenNames = insert (sb_Name sb) (seenNames acc),
          sandboxStates = (sandboxStates acc)(sb_ID sb \<mapsto> sb_DesiredState sb),
          sandboxGenerations = (sandboxGenerations acc)(sb_ID sb \<mapsto> sb_Generation sb),
          allocated = allocate (allocated acc) sb\<rparr>)"

subsection \<open>What the loop accepts\<close>

text \<open>A sandbox entry that is well formed by itself.\<close>

definition sandbox_ok :: "Sandbox \<Rightarrow> bool" where
  "sandbox_ok sb \<longleftrightarrow>
     matchString idPattern (sb_ID sb) \<and> matchString namePattern (sb_Name sb) \<and>
     validDesired (sb_DesiredState sb) \<and> 1 \<le> sb_Generation sb \<and>
     (sb_ImageDigest sb = [] \<or> matchString imagePattern (sb_ImageDigest sb)) \<and>
     1 \<le> r_CPUMillicores (sb_Resources sb) \<and> 1 \<le> r_MemoryMiB (sb_Resources sb) \<and>
     1 \<le> r_WorkspaceDiskGiB (sb_Resources sb) \<and> 1 \<le> r_PIDs (sb_Resources sb) \<and>
     (sb_Lifetime sb = ''persistent'' \<and> sb_ExpiresInSeconds sb = None \<and> sb_ExpiresAt sb = None \<or>
      sb_Lifetime sb = ''temporary'' \<and>
        (\<exists>n. sb_ExpiresInSeconds sb = Some n \<and> MinTemporarySeconds \<le> n \<and> n \<le> MaxTemporarySeconds))"

definition same_sandbox :: "Sandbox \<Rightarrow> Sandbox \<Rightarrow> bool" where
  "same_sandbox x y \<longleftrightarrow> sb_ID x = sb_ID y \<or> sb_Name x = sb_Name y"

lemma lifetime_error_None:
  "lifetime_error sb = None \<longleftrightarrow>
     (sb_Lifetime sb = ''persistent'' \<and> sb_ExpiresInSeconds sb = None \<and> sb_ExpiresAt sb = None \<or>
      sb_Lifetime sb = ''temporary'' \<and>
        (\<exists>n. sb_ExpiresInSeconds sb = Some n \<and> MinTemporarySeconds \<le> n \<and> n \<le> MaxTemporarySeconds))"
  by (auto simp: lifetime_error_def split: option.splits if_splits)

lemma sandbox_step_Inr:
  "sandbox_step acc sb = Inr t \<longleftrightarrow>
     sandbox_ok sb \<and> sb_ID sb \<notin> seenIDs acc \<and> sb_Name sb \<notin> seenNames acc \<and>
     t = \<lparr>seenIDs = insert (sb_ID sb) (seenIDs acc), seenNames = insert (sb_Name sb) (seenNames acc),
          sandboxStates = (sandboxStates acc)(sb_ID sb \<mapsto> sb_DesiredState sb),
          sandboxGenerations = (sandboxGenerations acc)(sb_ID sb \<mapsto> sb_Generation sb),
          allocated = allocate (allocated acc) sb\<rparr>"
  unfolding sandbox_step_def sandbox_ok_def lifetime_error_None [symmetric]
  by (auto split: option.splits)

interpretation sandbox_loop: guarded_loop sandbox_step sandbox_ok
  "\<lambda>acc sb. sb_ID sb \<notin> seenIDs acc \<and> sb_Name sb \<notin> seenNames acc" same_sandbox sandbox_acc0
  by unfold_locales (auto simp: accepted_iff sandbox_step_Inr same_sandbox_def sandbox_acc0_def)

lemma sandboxes_accepted [accept_iffs]:
  "accepted (foldE sandbox_step sandbox_acc0 sbs) \<longleftrightarrow>
     (\<forall>sb\<in>set sbs. sandbox_ok sb) \<and> distinct (map sb_ID sbs) \<and> distinct (map sb_Name sbs)"
proof -
  have "sorted_wrt (\<lambda>x y. \<not> same_sandbox x y) sbs \<longleftrightarrow>
      distinct (map sb_ID sbs) \<and> distinct (map sb_Name sbs)"
    unfolding distinct_sorted_wrt same_sandbox_def by (induction sbs) auto
  then show ?thesis by (simp add: sandbox_loop.loop_accepts)
qed

subsection \<open>What the loop leaves in its variables\<close>

definition generation_of :: "Sandbox list \<Rightarrow> string \<Rightarrow> int option" where
  "generation_of sbs = map_of (map (\<lambda>sb. (sb_ID sb, sb_Generation sb)) sbs)"

definition state_of :: "Sandbox list \<Rightarrow> string \<Rightarrow> string option" where
  "state_of sbs = map_of (map (\<lambda>sb. (sb_ID sb, sb_DesiredState sb)) sbs)"

lemma sandboxes_result:
  assumes "foldE sandbox_step sandbox_acc0 sbs = Inr t"
  shows "seenIDs t = sb_ID ` set sbs" and "sandboxGenerations t = generation_of sbs"
    and "sandboxStates t = state_of sbs" and "allocated t = foldl allocate noResources sbs"
proof -
  have d: "distinct (map sb_ID sbs)"
    using assms sandboxes_accepted [of sbs] by simp
  have "seenIDs t = foldl (\<lambda>A sb. insert (sb_ID sb) A) (seenIDs sandbox_acc0) sbs"
    using assms by (rule foldE_fold) (simp add: sandbox_step_Inr)
  moreover have "foldl (\<lambda>A sb. insert (sb_ID sb) A) A sbs = sb_ID ` set sbs \<union> A" for A
    by (induction sbs arbitrary: A) auto
  ultimately show "seenIDs t = sb_ID ` set sbs" by (simp add: sandbox_acc0_def)
  have "sandboxGenerations t =
      foldl (\<lambda>m sb. m(sb_ID sb \<mapsto> sb_Generation sb)) (sandboxGenerations sandbox_acc0) sbs"
    using assms by (rule foldE_fold) (simp add: sandbox_step_Inr)
  then show "sandboxGenerations t = generation_of sbs"
    using d by (simp add: sandbox_acc0_def generation_of_def foldl_upd_distinct)
  have "sandboxStates t =
      foldl (\<lambda>m sb. m(sb_ID sb \<mapsto> sb_DesiredState sb)) (sandboxStates sandbox_acc0) sbs"
    using assms by (rule foldE_fold) (simp add: sandbox_step_Inr)
  then show "sandboxStates t = state_of sbs"
    using d by (simp add: sandbox_acc0_def state_of_def foldl_upd_distinct)
  have "allocated t = foldl allocate (allocated sandbox_acc0) sbs"
    using assms by (rule foldE_fold) (simp add: sandbox_step_Inr)
  then show "allocated t = foldl allocate noResources sbs" by (simp add: sandbox_acc0_def)
qed

definition sandbox_result :: "Sandbox list \<Rightarrow> sandbox_acc" where
  "sandbox_result sbs = \<lparr>seenIDs = sb_ID ` set sbs, seenNames = sb_Name ` set sbs,
     sandboxStates = state_of sbs, sandboxGenerations = generation_of sbs,
     allocated = foldl allocate noResources sbs\<rparr>"

lemma sandboxes_known:
  assumes "foldE sandbox_step sandbox_acc0 sbs = Inr t"
  shows "t = sandbox_result sbs"
proof -
  have "seenNames t = foldl (\<lambda>A sb. insert (sb_Name sb) A) (seenNames sandbox_acc0) sbs"
    using assms by (rule foldE_fold) (simp add: sandbox_step_Inr)
  moreover have "foldl (\<lambda>A sb. insert (sb_Name sb) A) A sbs = sb_Name ` set sbs \<union> A" for A
    by (induction sbs arbitrary: A) auto
  ultimately have "seenNames t = sb_Name ` set sbs" by (simp add: sandbox_acc0_def)
  then show ?thesis using sandboxes_result [OF assms] by (simp add: sandbox_result_def)
qed

text \<open>The counters, and the sums they stand for.\<close>

definition cpu_demand :: "Sandbox \<Rightarrow> int" where
  "cpu_demand sb = (if sb_DesiredState sb = ''running'' then r_CPUMillicores (sb_Resources sb) else 0)"

definition memory_demand :: "Sandbox \<Rightarrow> int" where
  "memory_demand sb = (if sb_DesiredState sb = ''running'' then r_MemoryMiB (sb_Resources sb) else 0)"

definition disk_demand :: "Sandbox \<Rightarrow> int" where
  "disk_demand sb = (if sb_DesiredState sb \<noteq> ''deleted'' then r_WorkspaceDiskGiB (sb_Resources sb) else 0)"

lemma foldl_allocate:
  "in64 (r_CPUMillicores a) \<Longrightarrow> in64 (r_MemoryMiB a) \<Longrightarrow> in64 (r_WorkspaceDiskGiB a) \<Longrightarrow>
   r_CPUMillicores (foldl allocate a sbs) = wrap64 (r_CPUMillicores a + sum_list (map cpu_demand sbs)) \<and>
   r_MemoryMiB (foldl allocate a sbs) = wrap64 (r_MemoryMiB a + sum_list (map memory_demand sbs)) \<and>
   r_WorkspaceDiskGiB (foldl allocate a sbs) = wrap64 (r_WorkspaceDiskGiB a + sum_list (map disk_demand sbs))"
proof (induction sbs arbitrary: a)
  case Nil
  then show ?case by (simp add: wrap64_id)
next
  case (Cons sb sbs)
  have "in64 (r_CPUMillicores (allocate a sb)) \<and> in64 (r_MemoryMiB (allocate a sb)) \<and>
      in64 (r_WorkspaceDiskGiB (allocate a sb))"
    using Cons.prems by (simp add: allocate_def Let_def)
  then show ?case
    using Cons.IH [of "allocate a sb"]
    by (auto simp: allocate_def Let_def cpu_demand_def memory_demand_def disk_demand_def add.assoc)
qed

lemma allocated_sums:
  "r_CPUMillicores (foldl allocate noResources sbs) = wrap64 (sum_list (map cpu_demand sbs))"
  "r_MemoryMiB (foldl allocate noResources sbs) = wrap64 (sum_list (map memory_demand sbs))"
  "r_WorkspaceDiskGiB (foldl allocate noResources sbs) = wrap64 (sum_list (map disk_demand sbs))"
  using foldl_allocate [of noResources sbs] by (simp_all add: noResources_def in64_def min64_def max64_def)

lemma sum_list_bounded:
  fixes f :: "'a \<Rightarrow> int"
  assumes "\<And>x. x \<in> set xs \<Longrightarrow> 0 \<le> f x \<and> f x \<le> b"
  shows "0 \<le> sum_list (map f xs) \<and> sum_list (map f xs) \<le> int (length xs) * b"
  using assms
proof (induction xs)
  case Nil
  then show ?case by simp
next
  case (Cons a xs)
  then have "0 \<le> sum_list (map f xs) \<and> sum_list (map f xs) \<le> int (length xs) * b" by simp
  moreover have "0 \<le> f a \<and> f a \<le> b" by (rule Cons.prems) simp
  ultimately show ?case by (simp add: algebra_simps)
qed

section \<open>The grant loop\<close>

record grant_acc =
  seenGrants :: "string set"
  seenKeys :: "string set"
  grantsPerSandbox :: "string \<Rightarrow> int"

definition grant_acc0 :: grant_acc where
  "grant_acc0 = \<lparr>seenGrants = {}, seenKeys = {}, grantsPerSandbox = (\<lambda>_. 0)\<rparr>"

text \<open>
  \<open>known\<close> and \<open>states\<close> are \<open>seenIDs\<close> and \<open>sandboxStates\<close> of the sandbox loop. A missing entry of
  the Go map \<open>sandboxStates\<close> reads as the empty string, which is not \<open>deleted\<close>.
\<close>

definition grant_step ::
  "string set \<Rightarrow> (string \<rightharpoonup> string) \<Rightarrow> grant_acc \<Rightarrow> AccessGrant \<Rightarrow> goerr + grant_acc" where
  "grant_step known states acc g =
     (if \<not> matchString idPattern (ag_ID g) \<or> ag_SandboxID g \<notin> known
      then Inl (EQuoted ''invalid access grant '' (ag_ID g))
      else if ag_ID g \<in> seenGrants acc \<or>
        (ag_DesiredState g = ''active'' \<and> ag_SSHFingerprint g \<in> seenKeys acc)
      then Inl (E ''duplicate access grant or key mapping'')
      else if ag_DesiredState g \<noteq> ''active'' \<and> ag_DesiredState g \<noteq> ''revoked''
      then Inl (E (''invalid grant state for '' @ ag_ID g))
      else if ag_DesiredState g = ''active'' \<and> states (ag_SandboxID g) = Some ''deleted''
      then Inl (E (''active grant targets deleted sandbox '' @ ag_SandboxID g))
      else
        let acc1 = acc\<lparr>seenGrants := insert (ag_ID g) (seenGrants acc)\<rparr>
        in if ag_DesiredState g = ''active'' then
             let n = wrap64 (grantsPerSandbox acc1 (ag_SandboxID g) + 1);
                 acc2 = acc1\<lparr>seenKeys := insert (ag_SSHFingerprint g) (seenKeys acc1),
                   grantsPerSandbox := (grantsPerSandbox acc1)(ag_SandboxID g := n)\<rparr>
             in if n > 8 then Inl (E (''sandbox '' @ ag_SandboxID g @ '' exceeds grant limit''))
                else Inr acc2
           else Inr acc1)"

subsection \<open>What the grant loop accepts\<close>

definition active_on :: "string \<Rightarrow> AccessGrant \<Rightarrow> bool" where
  "active_on sid g \<longleftrightarrow> ag_DesiredState g = ''active'' \<and> ag_SandboxID g = sid"

definition grant_ok :: "string set \<Rightarrow> (string \<rightharpoonup> string) \<Rightarrow> AccessGrant \<Rightarrow> bool" where
  "grant_ok known states g \<longleftrightarrow>
     matchString idPattern (ag_ID g) \<and> ag_SandboxID g \<in> known \<and>
     (ag_DesiredState g = ''active'' \<or> ag_DesiredState g = ''revoked'') \<and>
     \<not> (ag_DesiredState g = ''active'' \<and> states (ag_SandboxID g) = Some ''deleted'')"

definition grant_rel :: "AccessGrant list \<Rightarrow> grant_acc \<Rightarrow> bool" where
  "grant_rel p s \<longleftrightarrow>
     seenGrants s = ag_ID ` set p \<and>
     seenKeys s = ag_SSHFingerprint ` {g \<in> set p. ag_DesiredState g = ''active''} \<and>
     (\<forall>sid. grantsPerSandbox s sid = int (length (filter (active_on sid) p)) \<and>
        length (filter (active_on sid) p) \<le> 8)"

definition grant_admit ::
  "string set \<Rightarrow> (string \<rightharpoonup> string) \<Rightarrow> AccessGrant list \<Rightarrow> AccessGrant \<Rightarrow> bool" where
  "grant_admit known states p g \<longleftrightarrow>
     grant_ok known states g \<and> ag_ID g \<notin> ag_ID ` set p \<and>
     (ag_DesiredState g = ''active'' \<longrightarrow>
        ag_SSHFingerprint g \<notin> ag_SSHFingerprint ` {h \<in> set p. ag_DesiredState h = ''active''} \<and>
        length (filter (active_on (ag_SandboxID g)) p) < 8)"

lemma grant_rel_wrap: "grant_rel p s \<Longrightarrow> wrap64 (grantsPerSandbox s sid + 1) = grantsPerSandbox s sid + 1"
  unfolding grant_rel_def by (rule wrap64_id) (auto simp: in64_def min64_def max64_def intro: order_trans)

interpretation grant_loop: prefix_loop "grant_step known states" grant_rel "grant_admit known states"
  for known states
proof unfold_locales
  fix p s g
  assume r: "grant_rel p s"
  then have c: "grantsPerSandbox s sid = int (length (filter (active_on sid) p))" for sid
    by (simp add: grant_rel_def)
  have w: "wrap64 (int (length (filter (active_on sid) p)) + 1) = int (length (filter (active_on sid) p)) + 1" for sid
    using grant_rel_wrap [OF r, of sid] by (simp add: c)
  show "accepted (grant_step known states s g) \<longleftrightarrow> grant_admit known states p g"
    using r unfolding grant_step_def grant_admit_def grant_ok_def Let_def
    by (auto simp: w c grant_rel_def)
next
  fix p s g t
  assume r: "grant_rel p s" and st: "grant_step known states s g = Inr t"
  have f: "filter (active_on sid) (p @ [g]) =
      filter (active_on sid) p @ (if active_on sid g then [g] else [])" for sid
    by simp
  show "grant_rel (p @ [g]) t"
  proof (cases "ag_DesiredState g = ''active''")
    case True
    then have t: "t = s\<lparr>seenGrants := insert (ag_ID g) (seenGrants s),
        seenKeys := insert (ag_SSHFingerprint g) (seenKeys s),
        grantsPerSandbox := (grantsPerSandbox s)(ag_SandboxID g := grantsPerSandbox s (ag_SandboxID g) + 1)\<rparr>"
      and n: "grantsPerSandbox s (ag_SandboxID g) + 1 \<le> 8"
      using st by (auto simp: grant_step_def Let_def grant_rel_wrap [OF r] split: if_splits)
    show ?thesis
      using r n True by (auto simp: t grant_rel_def active_on_def)
  next
    case False
    then have t: "t = s\<lparr>seenGrants := insert (ag_ID g) (seenGrants s)\<rparr>"
      using st by (auto simp: grant_step_def Let_def split: if_splits)
    show ?thesis
      using r False by (auto simp: t grant_rel_def active_on_def)
  qed
qed

lemma grant_rel0: "grant_rel [] grant_acc0"
  by (simp add: grant_rel_def grant_acc0_def)

text \<open>The grants the manifest may carry, as a statement about the list.\<close>

definition grants_ok :: "string set \<Rightarrow> (string \<rightharpoonup> string) \<Rightarrow> AccessGrant list \<Rightarrow> bool" where
  "grants_ok known states gs \<longleftrightarrow>
     (\<forall>g\<in>set gs. grant_ok known states g) \<and> distinct (map ag_ID gs) \<and>
     distinct (map ag_SSHFingerprint (filter (\<lambda>g. ag_DesiredState g = ''active'') gs)) \<and>
     (\<forall>sid. length (filter (active_on sid) gs) \<le> 8)"

lemma grants_ok_snoc:
  "grants_ok known states (p @ [g]) \<longleftrightarrow> grants_ok known states p \<and> grant_admit known states p g"
proof -
  have keys: "distinct (map ag_SSHFingerprint (filter (\<lambda>g. ag_DesiredState g = ''active'') (p @ [g]))) \<longleftrightarrow>
      distinct (map ag_SSHFingerprint (filter (\<lambda>g. ag_DesiredState g = ''active'') p)) \<and>
      (ag_DesiredState g = ''active'' \<longrightarrow>
        ag_SSHFingerprint g \<notin> ag_SSHFingerprint ` {h \<in> set p. ag_DesiredState h = ''active''})"
    by auto
  have cnt: "(\<forall>sid. length (filter (active_on sid) (p @ [g])) \<le> 8) \<longleftrightarrow>
      (\<forall>sid. length (filter (active_on sid) p) \<le> 8) \<and>
      (ag_DesiredState g = ''active'' \<longrightarrow> length (filter (active_on (ag_SandboxID g)) p) < 8)"
  proof (cases "ag_DesiredState g = ''active''")
    case True
    have "length (filter (active_on sid) (p @ [g])) =
        length (filter (active_on sid) p) + (if ag_SandboxID g = sid then 1 else 0)" for sid
      using True by (simp add: active_on_def)
    then have "(\<forall>sid. length (filter (active_on sid) (p @ [g])) \<le> 8) \<longleftrightarrow>
        (\<forall>sid. (if ag_SandboxID g = sid then length (filter (active_on sid) p) < 8
           else length (filter (active_on sid) p) \<le> 8))"
      by (intro all_cong1) auto
    also have "\<dots> \<longleftrightarrow> (\<forall>sid. length (filter (active_on sid) p) \<le> 8) \<and>
        length (filter (active_on (ag_SandboxID g)) p) < 8"
      by (auto split: if_splits intro: less_imp_le)
    finally show ?thesis using True by simp
  qed (simp add: active_on_def)
  show ?thesis unfolding grants_ok_def keys cnt grant_admit_def by auto
qed

lemma grants_ok_append: "grants_ok known states (p @ q) \<Longrightarrow> grants_ok known states p"
proof (induction q rule: rev_induct)
  case Nil
  then show ?case by simp
next
  case (snoc g q)
  then have "grants_ok known states ((p @ q) @ [g])" by simp
  then show ?case using snoc.IH by (simp only: grants_ok_snoc)
qed

lemma admits_grants:
  "grants_ok known states p \<Longrightarrow> admits (grant_admit known states) p gs \<longleftrightarrow> grants_ok known states (p @ gs)"
proof (induction gs arbitrary: p)
  case Nil
  then show ?case by simp
next
  case (Cons g gs)
  show ?case
    using Cons.IH [of "p @ [g]"] Cons.prems grants_ok_snoc [of known states p g]
      grants_ok_append [of known states "p @ [g]" gs] by auto
qed

lemma grants_accepted [accept_iffs]:
  "accepted (foldE (grant_step known states) grant_acc0 gs) \<longleftrightarrow> grants_ok known states gs"
proof -
  have "grants_ok known states []" by (simp add: grants_ok_def)
  from admits_grants [OF this, of gs] show ?thesis
    by (simp add: grant_loop.loop_refines [OF grant_rel0])
qed

end
