(* ===== verification/Model_Continuity.thy ===== *)
theory Model_Continuity
  imports Model_Patterns "HOL-Library.AList" "HOL-Library.Multiset"
begin

text \<open>
  Continuity registrations and capture operations (\<open>internal/model/model.go\<close>): the identity and
  binding fences, the validation of one registration, the succession of two revisions of one
  binding, \<open>EffectiveContinuityRegistrations\<close>, and the three loops of \<open>ValidateManifest\<close> that
  group, resolve and use the registrations. The central results: the two resolutions agree,
  the resolution does not depend on the iteration order of the Go map, and an accepted capture
  operation names the effective registration of its binding.
\<close>

section \<open>Data\<close>

record ContinuityIdentityV1 =
  ci_WorkID :: "string"
  ci_ProjectID :: "string"
  ci_SandboxID :: "string"
  ci_WorkspaceEpoch :: "string"
  ci_SandboxGeneration :: "int"
  ci_TaskID :: "string option"
  ci_TaskAttempt :: "int option"
  ci_ExpectedRevision :: "int"

record ContinuityBindingV1 =
  cb_BindingID :: "string"
  cb_BindingRevision :: "int"
  cb_RegisteredSourceID :: "string"
  cb_ServiceRegistrationID :: "string"
  cb_NativeSessionID :: "string"
  cb_NativeProjectID :: "string"
  cb_NativeLocationDigest :: "string"

record ContinuityRegistrationV1 =
  cr_FormatVersion :: "int"
  cr_DesiredState :: "string"
  cr_ContinuityEnabled :: "bool"
  cr_ScopeRevision :: "int"
  cr_Identity :: "ContinuityIdentityV1"
  cr_Binding :: "ContinuityBindingV1"

record ContinuityOperationV1 =
  co_FormatVersion :: "int"
  co_OperationID :: "string"
  co_Action :: "string"
  co_RequestDigest :: "string"
  co_ScopeRevision :: "int"
  co_BoundaryKind :: "string"
  co_Identity :: "ContinuityIdentityV1"
  co_Binding :: "ContinuityBindingV1"

section \<open>Fences\<close>

definition equalStringPointer :: "string option \<Rightarrow> string option \<Rightarrow> bool" where
  "equalStringPointer left right \<longleftrightarrow>
     left = None \<and> right = None \<or>
     (case (left, right) of (Some a, Some b) \<Rightarrow> a = b | _ \<Rightarrow> False)"

definition equalInt64Pointer :: "int option \<Rightarrow> int option \<Rightarrow> bool" where
  "equalInt64Pointer left right \<longleftrightarrow>
     left = None \<and> right = None \<or>
     (case (left, right) of (Some a, Some b) \<Rightarrow> a = b | _ \<Rightarrow> False)"

definition Identity_Equal :: "ContinuityIdentityV1 \<Rightarrow> ContinuityIdentityV1 \<Rightarrow> bool" where
  "Identity_Equal identity other \<longleftrightarrow>
     ci_WorkID identity = ci_WorkID other \<and> ci_ProjectID identity = ci_ProjectID other \<and>
     ci_SandboxID identity = ci_SandboxID other \<and> ci_WorkspaceEpoch identity = ci_WorkspaceEpoch other \<and>
     ci_SandboxGeneration identity = ci_SandboxGeneration other \<and>
     equalStringPointer (ci_TaskID identity) (ci_TaskID other) \<and>
     equalInt64Pointer (ci_TaskAttempt identity) (ci_TaskAttempt other) \<and>
     ci_ExpectedRevision identity = ci_ExpectedRevision other"

definition SameContinuityWorkFence :: "ContinuityIdentityV1 \<Rightarrow> ContinuityIdentityV1 \<Rightarrow> bool" where
  "SameContinuityWorkFence left right \<longleftrightarrow>
     ci_WorkID left = ci_WorkID right \<and> ci_ProjectID left = ci_ProjectID right \<and>
     ci_SandboxID left = ci_SandboxID right \<and> ci_WorkspaceEpoch left = ci_WorkspaceEpoch right \<and>
     ci_SandboxGeneration left = ci_SandboxGeneration right \<and>
     ci_ExpectedRevision left = ci_ExpectedRevision right"

text \<open>The pointer comparisons compare what the pointers point to, so \<open>Equal\<close> is equality of values.\<close>

lemma equalStringPointer_iff [simp]: "equalStringPointer a b \<longleftrightarrow> a = b"
  by (auto simp: equalStringPointer_def split: option.splits)

lemma equalInt64Pointer_iff [simp]: "equalInt64Pointer a b \<longleftrightarrow> a = b"
  by (auto simp: equalInt64Pointer_def split: option.splits)

lemma Identity_Equal_iff: "Identity_Equal a b \<longleftrightarrow> a = b"
  by (cases a; cases b) (auto simp: Identity_Equal_def)

lemma Identity_Equal_fence:
  "Identity_Equal a b \<longleftrightarrow>
     SameContinuityWorkFence a b \<and> ci_TaskID a = ci_TaskID b \<and> ci_TaskAttempt a = ci_TaskAttempt b"
  by (auto simp: Identity_Equal_def SameContinuityWorkFence_def)

lemma fence_refl [simp]: "SameContinuityWorkFence a a"
  by (simp add: SameContinuityWorkFence_def)

lemma fence_sym: "SameContinuityWorkFence a b \<longleftrightarrow> SameContinuityWorkFence b a"
  by (auto simp: SameContinuityWorkFence_def)

section \<open>One registration\<close>

definition validateContinuityIdentity :: "ContinuityIdentityV1 \<Rightarrow> goerr + unit" where
  "validateContinuityIdentity identity =
     (if \<not> matchString continuityIDPattern (ci_WorkID identity) \<or>
         \<not> matchString continuityIDPattern (ci_ProjectID identity) \<or>
         \<not> matchString continuityIDPattern (ci_SandboxID identity) \<or>
         \<not> matchString continuityIDPattern (ci_WorkspaceEpoch identity) \<or>
         ci_WorkspaceEpoch identity = [] \<or>
         ci_SandboxGeneration identity < 1 \<or> ci_ExpectedRevision identity < 1 \<or>
         (ci_TaskID identity = None) \<noteq> (ci_TaskAttempt identity = None) \<or>
         (case (ci_TaskAttempt identity, ci_TaskID identity) of
            (Some attempt, Some task) \<Rightarrow> attempt < 1 \<or> \<not> matchString continuityIDPattern task
          | _ \<Rightarrow> False)
      then Inl (E ''invalid continuity identity'') else ok)"

definition validContinuityBinding :: "ContinuityBindingV1 \<Rightarrow> bool" where
  "validContinuityBinding binding \<longleftrightarrow>
     cb_BindingRevision binding > 0 \<and>
     matchString continuityIDPattern (cb_BindingID binding) \<and>
     matchString continuityIDPattern (cb_RegisteredSourceID binding) \<and>
     matchString continuityIDPattern (cb_ServiceRegistrationID binding) \<and>
     matchString continuityIDPattern (cb_NativeSessionID binding) \<and>
     matchString continuityIDPattern (cb_NativeProjectID binding) \<and>
     matchString setupDigestPattern (cb_NativeLocationDigest binding)"

definition ValidateContinuityRegistration :: "ContinuityRegistrationV1 \<Rightarrow> goerr + unit" where
  "ValidateContinuityRegistration registration =
     (if \<not> accepted (validateContinuityIdentity (cr_Identity registration)) \<or>
         cr_FormatVersion registration \<noteq> 1 \<or> cr_ScopeRevision registration < 1 \<or>
         (cr_DesiredState registration \<noteq> ''active'' \<and> cr_DesiredState registration \<noteq> ''revoked'') \<or>
         \<not> validContinuityBinding (cr_Binding registration)
      then Inl (E ''invalid continuity registration'') else ok)"

section \<open>Succession of binding revisions\<close>

definition continuityRegistrationRevisionSuccession ::
  "ContinuityRegistrationV1 \<Rightarrow> ContinuityRegistrationV1 \<Rightarrow> bool" where
  "continuityRegistrationRevisionSuccession revoked active =
     (if cr_DesiredState revoked \<noteq> ''revoked'' \<or> cr_DesiredState active \<noteq> ''active'' then False
      else if cb_BindingRevision (cr_Binding active) \<noteq> wrap64 (cb_BindingRevision (cr_Binding revoked) + 1) then False
      else if cr_ScopeRevision active < cr_ScopeRevision revoked then False
      else if \<not> SameContinuityWorkFence (cr_Identity revoked) (cr_Identity active) then False
      else (cr_Binding revoked)\<lparr>cb_BindingRevision := 0\<rparr> = (cr_Binding active)\<lparr>cb_BindingRevision := 0\<rparr>)"

abbreviation binding_of :: "ContinuityRegistrationV1 \<Rightarrow> string" where
  "binding_of r \<equiv> cb_BindingID (cr_Binding r)"

lemma succession_iff:
  "continuityRegistrationRevisionSuccession r a \<longleftrightarrow>
     cr_DesiredState r = ''revoked'' \<and> cr_DesiredState a = ''active'' \<and>
     cr_ScopeRevision r \<le> cr_ScopeRevision a \<and>
     SameContinuityWorkFence (cr_Identity r) (cr_Identity a) \<and>
     cr_Binding a = (cr_Binding r)\<lparr>cb_BindingRevision := wrap64 (cb_BindingRevision (cr_Binding r) + 1)\<rparr>"
  by (cases "cr_Binding r"; cases "cr_Binding a")
    (auto simp: continuityRegistrationRevisionSuccession_def)

lemma succession_asym:
  "continuityRegistrationRevisionSuccession r a \<Longrightarrow> \<not> continuityRegistrationRevisionSuccession a r"
  by (simp add: succession_iff)

lemma succession_binding:
  "continuityRegistrationRevisionSuccession r a \<Longrightarrow> binding_of a = binding_of r"
  by (simp add: succession_iff)

text \<open>
  The resolution of one group, as both \<open>ValidateManifest\<close> and
  \<open>EffectiveContinuityRegistrations\<close> write it: the switch on a group of one or two entries.
\<close>

fun resolve_group :: "ContinuityRegistrationV1 list \<Rightarrow> ContinuityRegistrationV1 option" where
  "resolve_group [r] = Some r"
| "resolve_group [r, q] =
     (if continuityRegistrationRevisionSuccession r q then Some q
      else if continuityRegistrationRevisionSuccession q r then Some r
      else None)"
| "resolve_group _ = None"

fun_cases resolve_group_SomeE: "resolve_group g = Some r"

lemma resolve_group_binding:
  "resolve_group g = Some r \<Longrightarrow> \<forall>q\<in>set g. binding_of q = b \<Longrightarrow> binding_of r = b"
  by (erule resolve_group_SomeE) (auto split: if_splits)

lemma resolve_group_member: "resolve_group g = Some r \<Longrightarrow> r \<in> set g"
  by (erule resolve_group_SomeE) (auto split: if_splits)

text \<open>Which entry is effective does not depend on the order of the two.\<close>

lemma resolve_group_swap: "resolve_group [q, r] = resolve_group [r, q]"
  using succession_asym by auto

text \<open>When a group of two resolves, the effective entry is the active one with the next revision.\<close>

lemma resolve_group_two:
  "resolve_group [r, q] = Some e \<longleftrightarrow>
     e = q \<and> continuityRegistrationRevisionSuccession r q \<or>
     e = r \<and> continuityRegistrationRevisionSuccession q r"
  using succession_asym by auto

section \<open>EffectiveContinuityRegistrations\<close>

abbreviation group_of :: "ContinuityRegistrationV1 list \<Rightarrow> string \<Rightarrow> ContinuityRegistrationV1 list" where
  "group_of rs b \<equiv> filter (\<lambda>c. binding_of c = b) rs"

text \<open>The loop body; \<open>all\<close> is the list of all registrations, the state is \<open>(seen, effective)\<close>.\<close>

definition effective_step ::
  "ContinuityRegistrationV1 list \<Rightarrow> string set \<times> ContinuityRegistrationV1 list \<Rightarrow>
   ContinuityRegistrationV1 \<Rightarrow> goerr + string set \<times> ContinuityRegistrationV1 list" where
  "effective_step all acc registration =
     (let (seen, effective) = acc; bindingID = binding_of registration
      in if bindingID \<in> seen then Inr (seen, effective)
         else case resolve_group (group_of all bindingID) of
           Some r \<Rightarrow> Inr (insert bindingID seen, effective @ [r])
         | None \<Rightarrow> Inl (E (''continuity registration '' @ bindingID @
             '' has an unsupported duplicate binding shape'')))"

definition EffectiveContinuityRegistrations ::
  "ContinuityRegistrationV1 list \<Rightarrow> goerr + ContinuityRegistrationV1 list" where
  "EffectiveContinuityRegistrations registrations =
     bindE (foldE (effective_step registrations) ({}, []) registrations) (\<lambda>acc. Inr (snd acc))"

text \<open>The binding ids of a list in first-seen order, without those of \<open>seen\<close>.\<close>

fun firsts :: "string set \<Rightarrow> ContinuityRegistrationV1 list \<Rightarrow> string list" where
  "firsts seen [] = []"
| "firsts seen (r # rs) =
     (if binding_of r \<in> seen then firsts seen rs
      else binding_of r # firsts (insert (binding_of r) seen) rs)"

lemma set_firsts: "set (firsts seen rs) = binding_of ` set rs - seen"
  by (induction seen rs rule: firsts.induct) auto

lemma distinct_firsts: "distinct (firsts seen rs)"
  by (induction seen rs rule: firsts.induct) (auto simp: set_firsts)

lemma effective_fold:
  "foldE (effective_step all) (seen, eff) rs = Inr t \<longleftrightarrow>
     (\<forall>b\<in>set (firsts seen rs). resolve_group (group_of all b) \<noteq> None) \<and>
     t = (seen \<union> binding_of ` set rs, eff @ map (\<lambda>b. the (resolve_group (group_of all b))) (firsts seen rs))"
proof (induction rs arbitrary: seen eff)
  case Nil
  then show ?case by auto
next
  case (Cons r rs)
  show ?case
  proof (cases "binding_of r \<in> seen")
    case True
    then show ?thesis using Cons.IH [of seen eff]
      by (auto simp: effective_step_def insert_absorb)
  next
    case False
    show ?thesis
    proof (cases "resolve_group (group_of all (binding_of r))")
      case None
      with False show ?thesis by (simp add: effective_step_def)
    next
      case (Some e)
      with False show ?thesis using Cons.IH [of "insert (binding_of r) seen" "eff @ [e]"]
        by (simp add: effective_step_def)
    qed
  qed
qed

definition effective_list :: "ContinuityRegistrationV1 list \<Rightarrow> ContinuityRegistrationV1 list" where
  "effective_list rs = map (\<lambda>b. the (resolve_group (group_of rs b))) (firsts {} rs)"

lemma Effective_Inr:
  "EffectiveContinuityRegistrations rs = Inr es \<longleftrightarrow>
     (\<forall>b\<in>binding_of ` set rs. resolve_group (group_of rs b) \<noteq> None) \<and> es = effective_list rs"
  by (auto simp: EffectiveContinuityRegistrations_def bindE_Inr_iff effective_fold set_firsts
      effective_list_def)

lemma effective_bindings:
  assumes "EffectiveContinuityRegistrations rs = Inr es"
  shows "map binding_of es = firsts {} rs"
proof -
  have "binding_of (the (resolve_group (group_of rs b))) = b" if "b \<in> set (firsts {} rs)" for b
  proof -
    from that assms obtain r where r: "resolve_group (group_of rs b) = Some r"
      by (auto simp: Effective_Inr set_firsts)
    have "\<forall>q\<in>set (group_of rs b). binding_of q = b" by simp
    from resolve_group_binding [OF r this] show ?thesis by (simp only: r option.sel)
  qed
  then show ?thesis using assms by (simp add: Effective_Inr effective_list_def map_idI)
qed

lemma effective_member:
  assumes "EffectiveContinuityRegistrations rs = Inr es"
  shows "e \<in> set es \<longleftrightarrow> (\<exists>b. resolve_group (group_of rs b) = Some e)"
proof
  assume "e \<in> set es"
  with assms obtain b where "b \<in> binding_of ` set rs" and "e = the (resolve_group (group_of rs b))"
    by (auto simp: Effective_Inr effective_list_def set_firsts)
  with assms show "\<exists>b. resolve_group (group_of rs b) = Some e" by (auto simp: Effective_Inr)
next
  assume "\<exists>b. resolve_group (group_of rs b) = Some e"
  then obtain b where b: "resolve_group (group_of rs b) = Some e" by blast
  from resolve_group_member [OF b] have "b \<in> binding_of ` set rs" by auto
  with b assms show "e \<in> set es"
    by (force simp: Effective_Inr effective_list_def set_firsts)
qed

section \<open>The registration loops of ValidateManifest\<close>

text \<open>
  \<open>registrationGroups\<close> is a Go map from binding ids to lists; it is an association list here,
  in the order of first insertion, and a missing entry reads as the empty list.
\<close>

type_synonym groups = "(string \<times> ContinuityRegistrationV1 list) list"

definition group_at :: "groups \<Rightarrow> string \<Rightarrow> ContinuityRegistrationV1 list" where
  "group_at gs b = (case map_of gs b of None \<Rightarrow> [] | Some g \<Rightarrow> g)"

definition registration_step ::
  "(string \<rightharpoonup> int) \<Rightarrow> groups \<Rightarrow> ContinuityRegistrationV1 \<Rightarrow> goerr + groups" where
  "registration_step sandboxGenerations registrationGroups registration =
     (if \<not> accepted (ValidateContinuityRegistration registration) \<or>
         (case sandboxGenerations (ci_SandboxID (cr_Identity registration)) of
            None \<Rightarrow> True
          | Some generation \<Rightarrow> generation \<noteq> ci_SandboxGeneration (cr_Identity registration))
      then Inl (E ''invalid continuity registration'')
      else let grp = group_at registrationGroups (binding_of registration) @ [registration]
        in if length grp > 2 then Inl (E ''duplicate continuity registration'')
           else Inr (AList.update (binding_of registration) grp registrationGroups))"

fun resolve_step ::
  "(string \<rightharpoonup> ContinuityRegistrationV1) \<Rightarrow> string \<times> ContinuityRegistrationV1 list \<Rightarrow>
   goerr + (string \<rightharpoonup> ContinuityRegistrationV1)" where
  "resolve_step registrations (bindingID, grp) =
     (case resolve_group grp of
        Some r \<Rightarrow> Inr (registrations(bindingID \<mapsto> r))
      | None \<Rightarrow> Inl (E ''duplicate continuity registration''))"

subsection \<open>Grouping\<close>

definition registration_ok :: "(string \<rightharpoonup> int) \<Rightarrow> ContinuityRegistrationV1 \<Rightarrow> bool" where
  "registration_ok gens r \<longleftrightarrow>
     accepted (ValidateContinuityRegistration r) \<and>
     gens (ci_SandboxID (cr_Identity r)) = Some (ci_SandboxGeneration (cr_Identity r))"

definition groups_rel :: "ContinuityRegistrationV1 list \<Rightarrow> groups \<Rightarrow> bool" where
  "groups_rel p gs \<longleftrightarrow>
     distinct (map fst gs) \<and>
     (\<forall>b. map_of gs b = (if group_of p b = [] then None else Some (group_of p b))) \<and>
     (\<forall>b. length (group_of p b) \<le> 2)"

lemma groups_rel0: "groups_rel [] []"
  by (simp add: groups_rel_def)

lemma group_at_rel: "groups_rel p gs \<Longrightarrow> group_at gs b = group_of p b"
  by (simp add: groups_rel_def group_at_def)

lemma registration_step_Inr:
  "registration_step gens gs r = Inr t \<longleftrightarrow>
     registration_ok gens r \<and> length (group_at gs (binding_of r)) < 2 \<and>
     t = AList.update (binding_of r) (group_at gs (binding_of r) @ [r]) gs"
  unfolding registration_step_def registration_ok_def Let_def
  by (auto split: option.splits)

interpretation registration_loop: prefix_loop "registration_step gens" groups_rel
  "\<lambda>p r. registration_ok gens r \<and> length (group_of p (binding_of r)) < 2"
  for gens
proof unfold_locales
  fix p gs r
  assume "groups_rel p gs"
  then show "accepted (registration_step gens gs r) \<longleftrightarrow>
      registration_ok gens r \<and> length (group_of p (binding_of r)) < 2"
    by (simp add: accepted_iff registration_step_Inr group_at_rel)
next
  fix p gs r t
  assume rel: "groups_rel p gs" and st: "registration_step gens gs r = Inr t"
  then have t: "t = AList.update (binding_of r) (group_of p (binding_of r) @ [r]) gs"
    and l: "length (group_of p (binding_of r)) < 2"
    by (auto simp: registration_step_Inr group_at_rel)
  show "groups_rel (p @ [r]) t"
    using rel l unfolding groups_rel_def t
    by (auto simp: distinct_update update_conv')
qed

definition registrations_ok :: "(string \<rightharpoonup> int) \<Rightarrow> ContinuityRegistrationV1 list \<Rightarrow> bool" where
  "registrations_ok gens rs \<longleftrightarrow>
     (\<forall>r\<in>set rs. registration_ok gens r) \<and> (\<forall>b. length (group_of rs b) \<le> 2)"

lemma registrations_ok_snoc:
  "registrations_ok gens (p @ [r]) \<longleftrightarrow>
     registrations_ok gens p \<and> registration_ok gens r \<and> length (group_of p (binding_of r)) < 2"
proof -
  have "length (group_of (p @ [r]) b) =
      (if binding_of r = b then Suc (length (group_of p b)) else length (group_of p b))" for b
    by simp
  then have "(\<forall>b. length (group_of (p @ [r]) b) \<le> 2) \<longleftrightarrow>
      (\<forall>b. if binding_of r = b then length (group_of p b) < 2 else length (group_of p b) \<le> 2)"
    by (intro all_cong1) auto
  also have "\<dots> \<longleftrightarrow> (\<forall>b. length (group_of p b) \<le> 2) \<and> length (group_of p (binding_of r)) < 2"
    by (auto split: if_splits intro: less_imp_le)
  finally show ?thesis unfolding registrations_ok_def by auto
qed

lemma registrations_ok_prefix: "registrations_ok gens (p @ q) \<Longrightarrow> registrations_ok gens p"
proof (induction q rule: rev_induct)
  case (snoc r q)
  from snoc.prems have "registrations_ok gens ((p @ q) @ [r])" by simp
  then show ?case using snoc.IH by (simp only: registrations_ok_snoc)
qed simp

lemma admits_registrations:
  "registrations_ok gens p \<Longrightarrow>
   admits (\<lambda>p r. registration_ok gens r \<and> length (group_of p (binding_of r)) < 2) p rs \<longleftrightarrow>
     registrations_ok gens (p @ rs)"
proof (induction rs arbitrary: p)
  case Nil
  then show ?case by simp
next
  case (Cons r rs)
  show ?case
    using Cons.IH [of "p @ [r]"] Cons.prems registrations_ok_snoc [of gens p r]
      registrations_ok_prefix [of gens "p @ [r]" rs] by auto
qed

lemma registrations_accepted [accept_iffs]:
  "accepted (foldE (registration_step gens) [] rs) \<longleftrightarrow> registrations_ok gens rs"
proof -
  have "registrations_ok gens []" by (simp add: registrations_ok_def)
  from admits_registrations [OF this, of rs] show ?thesis
    by (simp add: registration_loop.loop_refines [OF groups_rel0])
qed

lemma registrations_groups: "foldE (registration_step gens) [] rs = Inr gs \<Longrightarrow> groups_rel rs gs"
  using registration_loop.loop_related [OF groups_rel0] by fastforce

subsection \<open>Resolving\<close>

lemma resolve_fold:
  "foldE resolve_step m gs = Inr t \<longleftrightarrow>
     (\<forall>(b, g)\<in>set gs. resolve_group g \<noteq> None) \<and>
     t = foldl (\<lambda>m (b, g). m(b \<mapsto> the (resolve_group g))) m gs"
  by (induction gs arbitrary: m) (auto simp: bindE_Inr_iff split: option.splits)

lemma resolve_upds:
  assumes "distinct (map fst gs)"
  shows "foldl (\<lambda>m (b, g). m(b \<mapsto> the (resolve_group g))) Map.empty gs =
     map_option (the \<circ> resolve_group) \<circ> map_of gs"
proof -
  have "foldl (\<lambda>m (b, g). m(b \<mapsto> the (resolve_group g))) Map.empty gs =
      foldl (\<lambda>m x. m(fst x \<mapsto> the (resolve_group (snd x)))) Map.empty gs"
    by (simp add: case_prod_unfold)
  also have "\<dots> = map_of (map (\<lambda>x. (fst x, the (resolve_group (snd x)))) gs)"
    using assms by (rule foldl_upd_distinct)
  also have "\<dots> = map_option (the \<circ> resolve_group) \<circ> map_of gs"
    by (induction gs) (auto simp: fun_eq_iff)
  finally show ?thesis .
qed

lemma resolve_result:
  assumes "distinct (map fst gs)"
  shows "foldE resolve_step Map.empty gs = Inr t \<longleftrightarrow>
     (\<forall>b g. map_of gs b = Some g \<longrightarrow> resolve_group g \<noteq> None) \<and>
     t = map_option (the \<circ> resolve_group) \<circ> map_of gs"
proof -
  have "(\<forall>(b, g)\<in>set gs. resolve_group g \<noteq> None) \<longleftrightarrow>
      (\<forall>b g. map_of gs b = Some g \<longrightarrow> resolve_group g \<noteq> None)"
    using assms by (auto simp: map_of_eq_Some_iff)
  then show ?thesis by (simp add: resolve_fold resolve_upds [OF assms])
qed

text \<open>Go iterates over a map in an unspecified order; the outcome is the same for each of them.\<close>

lemma resolve_order:
  assumes "distinct (map fst gs)" and "mset gs' = mset gs"
  shows "foldE resolve_step Map.empty gs' = Inr t \<longleftrightarrow> foldE resolve_step Map.empty gs = Inr t"
proof -
  from assms(2) have "mset (map fst gs') = mset (map fst gs)" by simp
  with assms(1) have d: "distinct (map fst gs')" by (metis mset_eq_imp_distinct_iff)
  have "set gs' = set gs" using assms(2) by (rule mset_eq_setD)
  then have "map_of gs' b = Some g \<longleftrightarrow> map_of gs b = Some g" for b g
    using d assms(1) by (simp add: map_of_eq_Some_iff)
  then have "map_of gs' = map_of gs" by (intro ext) (metis not_None_eq)
  then show ?thesis by (simp add: resolve_result d assms(1))
qed

text \<open>The map \<open>registrations\<close> of the manifest, when every group resolves.\<close>

definition effective_of :: "ContinuityRegistrationV1 list \<Rightarrow> string \<rightharpoonup> ContinuityRegistrationV1" where
  "effective_of rs b = resolve_group (group_of rs b)"

definition all_resolve :: "ContinuityRegistrationV1 list \<Rightarrow> bool" where
  "all_resolve rs \<longleftrightarrow> (\<forall>b\<in>binding_of ` set rs. resolve_group (group_of rs b) \<noteq> None)"

lemma group_of_Nil_iff: "group_of rs b = [] \<longleftrightarrow> b \<notin> binding_of ` set rs"
  by (auto simp: filter_empty_conv)

lemma resolve_groups:
  assumes "groups_rel rs gs"
  shows "foldE resolve_step Map.empty gs = Inr t \<longleftrightarrow> all_resolve rs \<and> t = effective_of rs"
proof -
  have d: "distinct (map fst gs)" and m: "map_of gs b = (if group_of rs b = [] then None else Some (group_of rs b))" for b
    using assms by (auto simp: groups_rel_def)
  have "(\<forall>b g. map_of gs b = Some g \<longrightarrow> resolve_group g \<noteq> None) \<longleftrightarrow> all_resolve rs"
    by (auto simp: m all_resolve_def group_of_Nil_iff)
  moreover have "map_option (the \<circ> resolve_group) \<circ> map_of gs = effective_of rs" if all: "all_resolve rs"
  proof
    fix b
    show "(map_option (the \<circ> resolve_group) \<circ> map_of gs) b = effective_of rs b"
    proof (cases "b \<in> binding_of ` set rs")
      case True
      with all obtain r where "resolve_group (group_of rs b) = Some r"
        unfolding all_resolve_def by blast
      with True show ?thesis by (simp add: m effective_of_def group_of_Nil_iff)
    next
      case False
      then have "group_of rs b = []" by (simp only: group_of_Nil_iff not_False_eq_True)
      then show ?thesis by (simp only: m effective_of_def o_def) simp
    qed
  qed
  ultimately show ?thesis by (auto simp: resolve_result [OF d])
qed

lemma registrations_bind:
  "accepted (bindE (foldE (registration_step gens) [] rs) (\<lambda>gs. bindE (foldE resolve_step Map.empty gs) f)) \<longleftrightarrow>
     registrations_ok gens rs \<and> all_resolve rs \<and> accepted (f (effective_of rs))"
proof (cases "foldE (registration_step gens) [] rs")
  case (Inl e)
  then show ?thesis using registrations_accepted [of gens rs] by simp
next
  case (Inr gs)
  have r: "foldE resolve_step Map.empty gs = Inr t \<longleftrightarrow> all_resolve rs \<and> t = effective_of rs" for t
    by (rule resolve_groups) (rule registrations_groups [OF Inr])
  show ?thesis
    using Inr registrations_accepted [of gens rs]
    by (auto simp: accepted_bindE r)
qed

lemma all_resolve_two: "all_resolve rs \<Longrightarrow> length (group_of rs b) \<le> 2"
proof (cases "group_of rs b = []")
  case False
  assume "all_resolve rs"
  with False obtain r where "resolve_group (group_of rs b) = Some r"
    by (auto simp: all_resolve_def group_of_Nil_iff)
  then show ?thesis by (auto elim: resolve_group_SomeE)
qed simp

lemma Effective_accepted [accept_iffs]:
  "accepted (EffectiveContinuityRegistrations rs) \<longleftrightarrow> all_resolve rs"
  by (auto simp: accepted_iff Effective_Inr all_resolve_def)

section \<open>The operation loop of ValidateManifest\<close>

definition continuity_operation_step ::
  "(string \<rightharpoonup> ContinuityRegistrationV1) \<Rightarrow> string set \<Rightarrow> ContinuityOperationV1 \<Rightarrow> goerr + string set" where
  "continuity_operation_step registrations seen operation =
     (if \<not> accepted (validateContinuityIdentity (co_Identity operation)) \<or>
         co_FormatVersion operation \<noteq> 1 \<or>
         \<not> matchString continuityIDPattern (co_OperationID operation) \<or>
         co_Action operation \<noteq> ''capture_checkpoint'' \<or>
         \<not> matchString setupDigestPattern (co_RequestDigest operation) \<or>
         co_ScopeRevision operation < 1 \<or>
         co_OperationID operation \<in> seen \<or>
         (case registrations (cb_BindingID (co_Binding operation)) of
            None \<Rightarrow> True
          | Some registration \<Rightarrow>
              \<not> SameContinuityWorkFence (cr_Identity registration) (co_Identity operation) \<or>
              cr_Binding registration \<noteq> co_Binding operation \<or>
              cr_ScopeRevision registration \<noteq> co_ScopeRevision operation \<or>
              cr_DesiredState registration \<noteq> ''active'' \<or>
              \<not> cr_ContinuityEnabled registration)
      then Inl (E ''invalid continuity operation'')
      else let hasTask = (ci_TaskID (co_Identity operation) \<noteq> None) in
        if co_BoundaryKind operation = ''initial'' \<and> hasTask \<or>
           co_BoundaryKind operation = ''task'' \<and> \<not> hasTask \<or>
           co_BoundaryKind operation \<noteq> ''initial'' \<and> co_BoundaryKind operation \<noteq> ''task'' \<and>
           co_BoundaryKind operation \<noteq> ''stopped''
        then Inl (E ''invalid continuity boundary kind'')
        else Inr (insert (co_OperationID operation) seen))"

text \<open>A capture operation that is admissible under the effective registrations.\<close>

definition capture_ok :: "(string \<rightharpoonup> ContinuityRegistrationV1) \<Rightarrow> ContinuityOperationV1 \<Rightarrow> bool" where
  "capture_ok registrations c \<longleftrightarrow>
     accepted (validateContinuityIdentity (co_Identity c)) \<and> co_FormatVersion c = 1 \<and>
     matchString continuityIDPattern (co_OperationID c) \<and> co_Action c = ''capture_checkpoint'' \<and>
     matchString setupDigestPattern (co_RequestDigest c) \<and> 1 \<le> co_ScopeRevision c \<and>
     (\<exists>r. registrations (cb_BindingID (co_Binding c)) = Some r \<and>
        SameContinuityWorkFence (cr_Identity r) (co_Identity c) \<and> cr_Binding r = co_Binding c \<and>
        cr_ScopeRevision r = co_ScopeRevision c \<and> cr_DesiredState r = ''active'' \<and>
        cr_ContinuityEnabled r) \<and>
     (co_BoundaryKind c = ''initial'' \<and> ci_TaskID (co_Identity c) = None \<or>
      co_BoundaryKind c = ''task'' \<and> ci_TaskID (co_Identity c) \<noteq> None \<or>
      co_BoundaryKind c = ''stopped'')"

lemma continuity_operation_step_Inr:
  "continuity_operation_step regs seen c = Inr t \<longleftrightarrow>
     capture_ok regs c \<and> co_OperationID c \<notin> seen \<and> t = insert (co_OperationID c) seen"
  unfolding continuity_operation_step_def capture_ok_def Let_def
  by (cases "regs (cb_BindingID (co_Binding c))") auto

interpretation capture_loop: key_set_loop "continuity_operation_step regs" "capture_ok regs" co_OperationID
  for regs
  by unfold_locales (rule continuity_operation_step_Inr)

lemma captures_accepted [accept_iffs]:
  "accepted (foldE (continuity_operation_step regs) {} cs) \<longleftrightarrow>
     (\<forall>c\<in>set cs. capture_ok regs c) \<and> distinct (map co_OperationID cs)"
  by (rule capture_loop.keyed_accepts)

end
