(* ===== verification/Model_Continuation.thy ===== *)
theory Model_Continuation
  imports Model_Continuity
begin

text \<open>
  Continuations, restores and handoffs (\<open>internal/model/model.go\<close>): their identities, bindings and
  checkpoints, the manifest tuples and their validators, the reports that answer a handoff, and the
  five loops of \<open>ValidateManifest\<close> that share one set of operation ids. Shown: a release is
  accepted exactly when the preparation it names would be, every accepted tuple is at the
  current sandbox generation, a handoff's workspace request has one of the two closed shapes, a ready report
  echoes the manifest it answers, and operation ids are unique across all five lists.
\<close>

section \<open>Data\<close>

record ContinuationIdentityV1 =
  ni_WorkID :: "string"
  ni_ProjectID :: "string"
  ni_SandboxID :: "string"
  ni_WorkspaceEpoch :: "string"
  ni_SandboxGeneration :: "int"
  ni_ExpectedRevision :: "int"

record ContinuationBindingRefV1 =
  nb_BindingID :: "string"
  nb_BindingRevision :: "int"
  nb_ScopeRevision :: "int"
  nb_ServiceRegistrationID :: "string"
  nb_ServiceGeneration :: "int"
  nb_RegisteredSourceID :: "string"
  nb_NativeSessionID :: "string"
  nb_NativeProjectID :: "string"
  nb_NativeLocationDigest :: "string"

record ContinuationCheckpointRefV1 =
  nc_OperationID :: "string"
  nc_CheckpointID :: "string"
  nc_ManifestDigest :: "string"
  nc_Bytes :: "int"
  nc_ObjectCount :: "int"

record ContinuationTargetV1 =
  nt_TeamID :: "string"
  nt_TeamRevision :: "int"
  nt_PolicyRevision :: "int"
  nt_MemberID :: "string"
  nt_SandboxID :: "string"
  nt_SandboxGeneration :: "int"
  nt_ServiceRegistrationID :: "string"
  nt_ServiceGeneration :: "int"
  nt_ServiceDesiredRevision :: "int"
  nt_ServiceActionRevision :: "int"
  nt_SelectionID :: "string"
  nt_ProjectID :: "string"
  nt_WorkspaceEpoch :: "string"
  nt_ScopeRevision :: "int"
  nt_RootAttestation :: "string"
  nt_ProfileID :: "string"
  nt_ProfileRevision :: "int"
  nt_ProfileDigest :: "string"
  nt_InstructionRevision :: "int"
  nt_InstructionDigest :: "string"
  nt_Role :: "string"

record ContinuationContextV1 =
  nx_Digest :: "string"
  nx_Bytes :: "int"
  nx_TokenUpperBound :: "int"

record ContinuationManifestV1 =
  cm_FormatVersion :: "int"
  cm_OperationID :: "string"
  cm_Action :: "string"
  cm_DesiredRevision :: "int"
  cm_Identity :: "ContinuationIdentityV1"
  cm_Binding :: "ContinuationBindingRefV1"
  cm_Checkpoint :: "ContinuationCheckpointRefV1"
  cm_Target :: "ContinuationTargetV1"
  cm_Context :: "ContinuationContextV1"

record ContinuationBaselineV1 =
  bl_BaselineID :: "string"
  bl_BaselineDigest :: "string"
  bl_NativeSessionID :: "string"
  bl_ServiceGeneration :: "int"
  bl_ReadyAt :: "gotime"

record ContinuationReportV1 =
  np_FormatVersion :: "int"
  np_OperationID :: "string"
  np_Action :: "string"
  np_Status :: "string"
  np_DesiredRevision :: "int"
  np_Identity :: "ContinuationIdentityV1"
  np_Binding :: "ContinuationBindingRefV1"
  np_Checkpoint :: "ContinuationCheckpointRefV1"
  np_Target :: "ContinuationTargetV1"
  np_ContextDigest :: "string"
  np_Baseline :: "ContinuationBaselineV1 option"
  np_ReceiptDigest :: "string"
  np_ErrorCode :: "string option"

record ContinuationReleaseManifestV1 =
  crl_FormatVersion :: "int"
  crl_OperationID :: "string"
  crl_Action :: "string"
  crl_DesiredRevision :: "int"
  crl_Identity :: "ContinuationIdentityV1"
  crl_Binding :: "ContinuationBindingRefV1"
  crl_Checkpoint :: "ContinuationCheckpointRefV1"
  crl_Target :: "ContinuationTargetV1"
  crl_Context :: "ContinuationContextV1"
  crl_Reason :: "string"

record ContinuationReleaseReportV1 =
  nq_FormatVersion :: "int"
  nq_OperationID :: "string"
  nq_Action :: "string"
  nq_DesiredRevision :: "int"
  nq_Identity :: "ContinuationIdentityV1"
  nq_Binding :: "ContinuationBindingRefV1"
  nq_Checkpoint :: "ContinuationCheckpointRefV1"
  nq_Target :: "ContinuationTargetV1"
  nq_Context :: "ContinuationContextV1"
  nq_Reason :: "string"
  nq_Status :: "string"
  nq_ReceiptDigest :: "string"
  nq_ErrorCode :: "string option"

record ContinuationHandoffLineageV1 =
  hl_SourceWorkID :: "string"
  hl_SourceRevision :: "int"
  hl_SourceTaskID :: "string option"
  hl_CheckpointOperationID :: "string"
  hl_RestoreOperationID :: "string option"

record ContinuationHandoffTargetPolicyV1 =
  ht_TeamID :: "string"
  ht_TeamRevision :: "int"
  ht_PolicyRevision :: "int"
  ht_MemberID :: "string"
  ht_Role :: "string"
  ht_SandboxID :: "string"
  ht_SandboxGeneration :: "int"
  ht_ServiceRegistrationID :: "string"
  ht_ServiceGeneration :: "int"
  ht_ServiceDesiredRevision :: "int"
  ht_ServiceActionRevision :: "int"
  ht_ProfileID :: "string"
  ht_ProfileRevision :: "int"
  ht_ProfileDigest :: "string"
  ht_InstructionRevision :: "int"
  ht_InstructionDigest :: "string"

record ContinuationHandoffWorkspaceRequestV1 =
  hw_Mode :: "string"
  hw_RestoreOperationID :: "string option"
  hw_SelectionID :: "string option"
  hw_ProjectID :: "string option"
  hw_WorkspaceEpoch :: "string option"
  hw_ScopeRevision :: "int option"
  hw_RootAttestation :: "string option"

record ContinuationHandoffTargetWorkspaceV1 =
  hk_SelectionID :: "string"
  hk_ProjectID :: "string"
  hk_WorkspaceEpoch :: "string"
  hk_ScopeRevision :: "int"
  hk_RootAttestation :: "string"

record ContinuationHandoffSessionV1 =
  hs_MappingID :: "string"
  hs_RegisteredSourceID :: "string"
  hs_NativeSessionID :: "string"
  hs_NativeProjectID :: "string"
  hs_NativeLocationDigest :: "string"
  hs_InstructionRevision :: "int"
  hs_InstructionDigest :: "string"
  hs_InstructionApplied :: "bool"

record ContinuationHandoffManifestV1 =
  hm_FormatVersion :: "int"
  hm_OperationID :: "string"
  hm_Action :: "string"
  hm_DesiredRevision :: "int"
  hm_HandoffKind :: "string"
  hm_SessionMode :: "string"
  hm_TargetWorkID :: "string"
  hm_MappingID :: "string"
  hm_Identity :: "ContinuationIdentityV1"
  hm_Binding :: "ContinuationBindingRefV1"
  hm_Checkpoint :: "ContinuationCheckpointRefV1"
  hm_Lineage :: "ContinuationHandoffLineageV1"
  hm_TargetPolicy :: "ContinuationHandoffTargetPolicyV1"
  hm_Workspace :: "ContinuationHandoffWorkspaceRequestV1"
  hm_Context :: "ContinuationContextV1"

record ContinuationHandoffReportV1 =
  hr_FormatVersion :: "int"
  hr_OperationID :: "string"
  hr_Action :: "string"
  hr_DesiredRevision :: "int"
  hr_HandoffKind :: "string"
  hr_SessionMode :: "string"
  hr_TargetWorkID :: "string"
  hr_MappingID :: "string"
  hr_Identity :: "ContinuationIdentityV1"
  hr_Binding :: "ContinuationBindingRefV1"
  hr_Checkpoint :: "ContinuationCheckpointRefV1"
  hr_Lineage :: "ContinuationHandoffLineageV1"
  hr_TargetPolicy :: "ContinuationHandoffTargetPolicyV1"
  hr_WorkspaceRequest :: "ContinuationHandoffWorkspaceRequestV1"
  hr_ContextDigest :: "string"
  hr_Status :: "string"
  hr_TargetWorkspace :: "ContinuationHandoffTargetWorkspaceV1 option"
  hr_Session :: "ContinuationHandoffSessionV1 option"
  hr_Baseline :: "ContinuationBaselineV1 option"
  hr_ReceiptDigest :: "string"
  hr_ErrorCode :: "string option"

record ContinuationHandoffReleaseManifestV1 =
  hq_FormatVersion :: "int"
  hq_OperationID :: "string"
  hq_Action :: "string"
  hq_DesiredRevision :: "int"
  hq_PrepareDesiredRevision :: "int"
  hq_Reason :: "string"
  hq_HandoffKind :: "string"
  hq_SessionMode :: "string"
  hq_TargetWorkID :: "string"
  hq_MappingID :: "string"
  hq_Identity :: "ContinuationIdentityV1"
  hq_Binding :: "ContinuationBindingRefV1"
  hq_Checkpoint :: "ContinuationCheckpointRefV1"
  hq_Lineage :: "ContinuationHandoffLineageV1"
  hq_TargetPolicy :: "ContinuationHandoffTargetPolicyV1"
  hq_Workspace :: "ContinuationHandoffWorkspaceRequestV1"
  hq_Context :: "ContinuationContextV1"

record ContinuationHandoffReleaseReportV1 =
  hp_ContinuationHandoffReleaseManifestV1 :: "ContinuationHandoffReleaseManifestV1"
  hp_Status :: "string"
  hp_ReceiptDigest :: "string"
  hp_ErrorCode :: "string option"

record RestoreTargetV1 =
  rt_Mode :: "string"
  rt_SandboxID :: "string"
  rt_SandboxGeneration :: "int"

record RestoreManifestV1 =
  rm_FormatVersion :: "int"
  rm_OperationID :: "string"
  rm_Action :: "string"
  rm_DesiredRevision :: "int"
  rm_Identity :: "ContinuationIdentityV1"
  rm_Binding :: "ContinuationBindingRefV1"
  rm_Checkpoint :: "ContinuationCheckpointRefV1"
  rm_Target :: "RestoreTargetV1"

record RestoreResultTargetV1 =
  rs_SelectionID :: "string"
  rs_ProjectID :: "string"
  rs_WorkspaceEpoch :: "string"
  rs_ScopeRevision :: "int"
  rs_RootAttestation :: "string"

record RestoreReportV1 =
  rp_FormatVersion :: "int"
  rp_OperationID :: "string"
  rp_Action :: "string"
  rp_Status :: "string"
  rp_DesiredRevision :: "int"
  rp_Identity :: "ContinuationIdentityV1"
  rp_Binding :: "ContinuationBindingRefV1"
  rp_Checkpoint :: "ContinuationCheckpointRefV1"
  rp_Target :: "RestoreResultTargetV1 option"
  rp_DependencyStatus :: "string"
  rp_Exclusions :: "string list"
  rp_ReceiptDigest :: "string"
  rp_ErrorCode :: "string option"

section \<open>Validators\<close>

definition native_project_ok :: "string \<Rightarrow> bool" where
  "native_project_ok p \<longleftrightarrow> p = ''global'' \<or> matchString nativeProjectPattern p"

definition validateS2Identity :: "ContinuationIdentityV1 \<Rightarrow> (string \<rightharpoonup> int) \<Rightarrow> bool" where
  "validateS2Identity identity sandboxGenerations \<longleftrightarrow>
     matchString continuityIDPattern (ni_WorkID identity) \<and> matchString continuityIDPattern (ni_ProjectID identity) \<and>
     matchString continuityIDPattern (ni_SandboxID identity) \<and>
     matchString continuityIDPattern (ni_WorkspaceEpoch identity) \<and>
     ni_SandboxGeneration identity > 0 \<and> ni_ExpectedRevision identity > 0 \<and>
     (case sandboxGenerations (ni_SandboxID identity) of
        None \<Rightarrow> False | Some generation \<Rightarrow> generation = ni_SandboxGeneration identity)"

definition validateS2Binding :: "ContinuationBindingRefV1 \<Rightarrow> bool" where
  "validateS2Binding binding \<longleftrightarrow>
     matchString continuityIDPattern (nb_BindingID binding) \<and> nb_BindingRevision binding > 0 \<and>
     nb_ScopeRevision binding > 0 \<and> matchString continuityIDPattern (nb_ServiceRegistrationID binding) \<and>
     nb_ServiceGeneration binding > 0 \<and> matchString continuityIDPattern (nb_RegisteredSourceID binding) \<and>
     matchString continuityIDPattern (nb_NativeSessionID binding) \<and>
     native_project_ok (nb_NativeProjectID binding) \<and>
     matchString setupDigestPattern (nb_NativeLocationDigest binding)"

definition validateS2Checkpoint :: "ContinuationCheckpointRefV1 \<Rightarrow> bool" where
  "validateS2Checkpoint checkpoint \<longleftrightarrow>
     matchString continuityIDPattern (nc_OperationID checkpoint) \<and>
     matchString continuityIDPattern (nc_CheckpointID checkpoint) \<and>
     matchString setupDigestPattern (nc_ManifestDigest checkpoint) \<and>
     nc_Bytes checkpoint \<ge> 0 \<and> nc_Bytes checkpoint \<le> 268435456 \<and>
     nc_ObjectCount checkpoint \<ge> 0 \<and> nc_ObjectCount checkpoint \<le> 10000"

definition validateContinuationManifest :: "ContinuationManifestV1 \<Rightarrow> (string \<rightharpoonup> int) \<Rightarrow> goerr + unit" where
  "validateContinuationManifest value sandboxGenerations =
     (let target = cm_Target value in
      if cm_FormatVersion value \<noteq> 1 \<or> cm_Action value \<noteq> ''prepare_continuation'' \<or> cm_DesiredRevision value < 1 \<or>
        \<not> matchString continuityIDPattern (cm_OperationID value) \<or>
        \<not> validateS2Identity (cm_Identity value) sandboxGenerations \<or>
        \<not> validateS2Binding (cm_Binding value) \<or> \<not> validateS2Checkpoint (cm_Checkpoint value) \<or>
        \<not> matchString continuityIDPattern (nt_TeamID target) \<or> nt_TeamRevision target < 1 \<or>
        nt_PolicyRevision target < 1 \<or> \<not> matchString continuityIDPattern (nt_MemberID target) \<or>
        nt_SandboxID target \<noteq> ni_SandboxID (cm_Identity value) \<or>
        nt_SandboxGeneration target \<noteq> ni_SandboxGeneration (cm_Identity value) \<or>
        nt_ServiceRegistrationID target \<noteq> nb_ServiceRegistrationID (cm_Binding value) \<or>
        nt_ServiceGeneration target \<noteq> nb_ServiceGeneration (cm_Binding value) \<or>
        nt_ServiceDesiredRevision target < 1 \<or> nt_ServiceActionRevision target < 1 \<or>
        \<not> matchString continuityIDPattern (nt_SelectionID target) \<or>
        nt_ProjectID target \<noteq> ni_ProjectID (cm_Identity value) \<or>
        nt_WorkspaceEpoch target \<noteq> ni_WorkspaceEpoch (cm_Identity value) \<or>
        nt_ScopeRevision target \<noteq> nb_ScopeRevision (cm_Binding value) \<or>
        \<not> matchString setupDigestPattern (nt_RootAttestation target) \<or>
        \<not> matchString continuityIDPattern (nt_ProfileID target) \<or> nt_ProfileRevision target < 1 \<or>
        \<not> matchString setupDigestPattern (nt_ProfileDigest target) \<or> nt_InstructionRevision target < 1 \<or>
        \<not> matchString setupDigestPattern (nt_InstructionDigest target) \<or>
        (nt_Role target \<noteq> ''worker'' \<and> nt_Role target \<noteq> ''reviewer'') \<or>
        \<not> matchString setupDigestPattern (nx_Digest (cm_Context value)) \<or>
        nx_Bytes (cm_Context value) < 0 \<or> nx_Bytes (cm_Context value) > 32768 \<or>
        nx_TokenUpperBound (cm_Context value) < 0 \<or> nx_TokenUpperBound (cm_Context value) > 8192
      then Inl (E ''continuation tuple is invalid'') else ok)"

text \<open>The preparation a release names.\<close>

definition release_prepare :: "ContinuationReleaseManifestV1 \<Rightarrow> ContinuationManifestV1" where
  "release_prepare value =
     \<lparr>cm_FormatVersion = crl_FormatVersion value, cm_OperationID = crl_OperationID value,
      cm_Action = ''prepare_continuation'', cm_DesiredRevision = crl_DesiredRevision value,
      cm_Identity = crl_Identity value, cm_Binding = crl_Binding value, cm_Checkpoint = crl_Checkpoint value,
      cm_Target = crl_Target value, cm_Context = crl_Context value\<rparr>"

definition validateContinuationReleaseManifest ::
  "ContinuationReleaseManifestV1 \<Rightarrow> (string \<rightharpoonup> int) \<Rightarrow> goerr + unit" where
  "validateContinuationReleaseManifest value sandboxGenerations =
     (if crl_Action value \<noteq> ''release_continuation'' \<or>
         (crl_Reason value \<noteq> ''failed'' \<and> crl_Reason value \<noteq> ''superseded'') \<or>
         \<not> accepted (validateContinuationManifest (release_prepare value) sandboxGenerations)
      then Inl (E ''continuation release tuple is invalid'') else ok)"

text \<open>The local \<open>validWorkspace\<close> of the handoff validator.\<close>

definition handoff_workspace_valid :: "ContinuationHandoffManifestV1 \<Rightarrow> bool" where
  "handoff_workspace_valid value =
     (let workspace = hm_Workspace value; lineage = hm_Lineage value; target = hm_TargetPolicy value in
      if hw_Mode workspace = ''allocate_and_materialize'' then
        hm_HandoffKind value = ''reviewer'' \<and> ht_Role target = ''reviewer'' \<and>
        hw_RestoreOperationID workspace = None \<and> hw_SelectionID workspace = None \<and>
        hw_ProjectID workspace = None \<and> hw_WorkspaceEpoch workspace = None \<and>
        hw_ScopeRevision workspace = None \<and> hw_RootAttestation workspace = None \<and>
        hl_RestoreOperationID lineage = None
      else if hw_Mode workspace = ''accepted_restore'' then
        hm_HandoffKind value = ''restored_target'' \<and> ht_Role target = ''worker'' \<and>
        (case (hw_RestoreOperationID workspace, hw_SelectionID workspace, hw_ProjectID workspace,
            hw_WorkspaceEpoch workspace, hw_ScopeRevision workspace, hw_RootAttestation workspace,
            hl_RestoreOperationID lineage) of
           (Some restore, Some selection, Some project, Some epoch, Some scope, Some root, Some source) \<Rightarrow>
             restore = source \<and> matchString continuityIDPattern restore \<and>
             matchString continuityIDPattern selection \<and> matchString continuityIDPattern project \<and>
             matchString continuityIDPattern epoch \<and> scope > 0 \<and> matchString setupDigestPattern root
         | _ \<Rightarrow> False)
      else False)"

text \<open>The local \<open>validTarget\<close>.\<close>

definition handoff_target_valid :: "ContinuationHandoffTargetPolicyV1 \<Rightarrow> (string \<rightharpoonup> int) \<Rightarrow> bool" where
  "handoff_target_valid target sandboxGenerations \<longleftrightarrow>
     (case sandboxGenerations (ht_SandboxID target) of
        None \<Rightarrow> False | Some targetGeneration \<Rightarrow> targetGeneration = ht_SandboxGeneration target) \<and>
     matchString continuityIDPattern (ht_TeamID target) \<and> ht_TeamRevision target > 0 \<and>
     ht_PolicyRevision target > 0 \<and> matchString continuityIDPattern (ht_MemberID target) \<and>
     (ht_Role target = ''worker'' \<or> ht_Role target = ''reviewer'') \<and>
     matchString continuityIDPattern (ht_ServiceRegistrationID target) \<and> ht_ServiceGeneration target > 0 \<and>
     ht_ServiceDesiredRevision target > 0 \<and> ht_ServiceActionRevision target > 0 \<and>
     ht_ProfileID target = ''opencode'' \<and> ht_ProfileRevision target > 0 \<and>
     matchString setupDigestPattern (ht_ProfileDigest target) \<and> ht_InstructionRevision target > 0 \<and>
     matchString setupDigestPattern (ht_InstructionDigest target)"

definition validateContinuationHandoffManifest ::
  "ContinuationHandoffManifestV1 \<Rightarrow> (string \<rightharpoonup> int) \<Rightarrow> goerr + unit" where
  "validateContinuationHandoffManifest value sandboxGenerations =
     (let lineage = hm_Lineage value;
          validSourceTask = (case hl_SourceTaskID lineage of
            None \<Rightarrow> True | Some task \<Rightarrow> matchString continuityIDPattern task)
      in if hm_FormatVersion value \<noteq> 1 \<or> hm_Action value \<noteq> ''prepare_handoff'' \<or> hm_DesiredRevision value < 1 \<or>
           \<not> matchString continuityIDPattern (hm_OperationID value) \<or>
           (hm_HandoffKind value \<noteq> ''reviewer'' \<and> hm_HandoffKind value \<noteq> ''restored_target'') \<or>
           hm_SessionMode value \<noteq> ''create_separate'' \<or>
           \<not> matchString continuityIDPattern (hm_TargetWorkID value) \<or>
           \<not> matchString continuityIDPattern (hm_MappingID value) \<or>
           \<not> validateS2Identity (hm_Identity value) sandboxGenerations \<or>
           \<not> validateS2Binding (hm_Binding value) \<or> \<not> validateS2Checkpoint (hm_Checkpoint value) \<or>
           hl_SourceWorkID lineage \<noteq> ni_WorkID (hm_Identity value) \<or>
           hl_SourceRevision lineage \<noteq> ni_ExpectedRevision (hm_Identity value) \<or>
           \<not> validSourceTask \<or> hl_CheckpointOperationID lineage \<noteq> nc_OperationID (hm_Checkpoint value) \<or>
           \<not> handoff_target_valid (hm_TargetPolicy value) sandboxGenerations \<or>
           \<not> handoff_workspace_valid value \<or>
           \<not> matchString setupDigestPattern (nx_Digest (hm_Context value)) \<or>
           nx_Bytes (hm_Context value) < 0 \<or> nx_Bytes (hm_Context value) > 32768 \<or>
           nx_TokenUpperBound (hm_Context value) < 0 \<or> nx_TokenUpperBound (hm_Context value) > 8192
         then Inl (E ''continuation handoff tuple is invalid'') else ok)"

definition handoff_release_prepare :: "ContinuationHandoffReleaseManifestV1 \<Rightarrow> ContinuationHandoffManifestV1" where
  "handoff_release_prepare value =
     \<lparr>hm_FormatVersion = hq_FormatVersion value, hm_OperationID = hq_OperationID value,
      hm_Action = ''prepare_handoff'', hm_DesiredRevision = hq_PrepareDesiredRevision value,
      hm_HandoffKind = hq_HandoffKind value, hm_SessionMode = hq_SessionMode value,
      hm_TargetWorkID = hq_TargetWorkID value, hm_MappingID = hq_MappingID value,
      hm_Identity = hq_Identity value, hm_Binding = hq_Binding value, hm_Checkpoint = hq_Checkpoint value,
      hm_Lineage = hq_Lineage value, hm_TargetPolicy = hq_TargetPolicy value,
      hm_Workspace = hq_Workspace value, hm_Context = hq_Context value\<rparr>"

definition validateContinuationHandoffReleaseManifest ::
  "ContinuationHandoffReleaseManifestV1 \<Rightarrow> (string \<rightharpoonup> int) \<Rightarrow> goerr + unit" where
  "validateContinuationHandoffReleaseManifest value sandboxGenerations =
     (if hq_Action value \<noteq> ''release_handoff'' \<or> hq_DesiredRevision value \<le> hq_PrepareDesiredRevision value \<or>
         (hq_Reason value \<noteq> ''failed'' \<and> hq_Reason value \<noteq> ''superseded'') \<or>
         \<not> accepted (validateContinuationHandoffManifest (handoff_release_prepare value) sandboxGenerations)
      then Inl (E ''continuation handoff release tuple is invalid'') else ok)"

definition validateRestoreManifest :: "RestoreManifestV1 \<Rightarrow> (string \<rightharpoonup> int) \<Rightarrow> goerr + unit" where
  "validateRestoreManifest value sandboxGenerations =
     (if rm_FormatVersion value \<noteq> 1 \<or> rm_Action value \<noteq> ''restore_checkpoint'' \<or> rm_DesiredRevision value < 1 \<or>
         \<not> matchString continuityIDPattern (rm_OperationID value) \<or>
         \<not> validateS2Identity (rm_Identity value) sandboxGenerations \<or>
         \<not> validateS2Binding (rm_Binding value) \<or> \<not> validateS2Checkpoint (rm_Checkpoint value) \<or>
         rt_Mode (rm_Target value) \<noteq> ''create_new'' \<or>
         rt_SandboxID (rm_Target value) \<noteq> ni_SandboxID (rm_Identity value) \<or>
         rt_SandboxGeneration (rm_Target value) \<noteq> ni_SandboxGeneration (rm_Identity value)
      then Inl (E ''restore tuple is invalid'') else ok)"

section \<open>Reports that answer a handoff\<close>

definition validContinuationHandoffReadyReport ::
  "ContinuationHandoffManifestV1 \<Rightarrow> ContinuationHandoffReportV1 \<Rightarrow> bool" where
  "validContinuationHandoffReadyReport manifest report =
     (if hr_FormatVersion report \<noteq> hm_FormatVersion manifest \<or> hr_OperationID report \<noteq> hm_OperationID manifest \<or>
         hr_Action report \<noteq> hm_Action manifest \<or> hr_DesiredRevision report \<noteq> hm_DesiredRevision manifest \<or>
         hr_HandoffKind report \<noteq> hm_HandoffKind manifest \<or> hr_SessionMode report \<noteq> hm_SessionMode manifest \<or>
         hr_TargetWorkID report \<noteq> hm_TargetWorkID manifest \<or> hr_MappingID report \<noteq> hm_MappingID manifest \<or>
         hr_Identity report \<noteq> hm_Identity manifest \<or> hr_Binding report \<noteq> hm_Binding manifest \<or>
         hr_Checkpoint report \<noteq> hm_Checkpoint manifest \<or> hr_Lineage report \<noteq> hm_Lineage manifest \<or>
         hr_TargetPolicy report \<noteq> hm_TargetPolicy manifest \<or>
         hr_WorkspaceRequest report \<noteq> hm_Workspace manifest \<or>
         hr_ContextDigest report \<noteq> nx_Digest (hm_Context manifest) \<or>
         \<not> matchString setupDigestPattern (hr_ReceiptDigest report)
      then False
      else if hr_Status report = ''failed'' then
        hr_TargetWorkspace report = None \<and> hr_Session report = None \<and> hr_Baseline report = None \<and>
        (case hr_ErrorCode report of None \<Rightarrow> False | Some code \<Rightarrow> matchString continuityIDPattern code)
      else if hr_Status report \<noteq> ''ready'' \<or> hr_ErrorCode report \<noteq> None then False
      else case (hr_TargetWorkspace report, hr_Session report, hr_Baseline report) of
        (Some workspace, Some session, Some baseline) \<Rightarrow>
          matchString continuityIDPattern (hk_SelectionID workspace) \<and>
          matchString continuityIDPattern (hk_ProjectID workspace) \<and>
          matchString continuityIDPattern (hk_WorkspaceEpoch workspace) \<and> hk_ScopeRevision workspace > 0 \<and>
          matchString setupDigestPattern (hk_RootAttestation workspace) \<and>
          hs_MappingID session = hm_MappingID manifest \<and>
          matchString continuityIDPattern (hs_RegisteredSourceID session) \<and>
          matchString continuityIDPattern (hs_NativeSessionID session) \<and>
          native_project_ok (hs_NativeProjectID session) \<and>
          matchString setupDigestPattern (hs_NativeLocationDigest session) \<and>
          hs_InstructionRevision session = ht_InstructionRevision (hm_TargetPolicy manifest) \<and>
          hs_InstructionDigest session = ht_InstructionDigest (hm_TargetPolicy manifest) \<and>
          hs_InstructionApplied session \<and>
          matchString continuityIDPattern (bl_BaselineID baseline) \<and>
          matchString setupDigestPattern (bl_BaselineDigest baseline) \<and>
          bl_NativeSessionID baseline = hs_NativeSessionID session \<and>
          bl_ServiceGeneration baseline = ht_ServiceGeneration (hm_TargetPolicy manifest) \<and>
          \<not> isZero (bl_ReadyAt baseline)
      | _ \<Rightarrow> False)"

definition validContinuationHandoffRelease ::
  "ContinuationHandoffReleaseManifestV1 \<Rightarrow> ContinuationHandoffReleaseReportV1 \<Rightarrow> bool" where
  "validContinuationHandoffRelease manifest report =
     (if hp_ContinuationHandoffReleaseManifestV1 report \<noteq> manifest \<or>
         \<not> matchString setupDigestPattern (hp_ReceiptDigest report)
      then False
      else hp_Status report = ''released'' \<and> hp_ErrorCode report = None \<or>
        hp_Status report = ''failed'' \<and>
        (case hp_ErrorCode report of None \<Rightarrow> False | Some code \<Rightarrow> matchString continuityIDPattern code))"

section \<open>The loops of ValidateManifest\<close>

text \<open>
  The five loops have one shape: the entry's validator, then the shared set \<open>seenS2Operations\<close>,
  then \<open>errors.Join\<close> of a message and the validator's error.
\<close>

definition s2_step ::
  "('a \<Rightarrow> goerr + unit) \<Rightarrow> ('a \<Rightarrow> string) \<Rightarrow> string \<Rightarrow> string set \<Rightarrow> 'a \<Rightarrow> goerr + string set" where
  "s2_step validate op message seen x =
     (if \<not> accepted (validate x) \<or> op x \<in> seen then Inl (joinE (E message) (validate x))
      else Inr (insert (op x) seen))"

definition continuation_step :: "(string \<rightharpoonup> int) \<Rightarrow> string set \<Rightarrow> ContinuationManifestV1 \<Rightarrow> goerr + string set" where
  "continuation_step gens = s2_step (\<lambda>c. validateContinuationManifest c gens) cm_OperationID
     ''invalid continuation manifest''"

definition continuation_release_step ::
  "(string \<rightharpoonup> int) \<Rightarrow> string set \<Rightarrow> ContinuationReleaseManifestV1 \<Rightarrow> goerr + string set" where
  "continuation_release_step gens = s2_step (\<lambda>c. validateContinuationReleaseManifest c gens) crl_OperationID
     ''invalid continuation release manifest''"

definition restore_step :: "(string \<rightharpoonup> int) \<Rightarrow> string set \<Rightarrow> RestoreManifestV1 \<Rightarrow> goerr + string set" where
  "restore_step gens = s2_step (\<lambda>c. validateRestoreManifest c gens) rm_OperationID
     ''invalid restore manifest''"

definition handoff_step :: "(string \<rightharpoonup> int) \<Rightarrow> string set \<Rightarrow> ContinuationHandoffManifestV1 \<Rightarrow> goerr + string set" where
  "handoff_step gens = s2_step (\<lambda>c. validateContinuationHandoffManifest c gens) hm_OperationID
     ''invalid continuation handoff manifest''"

definition handoff_release_step ::
  "(string \<rightharpoonup> int) \<Rightarrow> string set \<Rightarrow> ContinuationHandoffReleaseManifestV1 \<Rightarrow> goerr + string set" where
  "handoff_release_step gens = s2_step (\<lambda>c. validateContinuationHandoffReleaseManifest c gens) hq_OperationID
     ''invalid continuation handoff release manifest''"

interpretation s2_loop: key_set_loop "s2_step validate op message" "\<lambda>x. accepted (validate x)" op
  for validate op message
  by unfold_locales (auto simp: s2_step_def)

text \<open>The five loops in the order of the code, on one set of operation ids.\<close>

definition s2_operations ::
  "ContinuationManifestV1 list \<Rightarrow> ContinuationReleaseManifestV1 list \<Rightarrow> RestoreManifestV1 list \<Rightarrow>
   ContinuationHandoffManifestV1 list \<Rightarrow> ContinuationHandoffReleaseManifestV1 list \<Rightarrow> string list" where
  "s2_operations cs rs ts hs qs =
     map cm_OperationID cs @ map crl_OperationID rs @ map rm_OperationID ts @ map hm_OperationID hs @
     map hq_OperationID qs"

section \<open>What the validators accept\<close>

lemma S2Identity_current:
  "validateS2Identity i gens \<Longrightarrow> gens (ni_SandboxID i) = Some (ni_SandboxGeneration i) \<and> 0 < ni_SandboxGeneration i"
  by (auto simp: validateS2Identity_def split: option.splits)

lemma continuation_accepted_fences:
  assumes "accepted (validateContinuationManifest c gens)"
  shows "validateS2Identity (cm_Identity c) gens"
    and "nt_SandboxID (cm_Target c) = ni_SandboxID (cm_Identity c)"
    and "nt_SandboxGeneration (cm_Target c) = ni_SandboxGeneration (cm_Identity c)"
    and "nt_ServiceRegistrationID (cm_Target c) = nb_ServiceRegistrationID (cm_Binding c)"
    and "nt_ServiceGeneration (cm_Target c) = nb_ServiceGeneration (cm_Binding c)"
    and "nt_WorkspaceEpoch (cm_Target c) = ni_WorkspaceEpoch (cm_Identity c)"
    and "nt_ScopeRevision (cm_Target c) = nb_ScopeRevision (cm_Binding c)"
  using assms unfolding validateContinuationManifest_def Let_def accepted_if_error by argo+

lemma release_accepted:
  "accepted (validateContinuationReleaseManifest r gens) \<longleftrightarrow>
     crl_Action r = ''release_continuation'' \<and> crl_Reason r \<in> {''failed'', ''superseded''} \<and>
     accepted (validateContinuationManifest (release_prepare r) gens)"
  unfolding validateContinuationReleaseManifest_def accepted_if_error by auto

lemma handoff_release_accepted:
  "accepted (validateContinuationHandoffReleaseManifest r gens) \<longleftrightarrow>
     hq_Action r = ''release_handoff'' \<and> hq_PrepareDesiredRevision r < hq_DesiredRevision r \<and>
     hq_Reason r \<in> {''failed'', ''superseded''} \<and>
     accepted (validateContinuationHandoffManifest (handoff_release_prepare r) gens)"
  unfolding validateContinuationHandoffReleaseManifest_def accepted_if_error by auto

text \<open>The two closed shapes of a handoff's workspace request.\<close>

definition allocates :: "ContinuationHandoffManifestV1 \<Rightarrow> bool" where
  "allocates h \<longleftrightarrow>
     hm_HandoffKind h = ''reviewer'' \<and> ht_Role (hm_TargetPolicy h) = ''reviewer'' \<and>
     hm_Workspace h = \<lparr>hw_Mode = ''allocate_and_materialize'', hw_RestoreOperationID = None,
       hw_SelectionID = None, hw_ProjectID = None, hw_WorkspaceEpoch = None, hw_ScopeRevision = None,
       hw_RootAttestation = None\<rparr> \<and>
     hl_RestoreOperationID (hm_Lineage h) = None"

definition restores :: "ContinuationHandoffManifestV1 \<Rightarrow> bool" where
  "restores h \<longleftrightarrow>
     hm_HandoffKind h = ''restored_target'' \<and> ht_Role (hm_TargetPolicy h) = ''worker'' \<and>
     (\<exists>restore selection project epoch scope root.
        hm_Workspace h = \<lparr>hw_Mode = ''accepted_restore'', hw_RestoreOperationID = Some restore,
          hw_SelectionID = Some selection, hw_ProjectID = Some project, hw_WorkspaceEpoch = Some epoch,
          hw_ScopeRevision = Some scope, hw_RootAttestation = Some root\<rparr> \<and>
        hl_RestoreOperationID (hm_Lineage h) = Some restore \<and>
        matchString continuityIDPattern restore \<and> matchString continuityIDPattern selection \<and>
        matchString continuityIDPattern project \<and> matchString continuityIDPattern epoch \<and>
        0 < scope \<and> matchString setupDigestPattern root)"

lemma handoff_workspace_shapes: "handoff_workspace_valid h \<longleftrightarrow> allocates h \<or> restores h"
  unfolding handoff_workspace_valid_def allocates_def restores_def Let_def
  by (cases "hm_Workspace h") (auto split: option.splits)

lemma handoff_accepted_fences:
  assumes "accepted (validateContinuationHandoffManifest h gens)"
  shows "validateS2Identity (hm_Identity h) gens"
    and "handoff_target_valid (hm_TargetPolicy h) gens"
    and "handoff_workspace_valid h"
    and "hl_SourceWorkID (hm_Lineage h) = ni_WorkID (hm_Identity h)"
    and "hl_SourceRevision (hm_Lineage h) = ni_ExpectedRevision (hm_Identity h)"
    and "hl_CheckpointOperationID (hm_Lineage h) = nc_OperationID (hm_Checkpoint h)"
  using assms unfolding validateContinuationHandoffManifest_def Let_def accepted_if_error by argo+

lemma handoff_target_current:
  "handoff_target_valid t gens \<Longrightarrow> gens (ht_SandboxID t) = Some (ht_SandboxGeneration t)"
  by (auto simp: handoff_target_valid_def split: option.splits)

lemma restore_accepted_fences:
  assumes "accepted (validateRestoreManifest r gens)"
  shows "validateS2Identity (rm_Identity r) gens"
    and "rt_SandboxID (rm_Target r) = ni_SandboxID (rm_Identity r)"
    and "rt_SandboxGeneration (rm_Target r) = ni_SandboxGeneration (rm_Identity r)"
  using assms unfolding validateRestoreManifest_def Let_def accepted_if_error by argo+

end
