(* ===== verification/Model_Manager.thy ===== *)
theory Model_Manager
  imports Model_Patterns
begin

text \<open>
  The insights manager's manifests (\<open>internal/model/model.go\<close>): policies with their auto-steer
  tuple, reviews with their finding evidence, and takeovers; the validators and the three loops of
  \<open>ValidateManifest\<close>. Shown: the closed vocabulary of policy modes and that an auto-steer policy
  that is available names a qualified tuple, that finding evidence is bound to the review that carries it, the
  pairing of a takeover's action with its predecessor and hold state, and one policy per sandbox.
\<close>

section \<open>Data\<close>

record InsightsManagerSourceV1 =
  is_RegisteredSourceID :: "string"
  is_WorkspaceEpoch :: "string"
  is_NativeSessionID :: "string"
  is_ServiceRegistrationID :: "string"
  is_ServiceGeneration :: "int"
  is_SandboxGeneration :: "int"
  is_ProfileRevision :: "int"
  is_InstructionRevision :: "int"

record InsightsManagerTargetV1 =
  it_TeamID :: "string"
  it_MemberID :: "string"
  it_TaskID :: "string option"
  it_TaskAttempt :: "int option"
  it_WorkID :: "string option"
  it_WorkRevision :: "int option"
  it_BindingID :: "string option"
  it_BindingRevision :: "int option"

record InsightsManagerProfileV1 =
  ip_ProfileID :: "string"
  ip_ProfileRevision :: "int"
  ip_ProfileDigest :: "string"

record InsightsManagerBudgetV1 =
  ib_ModelRequests :: "int"
  ib_InputTokens :: "int"
  ib_OutputTokens :: "int"

record InsightsManagerEffectiveLimitsV1 =
  il_SandboxDailyRuns :: "int"
  il_SandboxHourlyRuns :: "int"
  il_SessionRuns24h :: "int"
  il_SessionCooldownSeconds :: "int"
  il_ServerConcurrentRuns :: "int"
  il_ServerHourlyStarts :: "int"
  il_PerRunModelRequests :: "int"
  il_PerRunInputTokens :: "int"
  il_PerRunOutputTokens :: "int"

record InsightsManagerAutoSteerTupleV1 =
  ia_NativeGuardVersion :: "string"
  ia_CustomNativeVersion :: "string"
  ia_NativeSourceRevision :: "string"
  ia_PatchDigest :: "string"
  ia_ArtifactSHA256 :: "string"
  ia_BinarySHA256 :: "string"
  ia_ImageDigest :: "string"
  ia_ManagerProfileDigest :: "string"
  ia_ManagerPluginDigest :: "string"

record InsightsManagerAutoSteerPolicyV1 =
  ap_FormatVersion :: "int"
  ap_Available :: "bool"
  ap_Reason :: "string option"
  ap_QualifiedTuple :: "InsightsManagerAutoSteerTupleV1 option"

record InsightsManagerPolicyManifestV1 =
  im_FormatVersion :: "int"
  im_SandboxID :: "string"
  im_SandboxGeneration :: "int"
  im_PolicyRevision :: "int"
  im_Mode :: "string"
  im_AllowedRules :: "string list"
  im_DailyRunLimit :: "int"
  im_DailyInputTokenLimit :: "int"
  im_DailyOutputTokenLimit :: "int"
  im_EffectiveLimits :: "InsightsManagerEffectiveLimitsV1"
  im_ManagerProfile :: "InsightsManagerProfileV1"
  im_ValidUntil :: "gotime"
  im_RunGeneration :: "int"
  im_AutoSteerAvailable :: "bool"
  im_AutoSteerPolicy :: "InsightsManagerAutoSteerPolicyV1 option"

record InsightsManagerFindingEvidenceV1 =
  fe_FindingID :: "string"
  fe_FindingRevision :: "int"
  fe_JournalGeneration :: "string"
  fe_RuleID :: "string"
  fe_NativeSessionID :: "string"
  fe_FirstSequence :: "int"
  fe_LastSequence :: "int"
  fe_Count :: "int"
  fe_MatchedCallIDs :: "string list"
  fe_Coverage :: "string"
  fe_FirstObservedAt :: "gotime"
  fe_LastObservedAt :: "gotime"
  fe_ToolCategory :: "string"
  fe_Phase :: "string"

record InsightsManagerReviewManifestV1 =
  rv_FormatVersion :: "int"
  rv_ReservationID :: "string"
  rv_RunID :: "string"
  rv_Manual :: "bool"
  rv_FindingID :: "string"
  rv_FindingRevision :: "int"
  rv_PolicyRevision :: "int"
  rv_RuleID :: "string"
  rv_RecipeID :: "string"
  rv_ProviderRouteDigest :: "string"
  rv_ManagerProfile :: "InsightsManagerProfileV1"
  rv_Source :: "InsightsManagerSourceV1"
  rv_Target :: "InsightsManagerTargetV1"
  rv_Budget :: "InsightsManagerBudgetV1"
  rv_FindingEvidence :: "InsightsManagerFindingEvidenceV1 option"
  rv_ValidUntil :: "gotime"

record InsightsTakeoverManifestV1 =
  tk_FormatVersion :: "int"
  tk_OperationID :: "string"
  tk_PredecessorOperationID :: "string option"
  tk_Action :: "string"
  tk_FindingID :: "string"
  tk_FindingRevision :: "int"
  tk_PolicyRevision :: "int"
  tk_RunGeneration :: "int"
  tk_HoldID :: "string"
  tk_HoldRevision :: "int"
  tk_HoldState :: "string"
  tk_Source :: "InsightsManagerSourceV1"
  tk_Target :: "InsightsManagerTargetV1"
  tk_ValidUntil :: "gotime"

section \<open>Parts\<close>

definition validInsightsManagerSource :: "InsightsManagerSourceV1 \<Rightarrow> bool" where
  "validInsightsManagerSource value \<longleftrightarrow>
     matchString continuityIDPattern (is_RegisteredSourceID value) \<and>
     matchString continuityIDPattern (is_WorkspaceEpoch value) \<and>
     matchString continuityIDPattern (is_NativeSessionID value) \<and>
     matchString continuityIDPattern (is_ServiceRegistrationID value) \<and>
     is_ServiceGeneration value > 0 \<and> is_SandboxGeneration value > 0 \<and> is_ProfileRevision value > 0 \<and>
     is_InstructionRevision value > 0"

definition validInsightsManagerTarget :: "InsightsManagerTargetV1 \<Rightarrow> bool" where
  "validInsightsManagerTarget value =
     (if \<not> matchString continuityIDPattern (it_TeamID value) \<or>
         \<not> matchString continuityIDPattern (it_MemberID value) then False
      else
        let hasTask = (it_TaskID value \<noteq> None \<or> it_TaskAttempt value \<noteq> None) in
        if hasTask \<and> (case (it_TaskID value, it_TaskAttempt value) of
            (Some task, Some attempt) \<Rightarrow> \<not> matchString continuityIDPattern task \<or> attempt < 1
          | _ \<Rightarrow> True)
        then False
        else
          let hasWork = (it_WorkID value \<noteq> None \<or> it_WorkRevision value \<noteq> None \<or>
            it_BindingID value \<noteq> None \<or> it_BindingRevision value \<noteq> None) in
          \<not> hasWork \<or>
          (case (it_WorkID value, it_WorkRevision value, it_BindingID value, it_BindingRevision value) of
             (Some work, Some revision, Some binding, Some bindingRevision) \<Rightarrow>
               matchString continuityIDPattern work \<and> revision > 0 \<and>
               matchString continuityIDPattern binding \<and> bindingRevision > 0
           | _ \<Rightarrow> False))"

definition validInsightsManagerProfile :: "InsightsManagerProfileV1 \<Rightarrow> bool" where
  "validInsightsManagerProfile value \<longleftrightarrow>
     ip_ProfileID value = ''warpmetal-insights-manager'' \<and> ip_ProfileRevision value > 0 \<and>
     matchString setupDigestPattern (ip_ProfileDigest value)"

definition validInsightsManagerBudget :: "InsightsManagerBudgetV1 \<Rightarrow> bool" where
  "validInsightsManagerBudget value \<longleftrightarrow>
     ib_ModelRequests value \<ge> 1 \<and> ib_ModelRequests value \<le> 2 \<and>
     ib_InputTokens value \<ge> 1 \<and> ib_InputTokens value \<le> 16000 \<and>
     ib_OutputTokens value \<ge> 1 \<and> ib_OutputTokens value \<le> 2000"

definition validInsightsManagerLimits :: "InsightsManagerEffectiveLimitsV1 \<Rightarrow> bool" where
  "validInsightsManagerLimits value \<longleftrightarrow>
     il_SandboxDailyRuns value \<ge> 1 \<and> il_SandboxDailyRuns value \<le> 30 \<and>
     il_SandboxHourlyRuns value \<ge> 1 \<and> il_SandboxHourlyRuns value \<le> 10 \<and>
     il_SessionRuns24h value \<ge> 1 \<and> il_SessionRuns24h value \<le> 3 \<and> il_SessionCooldownSeconds value \<ge> 300 \<and>
     il_ServerConcurrentRuns value \<ge> 1 \<and> il_ServerConcurrentRuns value \<le> 2 \<and>
     il_ServerHourlyStarts value \<ge> 1 \<and> il_ServerHourlyStarts value \<le> 20 \<and>
     il_PerRunModelRequests value \<ge> 1 \<and> il_PerRunModelRequests value \<le> 2 \<and>
     il_PerRunInputTokens value \<ge> 1 \<and> il_PerRunInputTokens value \<le> 16000 \<and>
     il_PerRunOutputTokens value \<ge> 1 \<and> il_PerRunOutputTokens value \<le> 2000"

definition validInsightsManagerRule :: "string \<Rightarrow> bool" where
  "validInsightsManagerRule value \<longleftrightarrow>
     value = ''repeated_identical_failure@1'' \<or> value = ''repeated_identical_call@1'' \<or>
     value = ''empty_result_loop@1'' \<or> value = ''suspected_stall@1''"

definition validInsightsManagerRecipe :: "string \<Rightarrow> bool" where
  "validInsightsManagerRecipe value \<longleftrightarrow>
     value = ''inspect_first_failure@1'' \<or> value = ''check_repeated_operation@1'' \<or>
     value = ''refine_query@1'' \<or> value = ''inspect_active_phase@1''"

definition AutoSteerTuple_Valid :: "InsightsManagerAutoSteerTupleV1 \<Rightarrow> bool" where
  "AutoSteerTuple_Valid value =
     (let digests = [ia_PatchDigest value, ia_ArtifactSHA256 value, ia_BinarySHA256 value,
        ia_ImageDigest value, ia_ManagerProfileDigest value, ia_ManagerPluginDigest value]
      in if list_ex (\<lambda>digest. \<not> matchString setupDigestPattern digest) digests then False
         else ia_NativeGuardVersion value = ''warpmetal.atomic-input.v1'' \<and>
           ia_CustomNativeVersion value \<noteq> [] \<and> length (ia_CustomNativeVersion value) \<le> 64 \<and>
           matchString continuityIDPattern (ia_NativeSourceRevision value))"

definition validInsightsManagerPolicyMode :: "InsightsManagerPolicyManifestV1 \<Rightarrow> bool" where
  "validInsightsManagerPolicyMode value =
     (if im_Mode value = ''off'' \<or> im_Mode value = ''recommend'' then True
      else if im_Mode value = ''auto_steer'' then
        (case im_AutoSteerPolicy value of
           None \<Rightarrow> True
         | Some policy \<Rightarrow>
             if ap_FormatVersion policy \<noteq> 1 then False
             else if ap_Available policy then
               ap_Reason policy = None \<and>
               (case ap_QualifiedTuple policy of None \<Rightarrow> False | Some t \<Rightarrow> AutoSteerTuple_Valid t)
             else if ap_QualifiedTuple policy \<noteq> None then False
             else (case ap_Reason policy of
                None \<Rightarrow> False
              | Some reason \<Rightarrow> reason = ''native_guard_unqualified'' \<or> reason = ''runtime_unavailable'' \<or>
                  reason = ''source_unavailable''))
      else False)"

section \<open>Validators\<close>

definition policy_rule_step :: "string set \<Rightarrow> string \<Rightarrow> goerr + string set" where
  "policy_rule_step seen rule =
     (if \<not> validInsightsManagerRule rule \<or> rule \<in> seen then Inl (E ''invalid insights manager policy rule'')
      else Inr (insert rule seen))"

definition ValidateInsightsManagerPolicyManifest :: "InsightsManagerPolicyManifestV1 \<Rightarrow> goerr + unit" where
  "ValidateInsightsManagerPolicyManifest value =
     (if im_FormatVersion value \<noteq> 1 \<or> \<not> matchString continuityIDPattern (im_SandboxID value) \<or>
         im_SandboxGeneration value < 1 \<or> im_PolicyRevision value < 1 \<or>
         \<not> validInsightsManagerPolicyMode value \<or> length (im_AllowedRules value) > 8 \<or>
         im_DailyRunLimit value < 1 \<or> im_DailyRunLimit value > 30 \<or>
         im_DailyInputTokenLimit value < 1 \<or> im_DailyInputTokenLimit value > 480000 \<or>
         im_DailyOutputTokenLimit value < 1 \<or> im_DailyOutputTokenLimit value > 60000 \<or>
         \<not> validInsightsManagerLimits (im_EffectiveLimits value) \<or>
         \<not> validInsightsManagerProfile (im_ManagerProfile value) \<or> isZero (im_ValidUntil value) \<or>
         im_RunGeneration value < 1 \<or> im_AutoSteerAvailable value
      then Inl (E ''invalid insights manager policy manifest'')
      else bindE (foldE policy_rule_step {} (im_AllowedRules value)) (\<lambda>_.
        if im_Mode value = ''off'' \<and> length (im_AllowedRules value) \<noteq> 0
        then Inl (E ''off insights manager policy has rules'') else ok))"

definition evidence_ref_step :: "string set \<Rightarrow> string \<Rightarrow> goerr + string set" where
  "evidence_ref_step seen i =
     (if \<not> matchString managerEvidenceIDPattern i \<or> i \<in> seen
      then Inl (E ''invalid insights manager finding evidence reference'')
      else Inr (insert i seen))"

definition ValidateInsightsManagerFindingEvidence ::
  "InsightsManagerFindingEvidenceV1 \<Rightarrow> InsightsManagerReviewManifestV1 \<Rightarrow> goerr + unit" where
  "ValidateInsightsManagerFindingEvidence value review =
     (if fe_FindingID value \<noteq> rv_FindingID review \<or> fe_FindingRevision value \<noteq> rv_FindingRevision review \<or>
         fe_RuleID value \<noteq> rv_RuleID review \<or>
         fe_NativeSessionID value \<noteq> is_NativeSessionID (rv_Source review) \<or>
         \<not> matchString managerEvidenceIDPattern (fe_JournalGeneration value) \<or>
         fe_FirstSequence value < 1 \<or> fe_LastSequence value < fe_FirstSequence value \<or> fe_Count value < 1 \<or>
         length (fe_MatchedCallIDs value) > 16 \<or> fe_Coverage value \<noteq> ''complete'' \<or>
         length (fe_ToolCategory value) > 32 \<or> length (fe_Phase value) > 32 \<or>
         isZero (fe_FirstObservedAt value) \<or> isZero (fe_LastObservedAt value) \<or>
         fe_LastObservedAt value < fe_FirstObservedAt value
      then Inl (E ''invalid insights manager finding evidence'')
      else bindE (foldE evidence_ref_step {} (fe_MatchedCallIDs value)) (\<lambda>_. ok))"

definition ValidateInsightsManagerReviewManifest :: "InsightsManagerReviewManifestV1 \<Rightarrow> goerr + unit" where
  "ValidateInsightsManagerReviewManifest value =
     (if rv_FormatVersion value \<noteq> 1 \<or> \<not> matchString continuityIDPattern (rv_ReservationID value) \<or>
         \<not> matchString continuityIDPattern (rv_RunID value) \<or>
         \<not> matchString continuityIDPattern (rv_FindingID value) \<or>
         rv_FindingRevision value < 1 \<or> rv_PolicyRevision value < 1 \<or>
         \<not> validInsightsManagerRule (rv_RuleID value) \<or> \<not> validInsightsManagerRecipe (rv_RecipeID value) \<or>
         \<not> matchString setupDigestPattern (rv_ProviderRouteDigest value) \<or>
         \<not> validInsightsManagerProfile (rv_ManagerProfile value) \<or>
         \<not> validInsightsManagerSource (rv_Source value) \<or> \<not> validInsightsManagerTarget (rv_Target value) \<or>
         \<not> validInsightsManagerBudget (rv_Budget value) \<or> isZero (rv_ValidUntil value)
      then Inl (E ''invalid insights manager review manifest'')
      else case rv_FindingEvidence value of
        None \<Rightarrow> ok
      | Some evidence \<Rightarrow> ValidateInsightsManagerFindingEvidence evidence value)"

definition ValidateInsightsTakeoverManifest :: "InsightsTakeoverManifestV1 \<Rightarrow> goerr + unit" where
  "ValidateInsightsTakeoverManifest value =
     (let validAction =
        (tk_Action value = ''pause_manager_and_hold_member'' \<and> tk_PredecessorOperationID value = None \<and>
           tk_HoldState value = ''active'' \<or>
         tk_Action value = ''resume_manager_and_release_member'' \<and>
           (case tk_PredecessorOperationID value of
              None \<Rightarrow> False | Some p \<Rightarrow> matchString continuityIDPattern p) \<and>
           tk_HoldState value = ''released'')
      in if tk_FormatVersion value \<noteq> 1 \<or> \<not> matchString continuityIDPattern (tk_OperationID value) \<or>
           \<not> validAction \<or> \<not> matchString continuityIDPattern (tk_FindingID value) \<or>
           tk_FindingRevision value < 1 \<or> tk_PolicyRevision value < 1 \<or> tk_RunGeneration value < 1 \<or>
           \<not> matchString continuityIDPattern (tk_HoldID value) \<or> tk_HoldRevision value < 1 \<or>
           \<not> validInsightsManagerSource (tk_Source value) \<or> \<not> validInsightsManagerTarget (tk_Target value) \<or>
           isZero (tk_ValidUntil value)
         then Inl (E ''invalid insights takeover manifest'') else ok)"

section \<open>The loops of ValidateManifest\<close>

definition policy_step ::
  "(string \<rightharpoonup> int) \<Rightarrow> (string \<rightharpoonup> InsightsManagerPolicyManifestV1) \<Rightarrow> InsightsManagerPolicyManifestV1 \<Rightarrow>
   goerr + (string \<rightharpoonup> InsightsManagerPolicyManifestV1)" where
  "policy_step sandboxGenerations managerPolicies policy =
     (let err = ValidateInsightsManagerPolicyManifest policy in
      if \<not> accepted err \<or>
         (case sandboxGenerations (im_SandboxID policy) of
            None \<Rightarrow> True | Some generation \<Rightarrow> generation \<noteq> im_SandboxGeneration policy)
      then Inl (joinE (E ''invalid insights manager policy'') err)
      else if managerPolicies (im_SandboxID policy) \<noteq> None
      then Inl (E ''duplicate insights manager policy'')
      else Inr (managerPolicies(im_SandboxID policy \<mapsto> policy)))"

definition review_step :: "string set \<Rightarrow> InsightsManagerReviewManifestV1 \<Rightarrow> goerr + string set" where
  "review_step seenManagerRuns review =
     (let err = ValidateInsightsManagerReviewManifest review in
      if \<not> accepted err \<or> rv_RunID review \<in> seenManagerRuns
      then Inl (joinE (E ''invalid insights manager review'') err)
      else Inr (insert (rv_RunID review) seenManagerRuns))"

definition takeover_step :: "string set \<Rightarrow> InsightsTakeoverManifestV1 \<Rightarrow> goerr + string set" where
  "takeover_step seenTakeovers takeover =
     (let err = ValidateInsightsTakeoverManifest takeover in
      if \<not> accepted err \<or> tk_OperationID takeover \<in> seenTakeovers
      then Inl (joinE (E ''invalid insights takeover'') err)
      else Inr (insert (tk_OperationID takeover) seenTakeovers))"

section \<open>What they accept\<close>

interpretation policy_rules: key_set_loop policy_rule_step validInsightsManagerRule "\<lambda>r. r"
  by unfold_locales (auto simp: policy_rule_step_def)

interpretation evidence_refs: key_set_loop evidence_ref_step "matchString managerEvidenceIDPattern" "\<lambda>r. r"
  by unfold_locales (auto simp: evidence_ref_step_def)

interpretation reviews: key_set_loop review_step "\<lambda>r. accepted (ValidateInsightsManagerReviewManifest r)" rv_RunID
  by unfold_locales (auto simp: review_step_def Let_def)

interpretation takeovers: key_set_loop takeover_step "\<lambda>r. accepted (ValidateInsightsTakeoverManifest r)" tk_OperationID
  by unfold_locales (auto simp: takeover_step_def Let_def)

definition policy_ok :: "(string \<rightharpoonup> int) \<Rightarrow> InsightsManagerPolicyManifestV1 \<Rightarrow> bool" where
  "policy_ok gens p \<longleftrightarrow> accepted (ValidateInsightsManagerPolicyManifest p) \<and>
     gens (im_SandboxID p) = Some (im_SandboxGeneration p)"

lemma policy_step_Inr:
  "policy_step gens m p = Inr t \<longleftrightarrow> policy_ok gens p \<and> m (im_SandboxID p) = None \<and> t = m(im_SandboxID p \<mapsto> p)"
  by (auto simp: policy_step_def policy_ok_def Let_def split: option.splits)

interpretation policies: keyed_loop "policy_step gens" "policy_ok gens" "\<lambda>m p. m (im_SandboxID p) = None"
  im_SandboxID Map.empty
  for gens
  by unfold_locales (auto simp: accepted_iff policy_step_Inr)

lemma takeover_accepted:
  assumes "accepted (ValidateInsightsTakeoverManifest t)"
  shows "(tk_Action t = ''pause_manager_and_hold_member'' \<and> tk_PredecessorOperationID t = None \<and> tk_HoldState t = ''active'') \<noteq>
     (tk_Action t = ''resume_manager_and_release_member'' \<and> tk_PredecessorOperationID t \<noteq> None \<and> tk_HoldState t = ''released'')"
  using assms unfolding ValidateInsightsTakeoverManifest_def Let_def accepted_if_error
  by (auto split: option.splits)

lemma policy_accepted_bounds:
  assumes "accepted (ValidateInsightsManagerPolicyManifest p)"
  shows "validInsightsManagerPolicyMode p" and "validInsightsManagerLimits (im_EffectiveLimits p)"
    and "set (im_AllowedRules p) \<subseteq> Collect validInsightsManagerRule" and "distinct (im_AllowedRules p)"
    and "im_Mode p = ''off'' \<Longrightarrow> im_AllowedRules p = []"
proof -
  from assms have a: "\<not> (im_FormatVersion p \<noteq> 1 \<or> \<not> matchString continuityIDPattern (im_SandboxID p) \<or>
         im_SandboxGeneration p < 1 \<or> im_PolicyRevision p < 1 \<or>
         \<not> validInsightsManagerPolicyMode p \<or> length (im_AllowedRules p) > 8 \<or>
         im_DailyRunLimit p < 1 \<or> im_DailyRunLimit p > 30 \<or>
         im_DailyInputTokenLimit p < 1 \<or> im_DailyInputTokenLimit p > 480000 \<or>
         im_DailyOutputTokenLimit p < 1 \<or> im_DailyOutputTokenLimit p > 60000 \<or>
         \<not> validInsightsManagerLimits (im_EffectiveLimits p) \<or>
         \<not> validInsightsManagerProfile (im_ManagerProfile p) \<or> isZero (im_ValidUntil p) \<or>
         im_RunGeneration p < 1 \<or> im_AutoSteerAvailable p)"
    and b: "accepted (bindE (foldE policy_rule_step {} (im_AllowedRules p)) (\<lambda>_.
        if im_Mode p = ''off'' \<and> length (im_AllowedRules p) \<noteq> 0
        then Inl (E ''off insights manager policy has rules'') else ok))"
    unfolding ValidateInsightsManagerPolicyManifest_def accepted_if_error by blast+
  from a show "validInsightsManagerPolicyMode p" "validInsightsManagerLimits (im_EffectiveLimits p)" by argo+
  from b have "accepted (foldE policy_rule_step {} (im_AllowedRules p))"
    and off: "\<not> (im_Mode p = ''off'' \<and> length (im_AllowedRules p) \<noteq> 0)"
    by (cases "foldE policy_rule_step {} (im_AllowedRules p)"; simp split: if_splits)+
  then show "set (im_AllowedRules p) \<subseteq> Collect validInsightsManagerRule" "distinct (im_AllowedRules p)"
    by (auto simp: policy_rules.fold_accepted)
  show "im_Mode p = ''off'' \<Longrightarrow> im_AllowedRules p = []" using off by simp
qed

lemma distinct_card_le: "distinct xs \<Longrightarrow> set xs \<subseteq> A \<Longrightarrow> finite A \<Longrightarrow> length xs \<le> card A"
  by (metis card_mono distinct_card)

lemma rules_set: "Collect validInsightsManagerRule =
   {''repeated_identical_failure@1'', ''repeated_identical_call@1'', ''empty_result_loop@1'', ''suspected_stall@1''}"
  by (auto simp: validInsightsManagerRule_def)

text \<open>The closed vocabulary has four rules, so the bound of eight on their number is never reached.\<close>

lemma policy_at_most_four_rules:
  assumes "accepted (ValidateInsightsManagerPolicyManifest p)"
  shows "length (im_AllowedRules p) \<le> 4"
proof -
  have "length (im_AllowedRules p) \<le> card (Collect validInsightsManagerRule)"
    using policy_accepted_bounds(3,4) [OF assms]
    by (intro distinct_card_le) (auto simp: rules_set)
  also have "\<dots> \<le> 4"
    unfolding rules_set by simp
  finally show ?thesis .
qed

end
