(* ===== verification/Model_Service.thy ===== *)
theory Model_Service
  imports Model_Setup
begin

text \<open>
  Managed services (\<open>internal/model/model.go\<close>): the workspace requests and the formatVersion 1
  member services of a manifest, the loops of \<open>ValidateManifest\<close> that check them, and the
  derived process instance name. \<open>managed_service_step\<close> is the body of the service loop, with
  the tolerance for retained terminal services written as the code writes it;
  \<open>managed_service_ok\<close> says the same as a specification: the box is at the service's generation and the
  profile is exactly the ready one, or the service is terminal history of an older generation.
\<close>

section \<open>Data\<close>

record ManagedWorkspaceRequestV1 =
  mw_FormatVersion :: "int"
  mw_OperationID :: "string"
  mw_ActionRevision :: "int"
  mw_DesiredRevision :: "int"
  mw_AllocationDigest :: "string"
  mw_Request :: "string"
  mw_TargetKind :: "string"
  mw_ServerID :: "string"
  mw_TeamID :: "string"
  mw_MemberID :: "string"
  mw_OwnerCellID :: "string"
  mw_OwnerRole :: "string"
  mw_OwnerGeneration :: "int"
  mw_SandboxID :: "string"
  mw_SandboxGeneration :: "int"
  mw_ServiceRegistrationID :: "string"
  mw_SelectionID :: "string"
  mw_ProjectID :: "string"
  mw_WorkspaceEpoch :: "string"
  mw_ScopeRevision :: "int"

record ManagedServiceIdentityV1 =
  mi_ServerID :: "string"
  mi_TeamID :: "string"
  mi_MemberID :: "string"
  mi_SandboxID :: "string"
  mi_SandboxGeneration :: "int"
  mi_ServiceRegistrationID :: "string"
  mi_ExpectedServiceGeneration :: "int"
  mi_Instance :: "string"
  mi_Role :: "string"

record ManagedServiceProfileV1 =
  mp_SetupOperationID :: "string"
  mp_ProfileID :: "string"
  mp_ProfileRevision :: "int"
  mp_ProfileDigest :: "string"

record ManagedServiceInstructionsV1 =
  mn_InstructionRevision :: "int"
  mn_InstructionDigest :: "string"

record ManagedServiceWorkspaceV1 =
  mk_SelectionID :: "string"
  mk_ProjectID :: "string"
  mk_WorkspaceEpoch :: "string"
  mk_ScopeRevision :: "int"
  mk_Designation :: "string"
  mk_RootAttestation :: "string"

record ManagedServiceAuthorityV1 =
  ma_TeamRevision :: "int"
  ma_ProviderID :: "string"
  ma_ModelID :: "string option"
  ma_AuthMode :: "string option"

record ManagedServiceImageV1 =
  mg_Digest :: "string"

record ManagedServiceV1 =
  ms_FormatVersion :: "int"
  ms_OperationID :: "string"
  ms_ActionRevision :: "int"
  ms_DesiredRevision :: "int"
  ms_ConfigDigest :: "string"
  ms_DesiredState :: "string"
  ms_SessionMode :: "string"
  ms_Authority :: "ManagedServiceAuthorityV1 option"
  ms_Identity :: "ManagedServiceIdentityV1"
  ms_Profile :: "ManagedServiceProfileV1"
  ms_Instructions :: "ManagedServiceInstructionsV1"
  ms_Workspace :: "ManagedServiceWorkspaceV1"
  ms_RuntimeContractVersion :: "string"
  ms_Image :: "ManagedServiceImageV1 option"

section \<open>The process instance\<close>

definition ManagedServiceProcessInstance :: "string \<Rightarrow> int \<Rightarrow> string" where
  "ManagedServiceProcessInstance instance_name serviceGeneration =
     ''wmsup-'' @ instance_name @ ''-'' @ pad4 serviceGeneration"

section \<open>The workspace request loop\<close>

definition workspace_request_step ::
  "string \<Rightarrow> (string \<rightharpoonup> int) \<Rightarrow> string set \<Rightarrow> ManagedWorkspaceRequestV1 \<Rightarrow> goerr + string set" where
  "workspace_request_step expectedServer sandboxGenerations seen request =
     (let base = (mw_FormatVersion request = 1 \<and> mw_Request request = ''create_default'' \<and>
            matchString continuityIDPattern (mw_OperationID request) \<and> mw_ActionRevision request \<ge> 1 \<and>
            mw_DesiredRevision request \<ge> 1 \<and> mw_ServerID request = expectedServer \<and>
            matchString continuityIDPattern (mw_ServiceRegistrationID request) \<and>
            matchString setupDigestPattern (mw_AllocationDigest request) \<and>
            (case sandboxGenerations (mw_SandboxID request) of
               None \<Rightarrow> False
             | Some generation \<Rightarrow> generation = mw_SandboxGeneration request \<and>
                 mw_ServiceRegistrationID request \<notin> seen));
          valid = (if mw_TargetKind request = ''cell_session'' then
              base \<and> mw_TeamID request = [] \<and> mw_MemberID request = [] \<and>
              matchString continuityIDPattern (mw_OwnerCellID request) \<and>
              matchString continuityIDPattern (mw_OwnerRole request) \<and> mw_OwnerGeneration request \<ge> 1 \<and>
              matchString continuityIDPattern (mw_SelectionID request) \<and>
              matchString continuityIDPattern (mw_ProjectID request) \<and>
              matchString continuityIDPattern (mw_WorkspaceEpoch request) \<and>
              mw_ScopeRevision request \<ge> 1
            else base \<and> matchString continuityIDPattern (mw_TeamID request) \<and>
              matchString continuityIDPattern (mw_MemberID request))
      in if \<not> valid then Inl (E ''invalid managed workspace request'')
         else Inr (insert (mw_ServiceRegistrationID request) seen))"

definition workspace_request_ok :: "string \<Rightarrow> (string \<rightharpoonup> int) \<Rightarrow> ManagedWorkspaceRequestV1 \<Rightarrow> bool" where
  "workspace_request_ok srv gens r \<longleftrightarrow>
     mw_FormatVersion r = 1 \<and> mw_Request r = ''create_default'' \<and>
     matchString continuityIDPattern (mw_OperationID r) \<and> 1 \<le> mw_ActionRevision r \<and>
     1 \<le> mw_DesiredRevision r \<and> mw_ServerID r = srv \<and>
     matchString continuityIDPattern (mw_ServiceRegistrationID r) \<and>
     matchString setupDigestPattern (mw_AllocationDigest r) \<and>
     gens (mw_SandboxID r) = Some (mw_SandboxGeneration r) \<and>
     (if mw_TargetKind r = ''cell_session'' then
        mw_TeamID r = [] \<and> mw_MemberID r = [] \<and> matchString continuityIDPattern (mw_OwnerCellID r) \<and>
        matchString continuityIDPattern (mw_OwnerRole r) \<and> 1 \<le> mw_OwnerGeneration r \<and>
        matchString continuityIDPattern (mw_SelectionID r) \<and>
        matchString continuityIDPattern (mw_ProjectID r) \<and>
        matchString continuityIDPattern (mw_WorkspaceEpoch r) \<and> 1 \<le> mw_ScopeRevision r
      else matchString continuityIDPattern (mw_TeamID r) \<and> matchString continuityIDPattern (mw_MemberID r))"

lemma workspace_request_step_Inr:
  "workspace_request_step srv gens seen r = Inr t \<longleftrightarrow>
     workspace_request_ok srv gens r \<and> mw_ServiceRegistrationID r \<notin> seen \<and>
     t = insert (mw_ServiceRegistrationID r) seen"
  unfolding workspace_request_step_def workspace_request_ok_def Let_def
  by (cases "gens (mw_SandboxID r)") auto

interpretation workspace_request_loop: key_set_loop "workspace_request_step srv gens"
  "workspace_request_ok srv gens" mw_ServiceRegistrationID
  for srv gens
  by unfold_locales (rule workspace_request_step_Inr)

section \<open>The managed service loop\<close>

definition authority_valid :: "ManagedServiceAuthorityV1 option \<Rightarrow> bool" where
  "authority_valid authority =
     (case authority of
        None \<Rightarrow> True
      | Some authority \<Rightarrow>
          ma_TeamRevision authority \<ge> 1 \<and> ma_TeamRevision authority \<le> 2000000000 \<and>
          matchString providerIDPattern (ma_ProviderID authority) \<and>
          (case ma_ModelID authority of None \<Rightarrow> True | Some m \<Rightarrow> matchString modelIDPattern m) \<and>
          (case ma_AuthMode authority of None \<Rightarrow> True | Some a \<Rightarrow> a = ''api_key'' \<or> a = ''chatgpt_subscription''))"

definition managed_service_step ::
  "string \<Rightarrow> (string \<rightharpoonup> int) \<Rightarrow> (string \<rightharpoonup> SetupOperation) \<Rightarrow> string set \<Rightarrow> ManagedServiceV1 \<Rightarrow>
   goerr + string set" where
  "managed_service_step expectedServer sandboxGenerations setupByID seen service =
     (let identity = ms_Identity service;
          sandboxExists = (sandboxGenerations (mi_SandboxID identity) \<noteq> None);
          generation = (case sandboxGenerations (mi_SandboxID identity) of None \<Rightarrow> 0 | Some g \<Rightarrow> g);
          validState = (ms_DesiredState service = ''active'' \<or> ms_DesiredState service = ''paused'' \<or>
            ms_DesiredState service = ''stopped'' \<or> ms_DesiredState service = ''retired'');
          validAuthority = authority_valid (ms_Authority service);
          profileExists = (setupByID (mp_SetupOperationID (ms_Profile service)) \<noteq> None);
          retainedTerminal = ((ms_DesiredState service = ''stopped'' \<or> ms_DesiredState service = ''retired'') \<and>
            sandboxExists \<and> generation > mi_SandboxGeneration identity);
          profileTolerated = (retainedTerminal \<and> \<not> profileExists);
          profileMatches = (case setupByID (mp_SetupOperationID (ms_Profile service)) of
              None \<Rightarrow> False
            | Some profile \<Rightarrow> so_SandboxID profile = mi_SandboxID identity \<and>
                so_SandboxGeneration profile = mi_SandboxGeneration identity \<and>
                so_ProfileID profile = mp_ProfileID (ms_Profile service) \<and>
                so_ProfileRevision profile = mp_ProfileRevision (ms_Profile service) \<and>
                so_ProfileDigest profile = mp_ProfileDigest (ms_Profile service))
      in if ms_FormatVersion service \<noteq> 1 \<or> \<not> matchString continuityIDPattern (ms_OperationID service) \<or>
           ms_ActionRevision service < 1 \<or> ms_DesiredRevision service < 1 \<or>
           \<not> matchString setupDigestPattern (ms_ConfigDigest service) \<or> \<not> validState \<or> \<not> validAuthority \<or>
           (ms_SessionMode service \<noteq> ''create_initial'' \<and> ms_SessionMode service \<noteq> ''lookup_only'') \<or>
           ms_DesiredState service \<noteq> ''active'' \<and> ms_SessionMode service \<noteq> ''lookup_only'' \<or>
           mi_ServerID identity \<noteq> expectedServer \<or> \<not> matchString continuityIDPattern (mi_TeamID identity) \<or>
           \<not> matchString continuityIDPattern (mi_MemberID identity) \<or>
           \<not> matchString continuityIDPattern (mi_ServiceRegistrationID identity) \<or>
           mi_ExpectedServiceGeneration identity < 1 \<or> mi_Instance identity \<noteq> ''default'' \<or>
           (mi_Role identity \<noteq> ''worker'' \<and> mi_Role identity \<noteq> ''reviewer'' \<and> mi_Role identity \<noteq> ''manager'') \<or>
           \<not> sandboxExists \<or> (generation \<noteq> mi_SandboxGeneration identity \<and> \<not> retainedTerminal) \<or>
           (\<not> profileMatches \<and> \<not> profileTolerated) \<or>
           mn_InstructionRevision (ms_Instructions service) < 1 \<or>
           \<not> matchString setupDigestPattern (mn_InstructionDigest (ms_Instructions service)) \<or>
           \<not> matchString continuityIDPattern (mk_SelectionID (ms_Workspace service)) \<or>
           \<not> matchString continuityIDPattern (mk_ProjectID (ms_Workspace service)) \<or>
           \<not> matchString continuityIDPattern (mk_WorkspaceEpoch (ms_Workspace service)) \<or>
           mk_ScopeRevision (ms_Workspace service) < 1 \<or>
           mk_Designation (ms_Workspace service) \<noteq> ''team_project'' \<or>
           \<not> matchString setupDigestPattern (mk_RootAttestation (ms_Workspace service)) \<or>
           mi_ServiceRegistrationID identity \<in> seen
         then Inl (E ''invalid managed service'')
         else Inr (insert (mi_ServiceRegistrationID identity) seen))"

text \<open>The part of an accepted service that does not depend on the sandboxes and setup operations.\<close>

definition service_shape :: "string \<Rightarrow> ManagedServiceV1 \<Rightarrow> bool" where
  "service_shape srv s \<longleftrightarrow>
     ms_FormatVersion s = 1 \<and> matchString continuityIDPattern (ms_OperationID s) \<and>
     1 \<le> ms_ActionRevision s \<and> 1 \<le> ms_DesiredRevision s \<and>
     matchString setupDigestPattern (ms_ConfigDigest s) \<and>
     ms_DesiredState s \<in> {''active'', ''paused'', ''stopped'', ''retired''} \<and> authority_valid (ms_Authority s) \<and>
     (ms_SessionMode s = ''lookup_only'' \<or> ms_SessionMode s = ''create_initial'' \<and> ms_DesiredState s = ''active'') \<and>
     mi_ServerID (ms_Identity s) = srv \<and> matchString continuityIDPattern (mi_TeamID (ms_Identity s)) \<and>
     matchString continuityIDPattern (mi_MemberID (ms_Identity s)) \<and>
     matchString continuityIDPattern (mi_ServiceRegistrationID (ms_Identity s)) \<and>
     1 \<le> mi_ExpectedServiceGeneration (ms_Identity s) \<and> mi_Instance (ms_Identity s) = ''default'' \<and>
     mi_Role (ms_Identity s) \<in> {''worker'', ''reviewer'', ''manager''} \<and>
     1 \<le> mn_InstructionRevision (ms_Instructions s) \<and>
     matchString setupDigestPattern (mn_InstructionDigest (ms_Instructions s)) \<and>
     matchString continuityIDPattern (mk_SelectionID (ms_Workspace s)) \<and>
     matchString continuityIDPattern (mk_ProjectID (ms_Workspace s)) \<and>
     matchString continuityIDPattern (mk_WorkspaceEpoch (ms_Workspace s)) \<and>
     1 \<le> mk_ScopeRevision (ms_Workspace s) \<and> mk_Designation (ms_Workspace s) = ''team_project'' \<and>
     matchString setupDigestPattern (mk_RootAttestation (ms_Workspace s))"

text \<open>The ready setup operation is exactly the profile the service names.\<close>

definition profile_exact :: "SetupOperation \<Rightarrow> ManagedServiceV1 \<Rightarrow> bool" where
  "profile_exact p s \<longleftrightarrow>
     so_SandboxID p = mi_SandboxID (ms_Identity s) \<and>
     so_SandboxGeneration p = mi_SandboxGeneration (ms_Identity s) \<and>
     so_ProfileID p = mp_ProfileID (ms_Profile s) \<and> so_ProfileRevision p = mp_ProfileRevision (ms_Profile s) \<and>
     so_ProfileDigest p = mp_ProfileDigest (ms_Profile s)"

definition terminal_history :: "(string \<rightharpoonup> int) \<Rightarrow> ManagedServiceV1 \<Rightarrow> bool" where
  "terminal_history gens s \<longleftrightarrow>
     ms_DesiredState s \<in> {''stopped'', ''retired''} \<and>
     (\<exists>g. gens (mi_SandboxID (ms_Identity s)) = Some g \<and> mi_SandboxGeneration (ms_Identity s) < g)"

definition managed_service_ok ::
  "string \<Rightarrow> (string \<rightharpoonup> int) \<Rightarrow> (string \<rightharpoonup> SetupOperation) \<Rightarrow> ManagedServiceV1 \<Rightarrow> bool" where
  "managed_service_ok srv gens setups s \<longleftrightarrow>
     service_shape srv s \<and>
     (gens (mi_SandboxID (ms_Identity s)) = Some (mi_SandboxGeneration (ms_Identity s)) \<or> terminal_history gens s) \<and>
     (case setups (mp_SetupOperationID (ms_Profile s)) of
        Some p \<Rightarrow> profile_exact p s
      | None \<Rightarrow> terminal_history gens s)"

lemma managed_service_step_Inr:
  "managed_service_step srv gens setups seen s = Inr t \<longleftrightarrow>
     managed_service_ok srv gens setups s \<and> mi_ServiceRegistrationID (ms_Identity s) \<notin> seen \<and>
     t = insert (mi_ServiceRegistrationID (ms_Identity s)) seen"
proof (cases "gens (mi_SandboxID (ms_Identity s))")
  case None
  then show ?thesis
    by (simp add: managed_service_step_def managed_service_ok_def terminal_history_def Let_def)
next
  case g: (Some g)
  let ?terminal = "(ms_DesiredState s = ''stopped'' \<or> ms_DesiredState s = ''retired'') \<and>
    mi_SandboxGeneration (ms_Identity s) < g"
  have th: "terminal_history gens s \<longleftrightarrow> ?terminal"
    by (simp add: terminal_history_def g)
  show ?thesis
  proof (cases "setups (mp_SetupOperationID (ms_Profile s))")
    case None
    show ?thesis
      unfolding managed_service_step_def managed_service_ok_def th service_shape_def Let_def g None
        if_error_Inr option.case insert_iff empty_iff
      by (simp only: de_Morgan_disj de_Morgan_conj not_not not_less option.inject option.distinct
          simp_thms linorder_class.not_le) argo
  next
    case (Some p)
    show ?thesis
      unfolding managed_service_step_def managed_service_ok_def th service_shape_def profile_exact_def
        Let_def g Some if_error_Inr option.case insert_iff empty_iff
      by (simp only: de_Morgan_disj de_Morgan_conj not_not not_less option.inject option.distinct
          simp_thms linorder_class.not_le) argo
  qed
qed

interpretation managed_service_loop: key_set_loop "managed_service_step srv gens setups"
  "managed_service_ok srv gens setups" "\<lambda>s. mi_ServiceRegistrationID (ms_Identity s)"
  for srv gens setups
  by unfold_locales (rule managed_service_step_Inr)

text \<open>A service that is to run, or to be paused, is at the current generation with its profile ready.\<close>

lemma live_service_current:
  assumes "managed_service_ok srv gens setups s" and "ms_DesiredState s \<in> {''active'', ''paused''}"
  shows "gens (mi_SandboxID (ms_Identity s)) = Some (mi_SandboxGeneration (ms_Identity s))"
    and "\<exists>p. setups (mp_SetupOperationID (ms_Profile s)) = Some p \<and> profile_exact p s"
  using assms by (auto simp: managed_service_ok_def terminal_history_def split: option.splits)

section \<open>The process instance determines the instance and the generation\<close>

lemma process_instance_inj:
  assumes "ManagedServiceProcessInstance i g = ManagedServiceProcessInstance j h" and "0 \<le> g" and "0 \<le> h"
  shows "i = j \<and> g = h"
proof -
  have e: "(''wmsup-'' @ i) @ CHR ''-'' # pad4 g = (''wmsup-'' @ j) @ CHR ''-'' # pad4 h"
    using assms(1) by (simp add: ManagedServiceProcessInstance_def)
  have "before_last CHR ''-'' ((''wmsup-'' @ i) @ CHR ''-'' # pad4 g) = ''wmsup-'' @ i"
    "before_last CHR ''-'' ((''wmsup-'' @ j) @ CHR ''-'' # pad4 h) = ''wmsup-'' @ j"
    by (rule before_last_dash(1), rule pad4_no_dash, rule assms)+
  with e have i: "i = j" by (metis same_append_eq)
  have "after_last CHR ''-'' ((''wmsup-'' @ i) @ CHR ''-'' # pad4 g) = pad4 g"
    "after_last CHR ''-'' ((''wmsup-'' @ j) @ CHR ''-'' # pad4 h) = pad4 h"
    by (rule before_last_dash(2), rule pad4_no_dash, rule assms)+
  with e have "pad4 g = pad4 h" by argo
  with pad4_inj assms i show ?thesis by blast
qed

end
