(* ===== verification/Model_Parent.thy ===== *)
theory Model_Parent
  imports Model_Service Go_Json
begin

text \<open>
  Controller parents (\<open>internal/model/controller_parent.go\<close>): the parent intent, its validation with
  the derived instance name and the canonical configuration digest, and the parent loop of
  \<open>ValidateManifest\<close>. Shown: an accepted intent has the instance and the digest that its other
  fields determine, every revision of it is exactly representable as a JSON number, and the loop admits
  one parent per sandbox and role, with a service registration that no member service has.
\<close>

section \<open>Data\<close>

record ControllerOwner =
  po_AccountID :: "string"
  po_TaskID :: "string"
  po_ServerID :: "string"
  po_SandboxID :: "string"
  po_SandboxGeneration :: "int"
  po_CellID :: "string"
  po_ControllerID :: "string"
  po_ControllerRevision :: "int"
  po_AuthorityRevision :: "int"

record ControllerParentIntent =
  pi_FormatVersion :: "int"
  pi_TargetKind :: "string"
  pi_OperationID :: "string"
  pi_ActionRevision :: "int"
  pi_DesiredRevision :: "int"
  pi_ConfigDigest :: "string"
  pi_DesiredState :: "string"
  pi_SessionMode :: "string"
  pi_Owner :: "ControllerOwner"
  pi_Role :: "string"
  pi_ServiceRegistrationID :: "string"
  pi_ServiceGeneration :: "int"
  pi_Instance :: "string"
  pi_Profile :: "ManagedServiceProfileV1"
  pi_Instructions :: "ManagedServiceInstructionsV1"
  pi_Workspace :: "ManagedServiceWorkspaceV1"
  pi_ApplicationOperationID :: "string"
  pi_ConnectionRevisionDigest :: "string"
  pi_ModelAuthorityDigest :: "string"
  pi_RoleAgentDigest :: "string"
  pi_RuntimeContractVersion :: "string"

section \<open>Validation\<close>

text \<open>The bound on every revision: the largest integer a JSON number carries exactly.\<close>

definition max_safe :: int where "max_safe = 9007199254740991"

definition Owner_valid :: "ControllerOwner \<Rightarrow> bool" where
  "Owner_valid owner =
     (if list_ex (\<lambda>i. \<not> matchString cellV3SafeIDPattern i)
        [po_AccountID owner, po_TaskID owner, po_ServerID owner, po_SandboxID owner, po_CellID owner,
         po_ControllerID owner] then False
      else if list_ex (\<lambda>revision. revision < 1 \<or> revision > max_safe)
        [po_SandboxGeneration owner, po_ControllerRevision owner, po_AuthorityRevision owner] then False
      else True)"

text \<open>
  The members of the entry's JSON object, without \<open>configDigest\<close>. Every string is an identifier, a digest
  or a constant by the time this is reached, so encoding and decoding it changes nothing.
\<close>

definition owner_json :: "ControllerOwner \<Rightarrow> jval" where
  "owner_json o' = JObj
     [(''accountId'', JStr (po_AccountID o')), (''taskId'', JStr (po_TaskID o')),
      (''serverId'', JStr (po_ServerID o')), (''sandboxId'', JStr (po_SandboxID o')),
      (''sandboxGeneration'', JInt (po_SandboxGeneration o')), (''cellId'', JStr (po_CellID o')),
      (''controllerId'', JStr (po_ControllerID o')),
      (''controllerRevision'', JInt (po_ControllerRevision o')),
      (''authorityRevision'', JInt (po_AuthorityRevision o'))]"

definition profile_json :: "ManagedServiceProfileV1 \<Rightarrow> jval" where
  "profile_json p = JObj
     [(''setupOperationId'', JStr (mp_SetupOperationID p)), (''profileId'', JStr (mp_ProfileID p)),
      (''profileRevision'', JInt (mp_ProfileRevision p)), (''profileDigest'', JStr (mp_ProfileDigest p))]"

definition instructions_json :: "ManagedServiceInstructionsV1 \<Rightarrow> jval" where
  "instructions_json n = JObj
     [(''instructionRevision'', JInt (mn_InstructionRevision n)),
      (''instructionDigest'', JStr (mn_InstructionDigest n))]"

definition workspace_json :: "ManagedServiceWorkspaceV1 \<Rightarrow> jval" where
  "workspace_json w = JObj
     [(''selectionId'', JStr (mk_SelectionID w)), (''projectId'', JStr (mk_ProjectID w)),
      (''workspaceEpoch'', JStr (mk_WorkspaceEpoch w)), (''scopeRevision'', JInt (mk_ScopeRevision w)),
      (''designation'', JStr (mk_Designation w)), (''rootAttestation'', JStr (mk_RootAttestation w))]"

definition parent_json :: "ControllerParentIntent \<Rightarrow> jval" where
  "parent_json e = JObj
     [(''formatVersion'', JInt (pi_FormatVersion e)), (''targetKind'', JStr (pi_TargetKind e)),
      (''operationId'', JStr (pi_OperationID e)), (''actionRevision'', JInt (pi_ActionRevision e)),
      (''desiredRevision'', JInt (pi_DesiredRevision e)), (''desiredState'', JStr (pi_DesiredState e)),
      (''sessionMode'', JStr (pi_SessionMode e)), (''owner'', owner_json (pi_Owner e)),
      (''role'', JStr (pi_Role e)), (''serviceRegistrationId'', JStr (pi_ServiceRegistrationID e)),
      (''serviceGeneration'', JInt (pi_ServiceGeneration e)), (''instance'', JStr (pi_Instance e)),
      (''profile'', profile_json (pi_Profile e)), (''instructions'', instructions_json (pi_Instructions e)),
      (''workspace'', workspace_json (pi_Workspace e)),
      (''applicationOperationId'', JStr (pi_ApplicationOperationID e)),
      (''connectionRevisionDigest'', JStr (pi_ConnectionRevisionDigest e)),
      (''modelAuthorityDigest'', JStr (pi_ModelAuthorityDigest e)),
      (''roleAgentDigest'', JStr (pi_RoleAgentDigest e)),
      (''runtimeContractVersion'', JStr (pi_RuntimeContractVersion e))]"

text \<open>The instance: twelve hexadecimal characters of the digest of the service registration.\<close>

definition parent_instance :: "string \<Rightarrow> string \<Rightarrow> string" where
  "parent_instance role serviceRegistrationID =
     take (length (''parent-'' @ role @ ''-'') + 12)
       (''parent-'' @ role @ ''-'' @ hex_string (sha256 serviceRegistrationID))"

definition ParentIntent_Validate :: "ControllerParentIntent \<Rightarrow> goerr + unit" where
  "ParentIntent_Validate entry =
     (let invalid = E ''invalid controller parent intent'' in
      if pi_FormatVersion entry \<noteq> 2 \<or> pi_TargetKind entry \<noteq> ''controller_parent'' \<or>
         pi_RuntimeContractVersion entry \<noteq> ''0.1.52'' \<or>
         (pi_Role entry \<noteq> ''manager'' \<and> pi_Role entry \<noteq> ''orchestrator'') \<or> \<not> Owner_valid (pi_Owner entry)
      then Inl invalid
      else if list_ex (\<lambda>i. \<not> matchString cellV3SafeIDPattern i)
        [pi_OperationID entry, pi_ServiceRegistrationID entry, pi_ApplicationOperationID entry,
         mp_SetupOperationID (pi_Profile entry), mp_ProfileID (pi_Profile entry),
         mk_SelectionID (pi_Workspace entry), mk_ProjectID (pi_Workspace entry),
         mk_WorkspaceEpoch (pi_Workspace entry)]
      then Inl invalid
      else if list_ex (\<lambda>revision. revision < 1 \<or> revision > max_safe)
        [pi_ActionRevision entry, pi_DesiredRevision entry, pi_ServiceGeneration entry,
         mp_ProfileRevision (pi_Profile entry), mn_InstructionRevision (pi_Instructions entry),
         mk_ScopeRevision (pi_Workspace entry)]
      then Inl invalid
      else if list_ex (\<lambda>digest. \<not> matchString setupDigestPattern digest)
        [pi_ConfigDigest entry, mp_ProfileDigest (pi_Profile entry),
         mn_InstructionDigest (pi_Instructions entry), mk_RootAttestation (pi_Workspace entry),
         pi_ConnectionRevisionDigest entry, pi_ModelAuthorityDigest entry, pi_RoleAgentDigest entry]
      then Inl invalid
      else if pi_Instance entry \<noteq> parent_instance (pi_Role entry) (pi_ServiceRegistrationID entry) \<or>
        mk_Designation (pi_Workspace entry) \<noteq> ''team_project'' \<or>
        (pi_DesiredState entry \<noteq> ''active'' \<and> pi_DesiredState entry \<noteq> ''paused'' \<and>
         pi_DesiredState entry \<noteq> ''stopped'' \<and> pi_DesiredState entry \<noteq> ''retired'') \<or>
        (pi_SessionMode entry \<noteq> ''create_initial'' \<and> pi_SessionMode entry \<noteq> ''lookup_only'')
      then Inl invalid
      else if canonicalSHA256 (parent_json entry) \<noteq> pi_ConfigDigest entry
      then Inl (E ''controller parent config digest mismatch'')
      else ok)"

section \<open>The loop of ValidateManifest\<close>

text \<open>The loop variables are \<open>seenManagedServices\<close>, from the service loop, and \<open>parentRoles\<close>.\<close>

definition parent_key :: "ControllerParentIntent \<Rightarrow> string" where
  "parent_key e = po_SandboxID (pi_Owner e) @ '':'' @ pi_Role e"

definition parent_step ::
  "string \<Rightarrow> (string \<rightharpoonup> int) \<Rightarrow> (string \<rightharpoonup> SetupOperation) \<Rightarrow> string set \<times> string set \<Rightarrow>
   ControllerParentIntent \<Rightarrow> goerr + string set \<times> string set" where
  "parent_step expectedServer sandboxGenerations setupByID acc entry =
     (let (seen, parentRoles) = acc in
      bindE (ParentIntent_Validate entry) (\<lambda>_.
        if po_ServerID (pi_Owner entry) \<noteq> expectedServer \<or>
           (case sandboxGenerations (po_SandboxID (pi_Owner entry)) of
              None \<Rightarrow> True | Some generation \<Rightarrow> generation \<noteq> po_SandboxGeneration (pi_Owner entry)) \<or>
           (case setupByID (mp_SetupOperationID (pi_Profile entry)) of
              None \<Rightarrow> True
            | Some profile \<Rightarrow>
                so_SandboxID profile \<noteq> po_SandboxID (pi_Owner entry) \<or>
                so_SandboxGeneration profile \<noteq> po_SandboxGeneration (pi_Owner entry) \<or>
                so_ProfileID profile \<noteq> mp_ProfileID (pi_Profile entry) \<or>
                so_ProfileRevision profile \<noteq> mp_ProfileRevision (pi_Profile entry) \<or>
                so_ProfileDigest profile \<noteq> mp_ProfileDigest (pi_Profile entry)) \<or>
           pi_ServiceRegistrationID entry \<in> seen \<or> parent_key entry \<in> parentRoles
        then Inl (E ''controller parent target/profile/port-pair conflict'')
        else Inr (insert (pi_ServiceRegistrationID entry) seen, insert (parent_key entry) parentRoles)))"

section \<open>What they accept\<close>

lemma parent_accepted_digest:
  assumes "accepted (ParentIntent_Validate e)"
  shows "pi_ConfigDigest e = canonicalSHA256 (parent_json e)"
    and "pi_Instance e = parent_instance (pi_Role e) (pi_ServiceRegistrationID e)"
    and "pi_Role e = ''manager'' \<or> pi_Role e = ''orchestrator''" and "Owner_valid (pi_Owner e)"
  using assms unfolding ParentIntent_Validate_def Let_def accepted_if_error by argo+

lemma parent_revisions:
  assumes "accepted (ParentIntent_Validate e)"
  shows "\<forall>r\<in>{pi_ActionRevision e, pi_DesiredRevision e, pi_ServiceGeneration e}. 1 \<le> r \<and> r \<le> max_safe"
proof -
  have "\<not> list_ex (\<lambda>revision. revision < 1 \<or> revision > max_safe)
        [pi_ActionRevision e, pi_DesiredRevision e, pi_ServiceGeneration e,
         mp_ProfileRevision (pi_Profile e), mn_InstructionRevision (pi_Instructions e),
         mk_ScopeRevision (pi_Workspace e)]"
    using assms unfolding ParentIntent_Validate_def Let_def accepted_if_error by argo
  then show ?thesis by auto
qed

definition parent_ok ::
  "string \<Rightarrow> (string \<rightharpoonup> int) \<Rightarrow> (string \<rightharpoonup> SetupOperation) \<Rightarrow> ControllerParentIntent \<Rightarrow> bool" where
  "parent_ok srv gens setups e \<longleftrightarrow>
     accepted (ParentIntent_Validate e) \<and> po_ServerID (pi_Owner e) = srv \<and>
     gens (po_SandboxID (pi_Owner e)) = Some (po_SandboxGeneration (pi_Owner e)) \<and>
     (\<exists>p. setups (mp_SetupOperationID (pi_Profile e)) = Some p \<and>
        so_SandboxID p = po_SandboxID (pi_Owner e) \<and> so_SandboxGeneration p = po_SandboxGeneration (pi_Owner e) \<and>
        so_ProfileID p = mp_ProfileID (pi_Profile e) \<and> so_ProfileRevision p = mp_ProfileRevision (pi_Profile e) \<and>
        so_ProfileDigest p = mp_ProfileDigest (pi_Profile e))"

lemma parent_step_Inr:
  "parent_step srv gens setups (seen, roles) e = Inr t \<longleftrightarrow>
     parent_ok srv gens setups e \<and> pi_ServiceRegistrationID e \<notin> seen \<and> parent_key e \<notin> roles \<and>
     t = (insert (pi_ServiceRegistrationID e) seen, insert (parent_key e) roles)"
proof -
  have v: "bindE (ParentIntent_Validate e) f = Inr t \<longleftrightarrow> accepted (ParentIntent_Validate e) \<and> f () = Inr t" for f
    by (auto simp: accepted_unit bindE_Inr_iff)
  show ?thesis
    unfolding parent_step_def parent_ok_def Let_def prod.case v if_error_Inr
    by (cases "gens (po_SandboxID (pi_Owner e))"; cases "setups (mp_SetupOperationID (pi_Profile e))") auto
qed

interpretation parent_loop: prefix_loop "parent_step srv gens setups"
  "\<lambda>p s. s = (seen0 \<union> pi_ServiceRegistrationID ` set p, parent_key ` set p)"
  "\<lambda>p e. parent_ok srv gens setups e \<and> pi_ServiceRegistrationID e \<notin> seen0 \<union> pi_ServiceRegistrationID ` set p \<and>
     parent_key e \<notin> parent_key ` set p"
  for srv gens setups seen0
  by unfold_locales (auto simp: accepted_iff parent_step_Inr)

text \<open>
  The key joins the sandbox id and the role by a colon. A role has no colon, so two entries with
  the same key are for the same sandbox and the same role.
\<close>

lemma parent_key_inj:
  assumes "accepted (ParentIntent_Validate d)" and "accepted (ParentIntent_Validate e)"
  shows "parent_key d = parent_key e \<longleftrightarrow>
     po_SandboxID (pi_Owner d) = po_SandboxID (pi_Owner e) \<and> pi_Role d = pi_Role e"
proof
  have r: "CHR '':'' \<notin> set (pi_Role d)" "CHR '':'' \<notin> set (pi_Role e)"
    using parent_accepted_digest(3) [OF assms(1)] parent_accepted_digest(3) [OF assms(2)] by auto
  assume "parent_key d = parent_key e"
  then have k: "po_SandboxID (pi_Owner d) @ CHR '':'' # pi_Role d =
      po_SandboxID (pi_Owner e) @ CHR '':'' # pi_Role e"
    by (simp add: parent_key_def)
  from before_last_dash(1) [OF r(1), of "po_SandboxID (pi_Owner d)"]
    before_last_dash(1) [OF r(2), of "po_SandboxID (pi_Owner e)"] k
    before_last_dash(2) [OF r(1), of "po_SandboxID (pi_Owner d)"]
    before_last_dash(2) [OF r(2), of "po_SandboxID (pi_Owner e)"]
  show "po_SandboxID (pi_Owner d) = po_SandboxID (pi_Owner e) \<and> pi_Role d = pi_Role e" by argo
qed (simp add: parent_key_def)

end
