(* ===== verification/Model_Manifest.thy ===== *)
theory Model_Manifest
  imports Model_Sandbox Model_Continuation Model_Manager Model_Cell_Laws Model_Parent
begin

text \<open>
  \<open>ValidateManifest\<close> (\<open>internal/model/model.go\<close>): the gate every desired-state manifest passes before
  anything is applied, as the composition of the loops of the component theories in the order
  of the code. \<open>manifest_ok\<close> is the specification, a conjunction without order and without loop
  variables, and \<open>manifest_refines\<close> says that the two agree.
\<close>

section \<open>The manifest\<close>

record Manifest =
  mf_ServerID :: "string"
  mf_DesiredRevision :: "int"
  mf_ImageDigest :: "string"
  mf_Capacity :: "Resources"
  mf_Sandboxes :: "Sandbox list"
  mf_AccessGrants :: "AccessGrant list"
  mf_SetupOperations :: "SetupOperation list"
  mf_ContinuityRegistrations :: "ContinuityRegistrationV1 list"
  mf_ContinuityOperations :: "ContinuityOperationV1 list"
  mf_ManagedWorkspaceRequests :: "ManagedWorkspaceRequestV1 list"
  mf_ManagedServices :: "ManagedServiceV1 list"
  mf_ParentServices :: "ControllerParentIntent list"
  mf_CellEntries :: "ManagedServiceV2 list"
  mf_CellEntriesV3 :: "CellServiceV3 list"
  mf_ContinuityContinuations :: "ContinuationManifestV1 list"
  mf_ContinuityContinuationReleases :: "ContinuationReleaseManifestV1 list"
  mf_ContinuityRestores :: "RestoreManifestV1 list"
  mf_ContinuityHandoffs :: "ContinuationHandoffManifestV1 list"
  mf_ContinuityHandoffReleases :: "ContinuationHandoffReleaseManifestV1 list"
  mf_InsightsManagerPolicies :: "InsightsManagerPolicyManifestV1 list"
  mf_InsightsManagerReviews :: "InsightsManagerReviewManifestV1 list"
  mf_InsightsTakeovers :: "InsightsTakeoverManifestV1 list"

definition ValidateManifest :: "Manifest \<Rightarrow> string \<Rightarrow> int \<Rightarrow> goerr + unit" where
  "ValidateManifest manifest expectedServer lastRevision =
     (if mf_ServerID manifest \<noteq> expectedServer
      then Inl (E ''manifest server identity differs from local registration'')
      else if mf_DesiredRevision manifest < lastRevision
      then Inl (E ''manifest revision moved backwards'')
      else if mf_DesiredRevision manifest < 1 \<or> length (mf_Sandboxes manifest) > 32 \<or>
        length (mf_AccessGrants manifest) > 64
      then Inl (E ''manifest limits are invalid'')
      else if \<not> matchString imagePattern (mf_ImageDigest manifest)
      then Inl (E ''immutable sandbox image digest is required'')
      else bindE (foldE sandbox_step sandbox_acc0 (mf_Sandboxes manifest)) (\<lambda>sandboxes.
      if \<not> Fits (allocated sandboxes) (mf_Capacity manifest)
      then Inl (E ''manifest exceeds purchased runtime capacity'')
      else if length (mf_SetupOperations manifest) > 32
      then Inl (E ''manifest exceeds setup operation limit'')
      else if length (mf_ContinuityRegistrations manifest) > 64 \<or> length (mf_ContinuityOperations manifest) > 64
      then Inl (E ''manifest exceeds continuity record limits'')
      else let gens = sandboxGenerations sandboxes in
      bindE (foldE (registration_step gens) [] (mf_ContinuityRegistrations manifest)) (\<lambda>registrationGroups.
      bindE (foldE resolve_step Map.empty registrationGroups) (\<lambda>registrations.
      bindE (foldE (continuity_operation_step registrations) {} (mf_ContinuityOperations manifest)) (\<lambda>_.
      bindE (foldE (setup_step gens) ({}, Map.empty) (mf_SetupOperations manifest)) (\<lambda>setups.
      let setupByID = snd setups in
      if length (mf_ManagedWorkspaceRequests manifest) > 32 \<or>
        length (mf_ManagedServices manifest) + length (mf_ParentServices manifest) > 32
      then Inl (E ''manifest exceeds managed service limits'')
      else
      bindE (foldE (workspace_request_step expectedServer gens) {} (mf_ManagedWorkspaceRequests manifest)) (\<lambda>_.
      bindE (foldE (managed_service_step expectedServer gens setupByID) {} (mf_ManagedServices manifest))
        (\<lambda>seenManagedServices.
      bindE (foldE (parent_step expectedServer gens setupByID) (seenManagedServices, {})
        (mf_ParentServices manifest)) (\<lambda>_.
      if length (mf_CellEntries manifest) + length (mf_CellEntriesV3 manifest) > 32
      then Inl (E ''manifest exceeds cell service limits'')
      else
      bindE (foldE (cell_v2_step gens setupByID) {} (mf_CellEntries manifest)) (\<lambda>seenCellServices.
      bindE (foldE (cell_v3_step gens setupByID) (seenCellServices, {}) (mf_CellEntriesV3 manifest)) (\<lambda>_.
      if length (mf_ContinuityContinuations manifest) > 32 \<or>
        length (mf_ContinuityContinuationReleases manifest) > 32 \<or> length (mf_ContinuityRestores manifest) > 32
      then Inl (E ''manifest exceeds continuation limits'')
      else
      bindE (foldE (continuation_step gens) {} (mf_ContinuityContinuations manifest)) (\<lambda>seen.
      bindE (foldE (continuation_release_step gens) seen (mf_ContinuityContinuationReleases manifest)) (\<lambda>seen.
      bindE (foldE (restore_step gens) seen (mf_ContinuityRestores manifest)) (\<lambda>seen.
      if length (mf_ContinuityHandoffs manifest) > 32 \<or> length (mf_ContinuityHandoffReleases manifest) > 32
      then Inl (E ''manifest exceeds handoff limits'')
      else
      bindE (foldE (handoff_step gens) seen (mf_ContinuityHandoffs manifest)) (\<lambda>seen.
      bindE (foldE (handoff_release_step gens) seen (mf_ContinuityHandoffReleases manifest)) (\<lambda>_.
      if length (mf_InsightsManagerPolicies manifest) > 32 \<or> length (mf_InsightsManagerReviews manifest) > 100 \<or>
        length (mf_InsightsTakeovers manifest) > 100
      then Inl (E ''manifest exceeds insights manager limits'')
      else
      bindE (foldE (policy_step gens) Map.empty (mf_InsightsManagerPolicies manifest)) (\<lambda>_.
      bindE (foldE review_step {} (mf_InsightsManagerReviews manifest)) (\<lambda>_.
      bindE (foldE takeover_step {} (mf_InsightsTakeovers manifest)) (\<lambda>_.
      bindE (foldE (grant_step (seenIDs sandboxes) (sandboxStates sandboxes)) grant_acc0
        (mf_AccessGrants manifest)) (\<lambda>_. ok))))))))))))))))))))"

section \<open>The specification\<close>

text \<open>The sizes of the lists.\<close>

definition sizes_ok :: "Manifest \<Rightarrow> bool" where
  "sizes_ok m \<longleftrightarrow>
     length (mf_Sandboxes m) \<le> 32 \<and> length (mf_AccessGrants m) \<le> 64 \<and> length (mf_SetupOperations m) \<le> 32 \<and>
     length (mf_ContinuityRegistrations m) \<le> 64 \<and> length (mf_ContinuityOperations m) \<le> 64 \<and>
     length (mf_ManagedWorkspaceRequests m) \<le> 32 \<and>
     length (mf_ManagedServices m) + length (mf_ParentServices m) \<le> 32 \<and>
     length (mf_CellEntries m) + length (mf_CellEntriesV3 m) \<le> 32 \<and>
     length (mf_ContinuityContinuations m) \<le> 32 \<and> length (mf_ContinuityContinuationReleases m) \<le> 32 \<and>
     length (mf_ContinuityRestores m) \<le> 32 \<and> length (mf_ContinuityHandoffs m) \<le> 32 \<and>
     length (mf_ContinuityHandoffReleases m) \<le> 32 \<and> length (mf_InsightsManagerPolicies m) \<le> 32 \<and>
     length (mf_InsightsManagerReviews m) \<le> 100 \<and> length (mf_InsightsTakeovers m) \<le> 100"

text \<open>The capacity check, on the sums of the demands; the code adds in 64 bits.\<close>

definition capacity_ok :: "Manifest \<Rightarrow> bool" where
  "capacity_ok m \<longleftrightarrow>
     wrap64 (sum_list (map cpu_demand (mf_Sandboxes m))) \<le> r_CPUMillicores (mf_Capacity m) \<and>
     wrap64 (sum_list (map memory_demand (mf_Sandboxes m))) \<le> r_MemoryMiB (mf_Capacity m) \<and>
     wrap64 (sum_list (map disk_demand (mf_Sandboxes m))) \<le> r_WorkspaceDiskGiB (mf_Capacity m)"

definition sandboxes_ok :: "Sandbox list \<Rightarrow> bool" where
  "sandboxes_ok sbs \<longleftrightarrow>
     (\<forall>sb\<in>set sbs. sandbox_ok sb) \<and> distinct (map sb_ID sbs) \<and> distinct (map sb_Name sbs)"

definition captures_ok :: "ContinuityRegistrationV1 list \<Rightarrow> ContinuityOperationV1 list \<Rightarrow> bool" where
  "captures_ok rs cs \<longleftrightarrow> (\<forall>c\<in>set cs. capture_ok (effective_of rs) c) \<and> distinct (map co_OperationID cs)"

text \<open>
  Service registrations are unique among the member services and the parents together, and a
  sandbox has at most one parent of each role.
\<close>

definition services_ok :: "string \<Rightarrow> Manifest \<Rightarrow> bool" where
  "services_ok srv m \<longleftrightarrow>
     (let gens = generation_of (mf_Sandboxes m); setups = setup_by_id (mf_SetupOperations m) in
      (\<forall>r\<in>set (mf_ManagedWorkspaceRequests m). workspace_request_ok srv gens r) \<and>
      distinct (map mw_ServiceRegistrationID (mf_ManagedWorkspaceRequests m)) \<and>
      (\<forall>s\<in>set (mf_ManagedServices m). managed_service_ok srv gens setups s) \<and>
      (\<forall>p\<in>set (mf_ParentServices m). parent_ok srv gens setups p) \<and>
      distinct (map (\<lambda>s. mi_ServiceRegistrationID (ms_Identity s)) (mf_ManagedServices m) @
        map pi_ServiceRegistrationID (mf_ParentServices m)) \<and>
      distinct (map parent_key (mf_ParentServices m)))"

definition cells_ok :: "Manifest \<Rightarrow> bool" where
  "cells_ok m \<longleftrightarrow>
     (let gens = generation_of (mf_Sandboxes m); setups = setup_by_id (mf_SetupOperations m) in
      (\<forall>e\<in>set (mf_CellEntries m). cell_v2_ok gens setups e) \<and>
      (\<forall>e\<in>set (mf_CellEntriesV3 m). cell_v3_ok gens setups e) \<and>
      distinct (map v2_ServiceRegistrationID (mf_CellEntries m) @
        map v3_ServiceRegistrationID (mf_CellEntriesV3 m)) \<and>
      distinct (map v3_OperationID (mf_CellEntriesV3 m)))"

definition continuations_ok :: "Manifest \<Rightarrow> bool" where
  "continuations_ok m \<longleftrightarrow>
     (let gens = generation_of (mf_Sandboxes m) in
      (\<forall>c\<in>set (mf_ContinuityContinuations m). accepted (validateContinuationManifest c gens)) \<and>
      (\<forall>c\<in>set (mf_ContinuityContinuationReleases m). accepted (validateContinuationReleaseManifest c gens)) \<and>
      (\<forall>c\<in>set (mf_ContinuityRestores m). accepted (validateRestoreManifest c gens)) \<and>
      (\<forall>c\<in>set (mf_ContinuityHandoffs m). accepted (validateContinuationHandoffManifest c gens)) \<and>
      (\<forall>c\<in>set (mf_ContinuityHandoffReleases m). accepted (validateContinuationHandoffReleaseManifest c gens)) \<and>
      distinct (s2_operations (mf_ContinuityContinuations m) (mf_ContinuityContinuationReleases m)
        (mf_ContinuityRestores m) (mf_ContinuityHandoffs m) (mf_ContinuityHandoffReleases m)))"

definition manager_ok :: "Manifest \<Rightarrow> bool" where
  "manager_ok m \<longleftrightarrow>
     (\<forall>p\<in>set (mf_InsightsManagerPolicies m). policy_ok (generation_of (mf_Sandboxes m)) p) \<and>
     distinct (map im_SandboxID (mf_InsightsManagerPolicies m)) \<and>
     (\<forall>r\<in>set (mf_InsightsManagerReviews m). accepted (ValidateInsightsManagerReviewManifest r)) \<and>
     distinct (map rv_RunID (mf_InsightsManagerReviews m)) \<and>
     (\<forall>t\<in>set (mf_InsightsTakeovers m). accepted (ValidateInsightsTakeoverManifest t)) \<and>
     distinct (map tk_OperationID (mf_InsightsTakeovers m))"

definition manifest_ok :: "Manifest \<Rightarrow> string \<Rightarrow> int \<Rightarrow> bool" where
  "manifest_ok m srv prev \<longleftrightarrow>
     mf_ServerID m = srv \<and> prev \<le> mf_DesiredRevision m \<and> 1 \<le> mf_DesiredRevision m \<and>
     matchString imagePattern (mf_ImageDigest m) \<and> sizes_ok m \<and>
     sandboxes_ok (mf_Sandboxes m) \<and> capacity_ok m \<and>
     registrations_ok (generation_of (mf_Sandboxes m)) (mf_ContinuityRegistrations m) \<and>
     all_resolve (mf_ContinuityRegistrations m) \<and>
     captures_ok (mf_ContinuityRegistrations m) (mf_ContinuityOperations m) \<and>
     setups_ok (generation_of (mf_Sandboxes m)) (mf_SetupOperations m) \<and>
     services_ok srv m \<and> cells_ok m \<and> continuations_ok m \<and> manager_ok m \<and>
     grants_ok (sb_ID ` set (mf_Sandboxes m)) (state_of (mf_Sandboxes m)) (mf_AccessGrants m)"

section \<open>The loops together\<close>

lemma capacity_fits: "Fits (foldl allocate noResources (mf_Sandboxes m)) (mf_Capacity m) \<longleftrightarrow> capacity_ok m"
  by (simp add: Fits_def capacity_ok_def allocated_sums)

lemma bind_sandboxes:
  "accepted (bindE (foldE sandbox_step sandbox_acc0 sbs) f) \<longleftrightarrow>
     sandboxes_ok sbs \<and> accepted (f (sandbox_result sbs))"
  by (subst accepted_bindE_known [OF sandboxes_known])
    (simp_all add: sandboxes_accepted sandboxes_ok_def)

lemma bind_setups:
  "accepted (bindE (foldE (setup_step gens) ({}, Map.empty) ops) f) \<longleftrightarrow>
     setups_ok gens ops \<and> accepted (f (so_ID ` set ops, setup_by_id ops))"
  by (subst accepted_bindE_known [OF setups_known]) (simp_all add: setups_accepted)

lemma bind_services:
  "accepted (bindE (foldE (managed_service_step srv gens setups) {} ss) f) \<longleftrightarrow>
     (\<forall>s\<in>set ss. managed_service_ok srv gens setups s) \<and>
     distinct (map (\<lambda>s. mi_ServiceRegistrationID (ms_Identity s)) ss) \<and>
     accepted (f ((\<lambda>s. mi_ServiceRegistrationID (ms_Identity s)) ` set ss))"
  by (subst accepted_bindE_known [where r = "(\<lambda>s. mi_ServiceRegistrationID (ms_Identity s)) ` set ss"])
    (auto simp: managed_service_loop.fold_Inr managed_service_loop.fold_accepted)

lemma parents_accepted:
  "accepted (foldE (parent_step srv gens setups) (seen, {}) ps) \<longleftrightarrow>
     (\<forall>p\<in>set ps. parent_ok srv gens setups p) \<and> distinct (map pi_ServiceRegistrationID ps) \<and>
     distinct (map parent_key ps) \<and> pi_ServiceRegistrationID ` set ps \<inter> seen = {}"
proof -
  have "accepted (foldE (parent_step srv gens setups) (seen, {}) ps) \<longleftrightarrow>
      admits (\<lambda>p e. parent_ok srv gens setups e \<and>
        pi_ServiceRegistrationID e \<notin> seen \<union> pi_ServiceRegistrationID ` set p \<and>
        parent_key e \<notin> parent_key ` set p) [] ps"
    by (rule parent_loop.loop_refines) simp
  then show ?thesis by (simp only: admits_v3 list.set image_empty Un_empty_right Int_empty_right) simp
qed

lemma bind_cells_v2:
  "accepted (bindE (foldE (cell_v2_step gens setups) {} es) f) \<longleftrightarrow>
     (\<forall>e\<in>set es. cell_v2_ok gens setups e) \<and> distinct (map v2_ServiceRegistrationID es) \<and>
     accepted (f (v2_ServiceRegistrationID ` set es))"
  by (subst accepted_bindE_known [where r = "v2_ServiceRegistrationID ` set es"])
    (auto simp: cell_v2_loop.fold_Inr cell_v2_loop.fold_accepted)

lemma bind_s2:
  "accepted (bindE (foldE (s2_step validate op message) seen xs) f) \<longleftrightarrow>
     (\<forall>x\<in>set xs. accepted (validate x)) \<and> distinct (map op xs) \<and> op ` set xs \<inter> seen = {} \<and>
     accepted (f (seen \<union> op ` set xs))"
  by (subst accepted_bindE_known [where r = "seen \<union> op ` set xs"])
    (auto simp: s2_loop.fold_Inr s2_loop.fold_accepted)

lemma distinct_append5:
  "distinct (a @ b @ c @ d @ e) \<longleftrightarrow>
     distinct a \<and> set a \<inter> {} = {} \<and> distinct b \<and> set b \<inter> ({} \<union> set a) = {} \<and>
     distinct c \<and> set c \<inter> ({} \<union> set a \<union> set b) = {} \<and>
     distinct d \<and> set d \<inter> ({} \<union> set a \<union> set b \<union> set c) = {} \<and>
     distinct e \<and> set e \<inter> ({} \<union> set a \<union> set b \<union> set c \<union> set d) = {}"
  by auto

lemma distinct_append2:
  "distinct (map f xs @ map g ys) \<longleftrightarrow> distinct (map f xs) \<and> distinct (map g ys) \<and> g ` set ys \<inter> f ` set xs = {}"
  by auto

lemma manifest_refines: "accepted (ValidateManifest m srv prev) \<longleftrightarrow> manifest_ok m srv prev"
proof -
  let ?gens = "generation_of (mf_Sandboxes m)"
  have req: "accepted (foldE (workspace_request_step srv ?gens) {} rs) \<longleftrightarrow>
      (\<forall>r\<in>set rs. workspace_request_ok srv ?gens r) \<and> distinct (map mw_ServiceRegistrationID rs)" for rs
    by (rule workspace_request_loop.keyed_accepts)
  have pol: "accepted (foldE (policy_step ?gens) Map.empty ps) \<longleftrightarrow>
      (\<forall>p\<in>set ps. policy_ok ?gens p) \<and> distinct (map im_SandboxID ps)" for ps
    by (rule policies.keyed_accepts)
  have res: "sandboxGenerations (sandbox_result (mf_Sandboxes m)) = ?gens"
    "seenIDs (sandbox_result (mf_Sandboxes m)) = sb_ID ` set (mf_Sandboxes m)"
    "sandboxStates (sandbox_result (mf_Sandboxes m)) = state_of (mf_Sandboxes m)"
    "allocated (sandbox_result (mf_Sandboxes m)) = foldl allocate noResources (mf_Sandboxes m)"
    by (simp_all add: sandbox_result_def)
  have parts: "manifest_ok m srv prev \<longleftrightarrow>
     mf_ServerID m = srv \<and> prev \<le> mf_DesiredRevision m \<and> 1 \<le> mf_DesiredRevision m \<and>
     matchString imagePattern (mf_ImageDigest m) \<and> sizes_ok m \<and>
     sandboxes_ok (mf_Sandboxes m) \<and> capacity_ok m \<and>
     registrations_ok ?gens (mf_ContinuityRegistrations m) \<and>
     all_resolve (mf_ContinuityRegistrations m) \<and>
     captures_ok (mf_ContinuityRegistrations m) (mf_ContinuityOperations m) \<and>
     setups_ok ?gens (mf_SetupOperations m) \<and>
     services_ok srv m \<and> cells_ok m \<and> continuations_ok m \<and> manager_ok m \<and>
     grants_ok (sb_ID ` set (mf_Sandboxes m)) (state_of (mf_Sandboxes m)) (mf_AccessGrants m)"
    by (simp only: manifest_ok_def)
  show ?thesis
    unfolding ValidateManifest_def Let_def accepted_if_error bind_sandboxes res capacity_fits
      registrations_bind bind_setups snd_conv accepted_bindE_ignore captures_accepted req bind_services
      parents_accepted bind_cells_v2 cell_v3_accepted continuation_step_def continuation_release_step_def
      restore_step_def handoff_step_def handoff_release_step_def bind_s2 pol reviews.fold_accepted
      takeovers.fold_accepted grants_accepted accepted_simps
      parts sizes_ok_def captures_ok_def services_ok_def cells_ok_def continuations_ok_def
      manager_ok_def s2_operations_def distinct_append5 distinct_append2 set_map not_less de_Morgan_disj
      s2_loop.fold_accepted Int_empty_right simp_thms
    by argo
qed

section \<open>Consequences\<close>

lemma manifest_parts:
  assumes "accepted (ValidateManifest m srv prev)"
  shows "sandboxes_ok (mf_Sandboxes m)" and "capacity_ok m" and "sizes_ok m"
    and "registrations_ok (generation_of (mf_Sandboxes m)) (mf_ContinuityRegistrations m)"
    and "all_resolve (mf_ContinuityRegistrations m)"
    and "captures_ok (mf_ContinuityRegistrations m) (mf_ContinuityOperations m)"
    and "setups_ok (generation_of (mf_Sandboxes m)) (mf_SetupOperations m)"
    and "services_ok srv m" and "cells_ok m" and "continuations_ok m" and "manager_ok m"
    and "grants_ok (sb_ID ` set (mf_Sandboxes m)) (state_of (mf_Sandboxes m)) (mf_AccessGrants m)"
  using assms by (simp_all only: manifest_refines manifest_ok_def)

text \<open>The counters do not wrap when every sandbox asks for at most \<open>2 ^ 57\<close> units.\<close>

definition modest :: "Manifest \<Rightarrow> bool" where
  "modest m \<longleftrightarrow> list_all (\<lambda>sb. r_CPUMillicores (sb_Resources sb) \<le> 2 ^ 57 \<and> r_MemoryMiB (sb_Resources sb) \<le> 2 ^ 57 \<and>
     r_WorkspaceDiskGiB (sb_Resources sb) \<le> 2 ^ 57) (mf_Sandboxes m)"

lemma modest_sum:
  assumes "length sbs \<le> 32" and "\<And>sb. sb \<in> set sbs \<Longrightarrow> 0 \<le> f sb \<and> f sb \<le> 2 ^ 57"
  shows "wrap64 (sum_list (map f sbs)) = sum_list (map f sbs)"
proof -
  have "0 \<le> sum_list (map f sbs) \<and> sum_list (map f sbs) \<le> int (length sbs) * 2 ^ 57"
    by (rule sum_list_bounded) (rule assms(2))
  moreover have "int (length sbs) * 2 ^ 57 \<le> 32 * 2 ^ 57" using assms(1) by simp
  ultimately have "0 \<le> sum_list (map f sbs)" "sum_list (map f sbs) \<le> 2 ^ 62" by simp_all
  then show ?thesis by (intro wrap64_id) (simp add: in64_def min64_def max64_def)
qed

lemma manifest_sums:
  assumes acc: "accepted (ValidateManifest m srv prev)" and "modest m"
  shows "sum_list (map cpu_demand (mf_Sandboxes m)) \<le> r_CPUMillicores (mf_Capacity m)"
    and "sum_list (map memory_demand (mf_Sandboxes m)) \<le> r_MemoryMiB (mf_Capacity m)"
    and "sum_list (map disk_demand (mf_Sandboxes m)) \<le> r_WorkspaceDiskGiB (mf_Capacity m)"
proof -
  have len: "length (mf_Sandboxes m) \<le> 32" using manifest_parts(3) [OF acc] by (simp add: sizes_ok_def)
  have each: "sandbox_ok sb" if "sb \<in> set (mf_Sandboxes m)" for sb
    using manifest_parts(1) [OF acc] that by (simp add: sandboxes_ok_def)
  have "0 \<le> cpu_demand sb \<and> cpu_demand sb \<le> 2 ^ 57" "0 \<le> memory_demand sb \<and> memory_demand sb \<le> 2 ^ 57"
    "0 \<le> disk_demand sb \<and> disk_demand sb \<le> 2 ^ 57" if "sb \<in> set (mf_Sandboxes m)" for sb
    using each [OF that] assms(2) that
    by (auto simp: sandbox_ok_def modest_def list_all_iff cpu_demand_def memory_demand_def disk_demand_def)
  note demands = this
  show "sum_list (map cpu_demand (mf_Sandboxes m)) \<le> r_CPUMillicores (mf_Capacity m)"
    using manifest_parts(2) [OF acc] modest_sum [OF len demands(1)] by (simp add: capacity_ok_def)
  show "sum_list (map memory_demand (mf_Sandboxes m)) \<le> r_MemoryMiB (mf_Capacity m)"
    using manifest_parts(2) [OF acc] modest_sum [OF len demands(2)] by (simp add: capacity_ok_def)
  show "sum_list (map disk_demand (mf_Sandboxes m)) \<le> r_WorkspaceDiskGiB (mf_Capacity m)"
    using manifest_parts(2) [OF acc] modest_sum [OF len demands(3)] by (simp add: capacity_ok_def)
qed

text \<open>Every part of a manifest that names a sandbox names it at the generation the manifest gives it.\<close>

definition current :: "Manifest \<Rightarrow> string \<Rightarrow> int \<Rightarrow> bool" where
  "current m sid generation \<longleftrightarrow> (\<exists>sb\<in>set (mf_Sandboxes m). sb_ID sb = sid \<and> sb_Generation sb = generation)"

lemma current_generation: "generation_of (mf_Sandboxes m) sid = Some g \<Longrightarrow> current m sid g"
  by (auto simp: generation_of_def current_def dest!: map_of_SomeD)

definition live :: "ManagedServiceV1 \<Rightarrow> bool" where
  "live s \<longleftrightarrow> ms_DesiredState s \<in> {''active'', ''paused''}"

lemma manifest_current:
  assumes acc: "accepted (ValidateManifest m srv prev)"
  shows "\<forall>o'\<in>set (mf_SetupOperations m). current m (so_SandboxID o') (so_SandboxGeneration o')"
    and "\<forall>r\<in>set (mf_ContinuityRegistrations m). current m (ci_SandboxID (cr_Identity r)) (ci_SandboxGeneration (cr_Identity r))"
    and "\<forall>r\<in>set (mf_ManagedWorkspaceRequests m). current m (mw_SandboxID r) (mw_SandboxGeneration r)"
    and "\<forall>s\<in>set (mf_ManagedServices m). live s \<longrightarrow> current m (mi_SandboxID (ms_Identity s)) (mi_SandboxGeneration (ms_Identity s))"
    and "\<forall>p\<in>set (mf_ParentServices m). current m (po_SandboxID (pi_Owner p)) (po_SandboxGeneration (pi_Owner p))"
    and "\<forall>e\<in>set (mf_CellEntriesV3 m). current m (v3_SandboxID e) (v3_SandboxGeneration e)"
    and "\<forall>c\<in>set (mf_ContinuityContinuations m). current m (ni_SandboxID (cm_Identity c)) (ni_SandboxGeneration (cm_Identity c))"
    and "\<forall>r\<in>set (mf_ContinuityRestores m). current m (ni_SandboxID (rm_Identity r)) (ni_SandboxGeneration (rm_Identity r))"
    and "\<forall>h\<in>set (mf_ContinuityHandoffs m). current m (ni_SandboxID (hm_Identity h)) (ni_SandboxGeneration (hm_Identity h)) \<and>
           current m (ht_SandboxID (hm_TargetPolicy h)) (ht_SandboxGeneration (hm_TargetPolicy h))"
    and "\<forall>p\<in>set (mf_InsightsManagerPolicies m). current m (im_SandboxID p) (im_SandboxGeneration p)"
proof -
  note parts = manifest_parts [OF acc]
  show "\<forall>o'\<in>set (mf_SetupOperations m). current m (so_SandboxID o') (so_SandboxGeneration o')"
    using parts(7) by (auto simp: setups_ok_def setup_ok_def intro: current_generation)
  show "\<forall>r\<in>set (mf_ContinuityRegistrations m). current m (ci_SandboxID (cr_Identity r)) (ci_SandboxGeneration (cr_Identity r))"
    using parts(4) by (auto simp: registrations_ok_def registration_ok_def intro: current_generation)
  show "\<forall>r\<in>set (mf_ManagedWorkspaceRequests m). current m (mw_SandboxID r) (mw_SandboxGeneration r)"
    using parts(8) by (auto simp: services_ok_def Let_def workspace_request_ok_def intro: current_generation)
  show "\<forall>s\<in>set (mf_ManagedServices m). live s \<longrightarrow> current m (mi_SandboxID (ms_Identity s)) (mi_SandboxGeneration (ms_Identity s))"
  proof (intro ballI impI)
    fix s
    assume "s \<in> set (mf_ManagedServices m)" "live s"
    with parts(8) show "current m (mi_SandboxID (ms_Identity s)) (mi_SandboxGeneration (ms_Identity s))"
      unfolding services_ok_def Let_def live_def by (blast intro: current_generation live_service_current(1))
  qed
  show "\<forall>p\<in>set (mf_ParentServices m). current m (po_SandboxID (pi_Owner p)) (po_SandboxGeneration (pi_Owner p))"
    using parts(8) by (auto simp: services_ok_def Let_def parent_ok_def intro: current_generation)
  show "\<forall>e\<in>set (mf_CellEntriesV3 m). current m (v3_SandboxID e) (v3_SandboxGeneration e)"
  proof
    fix e
    assume "e \<in> set (mf_CellEntriesV3 m)"
    with parts(9) have "cell_v3_ok (generation_of (mf_Sandboxes m)) (setup_by_id (mf_SetupOperations m)) e"
      by (auto simp: cells_ok_def Let_def)
    from v3_accepted_core(1) [OF this [unfolded cell_v3_ok_def]]
    show "current m (v3_SandboxID e) (v3_SandboxGeneration e)"
      by (cases "generation_of (mf_Sandboxes m) (v3_SandboxID e)") (auto intro: current_generation)
  qed
  show "\<forall>c\<in>set (mf_ContinuityContinuations m). current m (ni_SandboxID (cm_Identity c)) (ni_SandboxGeneration (cm_Identity c))"
    using parts(10) continuation_accepted_fences(1) S2Identity_current
    unfolding continuations_ok_def Let_def by (blast intro: current_generation)
  show "\<forall>r\<in>set (mf_ContinuityRestores m). current m (ni_SandboxID (rm_Identity r)) (ni_SandboxGeneration (rm_Identity r))"
    using parts(10) restore_accepted_fences(1) S2Identity_current
    unfolding continuations_ok_def Let_def by (blast intro: current_generation)
  show "\<forall>h\<in>set (mf_ContinuityHandoffs m). current m (ni_SandboxID (hm_Identity h)) (ni_SandboxGeneration (hm_Identity h)) \<and>
           current m (ht_SandboxID (hm_TargetPolicy h)) (ht_SandboxGeneration (hm_TargetPolicy h))"
    using parts(10) handoff_accepted_fences(1,2) S2Identity_current handoff_target_current
    unfolding continuations_ok_def Let_def by (blast intro: current_generation)
  show "\<forall>p\<in>set (mf_InsightsManagerPolicies m). current m (im_SandboxID p) (im_SandboxGeneration p)"
    using parts(11) by (auto simp: manager_ok_def policy_ok_def intro: current_generation)
qed

text \<open>
  A capture operation names the one effective registration of its binding, which is active and has
  continuity enabled.
\<close>

lemma manifest_capture:
  assumes acc: "accepted (ValidateManifest m srv prev)" and c: "c \<in> set (mf_ContinuityOperations m)"
  shows "\<exists>es r. EffectiveContinuityRegistrations (mf_ContinuityRegistrations m) = Inr es \<and> r \<in> set es \<and>
     cr_Binding r = co_Binding c \<and> cr_DesiredState r = ''active'' \<and> cr_ContinuityEnabled r \<and>
     cr_ScopeRevision r = co_ScopeRevision c \<and> SameContinuityWorkFence (cr_Identity r) (co_Identity c) \<and>
     (\<forall>q\<in>set es. binding_of q = binding_of r \<longrightarrow> q = r)"
proof -
  let ?rs = "mf_ContinuityRegistrations m"
  from manifest_parts(5) [OF acc] obtain es where es: "EffectiveContinuityRegistrations ?rs = Inr es"
    using Effective_accepted [of ?rs] by (auto simp: accepted_iff)
  from manifest_parts(6) [OF acc] c obtain r where r: "effective_of ?rs (cb_BindingID (co_Binding c)) = Some r"
    "SameContinuityWorkFence (cr_Identity r) (co_Identity c)" "cr_Binding r = co_Binding c"
    "cr_ScopeRevision r = co_ScopeRevision c" "cr_DesiredState r = ''active''" "cr_ContinuityEnabled r"
    by (auto simp: captures_ok_def capture_ok_def)
  have mem: "r \<in> set es" using r(1) by (auto simp: effective_member [OF es] effective_of_def)
  have "q = r" if q: "q \<in> set es" "binding_of q = binding_of r" for q
  proof -
    from q(1) obtain b where b: "resolve_group (group_of ?rs b) = Some q" by (auto simp: effective_member [OF es])
    have "binding_of q = b" by (rule resolve_group_binding [OF b]) simp
    with q(2) r(3) have "b = cb_BindingID (co_Binding c)" by simp
    with b r(1) show ?thesis by (simp add: effective_of_def)
  qed
  with es mem r show ?thesis by blast
qed

end
