(* ===== verification/Manifest_Examples.thy ===== *)
theory Manifest_Examples
  imports Model_Manifest
begin

text \<open>
  Concrete manifests, evaluated by the kernel: one with a sandbox, a grant, a setup operation, the two
  registrations of a binding whose revision moves on, and a capture operation; and one whose
  CPU demands overflow.
\<close>

definition ex_digest :: "char \<Rightarrow> string" where
  "ex_digest c = ''sha256:'' @ replicate 64 c"

definition ex_box :: "string \<Rightarrow> string \<Rightarrow> int \<Rightarrow> Sandbox" where
  "ex_box i n cpu = \<lparr>sb_ID = i, sb_Name = n, sb_Size = ''small'',
     sb_Resources = \<lparr>r_CPUMillicores = cpu, r_MemoryMiB = 512, r_WorkspaceDiskGiB = 10, r_PIDs = 256\<rparr>,
     sb_ImageDigest = [], sb_Lifetime = ''persistent'', sb_ExpiresInSeconds = None, sb_StartedAt = None,
     sb_ExpiresAt = None, sb_DesiredState = ''running'', sb_Generation = 3, sb_Cell = False\<rparr>"

definition ex_capacity :: Resources where
  "ex_capacity = \<lparr>r_CPUMillicores = 4000, r_MemoryMiB = 4096, r_WorkspaceDiskGiB = 100, r_PIDs = 32768\<rparr>"

definition ex_manifest :: "Sandbox list \<Rightarrow> Manifest" where
  "ex_manifest sbs = \<lparr>mf_ServerID = ''srv_1'', mf_DesiredRevision = 7,
     mf_ImageDigest = ''ghcr.io/warpmetal/box@'' @ ex_digest CHR ''a'', mf_Capacity = ex_capacity,
     mf_Sandboxes = sbs, mf_AccessGrants = [], mf_SetupOperations = [], mf_ContinuityRegistrations = [],
     mf_ContinuityOperations = [],
     mf_ManagedWorkspaceRequests = [], mf_ManagedServices = [], mf_ParentServices = [], mf_CellEntries = [],
     mf_CellEntriesV3 = [], mf_ContinuityContinuations = [], mf_ContinuityContinuationReleases = [],
     mf_ContinuityRestores = [], mf_ContinuityHandoffs = [], mf_ContinuityHandoffReleases = [],
     mf_InsightsManagerPolicies = [], mf_InsightsManagerReviews = [], mf_InsightsTakeovers = []\<rparr>"

definition ex_setup :: SetupOperation where
  "ex_setup = \<lparr>so_ID = ''setup-1'', so_SchemaVersion = 1, so_SandboxID = ''sbx_alpha0001'',
     so_SandboxGeneration = 3, so_ProfileID = ''opencode'', so_ProfileRevision = 2,
     so_ProfileDigest = ex_digest CHR ''b'',
     so_Materializer = \<lparr>sm_Kind = ''npm-package-set'', sm_Platform = [],
       sm_Artifacts = [\<lparr>sa_ID = ''opencode'', sa_Source = ''https://registry.npmjs.org/opencode.tgz'',
         sa_SHA256 = ex_digest CHR ''c'', sa_Format = ''npm-tgz'', sa_SizeBytes = 1048576,
         sa_PackageName = ''opencode'', sa_PackageVersion = ''1.2.3'', sa_InstallAs = ''opencode''\<rparr>],
       sm_Bins = [''opencode''], sm_Launchers = [], sm_Artifact = None, sm_Bin = None\<rparr>\<rparr>"

definition ex_identity :: ContinuityIdentityV1 where
  "ex_identity = \<lparr>ci_WorkID = ''work1'', ci_ProjectID = ''proj1'', ci_SandboxID = ''sbx_alpha0001'',
     ci_WorkspaceEpoch = ''epoch1'', ci_SandboxGeneration = 3, ci_TaskID = None, ci_TaskAttempt = None,
     ci_ExpectedRevision = 5\<rparr>"

definition ex_binding :: "int \<Rightarrow> ContinuityBindingV1" where
  "ex_binding n = \<lparr>cb_BindingID = ''bind1'', cb_BindingRevision = n, cb_RegisteredSourceID = ''src1'',
     cb_ServiceRegistrationID = ''svc1'', cb_NativeSessionID = ''ses1'', cb_NativeProjectID = ''np1'',
     cb_NativeLocationDigest = ex_digest CHR ''d''\<rparr>"

definition ex_registration :: "string \<Rightarrow> int \<Rightarrow> ContinuityRegistrationV1" where
  "ex_registration state n = \<lparr>cr_FormatVersion = 1, cr_DesiredState = state, cr_ContinuityEnabled = True,
     cr_ScopeRevision = 4, cr_Identity = ex_identity, cr_Binding = ex_binding n\<rparr>"

definition ex_capture :: ContinuityOperationV1 where
  "ex_capture = \<lparr>co_FormatVersion = 1, co_OperationID = ''op1'', co_Action = ''capture_checkpoint'',
     co_RequestDigest = ex_digest CHR ''e'', co_ScopeRevision = 4, co_BoundaryKind = ''initial'',
     co_Identity = ex_identity, co_Binding = ex_binding 2\<rparr>"

definition ex_full :: Manifest where
  "ex_full = (ex_manifest [ex_box ''sbx_alpha0001'' ''alpha'' 1000])
     \<lparr>mf_AccessGrants := [\<lparr>ag_ID = ''grant_00000001'', ag_SandboxID = ''sbx_alpha0001'', ag_SSHPublicKey = ''ssh-ed25519 AAAA'',
        ag_SSHFingerprint = ''SHA256:k1'', ag_DesiredState = ''active''\<rparr>],
      mf_SetupOperations := [ex_setup],
      mf_ContinuityRegistrations := [ex_registration ''active'' 2, ex_registration ''revoked'' 1],
      mf_ContinuityOperations := [ex_capture]\<rparr>"

definition ex_overflow :: Manifest where
  "ex_overflow = ex_manifest [ex_box ''sbx_alpha0001'' ''alpha'' (2 ^ 62), ex_box ''sbx_beta00001'' ''beta'' (2 ^ 62)]"

lemma ex_full_accepted: "accepted (ValidateManifest ex_full ''srv_1'' 6)"
  by code_simp

lemma ex_overflow_accepted: "accepted (ValidateManifest ex_overflow ''srv_1'' 6)"
  by code_simp

end
