(* ===== verification/Cell_Examples.thy ===== *)
theory Cell_Examples
  imports Model_Cell_Laws Manifest_Examples
begin

text \<open>
  A formatVersion 3 cell entry in its two phases, with the receipt and the grant that belong to it. The
  digests stay symbolic: they are the applications of the digest functions of the model.
\<close>

definition ex_workspace :: "string \<Rightarrow> ManagedServiceV2Workspace" where
  "ex_workspace root = \<lparr>vw_SelectionID = ''sel1'', vw_ProjectID = ''proj1'', vw_WorkspaceEpoch = ''epoch1'',
     vw_ScopeRevision = 1, vw_RootAttestation = root\<rparr>"

definition ex_credential :: CellCredentialBindingV3 where
  "ex_credential = \<lparr>kb_ConnectionID = ''conn1'', kb_ConnectionRevision = 1, kb_ProviderID = ''openai'',
     kb_AuthMode = ''api_key''\<rparr>"

definition ex_authority :: "ManagedServiceV2Authority option" where
  "ex_authority = Some \<lparr>va_ProviderID = ''openai'', va_ModelID = Some ''gpt-5'', va_AuthMode = Some ''api_key''\<rparr>"

definition ex_profile :: ManagedServiceV2Profile where
  "ex_profile = \<lparr>vp_SetupOperationID = ''setup-1'', vp_ProfileID = ''opencode'', vp_ProfileRevision = 2,
     vp_ProfileDigest = ex_digest CHR ''b''\<rparr>"

definition ex_cell :: "string \<Rightarrow> string \<Rightarrow> string option \<Rightarrow> CellExecutionGrantV3 option \<Rightarrow> CellServiceV3" where
  "ex_cell root phase receipt grant = \<lparr>v3_FormatVersion = 3, v3_TargetKind = ''cell_session'', v3_OperationID = ''op1'',
     v3_LaunchOperationID = ''launch1'', v3_ActionRevision = 1, v3_DesiredRevision = 1, v3_DesiredState = ''active'',
     v3_SessionMode = ''create_initial'', v3_ServiceRegistrationID = ''svc1'', v3_OwnerCellID = ''cell1'',
     v3_OwnerRole = ''manager'', v3_OwnerGeneration = 1, v3_SandboxID = ''sbx_alpha0001'', v3_SandboxGeneration = 3,
     v3_ServiceGeneration = 1, v3_ConfigDigest = ex_digest CHR ''c'', v3_Fence = replicate 64 CHR ''f'', v3_Attempt = 1,
     v3_Instance = ''inst1'', v3_Role = ''worker'', v3_NativeSessionID = fst (deriveNativeIDs ''launch1''),
     v3_NativeProjectID = ''global'', v3_WorkspaceEpoch = ''epoch1'', v3_Workspace = ex_workspace root,
     v3_Instructions = \<lparr>vi_InstructionRevision = 1, vi_InstructionDigest = ex_digest CHR ''d''\<rparr>,
     v3_Profile = ex_profile, v3_Authority = ex_authority, v3_LifecyclePhase = phase, v3_PreparationID = ''prep1'',
     v3_CredentialBinding = ex_credential, v3_ControllerID = ''ctl1'', v3_ControllerRevision = 1,
     v3_AuthorityRevision = 1,
     v3_ParentIdentity = \<lparr>kp_ParentExecutionID = None, kp_ParentPacketID = None, kp_PacketID = ''pkt1'', kp_PacketRevision = 1\<rparr>,
     v3_RequestDigest = replicate 64 CHR ''e'', v3_PreparedReceiptDigest = receipt, v3_ExecutionGrant = grant\<rparr>"

definition ex_prepare :: CellServiceV3 where
  "ex_prepare = ex_cell (ex_digest CHR ''a'') ''prepare'' None None"

lemma ex_patterns:
  "matchString cellV3SafeIDPattern ''op1''" "matchString cellV3SafeIDPattern ''launch1''"
  "matchString cellV3SafeIDPattern ''svc1''" "matchString cellV3SafeIDPattern ''cell1''"
  "matchString cellV3SafeIDPattern ''sbx_alpha0001''" "matchString cellV3SafeIDPattern ''inst1''"
  "matchString cellV3SafeIDPattern ''epoch1''" "matchString cellV3SafeIDPattern ''sel1''"
  "matchString cellV3SafeIDPattern ''proj1''" "matchString cellV3SafeIDPattern ''ctl1''"
  "matchString cellV3SafeIDPattern ''prep1''" "matchString cellV3SafeIDPattern ''conn1''"
  "matchString cellV3SafeIDPattern ''pkt1''" "matchString cellV3SafeIDPattern ''cred1''"
  "matchString cellV3SafeIDPattern ''grant1''" "matchString cellV3SafeIDPattern ''grant2''"
  "matchString cellV3ProviderIDPattern ''openai''" "matchString modelIDPattern ''gpt-5''"
  "matchString cellNativeProjectPattern ''global''"
  by code_simp+

lemma ex_hex_patterns:
  "matchString setupDigestPattern (ex_digest CHR ''a'')" "matchString setupDigestPattern (ex_digest CHR ''b'')"
  "matchString setupDigestPattern (ex_digest CHR ''c'')" "matchString setupDigestPattern (ex_digest CHR ''d'')"
  "matchString cellFencePattern (replicate 64 CHR ''f'')" "matchString cellV3RawDigestPattern (replicate 64 CHR ''e'')"
  by code_simp+

lemma ex_prepare_accepted: "accepted (ValidateManagedServiceV3 ex_prepare 3 True (Some ex_setup))"
proof -
  have "matchString cellNativeSessionIDPattern (fst (deriveNativeIDs ''launch1''))"
    using derived_session_shape [of "''launch1''"] by (simp add: ValidCellNativeSessionID_def)
  then show ?thesis
    unfolding ValidateManagedServiceV3_def ex_prepare_def ex_cell_def ex_workspace_def ex_profile_def ex_setup_def
    by (simp add: ex_patterns ex_hex_patterns validCellFence_def cell_state_ok_def session_mode_ok_def
        validCellV3Authority_def ex_authority_def cell_profile_bad_def CredentialBinding_Validate_def
        ex_credential_def validCellV3CredentialAuthority_def ParentIdentity_Validate_def)
qed

definition ex_tuple :: PreparedTuple where
  "ex_tuple = (case PreparedTuple_of (ex_cell [] ''prepare'' None None) of Inr t \<Rightarrow> t | Inl _ \<Rightarrow> undefined)"

lemma ex_tuple_of: "PreparedTuple_of (ex_cell [] phase receipt grant) = Inr ex_tuple"
  unfolding ex_tuple_def PreparedTuple_of_def
  by (simp add: ex_cell_def ex_authority_def validCellV3Authority_def ex_patterns ex_credential_def
      validCellV3CredentialAuthority_def)

definition ex_receipt :: PreparedReceipt where
  "ex_receipt = \<lparr>pr_FormatVersion = 3, pr_PreparedTuple = ex_tuple, pr_CredentialID = ''cred1'',
     pr_NativeCredentialID = ''native1'', pr_BindingDigest = bindingDigest ex_tuple ''cred1'' ''native1'',
     pr_PreparedReceiptDigest = preparedReceiptDigest ex_tuple ''cred1'' ''native1''
       (bindingDigest ex_tuple ''cred1'' ''native1'')\<rparr>"

lemma ex_receipt_accepted: "accepted (Receipt_ValidateFor ex_receipt (ex_cell [] phase receipt grant))"
proof -
  have "\<not> blank (map byte ''native1'')" by code_simp
  then show ?thesis
    by (simp add: receipt_accepted ex_tuple_of integrity_accepted) (simp add: ex_receipt_def ex_patterns)
qed

definition ex_grant :: "string \<Rightarrow> string \<Rightarrow> CellExecutionGrantV3" where
  "ex_grant i expires = \<lparr>eg_GrantID = i, eg_OperationID = ''launch1'', eg_SessionID = fst (deriveNativeIDs ''launch1''),
     eg_InputID = snd (deriveNativeIDs ''launch1''), eg_ControllerID = ''ctl1'', eg_ControllerRevision = 1,
     eg_AuthorityRevision = 1, eg_Attempt = 1, eg_Fence = replicate 64 CHR ''f'', eg_ParentExecutionID = None,
     eg_ParentPacketID = None, eg_PacketID = ''pkt1'', eg_PacketRevision = 1, eg_ConfigDigest = ex_digest CHR ''c'',
     eg_ProfileDigest = ex_digest CHR ''b'', eg_WorkspaceDigest = workspaceIdentityDigest (ex_workspace []),
     eg_CredentialBindingDigest = CredentialBinding_digest ex_credential,
     eg_PreparedReceiptDigest = pr_PreparedReceiptDigest ex_receipt, eg_ExpiresAt = expires\<rparr>"

definition ex_execute :: "string \<Rightarrow> string \<Rightarrow> CellServiceV3" where
  "ex_execute i expires =
     ex_cell [] ''execute'' (Some (pr_PreparedReceiptDigest ex_receipt)) (Some (ex_grant i expires))"

lemma ex_times:
  "parseRFC3339 ''2026-01-01T00:00:00Z'' = Some 63902822400000000000"
  "parseRFC3339 ''2026-01-01T01:00:00Z'' = Some 63902826000000000000"
  by code_simp+

lemma workspace_digest_nonempty: "workspaceIdentityDigest w \<noteq> []"
  by (simp add: workspaceIdentityDigest_def canonicalSHA256_def sha256_string_def)

lemma ex_grant_accepted:
  assumes "matchString cellV3SafeIDPattern i" and "parseRFC3339 expires \<noteq> None"
  shows "accepted (validateAgainst (ex_grant i expires) (ex_cell [] phase (Some (pr_PreparedReceiptDigest ex_receipt)) g))"
  using assms by (simp add: grant_accepted grant_binds_def)
    (simp add: ex_grant_def ex_cell_def ex_profile_def ex_workspace_def workspace_digest_nonempty)

lemma ex_execution_accepted:
  assumes "matchString cellV3SafeIDPattern i" and "parseRFC3339 expires \<noteq> None"
  shows "accepted (ValidateExecutionAuthority (ex_execute i expires) ex_receipt)"
proof -
  have "accepted (Receipt_ValidateFor ex_receipt (ex_execute i expires))"
    unfolding ex_execute_def by (rule ex_receipt_accepted)
  moreover have "accepted (validateAgainst (ex_grant i expires) (ex_execute i expires))"
    unfolding ex_execute_def by (rule ex_grant_accepted [OF assms])
  moreover have "v3_LifecyclePhase (ex_execute i expires) = ''execute''"
    "v3_ExecutionGrant (ex_execute i expires) = Some (ex_grant i expires)"
    "v3_PreparedReceiptDigest (ex_execute i expires) = Some (pr_PreparedReceiptDigest ex_receipt)"
    by (simp_all add: ex_execute_def ex_cell_def)
  ultimately show ?thesis by (simp add: execution_accepted)
qed

end
