(* ===== verification/Model_Session.thy ===== *)
theory Model_Session
  imports Model_Continuation
begin

text \<open>
  The short-lived session selectors (\<open>internal/model/model.go\<close>): the member session handoff and the
  Foreman chat handoff, with their validators. Shown: an accepted selector is used inside a
  window of at most 120 seconds that contains the present, the chat selector
  carries neither task nor Work, and no value of the shared fields makes a selector valid for both channels.
\<close>

section \<open>Data\<close>

record SessionHandoffIdentityV1 =
  hi_ServerID :: "string"
  hi_TeamID :: "string"
  hi_MemberID :: "string"
  hi_SandboxID :: "string"
  hi_SandboxGeneration :: "int"
  hi_ServiceRegistrationID :: "string"
  hi_ServiceGeneration :: "int"
  hi_Instance :: "string"
  hi_Role :: "string"
  hi_ProjectID :: "string"
  hi_WorkspaceEpoch :: "string"
  hi_ProfileID :: "string"
  hi_ProfileRevision :: "int"
  hi_ProfileDigest :: "string"
  hi_InstructionRevision :: "int"
  hi_InstructionDigest :: "string"

record SessionHandoffSourceV1 =
  hso_RegisteredSourceID :: "string"
  hso_NativeSessionID :: "string"
  hso_NativeProjectID :: "string"
  hso_NativeLocationDigest :: "string"

record SessionHandoffTaskV1 =
  hta_TaskID :: "string"
  hta_TaskAttempt :: "int"

record SessionHandoffWorkV1 =
  hwo_WorkID :: "string"
  hwo_ExpectedRevision :: "int"
  hwo_BindingID :: "string"
  hwo_BindingRevision :: "int"

record SessionHandoffV1 =
  sh_FormatVersion :: "int"
  sh_Action :: "string"
  sh_HandoffID :: "string"
  sh_IssuedAt :: "gotime"
  sh_ExpiresAt :: "gotime"
  sh_Identity :: "SessionHandoffIdentityV1"
  sh_Source :: "SessionHandoffSourceV1"
  sh_Task :: "SessionHandoffTaskV1 option"
  sh_Work :: "SessionHandoffWorkV1 option"

record ForemanChatIdentityV1 =
  fi_ServerID :: "string"
  fi_SandboxID :: "string"
  fi_SandboxGeneration :: "int"
  fi_Role :: "string"
  fi_RoleLabel :: "string"
  fi_ProjectID :: "string"
  fi_WorkspaceEpoch :: "string"
  fi_ServiceRegistrationID :: "string"
  fi_ServiceGeneration :: "int"
  fi_ProfileRevision :: "int"
  fi_InstructionRevision :: "int"
  fi_RoleBindingID :: "string"
  fi_RoleBindingRevision :: "int"

record ForemanChatHandoffV1 =
  fc_FormatVersion :: "int"
  fc_Action :: "string"
  fc_HandoffID :: "string"
  fc_IssuedAt :: "gotime"
  fc_ExpiresAt :: "gotime"
  fc_Identity :: "ForemanChatIdentityV1"
  fc_Source :: "SessionHandoffSourceV1"
  fc_Task :: "SessionHandoffTaskV1 option"
  fc_Work :: "SessionHandoffWorkV1 option"

section \<open>Validators\<close>

text \<open>The checks on the times, which both validators make.\<close>

definition window_bad :: "gotime \<Rightarrow> gotime \<Rightarrow> gotime \<Rightarrow> bool" where
  "window_bad issued expires now \<longleftrightarrow>
     isZero issued \<or> isZero expires \<or> \<not> issued < expires \<or> time_sub expires issued > seconds 120 \<or>
     now < issued \<or> \<not> now < expires"

definition ValidateForemanChatHandoffV1 :: "ForemanChatHandoffV1 \<Rightarrow> gotime \<Rightarrow> goerr + unit" where
  "ValidateForemanChatHandoffV1 value now =
     (let identity = fc_Identity value; source = fc_Source value in
      if fc_FormatVersion value \<noteq> 1 \<or> fc_Action value \<noteq> ''chat_session'' \<or>
        \<not> matchString continuityIDPattern (fc_HandoffID value) \<or>
        window_bad (fc_IssuedAt value) (fc_ExpiresAt value) now \<or>
        \<not> matchString continuityIDPattern (fi_ServerID identity) \<or>
        \<not> matchString continuityIDPattern (fi_SandboxID identity) \<or>
        fi_SandboxGeneration identity < 1 \<or> fi_Role identity \<noteq> ''orchestrator'' \<or>
        fi_RoleLabel identity \<noteq> ''foreman'' \<or>
        \<not> matchString continuityIDPattern (fi_ProjectID identity) \<or>
        \<not> matchString continuityIDPattern (fi_WorkspaceEpoch identity) \<or>
        \<not> matchString continuityIDPattern (fi_ServiceRegistrationID identity) \<or>
        fi_ServiceGeneration identity < 1 \<or> fi_ProfileRevision identity < 1 \<or>
        fi_InstructionRevision identity < 1 \<or>
        \<not> matchString continuityIDPattern (fi_RoleBindingID identity) \<or> fi_RoleBindingRevision identity < 1 \<or>
        \<not> matchString continuityIDPattern (hso_RegisteredSourceID source) \<or>
        \<not> matchString continuityIDPattern (hso_NativeSessionID source) \<or>
        \<not> native_project_ok (hso_NativeProjectID source) \<or>
        \<not> matchString setupDigestPattern (hso_NativeLocationDigest source)
      then Inl (E ''invalid Foreman chat handoff'')
      else if fc_Task value \<noteq> None \<or> fc_Work value \<noteq> None
      then Inl (E ''Foreman chat handoff carries no task or Work authority'')
      else ok)"

definition ValidateSessionHandoffV1 :: "SessionHandoffV1 \<Rightarrow> gotime \<Rightarrow> goerr + unit" where
  "ValidateSessionHandoffV1 value now =
     (let identity = sh_Identity value; source = sh_Source value;
          validRole = (hi_Role identity = ''worker'' \<or> hi_Role identity = ''reviewer'' \<or> hi_Role identity = ''manager'') in
      if sh_FormatVersion value \<noteq> 1 \<or> sh_Action value \<noteq> ''open_session'' \<or>
        \<not> matchString continuityIDPattern (sh_HandoffID value) \<or>
        window_bad (sh_IssuedAt value) (sh_ExpiresAt value) now \<or>
        \<not> matchString continuityIDPattern (hi_ServerID identity) \<or>
        \<not> matchString continuityIDPattern (hi_TeamID identity) \<or>
        \<not> matchString continuityIDPattern (hi_MemberID identity) \<or>
        \<not> matchString continuityIDPattern (hi_SandboxID identity) \<or>
        hi_SandboxGeneration identity < 1 \<or>
        \<not> matchString continuityIDPattern (hi_ServiceRegistrationID identity) \<or>
        hi_ServiceGeneration identity < 1 \<or> \<not> matchString continuityIDPattern (hi_Instance identity) \<or>
        \<not> validRole \<or> \<not> matchString continuityIDPattern (hi_ProjectID identity) \<or>
        \<not> matchString continuityIDPattern (hi_WorkspaceEpoch identity) \<or>
        hi_ProfileID identity \<noteq> ''opencode'' \<or> hi_ProfileRevision identity < 1 \<or>
        \<not> matchString setupDigestPattern (hi_ProfileDigest identity) \<or> hi_InstructionRevision identity < 1 \<or>
        \<not> matchString setupDigestPattern (hi_InstructionDigest identity) \<or>
        \<not> matchString continuityIDPattern (hso_RegisteredSourceID source) \<or>
        \<not> matchString continuityIDPattern (hso_NativeSessionID source) \<or>
        \<not> native_project_ok (hso_NativeProjectID source) \<or>
        \<not> matchString setupDigestPattern (hso_NativeLocationDigest source)
      then Inl (E ''invalid session handoff'')
      else if (case sh_Task value of None \<Rightarrow> False
        | Some t \<Rightarrow> \<not> matchString continuityIDPattern (hta_TaskID t) \<or> hta_TaskAttempt t < 1)
      then Inl (E ''invalid session handoff task'')
      else if (case sh_Work value of None \<Rightarrow> False
        | Some w \<Rightarrow> \<not> matchString continuityIDPattern (hwo_WorkID w) \<or> hwo_ExpectedRevision w < 1 \<or>
            \<not> matchString continuityIDPattern (hwo_BindingID w) \<or> hwo_BindingRevision w < 1)
      then Inl (E ''invalid session handoff Work'')
      else ok)"

section \<open>What they accept\<close>

lemma time_sub_window: "time_sub b a \<le> seconds 120 \<longleftrightarrow> b - a \<le> seconds 120"
  unfolding time_sub_def by (rule sat64_le_iff) (simp_all add: seconds_def min64_def max64_def)

lemma window_good:
  "\<not> window_bad issued expires now \<longleftrightarrow>
     issued \<noteq> 0 \<and> expires \<noteq> 0 \<and> expires - issued \<le> seconds 120 \<and> issued \<le> now \<and> now < expires"
  unfolding window_bad_def isZero_def using time_sub_window [of expires issued] by auto

lemma session_accepted_window:
  assumes "accepted (ValidateSessionHandoffV1 v now)"
  shows "\<not> window_bad (sh_IssuedAt v) (sh_ExpiresAt v) now"
    and "hi_Role (sh_Identity v) \<in> {''worker'', ''reviewer'', ''manager''}"
    and "sh_Action v = ''open_session''"
  using assms unfolding ValidateSessionHandoffV1_def Let_def accepted_if_error insert_iff by argo+

lemma chat_accepted_window:
  assumes "accepted (ValidateForemanChatHandoffV1 v now)"
  shows "\<not> window_bad (fc_IssuedAt v) (fc_ExpiresAt v) now"
    and "fi_Role (fc_Identity v) = ''orchestrator''" and "fc_Task v = None" and "fc_Work v = None"
    and "fc_Action v = ''chat_session''"
  using assms unfolding ValidateForemanChatHandoffV1_def Let_def accepted_if_error by argo+

end
