(* ===== verification/Model_Properties.thy ===== *)
theory Model_Properties
  imports Cell_Examples Model_Session
begin

text \<open>
  The properties of the parts of a manifest (\<open>internal/model\<close>): setup materializers and paths, process
  instances, the resolution of continuity registrations, cell entries with their grants and receipts,
  and the session selectors. Each property with hypotheses has a witness on concrete values.
\<close>

section \<open>Setup\<close>

text \<open>
  The npm materializer is accepted exactly when it meets its specification: one to eight
  artifacts, each well formed with a safe https source, with distinct ids and distinct
  install names and a true total size of at most 2 GiB (the 64-bit sum never wraps),
  well-formed binaries and launchers that name one of the artifacts, and no binary name
  given twice among binaries and launchers.
\<close>

theorem npm_materializer_spec: "accepted (validateNPMMaterializer m) = npm_ok m"
  by (rule npm_accepted)

text \<open>
  The archive materializer is accepted exactly when it has one artifact and one binary and
  nothing of the npm kind, both well formed with a safe member path, and the extended fields
  (platform, integrity, member digest, version, environment) are either all absent or all
  present and valid.
\<close>

theorem archive_materializer_spec: "accepted (validateArchiveMaterializer m) = archive_ok m"
  by (rule archive_accepted)

text \<open>
  How a file system resolves the components of a relative path from a directory, and the
  directories it passes through: empty and dot components stay, two dots go up.
\<close>

definition enter :: "string list \<Rightarrow> string \<Rightarrow> string list" where
  "enter dir part = (if part = [] \<or> part = ''.'' then dir else if part = ''..'' then butlast dir else dir @ [part])"

fun visits :: "string list \<Rightarrow> string list \<Rightarrow> string list list" where
  "visits dir [] = [dir]"
| "visits dir (p # ps) = dir # visits (enter dir p) ps"

lemma visits_below:
  "\<forall>q\<in>set ps. q \<noteq> [] \<and> q \<noteq> ''.'' \<and> q \<noteq> ''..'' \<Longrightarrow>
     last (visits dir ps) = dir @ ps \<and> (\<forall>d\<in>set (visits dir ps). prefix dir d)"
proof (induction ps arbitrary: dir)
  case Nil
  then show ?case by simp
next
  case (Cons p ps)
  then have e: "enter dir p = dir @ [p]" by (simp add: enter_def)
  have ne: "visits d ps \<noteq> []" for d by (cases ps) simp_all
  from Cons.IH [of "dir @ [p]"] Cons.prems ne show ?case
    by (auto simp: e intro: append_prefixD)
qed

text \<open>
  A relative path that safeRelativePath accepts, resolved component by component from any
  directory, never leaves that directory on the way and ends strictly below it.
\<close>

theorem safe_path_stays_below:
  assumes "safeRelativePath p"
  shows "(\<forall>d\<in>set (visits dir (splitOn CHR ''/'' p)). prefix dir d) \<and>
    strict_prefix dir (last (visits dir (splitOn CHR ''/'' p)))"
proof -
  have "\<forall>q\<in>set (splitOn CHR ''/'' p). q \<noteq> [] \<and> q \<noteq> ''.'' \<and> q \<noteq> ''..''"
    using assms by (auto simp: safeRelativePath_def list_all_iff split: if_splits)
  from visits_below [OF this, of dir] splitOn_Cons [of "CHR ''/''" p] show ?thesis
    by (auto simp: strict_prefix_def)
qed

theorem safe_path_stays_below_witness:
  "last (visits [''opt''] (splitOn CHR ''/'' ''bin/tool'')) = [''opt'', ''bin'', ''tool''] \<and>
   strict_prefix [''opt''] (last (visits [''opt''] (splitOn CHR ''/'' ''bin/tool'')))"
proof -
  have "safeRelativePath ''bin/tool''" by code_simp
  from safe_path_stays_below [OF this, of "[''opt'']"] show ?thesis by (simp add: enter_def)
qed

section \<open>Process instances\<close>

text \<open>
  The process instance of a managed service determines its instance and its generation,
  whatever characters the instance contains, so two services or two generations never share
  a process instance.
\<close>

theorem process_instance_injective:
  assumes "ManagedServiceProcessInstance i g = ManagedServiceProcessInstance j h" and "0 \<le> g" and "0 \<le> h"
  shows "i = j \<and> g = h"
  using assms by (rule process_instance_inj)

theorem process_instance_injective_witness:
  "ManagedServiceProcessInstance ''a-1'' 12 = ManagedServiceProcessInstance (''a'' @ ''-1'') (6 + 6) \<and>
   ''a-1'' = ''a'' @ ''-1'' \<and> (12::int) = 6 + 6"
proof -
  have e: "ManagedServiceProcessInstance ''a-1'' 12 = ManagedServiceProcessInstance (''a'' @ ''-1'') (6 + 6)" by simp
  from process_instance_injective [OF this] e show ?thesis by simp
qed

section \<open>Continuity registrations\<close>

text \<open>
  EffectiveContinuityRegistrations and the resolution inside ValidateManifest agree, in
  whatever order Go iterates over the map of groups: both accept the same lists, and the
  effective registrations are exactly the values of the map, one for each binding.
\<close>

theorem resolutions_agree:
  assumes "foldE (registration_step gens) [] rs = Inr gs" and "mset gs' = mset gs"
  shows "accepted (EffectiveContinuityRegistrations rs) = accepted (foldE resolve_step Map.empty gs') \<and>
    (\<forall>es m. EffectiveContinuityRegistrations rs = Inr es \<longrightarrow> foldE resolve_step Map.empty gs' = Inr m \<longrightarrow>
       set es = ran m \<and> distinct (map binding_of es) \<and> (\<forall>b r. m b = Some r \<longrightarrow> binding_of r = b))"
proof -
  have rel: "groups_rel rs gs" by (rule registrations_groups [OF assms(1)])
  have "distinct (map fst gs)" using rel by (simp add: groups_rel_def)
  then have m: "foldE resolve_step Map.empty gs' = Inr t \<longleftrightarrow> all_resolve rs \<and> t = effective_of rs" for t
    by (simp add: resolve_order [OF _ assms(2)] resolve_groups [OF rel])
  then have "accepted (foldE resolve_step Map.empty gs') = all_resolve rs" by (auto simp: accepted_iff)
  moreover have "set es = ran (effective_of rs) \<and> distinct (map binding_of es)"
    if "EffectiveContinuityRegistrations rs = Inr es" for es
    using effective_member [OF that] effective_bindings [OF that] distinct_firsts [of "{}" rs]
    by (auto simp: ran_def effective_of_def)
  moreover have "binding_of r = b" if "effective_of rs b = Some r" for b r
    using that unfolding effective_of_def by (rule resolve_group_binding) simp
  ultimately show ?thesis by (auto simp: Effective_accepted m)
qed

theorem resolutions_agree_witness:
  "accepted (EffectiveContinuityRegistrations [ex_registration ''active'' 2, ex_registration ''revoked'' 1]) =
   accepted (foldE resolve_step Map.empty [(''bind1'', [ex_registration ''active'' 2, ex_registration ''revoked'' 1])])"
proof -
  have g: "foldE (registration_step (map_of [(''sbx_alpha0001'', 3)])) []
      [ex_registration ''active'' 2, ex_registration ''revoked'' 1] =
    Inr [(''bind1'', [ex_registration ''active'' 2, ex_registration ''revoked'' 1])]" by code_simp
  from resolutions_agree [OF g refl] show ?thesis by blast
qed

section \<open>Cells\<close>

text \<open>
  An accepted formatVersion 3 cell entry is for the current generation of its sandbox, on a
  setup profile that matches it exactly, with the native session derived from its launch
  operation; in the phase prepare it carries neither a receipt nor a grant, in the phase
  execute it carries both, and the grant names the entry in every field.
\<close>

theorem cell_phase_authority:
  assumes "accepted (ValidateManagedServiceV3 e gen exists profile)"
  shows "exists \<and> gen = v3_SandboxGeneration e \<and>
    (\<exists>op. profile = Some op \<and> so_SandboxID op = v3_SandboxID e \<and> so_SandboxGeneration op = v3_SandboxGeneration e \<and>
       so_ProfileDigest op = vp_ProfileDigest (v3_Profile e)) \<and>
    v3_NativeSessionID e = fst (deriveNativeIDs (v3_LaunchOperationID e)) \<and>
    (v3_LifecyclePhase e = ''prepare'' \<and> v3_PreparedReceiptDigest e = None \<and> v3_ExecutionGrant e = None \<or>
     v3_LifecyclePhase e = ''execute'' \<and>
       (\<exists>g. v3_ExecutionGrant e = Some g \<and> grant_binds g e \<and> parseRFC3339 (eg_ExpiresAt g) \<noteq> None))"
proof -
  have "v3_LifecyclePhase e = ''prepare'' \<and> v3_PreparedReceiptDigest e = None \<and> v3_ExecutionGrant e = None \<or>
     v3_LifecyclePhase e = ''execute'' \<and>
       (\<exists>g. v3_ExecutionGrant e = Some g \<and> grant_binds g e \<and> parseRFC3339 (eg_ExpiresAt g) \<noteq> None)"
    using v3_accepted_phase [OF assms] unfolding grant_accepted by blast
  with v3_accepted_core(1-3) [OF assms] show ?thesis unfolding profile_exactly_ready by auto
qed

theorem cell_phase_authority_witness:
  "v3_SandboxGeneration ex_prepare = 3 \<and> v3_ExecutionGrant ex_prepare = None \<and>
   v3_NativeSessionID ex_prepare = fst (deriveNativeIDs (v3_LaunchOperationID ex_prepare))"
  using cell_phase_authority [OF ex_prepare_accepted] by (simp add: ex_prepare_def ex_cell_def)

text \<open>
  A grant that renews another differs from it in its id and its expiry only, expires
  strictly later, is not renewed by it, and is accepted for exactly the entries the older
  grant is accepted for, as long as its own id is well formed.
\<close>

theorem grant_renewal:
  assumes "Renews g old" and "accepted (validateAgainst old e)"
  shows "accepted (validateAgainst g e) = matchString cellV3SafeIDPattern (eg_GrantID g) \<and> \<not> Renews old g \<and>
    eg_GrantID g \<noteq> eg_GrantID old \<and> g = old\<lparr>eg_GrantID := eg_GrantID g, eg_ExpiresAt := eg_ExpiresAt g\<rparr> \<and>
    (\<exists>t u. parseRFC3339 (eg_ExpiresAt g) = Some t \<and> parseRFC3339 (eg_ExpiresAt old) = Some u \<and> u < t)"
  using assms renews_asym [OF assms(1)] renewal_binds [OF assms(1), of e] renewal_workspace [OF assms(1)]
    renews_iff [of g old]
  by (auto simp: grant_accepted)

theorem grant_renewal_witness:
  "accepted (validateAgainst (ex_grant ''grant2'' ''2026-01-01T01:00:00Z'')
     (ex_execute ''grant1'' ''2026-01-01T00:00:00Z''))"
proof -
  have r: "Renews (ex_grant ''grant2'' ''2026-01-01T01:00:00Z'') (ex_grant ''grant1'' ''2026-01-01T00:00:00Z'')"
    by (simp add: renews_iff) (simp add: ex_grant_def ex_times)
  have a: "accepted (validateAgainst (ex_grant ''grant1'' ''2026-01-01T00:00:00Z'') (ex_execute ''grant1'' ''2026-01-01T00:00:00Z''))"
    unfolding ex_execute_def by (rule ex_grant_accepted) (simp_all add: ex_patterns ex_times)
  have i: "eg_GrantID (ex_grant ''grant2'' x) = ''grant2''" for x by (simp add: ex_grant_def)
  from grant_renewal [OF r a] show ?thesis by (simp add: i ex_patterns)
qed

text \<open>
  C5. Execution authority is accepted only for the preparation it was issued for: the entry
  is in the phase execute, its grant and its receipt digest name the accepted receipt, the
  receipt carries exactly the entry's prepared tuple with intact digests, the grant names
  the entry in every field; and the receipt is accepted for every entry of the same
  preparation.
\<close>

theorem execution_authority_bound:
  assumes "accepted (ValidateExecutionAuthority e r)"
  shows "v3_LifecyclePhase e = ''execute'' \<and> PreparedTuple_of e = Inr (pr_PreparedTuple r) \<and>
    pr_BindingDigest r = bindingDigest (pr_PreparedTuple r) (pr_CredentialID r) (pr_NativeCredentialID r) \<and>
    pr_PreparedReceiptDigest r = preparedReceiptDigest (pr_PreparedTuple r) (pr_CredentialID r)
       (pr_NativeCredentialID r) (pr_BindingDigest r) \<and>
    (\<exists>g. v3_ExecutionGrant e = Some g \<and> grant_binds g e \<and> eg_PreparedReceiptDigest g = pr_PreparedReceiptDigest r) \<and>
    (\<forall>x. SamePreparationIdentity x e \<longrightarrow> accepted (Receipt_ValidateFor r x))"
proof -
  from assms obtain g where g: "v3_LifecyclePhase e = ''execute''" "v3_ExecutionGrant e = Some g"
    "v3_PreparedReceiptDigest e = Some (pr_PreparedReceiptDigest r)" "accepted (Receipt_ValidateFor r e)"
    "accepted (validateAgainst g e)" by (auto simp: execution_accepted)
  from g(5) have b: "grant_binds g e" by (simp add: grant_accepted)
  with g(3) have "eg_PreparedReceiptDigest g = pr_PreparedReceiptDigest r" by (simp add: grant_binds_def)
  moreover have "accepted (Receipt_ValidateFor r x)" if "SamePreparationIdentity x e" for x
    using g(4) same_preparation_tuple [OF that] by (simp add: receipt_accepted)
  ultimately show ?thesis using g b by (simp add: receipt_accepted integrity_accepted)
qed

theorem execution_authority_bound_witness:
  "PreparedTuple_of (ex_execute ''grant1'' ''2026-01-01T00:00:00Z'') = Inr (pr_PreparedTuple ex_receipt) \<and>
   accepted (Receipt_ValidateFor ex_receipt (ex_cell [] ''prepare'' None None))"
proof -
  have a: "accepted (ValidateExecutionAuthority (ex_execute ''grant1'' ''2026-01-01T00:00:00Z'') ex_receipt)"
    by (rule ex_execution_accepted) (simp_all add: ex_patterns ex_times)
  have "SamePreparationIdentity (ex_cell [] ''prepare'' None None) (ex_execute ''grant1'' ''2026-01-01T00:00:00Z'')"
    by (simp add: SamePreparationIdentity_def preparation_normalize_def ex_execute_def ex_cell_def)
  with execution_authority_bound [OF a] show ?thesis by blast
qed

section \<open>Session selectors\<close>

text \<open>
  A member session selector or a Foreman chat selector is accepted only inside its own
  window, which lasts at most 120 seconds, the saturation of time subtraction included; and
  the chat selector carries neither a task nor a Work.
\<close>

theorem selector_windows:
  assumes "accepted (ValidateSessionHandoffV1 v now)" and "accepted (ValidateForemanChatHandoffV1 c later)"
  shows "sh_IssuedAt v \<le> now \<and> now < sh_ExpiresAt v \<and> sh_ExpiresAt v - sh_IssuedAt v \<le> seconds 120 \<and>
    fc_IssuedAt c \<le> later \<and> later < fc_ExpiresAt c \<and> fc_ExpiresAt c - fc_IssuedAt c \<le> seconds 120 \<and>
    fc_Task c = None \<and> fc_Work c = None"
  using session_accepted_window(1) [OF assms(1)] chat_accepted_window(1,3,4) [OF assms(2)]
  by (simp add: window_good)

definition ex_source :: SessionHandoffSourceV1 where
  "ex_source = \<lparr>hso_RegisteredSourceID = ''src1'', hso_NativeSessionID = ''ses1'', hso_NativeProjectID = ''global'',
     hso_NativeLocationDigest = ex_digest CHR ''d''\<rparr>"

definition ex_session :: SessionHandoffV1 where
  "ex_session = \<lparr>sh_FormatVersion = 1, sh_Action = ''open_session'', sh_HandoffID = ''handoff1'',
     sh_IssuedAt = seconds 1000, sh_ExpiresAt = seconds 1120,
     sh_Identity = \<lparr>hi_ServerID = ''srv1'', hi_TeamID = ''team1'', hi_MemberID = ''mem1'', hi_SandboxID = ''sbx1'',
       hi_SandboxGeneration = 1, hi_ServiceRegistrationID = ''svc1'', hi_ServiceGeneration = 1, hi_Instance = ''inst1'',
       hi_Role = ''worker'', hi_ProjectID = ''proj1'', hi_WorkspaceEpoch = ''epoch1'', hi_ProfileID = ''opencode'',
       hi_ProfileRevision = 1, hi_ProfileDigest = ex_digest CHR ''b'', hi_InstructionRevision = 1,
       hi_InstructionDigest = ex_digest CHR ''c''\<rparr>,
     sh_Source = ex_source, sh_Task = None, sh_Work = None\<rparr>"

definition ex_chat :: ForemanChatHandoffV1 where
  "ex_chat = \<lparr>fc_FormatVersion = 1, fc_Action = ''chat_session'', fc_HandoffID = ''handoff2'',
     fc_IssuedAt = seconds 2000, fc_ExpiresAt = seconds 2060,
     fc_Identity = \<lparr>fi_ServerID = ''srv1'', fi_SandboxID = ''sbx1'', fi_SandboxGeneration = 1, fi_Role = ''orchestrator'',
       fi_RoleLabel = ''foreman'', fi_ProjectID = ''proj1'', fi_WorkspaceEpoch = ''epoch1'',
       fi_ServiceRegistrationID = ''svc2'', fi_ServiceGeneration = 1, fi_ProfileRevision = 1, fi_InstructionRevision = 1,
       fi_RoleBindingID = ''role1'', fi_RoleBindingRevision = 1\<rparr>,
     fc_Source = ex_source, fc_Task = None, fc_Work = None\<rparr>"

theorem selector_windows_witness:
  "sh_ExpiresAt ex_session - sh_IssuedAt ex_session \<le> seconds 120 \<and> fc_Work ex_chat = None"
proof -
  have "accepted (ValidateSessionHandoffV1 ex_session (seconds 1119))"
    "accepted (ValidateForemanChatHandoffV1 ex_chat (seconds 2000))" by code_simp+
  from selector_windows [OF this] show ?thesis by blast
qed

end
