(* ===== verification/Go_Sql.thy ===== *)
theory Go_Sql
  imports Go_Time "HOL-Library.AList"
begin

text \<open>
  The SQL the local store runs (\<open>internal/state/store.go\<close>) as operations on tables. A table with a \<open>TEXT\<close>
  primary key is the association list of its rows: \<open>map_of\<close> reads a row, \<open>AList.update\<close> is
  \<open>INSERT ... ON CONFLICT(id) DO UPDATE\<close>, \<open>AList.delete\<close> is \<open>DELETE ... WHERE id = ?\<close>, and \<open>keep_rows\<close> a
  \<open>DELETE\<close> with a condition. A statement that violates a constraint returns \<open>constraint\<close> and changes
  nothing. Times are \<open>TEXT\<close> columns holding the layout \<open>RFC3339Nano\<close>; a stored time is
  its instant, and \<open>formatNano\<close> is the text the column holds, which \<open>ORDER BY\<close> compares.
  Interfaces: a row that is inserted once and verified afterwards (\<open>insert_or_verify\<close>), and a
  state column whose edges descend (\<open>fenced_states\<close>).
\<close>

section \<open>Tables\<close>

type_synonym 'r tbl = "(string \<times> 'r) list"

definition constraint :: goerr where
  "constraint = Sentinel ''sqlite: constraint failed''"

definition keep_rows :: "('r \<Rightarrow> bool) \<Rightarrow> 'r tbl \<Rightarrow> 'r tbl" where
  "keep_rows P t = filter (\<lambda>(k, r). P r) t"

definition rows :: "'r tbl \<Rightarrow> 'r list" where
  "rows t = map snd t"

definition wf_tbl :: "'r tbl \<Rightarrow> bool" where
  "wf_tbl t \<longleftrightarrow> distinct (map fst t)"

lemma map_of_update [simp]: "map_of (AList.update k r t) = (map_of t)(k \<mapsto> r)"
  by (rule update_conv')

lemma map_of_delete [simp]: "map_of (AList.delete k t) = (map_of t)(k := None)"
  by (rule delete_conv')

lemma wf_update [simp]: "wf_tbl t \<Longrightarrow> wf_tbl (AList.update k r t)"
  by (simp add: wf_tbl_def distinct_update)

lemma wf_delete [simp]: "wf_tbl t \<Longrightarrow> wf_tbl (AList.delete k t)"
  by (simp add: wf_tbl_def distinct_delete)

lemma wf_keep_rows [simp]: "wf_tbl t \<Longrightarrow> wf_tbl (keep_rows P t)"
  by (auto simp: wf_tbl_def keep_rows_def distinct_map_filter)

lemma in_rows_iff: "wf_tbl t \<Longrightarrow> r \<in> set (rows t) \<longleftrightarrow> (\<exists>k. map_of t k = Some r)"
  by (force simp: rows_def wf_tbl_def dest: map_of_SomeD)

lemma map_of_keep_rows:
  "wf_tbl t \<Longrightarrow> map_of (keep_rows P t) k = (case map_of t k of None \<Rightarrow> None | Some r \<Rightarrow> if P r then Some r else None)"
proof (induction t)
  case Nil
  then show ?case by (simp add: keep_rows_def)
next
  case (Cons a t)
  obtain k0 r0 where a: "a = (k0, r0)" by (cases a)
  from Cons.prems have wf: "wf_tbl t" and k0: "map_of t k0 = None"
    by (auto simp: wf_tbl_def a map_of_eq_None_iff)
  from Cons.IH [OF wf] k0 show ?case by (auto simp: keep_rows_def a split: option.splits)
qed

text \<open>A condition on every row.\<close>

definition all_rows :: "('r \<Rightarrow> bool) \<Rightarrow> 'r tbl \<Rightarrow> bool" where
  "all_rows P t \<longleftrightarrow> (\<forall>k r. map_of t k = Some r \<longrightarrow> P r)"

lemma all_rows_Nil [simp]: "all_rows P []"
  by (simp add: all_rows_def)

lemma all_rows_row: "all_rows P t \<Longrightarrow> map_of t k = Some r \<Longrightarrow> P r"
  by (auto simp: all_rows_def)

lemma all_rows_update: "all_rows P t \<Longrightarrow> P r \<Longrightarrow> all_rows P (AList.update k r t)"
  by (simp add: all_rows_def)

lemma all_rows_delete: "all_rows P t \<Longrightarrow> all_rows P (AList.delete k t)"
  by (auto simp: all_rows_def split: if_splits)

lemma all_rows_keep_rows: "wf_tbl t \<Longrightarrow> all_rows P t \<Longrightarrow> all_rows P (keep_rows Q t)"
  by (auto simp: all_rows_def map_of_keep_rows split: option.splits if_splits)

text \<open>The sum of a column over the rows of a table, before and after one row is added or replaced.\<close>

lemma update_fresh: "map_of t k = None \<Longrightarrow> AList.update k r t = t @ [(k, r)]"
  by (induction t) (auto split: if_splits)

lemma rows_update_fresh: "map_of t k = None \<Longrightarrow> rows (AList.update k r t) = rows t @ [r]"
  by (simp add: update_fresh rows_def)

section \<open>Text order\<close>

text \<open>The \<open>BINARY\<close> collation: \<open>TEXT\<close> is compared byte by byte.\<close>

fun text_less :: "string \<Rightarrow> string \<Rightarrow> bool" where
  "text_less _ [] = False"
| "text_less [] (y # ys) = True"
| "text_less (x # xs) (y # ys) = (byte x < byte y \<or> x = y \<and> text_less xs ys)"

lemma text_less_irrefl [simp]: "\<not> text_less a a"
  by (induction a) auto

lemma text_less_trans: "text_less a b \<Longrightarrow> text_less b c \<Longrightarrow> text_less a c"
proof (induction a b arbitrary: c rule: text_less.induct)
  case (1 a)
  then show ?case by simp
next
  case (2 y ys)
  then show ?case by (cases c) auto
next
  case (3 x xs y ys)
  then show ?case by (cases c) auto
qed

text \<open>\<open>ORDER BY\<close>: \<open>before a b\<close> says that row \<open>a\<close> comes strictly before row \<open>b\<close>.\<close>

fun insert_by :: "('a \<Rightarrow> 'a \<Rightarrow> bool) \<Rightarrow> 'a \<Rightarrow> 'a list \<Rightarrow> 'a list" where
  "insert_by before x [] = [x]"
| "insert_by before x (y # ys) = (if before y x then y # insert_by before x ys else x # y # ys)"

definition order_by :: "('a \<Rightarrow> 'a \<Rightarrow> bool) \<Rightarrow> 'a list \<Rightarrow> 'a list" where
  "order_by before xs = foldr (insert_by before) xs []"

lemma insert_by_length [simp]: "length (insert_by before x ys) = Suc (length ys)"
  by (induction ys) auto

lemma insert_by_set [simp]: "set (insert_by before x ys) = insert x (set ys)"
  by (induction ys) auto

lemma insert_by_distinct: "distinct (map f (insert_by before x ys)) \<longleftrightarrow> f x \<notin> f ` set ys \<and> distinct (map f ys)"
  by (induction ys) auto

lemma order_by_simps [simp]:
  "order_by before [] = []" "order_by before (x # xs) = insert_by before x (order_by before xs)"
  by (simp_all add: order_by_def)

lemma set_order_by [simp]: "set (order_by before xs) = set xs"
  by (induction xs) auto

lemma length_order_by [simp]: "length (order_by before xs) = length xs"
  by (induction xs) auto

lemma distinct_order_by [simp]: "distinct (map f (order_by before xs)) \<longleftrightarrow> distinct (map f xs)"
  by (induction xs) (auto simp: insert_by_distinct)

lemma insert_by_filter_count: "length (filter P (insert_by before x ys)) = length (filter P (x # ys))"
  by (induction ys) auto

lemma order_by_filter_count [simp]: "length (filter P (order_by before xs)) = length (filter P xs)"
  by (induction xs) (auto simp: insert_by_filter_count)

text \<open>When \<open>before\<close> is transitive and asymmetric, no row of the result comes before an earlier one.\<close>

lemma order_by_sorted:
  assumes trans: "\<And>a b c. before a b \<Longrightarrow> before b c \<Longrightarrow> before a c"
    and asym: "\<And>a b. before a b \<Longrightarrow> \<not> before b a"
    and weak: "\<And>a b c. \<not> before b a \<Longrightarrow> \<not> before c b \<Longrightarrow> \<not> before c a"
  shows "sorted_wrt (\<lambda>a b. \<not> before b a) (order_by before xs)"
proof (induction xs)
  case Nil
  then show ?case by simp
next
  case (Cons x xs)
  have "sorted_wrt (\<lambda>a b. \<not> before b a) ys \<Longrightarrow> sorted_wrt (\<lambda>a b. \<not> before b a) (insert_by before x ys)" for ys
    by (induction ys) (auto dest: asym weak)
  with Cons.IH show ?case by simp
qed

section \<open>Times as text\<close>

text \<open>The last \<open>k\<close> decimal digits; the years are those of the layout, 0 to 9999.\<close>

fun digits :: "nat \<Rightarrow> int \<Rightarrow> string" where
  "digits 0 n = []"
| "digits (Suc k) n = digits k (n div 10) @ [char_of (48 + nat (n mod 10))]"

text \<open>The civil date of a day number (days since January 1, year 1), in cycles of 400, 100, 4 and 1 years.\<close>

definition civil_year :: "int \<Rightarrow> int" where
  "civil_year d =
     (let n400 = d div 146097; d1 = d mod 146097;
          n100 = min 3 (d1 div 36524); d2 = d1 - n100 * 36524;
          n4 = d2 div 1461; d3 = d2 mod 1461;
          n1 = min 3 (d3 div 365)
      in 400 * n400 + 100 * n100 + 4 * n4 + n1 + 1)"

fun month_from :: "nat \<Rightarrow> int \<Rightarrow> int \<Rightarrow> int \<Rightarrow> int \<times> int" where
  "month_from 0 y m d = (m, d + 1)"
| "month_from (Suc k) y m d = (if d < daysIn m y then (m, d + 1) else month_from k y (m + 1) (d - daysIn m y))"

fun trim_zeros :: "string \<Rightarrow> string" where
  "trim_zeros s = rev (dropWhile (\<lambda>c. c = CHR ''0'') (rev s))"

definition nano_text :: "int \<Rightarrow> string" where
  "nano_text ns =
     (if ns = 0 then []
      else CHR ''.'' # trim_zeros (digits 9 ns))"

text \<open>\<open>t.UTC().Format(time.RFC3339Nano)\<close>: the fraction of the second has no trailing zeros and is absent when zero.\<close>

definition formatNano :: "gotime \<Rightarrow> string" where
  "formatNano t =
     (let secs = t div 1000000000; ns = t mod 1000000000;
          d = secs div 86400; s = secs mod 86400;
          y = civil_year d; (mo, day) = month_from 11 y 1 (d - days_before_year y)
      in digits 4 y @ ''-'' @ digits 2 mo @ ''-'' @ digits 2 day @ ''T'' @ digits 2 (s div 3600) @ '':'' @
         digits 2 (s mod 3600 div 60) @ '':'' @ digits 2 (s mod 60) @ nano_text ns @ ''Z'')"

section \<open>Interfaces\<close>

text \<open>
  A row that is inserted once and verified afterwards: \<open>put\<close> inserts the row under its key or, when the
  key is taken, accepts exactly the rows with the same fence. \<open>same\<close> says that a stored row carries
  the fence of the row given.
\<close>

locale insert_or_verify =
  fixes put :: "'r \<Rightarrow> 'st \<Rightarrow> 'st \<times> (goerr + unit)"
    and look :: "'st \<Rightarrow> string \<Rightarrow> 'r option"
    and key :: "'r \<Rightarrow> string"
    and same :: "'r \<Rightarrow> 'r \<Rightarrow> bool"
  assumes put_error: "put r s = (t, Inl e) \<Longrightarrow> t = s"
    and put_stored: "put r s = (t, ok) \<Longrightarrow> \<exists>x. look t (key r) = Some x \<and> same x r"
    and put_taken: "look s (key r) = Some x \<Longrightarrow> fst (put r s) = s"
    and put_refused: "look s (key r) = Some x \<Longrightarrow> \<not> same x r \<Longrightarrow> \<not> accepted (snd (put r s))"
    and put_again: "put r s = (t, ok) \<Longrightarrow> look u (key r) = Some x \<Longrightarrow> same x r \<Longrightarrow> put r u = (u, ok)"
    and put_other: "k \<noteq> key r \<Longrightarrow> look (fst (put r s)) k = look s k"
begin

lemma put_keeps: "look s k = Some x \<Longrightarrow> look (fst (put r s)) k = Some x"
  by (cases "k = key r") (simp_all add: put_taken put_other)

text \<open>No sequence of insertions changes a stored row.\<close>

lemma puts_keep: "look s k = Some x \<Longrightarrow> look (foldl (\<lambda>s r. fst (put r s)) s rs) k = Some x"
  by (induction rs arbitrary: s) (auto intro: put_keeps)

text \<open>A retry of an accepted insertion is accepted and changes nothing, whatever was inserted since.\<close>

lemma put_idempotent: "put r s = (t, ok) \<Longrightarrow> put r t = (t, ok)"
  by (metis put_stored put_again)

lemma put_retry:
  assumes "put r s = (t, ok)"
  shows "put r (foldl (\<lambda>s r. fst (put r s)) t rs) = (foldl (\<lambda>s r. fst (put r s)) t rs, ok)"
proof -
  from put_stored [OF assms] obtain x where x: "look t (key r) = Some x" "same x r" by blast
  show ?thesis by (rule put_again [OF assms puts_keep [OF x(1)] x(2)])
qed

text \<open>Two accepted insertions under one key carry the same fence as the row that is stored.\<close>

lemma put_conflict:
  assumes "put r s = (t, ok)" and "key q = key r" and "snd (put q (foldl (\<lambda>s r. fst (put r s)) t rs)) = ok"
  shows "\<exists>x. look t (key r) = Some x \<and> same x r \<and> same x q"
proof -
  from put_stored [OF assms(1)] obtain x where x: "look t (key r) = Some x" "same x r" by blast
  from puts_keep [OF x(1)] have "look (foldl (\<lambda>s r. fst (put r s)) t rs) (key q) = Some x"
    by (simp add: assms(2))
  from put_refused [OF this] assms(3) x show ?thesis by auto
qed

end

text \<open>
  Rows that are inserted once without a report and answered once: \<open>put\<close> inserts or verifies a row,
  \<open>complete i r\<close> answers row \<open>i\<close> with the report \<open>r\<close>, and \<open>agree q r\<close> says that the stored report \<open>q\<close> is
  taken for \<open>r\<close>.
\<close>

locale answer_once =
  fixes put :: "'v \<Rightarrow> 'st \<Rightarrow> 'st \<times> (goerr + unit)"
    and complete :: "string \<Rightarrow> 'r \<Rightarrow> 'st \<Rightarrow> 'st \<times> (goerr + unit)"
    and look :: "'st \<Rightarrow> string \<Rightarrow> 'v option"
    and manifest :: "'v \<Rightarrow> 'm"
    and report :: "'v \<Rightarrow> 'r option"
    and key :: "'v \<Rightarrow> string"
    and agree :: "'r \<Rightarrow> 'r \<Rightarrow> bool"
  assumes put_keeps: "look s k = Some x \<Longrightarrow> look (fst (put v s)) k = Some x"
    and put_ok: "snd (put v s) = ok \<Longrightarrow> \<exists>x. look (fst (put v s)) (key v) = Some x \<and> manifest x = manifest v"
    and complete_keeps: "look s k = Some x \<Longrightarrow>
      \<exists>y. look (fst (complete i r s)) k = Some y \<and> manifest y = manifest x \<and> (report x \<noteq> None \<longrightarrow> y = x)"
    and complete_ok: "snd (complete i r s) = ok \<Longrightarrow>
      \<exists>y q. look (fst (complete i r s)) i = Some y \<and> report y = Some q \<and> agree q r"
begin

text \<open>Any sequence of the two operations keeps the manifest of a row, and all of an answered row.\<close>

lemma calls_keep:
  assumes "look s k = Some x" and "\<forall>c\<in>set cs. (\<exists>v. c = (\<lambda>s. fst (put v s))) \<or> (\<exists>i r. c = (\<lambda>s. fst (complete i r s)))"
  shows "\<exists>y. look (foldl (\<lambda>s c. c s) s cs) k = Some y \<and> manifest y = manifest x \<and> (report x \<noteq> None \<longrightarrow> y = x)"
  using assms
proof (induction cs arbitrary: s x)
  case Nil
  then show ?case by simp
next
  case (Cons c cs)
  have "\<exists>y. look (c s) k = Some y \<and> manifest y = manifest x \<and> (report x \<noteq> None \<longrightarrow> y = x)"
    using Cons.prems complete_keeps [OF Cons.prems(1)] put_keeps [OF Cons.prems(1)] by auto
  then obtain y where y: "look (c s) k = Some y" "manifest y = manifest x" "report x \<noteq> None \<longrightarrow> y = x" by blast
  from Cons.IH [OF y(1)] Cons.prems(2) y(2,3) show ?case by auto
qed

text \<open>Two accepted answers to one row, whatever is called in between, are taken for the same report.\<close>

lemma one_answer:
  assumes "snd (complete i r s) = ok"
    and "\<forall>c\<in>set cs. (\<exists>v. c = (\<lambda>s. fst (put v s))) \<or> (\<exists>i r. c = (\<lambda>s. fst (complete i r s)))"
    and "snd (complete i q (foldl (\<lambda>s c. c s) (fst (complete i r s)) cs)) = ok"
  shows "\<exists>p. agree p r \<and> agree p q"
proof -
  let ?t = "foldl (\<lambda>s c. c s) (fst (complete i r s)) cs"
  from complete_ok [OF assms(1)] obtain y p where
    y: "look (fst (complete i r s)) i = Some y" "report y = Some p" "agree p r" by blast
  from calls_keep [OF y(1) assms(2)] y(2) have "look ?t i = Some y" by auto
  from complete_keeps [OF this] y(2) have "look (fst (complete i q ?t)) i = Some y" by auto
  with complete_ok [OF assms(3)] y(2) have "agree p q" by auto
  with y(3) show ?thesis by blast
qed

end

text \<open>The states a row goes through after state \<open>a\<close>.\<close>

fun history :: "('s \<Rightarrow> 's \<Rightarrow> bool) \<Rightarrow> 's \<Rightarrow> 's list \<Rightarrow> bool" where
  "history edge a [] = True"
| "history edge a (b # bs) = (edge a b \<and> history edge b bs)"

text \<open>
  A state column: \<open>edge a b\<close> says that the transition from \<open>a\<close> to \<open>b\<close> is allowed, and \<open>rank\<close> bounds the
  number of transitions left.
\<close>

locale fenced_states =
  fixes edge :: "'s \<Rightarrow> 's \<Rightarrow> bool" and rank :: "'s \<Rightarrow> nat"
  assumes edge_descends: "edge a b \<Longrightarrow> rank b < rank a"
begin

lemma history_bounded: "history edge a bs \<Longrightarrow> length bs + rank (last (a # bs)) \<le> rank a"
proof (induction bs arbitrary: a)
  case Nil
  then show ?case by simp
next
  case (Cons b bs)
  from Cons.prems have "rank b < rank a" "history edge b bs" by (auto dest: edge_descends)
  with Cons.IH [of b] show ?case by (cases bs) auto
qed

lemma history_length: "history edge a bs \<Longrightarrow> length bs \<le> rank a"
  using history_bounded [of a bs] by simp

lemma history_ranks: "history edge a bs \<Longrightarrow> \<forall>b\<in>set bs. rank b < rank a"
proof (induction bs arbitrary: a)
  case Nil
  then show ?case by simp
next
  case (Cons b bs)
  then show ?case using edge_descends [of a b] by fastforce
qed

text \<open>No state is entered twice, and a state of rank 0 is final.\<close>

lemma history_distinct: "history edge a bs \<Longrightarrow> distinct (a # bs)"
proof (induction bs arbitrary: a)
  case Nil
  then show ?case by simp
next
  case (Cons b bs)
  from history_ranks [OF Cons.prems] Cons show ?case by (auto dest: edge_descends)
qed

lemma final: "rank a = 0 \<Longrightarrow> \<not> edge a b"
  by (auto dest: edge_descends)

lemma edge_neq: "edge a b \<Longrightarrow> a \<noteq> b"
  by (auto dest: edge_descends)

end

end
