(* ===== verification/Store_State.thy ===== *)
theory Store_State
  imports Go_Sql Model_Sandbox Model_Continuation
begin

text \<open>
  The local state store (\<open>internal/state/store.go\<close>), its tables and the operations on sandboxes and
  access grants. The store serialises its statements on one connection; a state of the
  database is a \<open>store\<close>, a statement a function to the next one. \<open>updated_at\<close> columns are never read back
  and are left out. Failures of the database file itself (I/O, locks) are not modelled: a statement
  that fails for such a reason changes nothing.
\<close>

section \<open>Rows\<close>

record LocalSandbox =
  ls_ID :: "string"
  ls_Name :: "string"
  ls_DesiredState :: "string"
  ls_ObservedState :: "string"
  ls_Generation :: "int"
  ls_ObservedGeneration :: "int"
  ls_Lifetime :: "string"
  ls_ExpiresInSeconds :: "int option"
  ls_StartedAt :: "gotime option"
  ls_ExpiresAt :: "gotime option"
  ls_Resources :: "Resources"
  ls_ImageDigest :: "string"
  ls_ErrorCode :: "string"
  ls_ErrorMessage :: "string"
  ls_CellReady :: "bool"
  ls_Cell :: "bool"

record LocalGrant =
  lg_ID :: "string"
  lg_SandboxID :: "string"
  lg_SSHPublicKey :: "string"
  lg_DesiredState :: "string"
  lg_ObservedState :: "string"
  lg_ErrorCode :: "string"
  lg_ErrorMessage :: "string"

record LocalSetupOperation =
  lso_ID :: "string"
  lso_SandboxID :: "string"
  lso_SandboxGeneration :: "int"
  lso_ProfileID :: "string"
  lso_ProfileRevision :: "int"
  lso_ProfileDigest :: "string"
  lso_DesiredRevision :: "int"
  lso_BodyDigest :: "string"
  lso_RequestJSON :: "string"
  lso_State :: "string"
  lso_ReceiptJSON :: "string"
  lso_ReceiptDigest :: "string"
  lso_ErrorCode :: "string"
  lso_ErrorMessage :: "string"

record LocalContinuityOperation =
  lo_ID :: "string"
  lo_Kind :: "string"
  lo_Identity :: "ContinuityIdentityV1"
  lo_RequestDigest :: "string"
  lo_State :: "string"
  lo_Deadline :: "gotime"
  lo_PauseOwned :: "bool"
  lo_PauseGeneration :: "int"
  lo_PauseLifecycleRevision :: "int"
  lo_CaptureID :: "string"
  lo_CheckpointID :: "string"
  lo_ErrorCode :: "string"
  lo_ErrorMessage :: "string"

record ContinuityTransition =
  ct_From :: "string"
  ct_To :: "string"
  ct_PauseOwned :: "bool"
  ct_PauseGeneration :: "int"
  ct_PauseLifecycleRevision :: "int"
  ct_CaptureID :: "string"
  ct_CheckpointID :: "string"
  ct_ErrorCode :: "string"
  ct_ErrorMessage :: "string"

record LocalContinuityCapture =
  lc_ID :: "string"
  lc_Identity :: "ContinuityIdentityV1"
  lc_ObjectID :: "string"
  lc_ManifestDigest :: "string"
  lc_Bytes :: "int"
  lc_ObjectCount :: "int"
  lc_Verified :: "bool"
  lc_CreatedAt :: "gotime"

record LocalCheckpoint =
  lk_ID :: "string"
  lk_CaptureID :: "string"
  lk_Identity :: "ContinuityIdentityV1"
  lk_ManifestDigest :: "string"
  lk_Bytes :: "int"
  lk_ObjectCount :: "int"
  lk_Pinned :: "bool"
  lk_CreatedAt :: "gotime"

record CheckpointPolicy =
  cp_MaxBytes :: "int"
  cp_MaxPerBox :: "int"
  cp_MaxAge :: "int"

record CheckpointGCIntent =
  gi_SandboxID :: "string"
  gi_CheckpointID :: "string"
  gi_CaptureID :: "string"
  gi_ObjectID :: "string"
  gi_ManifestDigest :: "string"
  gi_Bytes :: "int"
  gi_Phase :: "string"
  gi_PlannedAt :: "gotime"
  gi_NotBefore :: "gotime"

record LocalContinuationPreparation =
  ya_Manifest :: "ContinuationManifestV1"
  ya_Phase :: "string"
  ya_Report :: "ContinuationReportV1 option"

record LocalContinuationRelease =
  yb_Manifest :: "ContinuationReleaseManifestV1"
  yb_Phase :: "string"
  yb_Report :: "ContinuationReleaseReportV1 option"

record LocalContinuationHandoffPreparation =
  yc_Manifest :: "ContinuationHandoffManifestV1"
  yc_Phase :: "string"
  yc_TargetSelectionID :: "string"
  yc_Report :: "ContinuationHandoffReportV1 option"

record LocalContinuationHandoffRelease =
  yd_Manifest :: "ContinuationHandoffReleaseManifestV1"
  yd_Phase :: "string"
  yd_Report :: "ContinuationHandoffReleaseReportV1 option"

record LocalRestoreOperation =
  ye_Manifest :: "RestoreManifestV1"
  ye_Phase :: "string"
  ye_Report :: "RestoreReportV1 option"

text \<open>The row of a handoff also has the column \<open>mapped_source_id\<close>, which the Go value does not carry.\<close>

record handoff_row = LocalContinuationHandoffPreparation +
  yc_MappedSource :: string

text \<open>A row of \<open>checkpoint_gc_tombstones\<close>, without its key \<open>capture_id\<close> and the time of collection.\<close>

record gc_tombstone =
  tb_CheckpointID :: "string option"
  tb_ObjectID :: string
  tb_ManifestDigest :: string

text \<open>The five tables of continuations, handoffs and restores, keyed by operation.\<close>

record continuation_tables =
  tb_preparations :: "LocalContinuationPreparation tbl"
  tb_releases :: "LocalContinuationRelease tbl"
  tb_handoffs :: "handoff_row tbl"
  tb_handoff_releases :: "LocalContinuationHandoffRelease tbl"
  tb_restores :: "LocalRestoreOperation tbl"

definition no_continuations :: continuation_tables where
  "no_continuations =
     \<lparr>tb_preparations = [], tb_releases = [], tb_handoffs = [], tb_handoff_releases = [], tb_restores = []\<rparr>"

text \<open>
  The tables of this part of the store. \<open>checkpoint_policies\<close> is keyed by sandbox, \<open>work_checkpoint_pointers\<close> by
  Work, the two collection tables by capture.
\<close>

record store =
  st_sandboxes :: "LocalSandbox tbl"
  st_grants :: "LocalGrant tbl"
  st_setups :: "LocalSetupOperation tbl"
  st_operations :: "LocalContinuityOperation tbl"
  st_captures :: "LocalContinuityCapture tbl"
  st_policies :: "CheckpointPolicy tbl"
  st_checkpoints :: "LocalCheckpoint tbl"
  st_pointers :: "string tbl"
  st_intents :: "CheckpointGCIntent tbl"
  st_tombstones :: "gc_tombstone tbl"
  st_conts :: continuation_tables

definition empty_store :: store where
  "empty_store =
     \<lparr>st_sandboxes = [], st_grants = [], st_setups = [], st_operations = [], st_captures = [],
      st_policies = [], st_checkpoints = [], st_pointers = [], st_intents = [], st_tombstones = [],
      st_conts = no_continuations\<rparr>"

section \<open>Sandboxes and grants\<close>

definition Store_Sandbox :: "string \<Rightarrow> store \<Rightarrow> LocalSandbox option" where
  "Store_Sandbox sid s = map_of (st_sandboxes s) sid"

text \<open>The rows \<open>ORDER BY id\<close>.\<close>

definition Store_Sandboxes :: "store \<Rightarrow> LocalSandbox list" where
  "Store_Sandboxes s = map snd (order_by (\<lambda>a b. text_less (fst a) (fst b)) (st_sandboxes s))"

definition Store_PutSandbox :: "LocalSandbox \<Rightarrow> store \<Rightarrow> store \<times> (goerr + unit)" where
  "Store_PutSandbox value s = (s\<lparr>st_sandboxes := AList.update (ls_ID value) value (st_sandboxes s)\<rparr>, ok)"

text \<open>Grants and setup operations reference their sandbox with \<open>ON DELETE CASCADE\<close>.\<close>

definition Store_DeleteSandbox :: "string \<Rightarrow> store \<Rightarrow> store \<times> (goerr + unit)" where
  "Store_DeleteSandbox sid s =
     (s\<lparr>st_sandboxes := AList.delete sid (st_sandboxes s),
        st_grants := keep_rows (\<lambda>g. lg_SandboxID g \<noteq> sid) (st_grants s),
        st_setups := keep_rows (\<lambda>o'. lso_SandboxID o' \<noteq> sid) (st_setups s)\<rparr>, ok)"

definition Store_PutGrant :: "LocalGrant \<Rightarrow> store \<Rightarrow> store \<times> (goerr + unit)" where
  "Store_PutGrant value s =
     (if map_of (st_sandboxes s) (lg_SandboxID value) = None then (s, Inl constraint)
      else (s\<lparr>st_grants := AList.update (lg_ID value) value (st_grants s)\<rparr>, ok))"

definition Store_DeleteGrant :: "string \<Rightarrow> store \<Rightarrow> store \<times> (goerr + unit)" where
  "Store_DeleteGrant sid s = (s\<lparr>st_grants := AList.delete sid (st_grants s)\<rparr>, ok)"

definition Store_Grant :: "string \<Rightarrow> store \<Rightarrow> LocalGrant option" where
  "Store_Grant sid s = map_of (st_grants s) sid"

definition Store_Grants :: "store \<Rightarrow> LocalGrant list" where
  "Store_Grants s = map snd (order_by (\<lambda>a b. text_less (fst a) (fst b)) (st_grants s))"

section \<open>Referential integrity\<close>

text \<open>The primary keys are unique, a row is stored under its own key, and grants and setup operations name existing sandboxes.\<close>

definition keyed_by :: "('r \<Rightarrow> string) \<Rightarrow> 'r tbl \<Rightarrow> bool" where
  "keyed_by key t \<longleftrightarrow> wf_tbl t \<and> (\<forall>k r. map_of t k = Some r \<longrightarrow> key r = k)"

definition refers :: "('r \<Rightarrow> string) \<Rightarrow> 'r tbl \<Rightarrow> 'q tbl \<Rightarrow> bool" where
  "refers f t u \<longleftrightarrow> (\<forall>k r. map_of t k = Some r \<longrightarrow> map_of u (f r) \<noteq> None)"

definition sandbox_refs :: "store \<Rightarrow> bool" where
  "sandbox_refs s \<longleftrightarrow>
     keyed_by ls_ID (st_sandboxes s) \<and> keyed_by lg_ID (st_grants s) \<and> keyed_by lso_ID (st_setups s) \<and>
     refers lg_SandboxID (st_grants s) (st_sandboxes s) \<and>
     refers lso_SandboxID (st_setups s) (st_sandboxes s)"

lemma keyed_update: "keyed_by key t \<Longrightarrow> key r = k \<Longrightarrow> keyed_by key (AList.update k r t)"
  by (auto simp: keyed_by_def)

lemma keyed_delete: "keyed_by key t \<Longrightarrow> keyed_by key (AList.delete k t)"
  by (auto simp: keyed_by_def split: if_splits)

lemma keyed_keep_rows: "keyed_by key t \<Longrightarrow> keyed_by key (keep_rows P t)"
  by (auto simp: keyed_by_def map_of_keep_rows split: option.splits if_splits)

lemma refers_update: "refers f t u \<Longrightarrow> map_of u (f r) \<noteq> None \<Longrightarrow> refers f (AList.update k r t) u"
  by (auto simp: refers_def)

lemma refers_delete: "refers f t u \<Longrightarrow> refers f (AList.delete k t) u"
  by (auto simp: refers_def)

lemma refers_target_update: "refers f t u \<Longrightarrow> refers f t (AList.update k r u)"
  by (auto simp: refers_def)

lemma refers_cascade: "wf_tbl t \<Longrightarrow> refers f t u \<Longrightarrow> refers f (keep_rows (\<lambda>r. f r \<noteq> k) t) (AList.delete k u)"
  by (auto simp: refers_def map_of_keep_rows split: option.splits if_splits)

lemma refers_keep_rows: "wf_tbl t \<Longrightarrow> refers f t u \<Longrightarrow> refers f (keep_rows P t) u"
  by (auto simp: refers_def map_of_keep_rows split: option.splits if_splits)

lemmas keyed_refers = keyed_update keyed_delete keyed_keep_rows refers_update refers_delete
  refers_target_update refers_cascade refers_keep_rows

lemma keyed_wf: "keyed_by key t \<Longrightarrow> wf_tbl t"
  by (simp add: keyed_by_def)

lemma sandbox_refs_empty: "sandbox_refs empty_store"
  by (simp add: sandbox_refs_def empty_store_def keyed_by_def refers_def wf_tbl_def)

lemma sandbox_refs_PutSandbox: "sandbox_refs s \<Longrightarrow> sandbox_refs (fst (Store_PutSandbox v s))"
  by (auto simp: sandbox_refs_def Store_PutSandbox_def intro: keyed_refers)

lemma sandbox_refs_DeleteSandbox: "sandbox_refs s \<Longrightarrow> sandbox_refs (fst (Store_DeleteSandbox i s))"
  by (auto simp: sandbox_refs_def Store_DeleteSandbox_def intro: keyed_refers keyed_wf)

lemma sandbox_refs_PutGrant: "sandbox_refs s \<Longrightarrow> sandbox_refs (fst (Store_PutGrant v s))"
  by (auto simp: sandbox_refs_def Store_PutGrant_def intro: keyed_refers)

lemma sandbox_refs_DeleteGrant: "sandbox_refs s \<Longrightarrow> sandbox_refs (fst (Store_DeleteGrant i s))"
  by (auto simp: sandbox_refs_def Store_DeleteGrant_def intro: keyed_refers)

text \<open>The listings hold every row once.\<close>

lemma listed_iff:
  assumes "keyed_by key t"
  shows "v \<in> set (map snd (order_by R t)) \<longleftrightarrow> map_of t (key v) = Some v"
proof -
  have "v \<in> snd ` set t \<longleftrightarrow> (\<exists>k. (k, v) \<in> set t)" by force
  also have "\<dots> \<longleftrightarrow> (\<exists>k. map_of t k = Some v)"
    using assms by (simp add: keyed_by_def wf_tbl_def)
  also have "\<dots> \<longleftrightarrow> map_of t (key v) = Some v" using assms by (auto simp: keyed_by_def)
  finally show ?thesis by simp
qed

lemma Sandboxes_set: "sandbox_refs s \<Longrightarrow> v \<in> set (Store_Sandboxes s) \<longleftrightarrow> Store_Sandbox (ls_ID v) s = Some v"
  unfolding Store_Sandboxes_def Store_Sandbox_def sandbox_refs_def by (intro listed_iff) simp

lemma Grants_set: "sandbox_refs s \<Longrightarrow> v \<in> set (Store_Grants s) \<longleftrightarrow> Store_Grant (lg_ID v) s = Some v"
  unfolding Store_Grants_def Store_Grant_def sandbox_refs_def by (intro listed_iff) simp

end
