(* ===== verification/Store_Setup.thy ===== *)
theory Store_Setup
  imports Store_State
begin

text \<open>
  Setup operations in the store (\<open>internal/state/store.go\<close>): the insertion of the immutable fence and the
  state transitions with their fenced update. A method that runs two statements takes \<open>between\<close>, what
  other callers do to the database between the two; \<open>\<lambda>s. s\<close> is the undisturbed call.
  \<open>digestOf\<close> is the \<open>receiptDigest\<close> member that \<open>json.Unmarshal\<close> reads from a
  receipt, \<open>None\<close> when it reports an error.
\<close>

section \<open>Reading\<close>

definition Store_SetupOperation :: "string \<Rightarrow> store \<Rightarrow> LocalSetupOperation option" where
  "Store_SetupOperation sid s = map_of (st_setups s) sid"

definition Store_SetupOperations :: "store \<Rightarrow> LocalSetupOperation list" where
  "Store_SetupOperations s = map snd (order_by (\<lambda>a b. text_less (fst a) (fst b)) (st_setups s))"

section \<open>Insertion\<close>

text \<open>The \<open>CHECK\<close> constraints of the table; they are tested before the key.\<close>

definition setup_checks :: "LocalSetupOperation \<Rightarrow> bool" where
  "setup_checks v \<longleftrightarrow>
     lso_SandboxGeneration v > 0 \<and> lso_ProfileRevision v > 0 \<and> lso_DesiredRevision v > 0 \<and>
     lso_State v \<in> {''pending'', ''applying'', ''ready'', ''failed'', ''cancelled''}"

definition setup_fresh :: "LocalSetupOperation \<Rightarrow> LocalSetupOperation" where
  "setup_fresh v = v\<lparr>lso_State := ''pending'', lso_ReceiptJSON := [], lso_ReceiptDigest := [],
                    lso_ErrorCode := [], lso_ErrorMessage := []\<rparr>"

text \<open>The fence the code compares with the stored row: the desired revision is not part of it.\<close>

definition setup_same :: "LocalSetupOperation \<Rightarrow> LocalSetupOperation \<Rightarrow> bool" where
  "setup_same existing v \<longleftrightarrow>
     lso_SandboxID existing = lso_SandboxID v \<and> lso_SandboxGeneration existing = lso_SandboxGeneration v \<and>
     lso_ProfileID existing = lso_ProfileID v \<and> lso_ProfileRevision existing = lso_ProfileRevision v \<and>
     lso_ProfileDigest existing = lso_ProfileDigest v \<and> lso_BodyDigest existing = lso_BodyDigest v \<and>
     lso_RequestJSON existing = lso_RequestJSON v"

definition Store_PutSetupOperation ::
  "(store \<Rightarrow> store) \<Rightarrow> LocalSetupOperation \<Rightarrow> store \<Rightarrow> store \<times> (goerr + unit)" where
  "Store_PutSetupOperation between v s =
     (if lso_State v \<noteq> ''pending'' then (s, Inl (E ''new setup operation must be pending''))
      else if \<not> setup_checks (setup_fresh v) then (s, Inl constraint)
      else (case map_of (st_setups s) (lso_ID v) of
          None \<Rightarrow>
            if map_of (st_sandboxes s) (lso_SandboxID v) = None then (s, Inl constraint)
            else (s\<lparr>st_setups := AList.update (lso_ID v) (setup_fresh v) (st_setups s)\<rparr>, ok)
        | Some _ \<Rightarrow>
            let u = between s in
            (case Store_SetupOperation (lso_ID v) u of
               None \<Rightarrow> (u, Inl (E ''setup operation ID conflicts with a different immutable fence''))
             | Some existing \<Rightarrow>
                 if \<not> setup_same existing v
                 then (u, Inl (E ''setup operation ID conflicts with a different immutable fence''))
                 else (u, ok))))"

section \<open>Transitions\<close>

definition setup_allowed :: "string \<Rightarrow> string \<Rightarrow> bool" where
  "setup_allowed current status \<longleftrightarrow>
     current = ''pending'' \<and> (status = ''applying'' \<or> status = ''cancelled'') \<or>
     current = ''applying'' \<and> (status = ''ready'' \<or> status = ''failed'' \<or> status = ''cancelled'')"

definition Store_TransitionSetupOperation ::
  "(string \<Rightarrow> string option) \<Rightarrow> (store \<Rightarrow> store) \<Rightarrow> string \<Rightarrow> string \<Rightarrow> string \<Rightarrow> string \<Rightarrow> string \<Rightarrow>
     store \<Rightarrow> store \<times> (goerr + unit)" where
  "Store_TransitionSetupOperation digestOf between sid status receipt errorCode errorMessage s =
     (case Store_SetupOperation sid s of
        None \<Rightarrow> (s, Inl (E ''setup operation does not exist''))
      | Some current \<Rightarrow>
          if \<not> setup_allowed (lso_State current) status
          then (s, Inl (E (''invalid setup operation transition '' @ lso_State current @ '' -> '' @ status)))
          else if status = ''ready'' \<and> receipt = [] then (s, Inl (E ''ready setup operation requires a receipt''))
          else
            let receipt = if status \<noteq> ''ready'' then [] else receipt;
                receiptDigest = if status = ''ready'' then (case digestOf receipt of None \<Rightarrow> [] | Some d \<Rightarrow> d) else [];
                u = between s in
            (case map_of (st_setups u) sid of
               None \<Rightarrow> (u, Inl (E ''setup operation transition lost its state fence''))
             | Some r \<Rightarrow>
                 if lso_State r \<noteq> lso_State current
                 then (u, Inl (E ''setup operation transition lost its state fence''))
                 else (u\<lparr>st_setups := AList.update sid
                          (r\<lparr>lso_State := status, lso_ReceiptJSON := receipt, lso_ReceiptDigest := receiptDigest,
                             lso_ErrorCode := errorCode, lso_ErrorMessage := take 300 errorMessage\<rparr>)
                          (st_setups u)\<rparr>, ok)))"

section \<open>Laws\<close>

definition setup_rank :: "string \<Rightarrow> nat" where
  "setup_rank a = (if a = ''pending'' then 2 else if a = ''applying'' then 1 else 0)"

interpretation setup_states: fenced_states setup_allowed setup_rank
  by unfold_locales (auto simp: setup_allowed_def setup_rank_def)

abbreviation put_setup :: "LocalSetupOperation \<Rightarrow> store \<Rightarrow> store \<times> (goerr + unit)" where
  "put_setup \<equiv> Store_PutSetupOperation (\<lambda>s. s)"

lemma setup_same_fresh [simp]: "setup_same (setup_fresh v) v"
  by (simp add: setup_same_def setup_fresh_def)

lemma setup_fresh_fields [simp]:
  "lso_ID (setup_fresh v) = lso_ID v" "lso_SandboxID (setup_fresh v) = lso_SandboxID v"
  "lso_State (setup_fresh v) = ''pending''"
  by (simp_all add: setup_fresh_def)

lemma setup_same_trans: "setup_same x r \<Longrightarrow> setup_same x q \<Longrightarrow> setup_same r q"
  by (simp add: setup_same_def)

lemmas put_setup_cases = Store_PutSetupOperation_def Store_SetupOperation_def Let_def

interpretation setup_fence: insert_or_verify put_setup "\<lambda>s k. Store_SetupOperation k s" lso_ID setup_same
  by unfold_locales (auto simp: put_setup_cases split: if_splits option.splits)

text \<open>What a transition writes, whatever happened between its two statements.\<close>

lemma setup_transition_effect:
  assumes "Store_TransitionSetupOperation digestOf between sid status receipt code msg s = (t, ok)"
  shows "\<exists>a r. Store_SetupOperation sid s = Some a \<and> map_of (st_setups (between s)) sid = Some r \<and>
           lso_State r = lso_State a \<and> setup_allowed (lso_State r) status \<and>
           t = (between s)\<lparr>st_setups := AList.update sid
                 (r\<lparr>lso_State := status,
                    lso_ReceiptJSON := if status = ''ready'' then receipt else [],
                    lso_ReceiptDigest := if status = ''ready'' then (case digestOf receipt of None \<Rightarrow> [] | Some d \<Rightarrow> d) else [],
                    lso_ErrorCode := code, lso_ErrorMessage := take 300 msg\<rparr>) (st_setups (between s))\<rparr> \<and>
           (status = ''ready'' \<longrightarrow> receipt \<noteq> [])"
  using assms unfolding Store_TransitionSetupOperation_def Let_def
  by (auto split: option.splits if_splits)

lemma setup_transition_failed:
  assumes "Store_TransitionSetupOperation digestOf between sid status receipt code msg s = (t, Inl e)"
  shows "t = s \<or> t = between s"
  using assms unfolding Store_TransitionSetupOperation_def Let_def
  by (auto split: option.splits if_splits)

text \<open>The fence of a row, its sandbox included, survives every transition.\<close>

lemma setup_transition_fence:
  assumes "Store_TransitionSetupOperation digestOf between sid status receipt code msg s = (t, ok)"
    and "Store_SetupOperation sid t = Some r"
  shows "\<exists>q. map_of (st_setups (between s)) sid = Some q \<and> setup_same q r \<and>
           lso_DesiredRevision q = lso_DesiredRevision r \<and> lso_ID q = lso_ID r \<and>
           setup_allowed (lso_State q) (lso_State r)"
  using setup_transition_effect [OF assms(1)] assms(2)
  by (auto simp: Store_SetupOperation_def setup_same_def)

text \<open>A row that is ready has its receipt.\<close>

definition setup_row_ok :: "LocalSetupOperation \<Rightarrow> bool" where
  "setup_row_ok r \<longleftrightarrow>
     setup_checks r \<and> (lso_ReceiptJSON r \<noteq> []) = (lso_State r = ''ready'') \<and>
     (lso_State r \<noteq> ''ready'' \<longrightarrow> lso_ReceiptDigest r = []) \<and> length (lso_ErrorMessage r) \<le> 300"

lemma setup_row_fresh: "setup_checks (setup_fresh v) \<Longrightarrow> setup_row_ok (setup_fresh v)"
  by (simp add: setup_row_ok_def setup_fresh_def)

lemma setup_rows_put:
  assumes "all_rows setup_row_ok (st_setups s)" and "all_rows setup_row_ok (st_setups (between s))"
  shows "all_rows setup_row_ok (st_setups (fst (Store_PutSetupOperation between v s)))"
  using assms unfolding put_setup_cases
  by (auto intro!: all_rows_update setup_row_fresh split: option.splits)

lemma setup_allowed_state: "setup_allowed a b \<Longrightarrow> b \<in> {''pending'', ''applying'', ''ready'', ''failed'', ''cancelled''}"
  by (auto simp: setup_allowed_def)

text \<open>
  What is kept by the insertion into the table of one changed row is kept by a transition, whatever its outcome.
\<close>

lemma setup_transition_keeps:
  assumes "P s" and "P (between s)"
    and step: "\<And>a r rj rd. map_of (st_setups (between s)) sid = Some r \<Longrightarrow> setup_allowed (lso_State r) status \<Longrightarrow>
       (rj \<noteq> []) = (status = ''ready'') \<Longrightarrow> (status \<noteq> ''ready'' \<longrightarrow> rd = []) \<Longrightarrow>
       P ((between s)\<lparr>st_setups := AList.update sid
            (r\<lparr>lso_State := status, lso_ReceiptJSON := rj, lso_ReceiptDigest := rd,
               lso_ErrorCode := code, lso_ErrorMessage := take 300 msg\<rparr>) (st_setups (between s))\<rparr>)"
  shows "P (fst (Store_TransitionSetupOperation digestOf between sid status receipt code msg s))"
proof -
  obtain t x where r: "Store_TransitionSetupOperation digestOf between sid status receipt code msg s = (t, x)"
    by fastforce
  show ?thesis
  proof (cases x)
    case (Inl e)
    with setup_transition_failed [of digestOf between sid status receipt code msg s t e] r assms show ?thesis by auto
  next
    case (Inr u)
    with r have "Store_TransitionSetupOperation digestOf between sid status receipt code msg s = (t, ok)" by simp
    from setup_transition_effect [OF this] obtain q where q:
      "map_of (st_setups (between s)) sid = Some q" "setup_allowed (lso_State q) status"
      "t = (between s)\<lparr>st_setups := AList.update sid
                 (q\<lparr>lso_State := status,
                    lso_ReceiptJSON := if status = ''ready'' then receipt else [],
                    lso_ReceiptDigest := if status = ''ready'' then (case digestOf receipt of None \<Rightarrow> [] | Some d \<Rightarrow> d) else [],
                    lso_ErrorCode := code, lso_ErrorMessage := take 300 msg\<rparr>) (st_setups (between s))\<rparr>"
      "status = ''ready'' \<longrightarrow> receipt \<noteq> []" by blast
    have "P t" unfolding q(3) by (rule step [OF q(1,2)]) (use q(4) in auto)
    with r show ?thesis by simp
  qed
qed

lemma setup_rows_transition:
  assumes "all_rows setup_row_ok (st_setups s)" and "all_rows setup_row_ok (st_setups (between s))"
  shows "all_rows setup_row_ok (st_setups (fst (Store_TransitionSetupOperation digestOf between sid status receipt code msg s)))"
proof (rule setup_transition_keeps [where P = "\<lambda>s. all_rows setup_row_ok (st_setups s)"])
  fix r and rj rd :: string
  assume "map_of (st_setups (between s)) sid = Some r" and a: "setup_allowed (lso_State r) status"
    and "(rj \<noteq> []) = (status = ''ready'')" "status \<noteq> ''ready'' \<longrightarrow> rd = []"
  with all_rows_row [OF assms(2)] setup_allowed_state [OF a]
  have "setup_row_ok (r\<lparr>lso_State := status, lso_ReceiptJSON := rj, lso_ReceiptDigest := rd,
      lso_ErrorCode := code, lso_ErrorMessage := take 300 msg\<rparr>)"
    by (fastforce simp: setup_row_ok_def setup_checks_def)
  with assms(2) show "all_rows setup_row_ok (st_setups ((between s)\<lparr>st_setups := AList.update sid
      (r\<lparr>lso_State := status, lso_ReceiptJSON := rj, lso_ReceiptDigest := rd,
         lso_ErrorCode := code, lso_ErrorMessage := take 300 msg\<rparr>) (st_setups (between s))\<rparr>))"
    by (simp add: all_rows_update)
qed (use assms in auto)

lemma sandbox_refs_put_setup:
  assumes "sandbox_refs s" and "sandbox_refs (between s)"
  shows "sandbox_refs (fst (Store_PutSetupOperation between v s))"
  using assms unfolding sandbox_refs_def put_setup_cases
  by (auto split: option.splits intro: keyed_refers)

lemma sandbox_refs_setup_transition:
  assumes "sandbox_refs s" and refs: "sandbox_refs (between s)"
  shows "sandbox_refs (fst (Store_TransitionSetupOperation digestOf between sid status receipt code msg s))"
proof (rule setup_transition_keeps [where P = sandbox_refs])
  fix r and rj rd :: string
  assume r: "map_of (st_setups (between s)) sid = Some r"
  with refs have "lso_ID r = sid" "map_of (st_sandboxes (between s)) (lso_SandboxID r) \<noteq> None"
    by (auto simp: sandbox_refs_def keyed_by_def refers_def)
  with refs show "sandbox_refs ((between s)\<lparr>st_setups := AList.update sid
      (r\<lparr>lso_State := status, lso_ReceiptJSON := rj, lso_ReceiptDigest := rd,
         lso_ErrorCode := code, lso_ErrorMessage := take 300 msg\<rparr>) (st_setups (between s))\<rparr>)"
    by (simp add: sandbox_refs_def keyed_update refers_update)
qed (use assms in auto)

end
