(* ===== verification/Store_Operations.thy ===== *)
theory Store_Operations
  imports Store_State
begin

text \<open>
  Continuity operations in the store (\<open>internal/state/store.go\<close>): the insertion of the immutable fence,
  the table of allowed transitions and the fenced update, with the trigger that refuses a
  checkpoint under deletion (\<open>internal/state/checkpoint_lifecycle.go\<close>). \<open>between\<close> is as in the theory of
  setup operations.
\<close>

section \<open>Reading\<close>

definition Store_ContinuityOperation :: "string \<Rightarrow> store \<Rightarrow> LocalContinuityOperation option" where
  "Store_ContinuityOperation sid s = map_of (st_operations s) sid"

definition Store_ContinuityOperationsByState :: "string list \<Rightarrow> store \<Rightarrow> LocalContinuityOperation list" where
  "Store_ContinuityOperationsByState states s =
     filter (\<lambda>v. lo_State v \<in> set states)
       (map snd (order_by (\<lambda>a b. text_less (fst a) (fst b)) (st_operations s)))"

section \<open>Insertion\<close>

text \<open>
  The constraint on a task and its attempt, which three tables share. SQL evaluates it with three values,
  and a \<open>CHECK\<close> fails only when it is false: a task without an attempt makes it unknown and passes,
  an attempt without a task does not.
\<close>

definition task_check :: "string option \<Rightarrow> int option \<Rightarrow> bool" where
  "task_check task attempt \<longleftrightarrow>
     task = None \<and> attempt = None \<or>
     (case task of None \<Rightarrow> False
      | Some t \<Rightarrow> t \<noteq> [] \<and> (case attempt of None \<Rightarrow> True | Some a \<Rightarrow> a > 0))"

definition operation_checks :: "LocalContinuityOperation \<Rightarrow> bool" where
  "operation_checks v \<longleftrightarrow>
     lo_Kind v \<in> {''capture'', ''checkpoint'', ''materialize''} \<and>
     ci_SandboxGeneration (lo_Identity v) > 0 \<and> ci_ExpectedRevision (lo_Identity v) > 0 \<and>
     lo_State v \<in> {''pending'', ''pausing'', ''paused'', ''capturing'', ''captured'', ''verifying'',
       ''materializing'', ''succeeded'', ''failed'', ''recovery_required''} \<and>
     task_check (ci_TaskID (lo_Identity v)) (ci_TaskAttempt (lo_Identity v))"

definition operation_fresh :: "LocalContinuityOperation \<Rightarrow> LocalContinuityOperation" where
  "operation_fresh v = v\<lparr>lo_State := ''pending'', lo_PauseOwned := False, lo_PauseGeneration := 0,
     lo_PauseLifecycleRevision := 0, lo_CaptureID := [], lo_CheckpointID := [], lo_ErrorCode := [],
     lo_ErrorMessage := []\<rparr>"

text \<open>The fence the code compares with the stored row: the deadline is not part of it.\<close>

definition operation_same :: "LocalContinuityOperation \<Rightarrow> LocalContinuityOperation \<Rightarrow> bool" where
  "operation_same existing v \<longleftrightarrow>
     lo_Kind existing = lo_Kind v \<and> Identity_Equal (lo_Identity existing) (lo_Identity v) \<and>
     lo_RequestDigest existing = lo_RequestDigest v"

definition Store_PutContinuityOperation ::
  "(store \<Rightarrow> store) \<Rightarrow> LocalContinuityOperation \<Rightarrow> store \<Rightarrow> store \<times> (goerr + unit)" where
  "Store_PutContinuityOperation between v s =
     (if lo_State v \<noteq> ''pending'' then (s, Inl (E ''new continuity operation must be pending''))
      else if isZero (lo_Deadline v) then (s, Inl (E ''continuity operation requires a deadline''))
      else if \<not> operation_checks (operation_fresh v) then (s, Inl constraint)
      else (case map_of (st_operations s) (lo_ID v) of
          None \<Rightarrow> (s\<lparr>st_operations := AList.update (lo_ID v) (operation_fresh v) (st_operations s)\<rparr>, ok)
        | Some _ \<Rightarrow>
            let u = between s in
            (case Store_ContinuityOperation (lo_ID v) u of
               None \<Rightarrow> (u, Inl (E ''continuity operation ID conflicts with a different immutable fence''))
             | Some existing \<Rightarrow>
                 if \<not> operation_same existing v
                 then (u, Inl (E ''continuity operation ID conflicts with a different immutable fence''))
                 else (u, ok))))"

section \<open>Transitions\<close>

definition validContinuityTransition :: "string \<Rightarrow> string \<Rightarrow> bool" where
  "validContinuityTransition from_state to_state =
     (if from_state = ''pending'' then to_state = ''pausing'' \<or> to_state = ''capturing'' \<or> to_state = ''verifying'' \<or>
        to_state = ''materializing'' \<or> to_state = ''failed''
      else if from_state = ''pausing'' then to_state = ''paused'' \<or> to_state = ''recovery_required'' \<or> to_state = ''failed''
      else if from_state = ''paused'' then to_state = ''capturing'' \<or> to_state = ''recovery_required'' \<or> to_state = ''failed''
      else if from_state = ''capturing'' then to_state = ''captured'' \<or> to_state = ''recovery_required'' \<or> to_state = ''failed''
      else if from_state = ''verifying'' \<or> from_state = ''materializing''
      then to_state = ''succeeded'' \<or> to_state = ''failed'' \<or> to_state = ''recovery_required''
      else if from_state = ''recovery_required'' then to_state = ''failed''
      else False)"

text \<open>A checkpoint whose collection has begun deleting its object.\<close>

definition deleting_checkpoint :: "string \<Rightarrow> store \<Rightarrow> bool" where
  "deleting_checkpoint cid s \<longleftrightarrow>
     list_ex (\<lambda>g. gi_Phase g = ''deleting'' \<and> gi_CheckpointID g = cid) (rows (st_intents s))"

definition apply_transition :: "ContinuityTransition \<Rightarrow> LocalContinuityOperation \<Rightarrow> LocalContinuityOperation" where
  "apply_transition tr r =
     r\<lparr>lo_State := ct_To tr, lo_PauseOwned := ct_PauseOwned tr, lo_PauseGeneration := ct_PauseGeneration tr,
       lo_PauseLifecycleRevision := ct_PauseLifecycleRevision tr, lo_CaptureID := ct_CaptureID tr,
       lo_CheckpointID := ct_CheckpointID tr, lo_ErrorCode := ct_ErrorCode tr,
       lo_ErrorMessage := take 300 (ct_ErrorMessage tr)\<rparr>"

text \<open>The trigger \<open>checkpoint_gc_block_operation_update\<close> runs before the update of a matching row.\<close>

definition Store_TransitionContinuityOperation ::
  "string \<Rightarrow> ContinuityTransition \<Rightarrow> store \<Rightarrow> store \<times> (goerr + unit)" where
  "Store_TransitionContinuityOperation sid tr s =
     (if \<not> validContinuityTransition (ct_From tr) (ct_To tr)
      then (s, Inl (E (''invalid continuity operation transition '' @ ct_From tr @ '' -> '' @ ct_To tr)))
      else (case map_of (st_operations s) sid of
          None \<Rightarrow> (s, Inl (E ''continuity operation transition lost its state fence''))
        | Some r \<Rightarrow>
            if lo_State r \<noteq> ct_From tr then (s, Inl (E ''continuity operation transition lost its state fence''))
            else if ct_CheckpointID tr \<noteq> [] \<and> deleting_checkpoint (ct_CheckpointID tr) s
            then (s, Inl (Sentinel ''checkpoint unavailable''))
            else (s\<lparr>st_operations := AList.update sid (apply_transition tr r) (st_operations s)\<rparr>, ok)))"

section \<open>Laws\<close>

definition operation_rank :: "string \<Rightarrow> nat" where
  "operation_rank a =
     (if a = ''pending'' then 5 else if a = ''pausing'' then 4 else if a = ''paused'' then 3
      else if a = ''capturing'' \<or> a = ''verifying'' \<or> a = ''materializing'' then 2
      else if a = ''recovery_required'' then 1 else 0)"

lemma transition_descends:
  assumes "validContinuityTransition a b"
  shows "operation_rank b < operation_rank a \<and> b \<in> {''pausing'', ''paused'', ''capturing'', ''captured'', ''verifying'',
       ''materializing'', ''succeeded'', ''failed'', ''recovery_required''}"
  using assms unfolding validContinuityTransition_def if_bool_eq_disj
  by (elim disjE conjE) (simp_all add: operation_rank_def)

interpretation operation_states: fenced_states validContinuityTransition operation_rank
  by unfold_locales (simp add: transition_descends)

abbreviation put_operation :: "LocalContinuityOperation \<Rightarrow> store \<Rightarrow> store \<times> (goerr + unit)" where
  "put_operation \<equiv> Store_PutContinuityOperation (\<lambda>s. s)"

lemma operation_fresh_fields [simp]:
  "lo_ID (operation_fresh v) = lo_ID v" "lo_Kind (operation_fresh v) = lo_Kind v"
  "lo_Identity (operation_fresh v) = lo_Identity v" "lo_RequestDigest (operation_fresh v) = lo_RequestDigest v"
  "lo_State (operation_fresh v) = ''pending''" "lo_Deadline (operation_fresh v) = lo_Deadline v"
  by (simp_all add: operation_fresh_def)

lemma operation_same_fresh [simp]: "operation_same (operation_fresh v) v"
  by (simp add: operation_same_def Identity_Equal_iff)

lemmas put_operation_cases = Store_PutContinuityOperation_def Store_ContinuityOperation_def Let_def

interpretation operation_fence: insert_or_verify put_operation "\<lambda>s k. Store_ContinuityOperation k s" lo_ID operation_same
  by unfold_locales (auto simp: put_operation_cases split: if_splits option.splits)

lemma operation_transition_ok_iff:
  "Store_TransitionContinuityOperation sid tr s = (t, ok) \<longleftrightarrow>
     validContinuityTransition (ct_From tr) (ct_To tr) \<and>
     (\<exists>r. map_of (st_operations s) sid = Some r \<and> lo_State r = ct_From tr \<and>
        (ct_CheckpointID tr = [] \<or> \<not> deleting_checkpoint (ct_CheckpointID tr) s) \<and>
        t = s\<lparr>st_operations := AList.update sid (apply_transition tr r) (st_operations s)\<rparr>)"
  unfolding Store_TransitionContinuityOperation_def by (auto split: option.splits)

lemma operation_transition_failed:
  "Store_TransitionContinuityOperation sid tr s = (t, Inl e) \<Longrightarrow> t = s"
  unfolding Store_TransitionContinuityOperation_def by (auto split: option.splits if_splits)

lemma apply_transition_same: "operation_same r v \<Longrightarrow> operation_same (apply_transition tr r) v"
  by (simp add: operation_same_def apply_transition_def)

lemma apply_transition_fields [simp]:
  "lo_ID (apply_transition tr r) = lo_ID r" "lo_Deadline (apply_transition tr r) = lo_Deadline r"
  "lo_State (apply_transition tr r) = ct_To tr" "lo_Identity (apply_transition tr r) = lo_Identity r"
  "lo_Kind (apply_transition tr r) = lo_Kind r"
  "lo_ErrorMessage (apply_transition tr r) = take 300 (ct_ErrorMessage tr)"
  by (simp_all add: apply_transition_def)

lemma operation_checks_transition:
  "operation_checks r \<Longrightarrow> validContinuityTransition a (ct_To tr) \<Longrightarrow> operation_checks (apply_transition tr r)"
  using transition_descends [of a "ct_To tr"] by (simp add: operation_checks_def)

text \<open>Every row satisfies the constraints of its table, has a deadline and is stored under its key.\<close>

definition operation_row_ok :: "LocalContinuityOperation \<Rightarrow> bool" where
  "operation_row_ok r \<longleftrightarrow> operation_checks r \<and> \<not> isZero (lo_Deadline r) \<and> length (lo_ErrorMessage r) \<le> 300"

lemma operation_rows_put:
  assumes "all_rows operation_row_ok (st_operations s)" and "all_rows operation_row_ok (st_operations (between s))"
  shows "all_rows operation_row_ok (st_operations (fst (Store_PutContinuityOperation between v s)))"
  using assms unfolding put_operation_cases
  by (auto intro!: all_rows_update simp: operation_row_ok_def operation_fresh_def split: option.splits)

lemma operation_rows_transition:
  assumes "all_rows operation_row_ok (st_operations s)"
  shows "all_rows operation_row_ok (st_operations (fst (Store_TransitionContinuityOperation sid tr s)))"
proof (cases "snd (Store_TransitionContinuityOperation sid tr s)")
  case (Inl e)
  then have "fst (Store_TransitionContinuityOperation sid tr s) = s"
    by (metis operation_transition_failed prod.collapse)
  with assms show ?thesis by simp
next
  case (Inr u)
  then have "Store_TransitionContinuityOperation sid tr s = (fst (Store_TransitionContinuityOperation sid tr s), ok)"
    by (metis (full_types) prod.collapse unit.exhaust)
  from iffD1 [OF operation_transition_ok_iff this] obtain r where r:
    "validContinuityTransition (ct_From tr) (ct_To tr)" "map_of (st_operations s) sid = Some r"
    "fst (Store_TransitionContinuityOperation sid tr s) =
       s\<lparr>st_operations := AList.update sid (apply_transition tr r) (st_operations s)\<rparr>" by blast
  from all_rows_row [OF assms r(2)] have "operation_row_ok (apply_transition tr r)"
    by (simp add: operation_row_ok_def operation_checks_transition [OF _ r(1)])
  with r(3) assms show ?thesis by (simp add: all_rows_update)
qed

section \<open>Histories\<close>

text \<open>A sequence of transition requests on one operation, refused ones included, and the states it enters.\<close>

fun run_transitions :: "string \<Rightarrow> ContinuityTransition list \<Rightarrow> store \<Rightarrow> store \<times> string list" where
  "run_transitions sid [] s = (s, [])"
| "run_transitions sid (tr # trs) s =
     (let (t, r) = Store_TransitionContinuityOperation sid tr s;
          (u, entered) = run_transitions sid trs t
      in (u, if accepted r then ct_To tr # entered else entered))"

lemma run_transitions_history:
  assumes "map_of (st_operations s) sid = Some r" and "run_transitions sid trs s = (u, entered)"
  shows "history validContinuityTransition (lo_State r) entered \<and>
    (\<exists>q. map_of (st_operations u) sid = Some q \<and> lo_State q = last (lo_State r # entered) \<and>
       operation_same q r \<and> lo_Deadline q = lo_Deadline r)"
  using assms
proof (induction trs arbitrary: s r u entered)
  case Nil
  then show ?case by (simp add: operation_same_def Identity_Equal_iff)
next
  case (Cons tr trs)
  obtain t x where step: "Store_TransitionContinuityOperation sid tr s = (t, x)" by fastforce
  obtain rest where rest: "run_transitions sid trs t = (u, rest)"
      "entered = (if accepted x then ct_To tr # rest else rest)"
    using Cons.prems(2) step by (auto split: prod.splits)
  show ?case
  proof (cases x)
    case (Inl e)
    with step operation_transition_failed have "t = s" by blast
    with Cons.IH [OF _ rest(1), of r] Cons.prems(1) rest(2) Inl show ?thesis by simp
  next
    case (Inr n)
    with step have "Store_TransitionContinuityOperation sid tr s = (t, ok)" by simp
    with Cons.prems(1) have v: "validContinuityTransition (lo_State r) (ct_To tr)"
      and t: "map_of (st_operations t) sid = Some (apply_transition tr r)"
      by (auto simp: operation_transition_ok_iff)
    from Cons.IH [OF t rest(1)] v rest(2) Inr show ?thesis
      by (auto simp: operation_same_def Identity_Equal_iff apply_transition_def)
  qed
qed

lemma operation_rank_le: "operation_rank a \<le> 5"
  by (simp add: operation_rank_def)

end
