(* ===== verification/Store_Checkpoints.thy ===== *)
theory Store_Checkpoints
  imports Store_Operations
begin

text \<open>
  Captures and checkpoints in the store (\<open>internal/state/store.go\<close>): the quota of a sandbox, the acceptance
  of a checkpoint as the current one of its Work, and the retention. Sums are those of \<open>SUM\<close> over an
  \<open>INTEGER\<close> column, which fails when it leaves 64 bits; the additions the Go code does itself wrap around.
  A method that reads before its transaction takes \<open>between\<close>, as in the other theories of the store; a
  transaction that fails is rolled back.
\<close>

section \<open>Policies\<close>

definition day :: int where "day = seconds (24 * 3600)"

definition checkpointPolicy :: "string \<Rightarrow> store \<Rightarrow> CheckpointPolicy" where
  "checkpointPolicy sandboxID s =
     (case map_of (st_policies s) sandboxID of
        None \<Rightarrow> \<lparr>cp_MaxBytes = 2 ^ 30, cp_MaxPerBox = 20, cp_MaxAge = 30 * day\<rparr>
      | Some p \<Rightarrow> p)"

text \<open>The row holds the age in whole seconds; the table refuses an age of less than one second.\<close>

definition Store_SetCheckpointPolicy :: "string \<Rightarrow> CheckpointPolicy \<Rightarrow> store \<Rightarrow> store \<times> (goerr + unit)" where
  "Store_SetCheckpointPolicy sandboxID policy s =
     (if cp_MaxBytes policy \<le> 0 \<or> cp_MaxPerBox policy \<le> 0 \<or> cp_MaxAge policy \<le> 0
      then (s, Inl (E ''checkpoint policy limits must be positive''))
      else if \<not> cp_MaxAge policy div seconds 1 > 0 then (s, Inl constraint)
      else (s\<lparr>st_policies := AList.update sandboxID
               (policy\<lparr>cp_MaxAge := seconds (cp_MaxAge policy div seconds 1)\<rparr>) (st_policies s)\<rparr>, ok))"

section \<open>Captures\<close>

definition sum_int64 :: "int list \<Rightarrow> goerr + int" where
  "sum_int64 xs = (if in64 (sum_list xs) then Inr (sum_list xs) else Inl (Sentinel ''integer overflow''))"

definition captures_of :: "string \<Rightarrow> store \<Rightarrow> LocalContinuityCapture list" where
  "captures_of sandboxID s = filter (\<lambda>c. ci_SandboxID (lc_Identity c) = sandboxID) (rows (st_captures s))"

definition Store_CheckpointBudget :: "string \<Rightarrow> store \<Rightarrow> goerr + int" where
  "Store_CheckpointBudget sandboxID s =
     bindE (sum_int64 (map lc_Bytes (captures_of sandboxID s))) (\<lambda>used.
       let remaining = wrap64 (cp_MaxBytes (checkpointPolicy sandboxID s) - used) in
       Inr (if remaining < 0 then 0 else remaining))"

definition Store_ContinuityCapture :: "string \<Rightarrow> store \<Rightarrow> LocalContinuityCapture option" where
  "Store_ContinuityCapture sid s = map_of (st_captures s) sid"

definition capture_checks :: "LocalContinuityCapture \<Rightarrow> store \<Rightarrow> bool" where
  "capture_checks v s \<longleftrightarrow>
     lc_Bytes v \<ge> 0 \<and> lc_ObjectCount v \<ge> 0 \<and>
     task_check (ci_TaskID (lc_Identity v)) (ci_TaskAttempt (lc_Identity v)) \<and>
     map_of (st_captures s) (lc_ID v) = None \<and>
     list_all (\<lambda>c. lc_ObjectID c \<noteq> lc_ObjectID v) (rows (st_captures s))"

definition capture_same :: "LocalContinuityCapture \<Rightarrow> LocalContinuityCapture \<Rightarrow> bool" where
  "capture_same existing v \<longleftrightarrow>
     Identity_Equal (lc_Identity existing) (lc_Identity v) \<and> lc_ObjectID existing = lc_ObjectID v \<and>
     lc_ManifestDigest existing = lc_ManifestDigest v \<and> lc_Bytes existing = lc_Bytes v \<and>
     lc_ObjectCount existing = lc_ObjectCount v \<and> lc_Verified existing = lc_Verified v"

definition capture_collected :: "LocalContinuityCapture \<Rightarrow> store \<Rightarrow> bool" where
  "capture_collected v s \<longleftrightarrow>
     list_ex (\<lambda>(k, t). k = lc_ID v \<or> tb_ObjectID t = lc_ObjectID v \<or> tb_ManifestDigest t = lc_ManifestDigest v)
       (st_tombstones s)"

text \<open>The transaction that inserts a capture.\<close>

definition insert_capture :: "LocalContinuityCapture \<Rightarrow> store \<Rightarrow> store \<times> (goerr + unit)" where
  "insert_capture v s =
     (if capture_collected v s then (s, Inl (Sentinel ''ErrCheckpointUnavailable''))
      else
        let policy = checkpointPolicy (ci_SandboxID (lc_Identity v)) s in
        (case sum_int64 (map lc_Bytes (captures_of (ci_SandboxID (lc_Identity v)) s)) of
           Inl e \<Rightarrow> (s, Inl e)
         | Inr used \<Rightarrow>
             if wrap64 (used + lc_Bytes v) > cp_MaxBytes policy then (s, Inl (Sentinel ''ErrCheckpointQuota''))
             else if \<not> capture_checks v s then (s, Inl constraint)
             else (s\<lparr>st_captures := AList.update (lc_ID v) v (st_captures s)\<rparr>, ok)))"

definition Store_PutContinuityCapture ::
  "gotime \<Rightarrow> (store \<Rightarrow> store) \<Rightarrow> LocalContinuityCapture \<Rightarrow> store \<Rightarrow> store \<times> (goerr + unit)" where
  "Store_PutContinuityCapture now between v s =
     (let v = (if isZero (lc_CreatedAt v) then v\<lparr>lc_CreatedAt := now\<rparr> else v) in
      case Store_ContinuityCapture (lc_ID v) s of
        Some existing \<Rightarrow>
          if \<not> capture_same existing v
          then (s, Inl (E ''continuity capture ID conflicts with different immutable content''))
          else (s, ok)
      | None \<Rightarrow> insert_capture v (between s))"

section \<open>Checkpoints\<close>

definition Store_Checkpoint :: "string \<Rightarrow> store \<Rightarrow> LocalCheckpoint option" where
  "Store_Checkpoint sid s = map_of (st_checkpoints s) sid"

definition Store_AcceptedCheckpoint :: "string \<Rightarrow> store \<Rightarrow> LocalCheckpoint option" where
  "Store_AcceptedCheckpoint workID s =
     (case map_of (st_pointers s) workID of None \<Rightarrow> None | Some cid \<Rightarrow> map_of (st_checkpoints s) cid)"

definition Store_CheckpointsForWork :: "string \<Rightarrow> store \<Rightarrow> LocalCheckpoint list" where
  "Store_CheckpointsForWork workID s =
     order_by (\<lambda>a b. text_less (formatNano (lk_CreatedAt a)) (formatNano (lk_CreatedAt b)) \<or>
                     formatNano (lk_CreatedAt a) = formatNano (lk_CreatedAt b) \<and> text_less (lk_ID a) (lk_ID b))
       (filter (\<lambda>c. ci_WorkID (lk_Identity c) = workID) (rows (st_checkpoints s)))"

definition checkpoints_of :: "string \<Rightarrow> store \<Rightarrow> LocalCheckpoint list" where
  "checkpoints_of sandboxID s = filter (\<lambda>c. ci_SandboxID (lk_Identity c) = sandboxID) (rows (st_checkpoints s))"

text \<open>A checkpoint that has been collected, or is being collected.\<close>

definition checkpoint_collected :: "LocalCheckpoint \<Rightarrow> store \<Rightarrow> bool" where
  "checkpoint_collected v s \<longleftrightarrow>
     list_ex (\<lambda>(k, t). tb_CheckpointID t = Some (lk_ID v) \<or> k = lk_CaptureID v \<or> tb_ManifestDigest t = lk_ManifestDigest v)
       (st_tombstones s) \<or>
     list_ex (\<lambda>g. gi_Phase g = ''deleting'' \<and>
         (gi_CheckpointID g \<noteq> [] \<and> gi_CheckpointID g = lk_ID v \<or> gi_CaptureID g = lk_CaptureID v \<or>
          gi_ManifestDigest g = lk_ManifestDigest v)) (rows (st_intents s))"

text \<open>\<open>INSERT INTO work_checkpoint_pointers ... ON CONFLICT(work_id) DO UPDATE\<close>, with the two triggers.\<close>

definition point_to :: "string \<Rightarrow> string \<Rightarrow> store \<Rightarrow> store \<times> (goerr + unit)" where
  "point_to workID cid s =
     (if list_ex (\<lambda>g. gi_Phase g = ''deleting'' \<and> gi_CheckpointID g \<noteq> [] \<and> gi_CheckpointID g = cid) (rows (st_intents s)) \<or>
         list_ex (\<lambda>t. tb_CheckpointID t = Some cid) (rows (st_tombstones s))
      then (s, Inl (Sentinel ''checkpoint unavailable''))
      else (s\<lparr>st_pointers := AList.update workID cid (st_pointers s)\<rparr>, ok))"

definition checkpoint_checks :: "LocalCheckpoint \<Rightarrow> store \<Rightarrow> bool" where
  "checkpoint_checks v s \<longleftrightarrow>
     lk_Bytes v \<ge> 0 \<and> lk_ObjectCount v \<ge> 0 \<and>
     task_check (ci_TaskID (lk_Identity v)) (ci_TaskAttempt (lk_Identity v)) \<and>
     list_all (\<lambda>c. lk_CaptureID c \<noteq> lk_CaptureID v) (rows (st_checkpoints s))"

definition checkpoint_same :: "LocalCheckpoint \<Rightarrow> LocalCheckpoint \<Rightarrow> bool" where
  "checkpoint_same existing v \<longleftrightarrow>
     lk_CaptureID existing = lk_CaptureID v \<and> Identity_Equal (lk_Identity existing) (lk_Identity v) \<and>
     lk_ManifestDigest existing = lk_ManifestDigest v \<and> lk_Bytes existing = lk_Bytes v \<and>
     lk_ObjectCount existing = lk_ObjectCount v"

definition matches_capture :: "LocalContinuityCapture \<Rightarrow> LocalCheckpoint \<Rightarrow> bool" where
  "matches_capture c v \<longleftrightarrow>
     lc_Verified c \<and> Identity_Equal (lc_Identity c) (lk_Identity v) \<and> lc_ManifestDigest c = lk_ManifestDigest v \<and>
     lc_Bytes c = lk_Bytes v \<and> lc_ObjectCount c = lk_ObjectCount v"

text \<open>The body of the transaction; it fails without effect, and the failure of the last statement is rolled back.\<close>

definition insert_checkpoint :: "LocalCheckpoint \<Rightarrow> store \<Rightarrow> store \<times> (goerr + unit)" where
  "insert_checkpoint v s =
     (let sandboxID = ci_SandboxID (lk_Identity v); policy = checkpointPolicy sandboxID s in
      case sum_int64 (map lk_Bytes (checkpoints_of sandboxID s)) of
        Inl e \<Rightarrow> (s, Inl e)
      | Inr used \<Rightarrow>
          if wrap64 (used + lk_Bytes v) > cp_MaxBytes policy then (s, Inl (Sentinel ''ErrCheckpointQuota''))
          else if int (length (checkpoints_of sandboxID s)) \<ge> cp_MaxPerBox policy
          then (s, Inl (Sentinel ''ErrCheckpointQuota''))
          else if \<not> checkpoint_checks v s then (s, Inl constraint)
          else
            (case point_to (ci_WorkID (lk_Identity v)) (lk_ID v)
                (s\<lparr>st_checkpoints := AList.update (lk_ID v) v (st_checkpoints s)\<rparr>) of
               (_, Inl e) \<Rightarrow> (s, Inl e)
             | (t, Inr _) \<Rightarrow> (t, ok)))"

definition Store_AcceptCheckpoint :: "gotime \<Rightarrow> LocalCheckpoint \<Rightarrow> store \<Rightarrow> store \<times> (goerr + unit)" where
  "Store_AcceptCheckpoint now v s =
     (let v = (if isZero (lk_CreatedAt v) then v\<lparr>lk_CreatedAt := now\<rparr> else v) in
      if checkpoint_collected v s then (s, Inl (Sentinel ''ErrCheckpointUnavailable''))
      else (case map_of (st_captures s) (lk_CaptureID v) of
          None \<Rightarrow> (s, Inl (E ''continuity capture does not exist''))
        | Some capture \<Rightarrow>
            if \<not> matches_capture capture v
            then (s, Inl (E ''checkpoint does not match a verified durable capture''))
            else (case map_of (st_checkpoints s) (lk_ID v) of
                Some existing \<Rightarrow>
                  if \<not> checkpoint_same existing v
                  then (s, Inl (E ''checkpoint ID conflicts with different immutable content''))
                  else point_to (ci_WorkID (lk_Identity v)) (lk_ID v) s
              | None \<Rightarrow> insert_checkpoint v s)))"

section \<open>Retention\<close>

text \<open>\<open>ORDER BY work_id, created_at DESC, id DESC\<close>\<close>

definition retention_before :: "LocalCheckpoint \<Rightarrow> LocalCheckpoint \<Rightarrow> bool" where
  "retention_before a b \<longleftrightarrow>
     (let wa = ci_WorkID (lk_Identity a); wb = ci_WorkID (lk_Identity b);
          ca = formatNano (lk_CreatedAt a); cb = formatNano (lk_CreatedAt b) in
      text_less wa wb \<or> wa = wb \<and> (text_less cb ca \<or> ca = cb \<and> text_less (lk_ID b) (lk_ID a)))"

text \<open>The pointers are read into a Go map, where a missing Work reads as the empty string.\<close>

definition protected :: "string tbl \<Rightarrow> LocalCheckpoint \<Rightarrow> bool" where
  "protected pointers c \<longleftrightarrow>
     lk_Pinned c \<or>
     (case map_of pointers (ci_WorkID (lk_Identity c)) of None \<Rightarrow> [] | Some cid \<Rightarrow> cid) = lk_ID c"

text \<open>\<open>DELETE FROM checkpoints WHERE id = ?\<close>: refused while a pointer references the row.\<close>

definition delete_checkpoint :: "string \<Rightarrow> store \<Rightarrow> store \<times> (goerr + unit)" where
  "delete_checkpoint cid s =
     (if map_of (st_checkpoints s) cid \<noteq> None \<and> list_ex (\<lambda>p. p = cid) (rows (st_pointers s)) then (s, Inl constraint)
      else (s\<lparr>st_checkpoints := AList.delete cid (st_checkpoints s)\<rparr>, ok))"

text \<open>\<open>DELETE FROM continuity_captures WHERE id = ?\<close>: refused while a checkpoint references the row.\<close>

definition delete_capture :: "string \<Rightarrow> store \<Rightarrow> store \<times> (goerr + unit)" where
  "delete_capture cid s =
     (if map_of (st_captures s) cid \<noteq> None \<and> list_ex (\<lambda>c. lk_CaptureID c = cid) (rows (st_checkpoints s))
      then (s, Inl constraint)
      else (s\<lparr>st_captures := AList.delete cid (st_captures s)\<rparr>, ok))"

fun retention_loop ::
  "(LocalCheckpoint \<Rightarrow> bool) \<Rightarrow> gotime \<Rightarrow> int \<Rightarrow> LocalCheckpoint list \<Rightarrow> LocalCheckpoint list \<Rightarrow>
     store \<Rightarrow> store \<times> (goerr + LocalCheckpoint list)" where
  "retention_loop prot cutoff remaining removed [] s = (s, Inr removed)"
| "retention_loop prot cutoff remaining removed (c # cs) s =
     (if prot c then retention_loop prot cutoff remaining removed cs s
      else if remaining > 0 \<and> \<not> lk_CreatedAt c < cutoff
      then retention_loop prot cutoff (remaining - 1) removed cs s
      else
        (case delete_checkpoint (lk_ID c) s of
           (t, Inl e) \<Rightarrow> (t, Inl e)
         | (t, Inr _) \<Rightarrow>
             (case delete_capture (lk_CaptureID c) t of
                (u, Inl e) \<Rightarrow> (u, Inl e)
              | (u, Inr _) \<Rightarrow> retention_loop prot cutoff remaining (removed @ [c]) cs u)))"

definition Store_ApplyCheckpointRetention ::
  "string \<Rightarrow> gotime \<Rightarrow> store \<Rightarrow> store \<times> (goerr + LocalCheckpoint list)" where
  "Store_ApplyCheckpointRetention sandboxID now s =
     (let policy = checkpointPolicy sandboxID s;
          all_of = order_by retention_before (checkpoints_of sandboxID s);
          prot = protected (st_pointers s);
          cutoff = now - cp_MaxAge policy;
          protectedCount = int (length (filter prot all_of));
          remaining = wrap64 (cp_MaxPerBox policy - protectedCount)
      in retention_loop prot cutoff remaining [] all_of s)"

end
