(* ===== verification/Store_Checkpoint_Laws.thy ===== *)
theory Store_Checkpoint_Laws
  imports Store_Checkpoints
begin

text \<open>
  The laws of captures and checkpoints. \<open>checkpoint_refs\<close> is the integrity of the tables: every
  checkpoint is backed by its own verified capture, every pointer of a Work by a checkpoint of that Work.
  Shown: every operation keeps it; insertions respect the quota and the budget is exact; the retention
  never fails, never removes what is protected, and leaves at most the allowed number.
\<close>

section \<open>Integrity\<close>

definition backed :: "store \<Rightarrow> bool" where
  "backed s \<longleftrightarrow> (\<forall>i k. map_of (st_checkpoints s) i = Some k \<longrightarrow>
     (\<exists>c. map_of (st_captures s) (lk_CaptureID k) = Some c \<and> matches_capture c k))"

definition own_capture :: "store \<Rightarrow> bool" where
  "own_capture s \<longleftrightarrow> (\<forall>i j k l. map_of (st_checkpoints s) i = Some k \<longrightarrow> map_of (st_checkpoints s) j = Some l \<longrightarrow>
     lk_CaptureID k = lk_CaptureID l \<longrightarrow> i = j)"

definition pointed :: "store \<Rightarrow> bool" where
  "pointed s \<longleftrightarrow> (\<forall>w i. map_of (st_pointers s) w = Some i \<longrightarrow>
     (\<exists>k. map_of (st_checkpoints s) i = Some k \<and> ci_WorkID (lk_Identity k) = w))"

definition checkpoint_refs :: "store \<Rightarrow> bool" where
  "checkpoint_refs s \<longleftrightarrow>
     keyed_by lc_ID (st_captures s) \<and> keyed_by lk_ID (st_checkpoints s) \<and> wf_tbl (st_pointers s) \<and>
     all_rows (\<lambda>c. lc_Bytes c \<ge> 0) (st_captures s) \<and> backed s \<and> own_capture s \<and> pointed s"

lemma checkpoint_refs_empty: "checkpoint_refs empty_store"
  by (simp add: checkpoint_refs_def empty_store_def keyed_by_def wf_tbl_def backed_def own_capture_def pointed_def)

lemma matches_bytes: "matches_capture c k \<Longrightarrow> lc_Bytes c = lk_Bytes k"
  by (simp add: matches_capture_def)

subsection \<open>Captures\<close>

lemma insert_capture_ok_iff:
  "insert_capture v s = (t, ok) \<longleftrightarrow>
     \<not> capture_collected v s \<and>
     in64 (sum_list (map lc_Bytes (captures_of (ci_SandboxID (lc_Identity v)) s))) \<and>
     wrap64 (sum_list (map lc_Bytes (captures_of (ci_SandboxID (lc_Identity v)) s)) + lc_Bytes v) \<le>
       cp_MaxBytes (checkpointPolicy (ci_SandboxID (lc_Identity v)) s) \<and>
     capture_checks v s \<and> t = s\<lparr>st_captures := AList.update (lc_ID v) v (st_captures s)\<rparr>"
  by (auto simp: insert_capture_def Let_def sum_int64_def)

lemma insert_capture_failed: "insert_capture v s = (t, Inl e) \<Longrightarrow> t = s"
  by (auto simp: insert_capture_def Let_def sum_int64_def split: if_splits)

lemma checkpoint_refs_add_capture:
  assumes "checkpoint_refs s" and "map_of (st_captures s) (lc_ID v) = None" and "lc_Bytes v \<ge> 0"
  shows "checkpoint_refs (s\<lparr>st_captures := AList.update (lc_ID v) v (st_captures s)\<rparr>)"
proof -
  have "backed (s\<lparr>st_captures := AList.update (lc_ID v) v (st_captures s)\<rparr>)"
    using assms(1,2) unfolding checkpoint_refs_def backed_def by (simp, metis option.distinct(1))
  with assms show ?thesis
    by (simp add: checkpoint_refs_def keyed_update all_rows_update own_capture_def pointed_def)
qed

lemma checkpoint_refs_put_capture:
  assumes "checkpoint_refs s" and "checkpoint_refs (between s)"
  shows "checkpoint_refs (fst (Store_PutContinuityCapture now between v s))"
proof -
  have "checkpoint_refs (fst (insert_capture w (between s)))" for w
  proof (cases "snd (insert_capture w (between s))")
    case (Inl e)
    then have "fst (insert_capture w (between s)) = between s"
      by (metis insert_capture_failed prod.collapse)
    with assms show ?thesis by simp
  next
    case (Inr u)
    then have "insert_capture w (between s) = (fst (insert_capture w (between s)), ok)" by (simp add: prod_eq_iff)
    then show ?thesis
      unfolding insert_capture_ok_iff
      by (auto simp: capture_checks_def intro: checkpoint_refs_add_capture [OF assms(2)])
  qed
  with assms(1) show ?thesis
    by (simp add: Store_PutContinuityCapture_def Let_def split: option.split)
qed

text \<open>An undisturbed insertion either verifies the stored capture or runs the transaction.\<close>

abbreviation put_capture :: "gotime \<Rightarrow> LocalContinuityCapture \<Rightarrow> store \<Rightarrow> store \<times> (goerr + unit)" where
  "put_capture now \<equiv> Store_PutContinuityCapture now (\<lambda>s. s)"

lemma capture_same_refl [simp]: "capture_same v v"
  by (simp add: capture_same_def Identity_Equal_iff)

lemma capture_same_time [simp]: "capture_same (v\<lparr>lc_CreatedAt := n\<rparr>) w = capture_same v w"
  "capture_same v (w\<lparr>lc_CreatedAt := n\<rparr>) = capture_same v w"
  by (simp_all add: capture_same_def)

definition stamped :: "gotime \<Rightarrow> LocalContinuityCapture \<Rightarrow> LocalContinuityCapture" where
  "stamped now v = (if isZero (lc_CreatedAt v) then v\<lparr>lc_CreatedAt := now\<rparr> else v)"

lemma stamped_fields [simp]:
  "lc_ID (stamped now v) = lc_ID v" "lc_Identity (stamped now v) = lc_Identity v"
  "lc_Bytes (stamped now v) = lc_Bytes v" "lc_ObjectID (stamped now v) = lc_ObjectID v"
  "lc_ObjectCount (stamped now v) = lc_ObjectCount v" "lc_ManifestDigest (stamped now v) = lc_ManifestDigest v"
  "capture_same (stamped now v) w = capture_same v w" "capture_same w (stamped now v) = capture_same w v"
  by (simp_all add: stamped_def)

lemma put_capture_eq:
  "Store_PutContinuityCapture now between v s =
     (case map_of (st_captures s) (lc_ID v) of
        Some existing \<Rightarrow>
          if capture_same existing v then (s, ok)
          else (s, Inl (E ''continuity capture ID conflicts with different immutable content''))
      | None \<Rightarrow> insert_capture (stamped now v) (between s))"
  by (simp add: Store_PutContinuityCapture_def Store_ContinuityCapture_def Let_def stamped_def split: option.split)

lemma insert_capture_cases:
  obtains (stored) "insert_capture v s = (s\<lparr>st_captures := AList.update (lc_ID v) v (st_captures s)\<rparr>, ok)"
    and "capture_checks v s"
  | (refused) e where "insert_capture v s = (s, Inl e)"
proof (cases "snd (insert_capture v s)")
  case (Inl e)
  then have "insert_capture v s = (s, Inl e)"
    by (metis insert_capture_failed prod.collapse)
  then show ?thesis by (rule refused)
next
  case (Inr u)
  then have "insert_capture v s = (fst (insert_capture v s), ok)" by (simp add: prod_eq_iff)
  from iffD1 [OF insert_capture_ok_iff this] this stored show ?thesis by metis
qed

interpretation capture_fence: insert_or_verify "put_capture now" "\<lambda>s k. Store_ContinuityCapture k s" lc_ID capture_same
  for now :: gotime
proof unfold_locales
  fix r q x :: LocalContinuityCapture and s t u :: store and e :: goerr and k :: string
  show "put_capture now r s = (t, Inl e) \<Longrightarrow> t = s"
    by (cases "stamped now r" s rule: insert_capture_cases)
      (auto simp: put_capture_eq split: option.splits if_splits)
  show "put_capture now r s = (t, ok) \<Longrightarrow> \<exists>x. Store_ContinuityCapture (lc_ID r) t = Some x \<and> capture_same x r"
    by (cases "stamped now r" s rule: insert_capture_cases)
      (auto simp: put_capture_eq Store_ContinuityCapture_def split: option.splits if_splits)
  show "Store_ContinuityCapture (lc_ID r) s = Some x \<Longrightarrow> fst (put_capture now r s) = s"
    by (simp add: put_capture_eq Store_ContinuityCapture_def)
  show "Store_ContinuityCapture (lc_ID r) s = Some x \<Longrightarrow> \<not> capture_same x r \<Longrightarrow> \<not> accepted (snd (put_capture now r s))"
    by (simp add: put_capture_eq Store_ContinuityCapture_def)
  show "put_capture now r s = (t, ok) \<Longrightarrow> Store_ContinuityCapture (lc_ID r) u = Some x \<Longrightarrow> capture_same x r \<Longrightarrow>
      put_capture now r u = (u, ok)"
    by (simp add: put_capture_eq Store_ContinuityCapture_def)
  show "k \<noteq> lc_ID r \<Longrightarrow> Store_ContinuityCapture k (fst (put_capture now r s)) = Store_ContinuityCapture k s"
    by (cases "stamped now r" s rule: insert_capture_cases)
      (auto simp: put_capture_eq Store_ContinuityCapture_def split: option.splits)
qed

subsection \<open>The quota\<close>

definition used_bytes :: "string \<Rightarrow> store \<Rightarrow> int" where
  "used_bytes sandboxID s = sum_list (map lc_Bytes (captures_of sandboxID s))"

lemma used_bytes_add:
  assumes "map_of (st_captures s) (lc_ID v) = None"
  shows "used_bytes sandboxID (s\<lparr>st_captures := AList.update (lc_ID v) v (st_captures s)\<rparr>) =
    used_bytes sandboxID s + (if ci_SandboxID (lc_Identity v) = sandboxID then lc_Bytes v else 0)"
  using assms by (simp add: used_bytes_def captures_of_def rows_update_fresh)

lemma used_bytes_nonneg: "checkpoint_refs s \<Longrightarrow> used_bytes sandboxID s \<ge> 0"
  unfolding used_bytes_def captures_of_def
  by (rule sum_list_nonneg) (auto simp: checkpoint_refs_def keyed_by_def all_rows_def in_rows_iff)

lemma policy_other_tables [simp]:
  "checkpointPolicy x (s\<lparr>st_captures := a\<rparr>) = checkpointPolicy x s"
  "checkpointPolicy x (s\<lparr>st_checkpoints := b\<rparr>) = checkpointPolicy x s"
  "checkpointPolicy x (s\<lparr>st_pointers := c\<rparr>) = checkpointPolicy x s"
  by (simp_all add: checkpointPolicy_def)

text \<open>
  A new capture that the tables admit is stored exactly when it fits in what \<open>CheckpointBudget\<close> reports, as long
  as the sum of its size and the quota does not leave 64 bits.
\<close>

lemma put_capture_budget:
  assumes refs: "checkpoint_refs s" and new: "capture_checks v s" and held: "\<not> capture_collected (stamped now v) s"
    and budget: "Store_CheckpointBudget (ci_SandboxID (lc_Identity v)) s = Inr b"
    and pos: "0 < cp_MaxBytes (checkpointPolicy (ci_SandboxID (lc_Identity v)) s)"
    and bound: "used_bytes (ci_SandboxID (lc_Identity v)) s + lc_Bytes v \<le> max64"
      "cp_MaxBytes (checkpointPolicy (ci_SandboxID (lc_Identity v)) s) \<le> max64"
    and size: "lc_Bytes v > 0"
  shows "snd (put_capture now v s) = ok \<longleftrightarrow> lc_Bytes v \<le> b"
proof -
  let ?sid = "ci_SandboxID (lc_Identity v)"
  let ?used = "used_bytes ?sid s" and ?max = "cp_MaxBytes (checkpointPolicy ?sid s)"
  have nonneg: "?used \<ge> 0" by (rule used_bytes_nonneg [OF refs])
  with bound size have "in64 ?used" "in64 (?used + lc_Bytes v)"
    by (auto simp: in64_def min64_def max64_def)
  moreover have "in64 (?max - ?used)" using nonneg bound size pos
    by (auto simp: in64_def min64_def max64_def)
  ultimately have b: "b = max 0 (?max - ?used)" and
    w: "wrap64 (?used + lc_Bytes v) = ?used + lc_Bytes v" and i: "in64 ?used"
    using budget by (auto simp: Store_CheckpointBudget_def sum_int64_def used_bytes_def wrap64_id Let_def split: if_splits)
  have none: "map_of (st_captures s) (lc_ID v) = None" using new by (simp add: capture_checks_def)
  have "capture_checks (stamped now v) s" using new by (simp add: capture_checks_def)
  then have "snd (put_capture now v s) = ok \<longleftrightarrow> ?used + lc_Bytes v \<le> ?max"
    using held w i none by (auto simp: put_capture_eq insert_capture_def sum_int64_def Let_def used_bytes_def)
  with b size show ?thesis by auto
qed

text \<open>After an insertion the sandbox is within its quota.\<close>

lemma insert_capture_quota:
  assumes refs: "checkpoint_refs s" and stored: "insert_capture v s = (t, ok)"
    and bound: "used_bytes (ci_SandboxID (lc_Identity v)) s + lc_Bytes v \<le> max64"
  shows "used_bytes (ci_SandboxID (lc_Identity v)) t \<le> cp_MaxBytes (checkpointPolicy (ci_SandboxID (lc_Identity v)) t)"
proof -
  let ?sid = "ci_SandboxID (lc_Identity v)"
  have ok: "wrap64 (used_bytes ?sid s + lc_Bytes v) \<le> cp_MaxBytes (checkpointPolicy ?sid s)" "capture_checks v s"
    and t: "t = s\<lparr>st_captures := AList.update (lc_ID v) v (st_captures s)\<rparr>"
    using stored by (auto simp: insert_capture_ok_iff used_bytes_def)
  have "in64 (used_bytes ?sid s + lc_Bytes v)"
    using used_bytes_nonneg [OF refs, of ?sid] ok(2) bound by (auto simp: in64_def min64_def capture_checks_def)
  with ok show ?thesis by (simp add: t used_bytes_add capture_checks_def wrap64_id)
qed

subsection \<open>Acceptance\<close>

lemma point_to_cases:
  obtains (moved) "point_to w c s = (s\<lparr>st_pointers := AList.update w c (st_pointers s)\<rparr>, ok)"
  | (blocked) e where "point_to w c s = (s, Inl e)"
  unfolding point_to_def by metis

lemma checkpoint_refs_point:
  assumes "checkpoint_refs s" and "map_of (st_checkpoints s) c = Some k" and "ci_WorkID (lk_Identity k) = w"
  shows "checkpoint_refs (s\<lparr>st_pointers := AList.update w c (st_pointers s)\<rparr>)"
  using assms by (auto simp: checkpoint_refs_def backed_def own_capture_def pointed_def)

lemma checkpoint_refs_add_checkpoint:
  assumes refs: "checkpoint_refs s" and new: "map_of (st_checkpoints s) (lk_ID v) = None"
    and cap: "map_of (st_captures s) (lk_CaptureID v) = Some c" "matches_capture c v"
    and chk: "checkpoint_checks v s"
  shows "checkpoint_refs (s\<lparr>st_checkpoints := AList.update (lk_ID v) v (st_checkpoints s)\<rparr>)"
proof -
  have wf: "wf_tbl (st_checkpoints s)" using refs by (simp add: checkpoint_refs_def keyed_by_def)
  have other: "lk_CaptureID k \<noteq> lk_CaptureID v" if "map_of (st_checkpoints s) i = Some k" for i k
  proof -
    have "k \<in> set (rows (st_checkpoints s))" using that by (auto simp: in_rows_iff [OF wf])
    with chk show ?thesis by (simp add: checkpoint_checks_def list_all_iff)
  qed
  have "backed (s\<lparr>st_checkpoints := AList.update (lk_ID v) v (st_checkpoints s)\<rparr>)"
    using refs cap by (simp add: checkpoint_refs_def backed_def)
  moreover have "own_capture (s\<lparr>st_checkpoints := AList.update (lk_ID v) v (st_checkpoints s)\<rparr>)"
    using refs other by (auto simp: checkpoint_refs_def own_capture_def dest: other [THEN not_sym])
  moreover have "pointed (s\<lparr>st_checkpoints := AList.update (lk_ID v) v (st_checkpoints s)\<rparr>)"
    using refs new unfolding checkpoint_refs_def pointed_def by (simp, metis option.distinct(1))
  ultimately show ?thesis using refs by (simp add: checkpoint_refs_def keyed_update)
qed

definition dated :: "gotime \<Rightarrow> LocalCheckpoint \<Rightarrow> LocalCheckpoint" where
  "dated now v = (if isZero (lk_CreatedAt v) then v\<lparr>lk_CreatedAt := now\<rparr> else v)"

lemma dated_fields [simp]:
  "lk_ID (dated now v) = lk_ID v" "lk_CaptureID (dated now v) = lk_CaptureID v" "lk_Identity (dated now v) = lk_Identity v"
  "matches_capture c (dated now v) = matches_capture c v" "checkpoint_same k (dated now v) = checkpoint_same k v"
  "checkpoint_same (dated now v) k = checkpoint_same v k" "checkpoint_checks (dated now v) s = checkpoint_checks v s"
  by (simp_all add: dated_def matches_capture_def checkpoint_same_def checkpoint_checks_def)

lemma checkpoint_same_refl [simp]: "checkpoint_same v v"
  by (simp add: checkpoint_same_def Identity_Equal_iff)

lemma matches_same: "checkpoint_same k v \<Longrightarrow> matches_capture c v \<longleftrightarrow> matches_capture c k"
  by (auto simp: checkpoint_same_def matches_capture_def Identity_Equal_iff)

text \<open>An acceptance either fails without effect, moves the pointer to the stored checkpoint, or stores it first.\<close>

lemma accept_cases:
  obtains (refused) e where "Store_AcceptCheckpoint now v s = (s, Inl e)"
  | (again) k c where "Store_AcceptCheckpoint now v s =
        (s\<lparr>st_pointers := AList.update (ci_WorkID (lk_Identity v)) (lk_ID v) (st_pointers s)\<rparr>, ok)"
      "map_of (st_checkpoints s) (lk_ID v) = Some k" "checkpoint_same k v"
      "map_of (st_captures s) (lk_CaptureID v) = Some c" "matches_capture c v"
  | (stored) c where "Store_AcceptCheckpoint now v s =
        (s\<lparr>st_checkpoints := AList.update (lk_ID v) (dated now v) (st_checkpoints s),
           st_pointers := AList.update (ci_WorkID (lk_Identity v)) (lk_ID v) (st_pointers s)\<rparr>, ok)"
      "map_of (st_checkpoints s) (lk_ID v) = None" "checkpoint_checks v s"
      "map_of (st_captures s) (lk_CaptureID v) = Some c" "matches_capture c v"
      "int (length (checkpoints_of (ci_SandboxID (lk_Identity v)) s)) <
         cp_MaxPerBox (checkpointPolicy (ci_SandboxID (lk_Identity v)) s)"
proof -
  let ?w = "ci_WorkID (lk_Identity v)" and ?d = "dated now v"
  have eq: "Store_AcceptCheckpoint now v s =
    (if checkpoint_collected ?d s then (s, Inl (Sentinel ''ErrCheckpointUnavailable''))
     else case map_of (st_captures s) (lk_CaptureID v) of
       None \<Rightarrow> (s, Inl (E ''continuity capture does not exist''))
     | Some c \<Rightarrow>
         if \<not> matches_capture c v then (s, Inl (E ''checkpoint does not match a verified durable capture''))
         else (case map_of (st_checkpoints s) (lk_ID v) of
             Some k \<Rightarrow> if \<not> checkpoint_same k v
               then (s, Inl (E ''checkpoint ID conflicts with different immutable content''))
               else point_to ?w (lk_ID v) s
           | None \<Rightarrow> insert_checkpoint ?d s))"
    unfolding Store_AcceptCheckpoint_def Let_def dated_def [symmetric] by (simp split: option.split)
  show thesis
  proof (cases "checkpoint_collected ?d s")
    case True
    with eq refused show thesis by simp
  next
    case held: False
    show thesis
    proof (cases "map_of (st_captures s) (lk_CaptureID v)")
      case None
      with eq held refused show thesis by simp
    next
      case (Some c)
      show thesis
      proof (cases "matches_capture c v")
        case False
        with eq held Some refused show thesis by simp
      next
        case m: True
        show thesis
        proof (cases "map_of (st_checkpoints s) (lk_ID v)")
          case k: (Some k)
          show thesis
            by (cases ?w "lk_ID v" s rule: point_to_cases; cases "checkpoint_same k v")
              (use eq held Some m k refused again in auto)
        next
          case n: None
          have "(\<exists>e. insert_checkpoint ?d s = (s, Inl e)) \<or>
            insert_checkpoint ?d s = (s\<lparr>st_checkpoints := AList.update (lk_ID v) ?d (st_checkpoints s),
                st_pointers := AList.update ?w (lk_ID v) (st_pointers s)\<rparr>, ok) \<and> checkpoint_checks v s \<and>
            int (length (checkpoints_of (ci_SandboxID (lk_Identity v)) s)) <
              cp_MaxPerBox (checkpointPolicy (ci_SandboxID (lk_Identity v)) s)"
            by (cases ?w "lk_ID v" "s\<lparr>st_checkpoints := AList.update (lk_ID v) ?d (st_checkpoints s)\<rparr>" rule: point_to_cases)
              (auto simp: insert_checkpoint_def Let_def sum_int64_def)
          with eq held Some m n refused stored show thesis by auto
        qed
      qed
    qed
  qed
qed

lemma checkpoint_refs_accept:
  assumes refs: "checkpoint_refs s"
  shows "checkpoint_refs (fst (Store_AcceptCheckpoint now v s))"
proof (cases now v s rule: accept_cases)
  case (refused e)
  with refs show ?thesis by simp
next
  case (again k c)
  from again(3) have "ci_WorkID (lk_Identity k) = ci_WorkID (lk_Identity v)"
    by (simp add: checkpoint_same_def Identity_Equal_iff)
  from checkpoint_refs_point [OF refs again(2) this] again(1) show ?thesis by simp
next
  case (stored c)
  let ?s = "s\<lparr>st_checkpoints := AList.update (lk_ID (dated now v)) (dated now v) (st_checkpoints s)\<rparr>"
  have "checkpoint_refs ?s"
    by (rule checkpoint_refs_add_checkpoint [OF refs, where c = c]) (use stored in auto)
  from checkpoint_refs_point [OF this, of "lk_ID v" "dated now v" "ci_WorkID (lk_Identity v)"] stored(1)
  show ?thesis by simp
qed

text \<open>An accepted checkpoint is the current one of its Work, with the content of a verified capture.\<close>

lemma accept_current:
  assumes "Store_AcceptCheckpoint now v s = (t, ok)"
  shows "\<exists>k c. Store_AcceptedCheckpoint (ci_WorkID (lk_Identity v)) t = Some k \<and> checkpoint_same k v \<and>
    map_of (st_captures t) (lk_CaptureID v) = Some c \<and> matches_capture c k \<and>
    (map_of (st_checkpoints s) (lk_ID v) = None \<longrightarrow> k = dated now v)"
proof (cases now v s rule: accept_cases)
  case (refused e)
  with assms show ?thesis by simp
next
  case (again k c)
  with assms have t: "t = s\<lparr>st_pointers := AList.update (ci_WorkID (lk_Identity v)) (lk_ID v) (st_pointers s)\<rparr>" by simp
  from again(2-5) matches_same [OF again(3), of c] show ?thesis
    by (auto simp: t Store_AcceptedCheckpoint_def)
next
  case (stored c)
  with assms have t: "t = s\<lparr>st_checkpoints := AList.update (lk_ID v) (dated now v) (st_checkpoints s),
      st_pointers := AList.update (ci_WorkID (lk_Identity v)) (lk_ID v) (st_pointers s)\<rparr>" by simp
  from stored(2-5) show ?thesis by (auto simp: t Store_AcceptedCheckpoint_def)
qed

end
