(* ===== verification/Store_Retention.thy ===== *)
theory Store_Retention
  imports Store_Checkpoint_Laws
begin

text \<open>
  The retention of checkpoints (\<open>Store.ApplyCheckpointRetention\<close>): the list of the checkpoints it removes
  (\<open>victims\<close>), and the proof that, on tables with \<open>checkpoint_refs\<close>, the loop of deletions never
  fails and removes exactly these and their captures.
\<close>

section \<open>The choice\<close>

fun victims :: "(LocalCheckpoint \<Rightarrow> bool) \<Rightarrow> gotime \<Rightarrow> int \<Rightarrow> LocalCheckpoint list \<Rightarrow> LocalCheckpoint list" where
  "victims prot cutoff remaining [] = []"
| "victims prot cutoff remaining (c # cs) =
     (if prot c then victims prot cutoff remaining cs
      else if remaining > 0 \<and> \<not> lk_CreatedAt c < cutoff then victims prot cutoff (remaining - 1) cs
      else c # victims prot cutoff remaining cs)"

lemma victims_subset: "set (victims prot cutoff r cs) \<subseteq> {c \<in> set cs. \<not> prot c}"
  by (induction prot cutoff r cs rule: victims.induct) auto

lemma victims_distinct: "distinct (map f cs) \<Longrightarrow> distinct (map f (victims prot cutoff r cs))"
proof (induction prot cutoff r cs rule: victims.induct)
  case (2 prot cutoff r c cs)
  then show ?case using victims_subset [of prot cutoff r cs] by (auto 0 3)
qed simp

text \<open>What stays is protected, or recent and within the number that remains.\<close>

lemma kept_recent: "c \<in> set cs \<Longrightarrow> c \<notin> set (victims prot cutoff r cs) \<Longrightarrow> \<not> prot c \<Longrightarrow> \<not> lk_CreatedAt c < cutoff"
  by (induction prot cutoff r cs rule: victims.induct) (auto split: if_splits)

lemma victims_count: "length (victims prot cutoff r cs) + nat r + length (filter prot cs) \<ge> length cs"
  by (induction prot cutoff r cs rule: victims.induct) (auto split: if_splits)

section \<open>The deletions\<close>

text \<open>The tables after the deletion of a list of checkpoints.\<close>

definition without :: "LocalCheckpoint list \<Rightarrow> store \<Rightarrow> store" where
  "without vs s =
     s\<lparr>st_checkpoints := foldl (\<lambda>t c. AList.delete (lk_ID c) t) (st_checkpoints s) vs,
       st_captures := foldl (\<lambda>t c. AList.delete (lk_CaptureID c) t) (st_captures s) vs\<rparr>"

lemma without_simps [simp]:
  "without [] s = s"
  "without (c # vs) s = without vs (s\<lparr>st_checkpoints := AList.delete (lk_ID c) (st_checkpoints s),
      st_captures := AList.delete (lk_CaptureID c) (st_captures s)\<rparr>)"
  "st_pointers (without vs s) = st_pointers s" "st_policies (without vs s) = st_policies s"
  by (simp_all add: without_def)

lemma foldl_delete: "map_of (foldl (\<lambda>t c. AList.delete (f c) t) t vs) k = (if k \<in> f ` set vs then None else map_of t k)"
  by (induction vs arbitrary: t) auto

lemma without_rows:
  "map_of (st_checkpoints (without vs s)) i = (if i \<in> lk_ID ` set vs then None else map_of (st_checkpoints s) i)"
  "map_of (st_captures (without vs s)) i = (if i \<in> lk_CaptureID ` set vs then None else map_of (st_captures s) i)"
  by (simp_all add: without_def foldl_delete)

text \<open>A checkpoint no pointer names can be deleted with its capture, and the integrity of the tables is kept.\<close>

lemma delete_one:
  assumes refs: "checkpoint_refs s" and row: "map_of (st_checkpoints s) (lk_ID c) = Some c"
    and free: "\<not> protected (st_pointers s) c"
  shows "delete_checkpoint (lk_ID c) s = (s\<lparr>st_checkpoints := AList.delete (lk_ID c) (st_checkpoints s)\<rparr>, ok)"
    and "delete_capture (lk_CaptureID c) (s\<lparr>st_checkpoints := AList.delete (lk_ID c) (st_checkpoints s)\<rparr>) =
           (without [c] s, ok)"
    and "checkpoint_refs (without [c] s)"
proof -
  have wp: "wf_tbl (st_pointers s)" and kc: "keyed_by lk_ID (st_checkpoints s)"
    and own: "own_capture s" and pt: "pointed s" and bk: "backed s"
    using refs by (simp_all add: checkpoint_refs_def)
  have unpointed: "map_of (st_pointers s) w \<noteq> Some (lk_ID c)" for w
  proof
    assume w: "map_of (st_pointers s) w = Some (lk_ID c)"
    with pt row have "ci_WorkID (lk_Identity c) = w" by (fastforce simp: pointed_def)
    with w free show False by (simp add: protected_def)
  qed
  then show one: "delete_checkpoint (lk_ID c) s = (s\<lparr>st_checkpoints := AList.delete (lk_ID c) (st_checkpoints s)\<rparr>, ok)"
    by (auto simp: delete_checkpoint_def list_ex_iff in_rows_iff [OF wp])
  let ?t = "s\<lparr>st_checkpoints := AList.delete (lk_ID c) (st_checkpoints s)\<rparr>"
  have others: "lk_CaptureID k \<noteq> lk_CaptureID c" if "map_of (st_checkpoints s) i = Some k" "i \<noteq> lk_ID c" for i k
    using own that row unfolding own_capture_def by blast
  have wt: "wf_tbl (st_checkpoints ?t)" using kc by (simp add: keyed_wf)
  have "\<not> list_ex (\<lambda>k. lk_CaptureID k = lk_CaptureID c) (rows (st_checkpoints ?t))"
  proof
    assume "list_ex (\<lambda>k. lk_CaptureID k = lk_CaptureID c) (rows (st_checkpoints ?t))"
    then obtain k where k: "k \<in> set (rows (st_checkpoints ?t))" "lk_CaptureID k = lk_CaptureID c"
      by (auto simp: list_ex_iff)
    from k(1) obtain i where "map_of (st_checkpoints ?t) i = Some k" unfolding in_rows_iff [OF wt] by blast
    with k(2) others show False by (auto split: if_splits)
  qed
  then show two: "delete_capture (lk_CaptureID c) ?t = (without [c] s, ok)"
    by (simp add: delete_capture_def)
  have "backed (without [c] s)" using bk others by (auto simp: backed_def without_rows simp del: without_simps(2))
  moreover have "own_capture (without [c] s)"
    using own unfolding own_capture_def without_rows by (metis option.distinct(1))
  moreover have "pointed (without [c] s)"
    using pt unpointed by (fastforce simp: pointed_def without_rows simp del: without_simps(2))
  ultimately show "checkpoint_refs (without [c] s)"
    using refs by (simp add: checkpoint_refs_def keyed_delete all_rows_delete)
qed

lemma retention_loop_eq:
  assumes "checkpoint_refs s" and "\<forall>c\<in>set cs. map_of (st_checkpoints s) (lk_ID c) = Some c"
    and "distinct (map lk_ID cs)"
  shows "retention_loop (protected (st_pointers s)) cutoff r removed cs s =
      (without (victims (protected (st_pointers s)) cutoff r cs) s,
       Inr (removed @ victims (protected (st_pointers s)) cutoff r cs)) \<and>
    checkpoint_refs (without (victims (protected (st_pointers s)) cutoff r cs) s)"
  using assms
proof (induction cs arbitrary: s r removed)
  case Nil
  then show ?case by simp
next
  case (Cons c cs)
  let ?prot = "protected (st_pointers s)"
  show ?case
  proof (cases "?prot c \<or> r > 0 \<and> \<not> lk_CreatedAt c < cutoff")
    case True
    with Cons.IH [OF Cons.prems(1)] Cons.prems(2,3) show ?thesis by (simp, blast)
  next
    case False
    then have free: "\<not> ?prot c" and skip: "\<not> (r > 0 \<and> \<not> lk_CreatedAt c < cutoff)" by auto
    let ?u = "without [c] s"
    have row: "map_of (st_checkpoints s) (lk_ID c) = Some c" using Cons.prems by simp
    note one = delete_one [OF Cons.prems(1) row free]
    have "\<forall>c\<in>set cs. map_of (st_checkpoints ?u) (lk_ID c) = Some c"
    proof
      fix d
      assume d: "d \<in> set cs"
      then have "lk_ID d \<in> lk_ID ` set cs" by (rule imageI)
      with Cons.prems(3) have "lk_ID d \<noteq> lk_ID c" by auto
      moreover have "map_of (st_checkpoints s) (lk_ID d) = Some d" using Cons.prems(2) d by simp
      ultimately show "map_of (st_checkpoints ?u) (lk_ID d) = Some d" by (simp add: without_rows del: without_simps(2))
    qed
    from Cons.IH [OF one(3) this, of r "removed @ [c]"] one(1,2) free skip
    show ?thesis using Cons.prems(3) by (cases "r > 0") auto
  qed
qed

section \<open>The operation\<close>

lemma checkpoints_of_rows:
  assumes "checkpoint_refs s" and "c \<in> set (checkpoints_of sid s)"
  shows "map_of (st_checkpoints s) (lk_ID c) = Some c"
  using assms by (auto simp: checkpoint_refs_def keyed_by_def checkpoints_of_def in_rows_iff)

lemma distinct_rows_keys:
  assumes "keyed_by key t" shows "distinct (map key (rows t))"
proof -
  have "map key (rows t) = map fst t"
    using assms by (auto simp: rows_def keyed_by_def wf_tbl_def)
  then show ?thesis using assms by (simp add: keyed_by_def wf_tbl_def)
qed

lemma distinct_checkpoints_of: "checkpoint_refs s \<Longrightarrow> distinct (map lk_ID (checkpoints_of sid s))"
  using distinct_rows_keys [of lk_ID "st_checkpoints s"]
  by (auto simp: checkpoint_refs_def checkpoints_of_def intro: distinct_map_filter)

definition retention_victims :: "string \<Rightarrow> gotime \<Rightarrow> store \<Rightarrow> LocalCheckpoint list" where
  "retention_victims sandboxID now s =
     (let policy = checkpointPolicy sandboxID s; prot = protected (st_pointers s) in
      victims prot (now - cp_MaxAge policy)
        (wrap64 (cp_MaxPerBox policy - int (length (filter prot (checkpoints_of sandboxID s)))))
        (order_by retention_before (checkpoints_of sandboxID s)))"

lemma retention_eq:
  assumes "checkpoint_refs s"
  shows "Store_ApplyCheckpointRetention sandboxID now s =
      (without (retention_victims sandboxID now s) s, Inr (retention_victims sandboxID now s))"
    and "checkpoint_refs (without (retention_victims sandboxID now s) s)"
proof -
  have rows: "\<forall>c\<in>set (order_by retention_before (checkpoints_of sandboxID s)). map_of (st_checkpoints s) (lk_ID c) = Some c"
    using checkpoints_of_rows [OF assms] by simp
  have dist: "distinct (map lk_ID (order_by retention_before (checkpoints_of sandboxID s)))"
    by (simp add: distinct_checkpoints_of [OF assms])
  from retention_loop_eq [OF assms rows dist]
  show "Store_ApplyCheckpointRetention sandboxID now s =
      (without (retention_victims sandboxID now s) s, Inr (retention_victims sandboxID now s))"
    and "checkpoint_refs (without (retention_victims sandboxID now s) s)"
    by (simp_all add: Store_ApplyCheckpointRetention_def retention_victims_def Let_def)
qed

lemma retention_victims_free:
  "c \<in> set (retention_victims sandboxID now s) \<Longrightarrow>
     c \<in> set (checkpoints_of sandboxID s) \<and> \<not> protected (st_pointers s) c"
  using victims_subset [of "protected (st_pointers s)"]
  by (fastforce simp: retention_victims_def Let_def)

text \<open>The current checkpoint of every Work survives.\<close>

lemma retention_accepted:
  assumes refs: "checkpoint_refs s"
  shows "Store_AcceptedCheckpoint w (without (retention_victims sandboxID now s) s) = Store_AcceptedCheckpoint w s"
proof (cases "map_of (st_pointers s) w")
  case None
  then show ?thesis by (simp add: Store_AcceptedCheckpoint_def)
next
  case (Some i)
  with refs obtain k where k: "map_of (st_checkpoints s) i = Some k" "ci_WorkID (lk_Identity k) = w"
    by (fastforce simp: checkpoint_refs_def pointed_def)
  have "i \<notin> lk_ID ` set (retention_victims sandboxID now s)"
  proof
    assume "i \<in> lk_ID ` set (retention_victims sandboxID now s)"
    then obtain c where c: "c \<in> set (retention_victims sandboxID now s)" "i = lk_ID c" by blast
    with retention_victims_free [OF c(1)] checkpoints_of_rows [OF refs] k(1) have "c = k" by fastforce
    with Some k(2) c(2) retention_victims_free [OF c(1)] show False by (simp add: protected_def)
  qed
  with Some show ?thesis by (simp add: Store_AcceptedCheckpoint_def without_rows)
qed

text \<open>The rows that are left, as a list.\<close>

lemma rows_foldl_delete:
  "rows (foldl (\<lambda>t c. AList.delete (f c) t) t vs) = map snd (filter (\<lambda>(k, r). k \<notin> f ` set vs) t)"
proof (induction vs arbitrary: t)
  case Nil
  then show ?case by (simp add: rows_def)
next
  case (Cons v vs)
  have "filter (\<lambda>(k, r). k \<notin> f ` set vs) (AList.delete (f v) t) = filter (\<lambda>(k, r). k \<notin> f ` set (v # vs)) t"
    by (auto simp: AList.delete_eq intro!: filter_cong)
  with Cons.IH [of "AList.delete (f v) t"] show ?case by simp
qed

lemma checkpoints_of_without:
  assumes refs: "checkpoint_refs s" and vs: "\<forall>c\<in>set vs. map_of (st_checkpoints s) (lk_ID c) = Some c"
  shows "checkpoints_of sid (without vs s) = filter (\<lambda>c. c \<notin> set vs) (checkpoints_of sid s)"
proof -
  have "k \<notin> lk_ID ` set vs \<longleftrightarrow> r \<notin> set vs" if "(k, r) \<in> set (st_checkpoints s)" for k r
  proof -
    have r: "map_of (st_checkpoints s) k = Some r" "lk_ID r = k"
      using refs that by (auto simp: checkpoint_refs_def keyed_by_def wf_tbl_def)
    show ?thesis
    proof
      assume "k \<notin> lk_ID ` set vs"
      with r(2) show "r \<notin> set vs" by blast
    next
      assume n: "r \<notin> set vs"
      show "k \<notin> lk_ID ` set vs"
      proof
        assume "k \<in> lk_ID ` set vs"
        then obtain c where "c \<in> set vs" "k = lk_ID c" by blast
        with vs r(1) n show False by simp
      qed
    qed
  qed
  then have "filter (\<lambda>(k, r). k \<notin> lk_ID ` set vs) (st_checkpoints s) = filter (\<lambda>(k, r). r \<notin> set vs) (st_checkpoints s)"
    by (auto intro!: filter_cong)
  then show ?thesis
    by (simp add: checkpoints_of_def without_def rows_foldl_delete)
      (simp add: rows_def filter_map comp_def case_prod_unfold conj_commute)
qed

lemma length_filter_notin:
  assumes "distinct cs" and "set vs \<subseteq> set cs" and "distinct vs"
  shows "length (filter (\<lambda>c. c \<notin> set vs) cs) + length vs = length cs"
proof -
  have "set (filter (\<lambda>c. c \<in> set vs) cs) = set vs" using assms(2) by auto
  moreover have "distinct (filter (\<lambda>c. c \<in> set vs) cs)" using assms(1) by simp
  ultimately have "length (filter (\<lambda>c. c \<in> set vs) cs) = length vs"
    using assms(3) by (metis distinct_card)
  with sum_length_filter_compl [of "\<lambda>c. c \<in> set vs" cs] show ?thesis by simp
qed

text \<open>At most the allowed number stays, unless the protected ones alone are more.\<close>

lemma retention_count:
  assumes refs: "checkpoint_refs s"
    and small: "int (length (st_checkpoints s)) < 2 ^ 63"
    and policy: "0 < cp_MaxPerBox (checkpointPolicy sandboxID s)" "cp_MaxPerBox (checkpointPolicy sandboxID s) \<le> max64"
  shows "int (length (checkpoints_of sandboxID (without (retention_victims sandboxID now s) s))) \<le>
    max (cp_MaxPerBox (checkpointPolicy sandboxID s)) (int (length (filter (protected (st_pointers s)) (checkpoints_of sandboxID s))))"
proof -
  let ?cs = "checkpoints_of sandboxID s" and ?vs = "retention_victims sandboxID now s"
  let ?prot = "protected (st_pointers s)" and ?max = "cp_MaxPerBox (checkpointPolicy sandboxID s)"
  let ?p = "length (filter ?prot ?cs)"
  have "?p \<le> length ?cs" by (rule length_filter_le)
  moreover have "length ?cs \<le> length (st_checkpoints s)"
    by (metis checkpoints_of_def length_filter_le length_map rows_def)
  ultimately have "int ?p < 2 ^ 63" using small by linarith
  then have "in64 (?max - int ?p)" using policy by (simp add: in64_def min64_def max64_def)
  then have vs: "?vs = victims ?prot (now - cp_MaxAge (checkpointPolicy sandboxID s)) (?max - int ?p)
      (order_by retention_before ?cs)"
    by (simp add: retention_victims_def Let_def wrap64_id)
  from victims_count [of "order_by retention_before ?cs" ?prot "now - cp_MaxAge (checkpointPolicy sandboxID s)" "?max - int ?p"]
  have count: "length ?cs \<le> length ?vs + nat (?max - int ?p) + ?p" by (simp add: vs)
  have dist: "distinct (map lk_ID ?cs)" by (rule distinct_checkpoints_of [OF refs])
  then have "distinct (map lk_ID ?vs)" unfolding vs by (intro victims_distinct) simp
  then have "distinct ?vs" "distinct ?cs" using dist by (simp_all add: distinct_map)
  then have "length (filter (\<lambda>c. c \<notin> set ?vs) ?cs) + length ?vs = length ?cs"
    by (intro length_filter_notin) (auto dest: retention_victims_free)
  moreover have "checkpoints_of sandboxID (without ?vs s) = filter (\<lambda>c. c \<notin> set ?vs) ?cs"
    by (rule checkpoints_of_without [OF refs]) (auto dest: retention_victims_free checkpoints_of_rows [OF refs])
  ultimately show ?thesis using count by auto
qed

text \<open>What is not protected and stays is not older than the policy allows.\<close>

lemma retention_recent:
  assumes refs: "checkpoint_refs s"
    and c: "c \<in> set (checkpoints_of sandboxID (without (retention_victims sandboxID now s) s))"
    and free: "\<not> protected (st_pointers s) c"
  shows "lk_CreatedAt c \<ge> now - cp_MaxAge (checkpointPolicy sandboxID s)"
proof -
  have "checkpoints_of sandboxID (without (retention_victims sandboxID now s) s) =
      filter (\<lambda>c. c \<notin> set (retention_victims sandboxID now s)) (checkpoints_of sandboxID s)"
    by (rule checkpoints_of_without [OF refs]) (auto dest: retention_victims_free checkpoints_of_rows [OF refs])
  with c have "c \<in> set (checkpoints_of sandboxID s)" "c \<notin> set (retention_victims sandboxID now s)" by auto
  with free kept_recent [of c "order_by retention_before (checkpoints_of sandboxID s)" "protected (st_pointers s)"]
  show ?thesis by (simp add: retention_victims_def Let_def not_less)
qed

end
