(* ===== verification/Store_Continuations.thy ===== *)
theory Store_Continuations
  imports Store_Operations
begin

text \<open>
  Continuations, handoffs and restores in the store (\<open>internal/state/store.go\<close>): five tables of tuples
  that are inserted once, without a report, and answered once. A \<open>Put\<close> verifies the manifest when the
  operation is known; a \<open>Complete\<close> accepts the first report that answers the manifest, by an update
  that only matches a row whose report is \<open>NULL\<close>, and later only the same report again.
  \<open>between\<close> is what other callers do between two statements, as in the other theories of the store.
  The columns \<open>manifest_json\<close> and \<open>report_json\<close> hold the JSON of a Go value and are read back into
  one; a row here holds the value. Its strings are valid UTF-8, since they come out of a JSON document
  themselves. \<open>deepEqual\<close> is \<open>reflect.DeepEqual\<close> on the reports that hold a time or a slice: it can tell apart
  two values of one instant, or a nil slice from an empty one, so it is a parameter.
  The triggers of \<open>internal/state/checkpoint_lifecycle.go\<close> refuse a tuple whose checkpoint is being deleted.
\<close>

section \<open>Errors and triggers\<close>

definition ErrContinuationConflict :: goerr where
  "ErrContinuationConflict = Sentinel ''ErrContinuationConflict''"

definition ErrContinuationHandoffConflict :: goerr where
  "ErrContinuationHandoffConflict = Sentinel ''ErrContinuationHandoffConflict''"

definition ErrRestoreConflict :: goerr where
  "ErrRestoreConflict = Sentinel ''ErrRestoreConflict''"

text \<open>The condition of the \<open>BEFORE INSERT\<close> triggers; the column \<open>checkpoint_id\<close> is \<open>NULL\<close> where the Go value is empty.\<close>

definition being_deleted :: "string \<Rightarrow> store \<Rightarrow> bool" where
  "being_deleted cid s \<longleftrightarrow> cid \<noteq> [] \<and> deleting_checkpoint cid s"

text \<open>A report of failure: \<open>errorCode\<close> is set, not empty and at most 80 bytes long.\<close>

definition failure_code :: "string option \<Rightarrow> bool" where
  "failure_code code \<longleftrightarrow> (case code of None \<Rightarrow> False | Some c \<Rightarrow> c \<noteq> [] \<and> length c \<le> 80)"

section \<open>Continuations\<close>

definition Store_ContinuationPreparation :: "string \<Rightarrow> store \<Rightarrow> LocalContinuationPreparation option" where
  "Store_ContinuationPreparation operationID s = map_of (tb_preparations (st_conts s)) operationID"

definition Store_ContinuationPreparations :: "store \<Rightarrow> LocalContinuationPreparation list" where
  "Store_ContinuationPreparations s = map snd (order_by (\<lambda>a b. text_less (fst a) (fst b)) (tb_preparations (st_conts s)))"

definition Store_PutContinuationPreparation ::
  "(store \<Rightarrow> store) \<Rightarrow> LocalContinuationPreparation \<Rightarrow> store \<Rightarrow> store \<times> (goerr + unit)" where
  "Store_PutContinuationPreparation between value s =
     (let m = ya_Manifest value; operationID = cm_OperationID m in
      if operationID = [] \<or> ya_Phase value \<noteq> ''preparing'' \<or> ya_Report value \<noteq> None
      then (s, Inl ErrContinuationConflict)
      else (case Store_ContinuationPreparation operationID s of
          Some existing \<Rightarrow> if ya_Manifest existing \<noteq> m then (s, Inl ErrContinuationConflict) else (s, ok)
        | None \<Rightarrow>
            let u = between s; row = \<lparr>ya_Manifest = m, ya_Phase = ''preparing'', ya_Report = None\<rparr> in
            if being_deleted (nc_CheckpointID (cm_Checkpoint m)) u then (u, Inl (Sentinel ''checkpoint unavailable''))
            else if map_of (tb_preparations (st_conts u)) operationID \<noteq> None then (u, Inl constraint)
            else (u\<lparr>st_conts := (st_conts u)\<lparr>tb_preparations := AList.update operationID row (tb_preparations (st_conts u))\<rparr>\<rparr>, ok)))"

definition continuationReportMatches :: "ContinuationManifestV1 \<Rightarrow> ContinuationReportV1 \<Rightarrow> bool" where
  "continuationReportMatches manifest report \<longleftrightarrow>
     np_FormatVersion report = cm_FormatVersion manifest \<and>
     np_OperationID report = cm_OperationID manifest \<and>
     np_Action report = cm_Action manifest \<and>
     np_DesiredRevision report = cm_DesiredRevision manifest \<and>
     np_Identity report = cm_Identity manifest \<and>
     np_Binding report = cm_Binding manifest \<and>
     np_Checkpoint report = cm_Checkpoint manifest \<and>
     np_Target report = cm_Target manifest \<and>
     np_ContextDigest report = nx_Digest (cm_Context manifest)"

definition Store_CompleteContinuationPreparation ::
  "(ContinuationReportV1 \<Rightarrow> ContinuationReportV1 \<Rightarrow> bool) \<Rightarrow> (store \<Rightarrow> store) \<Rightarrow> string \<Rightarrow> ContinuationReportV1 \<Rightarrow>
     store \<Rightarrow> store \<times> (goerr + unit)" where
  "Store_CompleteContinuationPreparation deepEqual between operationID report s =
     (case Store_ContinuationPreparation operationID s of
        None \<Rightarrow> (s, Inl ErrContinuationConflict)
      | Some existing \<Rightarrow>
          if \<not> continuationReportMatches (ya_Manifest existing) report then (s, Inl ErrContinuationConflict)
          else (case ya_Report existing of
              Some r \<Rightarrow> if \<not> deepEqual r report then (s, Inl ErrContinuationConflict) else (s, ok)
            | None \<Rightarrow>
                if \<not> (np_Status report = ''ready'' \<and> np_Baseline report \<noteq> None \<and> np_ErrorCode report = None) \<and>
                   \<not> (np_Status report = ''failed'' \<and> np_Baseline report = None \<and> failure_code (np_ErrorCode report))
                then (s, Inl ErrContinuationConflict)
                else let u = between s in
                  (case map_of (tb_preparations (st_conts u)) operationID of
                     None \<Rightarrow> (u, Inl ErrContinuationConflict)
                   | Some row \<Rightarrow>
                       if ya_Report row \<noteq> None then (u, Inl ErrContinuationConflict)
                       else (u\<lparr>st_conts := (st_conts u)\<lparr>tb_preparations := AList.update operationID
                           (row\<lparr>ya_Phase := np_Status report, ya_Report := Some report\<rparr>)
                           (tb_preparations (st_conts u))\<rparr>\<rparr>, ok))))"

definition Store_ContinuationRelease :: "string \<Rightarrow> store \<Rightarrow> LocalContinuationRelease option" where
  "Store_ContinuationRelease operationID s = map_of (tb_releases (st_conts s)) operationID"

definition Store_ContinuationReleases :: "store \<Rightarrow> LocalContinuationRelease list" where
  "Store_ContinuationReleases s = map snd (order_by (\<lambda>a b. text_less (fst a) (fst b)) (tb_releases (st_conts s)))"

definition Store_PutContinuationRelease ::
  "(store \<Rightarrow> store) \<Rightarrow> LocalContinuationRelease \<Rightarrow> store \<Rightarrow> store \<times> (goerr + unit)" where
  "Store_PutContinuationRelease between value s =
     (let m = yb_Manifest value; operationID = crl_OperationID m in
      if operationID = [] \<or> yb_Phase value \<noteq> ''releasing'' \<or> yb_Report value \<noteq> None
      then (s, Inl ErrContinuationConflict)
      else (case Store_ContinuationRelease operationID s of
          Some existing \<Rightarrow> if yb_Manifest existing \<noteq> m then (s, Inl ErrContinuationConflict) else (s, ok)
        | None \<Rightarrow>
            let u = between s; row = \<lparr>yb_Manifest = m, yb_Phase = ''releasing'', yb_Report = None\<rparr> in
            if being_deleted (nc_CheckpointID (crl_Checkpoint m)) u then (u, Inl (Sentinel ''checkpoint unavailable''))
            else if map_of (tb_releases (st_conts u)) operationID \<noteq> None then (u, Inl constraint)
            else (u\<lparr>st_conts := (st_conts u)\<lparr>tb_releases := AList.update operationID row (tb_releases (st_conts u))\<rparr>\<rparr>, ok)))"

definition continuationReleaseReportMatches :: "ContinuationReleaseManifestV1 \<Rightarrow> ContinuationReleaseReportV1 \<Rightarrow> bool" where
  "continuationReleaseReportMatches manifest report \<longleftrightarrow>
     nq_FormatVersion report = crl_FormatVersion manifest \<and>
     nq_OperationID report = crl_OperationID manifest \<and>
     nq_Action report = crl_Action manifest \<and>
     nq_DesiredRevision report = crl_DesiredRevision manifest \<and>
     nq_Identity report = crl_Identity manifest \<and>
     nq_Binding report = crl_Binding manifest \<and>
     nq_Checkpoint report = crl_Checkpoint manifest \<and>
     nq_Target report = crl_Target manifest \<and>
     nq_Context report = crl_Context manifest \<and>
     nq_Reason report = crl_Reason manifest"

definition Store_CompleteContinuationRelease ::
  "(store \<Rightarrow> store) \<Rightarrow> string \<Rightarrow> ContinuationReleaseReportV1 \<Rightarrow>
     store \<Rightarrow> store \<times> (goerr + unit)" where
  "Store_CompleteContinuationRelease between operationID report s =
     (case Store_ContinuationRelease operationID s of
        None \<Rightarrow> (s, Inl ErrContinuationConflict)
      | Some existing \<Rightarrow>
          if \<not> continuationReleaseReportMatches (yb_Manifest existing) report then (s, Inl ErrContinuationConflict)
          else (case yb_Report existing of
              Some r \<Rightarrow> if r \<noteq> report then (s, Inl ErrContinuationConflict) else (s, ok)
            | None \<Rightarrow>
                if (\<not> (nq_Status report = ''released'' \<and> nq_ErrorCode report = None) \<and>
                    \<not> (nq_Status report = ''failed'' \<and> failure_code (nq_ErrorCode report))) \<or>
                   nq_ReceiptDigest report = []
                then (s, Inl ErrContinuationConflict)
                else let u = between s in
                  (case map_of (tb_releases (st_conts u)) operationID of
                     None \<Rightarrow> (u, Inl ErrContinuationConflict)
                   | Some row \<Rightarrow>
                       if yb_Report row \<noteq> None then (u, Inl ErrContinuationConflict)
                       else (u\<lparr>st_conts := (st_conts u)\<lparr>tb_releases := AList.update operationID
                           (row\<lparr>yb_Phase := nq_Status report, yb_Report := Some report\<rparr>)
                           (tb_releases (st_conts u))\<rparr>\<rparr>, ok))))"

section \<open>Handoffs\<close>

text \<open>The Go value read from a row, and the row of a new value.\<close>

definition handoff_of :: "handoff_row \<Rightarrow> LocalContinuationHandoffPreparation" where
  "handoff_of row = \<lparr>yc_Manifest = yc_Manifest row, yc_Phase = yc_Phase row,
     yc_TargetSelectionID = yc_TargetSelectionID row, yc_Report = yc_Report row\<rparr>"

definition Store_ContinuationHandoffPreparation :: "string \<Rightarrow> store \<Rightarrow> LocalContinuationHandoffPreparation option" where
  "Store_ContinuationHandoffPreparation operationID s =
     map_option handoff_of (map_of (tb_handoffs (st_conts s)) operationID)"

definition Store_ContinuationHandoffPreparations :: "store \<Rightarrow> LocalContinuationHandoffPreparation list" where
  "Store_ContinuationHandoffPreparations s =
     map (\<lambda>p. handoff_of (snd p)) (order_by (\<lambda>a b. text_less (fst a) (fst b)) (tb_handoffs (st_conts s)))"

definition Store_ContinuationHandoffBySource ::
  "(store \<Rightarrow> store) \<Rightarrow> string \<Rightarrow> store \<Rightarrow> LocalContinuationHandoffPreparation option" where
  "Store_ContinuationHandoffBySource between sourceID s =
     (case find (\<lambda>p. yc_MappedSource (snd p) = sourceID) (tb_handoffs (st_conts s)) of
        None \<Rightarrow> None
      | Some p \<Rightarrow> Store_ContinuationHandoffPreparation (fst p) (between s))"

definition Store_PutContinuationHandoffPreparation ::
  "(store \<Rightarrow> store) \<Rightarrow> LocalContinuationHandoffPreparation \<Rightarrow> store \<Rightarrow> store \<times> (goerr + unit)" where
  "Store_PutContinuationHandoffPreparation between value s =
     (let m = yc_Manifest value; operationID = hm_OperationID m in
      if operationID = [] \<or> yc_Phase value \<noteq> ''allocating'' \<or> yc_Report value \<noteq> None
      then (s, Inl ErrContinuationHandoffConflict)
      else (case Store_ContinuationHandoffPreparation operationID s of
          Some existing \<Rightarrow> if yc_Manifest existing \<noteq> m then (s, Inl ErrContinuationHandoffConflict) else (s, ok)
        | None \<Rightarrow>
            let u = between s;
                row = \<lparr>yc_Manifest = m, yc_Phase = ''allocating'', yc_TargetSelectionID = [], yc_Report = None,
                       yc_MappedSource = []\<rparr> in
            if being_deleted (nc_CheckpointID (hm_Checkpoint m)) u then (u, Inl (Sentinel ''checkpoint unavailable''))
            else if map_of (tb_handoffs (st_conts u)) operationID \<noteq> None then (u, Inl ErrContinuationHandoffConflict)
            else (u\<lparr>st_conts := (st_conts u)\<lparr>tb_handoffs := AList.update operationID row (tb_handoffs (st_conts u))\<rparr>\<rparr>, ok)))"

definition Store_SetContinuationHandoffPhase ::
  "(store \<Rightarrow> store) \<Rightarrow> string \<Rightarrow> string \<Rightarrow> string \<Rightarrow> store \<Rightarrow> store \<times> (goerr + unit)" where
  "Store_SetContinuationHandoffPhase between operationID phase selectionID s =
     (if phase \<notin> {''allocating'', ''materializing'', ''workspace_registered'', ''recovery_required'',
         ''registration_pending'', ''admission_pending''}
      then (s, Inl ErrContinuationHandoffConflict)
      else (case Store_ContinuationHandoffPreparation operationID s of
          None \<Rightarrow> (s, Inl (EJoin [ErrContinuationHandoffConflict]))
        | Some existing \<Rightarrow>
            if yc_Report existing \<noteq> None then (s, Inl (EJoin [ErrContinuationHandoffConflict]))
            else if yc_TargetSelectionID existing \<noteq> [] \<and> selectionID \<noteq> yc_TargetSelectionID existing
            then (s, Inl ErrContinuationHandoffConflict)
            else
              let selectionID = (if selectionID = [] then yc_TargetSelectionID existing else selectionID);
                  u = between s in
              (case map_of (tb_handoffs (st_conts u)) operationID of
                 None \<Rightarrow> (u, ok)
               | Some row \<Rightarrow>
                   if yc_Report row \<noteq> None then (u, ok)
                   else (u\<lparr>st_conts := (st_conts u)\<lparr>tb_handoffs := AList.update operationID
                       (row\<lparr>yc_Phase := phase, yc_TargetSelectionID := selectionID\<rparr>)
                       (tb_handoffs (st_conts u))\<rparr>\<rparr>, ok))))"

definition continuationHandoffReportMatches :: "ContinuationHandoffManifestV1 \<Rightarrow> ContinuationHandoffReportV1 \<Rightarrow> bool" where
  "continuationHandoffReportMatches manifest report \<longleftrightarrow>
     hr_FormatVersion report = hm_FormatVersion manifest \<and>
     hr_OperationID report = hm_OperationID manifest \<and>
     hr_Action report = hm_Action manifest \<and>
     hr_DesiredRevision report = hm_DesiredRevision manifest \<and>
     hr_HandoffKind report = hm_HandoffKind manifest \<and>
     hr_SessionMode report = hm_SessionMode manifest \<and>
     hr_TargetWorkID report = hm_TargetWorkID manifest \<and>
     hr_MappingID report = hm_MappingID manifest \<and>
     hr_Identity report = hm_Identity manifest \<and>
     hr_Binding report = hm_Binding manifest \<and>
     hr_Checkpoint report = hm_Checkpoint manifest \<and>
     hr_Lineage report = hm_Lineage manifest \<and>
     hr_TargetPolicy report = hm_TargetPolicy manifest \<and>
     hr_WorkspaceRequest report = hm_Workspace manifest \<and>
     hr_ContextDigest report = nx_Digest (hm_Context manifest)"

text \<open>The two reports the code takes: ready with the workspace selected before, or failed with nothing.\<close>

definition handoff_report_valid :: "string \<Rightarrow> ContinuationHandoffReportV1 \<Rightarrow> bool" where
  "handoff_report_valid selectionID report \<longleftrightarrow>
     hr_Status report = ''ready'' \<and>
       (case hr_TargetWorkspace report of None \<Rightarrow> False | Some w \<Rightarrow> hk_SelectionID w = selectionID) \<and>
       hr_Session report \<noteq> None \<and> hr_Baseline report \<noteq> None \<and> hr_ErrorCode report = None \<or>
     hr_Status report = ''failed'' \<and> hr_TargetWorkspace report = None \<and> hr_Session report = None \<and>
       hr_Baseline report = None \<and> failure_code (hr_ErrorCode report)"

text \<open>
  The two lookups before the update of a ready report: another handoff to the same target Work, or
  one that holds the source of the session.
\<close>

definition handoff_taken ::
  "(nat \<Rightarrow> store \<Rightarrow> store) \<Rightarrow> string \<Rightarrow> string \<Rightarrow> string \<Rightarrow> store \<Rightarrow> bool" where
  "handoff_taken between operationID targetWorkID mappedSource u \<longleftrightarrow>
     list_ex (\<lambda>p. hm_OperationID (yc_Manifest p) \<noteq> operationID \<and> hm_TargetWorkID (yc_Manifest p) = targetWorkID)
       (Store_ContinuationHandoffPreparations u) \<or>
     (case Store_ContinuationHandoffBySource (between 2) mappedSource (between 1 u) of
        None \<Rightarrow> False | Some owner \<Rightarrow> hm_OperationID (yc_Manifest owner) \<noteq> operationID)"

text \<open>The update, with the unique index on the mapped source.\<close>

definition answer_handoff ::
  "string \<Rightarrow> string \<Rightarrow> string \<Rightarrow> ContinuationHandoffReportV1 \<Rightarrow> store \<Rightarrow> store \<times> (goerr + unit)" where
  "answer_handoff operationID selectionID mappedSource report u =
     (case map_of (tb_handoffs (st_conts u)) operationID of
        None \<Rightarrow> (u, Inl ErrContinuationHandoffConflict)
      | Some row \<Rightarrow>
          if yc_Report row \<noteq> None then (u, Inl ErrContinuationHandoffConflict)
          else if mappedSource \<noteq> [] \<and>
            list_ex (\<lambda>p. fst p \<noteq> operationID \<and> yc_MappedSource (snd p) = mappedSource) (tb_handoffs (st_conts u))
          then (u, Inl ErrContinuationHandoffConflict)
          else (u\<lparr>st_conts := (st_conts u)\<lparr>tb_handoffs := AList.update operationID
              (row\<lparr>yc_Phase := hr_Status report, yc_TargetSelectionID := selectionID, yc_Report := Some report,
                   yc_MappedSource := mappedSource\<rparr>)
              (tb_handoffs (st_conts u))\<rparr>\<rparr>, ok))"

text \<open>The gaps between the statements, in their order, are \<open>between 0\<close> to \<open>between 3\<close>.\<close>

definition Store_CompleteContinuationHandoffPreparation ::
  "(ContinuationHandoffReportV1 \<Rightarrow> ContinuationHandoffReportV1 \<Rightarrow> bool) \<Rightarrow> (nat \<Rightarrow> store \<Rightarrow> store) \<Rightarrow>
     string \<Rightarrow> string \<Rightarrow> ContinuationHandoffReportV1 \<Rightarrow> store \<Rightarrow> store \<times> (goerr + unit)" where
  "Store_CompleteContinuationHandoffPreparation deepEqual between operationID selectionID report s =
     (case Store_ContinuationHandoffPreparation operationID s of
        None \<Rightarrow> (s, Inl ErrContinuationHandoffConflict)
      | Some existing \<Rightarrow>
          if yc_TargetSelectionID existing \<noteq> [] \<and> yc_TargetSelectionID existing \<noteq> selectionID \<or>
             \<not> continuationHandoffReportMatches (yc_Manifest existing) report
          then (s, Inl ErrContinuationHandoffConflict)
          else (case yc_Report existing of
              Some r \<Rightarrow>
                if \<not> deepEqual r report \<or> yc_TargetSelectionID existing \<noteq> selectionID
                then (s, Inl ErrContinuationHandoffConflict) else (s, ok)
            | None \<Rightarrow>
                if \<not> handoff_report_valid selectionID report then (s, Inl ErrContinuationHandoffConflict)
                else
                  let mappedSource = (case hr_Session report of None \<Rightarrow> [] | Some v \<Rightarrow> hs_RegisteredSourceID v) in
                  if mappedSource = [] then answer_handoff operationID selectionID mappedSource report (between 3 s)
                  else
                    let u = between 0 s; v = between 2 (between 1 u) in
                    if handoff_taken between operationID (hm_TargetWorkID (yc_Manifest existing)) mappedSource u
                    then (v, Inl ErrContinuationHandoffConflict)
                    else answer_handoff operationID selectionID mappedSource report (between 3 v)))"

definition Store_ContinuationHandoffRelease :: "string \<Rightarrow> store \<Rightarrow> LocalContinuationHandoffRelease option" where
  "Store_ContinuationHandoffRelease operationID s = map_of (tb_handoff_releases (st_conts s)) operationID"

definition Store_ContinuationHandoffReleases :: "store \<Rightarrow> LocalContinuationHandoffRelease list" where
  "Store_ContinuationHandoffReleases s = map snd (order_by (\<lambda>a b. text_less (fst a) (fst b)) (tb_handoff_releases (st_conts s)))"

definition Store_PutContinuationHandoffRelease ::
  "(store \<Rightarrow> store) \<Rightarrow> LocalContinuationHandoffRelease \<Rightarrow> store \<Rightarrow> store \<times> (goerr + unit)" where
  "Store_PutContinuationHandoffRelease between value s =
     (let m = yd_Manifest value; operationID = hq_OperationID m in
      if operationID = [] \<or> yd_Phase value \<noteq> ''releasing'' \<or> yd_Report value \<noteq> None
      then (s, Inl ErrContinuationHandoffConflict)
      else (case Store_ContinuationHandoffRelease operationID s of
          Some existing \<Rightarrow> if yd_Manifest existing \<noteq> m then (s, Inl ErrContinuationHandoffConflict) else (s, ok)
        | None \<Rightarrow>
            let u = between s; row = \<lparr>yd_Manifest = m, yd_Phase = ''releasing'', yd_Report = None\<rparr> in
            if being_deleted (nc_CheckpointID (hq_Checkpoint m)) u then (u, Inl (Sentinel ''checkpoint unavailable''))
            else if map_of (tb_handoff_releases (st_conts u)) operationID \<noteq> None then (u, Inl constraint)
            else (u\<lparr>st_conts := (st_conts u)\<lparr>tb_handoff_releases := AList.update operationID row (tb_handoff_releases (st_conts u))\<rparr>\<rparr>, ok)))"

definition Store_CompleteContinuationHandoffRelease ::
  "(store \<Rightarrow> store) \<Rightarrow> string \<Rightarrow> ContinuationHandoffReleaseReportV1 \<Rightarrow>
     store \<Rightarrow> store \<times> (goerr + unit)" where
  "Store_CompleteContinuationHandoffRelease between operationID report s =
     (case Store_ContinuationHandoffRelease operationID s of
        None \<Rightarrow> (s, Inl ErrContinuationHandoffConflict)
      | Some existing \<Rightarrow>
          if \<not> (yd_Manifest existing = hp_ContinuationHandoffReleaseManifestV1 report) then (s, Inl ErrContinuationHandoffConflict)
          else (case yd_Report existing of
              Some r \<Rightarrow> if r \<noteq> report then (s, Inl ErrContinuationHandoffConflict) else (s, ok)
            | None \<Rightarrow>
                if (\<not> (hp_Status report = ''released'' \<and> hp_ErrorCode report = None) \<and>
                    \<not> (hp_Status report = ''failed'' \<and> failure_code (hp_ErrorCode report))) \<or>
                   hp_ReceiptDigest report = []
                then (s, Inl ErrContinuationHandoffConflict)
                else let u = between s in
                  (case map_of (tb_handoff_releases (st_conts u)) operationID of
                     None \<Rightarrow> (u, Inl ErrContinuationHandoffConflict)
                   | Some row \<Rightarrow>
                       if yd_Report row \<noteq> None then (u, Inl ErrContinuationHandoffConflict)
                       else (u\<lparr>st_conts := (st_conts u)\<lparr>tb_handoff_releases := AList.update operationID
                           (row\<lparr>yd_Phase := hp_Status report, yd_Report := Some report\<rparr>)
                           (tb_handoff_releases (st_conts u))\<rparr>\<rparr>, ok))))"

section \<open>Restores\<close>

definition Store_RestoreOperation :: "string \<Rightarrow> store \<Rightarrow> LocalRestoreOperation option" where
  "Store_RestoreOperation operationID s = map_of (tb_restores (st_conts s)) operationID"

definition Store_RestoreOperations :: "store \<Rightarrow> LocalRestoreOperation list" where
  "Store_RestoreOperations s = map snd (order_by (\<lambda>a b. text_less (fst a) (fst b)) (tb_restores (st_conts s)))"

definition Store_PutRestoreOperation ::
  "(store \<Rightarrow> store) \<Rightarrow> LocalRestoreOperation \<Rightarrow> store \<Rightarrow> store \<times> (goerr + unit)" where
  "Store_PutRestoreOperation between value s =
     (let m = ye_Manifest value; operationID = rm_OperationID m in
      if operationID = [] \<or> ye_Phase value \<noteq> ''allocating'' \<or> ye_Report value \<noteq> None
      then (s, Inl ErrRestoreConflict)
      else (case Store_RestoreOperation operationID s of
          Some existing \<Rightarrow> if ye_Manifest existing \<noteq> m then (s, Inl ErrRestoreConflict) else (s, ok)
        | None \<Rightarrow>
            let u = between s; row = \<lparr>ye_Manifest = m, ye_Phase = ''allocating'', ye_Report = None\<rparr> in
            if being_deleted (nc_CheckpointID (rm_Checkpoint m)) u then (u, Inl (Sentinel ''checkpoint unavailable''))
            else if map_of (tb_restores (st_conts u)) operationID \<noteq> None then (u, Inl constraint)
            else (u\<lparr>st_conts := (st_conts u)\<lparr>tb_restores := AList.update operationID row (tb_restores (st_conts u))\<rparr>\<rparr>, ok)))"

definition restoreReportMatches :: "RestoreManifestV1 \<Rightarrow> RestoreReportV1 \<Rightarrow> bool" where
  "restoreReportMatches manifest report \<longleftrightarrow>
     rp_FormatVersion report = rm_FormatVersion manifest \<and>
     rp_OperationID report = rm_OperationID manifest \<and>
     rp_Action report = rm_Action manifest \<and>
     rp_DesiredRevision report = rm_DesiredRevision manifest \<and>
     rp_Identity report = rm_Identity manifest \<and>
     rp_Binding report = rm_Binding manifest \<and>
     rp_Checkpoint report = rm_Checkpoint manifest"

definition Store_CompleteRestoreOperation ::
  "(RestoreReportV1 \<Rightarrow> RestoreReportV1 \<Rightarrow> bool) \<Rightarrow> (store \<Rightarrow> store) \<Rightarrow> string \<Rightarrow> RestoreReportV1 \<Rightarrow>
     store \<Rightarrow> store \<times> (goerr + unit)" where
  "Store_CompleteRestoreOperation deepEqual between operationID report s =
     (case Store_RestoreOperation operationID s of
        None \<Rightarrow> (s, Inl ErrRestoreConflict)
      | Some existing \<Rightarrow>
          if \<not> restoreReportMatches (ye_Manifest existing) report then (s, Inl ErrRestoreConflict)
          else (case ye_Report existing of
              Some r \<Rightarrow> if \<not> deepEqual r report then (s, Inl ErrRestoreConflict) else (s, ok)
            | None \<Rightarrow>
                if rp_Status report \<noteq> ''accepted'' \<and> rp_Status report \<noteq> ''failed''
                then (s, Inl ErrRestoreConflict)
                else let u = between s in
                  (case map_of (tb_restores (st_conts u)) operationID of
                     None \<Rightarrow> (u, Inl ErrRestoreConflict)
                   | Some row \<Rightarrow>
                       if ye_Report row \<noteq> None then (u, Inl ErrRestoreConflict)
                       else (u\<lparr>st_conts := (st_conts u)\<lparr>tb_restores := AList.update operationID
                           (row\<lparr>ye_Phase := rp_Status report, ye_Report := Some report\<rparr>)
                           (tb_restores (st_conts u))\<rparr>\<rparr>, ok))))"

end
