(* ===== verification/Store_Gc.thy ===== *)
theory Store_Gc
  imports Store_Continuations Store_Checkpoints
begin

text \<open>
  The collection of checkpoints (\<open>internal/state/checkpoint_lifecycle.go\<close>): a plan writes intents, a
  confirmation turns an intent into \<open>deleting\<close> when nothing roots its checkpoint, and after the caller
  has removed the object a completion deletes the rows and leaves a tombstone. A transaction that fails is
  rolled back. A row of \<open>checkpoint_gc_intents\<close> holds \<open>NULL\<close> where \<open>gi_CheckpointID\<close> is empty, and its two
  times as text of the layout \<open>RFC3339Nano\<close>, which is exact on instants; the row here holds the value.
  The \<open>json_extract\<close> conditions compare members of stored manifests, which are objects, strings and numbers and
  never \<open>null\<close>; equal members are equal Go values, as in the theory of continuations.
\<close>

section \<open>Roots\<close>

text \<open>A release that undoes a preparation, and one that undoes a handoff.\<close>

definition releases_continuation :: "string \<Rightarrow> ContinuationManifestV1 \<Rightarrow> string \<times> LocalContinuationRelease \<Rightarrow> bool" where
  "releases_continuation operationID p row \<longleftrightarrow>
     (let r = yb_Manifest (snd row) in
      fst row = operationID \<and> yb_Phase (snd row) = ''released'' \<and>
      crl_FormatVersion r = cm_FormatVersion p \<and> crl_DesiredRevision r > cm_DesiredRevision p \<and>
      crl_Identity r = cm_Identity p \<and> crl_Binding r = cm_Binding p \<and> crl_Checkpoint r = cm_Checkpoint p \<and>
      crl_Target r = cm_Target p \<and> crl_Context r = cm_Context p)"

definition releases_handoff :: "ContinuationHandoffManifestV1 \<Rightarrow> LocalContinuationHandoffRelease \<Rightarrow> bool" where
  "releases_handoff p row \<longleftrightarrow>
     (let r = yd_Manifest row in
      yd_Phase row = ''released'' \<and>
      hq_FormatVersion r = hm_FormatVersion p \<and> hq_PrepareDesiredRevision r = hm_DesiredRevision p \<and>
      hq_HandoffKind r = hm_HandoffKind p \<and> hq_SessionMode r = hm_SessionMode p \<and>
      hq_TargetWorkID r = hm_TargetWorkID p \<and> hq_MappingID r = hm_MappingID p \<and>
      hq_Identity r = hm_Identity p \<and> hq_Binding r = hm_Binding p \<and> hq_Checkpoint r = hm_Checkpoint p \<and>
      hq_Lineage r = hm_Lineage p \<and> hq_TargetPolicy r = hm_TargetPolicy p \<and>
      hq_Workspace r = hm_Workspace p \<and> hq_Context r = hm_Context p)"

text \<open>The tables that can refer to a checkpoint, in the order of the query.\<close>

definition rooted_by_operation :: "string \<Rightarrow> store \<Rightarrow> bool" where
  "rooted_by_operation cid s \<longleftrightarrow>
     list_ex (\<lambda>o'. lo_CheckpointID o' = cid \<and> lo_State o' \<notin> {''succeeded'', ''failed''}) (rows (st_operations s))"

definition rooted_by_preparation :: "string \<Rightarrow> continuation_tables \<Rightarrow> bool" where
  "rooted_by_preparation cid c \<longleftrightarrow>
     list_ex (\<lambda>p. nc_CheckpointID (cm_Checkpoint (ya_Manifest (snd p))) = cid \<and> ya_Phase (snd p) \<noteq> ''failed'' \<and>
         \<not> list_ex (releases_continuation (fst p) (ya_Manifest (snd p))) (tb_releases c)) (tb_preparations c)"

definition rooted_by_release :: "string \<Rightarrow> continuation_tables \<Rightarrow> bool" where
  "rooted_by_release cid c \<longleftrightarrow>
     list_ex (\<lambda>r. nc_CheckpointID (crl_Checkpoint (yb_Manifest r)) = cid \<and> yb_Phase r = ''releasing'') (rows (tb_releases c))"

definition rooted_by_handoff :: "string \<Rightarrow> continuation_tables \<Rightarrow> bool" where
  "rooted_by_handoff cid c \<longleftrightarrow>
     list_ex (\<lambda>p. nc_CheckpointID (hm_Checkpoint (yc_Manifest p)) = cid \<and> yc_Phase p \<noteq> ''failed'' \<and>
         \<not> list_ex (releases_handoff (yc_Manifest p)) (rows (tb_handoff_releases c))) (rows (tb_handoffs c))"

definition rooted_by_handoff_release :: "string \<Rightarrow> continuation_tables \<Rightarrow> bool" where
  "rooted_by_handoff_release cid c \<longleftrightarrow>
     list_ex (\<lambda>r. nc_CheckpointID (hq_Checkpoint (yd_Manifest r)) = cid \<and> yd_Phase r = ''releasing'')
       (rows (tb_handoff_releases c))"

definition rooted_by_restore :: "string \<Rightarrow> continuation_tables \<Rightarrow> bool" where
  "rooted_by_restore cid c \<longleftrightarrow>
     list_ex (\<lambda>r. nc_CheckpointID (rm_Checkpoint (ye_Manifest r)) = cid \<and>
         ye_Phase r \<in> {''allocating'', ''materializing''}) (rows (tb_restores c))"

definition checkpointIsRooted :: "LocalCheckpoint \<Rightarrow> store \<Rightarrow> bool" where
  "checkpointIsRooted k s \<longleftrightarrow>
     lk_Pinned k \<or> list_ex (\<lambda>cid. cid = lk_ID k) (rows (st_pointers s)) \<or>
     rooted_by_operation (lk_ID k) s \<or> rooted_by_preparation (lk_ID k) (st_conts s) \<or>
     rooted_by_release (lk_ID k) (st_conts s) \<or> rooted_by_handoff (lk_ID k) (st_conts s) \<or>
     rooted_by_handoff_release (lk_ID k) (st_conts s) \<or> rooted_by_restore (lk_ID k) (st_conts s)"

definition captureIsRooted :: "string \<Rightarrow> store \<Rightarrow> bool" where
  "captureIsRooted captureID s \<longleftrightarrow>
     list_ex (\<lambda>o'. lo_CaptureID o' = captureID \<and> lo_State o' \<notin> {''succeeded'', ''failed''}) (rows (st_operations s))"

section \<open>The plan\<close>

definition intent_before :: "string \<times> CheckpointGCIntent \<Rightarrow> string \<times> CheckpointGCIntent \<Rightarrow> bool" where
  "intent_before a b \<longleftrightarrow>
     (let pa = formatNano (gi_PlannedAt (snd a)); pb = formatNano (gi_PlannedAt (snd b)) in
      text_less pa pb \<or> pa = pb \<and> text_less (fst a) (fst b))"

definition Store_CheckpointGCIntents :: "store \<Rightarrow> CheckpointGCIntent list" where
  "Store_CheckpointGCIntents s = map snd (order_by intent_before (st_intents s))"

text \<open>\<open>ORDER BY created_at DESC, id DESC\<close>\<close>

definition newer_checkpoint :: "LocalCheckpoint \<Rightarrow> LocalCheckpoint \<Rightarrow> bool" where
  "newer_checkpoint a b \<longleftrightarrow>
     (let ca = formatNano (lk_CreatedAt a); cb = formatNano (lk_CreatedAt b) in
      text_less cb ca \<or> ca = cb \<and> text_less (lk_ID b) (lk_ID a))"

definition checkpointsForSandbox :: "string \<Rightarrow> store \<Rightarrow> LocalCheckpoint list" where
  "checkpointsForSandbox sandboxID s = order_by newer_checkpoint (checkpoints_of sandboxID s)"

text \<open>Inserts the intent unless the capture has one; the table refuses a negative size.\<close>

definition insertCheckpointGCIntent :: "CheckpointGCIntent \<Rightarrow> store \<Rightarrow> goerr + store \<times> bool" where
  "insertCheckpointGCIntent g s =
     (if gi_Bytes g < 0 then Inl constraint
      else if map_of (st_intents s) (gi_CaptureID g) \<noteq> None then Inr (s, False)
      else Inr (s\<lparr>st_intents := AList.update (gi_CaptureID g) (g\<lparr>gi_Phase := ''planned''\<rparr>) (st_intents s)\<rparr>, True))"

definition checkpoint_intent :: "LocalCheckpoint \<Rightarrow> gotime \<Rightarrow> int \<Rightarrow> CheckpointGCIntent" where
  "checkpoint_intent k now grace =
     \<lparr>gi_SandboxID = ci_SandboxID (lk_Identity k), gi_CheckpointID = lk_ID k, gi_CaptureID = lk_CaptureID k,
      gi_ObjectID = lk_CaptureID k, gi_ManifestDigest = lk_ManifestDigest k, gi_Bytes = lk_Bytes k,
      gi_Phase = ''planned'', gi_PlannedAt = now, gi_NotBefore = now + grace\<rparr>"

definition orphan_intent :: "string \<Rightarrow> LocalContinuityCapture \<Rightarrow> gotime \<Rightarrow> int \<Rightarrow> CheckpointGCIntent" where
  "orphan_intent sandboxID c now grace =
     \<lparr>gi_SandboxID = sandboxID, gi_CheckpointID = [], gi_CaptureID = lc_ID c,
      gi_ObjectID = lc_ObjectID c, gi_ManifestDigest = lc_ManifestDigest c, gi_Bytes = lc_Bytes c,
      gi_Phase = ''planned'', gi_PlannedAt = now, gi_NotBefore = now + grace\<rparr>"

text \<open>
  The loop over the checkpoints of a sandbox, newest first: what is not protected is kept while the
  count, the bytes and the age allow it. It stops when the limit is reached.
\<close>

fun plan_checkpoints ::
  "(LocalCheckpoint \<Rightarrow> bool) \<Rightarrow> gotime \<Rightarrow> gotime \<Rightarrow> int \<Rightarrow> int \<Rightarrow> int \<Rightarrow> int \<Rightarrow> int \<Rightarrow> LocalCheckpoint list \<Rightarrow>
     store \<Rightarrow> goerr + store \<times> int" where
  "plan_checkpoints prot cutoff now grace limit remainingCount remainingBytes planned [] s = Inr (s, planned)"
| "plan_checkpoints prot cutoff now grace limit remainingCount remainingBytes planned (k # ks) s =
     (if prot k then plan_checkpoints prot cutoff now grace limit remainingCount remainingBytes planned ks s
      else if remainingCount > 0 \<and> remainingBytes \<ge> lk_Bytes k \<and> \<not> lk_CreatedAt k < cutoff
      then plan_checkpoints prot cutoff now grace limit (remainingCount - 1) (wrap64 (remainingBytes - lk_Bytes k)) planned ks s
      else bindE (insertCheckpointGCIntent (checkpoint_intent k now grace) s) (\<lambda>(t, inserted).
        if inserted then
          if planned + 1 \<ge> limit then Inr (t, planned + 1)
          else plan_checkpoints prot cutoff now grace limit remainingCount remainingBytes (planned + 1) ks t
        else plan_checkpoints prot cutoff now grace limit remainingCount remainingBytes planned ks t))"

text \<open>The captures of a sandbox without checkpoint and without intent, \<open>ORDER BY c.created_at, c.id\<close>.\<close>

definition older_capture :: "LocalContinuityCapture \<Rightarrow> LocalContinuityCapture \<Rightarrow> bool" where
  "older_capture a b \<longleftrightarrow>
     (let ca = formatNano (lc_CreatedAt a); cb = formatNano (lc_CreatedAt b) in
      text_less ca cb \<or> ca = cb \<and> text_less (lc_ID a) (lc_ID b))"

definition orphans :: "string \<Rightarrow> store \<Rightarrow> LocalContinuityCapture list" where
  "orphans sandboxID s =
     order_by older_capture
       (filter (\<lambda>c. \<not> list_ex (\<lambda>k. lk_CaptureID k = lc_ID c) (rows (st_checkpoints s)) \<and>
           map_of (st_intents s) (lc_ID c) = None) (captures_of sandboxID s))"

fun plan_orphans ::
  "string \<Rightarrow> gotime \<Rightarrow> int \<Rightarrow> int \<Rightarrow> int \<Rightarrow> LocalContinuityCapture list \<Rightarrow> store \<Rightarrow> goerr + store \<times> int" where
  "plan_orphans sandboxID now grace limit planned [] s = Inr (s, planned)"
| "plan_orphans sandboxID now grace limit planned (c # cs) s =
     (if \<not> planned < limit then Inr (s, planned)
      else if captureIsRooted (lc_ID c) s \<or> lc_CreatedAt c > now - grace
      then plan_orphans sandboxID now grace limit planned cs s
      else bindE (insertCheckpointGCIntent (orphan_intent sandboxID c now grace) s) (\<lambda>(t, inserted).
        plan_orphans sandboxID now grace limit (if inserted then planned + 1 else planned) cs t))"

text \<open>One round of the loop over the sandboxes.\<close>

definition plan_sandbox :: "gotime \<Rightarrow> int \<Rightarrow> int \<Rightarrow> string \<Rightarrow> int \<Rightarrow> store \<Rightarrow> goerr + store \<times> int" where
  "plan_sandbox now grace limit sandboxID planned s =
     (let policy = checkpointPolicy sandboxID s;
          checkpoints = checkpointsForSandbox sandboxID s;
          rooted = filter (\<lambda>k. checkpointIsRooted k s) checkpoints;
          prot = (\<lambda>k. lk_ID k \<in> set (map lk_ID rooted));
          protectedBytes = foldl (\<lambda>n k. wrap64 (n + lk_Bytes k)) 0 rooted;
          remainingCount = wrap64 (cp_MaxPerBox policy - int (length rooted));
          remainingBytes = wrap64 (cp_MaxBytes policy - protectedBytes);
          cutoff = now - cp_MaxAge policy
      in bindE (plan_checkpoints prot cutoff now grace limit remainingCount remainingBytes planned checkpoints s)
           (\<lambda>(t, planned).
              if planned \<ge> limit then Inr (t, planned)
              else plan_orphans sandboxID now grace limit planned (orphans sandboxID t) t))"

fun plan_sandboxes :: "gotime \<Rightarrow> int \<Rightarrow> int \<Rightarrow> string list \<Rightarrow> int \<Rightarrow> store \<Rightarrow> goerr + store \<times> int" where
  "plan_sandboxes now grace limit [] planned s = Inr (s, planned)"
| "plan_sandboxes now grace limit (i # is) planned s =
     (if planned \<ge> limit then Inr (s, planned)
      else bindE (plan_sandbox now grace limit i planned s) (\<lambda>(t, planned).
        plan_sandboxes now grace limit is planned t))"

text \<open>\<open>SELECT DISTINCT sandbox_id FROM continuity_captures ORDER BY sandbox_id\<close>\<close>

definition capture_sandboxes :: "store \<Rightarrow> string list" where
  "capture_sandboxes s = order_by text_less (remdups (map (\<lambda>c. ci_SandboxID (lc_Identity c)) (rows (st_captures s))))"

definition Store_PlanCheckpointCollection ::
  "(store \<Rightarrow> store) \<Rightarrow> gotime \<Rightarrow> int \<Rightarrow> int \<Rightarrow> store \<Rightarrow> store \<times> (goerr + CheckpointGCIntent list)" where
  "Store_PlanCheckpointCollection between now grace limit s =
     (if limit \<le> 0 \<or> grace < 0 then (s, Inl (E ''invalid checkpoint collection bounds''))
      else (case plan_sandboxes now grace limit (capture_sandboxes s) (int (length (st_intents s))) s of
          Inl e \<Rightarrow> (s, Inl e)
        | Inr (t, planned) \<Rightarrow> let u = between t in (u, Inr (take (nat limit) (Store_CheckpointGCIntents u)))))"

section \<open>Confirmation and completion\<close>

definition sameCheckpointGCIntent :: "CheckpointGCIntent \<Rightarrow> CheckpointGCIntent \<Rightarrow> bool" where
  "sameCheckpointGCIntent left right \<longleftrightarrow>
     gi_SandboxID left = gi_SandboxID right \<and> gi_CheckpointID left = gi_CheckpointID right \<and>
     gi_CaptureID left = gi_CaptureID right \<and> gi_ObjectID left = gi_ObjectID right \<and>
     gi_ManifestDigest left = gi_ManifestDigest right \<and> gi_Bytes left = gi_Bytes right \<and>
     gi_Phase left = gi_Phase right \<and> gi_PlannedAt left = gi_PlannedAt right \<and>
     gi_NotBefore left = gi_NotBefore right"

text \<open>Whether the intent's checkpoint, or its capture when it has none, is rooted; or why it cannot be told.\<close>

definition intent_rooted :: "CheckpointGCIntent \<Rightarrow> store \<Rightarrow> goerr + bool" where
  "intent_rooted current s =
     (if gi_CheckpointID current \<noteq> [] then
        (case map_of (st_checkpoints s) (gi_CheckpointID current) of
           None \<Rightarrow> Inl (Sentinel ''ErrCheckpointUnavailable'')
         | Some checkpoint \<Rightarrow>
             if lk_CaptureID checkpoint \<noteq> gi_CaptureID current \<or> lk_ManifestDigest checkpoint \<noteq> gi_ManifestDigest current
             then Inl (E ''checkpoint collection identity changed'')
             else Inr (checkpointIsRooted checkpoint s))
      else Inr (captureIsRooted (gi_CaptureID current) s))"

definition Store_ConfirmCheckpointCollection :: "CheckpointGCIntent \<Rightarrow> store \<Rightarrow> store \<times> (goerr + bool)" where
  "Store_ConfirmCheckpointCollection expected s =
     (case map_of (st_intents s) (gi_CaptureID expected) of
        None \<Rightarrow> (s, Inr False)
      | Some current \<Rightarrow>
          if \<not> sameCheckpointGCIntent current expected then (s, Inl (E ''checkpoint collection intent changed''))
          else if gi_Phase current = ''deleting'' then (s, Inr True)
          else (case intent_rooted current s of
              Inl e \<Rightarrow> (s, Inl e)
            | Inr rooted \<Rightarrow>
                if rooted then (s\<lparr>st_intents := AList.delete (gi_CaptureID current) (st_intents s)\<rparr>, Inr False)
                else if gi_Phase current \<noteq> ''planned''
                then (s, Inl (E ''checkpoint collection fence changed''))
                else (s\<lparr>st_intents := AList.update (gi_CaptureID current) (current\<lparr>gi_Phase := ''deleting''\<rparr>)
                         (st_intents s)\<rparr>, Inr True)))"

text \<open>The tombstone a completed collection leaves; \<open>ON CONFLICT(capture_id) DO NOTHING\<close>.\<close>

definition bury :: "CheckpointGCIntent \<Rightarrow> store \<Rightarrow> store" where
  "bury g s =
     (if map_of (st_tombstones s) (gi_CaptureID g) \<noteq> None then s
      else s\<lparr>st_tombstones := AList.update (gi_CaptureID g)
        \<lparr>tb_CheckpointID = (if gi_CheckpointID g = [] then None else Some (gi_CheckpointID g)),
         tb_ObjectID = gi_ObjectID g, tb_ManifestDigest = gi_ManifestDigest g\<rparr> (st_tombstones s)\<rparr>)"

text \<open>\<open>DELETE FROM checkpoints WHERE id=? AND capture_id=?\<close> and \<open>DELETE FROM continuity_captures WHERE id=? AND
  object_id=? AND manifest_digest=?\<close>, with the foreign keys.\<close>

definition drop_checkpoint :: "CheckpointGCIntent \<Rightarrow> store \<Rightarrow> store \<times> (goerr + unit)" where
  "drop_checkpoint g s =
     (if gi_CheckpointID g = [] then (s, ok)
      else (case map_of (st_checkpoints s) (gi_CheckpointID g) of
          None \<Rightarrow> (s, ok)
        | Some k \<Rightarrow> if lk_CaptureID k \<noteq> gi_CaptureID g then (s, ok) else delete_checkpoint (gi_CheckpointID g) s))"

definition drop_capture :: "CheckpointGCIntent \<Rightarrow> store \<Rightarrow> store \<times> (goerr + unit)" where
  "drop_capture g s =
     (case map_of (st_captures s) (gi_CaptureID g) of
        None \<Rightarrow> (s, ok)
      | Some c \<Rightarrow>
          if lc_ObjectID c \<noteq> gi_ObjectID g \<or> lc_ManifestDigest c \<noteq> gi_ManifestDigest g then (s, ok)
          else delete_capture (gi_CaptureID g) s)"

definition Store_CompleteCheckpointCollection :: "CheckpointGCIntent \<Rightarrow> store \<Rightarrow> store \<times> (goerr + unit)" where
  "Store_CompleteCheckpointCollection expected s =
     (case map_of (st_intents s) (gi_CaptureID expected) of
        None \<Rightarrow>
          (case map_of (st_tombstones s) (gi_CaptureID expected) of
             None \<Rightarrow> (s, Inl (Sentinel ''ErrCheckpointUnavailable''))
           | Some t \<Rightarrow>
               if tb_ObjectID t = gi_ObjectID expected \<and> tb_ManifestDigest t = gi_ManifestDigest expected then (s, ok)
               else (s, Inl (Sentinel ''ErrCheckpointUnavailable'')))
      | Some current \<Rightarrow>
          if \<not> sameCheckpointGCIntent current expected \<or> gi_Phase current \<noteq> ''deleting''
          then (s, Inl (E ''checkpoint collection is not durably deleting''))
          else (case drop_checkpoint current s of
              (_, Inl e) \<Rightarrow> (s, Inl e)
            | (t, Inr _) \<Rightarrow>
                (case drop_capture current t of
                   (_, Inl e) \<Rightarrow> (s, Inl e)
                 | (u, Inr _) \<Rightarrow>
                     ((bury current u)\<lparr>st_intents := AList.delete (gi_CaptureID current) (st_intents u)\<rparr>, ok))))"

end
