(* ===== verification/Store_Continuation_Laws.thy ===== *)
theory Store_Continuation_Laws
  imports Store_Continuations
begin

text \<open>
  The laws of the tuples that are answered once. \<open>cont_change\<close> is the abstract step: a tuple without report is
  added, a tuple without report is answered, or the phase of an unanswered handoff moves. Every operation
  of the store is such a step, at the moment of its last statement, or no change. Shown of the steps: a tuple keeps
  its manifest, an answered tuple never changes, a row answers its own manifest with the phase of its
  report, a source belongs to one handoff, and nothing starts to use a checkpoint that is being deleted.
\<close>

section \<open>Rows\<close>

definition preparation_row_ok :: "LocalContinuationPreparation \<Rightarrow> bool" where
  "preparation_row_ok x \<longleftrightarrow>
     (case ya_Report x of None \<Rightarrow> ya_Phase x = ''preparing''
      | Some r \<Rightarrow> ya_Phase x = np_Status r \<and> np_Status r \<in> {''ready'', ''failed''} \<and>
          continuationReportMatches (ya_Manifest x) r)"

definition release_row_ok :: "LocalContinuationRelease \<Rightarrow> bool" where
  "release_row_ok x \<longleftrightarrow>
     (case yb_Report x of None \<Rightarrow> yb_Phase x = ''releasing''
      | Some r \<Rightarrow> yb_Phase x = nq_Status r \<and> nq_Status r \<in> {''released'', ''failed''} \<and>
          continuationReleaseReportMatches (yb_Manifest x) r)"

definition handoff_row_ok :: "handoff_row \<Rightarrow> bool" where
  "handoff_row_ok x \<longleftrightarrow>
     (case yc_Report x of
        None \<Rightarrow> yc_MappedSource x = [] \<and> yc_Phase x \<in> {''allocating'', ''materializing'', ''workspace_registered'',
          ''recovery_required'', ''registration_pending'', ''admission_pending''}
      | Some r \<Rightarrow> yc_Phase x = hr_Status r \<and> handoff_report_valid (yc_TargetSelectionID x) r \<and>
          continuationHandoffReportMatches (yc_Manifest x) r \<and>
          yc_MappedSource x = (case hr_Session r of None \<Rightarrow> [] | Some v \<Rightarrow> hs_RegisteredSourceID v))"

definition handoff_release_row_ok :: "LocalContinuationHandoffRelease \<Rightarrow> bool" where
  "handoff_release_row_ok x \<longleftrightarrow>
     (case yd_Report x of None \<Rightarrow> yd_Phase x = ''releasing''
      | Some r \<Rightarrow> yd_Phase x = hp_Status r \<and> hp_Status r \<in> {''released'', ''failed''} \<and>
          hp_ContinuationHandoffReleaseManifestV1 r = yd_Manifest x)"

definition restore_row_ok :: "LocalRestoreOperation \<Rightarrow> bool" where
  "restore_row_ok x \<longleftrightarrow>
     (case ye_Report x of None \<Rightarrow> ye_Phase x = ''allocating''
      | Some r \<Rightarrow> ye_Phase x = rp_Status r \<and> rp_Status r \<in> {''accepted'', ''failed''} \<and>
          restoreReportMatches (ye_Manifest x) r)"

definition sources_unique :: "handoff_row tbl \<Rightarrow> bool" where
  "sources_unique t \<longleftrightarrow> (\<forall>i j x y. map_of t i = Some x \<longrightarrow> map_of t j = Some y \<longrightarrow>
     yc_MappedSource x \<noteq> [] \<longrightarrow> yc_MappedSource x = yc_MappedSource y \<longrightarrow> i = j)"

lemmas cont_row_oks = preparation_row_ok_def release_row_ok_def handoff_row_ok_def handoff_release_row_ok_def
  restore_row_ok_def

definition conts_ok :: "continuation_tables \<Rightarrow> bool" where
  "conts_ok c \<longleftrightarrow>
     wf_tbl (tb_preparations c) \<and> wf_tbl (tb_releases c) \<and> wf_tbl (tb_handoffs c) \<and>
     wf_tbl (tb_handoff_releases c) \<and> wf_tbl (tb_restores c) \<and>
     all_rows preparation_row_ok (tb_preparations c) \<and> all_rows release_row_ok (tb_releases c) \<and>
     all_rows handoff_row_ok (tb_handoffs c) \<and> all_rows handoff_release_row_ok (tb_handoff_releases c) \<and>
     all_rows restore_row_ok (tb_restores c) \<and> sources_unique (tb_handoffs c)"

lemma conts_ok_empty: "conts_ok no_continuations"
  by (simp add: conts_ok_def no_continuations_def wf_tbl_def sources_unique_def)

section \<open>Tables of rows that are answered once\<close>

definition answered :: "('v \<Rightarrow> 'm) \<Rightarrow> ('v \<Rightarrow> 'r option) \<Rightarrow> 'v tbl \<Rightarrow> 'v tbl \<Rightarrow> bool" where
  "answered manifest report t u \<longleftrightarrow>
     (\<forall>k x. map_of t k = Some x \<longrightarrow>
        (\<exists>y. map_of u k = Some y \<and> manifest y = manifest x \<and> (report x \<noteq> None \<longrightarrow> y = x)))"

lemma answered_refl [simp]: "answered m r t t"
  by (auto simp: answered_def)

lemma answered_trans: "answered m r t u \<Longrightarrow> answered m r u v \<Longrightarrow> answered m r t v"
  unfolding answered_def by metis

lemma answered_fresh: "map_of t k = None \<Longrightarrow> answered m r t (AList.update k x t)"
  by (auto simp: answered_def)

lemma answered_reply: "map_of t k = Some x \<Longrightarrow> r x = None \<Longrightarrow> m y = m x \<Longrightarrow> answered m r t (AList.update k y t)"
  by (auto simp: answered_def)

lemma answered_row: "answered m r t u \<Longrightarrow> map_of t k = Some x \<Longrightarrow> map_of u k = Some y \<Longrightarrow> m y = m x"
  unfolding answered_def by (metis option.inject)

definition conts_kept :: "continuation_tables \<Rightarrow> continuation_tables \<Rightarrow> bool" where
  "conts_kept c d \<longleftrightarrow>
     answered ya_Manifest ya_Report (tb_preparations c) (tb_preparations d) \<and>
     answered yb_Manifest yb_Report (tb_releases c) (tb_releases d) \<and>
     answered yc_Manifest yc_Report (tb_handoffs c) (tb_handoffs d) \<and>
     answered yd_Manifest yd_Report (tb_handoff_releases c) (tb_handoff_releases d) \<and>
     answered ye_Manifest ye_Report (tb_restores c) (tb_restores d)"

lemma conts_kept_refl [simp]: "conts_kept c c"
  by (simp add: conts_kept_def)

lemma conts_kept_trans: "conts_kept c d \<Longrightarrow> conts_kept d e \<Longrightarrow> conts_kept c e"
  unfolding conts_kept_def by (blast intro: answered_trans)

section \<open>The abstract step\<close>

abbreviation with_conts :: "store \<Rightarrow> continuation_tables \<Rightarrow> store" where
  "with_conts s c \<equiv> s\<lparr>st_conts := c\<rparr>"

inductive cont_change :: "store \<Rightarrow> store \<Rightarrow> bool" for s where
  nothing: "cont_change s s"
| preparation_added:
    "map_of (tb_preparations (st_conts s)) k = None \<Longrightarrow> ya_Report x = None \<Longrightarrow> preparation_row_ok x \<Longrightarrow>
     \<not> being_deleted (nc_CheckpointID (cm_Checkpoint (ya_Manifest x))) s \<Longrightarrow>
     cont_change s (with_conts s ((st_conts s)\<lparr>tb_preparations := AList.update k x (tb_preparations (st_conts s))\<rparr>))"
| preparation_answered:
    "map_of (tb_preparations (st_conts s)) k = Some y \<Longrightarrow> ya_Report y = None \<Longrightarrow> ya_Manifest x = ya_Manifest y \<Longrightarrow>
     preparation_row_ok x \<Longrightarrow> ya_Report x \<noteq> None \<Longrightarrow>
     cont_change s (with_conts s ((st_conts s)\<lparr>tb_preparations := AList.update k x (tb_preparations (st_conts s))\<rparr>))"
| release_added:
    "map_of (tb_releases (st_conts s)) k = None \<Longrightarrow> yb_Report x = None \<Longrightarrow> release_row_ok x \<Longrightarrow>
     \<not> being_deleted (nc_CheckpointID (crl_Checkpoint (yb_Manifest x))) s \<Longrightarrow>
     cont_change s (with_conts s ((st_conts s)\<lparr>tb_releases := AList.update k x (tb_releases (st_conts s))\<rparr>))"
| release_answered:
    "map_of (tb_releases (st_conts s)) k = Some y \<Longrightarrow> yb_Report y = None \<Longrightarrow> yb_Manifest x = yb_Manifest y \<Longrightarrow>
     release_row_ok x \<Longrightarrow> yb_Report x \<noteq> None \<Longrightarrow>
     cont_change s (with_conts s ((st_conts s)\<lparr>tb_releases := AList.update k x (tb_releases (st_conts s))\<rparr>))"
| handoff_added:
    "map_of (tb_handoffs (st_conts s)) k = None \<Longrightarrow> yc_Report x = None \<Longrightarrow> handoff_row_ok x \<Longrightarrow>
     \<not> being_deleted (nc_CheckpointID (hm_Checkpoint (yc_Manifest x))) s \<Longrightarrow>
     cont_change s (with_conts s ((st_conts s)\<lparr>tb_handoffs := AList.update k x (tb_handoffs (st_conts s))\<rparr>))"
| handoff_changed:
    "map_of (tb_handoffs (st_conts s)) k = Some y \<Longrightarrow> yc_Report y = None \<Longrightarrow> yc_Manifest x = yc_Manifest y \<Longrightarrow>
     handoff_row_ok x \<Longrightarrow>
     (yc_MappedSource x \<noteq> [] \<Longrightarrow>
        \<forall>p\<in>set (tb_handoffs (st_conts s)). fst p \<noteq> k \<longrightarrow> yc_MappedSource (snd p) \<noteq> yc_MappedSource x) \<Longrightarrow>
     cont_change s (with_conts s ((st_conts s)\<lparr>tb_handoffs := AList.update k x (tb_handoffs (st_conts s))\<rparr>))"
| handoff_release_added:
    "map_of (tb_handoff_releases (st_conts s)) k = None \<Longrightarrow> yd_Report x = None \<Longrightarrow> handoff_release_row_ok x \<Longrightarrow>
     \<not> being_deleted (nc_CheckpointID (hq_Checkpoint (yd_Manifest x))) s \<Longrightarrow>
     cont_change s (with_conts s ((st_conts s)\<lparr>tb_handoff_releases := AList.update k x (tb_handoff_releases (st_conts s))\<rparr>))"
| handoff_release_answered:
    "map_of (tb_handoff_releases (st_conts s)) k = Some y \<Longrightarrow> yd_Report y = None \<Longrightarrow> yd_Manifest x = yd_Manifest y \<Longrightarrow>
     handoff_release_row_ok x \<Longrightarrow> yd_Report x \<noteq> None \<Longrightarrow>
     cont_change s (with_conts s ((st_conts s)\<lparr>tb_handoff_releases := AList.update k x (tb_handoff_releases (st_conts s))\<rparr>))"
| restore_added:
    "map_of (tb_restores (st_conts s)) k = None \<Longrightarrow> ye_Report x = None \<Longrightarrow> restore_row_ok x \<Longrightarrow>
     \<not> being_deleted (nc_CheckpointID (rm_Checkpoint (ye_Manifest x))) s \<Longrightarrow>
     cont_change s (with_conts s ((st_conts s)\<lparr>tb_restores := AList.update k x (tb_restores (st_conts s))\<rparr>))"
| restore_answered:
    "map_of (tb_restores (st_conts s)) k = Some y \<Longrightarrow> ye_Report y = None \<Longrightarrow> ye_Manifest x = ye_Manifest y \<Longrightarrow>
     restore_row_ok x \<Longrightarrow> ye_Report x \<noteq> None \<Longrightarrow>
     cont_change s (with_conts s ((st_conts s)\<lparr>tb_restores := AList.update k x (tb_restores (st_conts s))\<rparr>))"

lemma cont_change_kept: "cont_change s t \<Longrightarrow> conts_kept (st_conts s) (st_conts t)"
  by (induction rule: cont_change.induct) (simp_all add: conts_kept_def answered_fresh answered_reply)

lemma cont_change_frame: "cont_change s t \<Longrightarrow> t = with_conts s (st_conts t)"
  by (induction rule: cont_change.induct) simp_all

lemma sources_unique_update:
  assumes "sources_unique t" and
    "yc_MappedSource x \<noteq> [] \<Longrightarrow> \<forall>p\<in>set t. fst p \<noteq> k \<longrightarrow> yc_MappedSource (snd p) \<noteq> yc_MappedSource x"
  shows "sources_unique (AList.update k x t)"
  using assms unfolding sources_unique_def by (auto dest!: map_of_SomeD split: if_splits) force+

lemma cont_change_ok: "cont_change s t \<Longrightarrow> conts_ok (st_conts s) \<Longrightarrow> conts_ok (st_conts t)"
proof (induction rule: cont_change.induct)
  case (handoff_added k x)
  then have "yc_MappedSource x = []" by (simp add: handoff_row_ok_def)
  with handoff_added show ?case by (simp add: conts_ok_def all_rows_update sources_unique_update)
next
  case (handoff_changed k y x)
  then show ?case by (simp add: conts_ok_def all_rows_update sources_unique_update)
qed (simp_all add: conts_ok_def all_rows_update)


section \<open>The specification\<close>

text \<open>
  What one of the five tables promises: a map from operations to a manifest and perhaps its answer, where an
  operation enters once with its manifest and is answered once, by a report that answers the manifest.
\<close>

inductive spec_step :: "('m \<Rightarrow> 'r \<Rightarrow> bool) \<Rightarrow> (string \<rightharpoonup> 'm \<times> 'r option) \<Rightarrow> (string \<rightharpoonup> 'm \<times> 'r option) \<Rightarrow> bool"
  for answers where
  enter: "f k = None \<Longrightarrow> spec_step answers f (f(k \<mapsto> (m, None)))"
| answer: "f k = Some (m, None) \<Longrightarrow> answers m r \<Longrightarrow> spec_step answers f (f(k \<mapsto> (m, Some r)))"

definition abs_tbl :: "('v \<Rightarrow> 'm) \<Rightarrow> ('v \<Rightarrow> 'r option) \<Rightarrow> 'v tbl \<Rightarrow> (string \<rightharpoonup> 'm \<times> 'r option)" where
  "abs_tbl manifest report t = (\<lambda>k. map_option (\<lambda>x. (manifest x, report x)) (map_of t k))"

definition refines :: "('v \<Rightarrow> 'm) \<Rightarrow> ('v \<Rightarrow> 'r option) \<Rightarrow> ('m \<Rightarrow> 'r \<Rightarrow> bool) \<Rightarrow> 'v tbl \<Rightarrow> 'v tbl \<Rightarrow> bool" where
  "refines manifest report answers t u \<longleftrightarrow>
     (spec_step answers)\<^sup>*\<^sup>* (abs_tbl manifest report t) (abs_tbl manifest report u)"

lemma refines_refl [simp]: "refines m r a t t"
  by (simp add: refines_def)

lemma refines_trans: "refines m r a t u \<Longrightarrow> refines m r a u v \<Longrightarrow> refines m r a t v"
  by (simp add: refines_def)

lemma abs_update: "abs_tbl m r (AList.update k x t) = (abs_tbl m r t)(k \<mapsto> (m x, r x))"
  by (auto simp: abs_tbl_def)

lemma refines_add: "map_of t k = None \<Longrightarrow> r x = None \<Longrightarrow> refines m r a t (AList.update k x t)"
  unfolding refines_def abs_update by (intro r_into_rtranclp) (auto simp: abs_tbl_def intro: spec_step.enter)

lemma refines_reply:
  assumes "map_of t k = Some y" and "r y = None" and "m x = m y" and "\<And>q. r x = Some q \<Longrightarrow> a (m x) q"
  shows "refines m r a t (AList.update k x t)"
proof (cases "r x")
  case None
  with assms have "abs_tbl m r (AList.update k x t) = abs_tbl m r t" by (auto simp: abs_tbl_def)
  then show ?thesis by (simp add: refines_def)
next
  case (Some q)
  with assms have "spec_step a (abs_tbl m r t) ((abs_tbl m r t)(k \<mapsto> (m x, Some q)))"
    by (intro spec_step.answer) (auto simp: abs_tbl_def)
  with Some show ?thesis unfolding refines_def abs_update by auto
qed

text \<open>The reports that answer a manifest.\<close>

definition preparation_answer :: "ContinuationManifestV1 \<Rightarrow> ContinuationReportV1 \<Rightarrow> bool" where
  "preparation_answer m r \<longleftrightarrow> continuationReportMatches m r \<and> np_Status r \<in> {''ready'', ''failed''}"

definition release_answer :: "ContinuationReleaseManifestV1 \<Rightarrow> ContinuationReleaseReportV1 \<Rightarrow> bool" where
  "release_answer m r \<longleftrightarrow> continuationReleaseReportMatches m r \<and> nq_Status r \<in> {''released'', ''failed''}"

definition handoff_answer :: "ContinuationHandoffManifestV1 \<Rightarrow> ContinuationHandoffReportV1 \<Rightarrow> bool" where
  "handoff_answer m r \<longleftrightarrow> continuationHandoffReportMatches m r \<and> (\<exists>sel. handoff_report_valid sel r)"

definition handoff_release_answer ::
  "ContinuationHandoffReleaseManifestV1 \<Rightarrow> ContinuationHandoffReleaseReportV1 \<Rightarrow> bool" where
  "handoff_release_answer m r \<longleftrightarrow>
     hp_ContinuationHandoffReleaseManifestV1 r = m \<and> hp_Status r \<in> {''released'', ''failed''}"

definition restore_answer :: "RestoreManifestV1 \<Rightarrow> RestoreReportV1 \<Rightarrow> bool" where
  "restore_answer m r \<longleftrightarrow> restoreReportMatches m r \<and> rp_Status r \<in> {''accepted'', ''failed''}"

lemmas answer_defs = preparation_answer_def release_answer_def handoff_answer_def handoff_release_answer_def
  restore_answer_def

definition conts_refine :: "continuation_tables \<Rightarrow> continuation_tables \<Rightarrow> bool" where
  "conts_refine c d \<longleftrightarrow>
     refines ya_Manifest ya_Report preparation_answer (tb_preparations c) (tb_preparations d) \<and>
     refines yb_Manifest yb_Report release_answer (tb_releases c) (tb_releases d) \<and>
     refines yc_Manifest yc_Report handoff_answer (tb_handoffs c) (tb_handoffs d) \<and>
     refines yd_Manifest yd_Report handoff_release_answer (tb_handoff_releases c) (tb_handoff_releases d) \<and>
     refines ye_Manifest ye_Report restore_answer (tb_restores c) (tb_restores d)"

lemma conts_refine_refl [simp]: "conts_refine c c"
  by (simp add: conts_refine_def)

lemma conts_refine_trans: "conts_refine c d \<Longrightarrow> conts_refine d e \<Longrightarrow> conts_refine c e"
  unfolding conts_refine_def by (blast intro: refines_trans)

lemma cont_change_refines: "cont_change s t \<Longrightarrow> conts_refine (st_conts s) (st_conts t)"
proof (induction rule: cont_change.induct)
  case (preparation_answered k y x)
  then have "refines ya_Manifest ya_Report preparation_answer (tb_preparations (st_conts s)) (AList.update k x (tb_preparations (st_conts s)))"
    by (intro refines_reply [of _ k y]) (auto simp: preparation_answer_def preparation_row_ok_def)
  then show ?case by (simp add: conts_refine_def)
next
  case (release_answered k y x)
  then have "refines yb_Manifest yb_Report release_answer (tb_releases (st_conts s)) (AList.update k x (tb_releases (st_conts s)))"
    by (intro refines_reply [of _ k y]) (auto simp: release_answer_def release_row_ok_def)
  then show ?case by (simp add: conts_refine_def)
next
  case (handoff_changed k y x)
  then have "refines yc_Manifest yc_Report handoff_answer (tb_handoffs (st_conts s)) (AList.update k x (tb_handoffs (st_conts s)))"
    by (intro refines_reply [of _ k y]) (auto simp: handoff_answer_def handoff_row_ok_def)
  then show ?case by (simp add: conts_refine_def)
next
  case (handoff_release_answered k y x)
  then have "refines yd_Manifest yd_Report handoff_release_answer (tb_handoff_releases (st_conts s)) (AList.update k x (tb_handoff_releases (st_conts s)))"
    by (intro refines_reply [of _ k y]) (auto simp: handoff_release_answer_def handoff_release_row_ok_def)
  then show ?case by (simp add: conts_refine_def)
next
  case (restore_answered k y x)
  then have "refines ye_Manifest ye_Report restore_answer (tb_restores (st_conts s)) (AList.update k x (tb_restores (st_conts s)))"
    by (intro refines_reply [of _ k y]) (auto simp: restore_answer_def restore_row_ok_def)
  then show ?case by (simp add: conts_refine_def)
qed (simp_all add: conts_refine_def refines_add)

lemma cont_change_tombs: "cont_change s t \<Longrightarrow> st_tombstones t = st_tombstones s"
  by (induction rule: cont_change.induct) simp_all

section \<open>The operations are steps\<close>

lemmas kept_parts = conts_kept_def answered_row

lemma put_preparation_change:
  "fst (Store_PutContinuationPreparation between v s) = s \<or> cont_change (between s) (fst (Store_PutContinuationPreparation between v s))"
  unfolding Store_PutContinuationPreparation_def Store_ContinuationPreparation_def Let_def
  by (auto simp: preparation_row_ok_def split: option.split intro!: cont_change.nothing cont_change.preparation_added)

lemma complete_preparation_change:
  assumes "conts_kept (st_conts s) (st_conts (between s))"
  shows "fst (Store_CompleteContinuationPreparation deepEqual between i r s) = s \<or>
    cont_change (between s) (fst (Store_CompleteContinuationPreparation deepEqual between i r s))"
proof -
  have same: "ya_Manifest y = ya_Manifest x"
    if "map_of (tb_preparations (st_conts s)) i = Some x" "map_of (tb_preparations (st_conts (between s))) i = Some y" for x y
    using answered_row that assms unfolding conts_kept_def by metis
  show ?thesis
    unfolding Store_CompleteContinuationPreparation_def Store_ContinuationPreparation_def Let_def
    by (auto simp: preparation_row_ok_def dest: same split: option.split
        intro!: cont_change.nothing cont_change.preparation_answered)
qed

lemma put_release_change:
  "fst (Store_PutContinuationRelease between v s) = s \<or> cont_change (between s) (fst (Store_PutContinuationRelease between v s))"
  unfolding Store_PutContinuationRelease_def Store_ContinuationRelease_def Let_def
  by (auto simp: release_row_ok_def split: option.split intro!: cont_change.nothing cont_change.release_added)

lemma complete_release_change:
  assumes "conts_kept (st_conts s) (st_conts (between s))"
  shows "fst (Store_CompleteContinuationRelease between i r s) = s \<or>
    cont_change (between s) (fst (Store_CompleteContinuationRelease between i r s))"
proof -
  have same: "yb_Manifest y = yb_Manifest x"
    if "map_of (tb_releases (st_conts s)) i = Some x" "map_of (tb_releases (st_conts (between s))) i = Some y" for x y
    using answered_row that assms unfolding conts_kept_def by metis
  show ?thesis
    unfolding Store_CompleteContinuationRelease_def Store_ContinuationRelease_def Let_def
    by (auto simp: release_row_ok_def dest: same split: option.split
        intro!: cont_change.nothing cont_change.release_answered)
qed

lemma put_handoff_release_change:
  "fst (Store_PutContinuationHandoffRelease between v s) = s \<or> cont_change (between s) (fst (Store_PutContinuationHandoffRelease between v s))"
  unfolding Store_PutContinuationHandoffRelease_def Store_ContinuationHandoffRelease_def Let_def
  by (auto simp: handoff_release_row_ok_def split: option.split intro!: cont_change.nothing cont_change.handoff_release_added)

lemma complete_handoff_release_change:
  assumes "conts_kept (st_conts s) (st_conts (between s))"
  shows "fst (Store_CompleteContinuationHandoffRelease between i r s) = s \<or>
    cont_change (between s) (fst (Store_CompleteContinuationHandoffRelease between i r s))"
proof -
  have same: "yd_Manifest y = yd_Manifest x"
    if "map_of (tb_handoff_releases (st_conts s)) i = Some x" "map_of (tb_handoff_releases (st_conts (between s))) i = Some y" for x y
    using answered_row that assms unfolding conts_kept_def by metis
  show ?thesis
    unfolding Store_CompleteContinuationHandoffRelease_def Store_ContinuationHandoffRelease_def Let_def
    by (auto simp: handoff_release_row_ok_def dest: same split: option.split
        intro!: cont_change.nothing cont_change.handoff_release_answered)
qed

lemma put_restore_change:
  "fst (Store_PutRestoreOperation between v s) = s \<or> cont_change (between s) (fst (Store_PutRestoreOperation between v s))"
  unfolding Store_PutRestoreOperation_def Store_RestoreOperation_def Let_def
  by (auto simp: restore_row_ok_def split: option.split intro!: cont_change.nothing cont_change.restore_added)

lemma complete_restore_change:
  assumes "conts_kept (st_conts s) (st_conts (between s))"
  shows "fst (Store_CompleteRestoreOperation deepEqual between i r s) = s \<or>
    cont_change (between s) (fst (Store_CompleteRestoreOperation deepEqual between i r s))"
proof -
  have same: "ye_Manifest y = ye_Manifest x"
    if "map_of (tb_restores (st_conts s)) i = Some x" "map_of (tb_restores (st_conts (between s))) i = Some y" for x y
    using answered_row that assms unfolding conts_kept_def by metis
  show ?thesis
    unfolding Store_CompleteRestoreOperation_def Store_RestoreOperation_def Let_def
    by (auto simp: restore_row_ok_def dest: same split: option.split
        intro!: cont_change.nothing cont_change.restore_answered)
qed

lemma put_handoff_change:
  "fst (Store_PutContinuationHandoffPreparation between v s) = s \<or>
     cont_change (between s) (fst (Store_PutContinuationHandoffPreparation between v s))"
  unfolding Store_PutContinuationHandoffPreparation_def Store_ContinuationHandoffPreparation_def Let_def
  by (auto simp: handoff_row_ok_def split: option.split intro!: cont_change.nothing cont_change.handoff_added)

lemma set_handoff_phase_change:
  assumes "conts_ok (st_conts (between s))"
  shows "fst (Store_SetContinuationHandoffPhase between i phase sel s) = s \<or>
    cont_change (between s) (fst (Store_SetContinuationHandoffPhase between i phase sel s))"
proof -
  have unmapped: "yc_MappedSource y = []"
    if "map_of (tb_handoffs (st_conts (between s))) i = Some y" "yc_Report y = None" for y
    using that assms by (auto simp: conts_ok_def handoff_row_ok_def dest!: all_rows_row)
  show ?thesis
    unfolding Store_SetContinuationHandoffPhase_def Store_ContinuationHandoffPreparation_def Let_def
    by (auto simp: handoff_row_ok_def unmapped split: option.split
        intro!: cont_change.nothing cont_change.handoff_changed)
qed

lemma answer_handoff_change:
  assumes "map_of (tb_handoffs (st_conts s)) i = Some x" and "conts_kept (st_conts s) (st_conts u)"
    and "continuationHandoffReportMatches (yc_Manifest x) r" and "handoff_report_valid sel r"
    and "source = (case hr_Session r of None \<Rightarrow> [] | Some v \<Rightarrow> hs_RegisteredSourceID v)"
  shows "cont_change u (fst (answer_handoff i sel source r u))"
proof -
  have same: "yc_Manifest y = yc_Manifest x" if "map_of (tb_handoffs (st_conts u)) i = Some y" for y
    using answered_row that assms(1,2) unfolding conts_kept_def by metis
  show ?thesis
    using assms(3-5) unfolding answer_handoff_def
    by (auto simp: handoff_row_ok_def list_ex_iff dest: same split: option.split
        intro!: cont_change.nothing cont_change.handoff_changed)
qed

lemma complete_handoff_change:
  defines "v between s \<equiv> between (2 :: nat) (between 1 (between 0 s))"
  assumes "conts_kept (st_conts s) (st_conts (between 3 s))"
    and "conts_kept (st_conts s) (st_conts (between 3 (v between s)))"
  shows "fst (Store_CompleteContinuationHandoffPreparation deepEqual between i sel r s) \<in> {s, v between s} \<or>
    cont_change (between 3 s) (fst (Store_CompleteContinuationHandoffPreparation deepEqual between i sel r s)) \<or>
    cont_change (between 3 (v between s)) (fst (Store_CompleteContinuationHandoffPreparation deepEqual between i sel r s))"
proof (cases "map_of (tb_handoffs (st_conts s)) i")
  case None
  then show ?thesis
    by (simp add: Store_CompleteContinuationHandoffPreparation_def Store_ContinuationHandoffPreparation_def)
next
  case (Some x)
  have answer: "cont_change u (fst (answer_handoff i sel (case hr_Session r of None \<Rightarrow> [] | Some v \<Rightarrow> hs_RegisteredSourceID v) r u))"
    if "conts_kept (st_conts s) (st_conts u)" "continuationHandoffReportMatches (yc_Manifest x) r"
      "handoff_report_valid sel r" for u
    by (rule answer_handoff_change [OF Some that]) simp
  show ?thesis
    using answer [OF assms(2)] answer [OF assms(3)]
    by (cases "hr_Session r")
      (auto simp: Store_CompleteContinuationHandoffPreparation_def Store_ContinuationHandoffPreparation_def Some
        handoff_of_def v_def Let_def split: option.split)
qed

section \<open>One answer\<close>

text \<open>
  The undisturbed operations provide the contract of rows that are answered once. The handoff table takes
  its selection with the report.
\<close>

interpretation preparations: answer_once "Store_PutContinuationPreparation (\<lambda>s. s)" "Store_CompleteContinuationPreparation deepEqual (\<lambda>s. s)"
  "\<lambda>s k. Store_ContinuationPreparation k s" ya_Manifest ya_Report "\<lambda>v. cm_OperationID (ya_Manifest v)" "\<lambda>q r. q = r \<or> deepEqual q r" for deepEqual
  by unfold_locales (auto simp: Store_PutContinuationPreparation_def Store_CompleteContinuationPreparation_def Store_ContinuationPreparation_def Let_def split: option.splits if_splits)

interpretation releases: answer_once "Store_PutContinuationRelease (\<lambda>s. s)" "Store_CompleteContinuationRelease (\<lambda>s. s)"
  "\<lambda>s k. Store_ContinuationRelease k s" yb_Manifest yb_Report "\<lambda>v. crl_OperationID (yb_Manifest v)" "(=)"
  by unfold_locales (auto simp: Store_PutContinuationRelease_def Store_CompleteContinuationRelease_def Store_ContinuationRelease_def Let_def split: option.splits if_splits)

interpretation handoff_releases: answer_once "Store_PutContinuationHandoffRelease (\<lambda>s. s)" "Store_CompleteContinuationHandoffRelease (\<lambda>s. s)"
  "\<lambda>s k. Store_ContinuationHandoffRelease k s" yd_Manifest yd_Report "\<lambda>v. hq_OperationID (yd_Manifest v)" "(=)"
  by unfold_locales (auto simp: Store_PutContinuationHandoffRelease_def Store_CompleteContinuationHandoffRelease_def Store_ContinuationHandoffRelease_def Let_def split: option.splits if_splits)

interpretation restores: answer_once "Store_PutRestoreOperation (\<lambda>s. s)" "Store_CompleteRestoreOperation deepEqual (\<lambda>s. s)"
  "\<lambda>s k. Store_RestoreOperation k s" ye_Manifest ye_Report "\<lambda>v. rm_OperationID (ye_Manifest v)" "\<lambda>q r. q = r \<or> deepEqual q r" for deepEqual
  by unfold_locales (auto simp: Store_PutRestoreOperation_def Store_CompleteRestoreOperation_def Store_RestoreOperation_def Let_def split: option.splits if_splits)

text \<open>For the handoffs a report is the selection together with the report.\<close>

definition answered_handoff :: "string \<Rightarrow> string \<Rightarrow> ContinuationHandoffReportV1 \<Rightarrow> handoff_row \<Rightarrow> handoff_row" where
  "answered_handoff sel source r x = x\<lparr>yc_Phase := hr_Status r, yc_TargetSelectionID := sel, yc_Report := Some r,
     yc_MappedSource := source\<rparr>"

lemma answer_handoff_cases:
  obtains (refused) e where "answer_handoff i sel source r u = (u, Inl e)"
  | (stored) x where "map_of (tb_handoffs (st_conts u)) i = Some x" and "yc_Report x = None"
      and "answer_handoff i sel source r u = (with_conts u ((st_conts u)\<lparr>tb_handoffs :=
        AList.update i (answered_handoff sel source r x) (tb_handoffs (st_conts u))\<rparr>), ok)"
proof (cases "map_of (tb_handoffs (st_conts u)) i")
  case None
  then have "answer_handoff i sel source r u = (u, Inl ErrContinuationHandoffConflict)" by (simp add: answer_handoff_def)
  then show thesis by (rule refused)
next
  case (Some x)
  show thesis
  proof (cases "yc_Report x \<noteq> None \<or> source \<noteq> [] \<and>
      list_ex (\<lambda>p. fst p \<noteq> i \<and> yc_MappedSource (snd p) = source) (tb_handoffs (st_conts u))")
    case True
    then have "answer_handoff i sel source r u = (u, Inl ErrContinuationHandoffConflict)"
      by (auto simp: answer_handoff_def Some)
    then show thesis by (rule refused)
  next
    case False
    then have "answer_handoff i sel source r u = (with_conts u ((st_conts u)\<lparr>tb_handoffs :=
        AList.update i (answered_handoff sel source r x) (tb_handoffs (st_conts u))\<rparr>), ok)"
      by (simp add: answer_handoff_def answered_handoff_def Some)
    with Some False show thesis by (intro stored) auto
  qed
qed

lemma complete_handoff_cases:
  obtains (refused) e where "Store_CompleteContinuationHandoffPreparation deepEqual (\<lambda>_ s. s) i sel r s = (s, Inl e)"
  | (again) x q where "map_of (tb_handoffs (st_conts s)) i = Some x" and "yc_Report x = Some q" and "deepEqual q r"
      and "yc_TargetSelectionID x = sel"
      and "Store_CompleteContinuationHandoffPreparation deepEqual (\<lambda>_ s. s) i sel r s = (s, ok)"
  | (answer) source where "Store_CompleteContinuationHandoffPreparation deepEqual (\<lambda>_ s. s) i sel r s =
      answer_handoff i sel source r s"
proof (cases "map_of (tb_handoffs (st_conts s)) i")
  case None
  then show thesis
    by (intro refused) (simp add: Store_CompleteContinuationHandoffPreparation_def Store_ContinuationHandoffPreparation_def)
next
  case (Some x)
  note defs = Store_CompleteContinuationHandoffPreparation_def Store_ContinuationHandoffPreparation_def handoff_of_def
  show thesis
  proof (cases "yc_Report x")
    case None
    have "\<exists>e source. Store_CompleteContinuationHandoffPreparation deepEqual (\<lambda>_ s. s) i sel r s
        \<in> {(s, Inl e), answer_handoff i sel source r s}"
      unfolding defs by (simp add: Some None Let_def) blast
    then show thesis using refused answer by blast
  next
    case (Some q)
    note x = \<open>map_of (tb_handoffs (st_conts s)) i = Some x\<close>
    show thesis
    proof (cases "deepEqual q r \<and> yc_TargetSelectionID x = sel \<and> continuationHandoffReportMatches (yc_Manifest x) r")
      case True
      then have "Store_CompleteContinuationHandoffPreparation deepEqual (\<lambda>_ s. s) i sel r s = (s, ok)"
        unfolding defs by (simp add: x Some)
      with True x Some show thesis by (intro again) auto
    next
      case False
      then have "Store_CompleteContinuationHandoffPreparation deepEqual (\<lambda>_ s. s) i sel r s =
          (s, Inl ErrContinuationHandoffConflict)"
        unfolding defs by (simp add: x Some)
      then show thesis by (rule refused)
    qed
  qed
qed

lemma complete_handoff_keeps:
  assumes "map_of (tb_handoffs (st_conts s)) k = Some x"
  shows "\<exists>y. map_of (tb_handoffs (st_conts
      (fst (Store_CompleteContinuationHandoffPreparation deepEqual (\<lambda>_ s. s) i sel r s)))) k = Some y \<and>
    yc_Manifest y = yc_Manifest x \<and> (yc_Report x \<noteq> None \<longrightarrow> y = x)"
proof (cases deepEqual i sel r s rule: complete_handoff_cases)
  case (answer source)
  show ?thesis
    by (cases i sel source r s rule: answer_handoff_cases) (use assms answer in \<open>auto simp: answered_handoff_def\<close>)
qed (use assms in simp_all)

lemma complete_handoff_ok:
  assumes "snd (Store_CompleteContinuationHandoffPreparation deepEqual (\<lambda>_ s. s) i sel r s) = ok"
  shows "\<exists>y q. map_of (tb_handoffs (st_conts
      (fst (Store_CompleteContinuationHandoffPreparation deepEqual (\<lambda>_ s. s) i sel r s)))) i = Some y \<and>
    yc_Report y = Some q \<and> yc_TargetSelectionID y = sel \<and> (q = r \<or> deepEqual q r)"
proof (cases deepEqual i sel r s rule: complete_handoff_cases)
  case (answer source)
  show ?thesis
    by (cases i sel source r s rule: answer_handoff_cases) (use assms answer in \<open>auto simp: answered_handoff_def\<close>)
qed (use assms in auto)

interpretation handoffs: answer_once "Store_PutContinuationHandoffPreparation (\<lambda>s. s)"
  "\<lambda>i p. Store_CompleteContinuationHandoffPreparation deepEqual (\<lambda>_ s. s) i (fst p) (snd p)"
  "\<lambda>s k. Store_ContinuationHandoffPreparation k s" yc_Manifest
  "\<lambda>v. map_option (\<lambda>r. (yc_TargetSelectionID v, r)) (yc_Report v)" "\<lambda>v. hm_OperationID (yc_Manifest v)"
  "\<lambda>q r. fst q = fst r \<and> (snd q = snd r \<or> deepEqual (snd q) (snd r))" for deepEqual
proof (unfold_locales, goal_cases)
  case (1 s k x v)
  then show ?case
    by (auto simp: Store_PutContinuationHandoffPreparation_def Store_ContinuationHandoffPreparation_def Let_def
        split: option.split)
next
  case (2 v s)
  then show ?case
    by (auto simp: Store_PutContinuationHandoffPreparation_def Store_ContinuationHandoffPreparation_def handoff_of_def
        Let_def split: option.splits if_splits)
next
  case (3 s k x i r)
  then obtain y where "map_of (tb_handoffs (st_conts s)) k = Some y" "x = handoff_of y"
    by (auto simp: Store_ContinuationHandoffPreparation_def)
  with complete_handoff_keeps [OF this(1), of deepEqual i "fst r" "snd r"] show ?case
    by (auto simp: Store_ContinuationHandoffPreparation_def handoff_of_def)
next
  case (4 i r s)
  from complete_handoff_ok [OF 4] show ?case
    by (auto simp: Store_ContinuationHandoffPreparation_def handoff_of_def)
qed

end
