(* ===== verification/Store_Gc_Laws.thy ===== *)
theory Store_Gc_Laws
  imports Store_Gc Store_Continuation_Laws Store_Checkpoint_Laws
begin

text \<open>
  The laws of the collection. \<open>referenced\<close> gathers the roots of a checkpoint other than its pin. Shown: no
  operation makes a checkpoint referenced while its collection is deleting, a confirmed collection
  can always be completed, and a completed one leaves a tombstone that no later operation gets around.
\<close>

section \<open>References\<close>

definition conts_refer :: "string \<Rightarrow> continuation_tables \<Rightarrow> bool" where
  "conts_refer cid c \<longleftrightarrow>
     rooted_by_preparation cid c \<or> rooted_by_release cid c \<or> rooted_by_handoff cid c \<or>
     rooted_by_handoff_release cid c \<or> rooted_by_restore cid c"

definition referenced :: "string \<Rightarrow> store \<Rightarrow> bool" where
  "referenced cid s \<longleftrightarrow>
     list_ex (\<lambda>i. i = cid) (rows (st_pointers s)) \<or> rooted_by_operation cid s \<or> conts_refer cid (st_conts s)"

lemma checkpointIsRooted_iff: "checkpointIsRooted k s \<longleftrightarrow> lk_Pinned k \<or> referenced (lk_ID k) s"
  by (auto simp: checkpointIsRooted_def referenced_def conts_refer_def)

lemma set_update: "set (AList.update k x t) \<subseteq> insert (k, x) (set t)"
  by (induction t) auto

lemma rows_update: "set (rows (AList.update k x t)) \<subseteq> insert x (set (rows t))"
  using set_update [of k x t] by (force simp: rows_def)

lemma ex_rows_update: "list_ex P (rows (AList.update k x t)) \<Longrightarrow> P x \<or> list_ex P (rows t)"
  using rows_update [of k x t] by (auto simp: list_ex_iff)

lemma ex_update: "list_ex P (AList.update k x t) \<Longrightarrow> P (k, x) \<or> list_ex P t"
  using set_update [of k x t] by (auto simp: list_ex_iff)

lemma update_keeps_others: "(j, y) \<in> set t \<Longrightarrow> j \<noteq> k \<Longrightarrow> (j, y) \<in> set (AList.update k x t)"
  by (induction t) auto

lemma row_in_rows: "map_of t k = Some x \<Longrightarrow> x \<in> set (rows t)"
  by (force simp: rows_def dest: map_of_SomeD)

text \<open>A row that satisfies a condition the replaced one does not satisfies it after the update.\<close>

lemma ex_kept:
  assumes "wf_tbl t" and "list_ex P t" and "\<And>y. map_of t k = Some y \<Longrightarrow> \<not> P (k, y)"
  shows "list_ex P (AList.update k x t)"
proof -
  from assms(2) obtain j y where jy: "(j, y) \<in> set t" "P (j, y)" by (auto simp: list_ex_iff)
  from assms(1) jy(1) have "map_of t j = Some y" by (simp add: wf_tbl_def)
  with assms(3) jy(2) have "j \<noteq> k" by auto
  from update_keeps_others [OF jy(1) this] jy(2) show ?thesis by (auto simp: list_ex_iff)
qed

lemma ex_rows_kept:
  assumes "wf_tbl t" and "list_ex P (rows t)" and "\<And>y. map_of t k = Some y \<Longrightarrow> \<not> P y"
  shows "list_ex P (rows (AList.update k x t))"
proof -
  have r: "list_ex P (rows u) \<longleftrightarrow> list_ex (\<lambda>p. P (snd p)) u" for u
    by (auto simp: rows_def list_ex_iff)
  show ?thesis using ex_kept [of t "\<lambda>p. P (snd p)" k x] assms by (simp add: r)
qed

subsection \<open>Continuations\<close>

lemma unreferenced_preparations:
  assumes "\<not> rooted_by_preparation cid c"
    and "nc_CheckpointID (cm_Checkpoint (ya_Manifest x)) = cid \<Longrightarrow> ya_Phase x \<noteq> ''failed'' \<Longrightarrow>
      list_ex (releases_continuation k (ya_Manifest x)) (tb_releases c)"
  shows "\<not> rooted_by_preparation cid (c\<lparr>tb_preparations := AList.update k x (tb_preparations c)\<rparr>)"
  using assms by (auto simp: rooted_by_preparation_def dest!: ex_update)

lemma unrooted_released:
  assumes "\<not> rooted_by_preparation cid c" and "map_of (tb_preparations c) k = Some y"
    and "nc_CheckpointID (cm_Checkpoint (ya_Manifest y)) = cid" and "ya_Phase y \<noteq> ''failed''"
  shows "list_ex (releases_continuation k (ya_Manifest y)) (tb_releases c)"
proof -
  from assms(2) have "(k, y) \<in> set (tb_preparations c)" by (rule map_of_SomeD)
  with assms show ?thesis by (force simp: rooted_by_preparation_def list_ex_iff)
qed

lemma unreferenced_handoffs:
  assumes "\<not> rooted_by_handoff cid c"
    and "nc_CheckpointID (hm_Checkpoint (yc_Manifest x)) = cid \<Longrightarrow> yc_Phase x \<noteq> ''failed'' \<Longrightarrow>
      list_ex (releases_handoff (yc_Manifest x)) (rows (tb_handoff_releases c))"
  shows "\<not> rooted_by_handoff cid (c\<lparr>tb_handoffs := AList.update k x (tb_handoffs c)\<rparr>)"
  using assms by (auto simp: rooted_by_handoff_def dest!: ex_rows_update)

lemma unreferenced_releases:
  assumes "\<not> rooted_by_preparation cid c" and "wf_tbl (tb_releases c)"
    and "\<And>y. map_of (tb_releases c) k = Some y \<Longrightarrow> yb_Phase y \<noteq> ''released''"
  shows "\<not> rooted_by_preparation cid (c\<lparr>tb_releases := AList.update k x (tb_releases c)\<rparr>)"
proof -
  have "list_ex (releases_continuation i m) (AList.update k x (tb_releases c))"
    if "list_ex (releases_continuation i m) (tb_releases c)" for i m
    using assms(3) by (intro ex_kept [OF assms(2) that]) (auto simp: releases_continuation_def Let_def)
  with assms(1) show ?thesis by (auto simp: rooted_by_preparation_def list_ex_iff)
qed

lemma unreferenced_handoff_releases:
  assumes "\<not> rooted_by_handoff cid c" and "wf_tbl (tb_handoff_releases c)"
    and "\<And>y. map_of (tb_handoff_releases c) k = Some y \<Longrightarrow> yd_Phase y \<noteq> ''released''"
  shows "\<not> rooted_by_handoff cid (c\<lparr>tb_handoff_releases := AList.update k x (tb_handoff_releases c)\<rparr>)"
proof -
  have "list_ex (releases_handoff m) (rows (AList.update k x (tb_handoff_releases c)))"
    if "list_ex (releases_handoff m) (rows (tb_handoff_releases c))" for m
    using assms(3) by (intro ex_rows_kept [OF assms(2) that]) (auto simp: releases_handoff_def Let_def)
  with assms(1) show ?thesis by (auto simp: rooted_by_handoff_def list_ex_iff)
qed

lemmas refer_defs = conts_refer_def rooted_by_release_def rooted_by_handoff_release_def rooted_by_restore_def

text \<open>No step makes a checkpoint that is being deleted referenced.\<close>

lemma cont_change_unreferenced:
  assumes "cont_change s t" and "conts_ok (st_conts s)" and "being_deleted cid s" and "\<not> conts_refer cid (st_conts s)"
  shows "\<not> conts_refer cid (st_conts t)"
  using assms
proof (induction rule: cont_change.induct)
  case nothing
  then show ?case by simp
next
  case (preparation_added k x)
  then have "\<not> rooted_by_preparation cid ((st_conts s)\<lparr>tb_preparations := AList.update k x (tb_preparations (st_conts s))\<rparr>)"
    by (intro unreferenced_preparations) (auto simp: refer_defs)
  with preparation_added show ?case by (simp add: refer_defs rooted_by_handoff_def)
next
  case (preparation_answered k y x)
  then have "ya_Phase y = ''preparing''" by (auto simp: conts_ok_def preparation_row_ok_def dest!: all_rows_row)
  with preparation_answered have
    "\<not> rooted_by_preparation cid ((st_conts s)\<lparr>tb_preparations := AList.update k x (tb_preparations (st_conts s))\<rparr>)"
    using unrooted_released [of cid "st_conts s" k y] by (intro unreferenced_preparations) (auto simp: refer_defs)
  with preparation_answered show ?case by (simp add: refer_defs rooted_by_handoff_def)
next
  case (release_added k x)
  then have "\<not> rooted_by_preparation cid ((st_conts s)\<lparr>tb_releases := AList.update k x (tb_releases (st_conts s))\<rparr>)"
    by (intro unreferenced_releases) (auto simp: refer_defs conts_ok_def)
  with release_added show ?case by (auto simp: refer_defs rooted_by_handoff_def dest!: ex_rows_update)
next
  case (release_answered k y x)
  then have "yb_Phase y = ''releasing''" "yb_Phase x \<noteq> ''releasing''"
    by (auto simp: conts_ok_def release_row_ok_def dest!: all_rows_row)
  moreover from this release_answered have
    "\<not> rooted_by_preparation cid ((st_conts s)\<lparr>tb_releases := AList.update k x (tb_releases (st_conts s))\<rparr>)"
    by (intro unreferenced_releases) (auto simp: refer_defs conts_ok_def)
  ultimately show ?case using release_answered by (auto simp: refer_defs rooted_by_handoff_def dest!: ex_rows_update)
next
  case (handoff_added k x)
  then have "\<not> rooted_by_handoff cid ((st_conts s)\<lparr>tb_handoffs := AList.update k x (tb_handoffs (st_conts s))\<rparr>)"
    by (intro unreferenced_handoffs) (auto simp: refer_defs)
  with handoff_added show ?case by (simp add: refer_defs rooted_by_preparation_def)
next
  case (handoff_changed k y x)
  then have "yc_Phase y \<noteq> ''failed''" by (auto simp: conts_ok_def handoff_row_ok_def dest!: all_rows_row)
  with handoff_changed have
    "\<not> rooted_by_handoff cid ((st_conts s)\<lparr>tb_handoffs := AList.update k x (tb_handoffs (st_conts s))\<rparr>)"
    by (intro unreferenced_handoffs) (auto simp: refer_defs rooted_by_handoff_def list_ex_iff dest: row_in_rows)
  with handoff_changed show ?case by (simp add: refer_defs rooted_by_preparation_def)
next
  case (handoff_release_added k x)
  then have
    "\<not> rooted_by_handoff cid ((st_conts s)\<lparr>tb_handoff_releases := AList.update k x (tb_handoff_releases (st_conts s))\<rparr>)"
    by (intro unreferenced_handoff_releases) (auto simp: refer_defs conts_ok_def)
  with handoff_release_added show ?case by (auto simp: refer_defs rooted_by_preparation_def dest!: ex_rows_update)
next
  case (handoff_release_answered k y x)
  then have "yd_Phase y = ''releasing''" "yd_Phase x \<noteq> ''releasing''"
    by (auto simp: conts_ok_def handoff_release_row_ok_def dest!: all_rows_row)
  moreover from this handoff_release_answered have
    "\<not> rooted_by_handoff cid ((st_conts s)\<lparr>tb_handoff_releases := AList.update k x (tb_handoff_releases (st_conts s))\<rparr>)"
    by (intro unreferenced_handoff_releases) (auto simp: refer_defs conts_ok_def)
  ultimately show ?case
    using handoff_release_answered by (auto simp: refer_defs rooted_by_preparation_def dest!: ex_rows_update)
next
  case (restore_added k x)
  then show ?case
    by (auto simp: refer_defs rooted_by_preparation_def rooted_by_handoff_def dest!: ex_rows_update)
next
  case (restore_answered k y x)
  then have "ye_Phase x \<in> {''accepted'', ''failed''}" by (auto simp: restore_row_ok_def)
  with restore_answered show ?case
    by (auto simp: refer_defs rooted_by_preparation_def rooted_by_handoff_def dest!: ex_rows_update)
qed

section \<open>The invariant of the collection\<close>

text \<open>
  An intent that is deleting has its checkpoint to itself: nothing refers to it, it is not pinned, and it is the only
  checkpoint of the capture.
\<close>

definition sealed :: "CheckpointGCIntent \<Rightarrow> store \<Rightarrow> bool" where
  "sealed g s \<longleftrightarrow>
     \<not> referenced (gi_CheckpointID g) s \<and>
     (\<forall>i k. map_of (st_checkpoints s) i = Some k \<longrightarrow>
        (i = gi_CheckpointID g \<longleftrightarrow> lk_CaptureID k = gi_CaptureID g) \<and> (i = gi_CheckpointID g \<longrightarrow> \<not> lk_Pinned k))"

definition intents_keyed :: "store \<Rightarrow> bool" where
  "intents_keyed s \<longleftrightarrow> (\<forall>c g. map_of (st_intents s) c = Some g \<longrightarrow> gi_CaptureID g = c)"

definition intents_sealed :: "store \<Rightarrow> bool" where
  "intents_sealed s \<longleftrightarrow> (\<forall>c g. map_of (st_intents s) c = Some g \<longrightarrow> gi_Phase g = ''deleting'' \<longrightarrow>
     gi_CheckpointID g \<noteq> [] \<longrightarrow> sealed g s)"

definition collected_gone :: "store \<Rightarrow> bool" where
  "collected_gone s \<longleftrightarrow> (\<forall>c t cid. map_of (st_tombstones s) c = Some t \<longrightarrow> tb_CheckpointID t = Some cid \<longrightarrow>
     map_of (st_checkpoints s) cid = None)"

definition gc_ok :: "store \<Rightarrow> bool" where
  "gc_ok s \<longleftrightarrow> intents_keyed s \<and> intents_sealed s \<and> collected_gone s"

lemmas gc_defs = gc_ok_def intents_keyed_def intents_sealed_def collected_gone_def

lemma gc_ok_empty: "gc_ok empty_store"
  by (simp add: gc_defs empty_store_def)

lemma deleting_intent:
  "map_of (st_intents s) c = Some g \<Longrightarrow> gi_Phase g = ''deleting'' \<Longrightarrow> gi_CheckpointID g \<noteq> [] \<Longrightarrow>
     being_deleted (gi_CheckpointID g) s"
  by (auto simp: being_deleted_def deleting_checkpoint_def list_ex_iff dest: row_in_rows)

definition fewer_checkpoints :: "store \<Rightarrow> store \<Rightarrow> bool" where
  "fewer_checkpoints t s \<longleftrightarrow> map_of (st_checkpoints t) \<subseteq>\<^sub>m map_of (st_checkpoints s)"

lemma fewer_refl [simp]: "st_checkpoints t = st_checkpoints s \<Longrightarrow> fewer_checkpoints t s"
  by (simp add: fewer_checkpoints_def)

lemma fewer_row: "fewer_checkpoints t s \<Longrightarrow> map_of (st_checkpoints t) i = Some k \<Longrightarrow> map_of (st_checkpoints s) i = Some k"
  by (auto simp: fewer_checkpoints_def map_le_def dom_def)

lemma fewer_none: "fewer_checkpoints t s \<Longrightarrow> map_of (st_checkpoints s) i = None \<Longrightarrow> map_of (st_checkpoints t) i = None"
  using fewer_row [of t s i] by (cases "map_of (st_checkpoints t) i") auto

text \<open>What the operations outside the collection do: they refer to no checkpoint that is being deleted.\<close>

lemma gc_ok_mono:
  assumes "gc_ok s" and "st_intents t = st_intents s" and "st_tombstones t = st_tombstones s"
    and "fewer_checkpoints t s"
    and "\<And>cid. being_deleted cid s \<Longrightarrow> \<not> referenced cid s \<Longrightarrow> \<not> referenced cid t"
  shows "gc_ok t"
proof -
  have "sealed g t" if "sealed g s" "being_deleted (gi_CheckpointID g) s" for g
    using that assms(5) fewer_row [OF assms(4)] unfolding sealed_def by blast
  then have "intents_sealed t"
    using assms(1,2) deleting_intent unfolding gc_ok_def intents_sealed_def by metis
  moreover have "collected_gone t"
    using assms(1,3) fewer_none [OF assms(4)] unfolding gc_ok_def collected_gone_def by metis
  ultimately show ?thesis using assms(1,2) by (simp add: gc_ok_def intents_keyed_def)
qed

subsection \<open>The other operations\<close>

lemma gc_ok_conts: "cont_change s t \<Longrightarrow> conts_ok (st_conts s) \<Longrightarrow> gc_ok s \<Longrightarrow> gc_ok t"
proof -
  assume step: "cont_change s t" and ok: "conts_ok (st_conts s)" "gc_ok s"
  have t: "t = with_conts s (st_conts t)" by (rule cont_change_frame [OF step])
  have same: "st_intents t = st_intents s" "st_tombstones t = st_tombstones s" "st_checkpoints t = st_checkpoints s"
    "st_pointers t = st_pointers s" "st_operations t = st_operations s"
    by (subst t, simp)+
  show "gc_ok t"
  proof (rule gc_ok_mono [OF ok(2) same(1,2)])
    show "fewer_checkpoints t s" by (simp add: same)
    show "\<not> referenced cid t" if "being_deleted cid s" "\<not> referenced cid s" for cid
      using that cont_change_unreferenced [OF step ok(1), of cid]
      by (auto simp: referenced_def same rooted_by_operation_def)
  qed
qed

lemma gc_ok_put_operation:
  assumes "gc_ok s" and "gc_ok (between s)"
  shows "gc_ok (fst (Store_PutContinuityOperation between v s))"
proof -
  let ?t = "s\<lparr>st_operations := AList.update (lo_ID v) (operation_fresh v) (st_operations s)\<rparr>"
  have "gc_ok ?t"
  proof (rule gc_ok_mono [OF assms(1)])
    show "\<not> referenced cid ?t" if "being_deleted cid s" "\<not> referenced cid s" for cid
      using that
      by (auto simp: referenced_def rooted_by_operation_def being_deleted_def operation_fresh_def dest!: ex_rows_update)
  qed simp_all
  with assms show ?thesis
    by (simp add: Store_PutContinuityOperation_def Let_def split: option.split)
qed

lemma gc_ok_operation_transition:
  assumes "gc_ok s"
  shows "gc_ok (fst (Store_TransitionContinuityOperation i tr s))"
proof -
  let ?t = "\<lambda>r. s\<lparr>st_operations := AList.update i (apply_transition tr r) (st_operations s)\<rparr>"
  have "gc_ok (?t r)" if "\<not> being_deleted (ct_CheckpointID tr) s" for r
  proof (rule gc_ok_mono [OF assms])
    show "\<not> referenced cid (?t r)" if "being_deleted cid s" "\<not> referenced cid s" for cid
      using that \<open>\<not> being_deleted (ct_CheckpointID tr) s\<close>
      by (auto simp: referenced_def rooted_by_operation_def apply_transition_def dest!: ex_rows_update)
  qed simp_all
  with assms show ?thesis
    by (simp add: Store_TransitionContinuityOperation_def being_deleted_def split: option.split)
qed

lemma gc_ok_point_to:
  assumes "gc_ok s"
  shows "gc_ok (fst (point_to w cid s))"
proof (cases "list_ex (\<lambda>g. gi_Phase g = ''deleting'' \<and> gi_CheckpointID g \<noteq> [] \<and> gi_CheckpointID g = cid) (rows (st_intents s))")
  case False
  have "gc_ok (s\<lparr>st_pointers := AList.update w cid (st_pointers s)\<rparr>)"
  proof (rule gc_ok_mono [OF assms])
    show "\<not> referenced c (s\<lparr>st_pointers := AList.update w cid (st_pointers s)\<rparr>)"
      if "being_deleted c s" "\<not> referenced c s" for c
      using that False
      by (auto simp: referenced_def rooted_by_operation_def being_deleted_def deleting_checkpoint_def list_ex_iff
          dest!: subsetD [OF rows_update])
  qed simp_all
  with assms show ?thesis by (simp add: point_to_def)
qed (use assms in \<open>simp add: point_to_def\<close>)

lemma accepted_not_collected:
  assumes "snd (Store_AcceptCheckpoint now v s) = ok"
  shows "\<not> checkpoint_collected (dated now v) s"
proof
  assume "checkpoint_collected (dated now v) s"
  then have "Store_AcceptCheckpoint now v s = (s, Inl (Sentinel ''ErrCheckpointUnavailable''))"
    unfolding Store_AcceptCheckpoint_def dated_def by (simp add: Let_def)
  with assms show False by simp
qed

lemma not_collected:
  assumes "\<not> checkpoint_collected v s"
  shows "map_of (st_intents s) c = Some g \<Longrightarrow> gi_Phase g = ''deleting'' \<Longrightarrow> gi_CheckpointID g \<noteq> [] \<Longrightarrow>
      gi_CheckpointID g \<noteq> lk_ID v \<and> gi_CaptureID g \<noteq> lk_CaptureID v"
    and "map_of (st_tombstones s) c = Some t \<Longrightarrow> tb_CheckpointID t \<noteq> Some (lk_ID v)"
    and "being_deleted cid s \<Longrightarrow> cid \<noteq> lk_ID v"
proof -
  from assms have intents: "g \<in> set (rows (st_intents s)) \<Longrightarrow> gi_Phase g = ''deleting'' \<Longrightarrow>
      \<not> (gi_CheckpointID g \<noteq> [] \<and> gi_CheckpointID g = lk_ID v) \<and> gi_CaptureID g \<noteq> lk_CaptureID v" for g
    by (auto simp: checkpoint_collected_def list_ex_iff)
  from assms have tombs: "(c, t) \<in> set (st_tombstones s) \<Longrightarrow> tb_CheckpointID t \<noteq> Some (lk_ID v)" for c t
    by (auto simp: checkpoint_collected_def list_ex_iff)
  show "map_of (st_intents s) c = Some g \<Longrightarrow> gi_Phase g = ''deleting'' \<Longrightarrow> gi_CheckpointID g \<noteq> [] \<Longrightarrow>
      gi_CheckpointID g \<noteq> lk_ID v \<and> gi_CaptureID g \<noteq> lk_CaptureID v"
    using intents row_in_rows by metis
  show "map_of (st_tombstones s) c = Some t \<Longrightarrow> tb_CheckpointID t \<noteq> Some (lk_ID v)"
    using tombs map_of_SomeD by metis
  show "being_deleted cid s \<Longrightarrow> cid \<noteq> lk_ID v"
    using intents by (auto simp: being_deleted_def deleting_checkpoint_def list_ex_iff)
qed

lemma gc_ok_add_checkpoint:
  assumes "gc_ok s" and "\<not> checkpoint_collected v s"
  shows "gc_ok (s\<lparr>st_checkpoints := AList.update (lk_ID v) v (st_checkpoints s)\<rparr>)" (is "gc_ok ?t")
proof -
  have ref: "referenced cid ?t = referenced cid s" for cid
    by (simp add: referenced_def rooted_by_operation_def)
  have "sealed g ?t" if "sealed g s" "map_of (st_intents s) c = Some g" "gi_Phase g = ''deleting''" "gi_CheckpointID g \<noteq> []"
    for c g
    using that(1) not_collected(1) [OF assms(2) that(2-4)] by (auto simp: sealed_def ref)
  then have "intents_sealed ?t" using assms(1) unfolding gc_ok_def intents_sealed_def by simp
  moreover have "collected_gone ?t"
    using assms(1) not_collected(2) [OF assms(2)] unfolding gc_ok_def collected_gone_def by auto
  moreover have "intents_keyed ?t" using assms(1) by (simp add: gc_ok_def intents_keyed_def)
  ultimately show ?thesis by (simp add: gc_ok_def)
qed

lemma gc_ok_point:
  assumes "gc_ok s" and "\<And>c. being_deleted c s \<Longrightarrow> c \<noteq> cid"
  shows "gc_ok (s\<lparr>st_pointers := AList.update w cid (st_pointers s)\<rparr>)"
proof (rule gc_ok_mono [OF assms(1)])
  show "\<not> referenced c (s\<lparr>st_pointers := AList.update w cid (st_pointers s)\<rparr>)"
    if "being_deleted c s" "\<not> referenced c s" for c
    using that assms(2) [OF that(1)]
    by (auto simp: referenced_def rooted_by_operation_def list_ex_iff dest!: subsetD [OF rows_update])
qed simp_all

lemma gc_ok_accept:
  assumes "gc_ok s"
  shows "gc_ok (fst (Store_AcceptCheckpoint now v s))"
proof (cases now v s rule: accept_cases)
  case (refused e)
  with assms show ?thesis by simp
next
  case (again k c)
  then have "\<not> checkpoint_collected (dated now v) s" by (intro accepted_not_collected) simp
  from not_collected(3) [OF this] have "gc_ok (s\<lparr>st_pointers := AList.update (ci_WorkID (lk_Identity v)) (lk_ID v) (st_pointers s)\<rparr>)"
    by (intro gc_ok_point assms) auto
  with again(1) show ?thesis by simp
next
  case (stored c)
  let ?t = "s\<lparr>st_checkpoints := AList.update (lk_ID v) (dated now v) (st_checkpoints s)\<rparr>"
  from stored have free: "\<not> checkpoint_collected (dated now v) s" by (intro accepted_not_collected) simp
  have "gc_ok ?t" using gc_ok_add_checkpoint [OF assms free] by simp
  moreover have "being_deleted c ?t = being_deleted c s" for c by (simp add: being_deleted_def deleting_checkpoint_def)
  ultimately have "gc_ok (?t\<lparr>st_pointers := AList.update (ci_WorkID (lk_Identity v)) (lk_ID v) (st_pointers ?t)\<rparr>)"
    using not_collected(3) [OF free] by (intro gc_ok_point) auto
  with stored(1) show ?thesis by simp
qed

text \<open>Deletions: fewer checkpoints, and nothing else the collection looks at.\<close>

definition thinned :: "store \<Rightarrow> store \<Rightarrow> bool" where
  "thinned t s \<longleftrightarrow>
     st_pointers t = st_pointers s \<and> st_intents t = st_intents s \<and> st_tombstones t = st_tombstones s \<and>
     st_operations t = st_operations s \<and> st_conts t = st_conts s \<and> fewer_checkpoints t s"

lemma thinned_refl [simp]: "thinned s s"
  by (simp add: thinned_def)

lemma thinned_trans: "thinned t u \<Longrightarrow> thinned u s \<Longrightarrow> thinned t s"
  unfolding thinned_def fewer_checkpoints_def by (metis map_le_trans)

lemma thinned_deletes: "thinned (fst (delete_checkpoint i s)) s" "thinned (fst (delete_capture i s)) s"
  by (auto simp: thinned_def delete_checkpoint_def delete_capture_def fewer_checkpoints_def map_le_def)

lemma thinned_referenced: "thinned t s \<Longrightarrow> referenced cid t = referenced cid s"
  by (simp add: thinned_def referenced_def rooted_by_operation_def)

lemma gc_ok_thinned: "gc_ok s \<Longrightarrow> thinned t s \<Longrightarrow> gc_ok t"
  by (rule gc_ok_mono [of s t]) (auto simp: thinned_def referenced_def rooted_by_operation_def)

lemma thinned_retention_loop: "thinned (fst (retention_loop prot cutoff r removed cs s)) s"
proof (induction cs arbitrary: r removed s)
  case Nil
  then show ?case by simp
next
  case (Cons c cs)
  obtain t x where t: "delete_checkpoint (lk_ID c) s = (t, x)" by (cases "delete_checkpoint (lk_ID c) s")
  obtain u y where u: "delete_capture (lk_CaptureID c) t = (u, y)" by (cases "delete_capture (lk_CaptureID c) t")
  have "thinned t s" "thinned u t" using thinned_deletes t u by (metis fst_conv)+
  moreover from this have "thinned (fst (retention_loop prot cutoff r (removed @ [c]) cs u)) s"
    using Cons.IH thinned_trans by meson
  ultimately show ?case using Cons.IH by (auto simp: t u split: sum.split intro: thinned_trans)
qed

lemma gc_ok_retention: "gc_ok s \<Longrightarrow> gc_ok (fst (Store_ApplyCheckpointRetention i now s))"
  unfolding Store_ApplyCheckpointRetention_def Let_def by (rule gc_ok_thinned [OF _ thinned_retention_loop])

section \<open>Planning\<close>

text \<open>A plan only adds intents, and only planned ones.\<close>

definition planned_more :: "store \<Rightarrow> store \<Rightarrow> bool" where
  "planned_more s t \<longleftrightarrow>
     t = s\<lparr>st_intents := st_intents t\<rparr> \<and> map_of (st_intents s) \<subseteq>\<^sub>m map_of (st_intents t) \<and>
     (\<forall>c g. map_of (st_intents t) c = Some g \<longrightarrow>
        map_of (st_intents s) c = Some g \<or> gi_Phase g = ''planned'' \<and> gi_CaptureID g = c)"

lemma planned_refl [simp]: "planned_more s s"
  by (simp add: planned_more_def)

lemma planned_trans:
  assumes "planned_more s t" and "planned_more t u"
  shows "planned_more s u"
proof -
  have "u = s\<lparr>st_intents := st_intents u\<rparr>"
  proof -
    have "u = t\<lparr>st_intents := st_intents u\<rparr>" using assms(2) by (simp add: planned_more_def)
    also have "\<dots> = (s\<lparr>st_intents := st_intents t\<rparr>)\<lparr>st_intents := st_intents u\<rparr>"
      using assms(1) by (metis planned_more_def)
    finally show ?thesis by simp
  qed
  moreover have "map_of (st_intents s) \<subseteq>\<^sub>m map_of (st_intents u)"
    using assms map_le_trans unfolding planned_more_def by blast
  ultimately show ?thesis using assms unfolding planned_more_def by blast
qed

lemma planned_insert: "insertCheckpointGCIntent g s = Inr (t, b) \<Longrightarrow> planned_more s t"
  by (auto simp: insertCheckpointGCIntent_def planned_more_def map_le_def dom_def split: if_splits)

lemma planned_checkpoints:
  "plan_checkpoints prot cutoff now grace limit n b planned ks s = Inr (t, m) \<Longrightarrow> planned_more s t"
proof (induction ks arbitrary: n b planned s)
  case Nil
  then show ?case by simp
next
  case (Cons k ks)
  then show ?case
    by (auto simp: bindE_Inr_iff split: if_splits prod.splits dest!: planned_insert intro: planned_trans)
qed

lemma planned_orphans: "plan_orphans i now grace limit planned cs s = Inr (t, m) \<Longrightarrow> planned_more s t"
proof (induction cs arbitrary: planned s)
  case Nil
  then show ?case by simp
next
  case (Cons c cs)
  then show ?case
    by (auto simp: bindE_Inr_iff split: if_splits prod.splits dest!: planned_insert intro: planned_trans)
qed

lemma planned_sandbox: "plan_sandbox now grace limit i planned s = Inr (t, m) \<Longrightarrow> planned_more s t"
  by (auto simp: plan_sandbox_def Let_def bindE_Inr_iff split: if_splits prod.splits
      dest!: planned_checkpoints planned_orphans intro: planned_trans)

lemma planned_sandboxes: "plan_sandboxes now grace limit is planned s = Inr (t, m) \<Longrightarrow> planned_more s t"
proof (induction "is" arbitrary: planned s)
  case Nil
  then show ?case by simp
next
  case (Cons i "is")
  then show ?case
    by (auto simp: bindE_Inr_iff split: if_splits prod.splits dest!: planned_sandbox intro: planned_trans)
qed

lemma plan_cases:
  obtains (refused) e where "Store_PlanCheckpointCollection between now grace limit s = (s, Inl e)"
  | (plan) t found where "Store_PlanCheckpointCollection between now grace limit s = (between t, Inr found)"
      and "planned_more s t" and "found = take (nat limit) (Store_CheckpointGCIntents (between t))"
proof (cases "plan_sandboxes now grace limit (capture_sandboxes s) (int (length (st_intents s))) s")
  case (Inl e)
  then have "Store_PlanCheckpointCollection between now grace limit s =
      (s, Inl (if limit \<le> 0 \<or> grace < 0 then E ''invalid checkpoint collection bounds'' else e))"
    by (simp add: Store_PlanCheckpointCollection_def)
  then show thesis by (rule refused)
next
  case (Inr p)
  obtain t m where p: "p = (t, m)" by (cases p)
  show thesis
  proof (cases "limit \<le> 0 \<or> grace < 0")
    case True
    then show thesis using refused by (simp add: Store_PlanCheckpointCollection_def)
  next
    case False
    from planned_sandboxes [OF Inr [unfolded p]] Inr p False show thesis
      by (intro plan) (auto simp: Store_PlanCheckpointCollection_def Let_def)
  qed
qed

lemma gc_ok_planned:
  assumes "gc_ok s" and "planned_more s t"
  shows "gc_ok t"
proof -
  have t: "t = s\<lparr>st_intents := st_intents t\<rparr>" using assms(2) by (simp add: planned_more_def)
  have same: "st_checkpoints t = st_checkpoints s" "st_tombstones t = st_tombstones s" "st_pointers t = st_pointers s"
    "st_operations t = st_operations s" "st_conts t = st_conts s"
    by (subst t, simp)+
  have seal: "sealed g t = sealed g s" for g
    by (simp add: sealed_def referenced_def rooted_by_operation_def same)
  have from_s: "map_of (st_intents s) c = Some g \<or> gi_Phase g = ''planned'' \<and> gi_CaptureID g = c"
    if "map_of (st_intents t) c = Some g" for c g
    using that assms(2) by (simp add: planned_more_def)
  have "intents_sealed t"
    unfolding intents_sealed_def
  proof (intro allI impI)
    fix c g assume g: "map_of (st_intents t) c = Some g" "gi_Phase g = ''deleting''" "gi_CheckpointID g \<noteq> []"
    with from_s [OF g(1)] have "map_of (st_intents s) c = Some g" by auto
    with assms(1) g(2,3) show "sealed g t" by (simp add: seal gc_ok_def intents_sealed_def)
  qed
  moreover have "intents_keyed t"
    using assms(1) from_s unfolding gc_ok_def intents_keyed_def by blast
  moreover have "collected_gone t" using assms(1) by (simp add: gc_ok_def collected_gone_def same)
  ultimately show ?thesis by (simp add: gc_ok_def)
qed

section \<open>Confirmation\<close>

lemma confirm_cases:
  fixes g :: CheckpointGCIntent and s :: store
  obtains (refused) r where "Store_ConfirmCheckpointCollection g s = (s, r)"
    and "r = Inr True \<longrightarrow> (\<exists>c. map_of (st_intents s) (gi_CaptureID g) = Some c \<and> gi_Phase c = ''deleting'')"
  | (dropped) c where "map_of (st_intents s) (gi_CaptureID g) = Some c"
      and "Store_ConfirmCheckpointCollection g s =
        (s\<lparr>st_intents := AList.delete (gi_CaptureID c) (st_intents s)\<rparr>, Inr False)"
  | (confirmed) c where "map_of (st_intents s) (gi_CaptureID g) = Some c" and "intent_rooted c s = Inr False"
      and "Store_ConfirmCheckpointCollection g s =
        (s\<lparr>st_intents := AList.update (gi_CaptureID c) (c\<lparr>gi_Phase := ''deleting''\<rparr>) (st_intents s)\<rparr>, Inr True)"
proof (cases "map_of (st_intents s) (gi_CaptureID g)")
  case None
  show thesis by (rule refused [of "Inr False"]) (simp_all add: Store_ConfirmCheckpointCollection_def None)
next
  case (Some c)
  note eq = Store_ConfirmCheckpointCollection_def Some
  show thesis
  proof (cases "\<not> sameCheckpointGCIntent c g \<or> gi_Phase c = ''deleting''")
    case True
    show thesis
      by (rule refused [of "if sameCheckpointGCIntent c g then Inr True else Inl (E ''checkpoint collection intent changed'')"])
        (use True in \<open>auto simp: eq\<close>)
  next
    case False
    show thesis
    proof (cases "intent_rooted c s")
      case (Inl e)
      show thesis by (rule refused [of "Inl e"]) (use False Inl in \<open>auto simp: eq\<close>)
    next
      case (Inr rooted)
      consider (yes) rooted | (no) "\<not> rooted" "gi_Phase c = ''planned''" | (fence) "\<not> rooted" "gi_Phase c \<noteq> ''planned''"
        by blast
      then show thesis
      proof cases
        case yes
        show thesis by (rule dropped [OF Some]) (use False Inr yes in \<open>simp add: eq\<close>)
      next
        case no
        show thesis by (rule confirmed [OF Some]) (use False Inr no in \<open>simp_all add: eq\<close>)
      next
        case fence
        show thesis
          by (rule refused [of "Inl (E ''checkpoint collection fence changed'')"]) (use False Inr fence in \<open>simp_all add: eq\<close>)
      qed
    qed
  qed
qed

text \<open>What is confirmed has its checkpoint to itself.\<close>

lemma confirmed_sealed:
  assumes "checkpoint_refs s" and "intent_rooted c s = Inr False" and "gi_CheckpointID c \<noteq> []"
  shows "sealed (c\<lparr>gi_Phase := p\<rparr>) s"
proof -
  from assms(2,3) obtain k where k: "map_of (st_checkpoints s) (gi_CheckpointID c) = Some k"
    "lk_CaptureID k = gi_CaptureID c" "\<not> checkpointIsRooted k s"
    by (auto simp: intent_rooted_def split: option.splits if_splits)
  from assms(1) k(1) have "lk_ID k = gi_CheckpointID c" by (auto simp: checkpoint_refs_def keyed_by_def)
  with k(3) have free: "\<not> lk_Pinned k" "\<not> referenced (gi_CheckpointID c) s"
    by (simp_all add: checkpointIsRooted_iff)
  have "(i = gi_CheckpointID c \<longleftrightarrow> lk_CaptureID l = gi_CaptureID c) \<and> (i = gi_CheckpointID c \<longrightarrow> \<not> lk_Pinned l)"
    if "map_of (st_checkpoints s) i = Some l" for i l
    using that k(1,2) free(1) assms(1) unfolding checkpoint_refs_def own_capture_def by (metis option.inject)
  with free(2) show ?thesis by (simp add: sealed_def)
qed

lemma sealed_intents: "sealed g (s\<lparr>st_intents := t\<rparr>) = sealed g s"
  by (simp add: sealed_def referenced_def rooted_by_operation_def)

lemma gc_ok_confirm:
  assumes "gc_ok s" and "checkpoint_refs s"
  shows "gc_ok (fst (Store_ConfirmCheckpointCollection g s))"
proof (cases rule: confirm_cases [where g = g and s = s])
  case (refused r)
  with assms(1) show ?thesis by simp
next
  case (dropped c)
  from assms(1) dropped(2) show ?thesis by (auto simp: gc_defs sealed_intents split: if_splits)
next
  case (confirmed c)
  have "sealed (c\<lparr>gi_Phase := ''deleting''\<rparr>) s" if "gi_CheckpointID c \<noteq> []"
    by (rule confirmed_sealed [OF assms(2) confirmed(2) that])
  with assms(1) confirmed(3) show ?thesis by (auto simp: gc_defs sealed_intents)
qed

section \<open>Completion\<close>

text \<open>The state after a completed collection.\<close>

definition collected :: "CheckpointGCIntent \<Rightarrow> store \<Rightarrow> store \<Rightarrow> bool" where
  "collected g s t \<longleftrightarrow> (\<exists>u. thinned u s \<and> checkpoint_refs u \<and>
     (sealed g s \<longrightarrow> gi_CheckpointID g \<noteq> [] \<longrightarrow> map_of (st_checkpoints u) (gi_CheckpointID g) = None) \<and>
     t = (bury g u)\<lparr>st_intents := AList.delete (gi_CaptureID g) (st_intents u)\<rparr>)"

lemma delete_checkpoint_refs: "checkpoint_refs s \<Longrightarrow> checkpoint_refs (fst (delete_checkpoint i s))"
proof -
  assume refs: "checkpoint_refs s"
  show "checkpoint_refs (fst (delete_checkpoint i s))"
  proof (cases "map_of (st_checkpoints s) i \<noteq> None \<and> list_ex (\<lambda>p. p = i) (rows (st_pointers s))")
    case True
    with refs show ?thesis by (simp add: delete_checkpoint_def)
  next
    case False
    have unpointed: "map_of (st_pointers s) w \<noteq> Some i" for w
    proof
      assume w: "map_of (st_pointers s) w = Some i"
      with refs have "map_of (st_checkpoints s) i \<noteq> None" by (auto simp: checkpoint_refs_def pointed_def)
      with False row_in_rows [OF w] show False by (auto simp: list_ex_iff)
    qed
    let ?t = "s\<lparr>st_checkpoints := AList.delete i (st_checkpoints s)\<rparr>"
    have "backed ?t" "own_capture ?t" "pointed ?t"
      using refs unpointed unfolding checkpoint_refs_def backed_def own_capture_def pointed_def by (auto split: if_splits)
    with refs False show ?thesis by (auto simp: delete_checkpoint_def checkpoint_refs_def keyed_delete)
  qed
qed

lemma delete_capture_refs: "checkpoint_refs s \<Longrightarrow> checkpoint_refs (fst (delete_capture i s))"
proof -
  assume refs: "checkpoint_refs s"
  show "checkpoint_refs (fst (delete_capture i s))"
  proof (cases "map_of (st_captures s) i \<noteq> None \<and> list_ex (\<lambda>c. lk_CaptureID c = i) (rows (st_checkpoints s))")
    case True
    with refs show ?thesis by (simp add: delete_capture_def)
  next
    case False
    have unused: "lk_CaptureID k \<noteq> i" if k: "map_of (st_checkpoints s) j = Some k" for j k
    proof
      assume i: "lk_CaptureID k = i"
      with refs k have "map_of (st_captures s) i \<noteq> None" by (auto simp: checkpoint_refs_def backed_def)
      with False row_in_rows [OF k] i show False by (auto simp: list_ex_iff)
    qed
    let ?t = "s\<lparr>st_captures := AList.delete i (st_captures s)\<rparr>"
    have "backed ?t" using refs unused unfolding checkpoint_refs_def backed_def by auto
    with refs False show ?thesis
      by (auto simp: delete_capture_def checkpoint_refs_def keyed_delete all_rows_delete own_capture_def pointed_def)
  qed
qed

lemma drop_checkpoint_thinned: "thinned (fst (drop_checkpoint g s)) s"
  using thinned_deletes(1) [of "gi_CheckpointID g" s] by (simp add: drop_checkpoint_def split: option.split)

lemma drop_capture_thinned: "thinned (fst (drop_capture g s)) s"
  using thinned_deletes(2) [of "gi_CaptureID g" s] by (simp add: drop_capture_def split: option.split)

lemma drop_refs:
  assumes "checkpoint_refs s"
  shows "checkpoint_refs (fst (drop_checkpoint g s))" and "checkpoint_refs (fst (drop_capture g s))"
  using assms delete_checkpoint_refs [OF assms, of "gi_CheckpointID g"] delete_capture_refs [OF assms, of "gi_CaptureID g"]
  by (simp_all add: drop_checkpoint_def drop_capture_def split: option.split)

text \<open>A sealed checkpoint and its capture can be dropped.\<close>

lemma drop_sealed:
  assumes "sealed g s" and "gi_CheckpointID g \<noteq> []" and "checkpoint_refs s"
  shows "snd (drop_checkpoint g s) = ok"
    and "map_of (st_checkpoints (fst (drop_checkpoint g s))) (gi_CheckpointID g) = None"
    and "snd (drop_capture g (fst (drop_checkpoint g s))) = ok"
proof -
  have free: "\<not> list_ex (\<lambda>p. p = gi_CheckpointID g) (rows (st_pointers s))"
    using assms(1) by (simp add: sealed_def referenced_def)
  have match: "lk_CaptureID k = gi_CaptureID g" if "map_of (st_checkpoints s) (gi_CheckpointID g) = Some k" for k
    using that assms(1) unfolding sealed_def by blast
  show "snd (drop_checkpoint g s) = ok"
    using free match by (simp add: drop_checkpoint_def delete_checkpoint_def split: option.split)
  show gone: "map_of (st_checkpoints (fst (drop_checkpoint g s))) (gi_CheckpointID g) = None"
    using free match assms(2)
    by (cases "map_of (st_checkpoints s) (gi_CheckpointID g)") (simp_all add: drop_checkpoint_def delete_checkpoint_def)
  let ?t = "fst (drop_checkpoint g s)"
  have wf: "wf_tbl (st_checkpoints ?t)"
    using drop_refs(1) [OF assms(3)] by (simp add: checkpoint_refs_def keyed_by_def)
  have "lk_CaptureID k \<noteq> gi_CaptureID g" if "map_of (st_checkpoints ?t) i = Some k" for i k
  proof
    assume cap: "lk_CaptureID k = gi_CaptureID g"
    from that have "map_of (st_checkpoints s) i = Some k"
      using fewer_row [of ?t s i k] drop_checkpoint_thinned [of g s] by (simp add: thinned_def)
    with assms(1) cap have "i = gi_CheckpointID g" by (simp add: sealed_def)
    with gone that show False by simp
  qed
  then have "\<not> list_ex (\<lambda>k. lk_CaptureID k = gi_CaptureID g) (rows (st_checkpoints ?t))"
    by (auto simp: list_ex_iff in_rows_iff [OF wf])
  then show "snd (drop_capture g ?t) = ok"
    by (simp add: drop_capture_def delete_capture_def split: option.split)
qed

lemma complete_cases:
  fixes g :: CheckpointGCIntent and s :: store
  assumes "checkpoint_refs s"
  obtains (refused) r where "Store_CompleteCheckpointCollection g s = (s, r)"
  | (removed) c t where "map_of (st_intents s) (gi_CaptureID g) = Some c" and "gi_Phase c = ''deleting''"
      and "Store_CompleteCheckpointCollection g s = (t, ok)" and "collected c s t"
proof (cases "map_of (st_intents s) (gi_CaptureID g)")
  case None
  show thesis
    by (rule refused [of "snd (Store_CompleteCheckpointCollection g s)"])
      (simp add: Store_CompleteCheckpointCollection_def None split: option.split)
next
  case (Some c)
  note eq = Store_CompleteCheckpointCollection_def Some
  obtain t x where t: "drop_checkpoint c s = (t, x)" by (cases "drop_checkpoint c s")
  obtain u y where u: "drop_capture c t = (u, y)" by (cases "drop_capture c t")
  show thesis
  proof (cases "sameCheckpointGCIntent c g \<and> gi_Phase c = ''deleting'' \<and> x = ok \<and> y = ok")
    case True
    then have done_eq: "Store_CompleteCheckpointCollection g s =
        ((bury c u)\<lparr>st_intents := AList.delete (gi_CaptureID c) (st_intents u)\<rparr>, ok)"
      by (simp add: eq t u)
    have thin: "thinned u s"
      using drop_checkpoint_thinned [of c s] drop_capture_thinned [of c t] t u by (auto intro: thinned_trans)
    have refs: "checkpoint_refs u" using drop_refs(1) [OF assms, of c] drop_refs(2) [of t c] t u by simp
    have gone: "map_of (st_checkpoints u) (gi_CheckpointID c) = None" if "sealed c s" "gi_CheckpointID c \<noteq> []"
      using drop_sealed(2) [OF that assms] t u drop_capture_thinned [of c t] fewer_none [of u t]
      by (simp add: thinned_def)
    from thin refs gone have "collected c s ((bury c u)\<lparr>st_intents := AList.delete (gi_CaptureID c) (st_intents u)\<rparr>)"
      unfolding collected_def by blast
    with Some True done_eq show thesis by (intro removed) auto
  next
    case False
    have "fst (Store_CompleteCheckpointCollection g s) = s"
      using False by (auto simp: eq t u split: sum.split)
    then show thesis by (intro refused) (simp add: prod_eq_iff)
  qed
qed

lemma bury_fields [simp]:
  "st_checkpoints (bury g s) = st_checkpoints s" "st_captures (bury g s) = st_captures s"
  "st_pointers (bury g s) = st_pointers s" "st_operations (bury g s) = st_operations s"
  "st_conts (bury g s) = st_conts s" "st_intents (bury g s) = st_intents s"
  "st_sandboxes (bury g s) = st_sandboxes s" "st_grants (bury g s) = st_grants s" "st_setups (bury g s) = st_setups s"
  by (simp_all add: bury_def)

lemma bury_tombstone:
  "map_of (st_tombstones (bury g s)) c = Some t \<Longrightarrow>
     map_of (st_tombstones s) c = Some t \<or>
     c = gi_CaptureID g \<and> (\<forall>cid. tb_CheckpointID t = Some cid \<longrightarrow> cid = gi_CheckpointID g \<and> cid \<noteq> [])"
  by (auto simp: bury_def split: if_splits)

lemma gc_ok_collected:
  assumes "gc_ok s" and "collected c s t" and "map_of (st_intents s) i = Some c" and "gi_Phase c = ''deleting''"
  shows "gc_ok t"
proof -
  obtain u where u: "thinned u s"
    "sealed c s \<Longrightarrow> gi_CheckpointID c \<noteq> [] \<Longrightarrow> map_of (st_checkpoints u) (gi_CheckpointID c) = None"
    "t = (bury c u)\<lparr>st_intents := AList.delete (gi_CaptureID c) (st_intents u)\<rparr>"
    using assms(2) unfolding collected_def by blast
  from gc_ok_thinned [OF assms(1) u(1)] have ok: "gc_ok u" .
  have seal: "sealed g t = sealed g u" for g
    by (simp add: u(3) sealed_def referenced_def rooted_by_operation_def)
  have "intents_sealed t" "intents_keyed t"
    using ok seal by (auto simp: gc_ok_def intents_sealed_def intents_keyed_def u(3) split: if_splits)
  moreover have "collected_gone t"
    unfolding collected_gone_def
  proof (intro allI impI)
    fix k b cid assume b: "map_of (st_tombstones t) k = Some b" "tb_CheckpointID b = Some cid"
    then have "map_of (st_tombstones u) k = Some b \<or> cid = gi_CheckpointID c \<and> cid \<noteq> []"
      using bury_tombstone [of c u k b] by (auto simp: u(3))
    moreover have "gi_CheckpointID c \<noteq> [] \<Longrightarrow> sealed c s"
      using assms(1,3,4) by (simp add: gc_ok_def intents_sealed_def)
    ultimately show "map_of (st_checkpoints t) cid = None"
      using ok b(2) u(2) by (auto simp: u(3) gc_ok_def collected_gone_def)
  qed
  ultimately show ?thesis by (simp add: gc_ok_def)
qed

lemma gc_ok_complete:
  assumes "gc_ok s" and "checkpoint_refs s"
  shows "gc_ok (fst (Store_CompleteCheckpointCollection g s))"
  by (rule complete_cases [OF assms(2), where g = g]) (use assms(1) gc_ok_collected in auto)

lemma refs_complete:
  assumes "checkpoint_refs s"
  shows "checkpoint_refs (fst (Store_CompleteCheckpointCollection g s))"
proof (rule complete_cases [OF assms, where g = g])
  fix r assume "Store_CompleteCheckpointCollection g s = (s, r)"
  with assms show ?thesis by simp
next
  fix c t assume "Store_CompleteCheckpointCollection g s = (t, ok)" "collected c s t"
  then show ?thesis
    by (auto simp: collected_def checkpoint_refs_def backed_def own_capture_def pointed_def)
qed

text \<open>A confirmed collection of a checkpoint is completed at the first try.\<close>

lemma complete_removes:
  assumes "gc_ok s" and "checkpoint_refs s" and "map_of (st_intents s) c = Some g"
    and "gi_Phase g = ''deleting''" and "gi_CheckpointID g \<noteq> []"
  shows "\<exists>t. Store_CompleteCheckpointCollection g s = (t, ok) \<and> map_of (st_checkpoints t) (gi_CheckpointID g) = None \<and>
    map_of (st_intents t) c = None \<and> map_of (st_tombstones t) c \<noteq> None"
proof -
  have key: "gi_CaptureID g = c" and seal: "sealed g s"
    using assms by (auto simp: gc_ok_def intents_keyed_def intents_sealed_def)
  obtain t where t: "drop_checkpoint g s = (t, ok)" "map_of (st_checkpoints t) (gi_CheckpointID g) = None"
    "snd (drop_capture g t) = ok"
    using drop_sealed [OF seal assms(5,2)] by (metis prod.collapse)
  then obtain u where u: "drop_capture g t = (u, ok)" by (metis prod.collapse)
  have gone: "map_of (st_checkpoints u) (gi_CheckpointID g) = None"
    using drop_capture_thinned [of g t] u t(2) fewer_none [of u t] by (simp add: thinned_def)
  have "Store_CompleteCheckpointCollection g s = ((bury g u)\<lparr>st_intents := AList.delete c (st_intents u)\<rparr>, ok)"
    using assms(3,4) t(1) u by (simp add: Store_CompleteCheckpointCollection_def key sameCheckpointGCIntent_def)
  with gone show ?thesis by (auto simp: bury_def key)
qed

end
