(* ===== verification/Store_Run.thy ===== *)
theory Store_Run
  imports Store_Setup Store_Retention Store_Gc_Laws
begin

text \<open>
  Runs of the store: any sequence of the modelled operations, refused and failed ones included,
  in which a method that runs two statements may be interrupted by any other run between them. Shown by
  rule induction: the integrity of the tables, the conditions on every row, and that the row of a
  continuity operation keeps its fence for ever and moves along the allowed transitions only.
\<close>

inductive store_run :: "(string \<Rightarrow> string option) \<Rightarrow> store \<Rightarrow> store \<Rightarrow> bool" for digestOf where
  idle: "store_run digestOf s s"
| later: "store_run digestOf s t \<Longrightarrow> store_run digestOf t u \<Longrightarrow> store_run digestOf s u"
| put_sandbox: "store_run digestOf s (fst (Store_PutSandbox b s))"
| delete_sandbox: "store_run digestOf s (fst (Store_DeleteSandbox i s))"
| put_grant: "store_run digestOf s (fst (Store_PutGrant g s))"
| delete_grant: "store_run digestOf s (fst (Store_DeleteGrant i s))"
| put_setup: "store_run digestOf s (between s) \<Longrightarrow> store_run digestOf s (fst (Store_PutSetupOperation between v s))"
| setup_transition: "store_run digestOf s (between s) \<Longrightarrow>
    store_run digestOf s (fst (Store_TransitionSetupOperation digestOf between i status receipt code msg s))"
| put_operation: "store_run digestOf s (between s) \<Longrightarrow>
    store_run digestOf s (fst (Store_PutContinuityOperation between p s))"
| operation_transition: "store_run digestOf s (fst (Store_TransitionContinuityOperation i tr s))"
| put_capture: "store_run digestOf s (between s) \<Longrightarrow>
    store_run digestOf s (fst (Store_PutContinuityCapture now between c s))"
| set_policy: "store_run digestOf s (fst (Store_SetCheckpointPolicy i q s))"
| accept_checkpoint: "store_run digestOf s (fst (Store_AcceptCheckpoint now k s))"
| retention: "store_run digestOf s (fst (Store_ApplyCheckpointRetention i now s))"
| put_preparation: "store_run digestOf s (between s) \<Longrightarrow>
    store_run digestOf s (fst (Store_PutContinuationPreparation between prep s))"
| complete_preparation: "store_run digestOf s (between s) \<Longrightarrow>
    store_run digestOf s (fst (Store_CompleteContinuationPreparation deepPreparation between i prepReport s))"
| put_release: "store_run digestOf s (between s) \<Longrightarrow>
    store_run digestOf s (fst (Store_PutContinuationRelease between rel s))"
| complete_release: "store_run digestOf s (between s) \<Longrightarrow>
    store_run digestOf s (fst (Store_CompleteContinuationRelease between i relReport s))"
| put_handoff: "store_run digestOf s (between s) \<Longrightarrow>
    store_run digestOf s (fst (Store_PutContinuationHandoffPreparation between hand s))"
| handoff_phase: "store_run digestOf s (between s) \<Longrightarrow>
    store_run digestOf s (fst (Store_SetContinuationHandoffPhase between i phase sel s))"
| complete_handoff: "store_run digestOf s (gaps 3 s) \<Longrightarrow> store_run digestOf s (gaps 2 (gaps 1 (gaps 0 s))) \<Longrightarrow>
    store_run digestOf s (gaps 3 (gaps 2 (gaps 1 (gaps 0 s)))) \<Longrightarrow>
    store_run digestOf s (fst (Store_CompleteContinuationHandoffPreparation deepHandoff gaps i sel handReport s))"
| put_handoff_release: "store_run digestOf s (between s) \<Longrightarrow>
    store_run digestOf s (fst (Store_PutContinuationHandoffRelease between hrel s))"
| complete_handoff_release: "store_run digestOf s (between s) \<Longrightarrow>
    store_run digestOf s (fst (Store_CompleteContinuationHandoffRelease between i hrelReport s))"
| put_restore: "store_run digestOf s (between s) \<Longrightarrow>
    store_run digestOf s (fst (Store_PutRestoreOperation between rest s))"
| complete_restore: "store_run digestOf s (between s) \<Longrightarrow>
    store_run digestOf s (fst (Store_CompleteRestoreOperation deepRestore between i restReport s))"
| plan_collection: "store_run digestOf s (fst (Store_PlanCheckpointCollection (\<lambda>s. s) now grace limit s))"
| confirm_collection: "store_run digestOf s (fst (Store_ConfirmCheckpointCollection gi s))"
| complete_collection: "store_run digestOf s (fst (Store_CompleteCheckpointCollection gi s))"

text \<open>
  The plan reads its result after its transaction, so that a disturbed plan is an undisturbed one and a
  later run. The gaps of a completed handoff are the places between its statements.
\<close>

text \<open>A run may be continued by an undisturbed operation.\<close>

lemma run_then:
  assumes "store_run digestOf s t"
  shows "store_run digestOf s (fst (Store_PutSandbox b t))"
    and "store_run digestOf s (fst (put_setup v t))"
    and "store_run digestOf s (fst (put_operation p t))"
    and "store_run digestOf s (fst (Store_TransitionContinuityOperation i tr t))"
    and "store_run digestOf s (fst (put_capture now c t))"
    and "store_run digestOf s (fst (Store_AcceptCheckpoint now k t))"
    and "store_run digestOf s (fst (Store_SetCheckpointPolicy i q t))"
  using assms store_run.put_sandbox [of digestOf t b] store_run.put_setup [of digestOf t "\<lambda>s. s" v]
    store_run.put_operation [of digestOf t "\<lambda>s. s" p] store_run.operation_transition [of digestOf t i tr]
    store_run.put_capture [of digestOf t "\<lambda>s. s" now c] store_run.accept_checkpoint [of digestOf t now k]
    store_run.set_policy [of digestOf t i q] store_run.idle [of digestOf t]
  by (auto intro: store_run.later)

section \<open>What an operation leaves alone\<close>

definition box_part :: "store \<Rightarrow> LocalSandbox tbl \<times> LocalGrant tbl \<times> LocalSetupOperation tbl" where
  "box_part s = (st_sandboxes s, st_grants s, st_setups s)"

definition checkpoint_part :: "store \<Rightarrow> LocalContinuityCapture tbl \<times> LocalCheckpoint tbl \<times> string tbl" where
  "checkpoint_part s = (st_captures s, st_checkpoints s, st_pointers s)"

lemma box_cong: "box_part t = box_part s \<Longrightarrow> sandbox_refs t = sandbox_refs s \<and> st_setups t = st_setups s"
  by (simp add: box_part_def sandbox_refs_def)

lemma checkpoint_cong: "checkpoint_part t = checkpoint_part s \<Longrightarrow> checkpoint_refs t = checkpoint_refs s"
  by (simp add: checkpoint_part_def checkpoint_refs_def backed_def own_capture_def pointed_def)

lemma put_sandbox_frame:
  "st_operations (fst (Store_PutSandbox b s)) = st_operations s"
  "checkpoint_part (fst (Store_PutSandbox b s)) = checkpoint_part s"
  "st_setups (fst (Store_PutSandbox b s)) = st_setups s"
  by (simp_all add: Store_PutSandbox_def checkpoint_part_def)

lemma delete_sandbox_frame:
  "st_operations (fst (Store_DeleteSandbox i s)) = st_operations s"
  "checkpoint_part (fst (Store_DeleteSandbox i s)) = checkpoint_part s"
  by (simp_all add: Store_DeleteSandbox_def checkpoint_part_def)

lemma grant_frame:
  "st_operations (fst (Store_PutGrant g s)) = st_operations s"
  "checkpoint_part (fst (Store_PutGrant g s)) = checkpoint_part s"
  "st_setups (fst (Store_PutGrant g s)) = st_setups s"
  "st_operations (fst (Store_DeleteGrant i s)) = st_operations s"
  "checkpoint_part (fst (Store_DeleteGrant i s)) = checkpoint_part s"
  "st_setups (fst (Store_DeleteGrant i s)) = st_setups s"
  by (simp_all add: Store_PutGrant_def Store_DeleteGrant_def checkpoint_part_def)

definition rest_of_setup :: "store \<Rightarrow> LocalContinuityOperation tbl \<times> LocalContinuityCapture tbl \<times> LocalCheckpoint tbl \<times> string tbl" where
  "rest_of_setup s = (st_operations s, checkpoint_part s)"

lemma put_setup_frame:
  "rest_of_setup (fst (Store_PutSetupOperation between v s)) \<in> {rest_of_setup s, rest_of_setup (between s)}"
  by (auto simp: Store_PutSetupOperation_def Let_def rest_of_setup_def checkpoint_part_def split: option.split)

lemma setup_transition_frame:
  "rest_of_setup (fst (Store_TransitionSetupOperation digestOf between i status receipt code msg s)) \<in>
     {rest_of_setup s, rest_of_setup (between s)}"
  by (rule setup_transition_keeps [where P = "\<lambda>t. rest_of_setup t \<in> {rest_of_setup s, rest_of_setup (between s)}"])
    (simp_all add: rest_of_setup_def checkpoint_part_def)

lemma put_operation_frame:
  "(box_part (fst (Store_PutContinuityOperation between p s)), checkpoint_part (fst (Store_PutContinuityOperation between p s)))
     \<in> {(box_part s, checkpoint_part s), (box_part (between s), checkpoint_part (between s))}"
  by (auto simp: Store_PutContinuityOperation_def Let_def box_part_def checkpoint_part_def split: option.split)

lemma operation_transition_frame:
  "box_part (fst (Store_TransitionContinuityOperation i tr s)) = box_part s"
  "checkpoint_part (fst (Store_TransitionContinuityOperation i tr s)) = checkpoint_part s"
  by (simp_all add: Store_TransitionContinuityOperation_def box_part_def checkpoint_part_def split: option.split)

definition rest_of_checkpoints ::
  "store \<Rightarrow> LocalContinuityOperation tbl \<times> LocalSandbox tbl \<times> LocalGrant tbl \<times> LocalSetupOperation tbl" where
  "rest_of_checkpoints s = (st_operations s, box_part s)"

lemma insert_capture_frame: "rest_of_checkpoints (fst (insert_capture v s)) = rest_of_checkpoints s"
  by (cases v s rule: insert_capture_cases) (simp_all add: rest_of_checkpoints_def box_part_def)

lemma put_capture_frame:
  "rest_of_checkpoints (fst (Store_PutContinuityCapture now between c s)) \<in> {rest_of_checkpoints s, rest_of_checkpoints (between s)}"
  by (simp add: put_capture_eq insert_capture_frame split: option.split)

lemma set_policy_frame:
  "rest_of_checkpoints (fst (Store_SetCheckpointPolicy i q s)) = rest_of_checkpoints s"
  "checkpoint_part (fst (Store_SetCheckpointPolicy i q s)) = checkpoint_part s"
  by (simp_all add: Store_SetCheckpointPolicy_def rest_of_checkpoints_def box_part_def checkpoint_part_def)

lemma accept_frame: "rest_of_checkpoints (fst (Store_AcceptCheckpoint now k s)) = rest_of_checkpoints s"
  by (cases now k s rule: accept_cases) (simp_all add: rest_of_checkpoints_def box_part_def)

lemma retention_loop_frame:
  "rest_of_checkpoints (fst (retention_loop prot cutoff r removed cs s)) = rest_of_checkpoints s"
proof (induction cs arbitrary: r removed s)
  case Nil
  then show ?case by simp
next
  case (Cons c cs)
  then show ?case
    by (auto simp: delete_checkpoint_def delete_capture_def rest_of_checkpoints_def box_part_def)
qed

lemma retention_frame: "rest_of_checkpoints (fst (Store_ApplyCheckpointRetention i now s)) = rest_of_checkpoints s"
  by (simp add: Store_ApplyCheckpointRetention_def Let_def retention_loop_frame)

lemmas rest_frames = put_capture_frame set_policy_frame(1) accept_frame retention_frame

lemma rest_box: "rest_of_checkpoints t = rest_of_checkpoints s \<Longrightarrow>
    sandbox_refs t = sandbox_refs s \<and> st_setups t = st_setups s \<and> st_operations t = st_operations s"
  by (simp add: rest_of_checkpoints_def box_part_def sandbox_refs_def)

lemma rest_setup: "rest_of_setup t = rest_of_setup s \<Longrightarrow>
    st_operations t = st_operations s \<and> checkpoint_refs t = checkpoint_refs s"
  using checkpoint_cong [of t s] by (simp add: rest_of_setup_def)

text \<open>The tables the continuations and the collection leave alone.\<close>

definition base_part ::
  "store \<Rightarrow> (LocalSandbox tbl \<times> LocalGrant tbl \<times> LocalSetupOperation tbl) \<times> LocalContinuityOperation tbl \<times>
     LocalContinuityCapture tbl \<times> LocalCheckpoint tbl \<times> string tbl" where
  "base_part s = (box_part s, st_operations s, checkpoint_part s)"

lemmas base_defs = base_part_def box_part_def checkpoint_part_def

lemma base_with_conts [simp]: "base_part (with_conts s c) = base_part s" "base_part (s\<lparr>st_intents := g\<rparr>) = base_part s"
  by (simp_all add: base_defs)

lemma preparation_frame:
  "base_part (fst (Store_PutContinuationPreparation between v s)) \<in> {base_part s, base_part (between s)}"
  "base_part (fst (Store_CompleteContinuationPreparation deep between i r s)) \<in> {base_part s, base_part (between s)}"
  by (simp_all add: Store_PutContinuationPreparation_def Store_CompleteContinuationPreparation_def Let_def split: option.split)

lemma release_frame:
  "base_part (fst (Store_PutContinuationRelease between v s)) \<in> {base_part s, base_part (between s)}"
  "base_part (fst (Store_CompleteContinuationRelease between i r s)) \<in> {base_part s, base_part (between s)}"
  by (simp_all add: Store_PutContinuationRelease_def Store_CompleteContinuationRelease_def Let_def split: option.split)

lemma handoff_release_frame:
  "base_part (fst (Store_PutContinuationHandoffRelease between v s)) \<in> {base_part s, base_part (between s)}"
  "base_part (fst (Store_CompleteContinuationHandoffRelease between i r s)) \<in> {base_part s, base_part (between s)}"
  by (simp_all add: Store_PutContinuationHandoffRelease_def Store_CompleteContinuationHandoffRelease_def Let_def split: option.split)

lemma restore_frame:
  "base_part (fst (Store_PutRestoreOperation between v s)) \<in> {base_part s, base_part (between s)}"
  "base_part (fst (Store_CompleteRestoreOperation deep between i r s)) \<in> {base_part s, base_part (between s)}"
  by (simp_all add: Store_PutRestoreOperation_def Store_CompleteRestoreOperation_def Let_def split: option.split)

lemma handoff_frame:
  "base_part (fst (Store_PutContinuationHandoffPreparation between v s)) \<in> {base_part s, base_part (between s)}"
  "base_part (fst (Store_SetContinuationHandoffPhase between i phase sel s)) \<in> {base_part s, base_part (between s)}"
  by (simp_all add: Store_PutContinuationHandoffPreparation_def Store_SetContinuationHandoffPhase_def Let_def split: option.split)

lemma answer_frame: "base_part (fst (answer_handoff i sel source r u)) = base_part u"
  by (simp add: answer_handoff_def split: option.split)

lemma complete_handoff_frame:
  "base_part (fst (Store_CompleteContinuationHandoffPreparation deep gaps i sel r s)) \<in>
     {base_part s, base_part (gaps 3 s), base_part (gaps 2 (gaps 1 (gaps 0 s))), base_part (gaps 3 (gaps 2 (gaps 1 (gaps 0 s))))}"
  by (simp add: Store_CompleteContinuationHandoffPreparation_def Let_def answer_frame split: option.split)

lemmas conts_frames = preparation_frame release_frame handoff_release_frame restore_frame handoff_frame

lemma plan_frame: "base_part (fst (Store_PlanCheckpointCollection (\<lambda>s. s) now grace limit s)) = base_part s"
proof (cases "\<lambda>s :: store. s" now grace limit s rule: plan_cases)
  case (plan t found)
  have "t = s\<lparr>st_intents := st_intents t\<rparr>" using plan(2) by (simp add: planned_more_def)
  then have "base_part t = base_part s" by (metis base_with_conts(2))
  with plan(1) show ?thesis by simp
qed simp

lemma confirm_frame: "base_part (fst (Store_ConfirmCheckpointCollection g s)) = base_part s"
  by (rule confirm_cases [where g = g and s = s]) simp_all

lemma complete_collection_frame:
  "rest_of_checkpoints (fst (Store_CompleteCheckpointCollection g s)) = rest_of_checkpoints s"
proof -
  have drops: "rest_of_checkpoints (fst (drop_checkpoint c s)) = rest_of_checkpoints s"
    "rest_of_checkpoints (fst (drop_capture c s)) = rest_of_checkpoints s" for c s
    by (simp_all add: drop_checkpoint_def drop_capture_def delete_checkpoint_def delete_capture_def
        rest_of_checkpoints_def box_part_def split: option.split)
  have bury: "rest_of_checkpoints ((bury c u)\<lparr>st_intents := x\<rparr>) = rest_of_checkpoints u" for c u x
    by (simp add: rest_of_checkpoints_def box_part_def)
  show ?thesis
    using drops bury unfolding Store_CompleteCheckpointCollection_def
    by (auto split: option.split prod.split sum.split) (metis fst_conv)+
qed

section \<open>Integrity of every run\<close>

definition store_core :: "store \<Rightarrow> bool" where
  "store_core s \<longleftrightarrow>
     sandbox_refs s \<and> all_rows setup_row_ok (st_setups s) \<and> all_rows operation_row_ok (st_operations s) \<and> checkpoint_refs s"

lemma base_cong: "base_part t = base_part s \<Longrightarrow> store_core t = store_core s \<and> st_operations t = st_operations s"
  using box_cong [of t s] checkpoint_cong [of t s] by (auto simp: base_part_def store_core_def)

lemma core_frame: "base_part t \<in> {base_part s, base_part u} \<Longrightarrow> store_core s \<Longrightarrow> store_core u \<Longrightarrow> store_core t"
  using base_cong [of t s] base_cong [of t u] by auto

lemma store_core_empty: "store_core empty_store"
  using sandbox_refs_empty checkpoint_refs_empty by (simp add: store_core_def) (simp add: empty_store_def)

lemma setup_rows_delete_sandbox:
  "sandbox_refs s \<Longrightarrow> all_rows setup_row_ok (st_setups s) \<Longrightarrow>
     all_rows setup_row_ok (st_setups (fst (Store_DeleteSandbox i s)))"
  by (auto simp: Store_DeleteSandbox_def sandbox_refs_def intro!: all_rows_keep_rows keyed_wf)

lemma store_core_run: "store_run digestOf s t \<Longrightarrow> store_core s \<Longrightarrow> store_core t"
proof (induction rule: store_run.induct)
  case (put_sandbox s b)
  then show ?case
    using checkpoint_cong [OF put_sandbox_frame(2)] by (simp add: store_core_def put_sandbox_frame sandbox_refs_PutSandbox)
next
  case (delete_sandbox s i)
  then show ?case
    using checkpoint_cong [OF delete_sandbox_frame(2)]
    by (simp add: store_core_def delete_sandbox_frame sandbox_refs_DeleteSandbox setup_rows_delete_sandbox)
next
  case (put_grant s g)
  then show ?case
    using checkpoint_cong [OF grant_frame(2)] by (simp add: store_core_def grant_frame sandbox_refs_PutGrant)
next
  case (delete_grant s i)
  then show ?case
    using checkpoint_cong [OF grant_frame(5)] by (simp add: store_core_def grant_frame sandbox_refs_DeleteGrant)
next
  case (put_setup s between v)
  then have "store_core (between s)" by blast
  moreover have "store_core s" by fact
  ultimately show ?case
    using put_setup_frame [of between v s]
    by (auto simp: store_core_def sandbox_refs_put_setup setup_rows_put dest!: rest_setup)
next
  case (setup_transition s between i status receipt code msg)
  then have "store_core (between s)" by blast
  moreover have "store_core s" by fact
  ultimately show ?case
    using setup_transition_frame [of digestOf between i status receipt code msg s]
    by (auto simp: store_core_def sandbox_refs_setup_transition setup_rows_transition dest!: rest_setup)
next
  case (put_operation s between p)
  then have "store_core (between s)" by blast
  moreover have "store_core s" by fact
  ultimately show ?case
    using put_operation_frame [of between p s]
    by (auto simp: store_core_def operation_rows_put dest!: box_cong checkpoint_cong)
next
  case (operation_transition s i tr)
  then show ?case
    using box_cong [OF operation_transition_frame(1)] checkpoint_cong [OF operation_transition_frame(2)]
    by (simp add: store_core_def operation_rows_transition)
next
  case (put_capture s between now c)
  then have "store_core (between s)" by blast
  moreover have "store_core s" by fact
  ultimately show ?case
    using put_capture_frame [of now between c s]
    by (auto simp: store_core_def checkpoint_refs_put_capture dest!: rest_box)
next
  case (set_policy s i q)
  then show ?case
    using checkpoint_cong [OF set_policy_frame(2)] rest_box [OF set_policy_frame(1)] by (simp add: store_core_def)
next
  case (accept_checkpoint s now k)
  then show ?case using rest_box [OF accept_frame] by (simp add: store_core_def checkpoint_refs_accept)
next
  case (retention s i now)
  then have refs: "checkpoint_refs s" by (simp add: store_core_def)
  have "checkpoint_refs (fst (Store_ApplyCheckpointRetention i now s))"
    by (simp add: retention_eq(1) [OF refs] retention_eq(2) [OF refs])
  with retention rest_box [OF retention_frame, of i now s] show ?case by (simp add: store_core_def)
next
  case (plan_collection s now grace limit)
  then show ?case using base_cong [OF plan_frame] by simp
next
  case (confirm_collection s gi)
  then show ?case using base_cong [OF confirm_frame] by simp
next
  case (complete_collection s gi)
  then show ?case using rest_box [OF complete_collection_frame, of gi s] by (simp add: store_core_def refs_complete)
next
  case (complete_handoff s gaps deepHandoff i sel handReport)
  then show ?case using complete_handoff_frame [of deepHandoff gaps i sel handReport s] by (auto dest!: base_cong)
qed ((rule conts_frames [THEN core_frame], assumption, blast) | blast)+

section \<open>The life of a continuity operation\<close>

definition succeeds :: "LocalContinuityOperation \<Rightarrow> LocalContinuityOperation \<Rightarrow> bool" where
  "succeeds r q \<longleftrightarrow> operation_same q r \<and> lo_Deadline q = lo_Deadline r \<and>
     validContinuityTransition\<^sup>*\<^sup>* (lo_State r) (lo_State q)"

lemma succeeds_refl [simp]: "succeeds r r"
  by (simp add: succeeds_def operation_same_def Identity_Equal_iff)

lemma succeeds_trans: "succeeds r q \<Longrightarrow> succeeds q p \<Longrightarrow> succeeds r p"
  by (auto simp: succeeds_def operation_same_def Identity_Equal_iff)

definition row_kept :: "store \<Rightarrow> store \<Rightarrow> bool" where
  "row_kept s t \<longleftrightarrow> (\<forall>i r. map_of (st_operations s) i = Some r \<longrightarrow> (\<exists>q. map_of (st_operations t) i = Some q \<and> succeeds r q))"

lemma row_kept_refl [simp]: "row_kept s s"
  by (auto simp: row_kept_def)

lemma row_kept_trans: "row_kept s t \<Longrightarrow> row_kept t u \<Longrightarrow> row_kept s u"
  unfolding row_kept_def by (meson succeeds_trans)

lemma row_kept_cong: "st_operations t = st_operations u \<Longrightarrow> row_kept s u \<Longrightarrow> row_kept s t"
  by (simp add: row_kept_def)

lemma row_kept_frame: "base_part t \<in> {base_part s, base_part u} \<Longrightarrow> row_kept s u \<Longrightarrow> row_kept s t"
  using base_cong [of t s] base_cong [of t u] row_kept_refl [of s] by (auto intro: row_kept_cong)

lemma row_kept_put:
  assumes "row_kept s (between s)"
  shows "row_kept s (fst (Store_PutContinuityOperation between p s))"
proof -
  have "fst (Store_PutContinuityOperation between p s) \<in> {s, between s} \<or>
      map_of (st_operations s) (lo_ID p) = None \<and>
      fst (Store_PutContinuityOperation between p s) =
        s\<lparr>st_operations := AList.update (lo_ID p) (operation_fresh p) (st_operations s)\<rparr>"
    by (simp add: Store_PutContinuityOperation_def Let_def split: option.split)
  with assms show ?thesis by (auto simp: row_kept_def)
qed

lemma row_kept_transition: "row_kept s (fst (Store_TransitionContinuityOperation i tr s))"
proof (cases "snd (Store_TransitionContinuityOperation i tr s)")
  case (Inl e)
  then have "fst (Store_TransitionContinuityOperation i tr s) = s"
    by (metis operation_transition_failed prod.collapse)
  then show ?thesis by simp
next
  case (Inr u)
  then have "Store_TransitionContinuityOperation i tr s = (fst (Store_TransitionContinuityOperation i tr s), ok)"
    by (simp add: prod_eq_iff)
  from iffD1 [OF operation_transition_ok_iff this] obtain r where r:
    "validContinuityTransition (lo_State r) (ct_To tr)" "map_of (st_operations s) i = Some r"
    "fst (Store_TransitionContinuityOperation i tr s) =
       s\<lparr>st_operations := AList.update i (apply_transition tr r) (st_operations s)\<rparr>" by metis
  have "succeeds r (apply_transition tr r)"
    using r(1) by (simp add: succeeds_def operation_same_def Identity_Equal_iff apply_transition_def)
  with r(2,3) show ?thesis by (simp add: row_kept_def)
qed

lemma row_kept_run: "store_run digestOf s t \<Longrightarrow> row_kept s t"
proof (induction rule: store_run.induct)
  case (later s t u)
  then show ?case by (blast intro: row_kept_trans)
next
  case (put_setup s between v)
  then show ?case using put_setup_frame [of between v s] row_kept_refl [of s]
    by (auto dest!: rest_setup intro: row_kept_cong)
next
  case (setup_transition s between i status receipt code msg)
  then show ?case using setup_transition_frame [of digestOf between i status receipt code msg s] row_kept_refl [of s]
    by (auto dest!: rest_setup intro: row_kept_cong)
next
  case (put_operation s between p)
  then show ?case by (blast intro: row_kept_put)
next
  case (operation_transition s i tr)
  show ?case by (rule row_kept_transition)
next
  case (put_capture s between now c)
  then show ?case using put_capture_frame [of now between c s] row_kept_refl [of s]
    by (auto dest!: rest_box intro: row_kept_cong)
next
  case (set_policy s i q)
  show ?case using rest_box [OF set_policy_frame(1)] by (auto intro: row_kept_cong)
next
  case (accept_checkpoint s now k)
  show ?case using rest_box [OF accept_frame] by (auto intro: row_kept_cong)
next
  case (retention s i now)
  show ?case using rest_box [OF retention_frame] by (auto intro: row_kept_cong)
next
  case (plan_collection s now grace limit)
  show ?case using base_cong [OF plan_frame] by (auto intro: row_kept_cong)
next
  case (confirm_collection s gi)
  show ?case using base_cong [OF confirm_frame] by (auto intro: row_kept_cong)
next
  case (complete_collection s gi)
  show ?case using rest_box [OF complete_collection_frame] by (auto intro: row_kept_cong)
next
  case (complete_handoff s gaps deepHandoff i sel handReport)
  then show ?case using complete_handoff_frame [of deepHandoff gaps i sel handReport s] row_kept_refl [of s]
    by (auto dest!: base_cong intro: row_kept_cong)
qed ((rule conts_frames [THEN row_kept_frame], assumption) |
    (rule row_kept_cong, simp add: put_sandbox_frame delete_sandbox_frame grant_frame, simp) | simp)+

end
