(* ===== verification/Store_Invariants.thy ===== *)
theory Store_Invariants
  imports Store_Run
begin

text \<open>
  What every run of the store keeps, beyond the integrity of its base tables: the tuples that are answered
  once keep their manifests and answers, a source belongs to one handoff, and the collection of a
  checkpoint that has been confirmed is never undone by another operation.
\<close>

section \<open>Continuations\<close>

definition conts_step :: "store \<Rightarrow> store \<Rightarrow> bool" where
  "conts_step s t \<longleftrightarrow>
     conts_kept (st_conts s) (st_conts t) \<and> conts_refine (st_conts s) (st_conts t) \<and> conts_ok (st_conts t)"

lemma conts_step_refl: "conts_ok (st_conts s) \<Longrightarrow> conts_step s s"
  by (simp add: conts_step_def)

lemma conts_step_trans: "conts_step s t \<Longrightarrow> conts_step t u \<Longrightarrow> conts_step s u"
  unfolding conts_step_def by (blast intro: conts_kept_trans conts_refine_trans)

lemma conts_step_same: "st_conts t = st_conts u \<Longrightarrow> conts_step s u \<Longrightarrow> conts_step s t"
  by (simp add: conts_step_def)

lemma conts_step_one: "st_conts t \<in> {st_conts s, st_conts u} \<Longrightarrow> conts_ok (st_conts s) \<Longrightarrow> conts_step s u \<Longrightarrow> conts_step s t"
  by (auto simp: conts_step_def)

lemma conts_step_change: "t = s \<or> cont_change u t \<Longrightarrow> conts_ok (st_conts s) \<Longrightarrow> conts_step s u \<Longrightarrow> conts_step s t"
  unfolding conts_step_def
  using cont_change_kept [of u t] cont_change_refines [of u t] cont_change_ok [of u t] conts_kept_trans conts_refine_trans
  by auto

lemma conts_untouched:
  "st_conts (fst (Store_PutSandbox b s)) = st_conts s" "st_conts (fst (Store_DeleteSandbox i s)) = st_conts s"
  "st_conts (fst (Store_PutGrant g s)) = st_conts s" "st_conts (fst (Store_DeleteGrant i s)) = st_conts s"
  "st_conts (fst (Store_TransitionContinuityOperation i tr s)) = st_conts s"
  "st_conts (fst (Store_SetCheckpointPolicy i q s)) = st_conts s"
  "st_conts (fst (Store_AcceptCheckpoint now k s)) = st_conts s"
  "st_conts (fst (Store_ApplyCheckpointRetention i now s)) = st_conts s"
  "st_conts (fst (Store_PlanCheckpointCollection (\<lambda>s. s) now grace limit s)) = st_conts s"
  "st_conts (fst (Store_ConfirmCheckpointCollection gi s)) = st_conts s"
proof -
  show "st_conts (fst (Store_PutSandbox b s)) = st_conts s" "st_conts (fst (Store_DeleteSandbox i s)) = st_conts s"
    "st_conts (fst (Store_PutGrant g s)) = st_conts s" "st_conts (fst (Store_DeleteGrant i s)) = st_conts s"
    "st_conts (fst (Store_TransitionContinuityOperation i tr s)) = st_conts s"
    "st_conts (fst (Store_SetCheckpointPolicy i q s)) = st_conts s"
    by (simp_all add: Store_PutSandbox_def Store_DeleteSandbox_def Store_PutGrant_def Store_DeleteGrant_def
        Store_TransitionContinuityOperation_def Store_SetCheckpointPolicy_def split: option.split)
  show "st_conts (fst (Store_AcceptCheckpoint now k s)) = st_conts s"
    by (cases now k s rule: accept_cases) simp_all
  show "st_conts (fst (Store_ApplyCheckpointRetention i now s)) = st_conts s"
    unfolding Store_ApplyCheckpointRetention_def Let_def using thinned_retention_loop by (simp add: thinned_def)
  show "st_conts (fst (Store_ConfirmCheckpointCollection gi s)) = st_conts s"
    by (rule confirm_cases [where g = gi and s = s]) simp_all
  show "st_conts (fst (Store_PlanCheckpointCollection (\<lambda>s. s) now grace limit s)) = st_conts s"
  proof (cases "\<lambda>s :: store. s" now grace limit s rule: plan_cases)
    case (plan t found)
    have "t = s\<lparr>st_intents := st_intents t\<rparr>" using plan(2) by (simp add: planned_more_def)
    then have "st_conts t = st_conts (s\<lparr>st_intents := st_intents t\<rparr>)" by (rule arg_cong)
    with plan(1) show ?thesis by simp
  qed simp
qed

lemma conts_disturbed:
  "st_conts (fst (Store_PutSetupOperation between v s)) \<in> {st_conts s, st_conts (between s)}"
  "st_conts (fst (Store_TransitionSetupOperation digestOf between i status receipt code msg s)) \<in> {st_conts s, st_conts (between s)}"
  "st_conts (fst (Store_PutContinuityOperation between p s)) \<in> {st_conts s, st_conts (between s)}"
  "st_conts (fst (Store_PutContinuityCapture now between c s)) \<in> {st_conts s, st_conts (between s)}"
proof -
  show "st_conts (fst (Store_PutSetupOperation between v s)) \<in> {st_conts s, st_conts (between s)}"
    "st_conts (fst (Store_PutContinuityOperation between p s)) \<in> {st_conts s, st_conts (between s)}"
    by (simp_all add: Store_PutSetupOperation_def Store_PutContinuityOperation_def Let_def split: option.split)
  show "st_conts (fst (Store_TransitionSetupOperation digestOf between i status receipt code msg s)) \<in> {st_conts s, st_conts (between s)}"
    by (rule setup_transition_keeps [where P = "\<lambda>t. st_conts t \<in> {st_conts s, st_conts (between s)}"]) simp_all
  have "st_conts (fst (insert_capture w u)) = st_conts u" for w u
    by (cases w u rule: insert_capture_cases) simp_all
  then show "st_conts (fst (Store_PutContinuityCapture now between c s)) \<in> {st_conts s, st_conts (between s)}"
    by (simp add: put_capture_eq split: option.split)
qed

lemma conts_complete_collection:
  assumes "checkpoint_refs s"
  shows "st_conts (fst (Store_CompleteCheckpointCollection g s)) = st_conts s"
  by (rule complete_cases [OF assms, where g = g]) (auto simp: collected_def thinned_def)

lemma conts_changes:
  assumes "conts_step s (between s)"
  shows "fst (Store_PutContinuationPreparation between v1 s) = s \<or>
      cont_change (between s) (fst (Store_PutContinuationPreparation between v1 s))"
    and "fst (Store_CompleteContinuationPreparation d1 between i r1 s) = s \<or>
      cont_change (between s) (fst (Store_CompleteContinuationPreparation d1 between i r1 s))"
    and "fst (Store_PutContinuationRelease between v2 s) = s \<or>
      cont_change (between s) (fst (Store_PutContinuationRelease between v2 s))"
    and "fst (Store_CompleteContinuationRelease between i r2 s) = s \<or>
      cont_change (between s) (fst (Store_CompleteContinuationRelease between i r2 s))"
    and "fst (Store_PutContinuationHandoffPreparation between v3 s) = s \<or>
      cont_change (between s) (fst (Store_PutContinuationHandoffPreparation between v3 s))"
    and "fst (Store_SetContinuationHandoffPhase between i phase sel s) = s \<or>
      cont_change (between s) (fst (Store_SetContinuationHandoffPhase between i phase sel s))"
    and "fst (Store_PutContinuationHandoffRelease between v4 s) = s \<or>
      cont_change (between s) (fst (Store_PutContinuationHandoffRelease between v4 s))"
    and "fst (Store_CompleteContinuationHandoffRelease between i r4 s) = s \<or>
      cont_change (between s) (fst (Store_CompleteContinuationHandoffRelease between i r4 s))"
    and "fst (Store_PutRestoreOperation between v5 s) = s \<or>
      cont_change (between s) (fst (Store_PutRestoreOperation between v5 s))"
    and "fst (Store_CompleteRestoreOperation d5 between i r5 s) = s \<or>
      cont_change (between s) (fst (Store_CompleteRestoreOperation d5 between i r5 s))"
  using assms unfolding conts_step_def
  by (intro put_preparation_change complete_preparation_change put_release_change complete_release_change
      put_handoff_change set_handoff_phase_change put_handoff_release_change complete_handoff_release_change
      put_restore_change complete_restore_change; simp)+

lemma conts_run: "store_run digestOf s t \<Longrightarrow> store_core s \<Longrightarrow> conts_ok (st_conts s) \<Longrightarrow> conts_step s t"
proof (induction rule: store_run.induct)
  case (later s t u)
  then have "conts_step s t" by blast
  moreover from this later have "conts_step t u" by (simp add: conts_step_def store_core_run)
  ultimately show ?case by (rule conts_step_trans)
next
  case (complete_handoff s gaps deepHandoff i sel handReport)
  then show ?case
    using complete_handoff_change [of s gaps deepHandoff i sel handReport]
    by (auto simp: conts_step_def dest: cont_change_kept cont_change_ok cont_change_refines
        intro: conts_kept_trans conts_refine_trans)
next
  case (complete_collection s gi)
  then show ?case
    by (intro conts_step_same [OF conts_complete_collection conts_step_refl]) (simp_all add: store_core_def)
qed ((rule conts_step_same [OF _ conts_step_refl], simp_all add: conts_untouched; fail) |
    (rule conts_step_one [OF conts_disturbed(1)], assumption, blast) |
    (rule conts_step_one [OF conts_disturbed(2)], assumption, blast) |
    (rule conts_step_one [OF conts_disturbed(3)], assumption, blast) |
    (rule conts_step_one [OF conts_disturbed(4)], assumption, blast) |
    (rule conts_step_change, rule conts_changes, blast, assumption, blast) | simp add: conts_step_refl)+

section \<open>The collection\<close>

text \<open>The tables the invariant of the collection speaks of.\<close>

definition gc_view ::
  "store \<Rightarrow> LocalContinuityOperation tbl \<times> LocalCheckpoint tbl \<times> string tbl \<times> CheckpointGCIntent tbl \<times>
     gc_tombstone tbl \<times> continuation_tables" where
  "gc_view s = (st_operations s, st_checkpoints s, st_pointers s, st_intents s, st_tombstones s, st_conts s)"

lemma gc_ok_view:
  assumes "gc_view t = gc_view s" and "gc_ok s"
  shows "gc_ok t"
proof -
  have same: "st_operations t = st_operations s" "st_checkpoints t = st_checkpoints s" "st_pointers t = st_pointers s"
    "st_intents t = st_intents s" "st_tombstones t = st_tombstones s" "st_conts t = st_conts s"
    using assms(1) by (simp_all add: gc_view_def)
  have "sealed g t = sealed g s" for g
    by (simp add: sealed_def referenced_def rooted_by_operation_def same)
  with assms(2) show ?thesis
    by (simp add: gc_ok_def intents_keyed_def intents_sealed_def collected_gone_def same)
qed

lemma gc_ok_one: "gc_view t \<in> {gc_view s, gc_view u} \<Longrightarrow> gc_ok s \<Longrightarrow> gc_ok u \<Longrightarrow> gc_ok t"
  using gc_ok_view [of t s] gc_ok_view [of t u] by auto

lemma gc_untouched:
  "gc_view (fst (Store_PutSandbox b s)) = gc_view s" "gc_view (fst (Store_DeleteSandbox i s)) = gc_view s"
  "gc_view (fst (Store_PutGrant g s)) = gc_view s" "gc_view (fst (Store_DeleteGrant i s)) = gc_view s"
  "gc_view (fst (Store_SetCheckpointPolicy i q s)) = gc_view s"
  by (simp_all add: gc_view_def Store_PutSandbox_def Store_DeleteSandbox_def Store_PutGrant_def Store_DeleteGrant_def
      Store_SetCheckpointPolicy_def)

lemma gc_disturbed:
  "gc_view (fst (Store_PutSetupOperation between v s)) \<in> {gc_view s, gc_view (between s)}"
  "gc_view (fst (Store_TransitionSetupOperation digestOf between i status receipt code msg s)) \<in> {gc_view s, gc_view (between s)}"
  "gc_view (fst (Store_PutContinuityCapture now between c s)) \<in> {gc_view s, gc_view (between s)}"
proof -
  show "gc_view (fst (Store_PutSetupOperation between v s)) \<in> {gc_view s, gc_view (between s)}"
    by (simp add: gc_view_def Store_PutSetupOperation_def Let_def split: option.split)
  show "gc_view (fst (Store_TransitionSetupOperation digestOf between i status receipt code msg s)) \<in> {gc_view s, gc_view (between s)}"
    by (rule setup_transition_keeps [where P = "\<lambda>t. gc_view t \<in> {gc_view s, gc_view (between s)}"]) (simp_all add: gc_view_def)
  have "gc_view (fst (insert_capture w u)) = gc_view u" for w u
    by (cases w u rule: insert_capture_cases) (simp_all add: gc_view_def)
  then show "gc_view (fst (Store_PutContinuityCapture now between c s)) \<in> {gc_view s, gc_view (between s)}"
    by (simp add: put_capture_eq split: option.split)
qed

lemma gc_ok_plan: "gc_ok s \<Longrightarrow> gc_ok (fst (Store_PlanCheckpointCollection (\<lambda>s. s) now grace limit s))"
  by (cases "\<lambda>s :: store. s" now grace limit s rule: plan_cases) (auto dest: gc_ok_planned)

lemma gc_ok_change: "t = s \<or> cont_change u t \<Longrightarrow> gc_ok s \<Longrightarrow> gc_ok u \<Longrightarrow> conts_ok (st_conts u) \<Longrightarrow> gc_ok t"
  using gc_ok_conts by blast

lemma gc_run:
  "store_run digestOf s t \<Longrightarrow> store_core s \<Longrightarrow> conts_ok (st_conts s) \<Longrightarrow> gc_ok s \<Longrightarrow> gc_ok t"
proof (induction rule: store_run.induct)
  case (later s t u)
  then have "gc_ok t" "conts_ok (st_conts t)" "store_core t"
    using conts_run [OF later.hyps(1)] store_core_run [OF later.hyps(1)] by (auto simp: conts_step_def)
  with later show ?case by blast
next
  case (put_operation s between p)
  then show ?case by (intro gc_ok_put_operation)
next
  case (operation_transition s i tr)
  then show ?case by (intro gc_ok_operation_transition)
next
  case (accept_checkpoint s now k)
  then show ?case by (intro gc_ok_accept)
next
  case (retention s i now)
  then show ?case by (intro gc_ok_retention)
next
  case (plan_collection s now grace limit)
  then show ?case by (intro gc_ok_plan)
next
  case (confirm_collection s gi)
  then show ?case by (intro gc_ok_confirm) (simp_all add: store_core_def)
next
  case (complete_collection s gi)
  then show ?case by (intro gc_ok_complete) (simp_all add: store_core_def)
next
  case (complete_handoff s gaps deepHandoff i sel handReport)
  from conts_run [OF complete_handoff.hyps(1)] conts_run [OF complete_handoff.hyps(3)] complete_handoff.prems
  have steps: "conts_step s (gaps 3 s)" "conts_step s (gaps 3 (gaps 2 (gaps 1 (gaps 0 s))))" by blast+
  then show ?case
    using complete_handoff_change [of s gaps deepHandoff i sel handReport] complete_handoff
    by (auto simp: conts_step_def dest: gc_ok_conts)
qed ((rule gc_ok_view, simp add: gc_untouched; fail) |
    (rule gc_ok_one, rule gc_disturbed, assumption, blast) |
    (rule gc_ok_change, rule conts_changes, rule conts_run, assumption, assumption, assumption, assumption, blast,
      metis conts_run conts_step_def) | simp add: gc_untouched gc_ok_view)+

section \<open>All of it\<close>

definition store_ok :: "store \<Rightarrow> bool" where
  "store_ok s \<longleftrightarrow> store_core s \<and> conts_ok (st_conts s) \<and> gc_ok s"

lemma store_ok_empty: "store_ok empty_store"
  using store_core_empty gc_ok_empty conts_ok_empty by (simp add: store_ok_def) (simp add: empty_store_def)

lemma store_ok_run: "store_run digestOf s t \<Longrightarrow> store_ok s \<Longrightarrow> store_ok t"
  using store_core_run conts_run gc_run unfolding store_ok_def conts_step_def by blast

lemma store_kept_run: "store_run digestOf s t \<Longrightarrow> store_ok s \<Longrightarrow> conts_kept (st_conts s) (st_conts t)"
  using conts_run unfolding store_ok_def conts_step_def by blast

lemma store_refines_run: "store_run digestOf s t \<Longrightarrow> store_ok s \<Longrightarrow> conts_refine (st_conts s) (st_conts t)"
  using conts_run unfolding store_ok_def conts_step_def by blast

section \<open>Tombstones\<close>

text \<open>A tombstone is never changed or removed.\<close>

definition tombs_kept :: "store \<Rightarrow> store \<Rightarrow> bool" where
  "tombs_kept s t \<longleftrightarrow> map_of (st_tombstones s) \<subseteq>\<^sub>m map_of (st_tombstones t)"

lemma tombs_refl [simp]: "st_tombstones t = st_tombstones s \<Longrightarrow> tombs_kept s t"
  by (simp add: tombs_kept_def)

lemma tombs_trans: "tombs_kept s t \<Longrightarrow> tombs_kept t u \<Longrightarrow> tombs_kept s u"
  unfolding tombs_kept_def by (rule map_le_trans)

lemma tombs_view: "gc_view t = gc_view s \<Longrightarrow> tombs_kept s t"
  by (simp add: gc_view_def)

lemma tombs_one: "gc_view t \<in> {gc_view s, gc_view u} \<Longrightarrow> tombs_kept s u \<Longrightarrow> tombs_kept s t"
  by (auto simp: gc_view_def tombs_kept_def)

lemma tombs_change: "t = s \<or> cont_change u t \<Longrightarrow> tombs_kept s u \<Longrightarrow> tombs_kept s t"
  using cont_change_tombs [of u t] by (auto simp: tombs_kept_def)

lemma tombs_own:
  "st_tombstones (fst (Store_TransitionContinuityOperation i tr s)) = st_tombstones s"
  "st_tombstones (fst (Store_AcceptCheckpoint now k s)) = st_tombstones s"
  "st_tombstones (fst (Store_ApplyCheckpointRetention i now s)) = st_tombstones s"
  "st_tombstones (fst (Store_PlanCheckpointCollection (\<lambda>s. s) now grace limit s)) = st_tombstones s"
  "st_tombstones (fst (Store_ConfirmCheckpointCollection gi s)) = st_tombstones s"
proof -
  show "st_tombstones (fst (Store_TransitionContinuityOperation i tr s)) = st_tombstones s"
    by (simp add: Store_TransitionContinuityOperation_def split: option.split)
  show "st_tombstones (fst (Store_AcceptCheckpoint now k s)) = st_tombstones s"
    by (cases now k s rule: accept_cases) simp_all
  show "st_tombstones (fst (Store_ApplyCheckpointRetention i now s)) = st_tombstones s"
    unfolding Store_ApplyCheckpointRetention_def Let_def using thinned_retention_loop by (simp add: thinned_def)
  show "st_tombstones (fst (Store_ConfirmCheckpointCollection gi s)) = st_tombstones s"
    by (rule confirm_cases [where g = gi and s = s]) simp_all
  show "st_tombstones (fst (Store_PlanCheckpointCollection (\<lambda>s. s) now grace limit s)) = st_tombstones s"
  proof (cases "\<lambda>s :: store. s" now grace limit s rule: plan_cases)
    case (plan t found)
    have "t = s\<lparr>st_intents := st_intents t\<rparr>" using plan(2) by (simp add: planned_more_def)
    then have "st_tombstones t = st_tombstones (s\<lparr>st_intents := st_intents t\<rparr>)" by (rule arg_cong)
    with plan(1) show ?thesis by simp
  qed simp
qed

lemma tombs_bury: "map_of (st_tombstones s) \<subseteq>\<^sub>m map_of (st_tombstones (bury g s))"
  by (auto simp: bury_def map_le_def)

lemma tombs_complete:
  assumes "checkpoint_refs s"
  shows "tombs_kept s (fst (Store_CompleteCheckpointCollection g s))"
proof (rule complete_cases [OF assms, where g = g])
  fix c t assume "Store_CompleteCheckpointCollection g s = (t, ok)" "collected c s t"
  then obtain u where u: "thinned u s" "t = (bury c u)\<lparr>st_intents := AList.delete (gi_CaptureID c) (st_intents u)\<rparr>"
    and eq: "Store_CompleteCheckpointCollection g s = (t, ok)" unfolding collected_def by blast
  from u(1) tombs_bury [of u c] have "map_of (st_tombstones s) \<subseteq>\<^sub>m map_of (st_tombstones (bury c u))"
    by (simp add: thinned_def)
  with u(2) eq show ?thesis by (simp add: tombs_kept_def)
qed simp

lemma tombs_put_operation: "tombs_kept s (between s) \<Longrightarrow> tombs_kept s (fst (Store_PutContinuityOperation between p s))"
  by (simp add: Store_PutContinuityOperation_def Let_def split: option.split)

lemma tombs_run: "store_run digestOf s t \<Longrightarrow> store_ok s \<Longrightarrow> tombs_kept s t"
proof (induction rule: store_run.induct)
  case (later s t u)
  then show ?case using store_ok_run tombs_trans by blast
next
  case (put_operation s between p)
  then show ?case by (intro tombs_put_operation)
next
  case (complete_collection s gi)
  then show ?case by (intro tombs_complete) (simp add: store_ok_def store_core_def)
next
  case (complete_handoff s gaps deepHandoff i sel handReport)
  have "conts_step s (gaps 3 s)" "conts_step s (gaps 3 (gaps 2 (gaps 1 (gaps 0 s))))"
    using conts_run complete_handoff by (simp_all add: store_ok_def)
  then show ?case
    using complete_handoff_change [of s gaps deepHandoff i sel handReport] complete_handoff
    by (auto simp: conts_step_def tombs_kept_def dest: cont_change_tombs)
qed ((rule tombs_refl, simp add: tombs_own; fail) |
    (rule tombs_view, simp add: gc_untouched; fail) |
    (rule tombs_one, rule gc_disturbed, blast) |
    (rule tombs_change, rule conts_changes, rule conts_run, assumption, simp add: store_ok_def, simp add: store_ok_def, blast))+

end
