(* ===== verification/Store_Properties.thy ===== *)
theory Store_Properties
  imports Store_Invariants
begin

text \<open>
  The properties of the local store, each with a witness on a concrete database: integrity of every run, the life
  of a continuity operation, the immutable fences, the fenced transitions, the quota of captures,
  the acceptance and the retention of checkpoints.
\<close>

section \<open>A concrete database\<close>

definition ex_work :: ContinuityIdentityV1 where
  "ex_work = \<lparr>ci_WorkID = ''work1'', ci_ProjectID = ''proj1'', ci_SandboxID = ''sbx_alpha0001'',
     ci_WorkspaceEpoch = ''epoch1'', ci_SandboxGeneration = 3, ci_TaskID = None, ci_TaskAttempt = None,
     ci_ExpectedRevision = 5\<rparr>"

definition ex_row :: LocalSandbox where
  "ex_row = \<lparr>ls_ID = ''sbx_alpha0001'', ls_Name = ''alpha'', ls_DesiredState = ''running'', ls_ObservedState = ''running'',
     ls_Generation = 3, ls_ObservedGeneration = 3, ls_Lifetime = ''persistent'', ls_ExpiresInSeconds = None,
     ls_StartedAt = None, ls_ExpiresAt = None,
     ls_Resources = \<lparr>r_CPUMillicores = 1000, r_MemoryMiB = 512, r_WorkspaceDiskGiB = 10, r_PIDs = 256\<rparr>,
     ls_ImageDigest = [], ls_ErrorCode = [], ls_ErrorMessage = [], ls_CellReady = False, ls_Cell = False\<rparr>"

definition ex_setup_row :: "string \<Rightarrow> LocalSetupOperation" where
  "ex_setup_row body = \<lparr>lso_ID = ''setup-1'', lso_SandboxID = ''sbx_alpha0001'', lso_SandboxGeneration = 3,
     lso_ProfileID = ''opencode'', lso_ProfileRevision = 2, lso_ProfileDigest = ''pd'', lso_DesiredRevision = 7,
     lso_BodyDigest = body, lso_RequestJSON = ''{}'', lso_State = ''pending'', lso_ReceiptJSON = [],
     lso_ReceiptDigest = [], lso_ErrorCode = [], lso_ErrorMessage = []\<rparr>"

definition ex_operation :: LocalContinuityOperation where
  "ex_operation = \<lparr>lo_ID = ''op1_capture'', lo_Kind = ''capture'', lo_Identity = ex_work, lo_RequestDigest = ''rd'',
     lo_State = ''pending'', lo_Deadline = 5, lo_PauseOwned = False, lo_PauseGeneration = 0,
     lo_PauseLifecycleRevision = 0, lo_CaptureID = [], lo_CheckpointID = [], lo_ErrorCode = [], lo_ErrorMessage = []\<rparr>"

definition ex_step :: "string \<Rightarrow> string \<Rightarrow> ContinuityTransition" where
  "ex_step a b = \<lparr>ct_From = a, ct_To = b, ct_PauseOwned = False, ct_PauseGeneration = 0,
     ct_PauseLifecycleRevision = 0, ct_CaptureID = [], ct_CheckpointID = [], ct_ErrorCode = [], ct_ErrorMessage = []\<rparr>"

text \<open>January 1, 2026.\<close>

definition ex_now :: gotime where "ex_now = 63902822400 * 1000000000"

definition ex_cap :: "string \<Rightarrow> int \<Rightarrow> LocalContinuityCapture" where
  "ex_cap i n = \<lparr>lc_ID = i, lc_Identity = ex_work, lc_ObjectID = i, lc_ManifestDigest = i, lc_Bytes = n,
     lc_ObjectCount = 1, lc_Verified = True, lc_CreatedAt = ex_now\<rparr>"

definition ex_point :: "string \<Rightarrow> string \<Rightarrow> gotime \<Rightarrow> LocalCheckpoint" where
  "ex_point i c t = \<lparr>lk_ID = i, lk_CaptureID = c, lk_Identity = ex_work, lk_ManifestDigest = c, lk_Bytes = 100,
     lk_ObjectCount = 1, lk_Pinned = False, lk_CreatedAt = t\<rparr>"

definition ex_db1 :: store where
  "ex_db1 = fst (put_setup (ex_setup_row ''b1'') (fst (Store_PutSandbox ex_row empty_store)))"

definition ex_db2 :: store where
  "ex_db2 = fst (put_operation ex_operation ex_db1)"

definition ex_captures :: store where
  "ex_captures = fst (put_capture ex_now (ex_cap ''c3'' 100) (fst (put_capture ex_now (ex_cap ''c2'' 100)
     (fst (put_capture ex_now (ex_cap ''c1'' 100) empty_store)))))"

text \<open>Three checkpoints of one Work, the third its current one, in a sandbox that may keep two.\<close>

definition ex_db3 :: store where
  "ex_db3 = fst (Store_AcceptCheckpoint ex_now (ex_point ''k3'' ''c3'' (ex_now + seconds 10))
     (fst (Store_AcceptCheckpoint ex_now (ex_point ''k2'' ''c2'' (ex_now + 500000000))
     (fst (Store_AcceptCheckpoint ex_now (ex_point ''k1'' ''c1'' ex_now) ex_captures)))))"

definition ex_db4 :: store where
  "ex_db4 = fst (Store_SetCheckpointPolicy ''sbx_alpha0001''
     \<lparr>cp_MaxBytes = 1000, cp_MaxPerBox = 2, cp_MaxAge = seconds 3600\<rparr> ex_db3)"


lemma ex_db4_run: "store_run digestOf empty_store ex_db4"
  unfolding ex_db4_def ex_db3_def ex_captures_def by (intro run_then store_run.idle)

lemma ex_db4_refs: "checkpoint_refs ex_db4"
  using store_ok_run [OF ex_db4_run store_ok_empty] by (simp add: store_ok_def store_core_def)

section \<open>Runs\<close>



text \<open>
  C11. The row of a continuity operation is never lost and never changes its fence: after
  any run of the store it is there with the same kind, identity, request digest and
  deadline, its state was reached along the allowed transitions, and a state that is
  captured, succeeded or failed is final.
\<close>

theorem operation_life:
  assumes "store_run digestOf s t" and "Store_ContinuityOperation i s = Some r"
  shows "\<exists>q. Store_ContinuityOperation i t = Some q \<and> lo_Kind q = lo_Kind r \<and> lo_Identity q = lo_Identity r \<and>
    lo_RequestDigest q = lo_RequestDigest r \<and> lo_Deadline q = lo_Deadline r \<and>
    validContinuityTransition\<^sup>*\<^sup>* (lo_State r) (lo_State q) \<and>
    (lo_State r \<in> {''captured'', ''succeeded'', ''failed''} \<longrightarrow> lo_State q = lo_State r)"
proof -
  from row_kept_run [OF assms(1)] assms(2) obtain q where q: "Store_ContinuityOperation i t = Some q" "succeeds r q"
    by (auto simp: row_kept_def Store_ContinuityOperation_def)
  have "lo_State q = lo_State r" if "lo_State r \<in> {''captured'', ''succeeded'', ''failed''}"
  proof -
    from that have "operation_rank (lo_State r) = 0" by (auto simp: operation_rank_def)
    then show ?thesis using q(2) operation_states.final unfolding succeeds_def by (metis converse_rtranclpE)
  qed
  with q show ?thesis by (auto simp: succeeds_def operation_same_def Identity_Equal_iff)
qed

theorem operation_life_witness:
  "\<exists>q. Store_ContinuityOperation ''op1_capture''
      (fst (Store_TransitionContinuityOperation ''op1_capture'' (ex_step ''pending'' ''capturing'') ex_db2)) = Some q \<and>
    lo_Deadline q = 5 \<and> validContinuityTransition\<^sup>*\<^sup>* ''pending'' (lo_State q)"
proof -
  have row: "Store_ContinuityOperation ''op1_capture'' ex_db2 = Some ex_operation" by code_simp
  from operation_life [OF store_run.operation_transition [of "\<lambda>_. None" ex_db2 "''op1_capture''"
      "ex_step ''pending'' ''capturing''"] row]
  show ?thesis by (auto simp: ex_operation_def)
qed

text \<open>
  C37. However many transitions are requested of a continuity operation, at most five are
  accepted, no state is entered twice, and the row ends in the last state entered.
\<close>

theorem transitions_terminate:
  assumes "Store_ContinuityOperation i s = Some r" and "run_transitions i trs s = (u, entered)"
  shows "length entered \<le> 5 \<and> distinct (lo_State r # entered) \<and>
    (\<exists>q. Store_ContinuityOperation i u = Some q \<and> lo_State q = last (lo_State r # entered))"
proof -
  have h: "history validContinuityTransition (lo_State r) entered"
    and q: "\<exists>q. Store_ContinuityOperation i u = Some q \<and> lo_State q = last (lo_State r # entered)"
    using run_transitions_history [of s i r trs u entered] assms by (auto simp: Store_ContinuityOperation_def)
  from operation_states.history_length [OF h] operation_rank_le [of "lo_State r"] operation_states.history_distinct [OF h] q
  show ?thesis by simp
qed

definition ex_requests :: "ContinuityTransition list" where
  "ex_requests = [ex_step ''pending'' ''pausing'', ex_step ''pending'' ''failed'', ex_step ''pausing'' ''paused'',
     ex_step ''paused'' ''capturing'', ex_step ''capturing'' ''captured'', ex_step ''captured'' ''failed'']"

theorem transitions_terminate_witness:
  "snd (run_transitions ''op1_capture'' ex_requests ex_db2) = [''pausing'', ''paused'', ''capturing'', ''captured''] \<and>
   (\<exists>q. Store_ContinuityOperation ''op1_capture'' (fst (run_transitions ''op1_capture'' ex_requests ex_db2)) = Some q \<and>
     lo_State q = ''captured'')"
proof -
  have row: "Store_ContinuityOperation ''op1_capture'' ex_db2 = Some ex_operation" by code_simp
  have run: "run_transitions ''op1_capture'' ex_requests ex_db2 = (fst (run_transitions ''op1_capture'' ex_requests ex_db2),
      snd (run_transitions ''op1_capture'' ex_requests ex_db2))" by simp
  have e: "snd (run_transitions ''op1_capture'' ex_requests ex_db2) = [''pausing'', ''paused'', ''capturing'', ''captured'']"
    by code_simp
  with transitions_terminate [OF row run] show ?thesis by simp
qed

section \<open>Setup operations\<close>

text \<open>
  Once the insertion of a setup operation has been accepted, whatever insertions follow:
  repeating it is accepted and changes nothing, and another operation under the same id is
  accepted only if it carries the same fence (sandbox, generation, profile, body and
  request).
\<close>

theorem setup_fence_immutable:
  assumes "put_setup r s = (t, ok)" and "lso_ID q = lso_ID r"
  shows "put_setup r (foldl (\<lambda>s r. fst (put_setup r s)) t rs) = (foldl (\<lambda>s r. fst (put_setup r s)) t rs, ok) \<and>
    (snd (put_setup q (foldl (\<lambda>s r. fst (put_setup r s)) t rs)) = ok \<longrightarrow> setup_same r q)"
  using setup_fence.put_retry [OF assms(1), of rs] setup_fence.put_conflict [OF assms, of rs] setup_same_trans by blast

theorem setup_fence_immutable_witness:
  "snd (put_setup (ex_setup_row ''b1'') ex_db1) = ok \<and> snd (put_setup (ex_setup_row ''b2'') ex_db1) \<noteq> ok"
proof -
  have first: "put_setup (ex_setup_row ''b1'') (fst (Store_PutSandbox ex_row empty_store)) = (ex_db1, ok)"
    unfolding ex_db1_def by code_simp
  have "\<not> setup_same (ex_setup_row ''b1'') (ex_setup_row ''b2'')" by code_simp
  with setup_fence_immutable [OF first, of "ex_setup_row ''b2''" "[]"] show ?thesis by (simp add: ex_setup_row_def)
qed

text \<open>
  A transition of a setup operation is accepted exactly when the row it read exists and
  allows it, nobody moved the row between the read and the update, and a receipt is given
  for the state ready; interruptions cannot make it skip a state.
\<close>

theorem setup_transition_accepted:
  "snd (Store_TransitionSetupOperation digestOf between i status receipt code msg s) = ok \<longleftrightarrow>
     (\<exists>a r. Store_SetupOperation i s = Some a \<and> Store_SetupOperation i (between s) = Some r \<and>
        lso_State r = lso_State a \<and> setup_allowed (lso_State r) status \<and> \<not> (status = ''ready'' \<and> receipt = []))"
  unfolding Store_TransitionSetupOperation_def Let_def Store_SetupOperation_def by (auto split: option.split)

section \<open>Captures and checkpoints\<close>

text \<open>
  CheckpointBudget is exact: a new capture that the tables admit and that has not been
  collected is stored exactly when its size is at most the budget reported for its sandbox,
  and afterwards the sandbox is within its quota, provided that the sum of the sizes stays
  within 64 bits.
\<close>

theorem capture_budget_exact:
  assumes "checkpoint_refs s" and "capture_checks v s" and "\<not> capture_collected (stamped now v) s"
    and "Store_CheckpointBudget (ci_SandboxID (lc_Identity v)) s = Inr b"
    and "0 < cp_MaxBytes (checkpointPolicy (ci_SandboxID (lc_Identity v)) s)"
    and "cp_MaxBytes (checkpointPolicy (ci_SandboxID (lc_Identity v)) s) \<le> max64"
    and "used_bytes (ci_SandboxID (lc_Identity v)) s + lc_Bytes v \<le> max64" and "0 < lc_Bytes v"
  shows "(snd (put_capture now v s) = ok \<longleftrightarrow> lc_Bytes v \<le> b) \<and>
    (snd (put_capture now v s) = ok \<longrightarrow> used_bytes (ci_SandboxID (lc_Identity v)) (fst (put_capture now v s)) \<le>
       cp_MaxBytes (checkpointPolicy (ci_SandboxID (lc_Identity v)) (fst (put_capture now v s))))"
proof -
  have none: "map_of (st_captures s) (lc_ID v) = None" using assms(2) by (simp add: capture_checks_def)
  then have put: "put_capture now v s = insert_capture (stamped now v) s" by (simp add: put_capture_eq)
  have "used_bytes (ci_SandboxID (lc_Identity v)) (fst (insert_capture (stamped now v) s)) \<le>
      cp_MaxBytes (checkpointPolicy (ci_SandboxID (lc_Identity v)) (fst (insert_capture (stamped now v) s)))"
    if "snd (insert_capture (stamped now v) s) = ok"
    using insert_capture_quota [OF assms(1), of "stamped now v" "fst (insert_capture (stamped now v) s)"] assms(7) that
    by (simp add: prod_eq_iff)
  with put_capture_budget [OF assms(1-5) assms(7,6,8)] put show ?thesis by simp
qed

theorem capture_budget_exact_witness:
  "Store_CheckpointBudget ''sbx_alpha0001'' ex_db4 = Inr 700 \<and> snd (put_capture ex_now (ex_cap ''c4'' 700) ex_db4) = ok \<and>
   snd (put_capture ex_now (ex_cap ''c4'' 701) ex_db4) \<noteq> ok"
proof -
  have b: "Store_CheckpointBudget ''sbx_alpha0001'' ex_db4 = Inr 700" by code_simp
  have c: "capture_checks (ex_cap ''c4'' 700) ex_db4" "\<not> capture_collected (stamped ex_now (ex_cap ''c4'' 700)) ex_db4"
    "capture_checks (ex_cap ''c4'' 701) ex_db4" "\<not> capture_collected (stamped ex_now (ex_cap ''c4'' 701)) ex_db4"
    by code_simp+
  have m: "cp_MaxBytes (checkpointPolicy ''sbx_alpha0001'' ex_db4) = 1000" "used_bytes ''sbx_alpha0001'' ex_db4 = 300"
    by code_simp+
  have f: "ci_SandboxID (lc_Identity (ex_cap ''c4'' n)) = ''sbx_alpha0001''" "lc_Bytes (ex_cap ''c4'' n) = n" for n
    by (simp_all add: ex_cap_def ex_work_def)
  have "snd (put_capture ex_now (ex_cap ''c4'' 700) ex_db4) = ok"
    using capture_budget_exact [OF ex_db4_refs c(1,2), unfolded f m, OF b] by (simp add: max64_def)
  moreover have "snd (put_capture ex_now (ex_cap ''c4'' 701) ex_db4) \<noteq> ok"
    using capture_budget_exact [OF ex_db4_refs c(3,4), unfolded f m, OF b] by (simp add: max64_def)
  ultimately show ?thesis using b by simp
qed

text \<open>
  The quota test adds in 64 bits: with one byte stored, a capture of 2^63 - 1 bytes makes
  the sum negative and is stored, far beyond the default quota of 2^30 bytes.
\<close>

theorem capture_quota_wraps:
  "snd (put_capture ex_now (ex_cap ''c2'' (2 ^ 63 - 1)) (fst (put_capture ex_now (ex_cap ''c1'' 1) empty_store))) = ok \<and>
   used_bytes ''sbx_alpha0001'' (fst (put_capture ex_now (ex_cap ''c2'' (2 ^ 63 - 1))
     (fst (put_capture ex_now (ex_cap ''c1'' 1) empty_store)))) = 2 ^ 63"
  by code_simp

text \<open>
  When AcceptCheckpoint succeeds, the checkpoint is the current one of its Work, with the
  content given, and that content is the content of a verified capture in the store; when it
  fails, nothing changed.
\<close>

theorem accepted_checkpoint_current:
  assumes "Store_AcceptCheckpoint now v s = (t, r)"
  shows "(r = ok \<longrightarrow> (\<exists>k c. Store_AcceptedCheckpoint (ci_WorkID (lk_Identity v)) t = Some k \<and> checkpoint_same k v \<and>
      Store_ContinuityCapture (lk_CaptureID v) t = Some c \<and> matches_capture c k)) \<and> (r \<noteq> ok \<longrightarrow> t = s)"
proof (cases "r = ok")
  case True
  with accept_current [of now v s t] assms show ?thesis by (auto simp: Store_ContinuityCapture_def)
next
  case False
  with assms show ?thesis by (cases now v s rule: accept_cases) auto
qed

theorem accepted_checkpoint_current_witness:
  "\<exists>k. Store_AcceptedCheckpoint ''work1'' (fst (Store_AcceptCheckpoint ex_now (ex_point ''k1'' ''c1'' ex_now) ex_captures)) = Some k \<and>
     checkpoint_same k (ex_point ''k1'' ''c1'' ex_now)"
proof -
  have "Store_AcceptCheckpoint ex_now (ex_point ''k1'' ''c1'' ex_now) ex_captures =
      (fst (Store_AcceptCheckpoint ex_now (ex_point ''k1'' ''c1'' ex_now) ex_captures), ok)" by code_simp
  from accepted_checkpoint_current [OF this] show ?thesis by (auto simp: ex_point_def ex_work_def)
qed



text \<open>
  After the retention a sandbox holds at most the number of checkpoints its policy allows,
  unless the protected ones alone are more, and whatever is not protected is not older than
  the policy allows.
\<close>

theorem retention_bounded:
  assumes "checkpoint_refs s" and "int (length (st_checkpoints s)) < 2 ^ 63"
    and "0 < cp_MaxPerBox (checkpointPolicy sandboxID s)" and "cp_MaxPerBox (checkpointPolicy sandboxID s) \<le> max64"
  shows "int (length (checkpoints_of sandboxID (fst (Store_ApplyCheckpointRetention sandboxID now s)))) \<le>
      max (cp_MaxPerBox (checkpointPolicy sandboxID s))
        (int (length (filter (protected (st_pointers s)) (checkpoints_of sandboxID s)))) \<and>
    (\<forall>c\<in>set (checkpoints_of sandboxID (fst (Store_ApplyCheckpointRetention sandboxID now s))).
       protected (st_pointers s) c \<or> lk_CreatedAt c \<ge> now - cp_MaxAge (checkpointPolicy sandboxID s))"
  using retention_count [OF assms] retention_recent [OF assms(1)] by (auto simp: retention_eq(1) [OF assms(1)])

theorem retention_bounded_witness:
  "length (checkpoints_of ''sbx_alpha0001'' ex_db4) = 3 \<and>
   length (checkpoints_of ''sbx_alpha0001'' (fst (Store_ApplyCheckpointRetention ''sbx_alpha0001'' (ex_now + seconds 20) ex_db4))) \<le> 2"
proof -
  have m: "cp_MaxPerBox (checkpointPolicy ''sbx_alpha0001'' ex_db4) = 2"
    "length (filter (protected (st_pointers ex_db4)) (checkpoints_of ''sbx_alpha0001'' ex_db4)) = 1"
    "length (checkpoints_of ''sbx_alpha0001'' ex_db4) = 3" "length (st_checkpoints ex_db4) = 3" by code_simp+
  have "int (length (checkpoints_of ''sbx_alpha0001''
      (fst (Store_ApplyCheckpointRetention ''sbx_alpha0001'' (ex_now + seconds 20) ex_db4)))) \<le> max 2 (int 1)"
    using retention_bounded [OF ex_db4_refs, of "''sbx_alpha0001''" "ex_now + seconds 20", unfolded m]
    by (simp add: max64_def)
  with m(3) show ?thesis by simp
qed

text \<open>
  The retention orders the creation times as text, where a whole second sorts after its
  fractions: of two unprotected checkpoints of one second, in a sandbox with room for one,
  it keeps the older and removes the newer.
\<close>

theorem retention_text_order:
  "snd (Store_ApplyCheckpointRetention ''sbx_alpha0001'' (ex_now + seconds 20) ex_db4) =
     Inr [ex_point ''k2'' ''c2'' (ex_now + 500000000)] \<and>
   Store_Checkpoint ''k1'' (fst (Store_ApplyCheckpointRetention ''sbx_alpha0001'' (ex_now + seconds 20) ex_db4)) =
     Some (ex_point ''k1'' ''c1'' ex_now)"
  by code_simp

end
