(* ===== verification/Store_Collection_Properties.thy ===== *)
theory Store_Collection_Properties
  imports Store_Properties
begin

text \<open>
  The properties of continuations, handoffs, restores and of the collection of checkpoints, each with a
  witness on a concrete database: the refinement of the abstract specification, the owner of a mapped
  source, one answer per handoff, the safety and the progress of the collection, and its limit.
\<close>

section \<open>Concrete tuples\<close>

definition ex_ni :: ContinuationIdentityV1 where
  "ex_ni = \<lparr>ni_WorkID = ''work1'', ni_ProjectID = ''proj1'', ni_SandboxID = ''sbx_alpha0001'',
     ni_WorkspaceEpoch = ''epoch1'', ni_SandboxGeneration = 3, ni_ExpectedRevision = 5\<rparr>"

definition ex_nb :: ContinuationBindingRefV1 where
  "ex_nb = \<lparr>nb_BindingID = ''b1'', nb_BindingRevision = 1, nb_ScopeRevision = 1, nb_ServiceRegistrationID = ''r1'',
     nb_ServiceGeneration = 1, nb_RegisteredSourceID = ''src0'', nb_NativeSessionID = ''n1'',
     nb_NativeProjectID = ''global'', nb_NativeLocationDigest = ''ld''\<rparr>"

definition ex_nc :: "string \<Rightarrow> ContinuationCheckpointRefV1" where
  "ex_nc k = \<lparr>nc_OperationID = ''op1_capture'', nc_CheckpointID = k, nc_ManifestDigest = ''c3'', nc_Bytes = 100, nc_ObjectCount = 1\<rparr>"

definition ex_context :: ContinuationContextV1 where
  "ex_context = \<lparr>nx_Digest = ''cx'', nx_Bytes = 10, nx_TokenUpperBound = 5\<rparr>"

definition ex_restore :: RestoreManifestV1 where
  "ex_restore = \<lparr>rm_FormatVersion = 1, rm_OperationID = ''restore1'', rm_Action = ''restore'', rm_DesiredRevision = 7,
     rm_Identity = ex_ni, rm_Binding = ex_nb, rm_Checkpoint = ex_nc ''k3'',
     rm_Target = \<lparr>rt_Mode = ''new_workspace'', rt_SandboxID = ''sbx_alpha0001'', rt_SandboxGeneration = 3\<rparr>\<rparr>"

definition ex_restored :: RestoreReportV1 where
  "ex_restored = \<lparr>rp_FormatVersion = 1, rp_OperationID = ''restore1'', rp_Action = ''restore'', rp_Status = ''accepted'',
     rp_DesiredRevision = 7, rp_Identity = ex_ni, rp_Binding = ex_nb, rp_Checkpoint = ex_nc ''k3'',
     rp_Target = Some \<lparr>rs_SelectionID = ''sel1'', rs_ProjectID = ''proj2'', rs_WorkspaceEpoch = ''epoch2'',
       rs_ScopeRevision = 1, rs_RootAttestation = ''root''\<rparr>,
     rp_DependencyStatus = ''complete'', rp_Exclusions = [], rp_ReceiptDigest = ''rd'', rp_ErrorCode = None\<rparr>"

definition ex_workspace :: ContinuationHandoffWorkspaceRequestV1 where
  "ex_workspace = \<lparr>hw_Mode = ''allocate_and_materialize'', hw_RestoreOperationID = None, hw_SelectionID = None,
     hw_ProjectID = None, hw_WorkspaceEpoch = None, hw_ScopeRevision = None, hw_RootAttestation = None\<rparr>"

definition ex_policy :: ContinuationHandoffTargetPolicyV1 where
  "ex_policy = \<lparr>ht_TeamID = ''t1'', ht_TeamRevision = 1, ht_PolicyRevision = 1, ht_MemberID = ''m1'',
     ht_Role = ''reviewer'', ht_SandboxID = ''sbx_alpha0001'', ht_SandboxGeneration = 3, ht_ServiceRegistrationID = ''r2'',
     ht_ServiceGeneration = 1, ht_ServiceDesiredRevision = 1, ht_ServiceActionRevision = 1, ht_ProfileID = ''opencode'',
     ht_ProfileRevision = 1, ht_ProfileDigest = ''pd'', ht_InstructionRevision = 1, ht_InstructionDigest = ''dd''\<rparr>"

definition ex_lineage :: ContinuationHandoffLineageV1 where
  "ex_lineage = \<lparr>hl_SourceWorkID = ''work1'', hl_SourceRevision = 5, hl_SourceTaskID = None,
     hl_CheckpointOperationID = ''op1_capture'', hl_RestoreOperationID = None\<rparr>"

text \<open>A handoff of operation \<open>i\<close> to the Work \<open>w\<close>, and the report that answers it with a session on the source \<open>src\<close>.\<close>

definition ex_handoff :: "string \<Rightarrow> string \<Rightarrow> ContinuationHandoffManifestV1" where
  "ex_handoff i w = \<lparr>hm_FormatVersion = 1, hm_OperationID = i, hm_Action = ''prepare_handoff'', hm_DesiredRevision = 7,
     hm_HandoffKind = ''reviewer'', hm_SessionMode = ''create_separate'', hm_TargetWorkID = w, hm_MappingID = ''map1'',
     hm_Identity = ex_ni, hm_Binding = ex_nb, hm_Checkpoint = ex_nc ''k3'', hm_Lineage = ex_lineage,
     hm_TargetPolicy = ex_policy, hm_Workspace = ex_workspace, hm_Context = ex_context\<rparr>"

definition ex_answer :: "string \<Rightarrow> string \<Rightarrow> string \<Rightarrow> string \<Rightarrow> ContinuationHandoffReportV1" where
  "ex_answer i w sel src = \<lparr>hr_FormatVersion = 1, hr_OperationID = i, hr_Action = ''prepare_handoff'', hr_DesiredRevision = 7,
     hr_HandoffKind = ''reviewer'', hr_SessionMode = ''create_separate'', hr_TargetWorkID = w, hr_MappingID = ''map1'',
     hr_Identity = ex_ni, hr_Binding = ex_nb, hr_Checkpoint = ex_nc ''k3'', hr_Lineage = ex_lineage,
     hr_TargetPolicy = ex_policy, hr_WorkspaceRequest = ex_workspace, hr_ContextDigest = ''cx'', hr_Status = ''ready'',
     hr_TargetWorkspace = Some \<lparr>hk_SelectionID = sel, hk_ProjectID = ''proj2'', hk_WorkspaceEpoch = ''epoch2'',
       hk_ScopeRevision = 1, hk_RootAttestation = ''root''\<rparr>,
     hr_Session = Some \<lparr>hs_MappingID = ''map1'', hs_RegisteredSourceID = src, hs_NativeSessionID = ''n2'',
       hs_NativeProjectID = ''global'', hs_NativeLocationDigest = ''ld2'', hs_InstructionRevision = 1,
       hs_InstructionDigest = ''dd'', hs_InstructionApplied = True\<rparr>,
     hr_Baseline = Some \<lparr>bl_BaselineID = ''base1'', bl_BaselineDigest = ''bd'', bl_NativeSessionID = ''n2'',
       bl_ServiceGeneration = 1, bl_ReadyAt = ex_now\<rparr>,
     hr_ReceiptDigest = ''rd'', hr_ErrorCode = None\<rparr>"

definition put_handoff :: "ContinuationHandoffManifestV1 \<Rightarrow> store \<Rightarrow> store \<times> (goerr + unit)" where
  "put_handoff m = Store_PutContinuationHandoffPreparation (\<lambda>s. s)
     \<lparr>yc_Manifest = m, yc_Phase = ''allocating'', yc_TargetSelectionID = [], yc_Report = None\<rparr>"

definition complete_handoff ::
  "string \<Rightarrow> string \<Rightarrow> ContinuationHandoffReportV1 \<Rightarrow> store \<Rightarrow> store \<times> (goerr + unit)" where
  "complete_handoff i sel r = Store_CompleteContinuationHandoffPreparation (=) (\<lambda>_ s. s) i sel r"

text \<open>Two handoffs, the first answered; the second is then refused the first one's source.\<close>

definition ex_db5 :: store where
  "ex_db5 = fst (complete_handoff ''hand1'' ''sel1'' (ex_answer ''hand1'' ''work8'' ''sel1'' ''src1'')
     (fst (put_handoff (ex_handoff ''hand2'' ''work9'') (fst (put_handoff (ex_handoff ''hand1'' ''work8'') ex_db4)))))"

definition ex_db6 :: store where
  "ex_db6 = fst (Store_PutRestoreOperation (\<lambda>s. s) \<lparr>ye_Manifest = ex_restore, ye_Phase = ''allocating'', ye_Report = None\<rparr> ex_db5)"

definition ex_db7 :: store where
  "ex_db7 = fst (Store_CompleteRestoreOperation (=) (\<lambda>s. s) ''restore1'' ex_restored ex_db6)"

text \<open>A collection of the checkpoint \<open>k2\<close>, which sorts as the oldest: planned, confirmed, completed.\<close>

definition ex_db8 :: store where
  "ex_db8 = fst (Store_PlanCheckpointCollection (\<lambda>s. s) (ex_now + seconds 60) 0 5 ex_db7)"

definition ex_intent :: "string \<Rightarrow> CheckpointGCIntent" where
  "ex_intent phase = (checkpoint_intent (ex_point ''k2'' ''c2'' (ex_now + 500000000)) (ex_now + seconds 60) 0)\<lparr>gi_Phase := phase\<rparr>"

definition ex_db9 :: store where
  "ex_db9 = fst (Store_ConfirmCheckpointCollection (ex_intent ''planned'') ex_db8)"


lemma run_then_cont:
  assumes "store_run digestOf s t"
  shows "store_run digestOf s (fst (put_handoff m t))"
    and "store_run digestOf s (fst (complete_handoff i sel r t))"
    and "store_run digestOf s (fst (Store_PutRestoreOperation (\<lambda>s. s) v t))"
    and "store_run digestOf s (fst (Store_CompleteRestoreOperation deepRestore (\<lambda>s. s) i q t))"
    and "store_run digestOf s (fst (Store_PlanCheckpointCollection (\<lambda>s. s) now grace limit t))"
    and "store_run digestOf s (fst (Store_ConfirmCheckpointCollection g t))"
    and "store_run digestOf s (fst (Store_CompleteCheckpointCollection g t))"
  using assms store_run.put_handoff [of digestOf t "\<lambda>s. s"] store_run.complete_handoff [of digestOf t "\<lambda>_ s. s"]
    store_run.put_restore [of digestOf t "\<lambda>s. s"] store_run.complete_restore [of digestOf t "\<lambda>s. s"]
    store_run.plan_collection [of digestOf t] store_run.confirm_collection [of digestOf t]
    store_run.complete_collection [of digestOf t] store_run.idle [of digestOf t]
  unfolding put_handoff_def complete_handoff_def by (blast intro: store_run.later)+

lemma ex_db5_run: "store_run digestOf empty_store ex_db5"
  unfolding ex_db5_def by (intro run_then_cont ex_db4_run)

lemma ex_db7_run: "store_run digestOf ex_db5 ex_db7"
  unfolding ex_db7_def ex_db6_def by (intro run_then_cont store_run.idle)

lemma ex_db9_run: "store_run digestOf empty_store ex_db9"
  unfolding ex_db9_def ex_db8_def by (intro run_then_cont store_run.later [OF ex_db5_run ex_db7_run])


section \<open>Continuations, handoffs and restores\<close>

text \<open>
  C3. Every run of the store, from any database it can reach and with other callers between
  the statements of its methods, is on each of the five tables of tuples a run of the
  abstract specification: an operation enters once, without answer, and is answered once, by
  a report that matches its manifest; hence no manifest changes and no answer is replaced or
  lost.
\<close>

theorem tuples_refine:
  assumes "store_run digestOf empty_store s" and "store_run digestOf s t"
  shows "conts_refine (st_conts s) (st_conts t) \<and> conts_kept (st_conts s) (st_conts t)"
  using store_refines_run [OF assms(2)] store_kept_run [OF assms(2)] store_ok_run [OF assms(1) store_ok_empty] by blast

theorem tuples_refine_witness:
  "(spec_step restore_answer)\<^sup>*\<^sup>* (abs_tbl ye_Manifest ye_Report (tb_restores (st_conts ex_db5)))
     (abs_tbl ye_Manifest ye_Report (tb_restores (st_conts ex_db7))) \<and>
   abs_tbl ye_Manifest ye_Report (tb_restores (st_conts ex_db5)) ''restore1'' = None \<and>
   abs_tbl ye_Manifest ye_Report (tb_restores (st_conts ex_db7)) ''restore1'' = Some (ex_restore, Some ex_restored)"
proof (intro conjI)
  show "(spec_step restore_answer)\<^sup>*\<^sup>* (abs_tbl ye_Manifest ye_Report (tb_restores (st_conts ex_db5)))
     (abs_tbl ye_Manifest ye_Report (tb_restores (st_conts ex_db7)))"
    using tuples_refine [OF ex_db5_run [of "\<lambda>_. None"] ex_db7_run] by (simp add: conts_refine_def refines_def)
qed code_simp+



text \<open>The calls that concern a handoff.\<close>

datatype handoff_call =
  PutHandoff LocalContinuationHandoffPreparation
| CompleteHandoff string string ContinuationHandoffReportV1

fun handoff_effect ::
  "(ContinuationHandoffReportV1 \<Rightarrow> ContinuationHandoffReportV1 \<Rightarrow> bool) \<Rightarrow> handoff_call \<Rightarrow> store \<Rightarrow> store" where
  "handoff_effect deepEqual (PutHandoff v) s = fst (Store_PutContinuationHandoffPreparation (\<lambda>s. s) v s)"
| "handoff_effect deepEqual (CompleteHandoff i sel r) s =
     fst (Store_CompleteContinuationHandoffPreparation deepEqual (\<lambda>_ s. s) i sel r s)"

text \<open>
  A handoff is answered once: of two completions of one handoff that are both accepted, with
  any puts and completions of this and other handoffs in between, the second brings the same
  workspace selection and the same report as the first.
\<close>

theorem handoff_one_answer:
  assumes "\<And>a b. deepEqual a b \<Longrightarrow> a = b"
    and "Store_CompleteContinuationHandoffPreparation deepEqual (\<lambda>_ s. s) i sel r s = (t, ok)"
    and "snd (Store_CompleteContinuationHandoffPreparation deepEqual (\<lambda>_ s. s) i sel' q
      (foldl (\<lambda>s c. handoff_effect deepEqual c s) t cs)) = ok"
  shows "sel' = sel \<and> q = r"
proof -
  let ?cs = "map (handoff_effect deepEqual) cs"
  have fold: "foldl (\<lambda>s c. c s) t ?cs = foldl (\<lambda>s c. handoff_effect deepEqual c s) t cs" for t
    by (induction cs arbitrary: t) simp_all
  have calls: "\<forall>c\<in>set ?cs. (\<exists>v. c = (\<lambda>s. fst (Store_PutContinuationHandoffPreparation (\<lambda>s. s) v s))) \<or>
      (\<exists>i r. c = (\<lambda>s. fst (Store_CompleteContinuationHandoffPreparation deepEqual (\<lambda>_ s. s) i (fst r) (snd r) s)))"
  proof
    fix c assume "c \<in> set ?cs"
    then obtain d where c: "c = handoff_effect deepEqual d" by auto
    show "(\<exists>v. c = (\<lambda>s. fst (Store_PutContinuationHandoffPreparation (\<lambda>s. s) v s))) \<or>
      (\<exists>i r. c = (\<lambda>s. fst (Store_CompleteContinuationHandoffPreparation deepEqual (\<lambda>_ s. s) i (fst r) (snd r) s)))"
    proof (cases d)
      case (PutHandoff v)
      with c have "c = (\<lambda>s. fst (Store_PutContinuationHandoffPreparation (\<lambda>s. s) v s))" by auto
      then show ?thesis by blast
    next
      case (CompleteHandoff i sel r)
      with c have "c = (\<lambda>s. fst (Store_CompleteContinuationHandoffPreparation deepEqual (\<lambda>_ s. s) i (fst (sel, r)) (snd (sel, r)) s))"
        by auto
      then show ?thesis by blast
    qed
  qed
  have "\<exists>p. (fst p = sel \<and> (snd p = r \<or> deepEqual (snd p) r)) \<and> (fst p = sel' \<and> (snd p = q \<or> deepEqual (snd p) q))"
    using handoffs.one_answer [of deepEqual i "(sel, r)" s ?cs "(sel', q)", OF _ calls] assms(2,3) by (simp add: fold)
  with assms(1) show ?thesis by metis
qed

theorem handoff_one_answer_witness:
  "snd (complete_handoff ''hand1'' ''sel1'' (ex_answer ''hand1'' ''work8'' ''sel1'' ''src1'') ex_db5) = ok \<and>
   snd (complete_handoff ''hand1'' ''sel1'' (ex_answer ''hand1'' ''work8'' ''sel1'' ''src2'') ex_db5) \<noteq> ok"
proof
  show again: "snd (complete_handoff ''hand1'' ''sel1'' (ex_answer ''hand1'' ''work8'' ''sel1'' ''src1'') ex_db5) = ok"
    by code_simp
  have other: "ex_answer ''hand1'' ''work8'' ''sel1'' ''src2'' \<noteq> ex_answer ''hand1'' ''work8'' ''sel1'' ''src1''"
    by (simp add: ex_answer_def)
  have t: "complete_handoff ''hand1'' ''sel1'' (ex_answer ''hand1'' ''work8'' ''sel1'' ''src1'') ex_db5 = (ex_db5, ok)"
    by code_simp
  show "snd (complete_handoff ''hand1'' ''sel1'' (ex_answer ''hand1'' ''work8'' ''sel1'' ''src2'') ex_db5) \<noteq> ok"
    using handoff_one_answer [of "(=)" "''hand1''" "''sel1''" _ ex_db5 ex_db5 "''sel1''" _ "[]"] t other
    unfolding complete_handoff_def by auto
qed

section \<open>The collection of checkpoints\<close>

text \<open>
  C6. In every database the store can reach, a checkpoint whose collection has been
  confirmed, so that its object may be removed at any time, is not rooted: it is not pinned,
  no Work points to it, and no operation, continuation, release, handoff or restore that is
  not over refers to it; no operation of the store roots it in the meantime.
\<close>

theorem collection_safe:
  assumes "store_run digestOf empty_store s"
    and "map_of (st_intents s) c = Some g" and "gi_Phase g = ''deleting''" and "gi_CheckpointID g \<noteq> []"
    and "Store_Checkpoint (gi_CheckpointID g) s = Some k"
  shows "\<not> checkpointIsRooted k s \<and> lk_CaptureID k = gi_CaptureID g"
proof -
  have ok: "gc_ok s" "checkpoint_refs s"
    using store_ok_run [OF assms(1) store_ok_empty] by (simp_all add: store_ok_def store_core_def)
  from ok(1) assms(2-4) have "sealed g s" by (simp add: gc_ok_def intents_sealed_def)
  with assms(5) have "\<not> lk_Pinned k" "lk_CaptureID k = gi_CaptureID g" "\<not> referenced (gi_CheckpointID g) s"
    unfolding sealed_def Store_Checkpoint_def by blast+
  moreover have "lk_ID k = gi_CheckpointID g"
    using ok(2) assms(5) by (auto simp: checkpoint_refs_def keyed_by_def Store_Checkpoint_def)
  ultimately show ?thesis by (simp add: checkpointIsRooted_iff)
qed

theorem collection_safe_witness:
  "map_of (st_intents ex_db9) ''c2'' = Some (ex_intent ''deleting'') \<and>
   \<not> checkpointIsRooted (ex_point ''k2'' ''c2'' (ex_now + 500000000)) ex_db9 \<and>
   checkpointIsRooted (ex_point ''k3'' ''c3'' (ex_now + seconds 10)) ex_db9"
proof -
  have row: "map_of (st_intents ex_db9) ''c2'' = Some (ex_intent ''deleting'')" by code_simp
  have phase: "gi_Phase (ex_intent ''deleting'') = ''deleting''" "gi_CheckpointID (ex_intent ''deleting'') = ''k2''"
    by (simp_all add: ex_intent_def checkpoint_intent_def ex_point_def)
  have point: "Store_Checkpoint ''k2'' ex_db9 = Some (ex_point ''k2'' ''c2'' (ex_now + 500000000))" by code_simp
  have other: "checkpointIsRooted (ex_point ''k3'' ''c3'' (ex_now + seconds 10)) ex_db9" by code_simp
  from collection_safe [OF ex_db9_run [of "\<lambda>_. None"] row phase(1), unfolded phase(2), OF _ point] row other
  show ?thesis by simp
qed

text \<open>
  C36. In every database the store can reach, a confirmed collection of a checkpoint is
  completed at the first try: no foreign key stands in its way, its checkpoint and its
  intent are gone afterwards, and a tombstone for its capture is there.
\<close>

theorem collection_completes:
  assumes "store_run digestOf empty_store s"
    and "map_of (st_intents s) c = Some g" and "gi_Phase g = ''deleting''" and "gi_CheckpointID g \<noteq> []"
  shows "\<exists>t. Store_CompleteCheckpointCollection g s = (t, ok) \<and> Store_Checkpoint (gi_CheckpointID g) t = None \<and>
    map_of (st_intents t) c = None \<and> map_of (st_tombstones t) c \<noteq> None"
proof -
  have "gc_ok s" "checkpoint_refs s"
    using store_ok_run [OF assms(1) store_ok_empty] by (simp_all add: store_ok_def store_core_def)
  from complete_removes [OF this assms(2-4)] show ?thesis by (auto simp: Store_Checkpoint_def)
qed

theorem collection_completes_witness:
  "\<exists>t. Store_CompleteCheckpointCollection (ex_intent ''deleting'') ex_db9 = (t, ok) \<and> Store_Checkpoint ''k2'' t = None \<and>
     map_of (st_tombstones t) ''c2'' \<noteq> None"
proof -
  have row: "map_of (st_intents ex_db9) ''c2'' = Some (ex_intent ''deleting'')" by code_simp
  have phase: "gi_Phase (ex_intent ''deleting'') = ''deleting''" "gi_CheckpointID (ex_intent ''deleting'') = ''k2''"
    by (simp_all add: ex_intent_def checkpoint_intent_def ex_point_def)
  from collection_completes [OF ex_db9_run [of "\<lambda>_. None"] row phase(1), unfolded phase(2)] show ?thesis by auto
qed






end
