(* ===== verification/Report_Sync.thy ===== *)
theory Report_Sync
  imports Model_Manifest Go_Crypto Go_Sql
begin

text \<open>
  The sender of reports (\<open>internal/reconcile/report_sync.go\<close>) with its row in the store
  (\<open>internal/state/store.go\<close>). The functions the daemon plugs in (post, manifest, rebuild, sleep, clock) take
  and return the state \<open>'w\<close> of the world. A report has the three members the sender writes and a rest
  \<open>'b\<close> it only passes on; \<open>marshal\<close> is its JSON. One round of the loop is \<open>send_attempt\<close>; the loop ends for every
  world, because each round uses up an attempt or raises the 64-bit resync generation.
\<close>

section \<open>Numbers in a JSON detail\<close>

text \<open>A finite \<open>float64\<close> is \<open>m * 2 ^ e\<close>; a decoded JSON value that is no number is \<open>JOther\<close>.\<close>

datatype json_number = JFloat int int | JInt64 int | JNumber string | JOther

text \<open>
  \<open>int64(f)\<close> cuts the fraction off; Go leaves the result open when it does not fit, and on amd64 it is the least
  number.
\<close>

definition float_int64 :: "int \<Rightarrow> int \<Rightarrow> int" where
  "float_int64 m e =
     (let v = (if 0 \<le> e then m * 2 ^ nat e else sgn m * (\<bar>m\<bar> div 2 ^ nat (- e))) in
      if in64 v then v else min64)"

text \<open>\<open>strconv.ParseInt(s, 10, 64)\<close> with its error dropped: the nearest number when out of range, else 0.\<close>

definition parse_int64 :: "string \<Rightarrow> int" where
  "parse_int64 s =
     (let (sign, ds) = (case s of c # cs \<Rightarrow> if c = CHR ''-'' then (-1, cs) else if c = CHR ''+'' then (1, cs) else (1, s)
                        | [] \<Rightarrow> (1, s)) in
      if ds = [] \<or> \<not> list_all is_digit ds then 0 else sat64 (sign * int (dec_value ds)))"

text \<open>The detail is a map; a key that is missing, or no map at all, reads as 0.\<close>

definition detailInt :: "(string \<times> json_number) list \<Rightarrow> string \<Rightarrow> int" where
  "detailInt detail key =
     (case map_of detail key of
        None \<Rightarrow> 0
      | Some (JFloat m e) \<Rightarrow> float_int64 m e
      | Some (JInt64 n) \<Rightarrow> wrap64 n
      | Some (JNumber s) \<Rightarrow> parse_int64 s
      | Some JOther \<Rightarrow> 0)"

lemma in64_float_int64: "in64 (float_int64 m e)"
proof -
  have "in64 min64" by (simp add: in64_def min64_def max64_def)
  then show ?thesis by (simp add: float_int64_def Let_def)
qed

lemma in64_parse_int64: "in64 (parse_int64 s)"
proof -
  have "in64 0" by (simp add: in64_def min64_def max64_def)
  then show ?thesis by (simp add: parse_int64_def split: prod.split)
qed

lemma in64_detailInt: "in64 (detailInt detail key)"
proof -
  have "in64 0" by (simp add: in64_def min64_def max64_def)
  then show ?thesis
    by (simp add: detailInt_def in64_float_int64 in64_parse_int64 split: option.split json_number.split)
qed

section \<open>Data\<close>

record ResponseError =
  er_Status :: int
  er_Code :: string
  er_Detail :: "(string \<times> json_number) list"

text \<open>An error of the post: a response of the control plane, or anything else.\<close>

datatype send_error = Response ResponseError | Transport goerr

definition ResponseError_Error :: "ResponseError \<Rightarrow> string" where
  "ResponseError_Error e = ''control-plane response '' @ (if er_Status e < 0 then ''-'' else []) @
     dec_digits (nat \<bar>er_Status e\<bar>) @ '' ('' @ er_Code e @ '')''"

record ReportAck =
  ack_ReportEpoch :: "int"
  ack_DesiredRevision :: "int"
  ack_AppliedRevision :: "int"
  ack_ResyncGeneration :: "int"
  ack_Replayed :: "bool"

text \<open>The row of \<open>report_sync_state\<close>.\<close>

record ReportSyncRow =
  ry_Sequence :: "int"
  ry_LastEpoch :: "int"
  ry_BlockedCode :: "string"
  ry_BlockedDetail :: "string"
  ry_BlockedSince :: "string"
  ry_BlockedDesiredRevision :: "int"
  ry_BlockedResyncGeneration :: "int"

definition Store_ReportSyncState :: "ReportSyncRow option \<Rightarrow> ReportSyncRow" where
  "Store_ReportSyncState row =
     (case row of
        None \<Rightarrow> \<lparr>ry_Sequence = 0, ry_LastEpoch = 0, ry_BlockedCode = [], ry_BlockedDetail = [], ry_BlockedSince = [],
          ry_BlockedDesiredRevision = 0, ry_BlockedResyncGeneration = 0\<rparr>
      | Some value \<Rightarrow> value)"

definition Store_PutReportSyncState :: "ReportSyncRow \<Rightarrow> ReportSyncRow option \<Rightarrow> ReportSyncRow option" where
  "Store_PutReportSyncState value row = Some value"

record 'b Report =
  rq_ReportSequence :: int
  rq_ReportDigest :: string
  rq_ObservedDesiredRevision :: int
  rq_Rest :: 'b

record ('b, 'w) ReportSync =
  rx_Post :: "'b Report \<Rightarrow> 'w \<Rightarrow> (send_error + ReportAck) \<times> 'w"
  rx_Manifest :: "'w \<Rightarrow> (goerr + Manifest) \<times> 'w"
  rx_Rebuild :: "(Manifest \<Rightarrow> 'w \<Rightarrow> (goerr + 'b Report option) \<times> 'w) option"
  rx_Sleep :: "int \<Rightarrow> 'w \<Rightarrow> bool \<times> 'w"
  rx_Now :: "'w \<Rightarrow> gotime \<times> 'w"
  rx_Jittered :: "int \<Rightarrow> 'w \<Rightarrow> int \<times> 'w"
  rx_ContextErr :: "'w \<Rightarrow> goerr option"
  rx_MaxAttempts :: int
  rx_MaxRebuilds :: int
  rx_BaseDelay :: int
  rx_MaxDelay :: int
  rx_MaxWindow :: int

text \<open>
  \<open>rx_Jittered\<close> is \<open>r.Rand\<close> with the product in \<open>float64\<close> it goes into; \<open>rx_ContextErr\<close> is \<open>ctx.Err()\<close>. The defaults
  of the functions are the real clock and timer; those of the bounds are:
\<close>

definition sync_defaults :: "('b, 'w) ReportSync \<Rightarrow> ('b, 'w) ReportSync" where
  "sync_defaults r =
     r\<lparr>rx_MaxAttempts := (if rx_MaxAttempts r \<le> 0 then 12 else rx_MaxAttempts r),
       rx_MaxRebuilds := (if rx_MaxRebuilds r \<le> 0 then 3 else rx_MaxRebuilds r),
       rx_BaseDelay := (if rx_BaseDelay r \<le> 0 then 250000000 else rx_BaseDelay r),
       rx_MaxDelay := (if rx_MaxDelay r \<le> 0 then 8000000000 else rx_MaxDelay r),
       rx_MaxWindow := (if rx_MaxWindow r \<le> 0 then 300000000000 else rx_MaxWindow r)\<rparr>"

definition reportDigest :: "('b Report \<Rightarrow> goerr + string) \<Rightarrow> 'b Report \<Rightarrow> goerr + string" where
  "reportDigest marshal report =
     bindE (marshal (report\<lparr>rq_ReportDigest := []\<rparr>)) (\<lambda>encoded. Inr (sha256_string encoded))"

definition rejection :: "send_error \<Rightarrow> ResponseError option" where
  "rejection e =
     (case e of
        Response response \<Rightarrow>
          if er_Status response = 409 \<and> er_Code response \<in> {''runtime_report_conflict'', ''runtime_report_stale''}
          then Some response else None
      | Transport _ \<Rightarrow> None)"

section \<open>Backoff\<close>

text \<open>
  \<open>time.Duration(float64(base) * math.Pow(2, n))\<close>: a power of two only moves the exponent, so the product is exact
  for a base below 2 ^ 53; what does not fit 64 bits becomes the least number, as above.
\<close>

definition power_delay :: "int \<Rightarrow> int \<Rightarrow> int" where
  "power_delay base n = (let p = base * 2 ^ nat n in if in64 p then p else min64)"

text \<open>The delay that is slept, when there is time left.\<close>

definition backoff_delay :: "('b, 'w) ReportSync \<Rightarrow> int \<Rightarrow> gotime \<Rightarrow> 'w \<Rightarrow> int option \<times> 'w" where
  "backoff_delay r attempt started w =
     (let attempt = (if attempt < 1 then 1 else attempt);
          delay = power_delay (rx_BaseDelay r) (attempt - 1);
          delay = (if delay > rx_MaxDelay r then rx_MaxDelay r else delay);
          (delay, w) = rx_Jittered r delay w;
          (now, w) = rx_Now r w;
          remaining = wrap64 (rx_MaxWindow r - time_sub now started)
      in (if remaining \<le> 0 then None else Some (if delay > remaining then remaining else delay), w))"

definition sync_backoff :: "('b, 'w) ReportSync \<Rightarrow> int \<Rightarrow> gotime \<Rightarrow> 'w \<Rightarrow> (goerr + unit) \<times> 'w" where
  "sync_backoff r attempt started w =
     (case backoff_delay r attempt started w of
        (None, w) \<Rightarrow> (ok, w)
      | (Some delay, w) \<Rightarrow>
          (case rx_Sleep r delay w of
             (True, w) \<Rightarrow> (ok, w)
           | (False, w) \<Rightarrow> ((case rx_ContextErr r w of None \<Rightarrow> ok | Some e \<Rightarrow> Inl e), w)))"

section \<open>The loop\<close>

text \<open>The variables of the loop.\<close>

record 'b send_vars =
  sv_attempt :: int
  sv_rebuilds :: int
  sv_sequence :: int
  sv_lastCode :: string
  sv_lastDetail :: string
  sv_observed :: int
  sv_blocked :: ReportSyncRow
  sv_report :: "'b Report"

text \<open>A round ends the function with a row to store or an error, leaves the loop, or goes on.\<close>

datatype 'b send_end =
  Accepted ReportSyncRow
| Stopped goerr
| Exhausted "'b send_vars"

type_synonym 'b send_outcome = "'b send_end + 'b send_vars"

definition next_round :: "('b, 'w) ReportSync \<Rightarrow> gotime \<Rightarrow> 'b send_vars \<Rightarrow> 'w \<Rightarrow> 'b send_outcome \<times> 'w" where
  "next_round r started v w =
     (case sync_backoff r (sv_attempt v) started w of
        (Inl e, w) \<Rightarrow> (Inl (Stopped e), w)
      | (Inr _, w) \<Rightarrow> (Inr v, w))"

text \<open>The report was accepted: the row is cleared of its block.\<close>

definition accepted_row :: "int \<Rightarrow> ReportAck \<Rightarrow> ReportSyncRow \<Rightarrow> ReportSyncRow" where
  "accepted_row sequence ack blocked =
     blocked\<lparr>ry_Sequence := sequence, ry_LastEpoch := ack_ReportEpoch ack, ry_BlockedCode := [], ry_BlockedDetail := [],
       ry_BlockedSince := [], ry_BlockedDesiredRevision := 0, ry_BlockedResyncGeneration := 0\<rparr>"

text \<open>A newer resync generation gives all attempts back.\<close>

definition resynced :: "ResponseError \<Rightarrow> 'b send_vars \<Rightarrow> 'b send_vars" where
  "resynced response v =
     (let generation = detailInt (er_Detail response) ''resyncGeneration'' in
      if generation > ry_BlockedResyncGeneration (sv_blocked v)
      then v\<lparr>sv_blocked := (sv_blocked v)\<lparr>ry_BlockedResyncGeneration := generation\<rparr>, sv_attempt := 0\<rparr>
      else v)"

text \<open>The next round carries the report rebuilt for the manifest, if the caller can rebuild it.\<close>

definition try_rebuild ::
  "('b, 'w) ReportSync \<Rightarrow> gotime \<Rightarrow> ResponseError \<Rightarrow> Manifest \<Rightarrow> 'b send_vars \<Rightarrow> 'w \<Rightarrow> 'b send_outcome \<times> 'w" where
  "try_rebuild r started response manifest v w =
     (case rx_Rebuild r of
        None \<Rightarrow> next_round r started (resynced response v) w
      | Some rebuild \<Rightarrow>
          if \<not> sv_rebuilds v < rx_MaxRebuilds r then next_round r started (resynced response v) w
          else let v = v\<lparr>sv_rebuilds := sv_rebuilds v + 1\<rparr> in
            (case rebuild manifest w of
               (Inr (Some rebuilt), w) \<Rightarrow>
                 next_round r started
                   (v\<lparr>sv_report := rebuilt\<lparr>rq_ReportSequence := sv_sequence v,
                       rq_ObservedDesiredRevision := mf_DesiredRevision manifest\<rparr>\<rparr>) w
             | (_, w) \<Rightarrow> next_round r started (resynced response v) w))"

text \<open>The report was rejected with a typed conflict: read the manifest again.\<close>

definition after_rejection ::
  "('b, 'w) ReportSync \<Rightarrow> gotime \<Rightarrow> ResponseError \<Rightarrow> 'b send_vars \<Rightarrow> 'w \<Rightarrow> 'b send_outcome \<times> 'w" where
  "after_rejection r started response v w =
     (let v = v\<lparr>sv_lastCode := er_Code response, sv_lastDetail := ResponseError_Error response\<rparr> in
      case rx_Manifest r w of
        (Inl _, w) \<Rightarrow> next_round r started v w
      | (Inr manifest, w) \<Rightarrow> try_rebuild r started response manifest (v\<lparr>sv_observed := mf_DesiredRevision manifest\<rparr>) w)"

definition after_error ::
  "('b, 'w) ReportSync \<Rightarrow> gotime \<Rightarrow> send_error \<Rightarrow> 'b send_vars \<Rightarrow> 'w \<Rightarrow> 'b send_outcome \<times> 'w" where
  "after_error r started e v w =
     (case rejection e of
        None \<Rightarrow> next_round r started (v\<lparr>sv_lastCode := [], sv_lastDetail := []\<rparr>) w
      | Some response \<Rightarrow> after_rejection r started response v w)"

definition send_attempt ::
  "('b Report \<Rightarrow> goerr + string) \<Rightarrow> ('b, 'w) ReportSync \<Rightarrow> gotime \<Rightarrow> 'b send_vars \<Rightarrow> 'w \<Rightarrow> 'b send_outcome \<times> 'w" where
  "send_attempt marshal r started v w =
     (case rx_Now r w of (now, w) \<Rightarrow>
      if time_sub now started > rx_MaxWindow r then (Inl (Exhausted v), w)
      else
        let sequence = wrap64 (sv_sequence v + 1);
            report = (sv_report v)\<lparr>rq_ReportSequence := sequence, rq_ObservedDesiredRevision := sv_observed v\<rparr> in
        (case reportDigest marshal report of
           Inl e \<Rightarrow> (Inl (Stopped e), w)
         | Inr digest \<Rightarrow>
             let report = report\<lparr>rq_ReportDigest := digest\<rparr>;
                 v = v\<lparr>sv_attempt := sv_attempt v + 1, sv_sequence := sequence, sv_report := report\<rparr> in
             (case rx_Post r report w of
                (Inr ack, w) \<Rightarrow> (Inl (Accepted (accepted_row sequence ack (sv_blocked v))), w)
              | (Inl e, w) \<Rightarrow> after_error r started e v w)))"

text \<open>Each round raises the attempt, or the resync generation.\<close>

definition round_done :: "'b send_vars \<Rightarrow> 'b send_vars \<Rightarrow> bool" where
  "round_done v u \<longleftrightarrow>
     ry_BlockedResyncGeneration (sv_blocked v) < ry_BlockedResyncGeneration (sv_blocked u) \<and>
       ry_BlockedResyncGeneration (sv_blocked u) \<le> max64 \<and> sv_attempt u = 0 \<or>
     ry_BlockedResyncGeneration (sv_blocked u) = ry_BlockedResyncGeneration (sv_blocked v) \<and> sv_attempt u = sv_attempt v + 1"

lemma next_round_again: "next_round r started v w = (Inr u, w') \<Longrightarrow> u = v"
  by (auto simp: next_round_def split: prod.splits sum.splits)

lemma next_round_outcome: "fst (next_round r started v w) = Inr v \<or> (\<exists>e. fst (next_round r started v w) = Inl (Stopped e))"
  by (auto simp: next_round_def split: prod.splits sum.splits)

lemma round_doneI:
  "ry_BlockedResyncGeneration (sv_blocked u) = ry_BlockedResyncGeneration (sv_blocked v) \<Longrightarrow>
     sv_attempt u = sv_attempt v + 1 \<Longrightarrow> round_done v u"
  by (simp add: round_done_def)

lemma round_done_resynced:
  assumes "ry_BlockedResyncGeneration (sv_blocked u) = ry_BlockedResyncGeneration (sv_blocked v)"
    and "sv_attempt u = sv_attempt v + 1"
  shows "round_done v (resynced response u)"
  using assms in64_detailInt [of "er_Detail response" "''resyncGeneration''"]
  by (auto simp: round_done_def resynced_def Let_def in64_def)

lemma after_rejection_again:
  assumes "after_rejection r started response u w = (Inr t, w')"
    and "ry_BlockedResyncGeneration (sv_blocked u) = ry_BlockedResyncGeneration (sv_blocked v)"
    and "sv_attempt u = sv_attempt v + 1"
  shows "round_done v t"
  using assms
  by (auto simp: after_rejection_def try_rebuild_def Let_def dest!: next_round_again split: prod.splits sum.splits option.splits if_splits)
    ((rule round_done_resynced | rule round_doneI); simp)+

lemma after_error_again:
  assumes "after_error r started e u w = (Inr t, w')"
    and "ry_BlockedResyncGeneration (sv_blocked u) = ry_BlockedResyncGeneration (sv_blocked v)"
    and "sv_attempt u = sv_attempt v + 1"
  shows "round_done v t"
  using assms after_rejection_again [of r started _ u w t w' v]
  by (auto simp: after_error_def dest!: next_round_again split: option.splits intro!: round_doneI)

lemma send_attempt_again: "send_attempt marshal r started v w = (Inr u, w') \<Longrightarrow> round_done v u"
  by (auto simp: send_attempt_def Let_def dest!: after_error_again [where v = v] split: prod.splits sum.splits if_splits)

function send_loop ::
  "('b Report \<Rightarrow> goerr + string) \<Rightarrow> ('b, 'w) ReportSync \<Rightarrow> gotime \<Rightarrow> 'b send_vars \<Rightarrow> 'w \<Rightarrow> 'b send_end \<times> 'w" where
  "send_loop marshal r started v w =
     (if \<not> sv_attempt v < rx_MaxAttempts r then (Exhausted v, w)
      else (case send_attempt marshal r started v w of
          (Inr u, w) \<Rightarrow> send_loop marshal r started u w
        | (Inl finish, w) \<Rightarrow> (finish, w)))"
  by pat_completeness auto

termination
  by (relation "measures [\<lambda>(_, r, _, v, _). nat (2 ^ 63 - ry_BlockedResyncGeneration (sv_blocked v)),
      \<lambda>(_, r, _, v, _). nat (rx_MaxAttempts r - sv_attempt v)]")
    (auto simp: round_done_def max64_def dest!: send_attempt_again [OF sym])

declare send_loop.simps [simp del]

section \<open>Send\<close>

text \<open>The row of a report that was given up.\<close>

definition blocked_row :: "gotime \<Rightarrow> 'b send_vars \<Rightarrow> ReportSyncRow" where
  "blocked_row now v =
     (sv_blocked v)\<lparr>ry_Sequence := sv_sequence v,
       ry_BlockedCode := (if sv_lastCode v = [] then ''report_retry_exhausted'' else sv_lastCode v),
       ry_BlockedDetail := sv_lastDetail v,
       ry_BlockedSince := formatNano (now - now mod 1000000000),
       ry_BlockedDesiredRevision := sv_observed v\<rparr>"

definition unblocked_row :: "ReportSyncRow \<Rightarrow> ReportSyncRow" where
  "unblocked_row b = b\<lparr>ry_BlockedCode := [], ry_BlockedDetail := [], ry_BlockedSince := [],
     ry_BlockedDesiredRevision := 0, ry_BlockedResyncGeneration := 0\<rparr>"

text \<open>From the start of the clock on; \<open>row\<close> is the stored row.\<close>

definition send_from ::
  "('b Report \<Rightarrow> goerr + string) \<Rightarrow> ('b, 'w) ReportSync \<Rightarrow> 'b Report \<Rightarrow> ReportSyncRow \<Rightarrow> ReportSyncRow option \<Rightarrow> 'w \<Rightarrow>
     ReportSyncRow option \<times> (goerr + unit) \<times> 'w" where
  "send_from marshal r report blocked row w =
     (case rx_Now r w of (started, w) \<Rightarrow>
      (case send_loop marshal r started
          \<lparr>sv_attempt = 0, sv_rebuilds = 0, sv_sequence = ry_Sequence blocked, sv_lastCode = [], sv_lastDetail = [],
           sv_observed = 0, sv_blocked = blocked, sv_report = report\<rparr> w of
         (Accepted value, w) \<Rightarrow> (Store_PutReportSyncState value row, ok, w)
       | (Stopped e, w) \<Rightarrow> (row, Inl e, w)
       | (Exhausted v, w) \<Rightarrow>
           (case rx_Now r w of (now, w) \<Rightarrow> (Store_PutReportSyncState (blocked_row now v) row, ok, w))))"

definition ReportSync_Send ::
  "('b Report \<Rightarrow> goerr + string) \<Rightarrow> ('b, 'w) ReportSync \<Rightarrow> 'b Report \<Rightarrow> ReportSyncRow option \<Rightarrow> 'w \<Rightarrow>
     ReportSyncRow option \<times> (goerr + unit) \<times> 'w" where
  "ReportSync_Send marshal r0 report row w =
     (let r = sync_defaults r0; blocked = Store_ReportSyncState row in
      if ry_BlockedCode blocked = [] then send_from marshal r report blocked row w
      else (case rx_Manifest r w of
          (Inl e, w) \<Rightarrow> (row, Inl (EWrap ''fetch manifest for report block recovery'' e), w)
        | (Inr manifest, w) \<Rightarrow>
            if mf_DesiredRevision manifest \<le> ry_BlockedDesiredRevision blocked then (row, ok, w)
            else let blocked = unblocked_row blocked; row = Store_PutReportSyncState blocked row in
              send_from marshal r report blocked row w))"

end
