(* ===== verification/Report_Sync_Laws.thy ===== *)
theory Report_Sync_Laws
  imports Report_Sync
begin

text \<open>
  The laws of the sender. \<open>logged\<close> is the sender with every posted report written down beside the world, so
  that what is sent can be spoken of: the sequence numbers are consecutive, the digests are those of the
  reports, and the number of reports is bounded by the attempts and the resync generations seen.
\<close>

definition on_world :: "('w \<Rightarrow> 'a \<times> 'w) \<Rightarrow> 'w \<times> 'l \<Rightarrow> 'a \<times> 'w \<times> 'l" where
  "on_world f = (\<lambda>(w, l). let (a, w) = f w in (a, w, l))"

definition logged :: "('b, 'w) ReportSync \<Rightarrow> ('b, 'w \<times> 'b Report list) ReportSync" where
  "logged r =
     \<lparr>rx_Post = (\<lambda>p (w, l). let (a, w) = rx_Post r p w in (a, w, l @ [p])),
      rx_Manifest = on_world (rx_Manifest r),
      rx_Rebuild = map_option (\<lambda>f m. on_world (f m)) (rx_Rebuild r),
      rx_Sleep = (\<lambda>d. on_world (rx_Sleep r d)),
      rx_Now = on_world (rx_Now r),
      rx_Jittered = (\<lambda>d. on_world (rx_Jittered r d)),
      rx_ContextErr = (\<lambda>(w, l). rx_ContextErr r w),
      rx_MaxAttempts = rx_MaxAttempts r, rx_MaxRebuilds = rx_MaxRebuilds r, rx_BaseDelay = rx_BaseDelay r,
      rx_MaxDelay = rx_MaxDelay r, rx_MaxWindow = rx_MaxWindow r\<rparr>"

lemma on_world_eq: "on_world f (w, l) = (a, w', l') \<longleftrightarrow> f w = (a, w') \<and> l' = l"
  by (auto simp: on_world_def split: prod.split)

lemma logged_defaults [simp]: "sync_defaults (logged r) = logged (sync_defaults r)"
  by (simp add: sync_defaults_def logged_def)

lemma logged_fields [simp]:
  "rx_Manifest (logged r) = on_world (rx_Manifest r)" "rx_Now (logged r) = on_world (rx_Now r)"
  "rx_Sleep (logged r) d = on_world (rx_Sleep r d)" "rx_Jittered (logged r) d = on_world (rx_Jittered r d)"
  "rx_ContextErr (logged r) (w, l) = rx_ContextErr r w"
  "rx_Rebuild (logged r) = map_option (\<lambda>f m. on_world (f m)) (rx_Rebuild r)"
  "rx_Post (logged r) p (w, l) = (let (a, w) = rx_Post r p w in (a, w, l @ [p]))"
  "rx_MaxAttempts (logged r) = rx_MaxAttempts r" "rx_MaxWindow (logged r) = rx_MaxWindow r"
  "rx_MaxRebuilds (logged r) = rx_MaxRebuilds r"
  by (simp_all add: logged_def)

subsection \<open>Only a post writes to the log\<close>

lemma on_world_log: "snd (snd (on_world f x)) = snd x"
  by (simp add: on_world_def split: prod.split)

lemma on_world_log_eq: "on_world f x = (a, y) \<Longrightarrow> snd y = snd x"
  using on_world_log [of f x] by simp

lemma backoff_delay_log: "snd (snd (backoff_delay (logged r) n started x)) = snd x"
  by (auto simp: backoff_delay_def Let_def dest!: on_world_log_eq split: prod.split)

lemma sync_backoff_log: "snd (snd (sync_backoff (logged r) n started x)) = snd x"
proof -
  obtain d y where d: "backoff_delay (logged r) n started x = (d, y)" by (rule prod.exhaust)
  with backoff_delay_log [of r n started x] have y: "snd y = snd x" by simp
  show ?thesis
  proof (cases d)
    case None
    with d y show ?thesis by (simp add: sync_backoff_def)
  next
    case (Some delay)
    obtain b z where z: "rx_Sleep (logged r) delay y = (b, z)" by (rule prod.exhaust)
    with on_world_log [of "rx_Sleep r delay" y] have "snd z = snd y" by simp
    with d y z Some show ?thesis by (cases b) (simp_all add: sync_backoff_def)
  qed
qed

lemma next_round_log:
  assumes "next_round (logged r) started v x = (out, y)"
  shows "snd y = snd x \<and> (out = Inr v \<or> (\<exists>e. out = Inl (Stopped e)))"
proof -
  obtain b z where b: "sync_backoff (logged r) (sv_attempt v) started x = (b, z)" by (rule prod.exhaust)
  with sync_backoff_log [of r "sv_attempt v" started x] have "snd z = snd x" by simp
  with b assms show ?thesis by (cases b) (auto simp: next_round_def)
qed

text \<open>What a round leaves of the variables when it goes on.\<close>

definition generation_of :: "'b send_vars \<Rightarrow> int" where
  "generation_of v = ry_BlockedResyncGeneration (sv_blocked v)"

definition carried :: "int set \<Rightarrow> 'b send_vars \<Rightarrow> 'b send_vars \<Rightarrow> bool" where
  "carried G v u \<longleftrightarrow> sv_sequence u = sv_sequence v \<and> ry_Sequence (sv_blocked u) = ry_Sequence (sv_blocked v) \<and>
     generation_of u \<in> insert (generation_of v) G"

definition generations_in :: "send_error \<Rightarrow> int set" where
  "generations_in e = (case e of Response r \<Rightarrow> {detailInt (er_Detail r) ''resyncGeneration''} | Transport _ \<Rightarrow> {})"

lemma resynced_carried: "carried (generations_in (Response response)) v (resynced response v)"
  by (simp add: resynced_def Let_def carried_def generation_of_def generations_in_def)

definition goes_on :: "int set \<Rightarrow> 'b send_vars \<Rightarrow> 'b send_outcome \<Rightarrow> bool" where
  "goes_on G v out \<longleftrightarrow> (case out of Inr u \<Rightarrow> carried G v u | Inl (Stopped e) \<Rightarrow> True | Inl _ \<Rightarrow> False)"

lemma next_round_goes_on:
  assumes "next_round (logged r) started u x = (out, y)" and "carried G v u"
  shows "snd y = snd x \<and> goes_on G v out"
  using next_round_log [OF assms(1)] assms(2) by (auto simp: goes_on_def)

lemma try_rebuild_goes_on:
  assumes "try_rebuild (logged r) started response manifest v x = (out, y)"
  shows "snd y = snd x \<and> goes_on (generations_in (Response response)) v out"
proof -
  have plain: "snd y = snd x \<and> goes_on (generations_in (Response response)) v out"
    if "next_round (logged r) started (resynced response u) z = (out, y)" "snd z = snd x" "carried {} v u" for u z
  proof -
    have "carried (generations_in (Response response)) v (resynced response u)"
      using resynced_carried [of response u] that(3) by (simp add: carried_def)
    from next_round_goes_on [OF that(1) this] that(2) show ?thesis by simp
  qed
  show ?thesis
  proof (cases "rx_Rebuild r")
    case None
    with assms show ?thesis by (intro plain [of v x]) (simp_all add: try_rebuild_def carried_def generation_of_def)
  next
    case (Some rebuild)
    let ?u = "v\<lparr>sv_rebuilds := sv_rebuilds v + 1\<rparr>"
    obtain b z where b: "on_world (rebuild manifest) x = (b, z)" by (rule prod.exhaust)
    note z = on_world_log_eq [OF b]
    consider (many) "\<not> sv_rebuilds v < rx_MaxRebuilds r" | (rebuilt) q where "b = Inr (Some q)" "sv_rebuilds v < rx_MaxRebuilds r"
      | (none) "b = Inr None \<or> (\<exists>e. b = Inl e)" "sv_rebuilds v < rx_MaxRebuilds r"
      by (metis option.exhaust sum.exhaust)
    then show ?thesis
    proof cases
      case many
      with assms Some show ?thesis by (intro plain [of v x]) (simp_all add: try_rebuild_def carried_def generation_of_def)
    next
      case (rebuilt q)
      with assms Some b have "next_round (logged r) started (?u\<lparr>sv_report := q\<lparr>rq_ReportSequence := sv_sequence v,
          rq_ObservedDesiredRevision := mf_DesiredRevision manifest\<rparr>\<rparr>) z = (out, y)"
        by (simp add: try_rebuild_def)
      from next_round_goes_on [OF this, where v = v] z show ?thesis by (simp add: carried_def generation_of_def)
    next
      case none
      with assms Some b have "next_round (logged r) started (resynced response ?u) z = (out, y)"
        by (auto simp: try_rebuild_def)
      from plain [OF this z] show ?thesis by (simp add: carried_def generation_of_def)
    qed
  qed
qed

lemma after_rejection_goes_on:
  assumes "after_rejection (logged r) started response v x = (out, y)"
  shows "snd y = snd x \<and> goes_on (generations_in (Response response)) v out"
proof -
  define v1 where "v1 = v\<lparr>sv_lastCode := er_Code response, sv_lastDetail := ResponseError_Error response\<rparr>"
  have v1: "goes_on (generations_in (Response response)) v1 out \<Longrightarrow> goes_on (generations_in (Response response)) v out" "goes_on (generations_in (Response response)) (v1\<lparr>sv_observed := n\<rparr>) out \<Longrightarrow> goes_on (generations_in (Response response)) v out" for n
    by (simp_all add: goes_on_def v1_def carried_def generation_of_def split: sum.splits)
  obtain m z where m: "on_world (rx_Manifest r) x = (m, z)" by (rule prod.exhaust)
  note z = on_world_log_eq [OF m]
  show ?thesis
  proof (cases m)
    case (Inl e)
    with assms m have "next_round (logged r) started v1 z = (out, y)" by (simp add: after_rejection_def v1_def Let_def)
    from next_round_goes_on [OF this, where v = v1] z v1(1) show ?thesis by (simp add: carried_def generation_of_def)
  next
    case (Inr manifest)
    with assms m have "try_rebuild (logged r) started response manifest (v1\<lparr>sv_observed := mf_DesiredRevision manifest\<rparr>) z = (out, y)"
      by (simp add: after_rejection_def v1_def Let_def)
    from try_rebuild_goes_on [OF this] z v1(2) show ?thesis by metis
  qed
qed

lemma after_error_goes_on:
  assumes "after_error (logged r) started e v x = (out, y)"
  shows "snd y = snd x \<and> goes_on (generations_in e) v out"
proof (cases "rejection e")
  case None
  with assms have "next_round (logged r) started (v\<lparr>sv_lastCode := [], sv_lastDetail := []\<rparr>) x = (out, y)"
    by (simp add: after_error_def)
  from next_round_goes_on [OF this, where v = v] show ?thesis by (simp add: carried_def generation_of_def)
next
  case (Some response)
  with assms have "after_rejection (logged r) started response v x = (out, y)" by (simp add: after_error_def)
  moreover from Some have "e = Response response" by (auto simp: rejection_def split: send_error.splits if_splits)
  ultimately show ?thesis using after_rejection_goes_on by metis
qed

section \<open>One round\<close>

text \<open>A report as the sender posts it.\<close>

definition posted :: "('b Report \<Rightarrow> goerr + string) \<Rightarrow> int \<Rightarrow> 'b Report \<Rightarrow> bool" where
  "posted marshal n p \<longleftrightarrow> rq_ReportSequence p = n \<and> reportDigest marshal p = Inr (rq_ReportDigest p)"

lemma reportDigest_blank [simp]: "reportDigest marshal (p\<lparr>rq_ReportDigest := d\<rparr>) = reportDigest marshal p"
  by (simp add: reportDigest_def)

lemma send_attempt_cases:
  assumes "send_attempt marshal (logged r) started v x = (out, y)"
  obtains (late) "out = Inl (Exhausted v)" and "snd y = snd x"
  | (unsent) e where "out = Inl (Stopped e)" and "snd y = snd x"
  | (accepted) p b where "out = Inl (Accepted b)" and "snd y = snd x @ [p]" and "posted marshal (wrap64 (sv_sequence v + 1)) p"
      and "ry_Sequence b = wrap64 (sv_sequence v + 1)"
  | (stopped) p e where "out = Inl (Stopped e)" and "snd y = snd x @ [p]" and "posted marshal (wrap64 (sv_sequence v + 1)) p"
  | (again) p u where "out = Inr u" and "snd y = snd x @ [p]" and "posted marshal (wrap64 (sv_sequence v + 1)) p"
      and "sv_sequence u = wrap64 (sv_sequence v + 1)" and "round_done v u"
      and "\<exists>w e w'. rx_Post r p w = (Inl e, w') \<and> generation_of u \<in> insert (generation_of v) (generations_in e)"
proof -
  obtain now z where now: "on_world (rx_Now r) x = (now, z)" by (rule prod.exhaust)
  with on_world_log [of "rx_Now r" x] have z: "snd z = snd x" by simp
  define n where "n = wrap64 (sv_sequence v + 1)"
  define report where "report = (sv_report v)\<lparr>rq_ReportSequence := n, rq_ObservedDesiredRevision := sv_observed v\<rparr>"
  note eq = assms [unfolded send_attempt_def, folded n_def, folded report_def] now
  show thesis
  proof (cases "time_sub now started > rx_MaxWindow r")
    case True
    with eq z show thesis by (intro late) (auto simp: Let_def)
  next
    case False
    show thesis
    proof (cases "reportDigest marshal report")
      case (Inl e)
      with eq z False show thesis by (intro unsent [of e]) (auto simp: Let_def report_def n_def)
    next
      case (Inr digest)
      define p where "p = report\<lparr>rq_ReportDigest := digest\<rparr>"
      have p: "posted marshal n p" using Inr by (simp add: posted_def p_def report_def)
      define v1 where "v1 = v\<lparr>sv_attempt := sv_attempt v + 1, sv_sequence := n, sv_report := p\<rparr>"
      obtain w l where wl: "z = (w, l)" by (rule prod.exhaust)
      obtain a w' where a: "rx_Post r p w = (a, w')" by (rule prod.exhaust)
      show thesis
      proof (cases a)
        case (Inr ack)
        with eq False \<open>reportDigest marshal report = Inr digest\<close> a wl z p show thesis
          by (intro accepted [of "accepted_row n ack (sv_blocked v)" p])
            (auto simp: Let_def p_def report_def n_def accepted_row_def)
      next
        case (Inl e)
        with eq False \<open>reportDigest marshal report = Inr digest\<close> a wl
        have err: "after_error (logged r) started e v1 (w', l @ [p]) = (out, y)"
          by (auto simp: Let_def p_def report_def n_def v1_def)
        from after_error_goes_on [OF err] have y: "snd y = snd x @ [p]" "goes_on (generations_in e) v1 out" using z wl by auto
        show thesis
        proof (cases out)
          case (Inl finish)
          with y p show thesis by (cases finish) (auto simp: goes_on_def n_def intro: stopped)
        next
          case (Inr u)
          with send_attempt_again [of marshal "logged r" started v x u y] assms have "round_done v u" by simp
          moreover from Inr y have "sv_sequence u = n" "generation_of u \<in> insert (generation_of v) (generations_in e)"
            by (simp_all add: goes_on_def carried_def v1_def generation_of_def)
          moreover from a \<open>a = Inl e\<close> wl have "rx_Post r p w = (Inl e, w')" by (simp add: p_def)
          ultimately show thesis using Inr y p unfolding n_def by (intro again [of u p]) blast+
        qed
      qed
    qed
  qed
qed

section \<open>The loop\<close>

text \<open>The reports \<open>ps\<close>, posted after the sequence number \<open>n\<close>.\<close>

fun posted_from :: "('b Report \<Rightarrow> goerr + string) \<Rightarrow> int \<Rightarrow> 'b Report list \<Rightarrow> bool" where
  "posted_from marshal n [] = True"
| "posted_from marshal n (p # ps) = (posted marshal (wrap64 (n + 1)) p \<and> posted_from marshal (wrap64 (n + 1)) ps)"

definition sequence_after :: "int \<Rightarrow> 'b Report list \<Rightarrow> int" where
  "sequence_after n ps = (if ps = [] then n else rq_ReportSequence (last ps))"

lemma send_loop_log:
  "send_loop marshal (logged r) started v x = (finish, y) \<Longrightarrow>
     \<exists>ps. snd y = snd x @ ps \<and> posted_from marshal (sv_sequence v) ps \<and>
       (case finish of
          Accepted b \<Rightarrow> ry_Sequence b = sequence_after (sv_sequence v) ps
        | Stopped e \<Rightarrow> True
        | Exhausted u \<Rightarrow> sv_sequence u = sequence_after (sv_sequence v) ps)"
proof (induction marshal "logged r" started v x rule: send_loop.induct)
  case (1 marshal started v x)
  show ?case
  proof (cases "sv_attempt v < rx_MaxAttempts r")
    case False
    with 1(2) have "finish = Exhausted v" "y = x" by (simp_all add: send_loop.simps [of _ _ _ v])
    then show ?thesis by (intro exI [of _ "[]"]) (simp add: sequence_after_def)
  next
    case True
    obtain out z where out: "send_attempt marshal (logged r) started v x = (out, z)" by (rule prod.exhaust)
    note step = 1(2) [unfolded send_loop.simps [of _ _ _ v]] True
    from out show ?thesis
    proof (cases rule: send_attempt_cases)
      case late
      with step out have "finish = Exhausted v" "snd y = snd x" by auto
      then show ?thesis by (intro exI [of _ "[]"]) (simp add: sequence_after_def)
    next
      case (unsent e)
      with step out have "finish = Stopped e" "snd y = snd x" by auto
      then show ?thesis by (intro exI [of _ "[]"]) simp
    next
      case (accepted p b)
      with step out have "finish = Accepted b" "snd y = snd x @ [p]" by auto
      with accepted show ?thesis by (intro exI [of _ "[p]"]) (simp add: sequence_after_def posted_def)
    next
      case (stopped p e)
      with step out have "finish = Stopped e" "snd y = snd x @ [p]" by auto
      with stopped show ?thesis by (intro exI [of _ "[p]"]) simp
    next
      case (again p u)
      from step out again have rest: "send_loop marshal (logged r) started u z = (finish, y)" by simp
      from 1(1) [OF _ out [symmetric] _ rest] True again(1) obtain ps where
        ps: "snd y = snd z @ ps" "posted_from marshal (sv_sequence u) ps"
          "case finish of Accepted b \<Rightarrow> ry_Sequence b = sequence_after (sv_sequence u) ps | Stopped e \<Rightarrow> True
            | Exhausted u' \<Rightarrow> sv_sequence u' = sequence_after (sv_sequence u) ps"
        by auto
      have after: "sequence_after (sv_sequence v) (p # ps) = sequence_after (sv_sequence u) ps"
        using again(3,4) by (simp add: sequence_after_def posted_def)
      from ps again after show ?thesis
        by (intro exI [of _ "p # ps"]) (auto split: send_end.splits)
    qed
  qed
qed

text \<open>How many reports: an attempt per round, and all attempts anew for each generation up to \<open>g\<close>.\<close>

definition generations_up_to :: "int \<Rightarrow> ('b, 'w) ReportSync \<Rightarrow> bool" where
  "generations_up_to g r \<longleftrightarrow> (\<forall>p w e w'. rx_Post r p w = (Inl e, w') \<longrightarrow> (\<forall>n\<in>generations_in e. n \<le> g))"

definition rounds_left :: "int \<Rightarrow> int \<Rightarrow> 'b send_vars \<Rightarrow> nat" where
  "rounds_left g m v = nat (m - sv_attempt v) + nat (g - generation_of v) * nat m"

lemma rounds_left_again:
  assumes "round_done v u" and "sv_attempt v < m" and "0 \<le> m" and "generation_of u \<le> max g (generation_of v)"
  shows "rounds_left g m u < rounds_left g m v"
proof (cases "generation_of v < generation_of u")
  case True
  with assms have u: "generation_of u \<le> g" "sv_attempt u = 0" by (auto simp: round_done_def generation_of_def)
  define k where "k = nat (g - generation_of u)"
  from True u have "nat (g - generation_of v) \<ge> Suc k" by (simp add: k_def)
  then have "Suc k * nat m \<le> nat (g - generation_of v) * nat m" by (rule mult_le_mono1)
  then have "nat m + k * nat m \<le> nat (g - generation_of v) * nat m" by simp
  moreover have "rounds_left g m u = nat m + k * nat m" using u by (simp add: rounds_left_def k_def)
  moreover have "0 < nat (m - sv_attempt v)" using assms(2) by simp
  ultimately show ?thesis unfolding rounds_left_def [of g m v] by linarith
next
  case False
  with assms(1,2) show ?thesis by (auto simp: rounds_left_def round_done_def generation_of_def)
qed

lemma rounds_left_pos: "sv_attempt v < m \<Longrightarrow> 0 < rounds_left g m v"
  by (simp add: rounds_left_def)

lemma send_loop_count:
  "send_loop marshal (logged r) started v x = (finish, y) \<Longrightarrow> generations_up_to g r \<Longrightarrow> 0 \<le> rx_MaxAttempts r \<Longrightarrow>
     length (snd y) \<le> length (snd x) + rounds_left g (rx_MaxAttempts r) v"
proof (induction marshal "logged r" started v x rule: send_loop.induct)
  case (1 marshal started v x)
  show ?case
  proof (cases "sv_attempt v < rx_MaxAttempts r")
    case False
    with 1(2) have "y = x" by (simp add: send_loop.simps [of _ _ _ v])
    then show ?thesis by simp
  next
    case True
    note pos = rounds_left_pos [OF True, of g]
    obtain out z where out: "send_attempt marshal (logged r) started v x = (out, z)" by (rule prod.exhaust)
    note step = 1(2) [unfolded send_loop.simps [of _ _ _ v]] True
    from out show ?thesis
    proof (cases rule: send_attempt_cases)
      case (again p u)
      from step out again have rest: "send_loop marshal (logged r) started u z = (finish, y)" by simp
      from 1(1) [OF _ out [symmetric] _ rest 1(3,4)] True again(1)
      have "length (snd y) \<le> length (snd z) + rounds_left g (rx_MaxAttempts r) u" by simp
      moreover have "generation_of u \<le> max g (generation_of v)"
        using again(6) 1(3) unfolding generations_up_to_def by fastforce
      then have "rounds_left g (rx_MaxAttempts r) u < rounds_left g (rx_MaxAttempts r) v"
        by (rule rounds_left_again [OF again(5) True 1(4)])
      ultimately show ?thesis using again(2) by simp
    qed (use step out pos in auto)
  qed
qed

end
