(* ===== verification/Report_Sync_Properties.thy ===== *)
theory Report_Sync_Properties
  imports Report_Sync_Laws Manifest_Examples
begin

text \<open>
  The properties of the sender of reports: the sequence numbers over any number of accepted or given up
  sends, the number of posts of a send, and the two places where the code and its comments part.
\<close>

lemma Store_PutReportSyncState_row [simp]: "Store_ReportSyncState (Store_PutReportSyncState b row) = b"
  by (simp add: Store_ReportSyncState_def Store_PutReportSyncState_def)

lemma send_from_log:
  assumes "send_from marshal (logged r) report blocked row x = (row', e, y)"
  shows "\<exists>ps. snd y = snd x @ ps \<and> posted_from marshal (ry_Sequence blocked) ps \<and>
    (e = ok \<longrightarrow> ry_Sequence (Store_ReportSyncState row') = sequence_after (ry_Sequence blocked) ps)"
proof -
  obtain started z where now: "on_world (rx_Now r) x = (started, z)" by (rule prod.exhaust)
  define v where "v = \<lparr>sv_attempt = 0, sv_rebuilds = 0, sv_sequence = ry_Sequence blocked, sv_lastCode = [],
    sv_lastDetail = [], sv_observed = 0, sv_blocked = blocked, sv_report = report\<rparr>"
  obtain finish u where loop: "send_loop marshal (logged r) started v z = (finish, u)" by (rule prod.exhaust)
  have seq: "sv_sequence v = ry_Sequence blocked" by (simp add: v_def)
  from send_loop_log [OF loop] on_world_log_eq [OF now] obtain ps where
    ps: "snd u = snd x @ ps" "posted_from marshal (ry_Sequence blocked) ps"
      "case finish of Accepted b \<Rightarrow> ry_Sequence b = sequence_after (ry_Sequence blocked) ps | Stopped e \<Rightarrow> True
        | Exhausted u \<Rightarrow> sv_sequence u = sequence_after (ry_Sequence blocked) ps"
    unfolding seq by auto
  obtain end' t where now': "on_world (rx_Now r) u = (end', t)" by (rule prod.exhaust)
  show ?thesis
    using assms now loop ps now' on_world_log_eq [OF now']
    by (cases finish) (auto simp: send_from_def v_def blocked_row_def intro!: exI [of _ ps])
qed

lemma Send_log:
  assumes "ReportSync_Send marshal (logged r) report row x = (row', e, y)"
  shows "\<exists>ps. snd y = snd x @ ps \<and> posted_from marshal (ry_Sequence (Store_ReportSyncState row)) ps \<and>
    (e = ok \<longrightarrow> ry_Sequence (Store_ReportSyncState row') = sequence_after (ry_Sequence (Store_ReportSyncState row)) ps)"
proof (cases "ry_BlockedCode (Store_ReportSyncState row) = []")
  case True
  with assms have "send_from marshal (logged (sync_defaults r)) report (Store_ReportSyncState row) row x = (row', e, y)"
    by (simp add: ReportSync_Send_def)
  then show ?thesis by (rule send_from_log)
next
  case False
  obtain m z where m: "on_world (rx_Manifest (sync_defaults r)) x = (m, z)" by (rule prod.exhaust)
  note z = on_world_log_eq [OF m]
  let ?b = "unblocked_row (Store_ReportSyncState row)"
  consider (silent) "snd y = snd x" "row' = row"
    | (go) "send_from marshal (logged (sync_defaults r)) report ?b (Store_PutReportSyncState ?b row) z = (row', e, y)"
    using assms False m z by (cases m) (auto simp: ReportSync_Send_def Let_def split: if_splits)
  then show ?thesis
  proof cases
    case silent
    then show ?thesis by (intro exI [of _ "[]"]) (simp add: sequence_after_def)
  next
    case go
    from send_from_log [OF go] z show ?thesis by (simp add: unblocked_row_def)
  qed
qed

section \<open>Sequence numbers\<close>

text \<open>Any number of sends, each by a sender of its own and from a state of the world of its own, as after a restart.\<close>

fun sends ::
  "('b Report \<Rightarrow> goerr + string) \<Rightarrow> (('b, 'w) ReportSync \<times> 'b Report \<times> 'w) list \<Rightarrow> ReportSyncRow option \<Rightarrow>
     ReportSyncRow option \<times> 'b Report list \<times> bool" where
  "sends marshal [] row = (row, [], True)"
| "sends marshal ((r, report, w) # cs) row =
     (let (row1, e, _, ps) = ReportSync_Send marshal (logged r) report row (w, []);
          (row2, qs, good) = sends marshal cs row1 in
      (row2, ps @ qs, e = ok \<and> good))"

lemma posted_from_append:
  "posted_from marshal n (ps @ qs) \<longleftrightarrow> posted_from marshal n ps \<and> posted_from marshal (sequence_after n ps) qs"
proof (induction ps arbitrary: n)
  case (Cons p ps)
  have "posted marshal (wrap64 (n + 1)) p \<Longrightarrow> sequence_after n (p # ps) = sequence_after (wrap64 (n + 1)) ps"
    by (simp add: sequence_after_def posted_def)
  then show ?case by (cases "posted marshal (wrap64 (n + 1)) p") (simp_all only: append_Cons posted_from.simps Cons.IH simp_thms)
qed (simp add: sequence_after_def)

lemma sends_posted:
  "sends marshal cs row = (row', ps, True) \<Longrightarrow> posted_from marshal (ry_Sequence (Store_ReportSyncState row)) ps"
proof (induction marshal cs row arbitrary: row' ps rule: sends.induct)
  case (2 marshal r report w cs row)
  obtain row1 e w' qs where send: "ReportSync_Send marshal (logged r) report row (w, []) = (row1, e, w', qs)"
    by (rule prod_cases4)
  obtain row2 qs' good where rest: "sends marshal cs row1 = (row2, qs', good)" by (rule prod_cases3)
  from 2(2) send rest have parts: "ps = qs @ qs'" "e = ok" "good" by simp_all
  from Send_log [OF send] parts(2) have "posted_from marshal (ry_Sequence (Store_ReportSyncState row)) qs"
    "ry_Sequence (Store_ReportSyncState row1) = sequence_after (ry_Sequence (Store_ReportSyncState row)) qs" by auto
  moreover from 2(1) [OF send [symmetric] refl refl] rest parts(3)
  have "posted_from marshal (ry_Sequence (Store_ReportSyncState row1)) qs'" by simp
  ultimately show ?case by (simp add: parts(1) posted_from_append)
qed simp

lemma posted_from_sequences:
  "posted_from marshal n ps \<Longrightarrow> in64 n \<Longrightarrow> n + int (length ps) \<le> max64 \<Longrightarrow>
     map rq_ReportSequence ps = map (\<lambda>i. n + 1 + int i) [0..<length ps]"
proof (induction ps arbitrary: n)
  case (Cons p ps)
  then have n: "wrap64 (n + 1) = n + 1" "in64 (n + 1)" by (simp_all add: wrap64_id in64_def)
  with Cons have "map rq_ReportSequence ps = map (\<lambda>i. n + 1 + 1 + int i) [0..<length ps]"
    by (intro Cons.IH) simp_all
  moreover have "[0..<length (p # ps)] = 0 # map Suc [0..<length ps]" by (simp add: upt_conv_Cons map_Suc_upt del: upt_Suc)
  ultimately show ?case using Cons.prems(1) n(1) by (simp add: posted_def del: upt_Suc)
qed simp

lemma posted_from_digests: "posted_from marshal n ps \<Longrightarrow> p \<in> set ps \<Longrightarrow> reportDigest marshal p = Inr (rq_ReportDigest p)"
  by (induction ps arbitrary: n) (auto simp: posted_def)

text \<open>
  C20. However many sends follow each other, by whatever senders and whatever the control
  plane answers, as long as each of them returns without error the posted reports carry the
  numbers that follow the stored one, each once and in order, accepted or given up; and each
  carries the digest of its own body.
\<close>

theorem report_sequence_fresh:
  assumes "sends marshal cs row = (row', ps, True)"
    and "in64 (ry_Sequence (Store_ReportSyncState row))"
    and "ry_Sequence (Store_ReportSyncState row) + int (length ps) \<le> max64"
  shows "map rq_ReportSequence ps = map (\<lambda>i. ry_Sequence (Store_ReportSyncState row) + 1 + int i) [0..<length ps] \<and>
    distinct (map rq_ReportSequence ps) \<and> list_all (\<lambda>p. reportDigest marshal p = Inr (rq_ReportDigest p)) ps"
proof -
  note p = sends_posted [OF assms(1)]
  note seq = posted_from_sequences [OF p assms(2,3)]
  have "distinct (map (\<lambda>i. n + 1 + int i) [0..<k])" for n :: int and k
    by (simp add: distinct_map inj_on_def)
  with seq posted_from_digests [OF p] show ?thesis by (simp add: list_all_iff)
qed

section \<open>A concrete control plane\<close>

text \<open>The world is the list of answers still to come and the manifest; time stands still.\<close>

type_synonym ex_world = "(send_error + ReportAck) list"

definition ex_sync :: "Manifest \<Rightarrow> bool \<Rightarrow> (string, ex_world) ReportSync" where
  "ex_sync m awake =
     \<lparr>rx_Post = (\<lambda>_ w. case w of [] \<Rightarrow> (Inl (Transport (E ''connection refused'')), []) | a # as \<Rightarrow> (a, as)),
      rx_Manifest = (\<lambda>w. (Inr m, w)), rx_Rebuild = None,
      rx_Sleep = (\<lambda>_ w. (awake, w)), rx_Now = (\<lambda>w. (0, w)), rx_Jittered = (\<lambda>d w. (d, w)),
      rx_ContextErr = (\<lambda>_. if awake then None else Some (Sentinel ''context canceled'')),
      rx_MaxAttempts = 2, rx_MaxRebuilds = 0, rx_BaseDelay = 0, rx_MaxDelay = 0, rx_MaxWindow = 0\<rparr>"

definition ex_report :: "string \<Rightarrow> string Report" where
  "ex_report b = \<lparr>rq_ReportSequence = 0, rq_ReportDigest = [], rq_ObservedDesiredRevision = 0, rq_Rest = b\<rparr>"

definition ex_ack :: ReportAck where
  "ex_ack = \<lparr>ack_ReportEpoch = 4, ack_DesiredRevision = 0, ack_AppliedRevision = 0, ack_ResyncGeneration = 0, ack_Replayed = False\<rparr>"

definition ex_marshal :: "string Report \<Rightarrow> goerr + string" where
  "ex_marshal p = Inr (rq_Rest p)"

definition ex_conflict :: "int \<Rightarrow> send_error" where
  "ex_conflict g = Response \<lparr>er_Status = 409, er_Code = ''runtime_report_conflict'',
     er_Detail = [(''resyncGeneration'', JFloat g 0)]\<rparr>"

text \<open>The rules that run a sender; the digests stay as they are.\<close>

lemmas run_send = ReportSync_Send_def send_from_def send_loop.simps send_attempt_def after_error_def after_rejection_def
  try_rebuild_def resynced_def next_round_def sync_backoff_def backoff_delay_def power_delay_def accepted_row_def
  blocked_row_def unblocked_row_def reportDigest_def rejection_def detailInt_def float_int64_def
  Store_ReportSyncState_def Store_PutReportSyncState_def sync_defaults_def Let_def in64_def min64_def max64_def
  time_sub_def sat64_def wrap64_def on_world_def logged_def ex_sync_def ex_report_def ex_ack_def ex_marshal_def ex_conflict_def

text \<open>Two sends: the first is accepted at its second attempt, the second is given up.\<close>

definition ex_sends :: "((string, ex_world) ReportSync \<times> string Report \<times> ex_world) list" where
  "ex_sends = [(ex_sync ex_full True, ex_report ''a'', [Inl (Transport (E ''timeout'')), Inr ex_ack]),
     (ex_sync ex_full True, ex_report ''b'', [])]"

lemma ex_sends_run:
  "snd (snd (sends ex_marshal ex_sends None))" "length (fst (snd (sends ex_marshal ex_sends None))) = 4"
  "map rq_Rest (fst (snd (sends ex_marshal ex_sends None))) = [''a'', ''a'', ''b'', ''b'']"
  by (simp_all add: ex_sends_def run_send)

theorem report_sequence_fresh_witness:
  "map rq_ReportSequence (fst (snd (sends ex_marshal ex_sends None))) = [1, 2, 3, 4] \<and>
   map rq_Rest (fst (snd (sends ex_marshal ex_sends None))) = [''a'', ''a'', ''b'', ''b'']"
proof -
  have run: "sends ex_marshal ex_sends None =
      (fst (sends ex_marshal ex_sends None), fst (snd (sends ex_marshal ex_sends None)), True)"
    using ex_sends_run(1) by (simp add: prod_eq_iff)
  from report_sequence_fresh [OF run] ex_sends_run(2,3) show ?thesis
    by (simp add: Store_ReportSyncState_def in64_def min64_def max64_def upt_conv_Cons)
qed

section \<open>How many posts\<close>

text \<open>
  A send always ends, and it posts at most the configured number of attempts, and that
  number again for each step the resync generation can rise above the stored one: a control
  plane that raises no generation gets at most the attempts.
\<close>

theorem report_send_bounded:
  fixes marshal :: "'b Report \<Rightarrow> goerr + string" and r :: "('b, 'w) ReportSync" and w :: 'w
  assumes "generations_up_to g r"
    and "ry_BlockedCode (Store_ReportSyncState row) = []"
    and "ReportSync_Send marshal (logged r) report row (w, []) = (row', e, w', ps)"
  shows "length ps \<le> nat (rx_MaxAttempts (sync_defaults r)) *
    Suc (nat (g - ry_BlockedResyncGeneration (Store_ReportSyncState row)))"
proof -
  let ?r = "sync_defaults r" and ?b = "Store_ReportSyncState row"
  have g: "generations_up_to g ?r" using assms(1) by (simp add: generations_up_to_def sync_defaults_def)
  have m: "0 \<le> rx_MaxAttempts ?r" by (simp add: sync_defaults_def)
  have from_eq: "send_from marshal (logged ?r) report ?b row (w, []) = (row', e, w', ps)"
    using assms(2,3) by (simp add: ReportSync_Send_def)
  obtain started z where now: "on_world (rx_Now ?r) (w, [] :: 'b Report list) = (started, z)" by (rule prod.exhaust)
  define v where "v = \<lparr>sv_attempt = 0, sv_rebuilds = 0, sv_sequence = ry_Sequence ?b, sv_lastCode = [],
    sv_lastDetail = [], sv_observed = 0, sv_blocked = ?b, sv_report = report\<rparr>"
  obtain finish u where loop: "send_loop marshal (logged ?r) started v z = (finish, u)" by (rule prod.exhaust)
  from send_loop_count [OF loop g m] on_world_log_eq [OF now]
  have "length (snd u) \<le> rounds_left g (rx_MaxAttempts ?r) v" by simp
  moreover have "ps = snd u"
  proof -
    obtain t y where now': "on_world (rx_Now ?r) u = (t, y)" by (rule prod.exhaust)
    show ?thesis
      using from_eq now loop now' on_world_log_eq [OF now']
      by (cases finish) (auto simp: send_from_def v_def)
  qed
  moreover have "rounds_left g (rx_MaxAttempts ?r) v =
      nat (rx_MaxAttempts ?r) * Suc (nat (g - ry_BlockedResyncGeneration ?b))"
    by (simp add: rounds_left_def v_def generation_of_def)
  ultimately show ?thesis by simp
qed

text \<open>A control plane that only ever answers with the generation \<open>1\<close>: two attempts, and two more.\<close>

definition ex_stubborn :: "(string, ex_world) ReportSync" where
  "ex_stubborn = (ex_sync ex_full True)\<lparr>rx_Post := (\<lambda>_ w. (Inl (ex_conflict 1), w))\<rparr>"

theorem report_send_bounded_witness:
  "length (snd (snd (snd (ReportSync_Send ex_marshal (logged ex_stubborn) (ex_report ''a'') None ([], []))))) = 3 \<and>
   length (snd (snd (snd (ReportSync_Send ex_marshal (logged ex_stubborn) (ex_report ''a'') None ([], []))))) \<le> 4"
proof
  show "length (snd (snd (snd (ReportSync_Send ex_marshal (logged ex_stubborn) (ex_report ''a'') None ([], []))))) = 3"
    by (simp add: ex_stubborn_def run_send ResponseError_Error_def)
  have g: "generations_up_to 1 ex_stubborn"
    by (auto simp: generations_up_to_def ex_stubborn_def ex_conflict_def generations_in_def detailInt_def float_int64_def in64_def
        min64_def max64_def)
  have b: "ry_BlockedCode (Store_ReportSyncState None) = []" by (simp add: Store_ReportSyncState_def)
  obtain row' e w' ps where send:
    "ReportSync_Send ex_marshal (logged ex_stubborn) (ex_report ''a'') None ([], []) = (row', e, w', ps)"
    by (rule prod_cases4)
  have "rx_MaxAttempts (sync_defaults ex_stubborn) = 2"
    by (simp add: sync_defaults_def ex_stubborn_def ex_sync_def)
  with report_send_bounded [OF g b send] send
  show "length (snd (snd (snd (ReportSync_Send ex_marshal (logged ex_stubborn) (ex_report ''a'') None ([], []))))) \<le> 4"
    by (simp add: Store_ReportSyncState_def)
qed

section \<open>Where the code and its comments part\<close>

text \<open>
  The sequence number is stored only when a send ends by itself. A send that is cancelled
  while it backs off (the daemon is stopped) leaves the stored number as it was although its
  report may have arrived, so the next start posts another body under the same number.
\<close>

theorem report_sequence_reused:
  "fst (sends ex_marshal [(ex_sync ex_full False, ex_report ''before'', [])] None) = None \<and>
   map (\<lambda>p. (rq_ReportSequence p, rq_Rest p)) (fst (snd (sends ex_marshal
     [(ex_sync ex_full False, ex_report ''before'', []), (ex_sync ex_full True, ex_report ''after'', [Inr ex_ack])] None))) =
   [(1, ''before''), (1, ''after'')]"
  by (simp add: run_send)

text \<open>
  The block that ends a send without any typed rejection records the desired revision 0,
  because the manifest is only read after a rejection. So the next send with the very same
  manifest clears the block and posts again, although only a newer desired revision is meant
  to clear it.
\<close>

theorem report_block_forgotten:
  "map_option (\<lambda>b. (ry_BlockedCode b, ry_BlockedDesiredRevision b)) (fst (sends ex_marshal
     [(ex_sync ex_full True, ex_report ''a'', [])] None)) = Some (''report_retry_exhausted'', 0) \<and>
   0 < mf_DesiredRevision ex_full \<and>
   map rq_Rest (fst (snd (sends ex_marshal
     [(ex_sync ex_full True, ex_report ''a'', []), (ex_sync ex_full True, ex_report ''a'', [])] None))) =
   [''a'', ''a'', ''a'', ''a'']"
proof -
  have "mf_DesiredRevision ex_full = 7" by (simp add: ex_full_def ex_manifest_def)
  then show ?thesis by (simp add: run_send)
qed

end
