(* ===== verification/Store_Projects.thy ===== *)
theory Store_Projects
  imports Model_Service Go_Sql
begin

text \<open>
  Managed projects and managed services in the store (\<open>internal/state/store.go\<close>): the projects are the
  workspace roots of the teams, whose identity on disk is pinned, and the services are the agent processes on them,
  whose creation is dispatched at most once per generation. The two tables are touched by no other part of the store,
  so they are a record of their own.
  A row of \<open>managed_workspace_projects\<close> is the value of its column \<open>private_json\<close>; the other columns are copies
  of its members. A row of \<open>managed_services\<close> holds \<open>None\<close> where the column \<open>report_json\<close> is \<open>NULL\<close>.
  \<open>between\<close> is what other callers do between two statements of a method without transaction; \<open>deepEqual\<close> is
  \<open>reflect.DeepEqual\<close> on a project, which holds a time.
\<close>

section \<open>Data\<close>

record ProjectCatalogReportV1 =
  pj_FormatVersion :: "int"
  pj_SelectionID :: "string"
  pj_ProjectID :: "string"
  pj_WorkspaceEpoch :: "string"
  pj_SandboxID :: "string"
  pj_SandboxGeneration :: "int"
  pj_ServiceRegistrationID :: "string option"
  pj_Designation :: "string"
  pj_Label :: "string"
  pj_Availability :: "string"
  pj_Reason :: "string option"
  pj_RootAttestation :: "string"
  pj_LastObservedAt :: "gotime"

record ManagedProjectImageIdentity =
  py_Device :: "int"
  py_Inode :: "int"
  py_Size :: "int"
  py_ModifiedUnixNano :: "int"

record LocalManagedProject =
  px_Report :: "ProjectCatalogReportV1"
  px_ServerID :: "string"
  px_TeamID :: "string"
  px_MemberID :: "string"
  px_AllocationDigest :: "string"
  px_ConfigDigest :: "string"
  px_Anchor :: "string"
  px_HostRoot :: "string"
  px_ContainerRoot :: "string"
  px_Phase :: "string"
  px_AnchorDevice :: "int"
  px_AnchorInode :: "int"
  px_AnchorMount :: "string"
  px_RootDevice :: "int"
  px_RootInode :: "int"
  px_RootMount :: "string"
  px_ScopeRevision :: "int"
  px_SupersededRootAttestation :: "string"
  px_ImageIdentity :: "ManagedProjectImageIdentity"

record ManagedNativeRegistrationV1 =
  nr_RegisteredSourceID :: "string"
  nr_WorkspaceEpoch :: "string"
  nr_NativeSessionID :: "string"
  nr_NativeProjectID :: "string"
  nr_NativeLocationDigest :: "string"

record ManagedServiceErrorV1 =
  se_Code :: "string"

record ManagedServiceReportV1 =
  sr_FormatVersion :: "int"
  sr_OperationID :: "string"
  sr_ActionRevision :: "int"
  sr_ObservedDesiredRevision :: "int"
  sr_ConfigDigest :: "string"
  sr_ObservedState :: "string"
  sr_Identity :: "ManagedServiceIdentityV1"
  sr_ServiceGeneration :: "int"
  sr_ProfileStatus :: "string"
  sr_WorkspaceStatus :: "string"
  sr_EnrollmentStatus :: "string"
  sr_WorkerStatus :: "string"
  sr_InstructionApplied :: "bool"
  sr_InstructionRevision :: "int"
  sr_InstructionDigest :: "string"
  sr_NativeRegistration :: "ManagedNativeRegistrationV1 option"
  sr_ReceiptDigest :: "string"
  sr_LastError :: "ManagedServiceErrorV1 option"

record LocalManagedService =
  lm_Manifest :: ManagedServiceV1
  lm_Phase :: string
  lm_ProcessInstance :: string
  lm_Port :: int
  lm_CreationDispatched :: bool
  lm_ServiceGeneration :: int
  lm_Report :: "ManagedServiceReportV1 option"
  lm_ErrorCode :: string

record project_store =
  pd_projects :: "LocalManagedProject tbl"
  pd_services :: "LocalManagedService tbl"

definition no_projects :: project_store where
  "no_projects = \<lparr>pd_projects = [], pd_services = []\<rparr>"

definition ErrManagedProjectConflict :: goerr where
  "ErrManagedProjectConflict = Sentinel ''ErrManagedProjectConflict''"

definition ErrManagedServiceConflict :: goerr where
  "ErrManagedServiceConflict = Sentinel ''ErrManagedServiceConflict''"

definition no_image :: ManagedProjectImageIdentity where
  "no_image = \<lparr>py_Device = 0, py_Inode = 0, py_Size = 0, py_ModifiedUnixNano = 0\<rparr>"

definition SameDurableObject :: "ManagedProjectImageIdentity \<Rightarrow> ManagedProjectImageIdentity \<Rightarrow> bool" where
  "SameDurableObject value other \<longleftrightarrow>
     py_Device value = py_Device other \<and> py_Inode value = py_Inode other \<and> py_Size value = py_Size other"

definition RecoverySessionMode :: "LocalManagedService \<Rightarrow> string" where
  "RecoverySessionMode value = (if lm_CreationDispatched value then ''lookup_only'' else ms_SessionMode (lm_Manifest value))"

section \<open>Projects\<close>

definition managedServiceReference :: "string option \<Rightarrow> string" where
  "managedServiceReference value = (case value of None \<Rightarrow> [] | Some v \<Rightarrow> v)"

definition pinnedManagedProjectIdentityDiffers :: "LocalManagedProject \<Rightarrow> LocalManagedProject \<Rightarrow> bool" where
  "pinnedManagedProjectIdentityDiffers existing value \<longleftrightarrow>
     pj_ProjectID (px_Report existing) \<noteq> pj_ProjectID (px_Report value) \<or>
     pj_WorkspaceEpoch (px_Report existing) \<noteq> pj_WorkspaceEpoch (px_Report value) \<or>
     pj_SandboxID (px_Report existing) \<noteq> pj_SandboxID (px_Report value) \<or>
     pj_SandboxGeneration (px_Report existing) \<noteq> pj_SandboxGeneration (px_Report value) \<or>
     px_ServerID existing \<noteq> px_ServerID value \<or> px_TeamID existing \<noteq> px_TeamID value \<or> px_MemberID existing \<noteq> px_MemberID value \<or>
     px_AllocationDigest existing \<noteq> px_AllocationDigest value \<or> px_Anchor existing \<noteq> px_Anchor value \<or>
     px_AnchorDevice existing \<noteq> px_AnchorDevice value \<or> px_AnchorInode existing \<noteq> px_AnchorInode value \<or>
     px_AnchorMount existing \<noteq> px_AnchorMount value \<or>
     px_HostRoot existing \<noteq> px_HostRoot value \<or> px_ContainerRoot existing \<noteq> px_ContainerRoot value \<or>
     \<not> SameDurableObject (px_ImageIdentity existing) (px_ImageIdentity value) \<or>
     (px_RootInode existing \<noteq> 0 \<and>
       (px_RootDevice existing \<noteq> px_RootDevice value \<or> px_RootInode existing \<noteq> px_RootInode value \<or>
        px_RootMount existing \<noteq> px_RootMount value))"

text \<open>What a remount may change, blanked.\<close>

definition without_device :: "LocalManagedProject \<Rightarrow> LocalManagedProject" where
  "without_device p = p\<lparr>px_SupersededRootAttestation := [], px_AnchorDevice := 0, px_RootDevice := 0,
     px_Report := (px_Report p)\<lparr>pj_RootAttestation := []\<rparr>\<rparr>"

definition remountAttestationAdoption ::
  "(LocalManagedProject \<Rightarrow> LocalManagedProject \<Rightarrow> bool) \<Rightarrow> LocalManagedProject \<Rightarrow> LocalManagedProject \<Rightarrow> bool" where
  "remountAttestationAdoption deepEqual existing value =
     (if px_AnchorDevice existing = 0 \<or> px_AnchorDevice existing \<noteq> px_RootDevice existing \<or>
         px_AnchorDevice value = 0 \<or> px_AnchorDevice value \<noteq> px_RootDevice value \<or>
         px_AnchorDevice value = px_AnchorDevice existing then False
      else if pj_RootAttestation (px_Report value) = [] \<or>
         pj_RootAttestation (px_Report value) = pj_RootAttestation (px_Report existing) \<or>
         px_SupersededRootAttestation value \<noteq> pj_RootAttestation (px_Report existing) then False
      else deepEqual (without_device existing) (without_device value))"

definition managedProjectWriteAllowed ::
  "(LocalManagedProject \<Rightarrow> LocalManagedProject \<Rightarrow> bool) \<Rightarrow> LocalManagedProject \<Rightarrow> LocalManagedProject \<Rightarrow> bool" where
  "managedProjectWriteAllowed deepEqual existing value =
     (if pinnedManagedProjectIdentityDiffers existing value then remountAttestationAdoption deepEqual existing value
      else if pj_RootAttestation (px_Report existing) = pj_RootAttestation (px_Report value)
      then px_SupersededRootAttestation value = px_SupersededRootAttestation existing
      else if remountAttestationAdoption deepEqual existing value then True
      else if px_SupersededRootAttestation value \<noteq> [] then False
      else px_ConfigDigest existing \<noteq> px_ConfigDigest value \<or>
        managedServiceReference (pj_ServiceRegistrationID (px_Report existing)) \<noteq>
          managedServiceReference (pj_ServiceRegistrationID (px_Report value)) \<or>
        px_ScopeRevision existing \<noteq> px_ScopeRevision value \<or>
        px_AnchorDevice existing \<noteq> px_AnchorDevice value \<or> px_AnchorInode existing \<noteq> px_AnchorInode value \<or>
        px_AnchorMount existing \<noteq> px_AnchorMount value \<or>
        px_RootDevice existing \<noteq> px_RootDevice value \<or> px_RootInode existing \<noteq> px_RootInode value \<or>
        px_RootMount existing \<noteq> px_RootMount value)"

definition Store_ManagedProject :: "string \<Rightarrow> project_store \<Rightarrow> LocalManagedProject option" where
  "Store_ManagedProject selectionID s = map_of (pd_projects s) selectionID"

definition Store_ManagedProjects :: "project_store \<Rightarrow> LocalManagedProject list" where
  "Store_ManagedProjects s = map snd (order_by (\<lambda>a b. text_less (fst a) (fst b)) (pd_projects s))"

text \<open>\<open>ORDER BY selection_id LIMIT 1\<close>\<close>

definition Store_ManagedProjectForTeam :: "string \<Rightarrow> int \<Rightarrow> string \<Rightarrow> project_store \<Rightarrow> LocalManagedProject option" where
  "Store_ManagedProjectForTeam sandboxID generation teamID s =
     (case filter (\<lambda>v. pj_SandboxID (px_Report v) = sandboxID \<and> pj_SandboxGeneration (px_Report v) = generation \<and>
           px_TeamID v = teamID) (Store_ManagedProjects s) of
        [] \<Rightarrow> None | v # _ \<Rightarrow> Some v)"

text \<open>The table checks the generation and one project per sandbox generation.\<close>

definition project_admitted :: "LocalManagedProject \<Rightarrow> project_store \<Rightarrow> bool" where
  "project_admitted value s \<longleftrightarrow>
     pj_SandboxGeneration (px_Report value) > 0 \<and>
     \<not> list_ex (\<lambda>p. fst p \<noteq> pj_SelectionID (px_Report value) \<and>
         pj_ProjectID (px_Report (snd p)) = pj_ProjectID (px_Report value) \<and>
         pj_SandboxID (px_Report (snd p)) = pj_SandboxID (px_Report value) \<and>
         pj_SandboxGeneration (px_Report (snd p)) = pj_SandboxGeneration (px_Report value)) (pd_projects s)"

definition Store_PutManagedProject ::
  "(LocalManagedProject \<Rightarrow> LocalManagedProject \<Rightarrow> bool) \<Rightarrow> (project_store \<Rightarrow> project_store) \<Rightarrow> LocalManagedProject \<Rightarrow>
     project_store \<Rightarrow> project_store \<times> (goerr + unit)" where
  "Store_PutManagedProject deepEqual between value s =
     (let selectionID = pj_SelectionID (px_Report value) in
      if (case Store_ManagedProject selectionID s of
            None \<Rightarrow> False | Some existing \<Rightarrow> \<not> managedProjectWriteAllowed deepEqual existing value)
      then (s, Inl ErrManagedProjectConflict)
      else let u = between s in
        if \<not> project_admitted value u then (u, Inl constraint)
        else (u\<lparr>pd_projects := AList.update selectionID value (pd_projects u)\<rparr>, ok))"

definition bindableManagedProjectImage ::
  "(LocalManagedProject \<Rightarrow> LocalManagedProject \<Rightarrow> bool) \<Rightarrow> LocalManagedProject \<Rightarrow> LocalManagedProject \<Rightarrow> bool" where
  "bindableManagedProjectImage deepEqual preBind stored =
     (if px_ImageIdentity stored \<noteq> no_image then False
      else if px_Phase stored \<noteq> ''ready'' \<or> pj_Designation (px_Report stored) \<noteq> ''team_project'' \<or>
        pj_Availability (px_Report stored) \<noteq> ''available'' \<or> pj_RootAttestation (px_Report stored) = [] then False
      else if px_AnchorDevice stored = 0 \<or> px_AnchorDevice stored \<noteq> px_RootDevice stored \<or>
        px_AnchorInode stored = 0 \<or> px_RootInode stored = 0 \<or>
        px_AnchorMount stored = [] \<or> px_RootMount stored = [] then False
      else deepEqual preBind stored)"

text \<open>The \<open>UPDATE\<close> compares the bytes it has read in the same transaction, so it always meets its row.\<close>

definition Store_BindManagedProjectImageIdentity ::
  "(LocalManagedProject \<Rightarrow> LocalManagedProject \<Rightarrow> bool) \<Rightarrow> LocalManagedProject \<Rightarrow> project_store \<Rightarrow>
     project_store \<times> (goerr + unit)" where
  "Store_BindManagedProjectImageIdentity deepEqual expected s =
     (let identity = px_ImageIdentity expected in
      if py_Device identity = 0 \<or> py_Inode identity = 0 \<or> py_Size identity = 0 then (s, Inl ErrManagedProjectConflict)
      else let preBind = expected\<lparr>px_ImageIdentity := no_image\<rparr>; selectionID = pj_SelectionID (px_Report preBind) in
        (case map_of (pd_projects s) selectionID of
           None \<Rightarrow> (s, Inl ErrManagedProjectConflict)
         | Some stored \<Rightarrow>
             if \<not> bindableManagedProjectImage deepEqual preBind stored then (s, Inl ErrManagedProjectConflict)
             else (s\<lparr>pd_projects := AList.update selectionID (stored\<lparr>px_ImageIdentity := identity\<rparr>) (pd_projects s)\<rparr>, ok)))"

section \<open>Services\<close>

definition Store_ManagedService :: "string \<Rightarrow> project_store \<Rightarrow> LocalManagedService option" where
  "Store_ManagedService i s = map_of (pd_services s) i"

text \<open>The ids are read first, then row by row; here nobody deletes a row in between.\<close>

definition Store_ManagedServices :: "project_store \<Rightarrow> LocalManagedService list" where
  "Store_ManagedServices s = map snd (order_by (\<lambda>a b. text_less (fst a) (fst b)) (pd_services s))"

definition sameManagedServicePrincipal :: "ManagedServiceIdentityV1 \<Rightarrow> ManagedServiceIdentityV1 \<Rightarrow> bool" where
  "sameManagedServicePrincipal left right \<longleftrightarrow>
     left\<lparr>mi_ExpectedServiceGeneration := 0\<rparr> = right\<lparr>mi_ExpectedServiceGeneration := 0\<rparr>"

definition terminalManagedServiceReissue :: "LocalManagedService \<Rightarrow> LocalManagedService \<Rightarrow> bool" where
  "terminalManagedServiceReissue existing value \<longleftrightarrow>
     ms_DesiredState (lm_Manifest existing) = ms_DesiredState (lm_Manifest value) \<and>
     ms_DesiredState (lm_Manifest value) \<in> {''stopped'', ''retired''} \<and> lm_Phase existing \<in> {''stopped'', ''retired''}"

text \<open>The project record that authorizes the adoption of a remounted root.\<close>

definition remount_authorized :: "LocalManagedProject \<Rightarrow> ManagedServiceV1 \<Rightarrow> ManagedServiceV1 \<Rightarrow> bool" where
  "remount_authorized record stored incoming \<longleftrightarrow>
     px_Phase record = ''ready'' \<and> pj_Availability (px_Report record) = ''available'' \<and>
     pj_SelectionID (px_Report record) = mk_SelectionID (ms_Workspace incoming) \<and>
     pj_ProjectID (px_Report record) = mk_ProjectID (ms_Workspace incoming) \<and>
     pj_WorkspaceEpoch (px_Report record) = mk_WorkspaceEpoch (ms_Workspace incoming) \<and>
     pj_SandboxID (px_Report record) = mi_SandboxID (ms_Identity incoming) \<and>
     pj_SandboxGeneration (px_Report record) = mi_SandboxGeneration (ms_Identity incoming) \<and>
     managedServiceReference (pj_ServiceRegistrationID (px_Report record)) = mi_ServiceRegistrationID (ms_Identity incoming) \<and>
     pj_Designation (px_Report record) = mk_Designation (ms_Workspace stored) \<and>
     px_ConfigDigest record = ms_ConfigDigest incoming \<and>
     pj_RootAttestation (px_Report record) = mk_RootAttestation (ms_Workspace incoming) \<and>
     px_SupersededRootAttestation record \<noteq> [] \<and>
     px_SupersededRootAttestation record = mk_RootAttestation (ms_Workspace stored) \<and>
     px_ImageIdentity record \<noteq> no_image \<and> px_AnchorDevice record \<noteq> 0 \<and> px_AnchorDevice record = px_RootDevice record"

text \<open>The manifests differ in the two ratified members only.\<close>

definition remount_manifest :: "LocalManagedService \<Rightarrow> LocalManagedService \<Rightarrow> bool" where
  "remount_manifest existing value =
     (let stored = lm_Manifest existing; incoming = lm_Manifest value; sw = ms_Workspace stored; iw = ms_Workspace incoming in
      if ms_DesiredState stored \<noteq> ''active'' \<or> ms_DesiredState incoming \<noteq> ''active'' \<or> mk_Designation sw \<noteq> ''team_project''
      then False
      else if ms_Identity stored \<noteq> ms_Identity incoming \<or> ms_ConfigDigest stored \<noteq> ms_ConfigDigest incoming \<or>
        lm_ProcessInstance existing \<noteq> lm_ProcessInstance value \<or> lm_Port existing \<noteq> lm_Port value then False
      else if ms_FormatVersion incoming \<noteq> ms_FormatVersion stored \<or> ms_OperationID incoming \<noteq> ms_OperationID stored \<or>
        ms_ActionRevision incoming \<noteq> ms_ActionRevision stored \<or> ms_DesiredRevision incoming \<noteq> ms_DesiredRevision stored \<or>
        ms_SessionMode incoming \<noteq> ms_SessionMode stored \<or> ms_Authority incoming \<noteq> ms_Authority stored \<or>
        ms_Profile incoming \<noteq> ms_Profile stored \<or> ms_Instructions incoming \<noteq> ms_Instructions stored then False
      else if mk_SelectionID iw \<noteq> mk_SelectionID sw \<or> mk_ProjectID iw \<noteq> mk_ProjectID sw \<or>
        mk_WorkspaceEpoch iw \<noteq> mk_WorkspaceEpoch sw \<or> mk_Designation iw \<noteq> mk_Designation sw then False
      else if mk_RootAttestation sw = [] \<or> mk_RootAttestation iw = [] \<or> mk_RootAttestation iw = mk_RootAttestation sw \<or>
        mk_ScopeRevision sw < 1 \<or> mk_ScopeRevision iw \<noteq> wrap64 (mk_ScopeRevision sw + 1) then False
      else stored\<lparr>ms_Workspace := sw\<lparr>mk_ScopeRevision := mk_ScopeRevision iw, mk_RootAttestation := mk_RootAttestation iw\<rparr>\<rparr> =
        incoming)"

definition managedServiceRemountAdoption :: "project_store \<Rightarrow> LocalManagedService \<Rightarrow> LocalManagedService \<Rightarrow> bool" where
  "managedServiceRemountAdoption s existing value =
     (if lm_Phase existing \<noteq> ''ready'' then False
      else if \<not> remount_manifest existing value then False
      else (case map_of (pd_projects s) (mk_SelectionID (ms_Workspace (lm_Manifest value))) of
          None \<Rightarrow> False
        | Some record \<Rightarrow> remount_authorized record (lm_Manifest existing) (lm_Manifest value)))"

abbreviation write_service :: "string \<Rightarrow> LocalManagedService \<Rightarrow> project_store \<Rightarrow> project_store" where
  "write_service i row s \<equiv> s\<lparr>pd_services := AList.update i row (pd_services s)\<rparr>"

definition adoptRegisteredManagedServiceManifest :: "string \<Rightarrow> LocalManagedService \<Rightarrow> project_store \<Rightarrow> project_store \<times> bool" where
  "adoptRegisteredManagedServiceManifest i value s =
     (case map_of (pd_services s) i of
        None \<Rightarrow> (s, False)
      | Some existing \<Rightarrow>
          if \<not> managedServiceRemountAdoption s existing value then (s, False)
          else (write_service i (existing\<lparr>lm_Manifest := lm_Manifest value\<rparr>) s, True))"

text \<open>The checks of the table.\<close>

definition service_checks :: "LocalManagedService \<Rightarrow> bool" where
  "service_checks v \<longleftrightarrow> 1024 \<le> lm_Port v \<and> lm_Port v \<le> 65535 \<and> 0 < lm_ServiceGeneration v"

text \<open>The three writes of \<open>PutManagedServiceIntent\<close>; an \<open>UPDATE\<close> that meets no row succeeds.\<close>

definition reissue_service :: "LocalManagedService \<Rightarrow> project_store \<Rightarrow> project_store \<times> (goerr + unit)" where
  "reissue_service value u =
     (let i = mi_ServiceRegistrationID (ms_Identity (lm_Manifest value)) in
      case map_of (pd_services u) i of
        None \<Rightarrow> (u, ok)
      | Some row \<Rightarrow>
          let row = row\<lparr>lm_Manifest := lm_Manifest value, lm_Phase := lm_Phase value, lm_ProcessInstance := lm_ProcessInstance value,
            lm_Port := lm_Port value, lm_CreationDispatched := False,
            lm_ServiceGeneration := mi_ExpectedServiceGeneration (ms_Identity (lm_Manifest value)),
            lm_Report := None, lm_ErrorCode := []\<rparr> in
          if service_checks row then (write_service i row u, ok) else (u, Inl constraint))"

definition insert_service :: "LocalManagedService \<Rightarrow> project_store \<Rightarrow> project_store \<times> (goerr + unit)" where
  "insert_service value u =
     (let i = mi_ServiceRegistrationID (ms_Identity (lm_Manifest value));
          row = value\<lparr>lm_ServiceGeneration := mi_ExpectedServiceGeneration (ms_Identity (lm_Manifest value)), lm_Report := None\<rparr> in
      if map_of (pd_services u) i \<noteq> None \<or> \<not> service_checks row then (u, Inl constraint) else (write_service i row u, ok))"

definition Store_PutManagedServiceIntent ::
  "(project_store \<Rightarrow> project_store) \<Rightarrow> LocalManagedService \<Rightarrow> project_store \<Rightarrow> project_store \<times> (goerr + unit)" where
  "Store_PutManagedServiceIntent between value s =
     (let m = lm_Manifest value; i = mi_ServiceRegistrationID (ms_Identity m) in
      case Store_ManagedService i s of
        None \<Rightarrow> insert_service value (between s)
      | Some existing \<Rightarrow>
          let em = lm_Manifest existing in
          if lm_Phase existing = ''retired'' \<and> sameManagedServicePrincipal (ms_Identity em) (ms_Identity m) \<and>
             mi_ExpectedServiceGeneration (ms_Identity m) > mi_ExpectedServiceGeneration (ms_Identity em)
          then reissue_service value (between s)
          else if ms_Identity em \<noteq> ms_Identity m \<or> ms_ConfigDigest em \<noteq> ms_ConfigDigest m \<or>
             lm_ProcessInstance existing \<noteq> lm_ProcessInstance value \<or> lm_Port existing \<noteq> lm_Port value
          then (s, Inl ErrManagedServiceConflict)
          else if ms_DesiredRevision m < ms_DesiredRevision em then (s, Inl ErrManagedServiceConflict)
          else if ms_ActionRevision m = ms_ActionRevision em \<and> m \<noteq> em then
            (case adoptRegisteredManagedServiceManifest i value (between s) of
               (u, adopted) \<Rightarrow> (u, if adopted then ok else Inl ErrManagedServiceConflict))
          else if ms_ActionRevision m < ms_ActionRevision em \<and> \<not> terminalManagedServiceReissue existing value
          then (s, Inl ErrManagedServiceConflict)
          else let u = between s in
            (case map_of (pd_services u) i of
               None \<Rightarrow> (u, ok)
             | Some row \<Rightarrow> (write_service i (row\<lparr>lm_Manifest := m\<rparr>) u, ok)))"

definition Store_MarkManagedServiceCreationDispatched ::
  "(project_store \<Rightarrow> project_store) \<Rightarrow> string \<Rightarrow> string \<Rightarrow> project_store \<Rightarrow> project_store \<times> (goerr + unit)" where
  "Store_MarkManagedServiceCreationDispatched between i configDigest s =
     (case Store_ManagedService i s of
        None \<Rightarrow> (s, Inl ErrManagedServiceConflict)
      | Some value \<Rightarrow>
          if ms_ConfigDigest (lm_Manifest value) \<noteq> configDigest then (s, Inl ErrManagedServiceConflict)
          else if lm_CreationDispatched value then (s, ok)
          else let u = between s in
            (case map_of (pd_services u) i of
               None \<Rightarrow> (u, ok)
             | Some row \<Rightarrow> (write_service i (row\<lparr>lm_CreationDispatched := True, lm_Phase := ''starting''\<rparr>) u, ok)))"

definition Store_UpdateManagedService ::
  "string \<Rightarrow> string \<Rightarrow> ManagedServiceReportV1 option \<Rightarrow> string \<Rightarrow> project_store \<Rightarrow> project_store \<times> (goerr + unit)" where
  "Store_UpdateManagedService i phase report errorCode s =
     (case map_of (pd_services s) i of
        None \<Rightarrow> (s, Inl (E ''managed service is missing''))
      | Some row \<Rightarrow> (write_service i (row\<lparr>lm_Phase := phase, lm_Report := report, lm_ErrorCode := errorCode\<rparr>) s, ok))"

end
