(* ===== verification/Go_Runs.thy ===== *)
theory Go_Runs
  imports Go_Sql
begin

text \<open>
  Runs of a store and what becomes of the rows of one of its tables: a table follows another when no row is
  lost and every row is related to its successor. The locale \<open>followed_rows\<close> lifts a relation that every step
  keeps, under an invariant of the steps, to runs of any length.
\<close>

definition rows_follow :: "('v \<Rightarrow> 'v \<Rightarrow> bool) \<Rightarrow> 'v tbl \<Rightarrow> 'v tbl \<Rightarrow> bool" where
  "rows_follow R t u \<longleftrightarrow> (\<forall>k x. map_of t k = Some x \<longrightarrow> (\<exists>y. map_of u k = Some y \<and> R x y))"

lemma rows_follow_refl: "(\<And>x. R x x) \<Longrightarrow> rows_follow R t t"
  by (simp add: rows_follow_def)

lemma rows_follow_trans:
  "(\<And>x y z. R x y \<Longrightarrow> R y z \<Longrightarrow> R x z) \<Longrightarrow> rows_follow R t u \<Longrightarrow> rows_follow R u v \<Longrightarrow> rows_follow R t v"
  unfolding rows_follow_def by metis

lemma rows_follow_update:
  assumes "\<And>x. R x x" and "\<And>x. map_of t k = Some x \<Longrightarrow> R x y"
  shows "rows_follow R t (AList.update k y t)"
  using assms by (auto simp: rows_follow_def)

lemma rows_follow_row: "rows_follow R t u \<Longrightarrow> map_of t k = Some x \<Longrightarrow> \<exists>y. map_of u k = Some y \<and> R x y"
  by (simp add: rows_follow_def)

locale followed_rows =
  fixes step :: "'s \<Rightarrow> 's \<Rightarrow> bool"
    and inv :: "'s \<Rightarrow> bool"
    and table :: "'s \<Rightarrow> 'v tbl"
    and R :: "'v \<Rightarrow> 'v \<Rightarrow> bool"
  assumes R_refl: "R x x"
    and R_trans: "R x y \<Longrightarrow> R y z \<Longrightarrow> R x z"
    and step_inv: "inv s \<Longrightarrow> step s t \<Longrightarrow> inv t"
    and step_follows: "inv s \<Longrightarrow> step s t \<Longrightarrow> rows_follow R (table s) (table t)"
begin

lemma run_inv: "step\<^sup>*\<^sup>* s t \<Longrightarrow> inv s \<Longrightarrow> inv t"
  by (induction rule: rtranclp_induct) (auto intro: step_inv)

lemma run_follows:
  assumes "step\<^sup>*\<^sup>* s t" and "inv s"
  shows "rows_follow R (table s) (table t)"
  using assms(1)
proof (induction rule: rtranclp_induct)
  case base
  show ?case by (rule rows_follow_refl [OF R_refl])
next
  case (step t u)
  have "inv t" using step(1) assms(2) by (rule run_inv)
  from rows_follow_trans [OF R_trans step(3) step_follows [OF this step(2)]] show ?case .
qed

lemma run_row:
  assumes "step\<^sup>*\<^sup>* s t" and "inv s" and "map_of (table s) k = Some x"
  shows "\<exists>y. map_of (table t) k = Some y \<and> R x y"
  by (rule rows_follow_row [OF run_follows [OF assms(1,2)] assms(3)])

end

end
