(* ===== verification/Store_Project_Properties.thy ===== *)
theory Store_Project_Properties
  imports Store_Projects Go_Runs
begin

text \<open>
  The laws of managed projects and services. A step is one undisturbed operation; shown of every sequence
  of steps: the identity of a project on disk is pinned, once an image is bound it stays bound, and a service is
  created at most once per generation. A write that is disturbed between its check and its update can
  lose a bound image, which is shown too.
\<close>

section \<open>Steps\<close>

inductive project_step ::
  "(LocalManagedProject \<Rightarrow> LocalManagedProject \<Rightarrow> bool) \<Rightarrow> project_store \<Rightarrow> project_store \<Rightarrow> bool" for deepEqual s where
  put_project: "project_step deepEqual s (fst (Store_PutManagedProject deepEqual (\<lambda>s. s) p s))"
| bind_image: "project_step deepEqual s (fst (Store_BindManagedProjectImageIdentity deepEqual p s))"
| put_service: "project_step deepEqual s (fst (Store_PutManagedServiceIntent (\<lambda>s. s) v s))"
| dispatch: "project_step deepEqual s (fst (Store_MarkManagedServiceCreationDispatched (\<lambda>s. s) i d s))"
| update: "project_step deepEqual s (fst (Store_UpdateManagedService i phase report code s))"

abbreviation project_run ::
  "(LocalManagedProject \<Rightarrow> LocalManagedProject \<Rightarrow> bool) \<Rightarrow> project_store \<Rightarrow> project_store \<Rightarrow> bool" where
  "project_run deepEqual \<equiv> (project_step deepEqual)\<^sup>*\<^sup>*"

section \<open>Projects\<close>

definition no_durable :: "ManagedProjectImageIdentity \<Rightarrow> bool" where
  "no_durable i \<longleftrightarrow> py_Device i = 0 \<and> py_Inode i = 0 \<and> py_Size i = 0"

definition project_succeeds :: "LocalManagedProject \<Rightarrow> LocalManagedProject \<Rightarrow> bool" where
  "project_succeeds p q \<longleftrightarrow>
     pj_ProjectID (px_Report q) = pj_ProjectID (px_Report p) \<and> pj_WorkspaceEpoch (px_Report q) = pj_WorkspaceEpoch (px_Report p) \<and>
     pj_SandboxID (px_Report q) = pj_SandboxID (px_Report p) \<and>
     pj_SandboxGeneration (px_Report q) = pj_SandboxGeneration (px_Report p) \<and>
     px_ServerID q = px_ServerID p \<and> px_TeamID q = px_TeamID p \<and> px_MemberID q = px_MemberID p \<and>
     px_AllocationDigest q = px_AllocationDigest p \<and> px_HostRoot q = px_HostRoot p \<and> px_ContainerRoot q = px_ContainerRoot p \<and>
     px_Anchor q = px_Anchor p \<and> px_AnchorInode q = px_AnchorInode p \<and> px_AnchorMount q = px_AnchorMount p \<and>
     (px_RootInode p = 0 \<or> px_RootInode q = px_RootInode p \<and> px_RootMount q = px_RootMount p) \<and>
     (no_durable (px_ImageIdentity p) \<or> SameDurableObject (px_ImageIdentity p) (px_ImageIdentity q))"

lemma project_succeeds_refl: "project_succeeds p p"
  by (simp add: project_succeeds_def SameDurableObject_def)

lemma project_succeeds_trans: "project_succeeds p q \<Longrightarrow> project_succeeds q r \<Longrightarrow> project_succeeds p r"
  by (auto simp: project_succeeds_def SameDurableObject_def no_durable_def)

lemma not_pinned_succeeds: "\<not> pinnedManagedProjectIdentityDiffers p q \<Longrightarrow> project_succeeds p q"
  by (auto simp: pinnedManagedProjectIdentityDiffers_def project_succeeds_def)

text \<open>A remount changes the device, the attestation and its provenance, and nothing else.\<close>

lemma remount_shape:
  assumes eq: "\<And>a b. deepEqual a b \<Longrightarrow> a = b" and "remountAttestationAdoption deepEqual p q"
  shows "q = p\<lparr>px_AnchorDevice := px_AnchorDevice q, px_RootDevice := px_AnchorDevice q,
      px_SupersededRootAttestation := pj_RootAttestation (px_Report p),
      px_Report := (px_Report p)\<lparr>pj_RootAttestation := pj_RootAttestation (px_Report q)\<rparr>\<rparr>"
    and "px_AnchorDevice q \<noteq> px_AnchorDevice p" and "pj_RootAttestation (px_Report q) \<noteq> pj_RootAttestation (px_Report p)"
proof -
  have r: "px_AnchorDevice q = px_RootDevice q" "px_AnchorDevice q \<noteq> px_AnchorDevice p"
    "pj_RootAttestation (px_Report q) \<noteq> pj_RootAttestation (px_Report p)"
    "px_SupersededRootAttestation q = pj_RootAttestation (px_Report p)" "without_device p = without_device q"
    using assms(2) eq by (auto simp: remountAttestationAdoption_def split: if_splits)
  show "q = p\<lparr>px_AnchorDevice := px_AnchorDevice q, px_RootDevice := px_AnchorDevice q,
      px_SupersededRootAttestation := pj_RootAttestation (px_Report p),
      px_Report := (px_Report p)\<lparr>pj_RootAttestation := pj_RootAttestation (px_Report q)\<rparr>\<rparr>"
    using r by (cases p, cases q, cases "px_Report p", cases "px_Report q") (simp add: without_device_def)
  show "px_AnchorDevice q \<noteq> px_AnchorDevice p" "pj_RootAttestation (px_Report q) \<noteq> pj_RootAttestation (px_Report p)"
    using r by simp_all
qed

lemma remount_succeeds:
  assumes eq: "\<And>a b. deepEqual a b \<Longrightarrow> a = b" and "remountAttestationAdoption deepEqual p q"
  shows "project_succeeds p q"
  by (subst remount_shape(1) [OF assms]) (simp_all add: project_succeeds_def SameDurableObject_def)

lemma write_allowed_succeeds:
  assumes eq: "\<And>a b. deepEqual a b \<Longrightarrow> a = b" and "managedProjectWriteAllowed deepEqual p q"
  shows "project_succeeds p q"
  using assms(2) remount_succeeds [OF eq] not_pinned_succeeds [of p q]
  by (auto simp: managedProjectWriteAllowed_def split: if_splits)

lemma projects_follow_put:
  assumes eq: "\<And>a b. deepEqual a b \<Longrightarrow> a = b"
  shows "rows_follow project_succeeds (pd_projects s) (pd_projects (fst (Store_PutManagedProject deepEqual (\<lambda>s. s) p s)))"
proof (cases "map_of (pd_projects s) (pj_SelectionID (px_Report p))")
  case None
  then show ?thesis
    by (auto simp: Store_PutManagedProject_def Store_ManagedProject_def Let_def
        intro!: rows_follow_refl rows_follow_update project_succeeds_refl)
next
  case (Some q)
  have "project_succeeds q p" if "managedProjectWriteAllowed deepEqual q p"
    using eq that by (rule write_allowed_succeeds)
  with Some show ?thesis
    by (auto simp: Store_PutManagedProject_def Store_ManagedProject_def Let_def
        intro!: rows_follow_refl rows_follow_update project_succeeds_refl)
qed

lemma projects_follow_bind:
  "rows_follow project_succeeds (pd_projects s) (pd_projects (fst (Store_BindManagedProjectImageIdentity deepEqual p s)))"
proof -
  have bound: "project_succeeds x (x\<lparr>px_ImageIdentity := i\<rparr>)" if "bindableManagedProjectImage deepEqual q x" for q x i
    using that by (auto simp: bindableManagedProjectImage_def project_succeeds_def no_durable_def no_image_def split: if_splits)
  show ?thesis
  proof (cases "map_of (pd_projects s) (pj_SelectionID (px_Report p))")
    case None
    then show ?thesis
      by (auto simp: Store_BindManagedProjectImageIdentity_def Let_def intro!: rows_follow_refl project_succeeds_refl)
  next
    case (Some x)
    then show ?thesis
      by (auto simp: Store_BindManagedProjectImageIdentity_def Let_def intro!: rows_follow_refl rows_follow_update project_succeeds_refl
          intro: bound)
  qed
qed

section \<open>Services\<close>

abbreviation generation_of_service :: "LocalManagedService \<Rightarrow> int" where
  "generation_of_service r \<equiv> mi_ExpectedServiceGeneration (ms_Identity (lm_Manifest r))"

definition service_succeeds :: "LocalManagedService \<Rightarrow> LocalManagedService \<Rightarrow> bool" where
  "service_succeeds r q \<longleftrightarrow>
     sameManagedServicePrincipal (ms_Identity (lm_Manifest r)) (ms_Identity (lm_Manifest q)) \<and>
     generation_of_service r \<le> generation_of_service q \<and>
     (generation_of_service q = generation_of_service r \<longrightarrow>
        ms_Identity (lm_Manifest q) = ms_Identity (lm_Manifest r) \<and> ms_ConfigDigest (lm_Manifest q) = ms_ConfigDigest (lm_Manifest r) \<and>
        lm_ProcessInstance q = lm_ProcessInstance r \<and> lm_Port q = lm_Port r \<and>
        (lm_CreationDispatched r \<longrightarrow> lm_CreationDispatched q))"

lemma service_succeeds_refl: "service_succeeds r r"
  by (simp add: service_succeeds_def sameManagedServicePrincipal_def)

lemma service_succeeds_trans:
  assumes rq: "service_succeeds r q" and qp: "service_succeeds q p"
  shows "service_succeeds r p"
proof -
  have le: "generation_of_service r \<le> generation_of_service q" "generation_of_service q \<le> generation_of_service p"
    using rq qp by (simp_all add: service_succeeds_def)
  have same: "sameManagedServicePrincipal (ms_Identity (lm_Manifest r)) (ms_Identity (lm_Manifest p))"
    using rq qp by (simp add: service_succeeds_def sameManagedServicePrincipal_def)
  show ?thesis
  proof (cases "generation_of_service p = generation_of_service r")
    case True
    with le have q: "generation_of_service q = generation_of_service r" by linarith
    from rq qp same True q show ?thesis unfolding service_succeeds_def by metis
  next
    case False
    with le same show ?thesis unfolding service_succeeds_def by linarith
  qed
qed

text \<open>A write that keeps the identity, the digest, the process and the dispatch.\<close>

lemma service_succeeds_keep:
  "ms_Identity (lm_Manifest q) = ms_Identity (lm_Manifest r) \<Longrightarrow> ms_ConfigDigest (lm_Manifest q) = ms_ConfigDigest (lm_Manifest r) \<Longrightarrow>
     lm_ProcessInstance q = lm_ProcessInstance r \<Longrightarrow> lm_Port q = lm_Port r \<Longrightarrow>
     (lm_CreationDispatched r \<Longrightarrow> lm_CreationDispatched q) \<Longrightarrow> service_succeeds r q"
  by (simp add: service_succeeds_def sameManagedServicePrincipal_def)

lemma adoption_manifest:
  "managedServiceRemountAdoption s r v \<Longrightarrow>
     ms_Identity (lm_Manifest v) = ms_Identity (lm_Manifest r) \<and> ms_ConfigDigest (lm_Manifest v) = ms_ConfigDigest (lm_Manifest r)"
  by (auto simp: managedServiceRemountAdoption_def remount_manifest_def Let_def split: if_splits)

lemma adoption_cases:
  "adoptRegisteredManagedServiceManifest i v s = (s, False) \<or>
   (\<exists>r. map_of (pd_services s) i = Some r \<and> managedServiceRemountAdoption s r v \<and>
      adoptRegisteredManagedServiceManifest i v s = (write_service i (r\<lparr>lm_Manifest := lm_Manifest v\<rparr>) s, True))"
  by (auto simp: adoptRegisteredManagedServiceManifest_def split: option.split)

abbreviation service_id :: "LocalManagedService \<Rightarrow> string" where
  "service_id v \<equiv> mi_ServiceRegistrationID (ms_Identity (lm_Manifest v))"

text \<open>What \<open>PutManagedServiceIntent\<close> does to a table, write by write.\<close>

lemma put_service_cases:
  fixes s :: project_store and v :: LocalManagedService
  obtains
    (unchanged) "fst (Store_PutManagedServiceIntent (\<lambda>s. s) v s) = s"
  | (created) "map_of (pd_services s) (service_id v) = None"
      "fst (Store_PutManagedServiceIntent (\<lambda>s. s) v s) =
         write_service (service_id v) (v\<lparr>lm_ServiceGeneration := generation_of_service v, lm_Report := None\<rparr>) s"
  | (reissued) r q where "map_of (pd_services s) (service_id v) = Some r"
      "sameManagedServicePrincipal (ms_Identity (lm_Manifest r)) (ms_Identity (lm_Manifest q))"
      "generation_of_service r < generation_of_service q"
      "fst (Store_PutManagedServiceIntent (\<lambda>s. s) v s) = write_service (service_id v) q s"
  | (manifest) r where "map_of (pd_services s) (service_id v) = Some r"
      "ms_Identity (lm_Manifest v) = ms_Identity (lm_Manifest r)" "ms_ConfigDigest (lm_Manifest v) = ms_ConfigDigest (lm_Manifest r)"
      "fst (Store_PutManagedServiceIntent (\<lambda>s. s) v s) = write_service (service_id v) (r\<lparr>lm_Manifest := lm_Manifest v\<rparr>) s"
proof (cases "map_of (pd_services s) (service_id v)")
  case None
  let ?q = "v\<lparr>lm_ServiceGeneration := generation_of_service v, lm_Report := None\<rparr>"
  have "fst (Store_PutManagedServiceIntent (\<lambda>s. s) v s) = (if service_checks ?q then write_service (service_id v) ?q s else s)"
    using None by (simp add: Store_PutManagedServiceIntent_def Store_ManagedService_def insert_service_def Let_def)
  with None show thesis by (cases "service_checks ?q") (auto intro: unchanged created)
next
  case (Some r)
  note eq = Store_PutManagedServiceIntent_def Store_ManagedService_def Let_def Some
  let ?reissue = "lm_Phase r = ''retired'' \<and> sameManagedServicePrincipal (ms_Identity (lm_Manifest r)) (ms_Identity (lm_Manifest v)) \<and>
    generation_of_service v > generation_of_service r"
  let ?differs = "ms_Identity (lm_Manifest r) \<noteq> ms_Identity (lm_Manifest v) \<or> ms_ConfigDigest (lm_Manifest r) \<noteq> ms_ConfigDigest (lm_Manifest v) \<or>
    lm_ProcessInstance r \<noteq> lm_ProcessInstance v \<or> lm_Port r \<noteq> lm_Port v"
  consider (reissue) ?reissue | (differs) "\<not> ?reissue" ?differs | (same) "\<not> ?reissue" "\<not> ?differs" by blast
  then show thesis
  proof cases
    case reissue
    let ?q = "r\<lparr>lm_Manifest := lm_Manifest v, lm_Phase := lm_Phase v, lm_ProcessInstance := lm_ProcessInstance v,
      lm_Port := lm_Port v, lm_CreationDispatched := False, lm_ServiceGeneration := generation_of_service v,
      lm_Report := None, lm_ErrorCode := []\<rparr>"
    have "fst (Store_PutManagedServiceIntent (\<lambda>s. s) v s) = (if service_checks ?q then write_service (service_id v) ?q s else s)"
      using reissue by (simp add: eq reissue_service_def)
    with reissue Some show thesis
      by (cases "service_checks ?q") (auto intro: unchanged reissued [of r ?q])
  next
    case differs
    have "fst (Store_PutManagedServiceIntent (\<lambda>s. s) v s) = s"
      unfolding eq option.case if_not_P [OF differs(1)] if_P [OF differs(2)] by simp
    then show thesis by (rule unchanged)
  next
    case same
    have same_id: "ms_Identity (lm_Manifest v) = ms_Identity (lm_Manifest r)" "ms_ConfigDigest (lm_Manifest v) = ms_ConfigDigest (lm_Manifest r)"
      using same(2) by auto
    have "fst (Store_PutManagedServiceIntent (\<lambda>s. s) v s) \<in> {s, write_service (service_id v) (r\<lparr>lm_Manifest := lm_Manifest v\<rparr>) s}"
      unfolding eq option.case if_not_P [OF same(1)] if_not_P [OF same(2)]
      using adoption_cases [of "service_id v" v s] Some by auto
    then show thesis using unchanged manifest [OF Some same_id] by blast
  qed
qed

lemma services_follow_put:
  "rows_follow service_succeeds (pd_services s) (pd_services (fst (Store_PutManagedServiceIntent (\<lambda>s. s) v s)))"
proof (cases rule: put_service_cases [of v s])
  case (reissued r q)
  then have "service_succeeds r q" by (simp add: service_succeeds_def)
  with reissued show ?thesis by (auto intro!: rows_follow_update service_succeeds_refl)
qed (auto intro!: rows_follow_refl rows_follow_update service_succeeds_refl service_succeeds_keep)

lemma services_follow_others:
  "rows_follow service_succeeds (pd_services s) (pd_services (fst (Store_MarkManagedServiceCreationDispatched (\<lambda>s. s) i d s)))"
  "rows_follow service_succeeds (pd_services s) (pd_services (fst (Store_UpdateManagedService i phase report code s)))"
  by (auto simp: Store_MarkManagedServiceCreationDispatched_def Store_UpdateManagedService_def Store_ManagedService_def Let_def
      intro!: rows_follow_refl rows_follow_update service_succeeds_refl service_succeeds_keep split: option.split)

section \<open>Runs\<close>

lemma other_table:
  "pd_services (fst (Store_PutManagedProject deepEqual (\<lambda>s. s) p s)) = pd_services s"
  "pd_services (fst (Store_BindManagedProjectImageIdentity deepEqual p s)) = pd_services s"
  "pd_projects (fst (Store_PutManagedServiceIntent (\<lambda>s. s) v s)) = pd_projects s"
  "pd_projects (fst (Store_MarkManagedServiceCreationDispatched (\<lambda>s. s) i d s)) = pd_projects s"
  "pd_projects (fst (Store_UpdateManagedService i phase report code s)) = pd_projects s"
proof -
  show "pd_services (fst (Store_PutManagedProject deepEqual (\<lambda>s. s) p s)) = pd_services s"
    "pd_services (fst (Store_BindManagedProjectImageIdentity deepEqual p s)) = pd_services s"
    by (simp_all add: Store_PutManagedProject_def Store_BindManagedProjectImageIdentity_def Let_def split: option.split)
  show "pd_projects (fst (Store_PutManagedServiceIntent (\<lambda>s. s) v s)) = pd_projects s"
    by (cases rule: put_service_cases [of v s]) simp_all
  show "pd_projects (fst (Store_MarkManagedServiceCreationDispatched (\<lambda>s. s) i d s)) = pd_projects s"
    "pd_projects (fst (Store_UpdateManagedService i phase report code s)) = pd_projects s"
    by (simp_all add: Store_MarkManagedServiceCreationDispatched_def Store_UpdateManagedService_def Let_def split: option.split)
qed

lemma project_step_follows:
  assumes eq: "\<And>a b. deepEqual a b \<Longrightarrow> a = b" and "project_step deepEqual s t"
  shows "rows_follow project_succeeds (pd_projects s) (pd_projects t)"
  using assms(2) by cases (simp_all add: other_table projects_follow_put [OF eq] projects_follow_bind
      rows_follow_refl [of project_succeeds, OF project_succeeds_refl])

lemma service_step_follows:
  assumes "project_step deepEqual s t"
  shows "rows_follow service_succeeds (pd_services s) (pd_services t)"
  using assms by cases (simp_all add: other_table services_follow_put services_follow_others
      rows_follow_refl [of service_succeeds, OF service_succeeds_refl])

interpretation project_rows: followed_rows "project_step (\<lambda>a b. deepEqual a b \<and> a = b)" "\<lambda>_. True" pd_projects project_succeeds
  for deepEqual
  by unfold_locales (auto intro: project_succeeds_refl project_succeeds_trans
      project_step_follows [of "\<lambda>a b. deepEqual a b \<and> a = b"])

interpretation service_rows: followed_rows "project_step deepEqual" "\<lambda>_. True" pd_services service_succeeds for deepEqual
  by unfold_locales (auto intro: service_succeeds_refl service_succeeds_trans service_step_follows)

section \<open>Concrete rows\<close>

lemma two_steps: "project_step deepEqual s t \<Longrightarrow> project_step deepEqual t u \<Longrightarrow> project_run deepEqual s u"
  by (rule converse_rtranclp_into_rtranclp [OF _ r_into_rtranclp])

definition pex_report :: ProjectCatalogReportV1 where
  "pex_report = \<lparr>pj_FormatVersion = 1, pj_SelectionID = ''sel'', pj_ProjectID = ''proj'', pj_WorkspaceEpoch = ''e1'',
     pj_SandboxID = ''box'', pj_SandboxGeneration = 1, pj_ServiceRegistrationID = None, pj_Designation = ''team_project'',
     pj_Label = ''main'', pj_Availability = ''available'', pj_Reason = None, pj_RootAttestation = ''att1'', pj_LastObservedAt = 5\<rparr>"

definition pex_project :: LocalManagedProject where
  "pex_project = \<lparr>px_Report = pex_report, px_ServerID = ''srv'', px_TeamID = ''team'', px_MemberID = ''m'',
     px_AllocationDigest = ''alloc'', px_ConfigDigest = ''cfg'', px_Anchor = ''/a'', px_HostRoot = ''/h'', px_ContainerRoot = ''/c'',
     px_Phase = ''ready'', px_AnchorDevice = 7, px_AnchorInode = 11, px_AnchorMount = ''/m'', px_RootDevice = 7,
     px_RootInode = 12, px_RootMount = ''/m'', px_ScopeRevision = 1, px_SupersededRootAttestation = [],
     px_ImageIdentity = no_image\<rparr>"

definition pex_image :: ManagedProjectImageIdentity where
  "pex_image = \<lparr>py_Device = 3, py_Inode = 4, py_Size = 4096, py_ModifiedUnixNano = 9\<rparr>"

definition pex_bound :: LocalManagedProject where
  "pex_bound = pex_project\<lparr>px_ImageIdentity := pex_image\<rparr>"

definition pex_remounted :: LocalManagedProject where
  "pex_remounted = pex_bound\<lparr>px_AnchorDevice := 8, px_RootDevice := 8, px_SupersededRootAttestation := ''att1'',
     px_Report := pex_report\<lparr>pj_RootAttestation := ''att2''\<rparr>\<rparr>"

definition pex_projects :: project_store where
  "pex_projects = no_projects\<lparr>pd_projects := [(''sel'', pex_project)]\<rparr>"

lemmas run_project = pex_projects_def pex_remounted_def pex_bound_def pex_project_def pex_report_def pex_image_def no_image_def no_projects_def
  Store_ManagedProject_def Store_PutManagedProject_def Store_BindManagedProjectImageIdentity_def bindableManagedProjectImage_def
  managedProjectWriteAllowed_def pinnedManagedProjectIdentityDiffers_def remountAttestationAdoption_def without_device_def
  SameDurableObject_def project_admitted_def Let_def

section \<open>The identity of a project\<close>

text \<open>
  C28. Whatever project and service writes follow each other undisturbed, a stored project
  is never lost and keeps its project, sandbox generation, owner, allocation, paths and the
  inodes of its anchor and (once observed) of its root; and once the durable identity of a
  workspace image is bound, it is the same for ever. A remount moves the device, never any
  of these.
\<close>

theorem project_identity_pinned:
  assumes "\<And>a b. deepEqual a b \<Longrightarrow> a = b"
    and "project_run deepEqual s t" and "Store_ManagedProject selectionID s = Some p"
  shows "\<exists>q. Store_ManagedProject selectionID t = Some q \<and> project_succeeds p q"
proof -
  have "(\<lambda>a b. deepEqual a b \<and> a = b) = deepEqual" using assms(1) by auto
  then have "project_run (\<lambda>a b. deepEqual a b \<and> a = b) s t" using assms(2) by simp
  from project_rows.run_row [OF this TrueI] assms(3) show ?thesis unfolding Store_ManagedProject_def by simp
qed

definition pex_after_remount :: project_store where
  "pex_after_remount = fst (Store_PutManagedProject (=) (\<lambda>s. s) pex_remounted
     (fst (Store_BindManagedProjectImageIdentity (=) pex_bound pex_projects)))"

lemma pex_after_remount_row: "Store_ManagedProject ''sel'' pex_after_remount = Some pex_remounted"
  by (simp add: pex_after_remount_def run_project)

lemma pex_remount_run: "project_run (=) pex_projects pex_after_remount"
  unfolding pex_after_remount_def
  by (rule two_steps [OF _ put_project]) (rule bind_image)

theorem project_identity_pinned_witness:
  "project_succeeds pex_project pex_remounted \<and> SameDurableObject pex_image (px_ImageIdentity pex_remounted)"
proof
  have "Store_ManagedProject ''sel'' pex_projects = Some pex_project" by (simp add: run_project)
  from project_identity_pinned [OF _ pex_remount_run this] pex_after_remount_row
  show "project_succeeds pex_project pex_remounted" by simp
  show "SameDurableObject pex_image (px_ImageIdentity pex_remounted)" by (simp add: run_project)
qed

text \<open>
  The device of a stored project changes by the documented remount and in no other way: when
  an accepted write moves the anchor device, the new record is the old one with anchor and
  root on the one new device, a new root attestation, and the old attestation recorded as
  superseded; every other member, the published report included, is as it was.
\<close>

theorem project_device_moves:
  assumes "\<And>a b. deepEqual a b \<Longrightarrow> a = b" and "Store_ManagedProject (pj_SelectionID (px_Report q)) s = Some p"
    and "Store_PutManagedProject deepEqual between q s = (t, ok)" and "px_AnchorDevice q \<noteq> px_AnchorDevice p"
  shows "q = p\<lparr>px_AnchorDevice := px_AnchorDevice q, px_RootDevice := px_AnchorDevice q,
      px_SupersededRootAttestation := pj_RootAttestation (px_Report p),
      px_Report := (px_Report p)\<lparr>pj_RootAttestation := pj_RootAttestation (px_Report q)\<rparr>\<rparr> \<and>
    pj_RootAttestation (px_Report q) \<noteq> pj_RootAttestation (px_Report p)"
proof -
  have "managedProjectWriteAllowed deepEqual p q"
    using assms(2,3) by (auto simp: Store_PutManagedProject_def Let_def split: if_splits)
  moreover have "pinnedManagedProjectIdentityDiffers p q"
    using assms(4) by (simp add: pinnedManagedProjectIdentityDiffers_def)
  ultimately have "remountAttestationAdoption deepEqual p q" by (simp add: managedProjectWriteAllowed_def)
  from remount_shape [OF assms(1) this] show ?thesis by blast
qed

theorem project_device_moves_witness:
  "Store_PutManagedProject (=) (\<lambda>s. s) pex_remounted (no_projects\<lparr>pd_projects := [(''sel'', pex_bound)]\<rparr>) =
     (no_projects\<lparr>pd_projects := [(''sel'', pex_remounted)]\<rparr>, ok) \<and>
   pex_remounted = pex_bound\<lparr>px_AnchorDevice := 8, px_RootDevice := 8, px_SupersededRootAttestation := ''att1'',
     px_Report := (px_Report pex_bound)\<lparr>pj_RootAttestation := ''att2''\<rparr>\<rparr>"
proof
  let ?s = "no_projects\<lparr>pd_projects := [(''sel'', pex_bound)]\<rparr>"
  show run: "Store_PutManagedProject (=) (\<lambda>s. s) pex_remounted ?s = (no_projects\<lparr>pd_projects := [(''sel'', pex_remounted)]\<rparr>, ok)"
    by (simp add: run_project)
  have "Store_ManagedProject (pj_SelectionID (px_Report pex_remounted)) ?s = Some pex_bound" by (simp add: run_project)
  from project_device_moves [OF _ this run]
  show "pex_remounted = pex_bound\<lparr>px_AnchorDevice := 8, px_RootDevice := 8, px_SupersededRootAttestation := ''att1'',
     px_Report := (px_Report pex_bound)\<lparr>pj_RootAttestation := ''att2''\<rparr>\<rparr>"
    by (simp add: run_project)
qed

text \<open>The stored row after a \<open>Put\<close> that read before, and wrote after, a \<open>Bind\<close>.\<close>

text \<open>
  PutManagedProject reads the stored record and writes the new one in two statements outside
  a transaction. When an image identity is bound between the two, the write, which still has
  no image, is accepted and erases the identity that was meant to be immutable once bound.
\<close>

theorem project_image_race:
  "snd (Store_BindManagedProjectImageIdentity (=) pex_bound pex_projects) = ok \<and>
   Store_ManagedProject ''sel'' (fst (Store_BindManagedProjectImageIdentity (=) pex_bound pex_projects)) = Some pex_bound \<and>
   Store_PutManagedProject (=) (\<lambda>s. fst (Store_BindManagedProjectImageIdentity (=) pex_bound s)) pex_project pex_projects =
     (pex_projects, ok)"
  by (simp add: run_project)

section \<open>The life of a service\<close>

text \<open>
  C29. A managed service is created at most once per generation. Over any run of undisturbed
  writes a stored service stays, for the same principal, and its expected generation never
  falls. While the generation is the same its identity, configuration digest, process
  instance and port are unchanged, and once its creation has been dispatched the recovery
  mode is lookup_only: a second creation needs a higher generation.
\<close>

theorem service_created_once:
  assumes "project_run deepEqual s t" and "Store_ManagedService i s = Some r"
  shows "\<exists>q. Store_ManagedService i t = Some q \<and> service_succeeds r q \<and>
    (lm_CreationDispatched r \<longrightarrow> RecoverySessionMode q \<noteq> ''lookup_only'' \<longrightarrow> generation_of_service r < generation_of_service q)"
proof -
  obtain q where "Store_ManagedService i t = Some q" and q: "service_succeeds r q"
    using service_rows.run_row [OF assms(1) TrueI] assms(2) unfolding Store_ManagedService_def by blast
  moreover have "generation_of_service r < generation_of_service q"
    if "lm_CreationDispatched r" "RecoverySessionMode q \<noteq> ''lookup_only''"
  proof -
    have "\<not> lm_CreationDispatched q" using that(2) by (auto simp: RecoverySessionMode_def)
    with that(1) q show ?thesis unfolding service_succeeds_def by linarith
  qed
  ultimately show ?thesis by blast
qed

definition pex_identity :: "int \<Rightarrow> ManagedServiceIdentityV1" where
  "pex_identity g = \<lparr>mi_ServerID = ''srv'', mi_TeamID = ''team'', mi_MemberID = ''m'', mi_SandboxID = ''box'', mi_SandboxGeneration = 1,
     mi_ServiceRegistrationID = ''svc'', mi_ExpectedServiceGeneration = g, mi_Instance = ''i'', mi_Role = ''worker''\<rparr>"

definition pex_manifest :: "int \<Rightarrow> ManagedServiceV1" where
  "pex_manifest g = \<lparr>ms_FormatVersion = 1, ms_OperationID = ''op'', ms_ActionRevision = 1, ms_DesiredRevision = 1,
     ms_ConfigDigest = ''cfg'', ms_DesiredState = ''active'', ms_SessionMode = ''create'', ms_Authority = None,
     ms_Identity = pex_identity g, 
     ms_Profile = \<lparr>mp_SetupOperationID = ''s'', mp_ProfileID = ''p'', mp_ProfileRevision = 1, mp_ProfileDigest = ''d''\<rparr>,
     ms_Instructions = \<lparr>mn_InstructionRevision = 1, mn_InstructionDigest = ''d''\<rparr>,
     ms_Workspace = \<lparr>mk_SelectionID = ''sel'', mk_ProjectID = ''proj'', mk_WorkspaceEpoch = ''e1'', mk_ScopeRevision = 1,
       mk_Designation = ''team_project'', mk_RootAttestation = ''att1''\<rparr>,
     ms_RuntimeContractVersion = ''v1'', ms_Image = None\<rparr>"

definition pex_service :: "int \<Rightarrow> LocalManagedService" where
  "pex_service g = \<lparr>lm_Manifest = pex_manifest g, lm_Phase = ''pending'', lm_ProcessInstance = ''p'', lm_Port = 4096,
     lm_CreationDispatched = False, lm_ServiceGeneration = g, lm_Report = None, lm_ErrorCode = []\<rparr>"

text \<open>The row after its creation was dispatched, after it was retired, and after the service is wanted again.\<close>

definition pex_dispatched :: project_store where
  "pex_dispatched = no_projects\<lparr>pd_services := [(''svc'', (pex_service 1)\<lparr>lm_CreationDispatched := True, lm_Phase := ''starting''\<rparr>)]\<rparr>"

definition pex_retired :: project_store where
  "pex_retired = fst (Store_UpdateManagedService ''svc'' ''retired'' None [] pex_dispatched)"

definition pex_reissued :: project_store where
  "pex_reissued = fst (Store_PutManagedServiceIntent (\<lambda>s. s) (pex_service 2) pex_retired)"

lemmas run_service = pex_dispatched_def pex_retired_def pex_reissued_def pex_service_def pex_manifest_def pex_identity_def no_projects_def
  Store_ManagedService_def Store_PutManagedServiceIntent_def Store_MarkManagedServiceCreationDispatched_def Store_UpdateManagedService_def
  insert_service_def reissue_service_def service_checks_def sameManagedServicePrincipal_def RecoverySessionMode_def Let_def

lemma pex_reissue_run: "project_run (=) pex_dispatched pex_reissued"
  unfolding pex_reissued_def pex_retired_def
  by (rule two_steps [OF _ put_service]) (rule update)

theorem service_created_once_witness:
  "fst (Store_MarkManagedServiceCreationDispatched (\<lambda>s. s) ''svc'' ''cfg''
     (fst (Store_PutManagedServiceIntent (\<lambda>s. s) (pex_service 1) no_projects))) = pex_dispatched \<and>
   map_option RecoverySessionMode (Store_ManagedService ''svc'' pex_retired) = Some ''lookup_only'' \<and>
   map_option RecoverySessionMode (Store_ManagedService ''svc'' pex_reissued) = Some ''create'' \<and>
   map_option generation_of_service (Store_ManagedService ''svc'' pex_reissued) = Some 2 \<and>
   service_succeeds ((pex_service 1)\<lparr>lm_CreationDispatched := True, lm_Phase := ''starting''\<rparr>) (pex_service 2)"
proof (intro conjI)
  let ?r = "(pex_service 1)\<lparr>lm_CreationDispatched := True, lm_Phase := ''starting''\<rparr>"
  have "Store_ManagedService ''svc'' pex_dispatched = Some ?r" by (simp add: run_service)
  moreover have "Store_ManagedService ''svc'' pex_reissued = Some (pex_service 2)" by (simp add: run_service)
  ultimately show "service_succeeds ?r (pex_service 2)"
    using service_created_once [OF pex_reissue_run] by fastforce
qed (simp_all add: run_service)

end
