(* ===== verification/Store_Cells.thy ===== *)
theory Store_Cells
  imports Model_Cell Store_Projects
begin

text \<open>
  The tables of the cells (\<open>internal/state/cell_store.go\<close>, \<open>cell_v3_store.go\<close> and \<open>cell_v3_execution_store.go\<close>):
  the cell operations of formatVersion 2, and for formatVersion 3 the preparations, the native context pinned
  before their effect, the executions and the qualification pins. \<open>reflect.DeepEqual\<close> on these types, which
  hold strings, numbers and pointers to such, is equality. A blob that the code compares byte by byte is a
  \<open>string\<close>, \<open>[]\<close> where the column is \<open>NULL\<close>; the JSON text of a receipt is given by a codec.
  \<open>between\<close> is what other callers do between the last read of a method and its write.
\<close>

section \<open>Data\<close>

record ManagedCellChildV1 =
  mc_OperationID :: "string"
  mc_SessionID :: "string"
  mc_MessageID :: "string"
  mc_State :: "string"
  mc_Attempt :: "int"
  mc_Outcome :: "string option"
  mc_Exhausted :: "bool"

record CellServiceReportV1 =
  cz_FormatVersion :: "int"
  cz_OperationID :: "string"
  cz_ActionRevision :: "int"
  cz_ObservedDesiredRevision :: "int"
  cz_ServiceRegistrationID :: "string"
  cz_ObservedState :: "string"
  cz_DesiredState :: "string"
  cz_OwnerCellID :: "string"
  cz_OwnerRole :: "string"
  cz_OwnerGeneration :: "int"
  cz_SandboxID :: "string"
  cz_SandboxGeneration :: "int"
  cz_ServiceGeneration :: "int"
  cz_Fence :: "string"
  cz_Instance :: "string"
  cz_Role :: "string"
  cz_NativeSessionID :: "string"
  cz_NativeProjectID :: "string"
  cz_WorkspaceEpoch :: "string"
  cz_Attempt :: "int"
  cz_Child :: "ManagedCellChildV1 option"
  cz_Exhausted :: "bool"
  cz_ReceiptDigest :: "string"
  cz_LastError :: "ManagedServiceErrorV1 option"

record LocalCellOperation =
  lq_Entry :: "ManagedServiceV2"
  lq_Phase :: "string"
  lq_Attempt :: "int"
  lq_Child :: "ManagedCellChildV1 option"
  lq_Exhausted :: "bool"
  lq_ReceiptJSON :: "string"
  lq_Report :: "CellServiceReportV1"
  lq_ErrorCode :: "string"

record LocalCellV3Operation =
  lv_Entry :: "CellServiceV3"
  lv_Phase :: "string"
  lv_Attempt :: "int"
  lv_PreparedReceiptDigest :: "string"
  lv_Receipt :: "PreparedReceipt"
  lv_ReceiptJSON :: "string"
  lv_ErrorCode :: "string"
  lv_ParentSessionID :: "string"
  lv_WorktreeDir :: "string"
  lv_ControlReport :: "CellServiceReportV1"

record LocalCellV3Execution =
  xe_PreparationID :: "string"
  xe_Grant :: "CellExecutionGrantV3"
  xe_Phase :: "string"
  xe_ParentSessionID :: "string"
  xe_WorktreeDir :: "string"
  xe_EffectJSON :: "string"
  xe_Report :: "CellServiceReportV1"

text \<open>\<open>json.Marshal\<close> and \<open>json.Unmarshal\<close> of a prepared receipt.\<close>

record receipt_codec =
  rc_encode :: "PreparedReceipt \<Rightarrow> string"
  rc_decode :: "string \<Rightarrow> PreparedReceipt option"

text \<open>The rows of \<open>cell_v3_operations\<close>, \<open>cell_v3_native_context\<close> and \<open>cell_qualification_pins\<close>.\<close>

record cell_v3_row =
  cw_Entry :: CellServiceV3
  cw_NativeSessionID :: string
  cw_ConnectionID :: string
  cw_ConnectionRevision :: int
  cw_CredentialID :: string
  cw_NativeCredentialID :: string
  cw_Phase :: string
  cw_Attempt :: int
  cw_PreparedReceiptDigest :: string
  cw_ReceiptJSON :: string
  cw_ErrorCode :: string

record native_context =
  nw_ParentSessionID :: string
  nw_WorktreeDir :: string
  nw_Report :: "CellServiceReportV1 option"
  nw_Effect :: string

record cell_store =
  cl_operations :: "LocalCellOperation tbl"
  cl_v3 :: "cell_v3_row tbl"
  cl_contexts :: "native_context tbl"
  cl_executions :: "LocalCellV3Execution tbl"
  cl_pins :: "(string \<times> string) tbl"

definition no_cells :: cell_store where
  "no_cells = \<lparr>cl_operations = [], cl_v3 = [], cl_contexts = [], cl_executions = [], cl_pins = []\<rparr>"

definition ErrCellOperationConflict :: goerr where
  "ErrCellOperationConflict = Sentinel ''ErrCellOperationConflict''"

definition ErrCellV3OperationConflict :: goerr where
  "ErrCellV3OperationConflict = Sentinel ''ErrCellV3OperationConflict''"

definition ErrCellV3JournalBusy :: goerr where
  "ErrCellV3JournalBusy = Sentinel ''ErrCellV3JournalBusy''"

text \<open>Zero values.\<close>

definition zero_binding :: CellCredentialBindingV3 where
  "zero_binding = \<lparr>kb_ConnectionID = [], kb_ConnectionRevision = 0, kb_ProviderID = [], kb_AuthMode = []\<rparr>"

definition zero_tuple :: PreparedTuple where
  "zero_tuple = \<lparr>pt_OperationID = [], pt_ControllerID = [], pt_ControllerRevision = 0, pt_AuthorityRevision = 0,
     pt_ServiceRegistrationID = [], pt_ServiceGeneration = 0, pt_SandboxID = [], pt_SandboxGeneration = 0,
     pt_ParentExecutionID = None, pt_ParentPacketID = None, pt_PacketID = [], pt_PacketRevision = 0, pt_RequestDigest = [],
     pt_ConfigDigest = [], pt_ProfileDigest = [], pt_WorkspaceDigest = [], pt_CredentialBinding = zero_binding,
     pt_Authority = \<lparr>pa_ProviderID = [], pa_AuthMode = [], pa_ModelID = []\<rparr>, pt_Attempt = 0, pt_Fence = []\<rparr>"

definition zero_receipt :: PreparedReceipt where
  "zero_receipt = \<lparr>pr_FormatVersion = 0, pr_PreparedTuple = zero_tuple, pr_CredentialID = [], pr_NativeCredentialID = [],
     pr_BindingDigest = [], pr_PreparedReceiptDigest = []\<rparr>"

definition zero_cell_report :: CellServiceReportV1 where
  "zero_cell_report = \<lparr>cz_FormatVersion = 0, cz_OperationID = [], cz_ActionRevision = 0, cz_ObservedDesiredRevision = 0,
     cz_ServiceRegistrationID = [], cz_ObservedState = [], cz_DesiredState = [], cz_OwnerCellID = [], cz_OwnerRole = [],
     cz_OwnerGeneration = 0, cz_SandboxID = [], cz_SandboxGeneration = 0, cz_ServiceGeneration = 0, cz_Fence = [],
     cz_Instance = [], cz_Role = [], cz_NativeSessionID = [], cz_NativeProjectID = [], cz_WorkspaceEpoch = [],
     cz_Attempt = 0, cz_Child = None, cz_Exhausted = False, cz_ReceiptDigest = [], cz_LastError = None\<rparr>"

section \<open>Cell operations (formatVersion 2)\<close>

definition cell_operation_checks :: "LocalCellOperation \<Rightarrow> bool" where
  "cell_operation_checks v \<longleftrightarrow>
     lq_Phase v \<in> {''pending'', ''admitted'', ''terminal'', ''exhausted'', ''unknown'', ''failed''} \<and> 0 \<le> lq_Attempt v"

definition Store_CellOperation :: "string \<Rightarrow> cell_store \<Rightarrow> LocalCellOperation option" where
  "Store_CellOperation operationID s = map_of (cl_operations s) operationID"

definition Store_CellOperations :: "cell_store \<Rightarrow> LocalCellOperation list" where
  "Store_CellOperations s = map snd (order_by (\<lambda>a b. text_less (fst a) (fst b)) (cl_operations s))"

text \<open>A new row has no child, report or receipt.\<close>

definition Store_PutCellOperation ::
  "(cell_store \<Rightarrow> cell_store) \<Rightarrow> LocalCellOperation \<Rightarrow> cell_store \<Rightarrow> cell_store \<times> (goerr + unit)" where
  "Store_PutCellOperation between value s =
     (let entry = lq_Entry value; i = v2_OperationID entry in
      if i = [] \<or> lq_Phase value \<noteq> ''pending'' then (s, Inl ErrCellOperationConflict)
      else case Store_CellOperation i s of
        Some existing \<Rightarrow>
          if lq_Entry existing = entry then (s, ok)
          else if v2_ServiceRegistrationID (lq_Entry existing) \<noteq> v2_ServiceRegistrationID entry \<or>
            v2_OperationID (lq_Entry existing) \<noteq> v2_OperationID entry then (s, Inl ErrCellOperationConflict)
          else if v2_DesiredRevision entry \<le> v2_DesiredRevision (lq_Entry existing) then (s, Inl ErrCellOperationConflict)
          else let u = between s in
            (case map_of (cl_operations u) i of
               None \<Rightarrow> (u, ok)
             | Some row \<Rightarrow> (u\<lparr>cl_operations := AList.update i (row\<lparr>lq_Entry := entry\<rparr>) (cl_operations u)\<rparr>, ok))
      | None \<Rightarrow>
          let u = between s; row = value\<lparr>lq_Child := None, lq_ReceiptJSON := [], lq_Report := zero_cell_report\<rparr> in
          if map_of (cl_operations u) i \<noteq> None \<or> \<not> cell_operation_checks row then (u, Inl constraint)
          else (u\<lparr>cl_operations := AList.update i row (cl_operations u)\<rparr>, ok))"

definition advanceCellOperationEntry :: "ManagedServiceV2 \<Rightarrow> ManagedServiceV2 \<Rightarrow> goerr + bool" where
  "advanceCellOperationEntry existing next' =
     (if v2_ServiceRegistrationID next' \<noteq> v2_ServiceRegistrationID existing then Inl ErrCellOperationConflict
      else if v2_DesiredRevision next' > v2_DesiredRevision existing then Inr True
      else if v2_DesiredRevision next' < v2_DesiredRevision existing then Inl ErrCellOperationConflict
      else if v2_ActionRevision next' > v2_ActionRevision existing then Inr True
      else if v2_ActionRevision next' < v2_ActionRevision existing then Inl ErrCellOperationConflict
      else Inr False)"

text \<open>An exhausted row is not replaced by a weaker observation.\<close>

definition keep_exhausted :: "LocalCellOperation \<Rightarrow> LocalCellOperation \<Rightarrow> LocalCellOperation" where
  "keep_exhausted existing value =
     (if lq_Exhausted existing \<and> \<not> lq_Exhausted value
      then value\<lparr>lq_Exhausted := True, lq_Report := lq_Report existing, lq_Phase := lq_Phase existing,
        lq_Child := lq_Child existing, lq_Attempt := lq_Attempt existing, lq_Entry := lq_Entry existing\<rparr>
      else value)"

definition Store_UpdateCellOperation ::
  "(cell_store \<Rightarrow> cell_store) \<Rightarrow> LocalCellOperation \<Rightarrow> cell_store \<Rightarrow> cell_store \<times> (goerr + unit)" where
  "Store_UpdateCellOperation between value s =
     (case Store_CellOperation (v2_OperationID (lq_Entry value)) s of
        None \<Rightarrow> (s, Inl ErrCellOperationConflict)
      | Some existing \<Rightarrow>
          let value = keep_exhausted existing value; i = v2_OperationID (lq_Entry value) in
          (case advanceCellOperationEntry (lq_Entry existing) (lq_Entry value) of
             Inl e \<Rightarrow> (s, Inl e)
           | Inr advance \<Rightarrow>
               let u = between s in
               (case map_of (cl_operations u) i of
                  None \<Rightarrow> (u, Inl ErrCellOperationConflict)
                | Some row \<Rightarrow>
                    let row = value\<lparr>lq_Entry := if advance then lq_Entry value else lq_Entry row, lq_ReceiptJSON := []\<rparr> in
                    if \<not> cell_operation_checks row then (u, Inl constraint)
                    else (u\<lparr>cl_operations := AList.update i row (cl_operations u)\<rparr>, ok))))"

section \<open>Preparations (formatVersion 3)\<close>

definition cellV3BlockCodePattern :: rexp where
  "cellV3BlockCodePattern = Seq (Cls lower) (Seq (Rep (Cls (lnum @ chars ''_.-'')) 0 63)
     (Opt (Seq (Lit '':'') (Rep (Cls (lnum @ chars ''_.-'')) 1 31))))"

definition cellV3SessionModeRefreshMax :: int where
  "cellV3SessionModeRefreshMax = 3"

definition Store_CellV3Operation :: "receipt_codec \<Rightarrow> string \<Rightarrow> cell_store \<Rightarrow> goerr + LocalCellV3Operation option" where
  "Store_CellV3Operation c preparationID s =
     (case map_of (cl_v3 s) preparationID of
        None \<Rightarrow> Inr None
      | Some w \<Rightarrow>
          let cx = map_of (cl_contexts s) preparationID in
          (case (if cw_ReceiptJSON w = [] then Some zero_receipt else rc_decode c (cw_ReceiptJSON w)) of
             None \<Rightarrow> Inl (E ''json: cannot unmarshal receipt'')
           | Some receipt \<Rightarrow> Inr (Some
               \<lparr>lv_Entry = cw_Entry w, lv_Phase = cw_Phase w, lv_Attempt = cw_Attempt w,
                lv_PreparedReceiptDigest = cw_PreparedReceiptDigest w, lv_Receipt = receipt, lv_ReceiptJSON = cw_ReceiptJSON w,
                lv_ErrorCode = cw_ErrorCode w,
                lv_ParentSessionID = (case cx of None \<Rightarrow> [] | Some x \<Rightarrow> nw_ParentSessionID x),
                lv_WorktreeDir = (case cx of None \<Rightarrow> [] | Some x \<Rightarrow> nw_WorktreeDir x),
                lv_ControlReport = (case cx of None \<Rightarrow> zero_cell_report
                  | Some x \<Rightarrow> (case nw_Report x of None \<Rightarrow> zero_cell_report | Some r \<Rightarrow> r))\<rparr>)))"

definition Store_CellV3Operations :: "receipt_codec \<Rightarrow> cell_store \<Rightarrow> goerr + LocalCellV3Operation list" where
  "Store_CellV3Operations c s =
     foldE (\<lambda>values i. bindE (Store_CellV3Operation c i s) (\<lambda>value.
         Inr (values @ (case value of None \<Rightarrow> [] | Some v \<Rightarrow> [v]))))
       [] (map fst (order_by (\<lambda>a b. text_less (fst a) (fst b)) (cl_v3 s)))"

definition cellV3SessionModeRefreshAllowed :: "LocalCellV3Operation \<Rightarrow> CellServiceV3 \<Rightarrow> bool" where
  "cellV3SessionModeRefreshAllowed existing entry =
     (if lv_Phase existing \<noteq> ''pending'' \<or> lv_Attempt existing \<ge> cellV3SessionModeRefreshMax then False
      else if lv_ParentSessionID existing \<noteq> [] \<or> lv_PreparedReceiptDigest existing \<noteq> [] \<or> lv_ReceiptJSON existing \<noteq> []
      then False
      else if v3_LifecyclePhase (lv_Entry existing) \<noteq> ''prepare'' \<or> v3_LifecyclePhase entry \<noteq> ''prepare'' then False
      else if v3_SessionMode (lv_Entry existing) = v3_SessionMode entry then False
      else ValidCellV3SessionMode (v3_SessionMode (lv_Entry existing)) \<and> ValidCellV3SessionMode (v3_SessionMode entry))"

definition validateCellV3Transition ::
  "LocalCellV3Operation \<Rightarrow> CellServiceV3 \<Rightarrow> bool \<Rightarrow> bool \<Rightarrow> goerr + unit" where
  "validateCellV3Transition existing entry allowGrantRenewal allowSessionModeRefresh =
     (let old = lv_Entry existing in
      if \<not> SamePreparationIdentity old entry \<and>
        \<not> (allowSessionModeRefresh \<and> SamePreparationIdentityExceptSessionMode old entry) then Inl ErrCellV3OperationConflict
      else if v3_DesiredRevision entry < v3_DesiredRevision old then Inl ErrCellV3OperationConflict
      else if v3_ActionRevision entry \<noteq> v3_ActionRevision old \<and>
        (v3_ActionRevision entry \<le> v3_ActionRevision old \<or> v3_DesiredRevision entry \<le> v3_DesiredRevision old \<or>
         v3_DesiredState entry = v3_DesiredState old) then Inl ErrCellV3OperationConflict
      else if v3_LifecyclePhase old = ''execute'' \<and> v3_LifecyclePhase entry \<noteq> ''execute'' then Inl ErrCellV3OperationConflict
      else if (case v3_ExecutionGrant old of
          None \<Rightarrow> False
        | Some older \<Rightarrow> v3_ExecutionGrant entry \<noteq> Some older \<and>
            (\<not> allowGrantRenewal \<or> (case v3_ExecutionGrant entry of None \<Rightarrow> True | Some grant \<Rightarrow> \<not> Renews grant older)))
      then Inl ErrCellV3OperationConflict
      else if v3_LifecyclePhase entry = ''execute'' then
        (if lv_Phase existing \<noteq> ''reported'' \<or> \<not> accepted (ValidateExecutionAuthority entry (lv_Receipt existing))
         then Inl ErrCellV3OperationConflict else ok)
      else if v3_ExecutionGrant entry \<noteq> None \<or> v3_PreparedReceiptDigest entry \<noteq> None then Inl ErrCellV3OperationConflict
      else ok)"

abbreviation write_v3 :: "string \<Rightarrow> cell_v3_row \<Rightarrow> cell_store \<Rightarrow> cell_store" where
  "write_v3 i row s \<equiv> s\<lparr>cl_v3 := AList.update i row (cl_v3 s)\<rparr>"

text \<open>The \<open>INSERT\<close> with the constraints of the table, and the two \<open>UPDATE\<close>s of \<open>putCellV3Operation\<close>.\<close>

definition insert_v3 :: "LocalCellV3Operation \<Rightarrow> cell_store \<Rightarrow> cell_store \<times> (goerr + unit)" where
  "insert_v3 value u =
     (let entry = lv_Entry value; b = v3_CredentialBinding entry in
      if map_of (cl_v3 u) (v3_PreparationID entry) \<noteq> None \<or> kb_ConnectionRevision b < 1 \<or> lv_Attempt value < 0 \<or>
        list_ex (\<lambda>p. cw_NativeSessionID (snd p) = v3_NativeSessionID entry) (cl_v3 u)
      then (u, Inl (EJoin [ErrCellV3OperationConflict, constraint]))
      else (write_v3 (v3_PreparationID entry)
        \<lparr>cw_Entry = entry, cw_NativeSessionID = v3_NativeSessionID entry, cw_ConnectionID = kb_ConnectionID b,
         cw_ConnectionRevision = kb_ConnectionRevision b, cw_CredentialID = [], cw_NativeCredentialID = [],
         cw_Phase = lv_Phase value, cw_Attempt = lv_Attempt value, cw_PreparedReceiptDigest = [], cw_ReceiptJSON = [],
         cw_ErrorCode = lv_ErrorCode value\<rparr> u, ok))"

definition refresh_v3 :: "CellServiceV3 \<Rightarrow> cell_store \<Rightarrow> cell_store \<times> (goerr + unit)" where
  "refresh_v3 entry u =
     (case map_of (cl_v3 u) (v3_PreparationID entry) of
        None \<Rightarrow> (u, Inl ErrCellV3OperationConflict)
      | Some w \<Rightarrow>
          if cw_Phase w = ''pending'' \<and> cw_Attempt w < cellV3SessionModeRefreshMax \<and> cw_PreparedReceiptDigest w = []
          then (write_v3 (v3_PreparationID entry) (w\<lparr>cw_Entry := entry, cw_Attempt := cw_Attempt w + 1, cw_ErrorCode := []\<rparr>) u, ok)
          else (u, Inl ErrCellV3OperationConflict))"

definition write_entry_v3 :: "CellServiceV3 \<Rightarrow> cell_store \<Rightarrow> cell_store \<times> (goerr + unit)" where
  "write_entry_v3 entry u =
     (case map_of (cl_v3 u) (v3_PreparationID entry) of
        None \<Rightarrow> (u, ok)
      | Some w \<Rightarrow> (write_v3 (v3_PreparationID entry) (w\<lparr>cw_Entry := entry\<rparr>) u, ok))"

definition Store_CellV3Execution :: "string \<Rightarrow> cell_store \<Rightarrow> LocalCellV3Execution option" where
  "Store_CellV3Execution i s = map_of (cl_executions s) i"

text \<open>A renewed grant is adopted while no native effect was attempted.\<close>

definition renewal_allowed :: "CellServiceV3 \<Rightarrow> CellServiceV3 \<Rightarrow> cell_store \<Rightarrow> bool" where
  "renewal_allowed old entry s \<longleftrightarrow>
     v3_ExecutionGrant old \<noteq> None \<and> v3_ExecutionGrant old \<noteq> v3_ExecutionGrant entry \<and>
     (case Store_CellV3Execution (v3_PreparationID entry) s of None \<Rightarrow> True | Some x \<Rightarrow> xe_Phase x = ''pending'')"

definition putCellV3Operation ::
  "receipt_codec \<Rightarrow> (cell_store \<Rightarrow> cell_store) \<Rightarrow> LocalCellV3Operation \<Rightarrow> cell_store \<Rightarrow> cell_store \<times> (goerr + unit)" where
  "putCellV3Operation c between value s =
     (let entry = lv_Entry value in
      if v3_PreparationID entry = [] \<or> v3_OperationID entry = [] \<or> v3_NativeSessionID entry = [] \<or> lv_Phase value \<noteq> ''pending''
      then (s, Inl ErrCellV3OperationConflict)
      else case Store_CellV3Operation c (v3_PreparationID entry) s of
        Inl e \<Rightarrow> (s, Inl e)
      | Inr None \<Rightarrow>
          if v3_LifecyclePhase entry = ''execute'' then (s, Inl ErrCellV3OperationConflict) else insert_v3 value (between s)
      | Inr (Some existing) \<Rightarrow>
          let old = lv_Entry existing;
              modeRefresh = (v3_SessionMode old \<noteq> v3_SessionMode entry \<and> SamePreparationIdentityExceptSessionMode old entry) in
          if modeRefresh \<and> \<not> cellV3SessionModeRefreshAllowed existing entry then (s, Inl ErrCellV3OperationConflict)
          else (case validateCellV3Transition existing entry (renewal_allowed old entry s) modeRefresh of
             Inl e \<Rightarrow> (s, Inl e)
           | Inr _ \<Rightarrow> if modeRefresh then refresh_v3 entry (between s) else write_entry_v3 entry (between s)))"

text \<open>
  The wait of \<open>PutCellV3Operation\<close> for the journal write: another write is outstanding; the write ends inside its
  bound; or the bound expires first, and then the write may be done, or be done later, or be lost.
\<close>

datatype journal_wait = Outstanding | Finished | Expired bool

text \<open>\<open>fmt.Errorf("%w: ...", err, ...)\<close> is shown by the pair of the error and its text.\<close>

definition Store_PutCellV3Operation ::
  "receipt_codec \<Rightarrow> journal_wait \<Rightarrow> (cell_store \<Rightarrow> cell_store) \<Rightarrow> LocalCellV3Operation \<Rightarrow> cell_store \<Rightarrow>
     cell_store \<times> (goerr + unit)" where
  "Store_PutCellV3Operation c wait between value s =
     (case wait of
        Outstanding \<Rightarrow> (s, Inl (EJoin [ErrCellV3JournalBusy, E ''a previous journal write is still outstanding'']))
      | Finished \<Rightarrow> putCellV3Operation c between value s
      | Expired written \<Rightarrow> (if written then fst (putCellV3Operation c between value s) else s,
          Inl (EJoin [ErrCellV3JournalBusy, E ''context deadline exceeded''])))"

text \<open>The diagnostic column.\<close>

definition block_v3 :: "string list \<Rightarrow> string \<Rightarrow> string \<Rightarrow> cell_store \<Rightarrow> cell_store \<times> (goerr + bool)" where
  "block_v3 phases i code s =
     (case map_of (cl_v3 s) i of
        None \<Rightarrow> (s, Inr False)
      | Some w \<Rightarrow>
          if cw_Phase w \<in> set phases \<and> cw_ErrorCode w \<noteq> code then (write_v3 i (w\<lparr>cw_ErrorCode := code\<rparr>) s, Inr True)
          else (s, Inr False))"

definition Store_SetCellV3PrepareBlocked :: "string \<Rightarrow> string \<Rightarrow> cell_store \<Rightarrow> cell_store \<times> (goerr + bool)" where
  "Store_SetCellV3PrepareBlocked i code s =
     (if i = [] \<or> \<not> matchString cellV3BlockCodePattern code then (s, Inl ErrCellV3OperationConflict)
      else block_v3 [''pending''] i code s)"

definition Store_SetCellV3ExecuteBlocked :: "string \<Rightarrow> string \<Rightarrow> cell_store \<Rightarrow> cell_store \<times> (goerr + bool)" where
  "Store_SetCellV3ExecuteBlocked i code s =
     (if i = [] \<or> \<not> matchString cellV3BlockCodePattern code then (s, Inl ErrCellV3OperationConflict)
      else block_v3 [''prepared'', ''reported''] i code s)"

definition Store_ClearCellV3Blocked :: "string \<Rightarrow> cell_store \<Rightarrow> cell_store \<times> (goerr + bool)" where
  "Store_ClearCellV3Blocked i s =
     (if i = [] then (s, Inl ErrCellV3OperationConflict)
      else (case map_of (cl_v3 s) i of
        None \<Rightarrow> (s, Inr False)
      | Some w \<Rightarrow> if cw_ErrorCode w \<noteq> [] then (write_v3 i (w\<lparr>cw_ErrorCode := []\<rparr>) s, Inr True) else (s, Inr False)))"

text \<open>The native context: set once, before the effect of the preparation.\<close>

definition Store_PutCellV3NativeContext ::
  "receipt_codec \<Rightarrow> (cell_store \<Rightarrow> cell_store) \<Rightarrow> CellServiceV3 \<Rightarrow> string \<Rightarrow> string \<Rightarrow> cell_store \<Rightarrow> cell_store \<times> (goerr + unit)" where
  "Store_PutCellV3NativeContext c between entry parent worktree s =
     (let i = v3_PreparationID entry in
      case Store_CellV3Operation c i s of
        Inl e \<Rightarrow> (s, Inl e)
      | Inr None \<Rightarrow> (s, Inl ErrCellV3OperationConflict)
      | Inr (Some current) \<Rightarrow>
          if lv_Entry current \<noteq> entry \<or> parent = [] \<or> worktree = [] then (s, Inl ErrCellV3OperationConflict)
          else if lv_ParentSessionID current \<noteq> [] \<and>
            (lv_ParentSessionID current \<noteq> parent \<or> lv_WorktreeDir current \<noteq> worktree) then (s, Inl ErrCellV3OperationConflict)
          else let u = between s in
            if map_of (cl_contexts u) i \<noteq> None then (u, ok)
            else if map_of (cl_v3 u) i = None then (u, Inl constraint)
            else (u\<lparr>cl_contexts := AList.update i
                \<lparr>nw_ParentSessionID = parent, nw_WorktreeDir = worktree, nw_Report = None, nw_Effect = []\<rparr> (cl_contexts u)\<rparr>, ok))"

definition Store_PutCellV3ControlReport ::
  "receipt_codec \<Rightarrow> (cell_store \<Rightarrow> cell_store) \<Rightarrow> CellServiceV3 \<Rightarrow> CellServiceReportV1 \<Rightarrow> string \<Rightarrow> cell_store \<Rightarrow>
     cell_store \<times> (goerr + unit)" where
  "Store_PutCellV3ControlReport c between entry report effect s =
     (let i = v3_PreparationID entry in
      case Store_CellV3Operation c i s of
        Inl e \<Rightarrow> (s, Inl e)
      | Inr None \<Rightarrow> (s, Inl ErrCellV3OperationConflict)
      | Inr (Some current) \<Rightarrow>
          if lv_Entry current \<noteq> entry \<or> lv_ParentSessionID current = [] \<or> cz_FormatVersion report \<noteq> 3 \<or>
            cz_DesiredState report \<noteq> v3_DesiredState entry \<or> cz_ObservedDesiredRevision report \<noteq> v3_DesiredRevision entry
          then (s, Inl ErrCellV3OperationConflict)
          else let u = between s in
            (case map_of (cl_contexts u) i of
               None \<Rightarrow> (u, ok)
             | Some x \<Rightarrow> (u\<lparr>cl_contexts := AList.update i (x\<lparr>nw_Report := Some report, nw_Effect := effect\<rparr>) (cl_contexts u)\<rparr>, ok)))"

text \<open>The receipt bytes that \<open>UpdateCellV3Operation\<close> stores, unless a receipt is there already.\<close>

definition receipt_bytes :: "receipt_codec \<Rightarrow> LocalCellV3Operation \<Rightarrow> goerr + string" where
  "receipt_bytes c value =
     (if lv_ReceiptJSON value \<noteq> [] then
        (if rc_decode c (lv_ReceiptJSON value) \<noteq> Some (lv_Receipt value) then Inl ErrCellV3OperationConflict
         else Inr (lv_ReceiptJSON value))
      else if pr_PreparedReceiptDigest (lv_Receipt value) \<noteq> [] then Inr (rc_encode c (lv_Receipt value))
      else Inr [])"

definition update_v3 :: "LocalCellV3Operation \<Rightarrow> string \<Rightarrow> string \<Rightarrow> cell_store \<Rightarrow> cell_store \<times> (goerr + unit)" where
  "update_v3 value digest receiptJSON u =
     (let i = v3_PreparationID (lv_Entry value); credential = pr_CredentialID (lv_Receipt value) in
      case map_of (cl_v3 u) i of
        None \<Rightarrow> (u, Inl ErrCellV3OperationConflict)
      | Some w \<Rightarrow>
          if lv_Phase value \<notin> {''pending'', ''prepared'', ''reported'', ''unknown'', ''failed''} \<or> lv_Attempt value < 0 \<or>
            credential \<noteq> [] \<and> list_ex (\<lambda>p. fst p \<noteq> i \<and> cw_CredentialID (snd p) = credential \<and>
              cw_ConnectionID (snd p) = cw_ConnectionID w \<and> cw_ConnectionRevision (snd p) = cw_ConnectionRevision w) (cl_v3 u)
          then (u, Inl constraint)
          else (write_v3 i (w\<lparr>cw_Phase := lv_Phase value, cw_Attempt := lv_Attempt value, cw_CredentialID := credential,
              cw_NativeCredentialID := pr_NativeCredentialID (lv_Receipt value), cw_PreparedReceiptDigest := digest,
              cw_ReceiptJSON := receiptJSON, cw_ErrorCode := lv_ErrorCode value\<rparr>) u, ok))"

definition Store_UpdateCellV3Operation ::
  "receipt_codec \<Rightarrow> (cell_store \<Rightarrow> cell_store) \<Rightarrow> LocalCellV3Operation \<Rightarrow> cell_store \<Rightarrow> cell_store \<times> (goerr + unit)" where
  "Store_UpdateCellV3Operation c between value s =
     (case Store_CellV3Operation c (v3_PreparationID (lv_Entry value)) s of
        Inl e \<Rightarrow> (s, Inl e)
      | Inr None \<Rightarrow> (s, Inl ErrCellV3OperationConflict)
      | Inr (Some existing) \<Rightarrow>
          if lv_Entry existing \<noteq> lv_Entry value then (s, Inl ErrCellV3OperationConflict)
          else if lv_PreparedReceiptDigest existing \<noteq> [] \<and>
            (lv_Receipt existing \<noteq> lv_Receipt value \<or>
             lv_PreparedReceiptDigest value \<noteq> [] \<and> lv_PreparedReceiptDigest value \<noteq> lv_PreparedReceiptDigest existing)
          then (s, Inl ErrCellV3OperationConflict)
          else (case receipt_bytes c value of
             Inl e \<Rightarrow> (s, Inl e)
           | Inr receiptJSON \<Rightarrow>
               let digest = (if lv_PreparedReceiptDigest value = [] then pr_PreparedReceiptDigest (lv_Receipt value)
                  else lv_PreparedReceiptDigest value) in
               if digest \<noteq> pr_PreparedReceiptDigest (lv_Receipt value) then (s, Inl ErrCellV3OperationConflict)
               else update_v3 value digest
                 (if lv_PreparedReceiptDigest existing \<noteq> [] then lv_ReceiptJSON existing else receiptJSON) (between s)))"

section \<open>Executions and pins\<close>

text \<open>The upsert sets the phase, the effect and the report; an existing row keeps its grant and its context.\<close>

definition Store_PutCellV3Execution ::
  "receipt_codec \<Rightarrow> (cell_store \<Rightarrow> cell_store) \<Rightarrow> CellServiceV3 \<Rightarrow> LocalCellV3Execution \<Rightarrow> cell_store \<Rightarrow>
     cell_store \<times> (goerr + unit)" where
  "Store_PutCellV3Execution c between entry value s =
     (let i = v3_PreparationID entry in
      case Store_CellV3Operation c i s of
        Inl e \<Rightarrow> (s, Inl e)
      | Inr None \<Rightarrow> (s, Inl ErrCellV3OperationConflict)
      | Inr (Some preparation) \<Rightarrow>
          if lv_Entry preparation \<noteq> entry \<or> lv_Phase preparation \<noteq> ''reported'' \<or>
            \<not> accepted (ValidateExecutionAuthority entry (lv_Receipt preparation)) \<or>
            v3_ExecutionGrant entry \<noteq> Some (xe_Grant value) \<or> xe_PreparationID value \<noteq> i
          then (s, Inl ErrCellV3OperationConflict)
          else if (case Store_CellV3Execution i s of
              None \<Rightarrow> False
            | Some previous \<Rightarrow> xe_Grant previous \<noteq> xe_Grant value \<or> xe_ParentSessionID previous \<noteq> xe_ParentSessionID value \<or>
                xe_WorktreeDir previous \<noteq> xe_WorktreeDir value \<or> xe_Phase previous = ''exhausted'' \<and> xe_Phase value \<noteq> ''exhausted'')
          then (s, Inl ErrCellV3OperationConflict)
          else let u = between s;
                   value = value\<lparr>xe_Report := if cz_FormatVersion (xe_Report value) \<noteq> 0 then xe_Report value else zero_cell_report\<rparr>;
                   row = (case map_of (cl_executions u) i of
                     None \<Rightarrow> value
                   | Some x \<Rightarrow> x\<lparr>xe_Phase := xe_Phase value, xe_EffectJSON := xe_EffectJSON value, xe_Report := xe_Report value\<rparr>) in
            if xe_Phase row \<notin> {''pending'', ''admitted'', ''terminal'', ''exhausted'', ''unknown''} \<or> map_of (cl_v3 u) i = None
            then (u, Inl constraint)
            else (u\<lparr>cl_executions := AList.update i row (cl_executions u)\<rparr>, ok))"

definition Store_HasCellQualificationPin :: "string \<Rightarrow> cell_store \<Rightarrow> bool" where
  "Store_HasCellQualificationPin i s \<longleftrightarrow> map_of (cl_pins s) i \<noteq> None"

definition Store_PinCellQualification :: "string \<Rightarrow> string \<Rightarrow> string \<Rightarrow> cell_store \<Rightarrow> cell_store \<times> (goerr + unit)" where
  "Store_PinCellQualification i tupleDigest policyDigest s =
     (if length tupleDigest \<noteq> 71 \<or> length policyDigest \<noteq> 71 then (s, Inl ErrCellV3OperationConflict)
      else case map_of (cl_v3 s) i of
        None \<Rightarrow> (s, Inl (EJoin [ErrCellV3OperationConflict, Sentinel ''sql.ErrNoRows'']))
      | Some w \<Rightarrow>
          (case PreparedTuple_of (cw_Entry w) of
             Inl e \<Rightarrow> (s, Inl e)
           | Inr tuple \<Rightarrow>
               if PreparedTuple_Digest tuple \<noteq> tupleDigest then (s, Inl ErrCellV3OperationConflict)
               else (case map_of (cl_pins s) i of
                  None \<Rightarrow> (s\<lparr>cl_pins := AList.update i (tupleDigest, policyDigest) (cl_pins s)\<rparr>, ok)
                | Some pin \<Rightarrow> (s, if pin = (tupleDigest, policyDigest) then ok else Inl ErrCellV3OperationConflict))))"

end
