(* ===== verification/Store_Cell_Laws.thy ===== *)
theory Store_Cell_Laws
  imports Store_Cells Model_Cell_Laws Go_Runs
begin

text \<open>
  Steps of the cell tables and what they keep. Every write of a preparation row is one of five (\<open>v3_write\<close>);
  the invariant \<open>cell_tables_ok\<close> and the relation \<open>v3_succeeds\<close> between a row and its successors are shown of these five
  once. The relations of the formatVersion 2 operations and of the executions are beside them.
\<close>

section \<open>Steps\<close>

text \<open>
  One operation, refused or not. Both callers of \<open>UpdateCellV3Operation\<close> (reconcile/cell_v3_prepare.go) pass a
  receipt that they have validated, so its digest is not empty, and its exact bytes.
\<close>

inductive cell_step :: "receipt_codec \<Rightarrow> cell_store \<Rightarrow> cell_store \<Rightarrow> bool" for c s where
  put_operation: "cell_step c s (fst (Store_PutCellOperation (\<lambda>s. s) v s))"
| update_operation: "cell_step c s (fst (Store_UpdateCellOperation (\<lambda>s. s) v s))"
| put_preparation: "cell_step c s (fst (Store_PutCellV3Operation c wait (\<lambda>s. s) p s))"
| update_preparation: "pr_PreparedReceiptDigest (lv_Receipt p) \<noteq> [] \<Longrightarrow> lv_ReceiptJSON p \<noteq> [] \<Longrightarrow>
    cell_step c s (fst (Store_UpdateCellV3Operation c (\<lambda>s. s) p s))"
| prepare_blocked: "cell_step c s (fst (Store_SetCellV3PrepareBlocked i code s))"
| execute_blocked: "cell_step c s (fst (Store_SetCellV3ExecuteBlocked i code s))"
| clear_blocked: "cell_step c s (fst (Store_ClearCellV3Blocked i s))"
| native_context: "cell_step c s (fst (Store_PutCellV3NativeContext c (\<lambda>s. s) e parent worktree s))"
| control_report: "cell_step c s (fst (Store_PutCellV3ControlReport c (\<lambda>s. s) e report effect s))"
| put_execution: "cell_step c s (fst (Store_PutCellV3Execution c (\<lambda>s. s) e x s))"
| pin: "cell_step c s (fst (Store_PinCellQualification i tuple policy s))"

abbreviation cell_run :: "receipt_codec \<Rightarrow> cell_store \<Rightarrow> cell_store \<Rightarrow> bool" where
  "cell_run c \<equiv> (cell_step c)\<^sup>*\<^sup>*"

section \<open>The writes of a preparation row\<close>

inductive v3_write :: "receipt_codec \<Rightarrow> cell_store \<Rightarrow> string \<Rightarrow> cell_v3_row \<Rightarrow> bool" for c s where
  inserted: "map_of (cl_v3 s) (v3_PreparationID e) = None \<Longrightarrow> v3_LifecyclePhase e \<noteq> ''execute'' \<Longrightarrow> 0 \<le> n \<Longrightarrow>
     \<not> list_ex (\<lambda>p. cw_NativeSessionID (snd p) = v3_NativeSessionID e) (cl_v3 s) \<Longrightarrow>
     v3_write c s (v3_PreparationID e) \<lparr>cw_Entry = e, cw_NativeSessionID = v3_NativeSessionID e,
       cw_ConnectionID = kb_ConnectionID (v3_CredentialBinding e), cw_ConnectionRevision = kb_ConnectionRevision (v3_CredentialBinding e),
       cw_CredentialID = [], cw_NativeCredentialID = [], cw_Phase = ''pending'', cw_Attempt = n, cw_PreparedReceiptDigest = [],
       cw_ReceiptJSON = [], cw_ErrorCode = code\<rparr>"
| entry: "map_of (cl_v3 s) (v3_PreparationID e) = Some w \<Longrightarrow> Store_CellV3Operation c (v3_PreparationID e) s = Inr (Some old) \<Longrightarrow>
     validateCellV3Transition old e allow False = ok \<Longrightarrow> v3_write c s (v3_PreparationID e) (w\<lparr>cw_Entry := e\<rparr>)"
| refreshed: "map_of (cl_v3 s) (v3_PreparationID e) = Some w \<Longrightarrow> Store_CellV3Operation c (v3_PreparationID e) s = Inr (Some old) \<Longrightarrow>
     validateCellV3Transition old e allow True = ok \<Longrightarrow> v3_SessionMode (cw_Entry w) \<noteq> v3_SessionMode e \<Longrightarrow>
     cellV3SessionModeRefreshAllowed old e \<Longrightarrow> cw_PreparedReceiptDigest w = [] \<Longrightarrow> cw_Attempt w < cellV3SessionModeRefreshMax \<Longrightarrow>
     v3_write c s (v3_PreparationID e) (w\<lparr>cw_Entry := e, cw_Attempt := cw_Attempt w + 1, cw_ErrorCode := []\<rparr>)"
| coded: "map_of (cl_v3 s) k = Some w \<Longrightarrow> v3_write c s k (w\<lparr>cw_ErrorCode := code\<rparr>)"
| outcome: "map_of (cl_v3 s) k = Some w \<Longrightarrow> 0 \<le> n \<Longrightarrow> pr_PreparedReceiptDigest r \<noteq> [] \<Longrightarrow>
     (if cw_PreparedReceiptDigest w = [] then json \<noteq> [] \<and> rc_decode c json = Some r
      else json = cw_ReceiptJSON w \<and> (cw_ReceiptJSON w \<noteq> [] \<longrightarrow> rc_decode c json = Some r)) \<Longrightarrow>
     \<not> (pr_CredentialID r \<noteq> [] \<and> list_ex (\<lambda>p. fst p \<noteq> k \<and> cw_CredentialID (snd p) = pr_CredentialID r \<and>
          cw_ConnectionID (snd p) = cw_ConnectionID w \<and> cw_ConnectionRevision (snd p) = cw_ConnectionRevision w) (cl_v3 s)) \<Longrightarrow>
     v3_write c s k (w\<lparr>cw_Phase := phase, cw_Attempt := n, cw_CredentialID := pr_CredentialID r,
       cw_NativeCredentialID := pr_NativeCredentialID r, cw_PreparedReceiptDigest := pr_PreparedReceiptDigest r,
       cw_ReceiptJSON := json, cw_ErrorCode := code\<rparr>)"

definition writes_v3 :: "receipt_codec \<Rightarrow> cell_store \<Rightarrow> cell_store \<Rightarrow> bool" where
  "writes_v3 c s t \<longleftrightarrow> t = s \<or> (\<exists>k w. v3_write c s k w \<and> t = write_v3 k w s)"

lemma writes_v3_refl [simp]: "writes_v3 c s s"
  by (simp add: writes_v3_def)

lemma writes_v3_write: "v3_write c s k w \<Longrightarrow> writes_v3 c s (write_v3 k w s)"
  by (auto simp: writes_v3_def)

lemma read_v3:
  assumes "Store_CellV3Operation c k s = Inr (Some old)"
  shows "\<exists>w. map_of (cl_v3 s) k = Some w \<and> lv_Entry old = cw_Entry w \<and>
     lv_Phase old = cw_Phase w \<and> lv_Attempt old = cw_Attempt w \<and> lv_PreparedReceiptDigest old = cw_PreparedReceiptDigest w \<and>
     lv_ReceiptJSON old = cw_ReceiptJSON w \<and>
     (if cw_ReceiptJSON w = [] then lv_Receipt old = zero_receipt else rc_decode c (cw_ReceiptJSON w) = Some (lv_Receipt old))"
proof (cases "map_of (cl_v3 s) k")
  case None
  with assms show ?thesis by (simp add: Store_CellV3Operation_def)
next
  case (Some w)
  show ?thesis
  proof (cases "if cw_ReceiptJSON w = [] then Some zero_receipt else rc_decode c (cw_ReceiptJSON w)")
    case None
    with assms Some show ?thesis by (simp add: Store_CellV3Operation_def Let_def)
  next
    case r: (Some receipt)
    with assms Some show ?thesis by (auto simp: Store_CellV3Operation_def Let_def split: if_splits)
  qed
qed

lemma read_v3_none:
  assumes "Store_CellV3Operation c k s = Inr None"
  shows "map_of (cl_v3 s) k = None"
proof (cases "map_of (cl_v3 s) k")
  case (Some w)
  with assms show ?thesis
    by (cases "if cw_ReceiptJSON w = [] then Some zero_receipt else rc_decode c (cw_ReceiptJSON w)")
      (simp_all add: Store_CellV3Operation_def Let_def)
qed

lemma writes_block: "writes_v3 c s (fst (block_v3 phases i code s))"
  by (auto simp: block_v3_def split: option.split intro!: writes_v3_write coded)

lemma writes_diagnostics:
  "writes_v3 c s (fst (Store_SetCellV3PrepareBlocked i code s))"
  "writes_v3 c s (fst (Store_SetCellV3ExecuteBlocked i code s))"
  "writes_v3 c s (fst (Store_ClearCellV3Blocked i s))"
  by (auto simp: Store_SetCellV3PrepareBlocked_def Store_SetCellV3ExecuteBlocked_def Store_ClearCellV3Blocked_def writes_block
      split: option.split intro!: writes_v3_write coded)

lemma writes_insert:
  assumes "v3_LifecyclePhase (lv_Entry p) \<noteq> ''execute''" and "lv_Phase p = ''pending''"
  shows "writes_v3 c s (fst (insert_v3 p s))"
  using assms by (auto simp: insert_v3_def Let_def intro!: writes_v3_write inserted)

lemma writes_put_v3: "writes_v3 c s (fst (putCellV3Operation c (\<lambda>s. s) p s))"
proof (cases "Store_CellV3Operation c (v3_PreparationID (lv_Entry p)) s")
  case (Inl e)
  then show ?thesis by (simp add: putCellV3Operation_def Let_def)
next
  case (Inr o')
  show ?thesis
  proof (cases o')
    case None
    with Inr show ?thesis by (simp add: putCellV3Operation_def Let_def writes_insert)
  next
    case (Some old)
    let ?e = "lv_Entry p"
    let ?refresh = "v3_SessionMode (lv_Entry old) \<noteq> v3_SessionMode ?e \<and> SamePreparationIdentityExceptSessionMode (lv_Entry old) ?e"
    let ?check = "validateCellV3Transition old ?e (renewal_allowed (lv_Entry old) ?e s) ?refresh"
    have put: "fst (putCellV3Operation c (\<lambda>s. s) p s) \<in>
        {s} \<union> (if ?refresh \<and> cellV3SessionModeRefreshAllowed old ?e \<and> ?check = ok then {fst (refresh_v3 ?e s)} else {}) \<union>
        (if \<not> ?refresh \<and> ?check = ok then {fst (write_entry_v3 ?e s)} else {})"
      using Inr Some by (cases ?check) (auto simp: putCellV3Operation_def Let_def)
    obtain w where w: "map_of (cl_v3 s) (v3_PreparationID ?e) = Some w" "lv_Entry old = cw_Entry w"
      using read_v3 [of c "v3_PreparationID ?e" s old] Inr Some by auto
    have refresh: "writes_v3 c s (fst (refresh_v3 ?e s))"
      if "?refresh" "cellV3SessionModeRefreshAllowed old ?e" "?check = ok"
      using that w Inr Some by (auto simp: refresh_v3_def intro!: writes_v3_write refreshed)
    have entry: "writes_v3 c s (fst (write_entry_v3 ?e s))" if "\<not> ?refresh" "?check = ok"
    proof -
      have "validateCellV3Transition old ?e (renewal_allowed (lv_Entry old) ?e s) False = ok"
        using that by (metis (full_types))
      with w Inr Some show ?thesis by (auto simp: write_entry_v3_def intro!: writes_v3_write v3_write.entry)
    qed
    from put refresh entry show ?thesis by (auto split: if_splits)
  qed
qed

lemma writes_put_preparation: "writes_v3 c s (fst (Store_PutCellV3Operation c wait (\<lambda>s. s) p s))"
  by (cases wait) (simp_all add: Store_PutCellV3Operation_def writes_put_v3)

lemma writes_update_v3:
  assumes "pr_PreparedReceiptDigest (lv_Receipt p) \<noteq> []" and "lv_ReceiptJSON p \<noteq> []"
  shows "writes_v3 c s (fst (Store_UpdateCellV3Operation c (\<lambda>s. s) p s))"
proof (cases "Store_CellV3Operation c (v3_PreparationID (lv_Entry p)) s")
  case (Inl e)
  then show ?thesis by (simp add: Store_UpdateCellV3Operation_def)
next
  case (Inr o')
  show ?thesis
  proof (cases o')
    case None
    with Inr show ?thesis by (simp add: Store_UpdateCellV3Operation_def)
  next
    case (Some old)
    let ?k = "v3_PreparationID (lv_Entry p)" and ?r = "lv_Receipt p"
    obtain w where w: "map_of (cl_v3 s) ?k = Some w" and old: "lv_PreparedReceiptDigest old = cw_PreparedReceiptDigest w"
      "lv_ReceiptJSON old = cw_ReceiptJSON w"
      "if cw_ReceiptJSON w = [] then lv_Receipt old = zero_receipt else rc_decode c (cw_ReceiptJSON w) = Some (lv_Receipt old)"
      using read_v3 [of c ?k s old] Inr Some by auto
    have stored: "writes_v3 c s (fst (update_v3 p (pr_PreparedReceiptDigest ?r) json s))"
      if "if cw_PreparedReceiptDigest w = [] then json \<noteq> [] \<and> rc_decode c json = Some ?r
        else json = cw_ReceiptJSON w \<and> (cw_ReceiptJSON w \<noteq> [] \<longrightarrow> rc_decode c json = Some ?r)" for json
      using that w assms
      by (auto simp: update_v3_def Let_def intro!: writes_v3_write outcome)
    note op = Store_UpdateCellV3Operation_def Inr Some
    show ?thesis
    proof (cases "lv_Entry old \<noteq> lv_Entry p \<or> lv_PreparedReceiptDigest old \<noteq> [] \<and> (lv_Receipt old \<noteq> ?r \<or>
        lv_PreparedReceiptDigest p \<noteq> [] \<and> lv_PreparedReceiptDigest p \<noteq> lv_PreparedReceiptDigest old)")
      case True
      then show ?thesis by (auto simp: op)
    next
      case match: False
      show ?thesis
      proof (cases "receipt_bytes c p")
        case (Inl e)
        with match show ?thesis by (auto simp: op)
      next
        case bytes: (Inr json)
        let ?digest = "if lv_PreparedReceiptDigest p = [] then pr_PreparedReceiptDigest ?r else lv_PreparedReceiptDigest p"
        show ?thesis
        proof (cases "?digest = pr_PreparedReceiptDigest ?r")
          case False
          with match bytes show ?thesis by (auto simp: op Let_def)
        next
          case True
          let ?json = "if lv_PreparedReceiptDigest old \<noteq> [] then lv_ReceiptJSON old else json"
          have "fst (Store_UpdateCellV3Operation c (\<lambda>s. s) p s) = fst (update_v3 p (pr_PreparedReceiptDigest ?r) ?json s)"
            using match bytes True by (auto simp: op Let_def)
          moreover have "json \<noteq> [] \<and> rc_decode c json = Some ?r"
            using bytes assms by (auto simp: receipt_bytes_def split: if_splits)
          moreover have "rc_decode c (cw_ReceiptJSON w) = Some ?r"
            if "cw_PreparedReceiptDigest w \<noteq> []" "cw_ReceiptJSON w \<noteq> []"
            using that match old by auto
          ultimately show ?thesis using stored [of ?json] old by auto
        qed
      qed
    qed
  qed
qed

text \<open>What each operation leaves alone.\<close>

lemma native_context_frame:
  fixes e :: CellServiceV3
  shows "\<exists>t. fst (Store_PutCellV3NativeContext c (\<lambda>s. s) e parent worktree s) = s\<lparr>cl_contexts := t\<rparr>"
proof (cases "Store_CellV3Operation c (v3_PreparationID e) s")
  case (Inl err)
  then show ?thesis by (auto simp: Store_PutCellV3NativeContext_def Let_def intro: exI [of _ "cl_contexts s"])
next
  case (Inr o')
  then show ?thesis
    by (cases o') (auto simp: Store_PutCellV3NativeContext_def Let_def intro: exI [of _ "cl_contexts s"])
qed

lemma control_report_frame:
  fixes e :: CellServiceV3
  shows "\<exists>t. fst (Store_PutCellV3ControlReport c (\<lambda>s. s) e report effect s) = s\<lparr>cl_contexts := t\<rparr>"
proof (cases "Store_CellV3Operation c (v3_PreparationID e) s")
  case (Inl err)
  then show ?thesis by (auto simp: Store_PutCellV3ControlReport_def Let_def intro: exI [of _ "cl_contexts s"])
next
  case (Inr o')
  then show ?thesis
    by (cases o'; cases "map_of (cl_contexts s) (v3_PreparationID e)")
      (auto simp: Store_PutCellV3ControlReport_def Let_def intro: exI [of _ "cl_contexts s"])
qed

text \<open>The write of an execution: a new row for the granted entry, or a new phase of the same one.\<close>

definition execution_row :: "LocalCellV3Execution option \<Rightarrow> LocalCellV3Execution \<Rightarrow> LocalCellV3Execution" where
  "execution_row previous x =
     (let report = (if cz_FormatVersion (xe_Report x) \<noteq> 0 then xe_Report x else zero_cell_report) in
      case previous of None \<Rightarrow> x\<lparr>xe_Report := report\<rparr>
      | Some y \<Rightarrow> y\<lparr>xe_Phase := xe_Phase x, xe_EffectJSON := xe_EffectJSON x, xe_Report := report\<rparr>)"

definition execution_granted :: "cell_store \<Rightarrow> CellServiceV3 \<Rightarrow> LocalCellV3Execution \<Rightarrow> bool" where
  "execution_granted s e x \<longleftrightarrow>
     (\<exists>w. map_of (cl_v3 s) (v3_PreparationID e) = Some w \<and> cw_Entry w = e \<and> cw_Phase w = ''reported'') \<and>
     v3_ExecutionGrant e = Some (xe_Grant x) \<and> xe_PreparationID x = v3_PreparationID e \<and>
     (case map_of (cl_executions s) (v3_PreparationID e) of None \<Rightarrow> True
      | Some y \<Rightarrow> xe_Grant y = xe_Grant x \<and> xe_ParentSessionID y = xe_ParentSessionID x \<and> xe_WorktreeDir y = xe_WorktreeDir x \<and>
          (xe_Phase y = ''exhausted'' \<longrightarrow> xe_Phase x = ''exhausted''))"

lemma execution_cases:
  fixes e :: CellServiceV3 and x :: LocalCellV3Execution
  obtains (refused) r where "Store_PutCellV3Execution c (\<lambda>s. s) e x s = (s, Inl r)"
  | (written) "execution_granted s e x"
      "Store_PutCellV3Execution c (\<lambda>s. s) e x s = (s\<lparr>cl_executions := AList.update (v3_PreparationID e)
         (execution_row (map_of (cl_executions s) (v3_PreparationID e)) x) (cl_executions s)\<rparr>, ok)"
proof (cases "Store_CellV3Operation c (v3_PreparationID e) s")
  case (Inl err)
  then show thesis by (auto simp: Store_PutCellV3Execution_def Let_def intro: refused)
next
  case (Inr o')
  show thesis
  proof (cases o')
    case None
    with Inr show thesis by (auto simp: Store_PutCellV3Execution_def Let_def intro: refused)
  next
    case (Some p)
    note op = Store_PutCellV3Execution_def Store_CellV3Execution_def Let_def Inr Some
    let ?k = "v3_PreparationID e" and ?prev = "map_of (cl_executions s) (v3_PreparationID e)"
    let ?bad = "lv_Entry p \<noteq> e \<or> lv_Phase p \<noteq> ''reported'' \<or> \<not> accepted (ValidateExecutionAuthority e (lv_Receipt p)) \<or>
        v3_ExecutionGrant e \<noteq> Some (xe_Grant x) \<or> xe_PreparationID x \<noteq> ?k"
    let ?clash = "case ?prev of None \<Rightarrow> False
        | Some y \<Rightarrow> xe_Grant y \<noteq> xe_Grant x \<or> xe_ParentSessionID y \<noteq> xe_ParentSessionID x \<or>
            xe_WorktreeDir y \<noteq> xe_WorktreeDir x \<or> xe_Phase y = ''exhausted'' \<and> xe_Phase x \<noteq> ''exhausted''"
    let ?row = "execution_row ?prev x"
    consider ?bad | (clash) "\<not> ?bad" ?clash | (fine) "\<not> ?bad" "\<not> ?clash" by blast
    then show thesis
    proof cases
      case 1
      then show thesis unfolding op by (simp add: refused op)
    next
      case clash
      then have "Store_PutCellV3Execution c (\<lambda>s. s) e x s = (s, Inl ErrCellV3OperationConflict)"
        unfolding op sum.case option.case(2) if_not_P [OF clash(1)] if_P [OF clash(2)] by simp
      then show thesis by (rule refused)
    next
      case fine
      have run: "Store_PutCellV3Execution c (\<lambda>s. s) e x s =
          (if xe_Phase ?row \<notin> {''pending'', ''admitted'', ''terminal'', ''exhausted'', ''unknown''} \<or> map_of (cl_v3 s) ?k = None
           then (s, Inl constraint) else (s\<lparr>cl_executions := AList.update ?k ?row (cl_executions s)\<rparr>, ok))"
        unfolding op sum.case option.case(2) if_not_P [OF fine(1)] if_not_P [OF fine(2)]
        by (cases ?prev) (simp_all add: execution_row_def Let_def)
      have "execution_granted s e x"
        using fine read_v3 [of c ?k s p] Inr Some by (cases ?prev) (auto simp: execution_granted_def)
      with run show thesis by (metis refused written)
    qed
  qed
qed

lemma pin_frame:
  fixes i :: string
  obtains t where "fst (Store_PinCellQualification i tuple policy s) = s\<lparr>cl_pins := t\<rparr>"
  by (rule that [of "cl_pins (fst (Store_PinCellQualification i tuple policy s))"])
    (simp add: Store_PinCellQualification_def split: option.split sum.split)

section \<open>The invariant\<close>

definition v3_row_ok :: "receipt_codec \<Rightarrow> string \<Rightarrow> cell_v3_row \<Rightarrow> bool" where
  "v3_row_ok c k w \<longleftrightarrow>
     v3_PreparationID (cw_Entry w) = k \<and> cw_NativeSessionID w = v3_NativeSessionID (cw_Entry w) \<and>
     cw_ConnectionID w = kb_ConnectionID (v3_CredentialBinding (cw_Entry w)) \<and>
     cw_ConnectionRevision w = kb_ConnectionRevision (v3_CredentialBinding (cw_Entry w)) \<and> 0 \<le> cw_Attempt w \<and>
     (if cw_PreparedReceiptDigest w = [] then cw_ReceiptJSON w = [] \<and> cw_CredentialID w = []
      else cw_ReceiptJSON w \<noteq> [] \<and> (\<exists>r. rc_decode c (cw_ReceiptJSON w) = Some r \<and>
        pr_PreparedReceiptDigest r = cw_PreparedReceiptDigest w \<and> pr_CredentialID r = cw_CredentialID w))"

definition cell_tables_ok :: "receipt_codec \<Rightarrow> cell_store \<Rightarrow> bool" where
  "cell_tables_ok c s \<longleftrightarrow>
     (\<forall>k w. map_of (cl_v3 s) k = Some w \<longrightarrow> v3_row_ok c k w) \<and>
     (\<forall>k w k' w'. map_of (cl_v3 s) k = Some w \<longrightarrow> map_of (cl_v3 s) k' = Some w' \<longrightarrow>
        cw_NativeSessionID w = cw_NativeSessionID w' \<longrightarrow> k = k') \<and>
     (\<forall>k w k' w'. map_of (cl_v3 s) k = Some w \<longrightarrow> map_of (cl_v3 s) k' = Some w' \<longrightarrow> cw_CredentialID w \<noteq> [] \<longrightarrow>
        cw_CredentialID w = cw_CredentialID w' \<longrightarrow> cw_ConnectionID w = cw_ConnectionID w' \<longrightarrow>
        cw_ConnectionRevision w = cw_ConnectionRevision w' \<longrightarrow> k = k') \<and>
     (\<forall>k r. map_of (cl_operations s) k = Some r \<longrightarrow> v2_OperationID (lq_Entry r) = k)"

lemma normalize_mode:
  "preparation_normalize (a\<lparr>v3_SessionMode := m\<rparr>) = (preparation_normalize a)\<lparr>v3_SessionMode := m\<rparr>"
  by (cases a) (simp add: preparation_normalize_def)

lemma same_except_fields:
  assumes "SamePreparationIdentity a b \<or> SamePreparationIdentityExceptSessionMode a b"
  shows "v3_PreparationID a = v3_PreparationID b" "v3_NativeSessionID a = v3_NativeSessionID b"
    "v3_CredentialBinding a = v3_CredentialBinding b" "SamePreparationIdentityExceptSessionMode a b"
proof -
  have e: "preparation_normalize (a\<lparr>v3_SessionMode := []\<rparr>) = preparation_normalize (b\<lparr>v3_SessionMode := []\<rparr>)"
    using assms unfolding SamePreparationIdentityExceptSessionMode_def SamePreparationIdentity_def normalize_mode by auto
  then show "SamePreparationIdentityExceptSessionMode a b"
    by (simp add: SamePreparationIdentityExceptSessionMode_def SamePreparationIdentity_def)
  show "v3_PreparationID a = v3_PreparationID b"
    using arg_cong [OF e, of v3_PreparationID] by (simp add: preparation_normalize_def)
  show "v3_NativeSessionID a = v3_NativeSessionID b"
    using arg_cong [OF e, of v3_NativeSessionID] by (simp add: preparation_normalize_def)
  show "v3_CredentialBinding a = v3_CredentialBinding b"
    using arg_cong [OF e, of v3_CredentialBinding] by (simp add: preparation_normalize_def)
qed

lemma same_session_mode: "SamePreparationIdentity a b \<Longrightarrow> v3_SessionMode a = v3_SessionMode b"
  unfolding SamePreparationIdentity_def by (drule arg_cong [of _ _ v3_SessionMode]) (simp add: preparation_normalize_def)

lemma same_except_trans:
  "SamePreparationIdentityExceptSessionMode a b \<Longrightarrow> SamePreparationIdentityExceptSessionMode b d \<Longrightarrow>
     SamePreparationIdentityExceptSessionMode a d"
  by (simp add: SamePreparationIdentityExceptSessionMode_def SamePreparationIdentity_def)

lemma same_except_refl: "SamePreparationIdentityExceptSessionMode a a"
  by (simp add: SamePreparationIdentityExceptSessionMode_def SamePreparationIdentity_def)

lemma transition_ok:
  assumes "validateCellV3Transition old e renewal refresh = ok"
  shows "SamePreparationIdentity (lv_Entry old) e \<or> refresh \<and> SamePreparationIdentityExceptSessionMode (lv_Entry old) e"
    and "v3_DesiredRevision (lv_Entry old) \<le> v3_DesiredRevision e"
    and "v3_LifecyclePhase (lv_Entry old) = ''execute'' \<Longrightarrow> v3_LifecyclePhase e = ''execute''"
    and "v3_ExecutionGrant (lv_Entry old) = Some g \<Longrightarrow>
      \<exists>g'. v3_ExecutionGrant e = Some g' \<and> (g' = g \<or> renewal \<and> Renews g' g)"
    and "v3_LifecyclePhase e = ''execute'' \<Longrightarrow> lv_Phase old = ''reported'' \<and> accepted (ValidateExecutionAuthority e (lv_Receipt old))"
  using assms by (auto simp: validateCellV3Transition_def Let_def split: if_splits option.splits)

lemma write_row_ok:
  assumes ok: "cell_tables_ok c s" and wr: "v3_write c s k w"
  shows "v3_row_ok c k w"
proof -
  have row: "v3_row_ok c j u" if "map_of (cl_v3 s) j = Some u" for j u
    using ok that by (simp add: cell_tables_ok_def)
  from wr show ?thesis
  proof cases
    case (inserted e n code)
    then show ?thesis by (simp add: v3_row_ok_def)
  next
    case (entry e u old allow)
    have "lv_Entry old = cw_Entry u" using read_v3 [OF entry(4)] entry(3) by auto
    then have "SamePreparationIdentity (cw_Entry u) e" using transition_ok(1) [OF entry(5)] by simp
    with row [OF entry(3)] entry(1,2) show ?thesis
      using same_except_fields [of "cw_Entry u" e] by (auto simp: v3_row_ok_def)
  next
    case (refreshed e u old allow)
    have "lv_Entry old = cw_Entry u" using read_v3 [OF refreshed(4)] refreshed(3) by auto
    then have "SamePreparationIdentity (cw_Entry u) e \<or> SamePreparationIdentityExceptSessionMode (cw_Entry u) e"
      using transition_ok(1) [OF refreshed(5)] by auto
    with row [OF refreshed(3)] refreshed(1,2) show ?thesis
      using same_except_fields [of "cw_Entry u" e] by (auto simp: v3_row_ok_def)
  next
    case (coded u code)
    with row [OF coded(2)] show ?thesis by (simp add: v3_row_ok_def)
  next
    case (outcome u n r json phase code)
    with row [OF outcome(2)] show ?thesis
      by (cases "cw_PreparedReceiptDigest u = []") (auto simp: v3_row_ok_def)
  qed
qed

text \<open>A write names a session and a leased credential that no other row has.\<close>

lemma write_fresh:
  assumes ok: "cell_tables_ok c s" and wr: "v3_write c s k w" and other: "map_of (cl_v3 s) j = Some u" "j \<noteq> k"
  shows "cw_NativeSessionID u \<noteq> cw_NativeSessionID w"
    and "cw_CredentialID u \<noteq> [] \<Longrightarrow> cw_CredentialID u = cw_CredentialID w \<Longrightarrow> cw_ConnectionID u = cw_ConnectionID w \<Longrightarrow>
      cw_ConnectionRevision u \<noteq> cw_ConnectionRevision w"
proof -
  have mem: "(j, u) \<in> set (cl_v3 s)" using other(1) by (rule map_of_SomeD)
  have sessions: "cw_NativeSessionID u \<noteq> cw_NativeSessionID v" if "map_of (cl_v3 s) k = Some v" for v
    using ok other that unfolding cell_tables_ok_def by blast
  have credentials: "cw_CredentialID u \<noteq> [] \<Longrightarrow> cw_CredentialID u = cw_CredentialID v \<Longrightarrow> cw_ConnectionID u = cw_ConnectionID v \<Longrightarrow>
      cw_ConnectionRevision u \<noteq> cw_ConnectionRevision v" if "map_of (cl_v3 s) k = Some v" for v
    using ok other that unfolding cell_tables_ok_def by blast
  from wr show "cw_NativeSessionID u \<noteq> cw_NativeSessionID w"
    using mem sessions by cases (force simp: list_ex_iff)+
  from wr show "cw_CredentialID u \<noteq> [] \<Longrightarrow> cw_CredentialID u = cw_CredentialID w \<Longrightarrow> cw_ConnectionID u = cw_ConnectionID w \<Longrightarrow>
      cw_ConnectionRevision u \<noteq> cw_ConnectionRevision w"
  proof cases
    case (outcome v n r json phase code)
    assume "cw_CredentialID u \<noteq> []" "cw_CredentialID u = cw_CredentialID w" "cw_ConnectionID u = cw_ConnectionID w"
    with outcome mem other(2) show ?thesis by (force simp: list_ex_iff)
  qed (use credentials in auto)
qed

lemma distinct_after_update:
  assumes "\<And>i a j b. map_of t i = Some a \<Longrightarrow> map_of t j = Some b \<Longrightarrow> Q a b \<Longrightarrow> i = j"
    and "\<And>j u. map_of t j = Some u \<Longrightarrow> j \<noteq> k \<Longrightarrow> \<not> Q u w \<and> \<not> Q w u"
    and "map_of (AList.update k w t) i = Some a" and "map_of (AList.update k w t) j = Some b" and "Q a b"
  shows "i = j"
proof (cases "i = k"; cases "j = k")
  assume "i = k" "j \<noteq> k"
  then show ?thesis using assms(2) [of j b] assms(3-5) by simp
next
  assume "i \<noteq> k" "j = k"
  then show ?thesis using assms(2) [of i a] assms(3-5) by simp
next
  assume "i \<noteq> k" "j \<noteq> k"
  then show ?thesis using assms(1) [of i a j b] assms(3-5) by simp
qed simp

definition shares_credential :: "cell_v3_row \<Rightarrow> cell_v3_row \<Rightarrow> bool" where
  "shares_credential a b \<longleftrightarrow> cw_CredentialID a \<noteq> [] \<and> cw_CredentialID a = cw_CredentialID b \<and>
     cw_ConnectionID a = cw_ConnectionID b \<and> cw_ConnectionRevision a = cw_ConnectionRevision b"

definition shares_session :: "cell_v3_row \<Rightarrow> cell_v3_row \<Rightarrow> bool" where
  "shares_session a b \<longleftrightarrow> cw_NativeSessionID a = cw_NativeSessionID b"

lemma cell_tables_ok_iff:
  "cell_tables_ok c s \<longleftrightarrow>
     (\<forall>k w. map_of (cl_v3 s) k = Some w \<longrightarrow> v3_row_ok c k w) \<and>
     (\<forall>k w k' w'. map_of (cl_v3 s) k = Some w \<longrightarrow> map_of (cl_v3 s) k' = Some w' \<longrightarrow> shares_session w w' \<longrightarrow> k = k') \<and>
     (\<forall>k w k' w'. map_of (cl_v3 s) k = Some w \<longrightarrow> map_of (cl_v3 s) k' = Some w' \<longrightarrow> shares_credential w w' \<longrightarrow> k = k') \<and>
     (\<forall>k r. map_of (cl_operations s) k = Some r \<longrightarrow> v2_OperationID (lq_Entry r) = k)"
  unfolding cell_tables_ok_def shares_session_def shares_credential_def by (simp only: imp_conjL)

lemma cell_tables_okD:
  assumes "cell_tables_ok c s"
  shows "map_of (cl_v3 s) k = Some w \<Longrightarrow> v3_row_ok c k w"
    and "map_of (cl_v3 s) k = Some w \<Longrightarrow> map_of (cl_v3 s) k' = Some w' \<Longrightarrow> shares_session w w' \<Longrightarrow> k = k'"
    and "map_of (cl_v3 s) k = Some w \<Longrightarrow> map_of (cl_v3 s) k' = Some w' \<Longrightarrow> shares_credential w w' \<Longrightarrow> k = k'"
    and "map_of (cl_operations s) k'' = Some r \<Longrightarrow> v2_OperationID (lq_Entry r) = k''"
  using assms unfolding cell_tables_ok_iff by blast+

lemma cell_tables_ok_write:
  assumes ok: "cell_tables_ok c s" and wr: "v3_write c s k w"
  shows "cell_tables_ok c (write_v3 k w s)"
  unfolding cell_tables_ok_iff
proof (intro conjI allI impI)
  have none1: "\<not> shares_session u w \<and> \<not> shares_session w u" if "map_of (cl_v3 s) j = Some u" "j \<noteq> k" for j u
    using write_fresh(1) [OF assms that] unfolding shares_session_def by metis
  have none2: "\<not> shares_credential u w \<and> \<not> shares_credential w u" if "map_of (cl_v3 s) j = Some u" "j \<noteq> k" for j u
    using write_fresh(2) [OF assms that] unfolding shares_credential_def by metis
  fix i a j b
  assume ab: "map_of (cl_v3 (write_v3 k w s)) i = Some a" "map_of (cl_v3 (write_v3 k w s)) j = Some b"
  then have ab': "map_of (AList.update k w (cl_v3 s)) i = Some a" "map_of (AList.update k w (cl_v3 s)) j = Some b" by simp_all
  {
    assume "shares_session a b"
    with cell_tables_okD(2) [OF ok] none1 ab' show "i = j" by (rule distinct_after_update)
  next
    assume "shares_credential a b"
    with cell_tables_okD(3) [OF ok] none2 ab' show "i = j" by (rule distinct_after_update)
  }
next
  fix i a
  assume "map_of (cl_v3 (write_v3 k w s)) i = Some a"
  then show "v3_row_ok c i a" using cell_tables_okD(1) [OF ok] write_row_ok [OF assms] by (auto split: if_splits)
next
  fix i r
  assume "map_of (cl_operations (write_v3 k w s)) i = Some r"
  then show "v2_OperationID (lq_Entry r) = i" using cell_tables_okD(4) [OF ok] by simp
qed

section \<open>Cell operations\<close>

abbreviation tuple_before :: "ManagedServiceV2 \<Rightarrow> ManagedServiceV2 \<Rightarrow> bool" where
  "tuple_before e f \<equiv> v2_DesiredRevision e < v2_DesiredRevision f \<or>
     v2_DesiredRevision e = v2_DesiredRevision f \<and> v2_ActionRevision e < v2_ActionRevision f"

definition operation_succeeds :: "LocalCellOperation \<Rightarrow> LocalCellOperation \<Rightarrow> bool" where
  "operation_succeeds r q \<longleftrightarrow>
     v2_OperationID (lq_Entry q) = v2_OperationID (lq_Entry r) \<and>
     v2_ServiceRegistrationID (lq_Entry q) = v2_ServiceRegistrationID (lq_Entry r) \<and>
     (lq_Entry q = lq_Entry r \<or> tuple_before (lq_Entry r) (lq_Entry q)) \<and> (lq_Exhausted r \<longrightarrow> lq_Exhausted q)"

lemma operation_succeeds_refl: "operation_succeeds r r"
  by (simp add: operation_succeeds_def)

lemma operation_succeeds_trans: "operation_succeeds r q \<Longrightarrow> operation_succeeds q p \<Longrightarrow> operation_succeeds r p"
  unfolding operation_succeeds_def by (elim conjE) (intro conjI; force)

definition writes_operation :: "cell_store \<Rightarrow> cell_store \<Rightarrow> bool" where
  "writes_operation s t \<longleftrightarrow> t = s \<or> (\<exists>k r. v2_OperationID (lq_Entry r) = k \<and>
     (\<forall>x. map_of (cl_operations s) k = Some x \<longrightarrow> operation_succeeds x r) \<and>
     t = s\<lparr>cl_operations := AList.update k r (cl_operations s)\<rparr>)"

lemma writes_operation_refl [simp]: "writes_operation s s"
  by (simp add: writes_operation_def)

lemma writes_operationI:
  "v2_OperationID (lq_Entry r) = k \<Longrightarrow> (\<And>x. map_of (cl_operations s) k = Some x \<Longrightarrow> operation_succeeds x r) \<Longrightarrow>
     writes_operation s (s\<lparr>cl_operations := AList.update k r (cl_operations s)\<rparr>)"
  by (auto simp: writes_operation_def)

lemma writes_put_operation: "writes_operation s (fst (Store_PutCellOperation (\<lambda>s. s) v s))"
proof (cases "map_of (cl_operations s) (v2_OperationID (lq_Entry v))")
  case None
  then show ?thesis
    by (auto simp: Store_PutCellOperation_def Store_CellOperation_def Let_def intro!: writes_operationI)
next
  case (Some r)
  then show ?thesis
    by (auto simp: Store_PutCellOperation_def Store_CellOperation_def Let_def operation_succeeds_def intro!: writes_operationI)
qed

lemma advance_cases:
  "advanceCellOperationEntry e f = Inr advance \<Longrightarrow> v2_ServiceRegistrationID f = v2_ServiceRegistrationID e \<and>
     (if advance then tuple_before e f
      else v2_DesiredRevision f = v2_DesiredRevision e \<and> v2_ActionRevision f = v2_ActionRevision e)"
  by (auto simp: advanceCellOperationEntry_def split: if_splits)

lemma writes_update_operation:
  assumes keyed: "\<And>k r. map_of (cl_operations s) k = Some r \<Longrightarrow> v2_OperationID (lq_Entry r) = k"
  shows "writes_operation s (fst (Store_UpdateCellOperation (\<lambda>s. s) v s))"
proof (cases "map_of (cl_operations s) (v2_OperationID (lq_Entry v))")
  case None
  then show ?thesis by (simp add: Store_UpdateCellOperation_def Store_CellOperation_def)
next
  case (Some r)
  let ?v = "keep_exhausted r v"
  have key: "v2_OperationID (lq_Entry ?v) = v2_OperationID (lq_Entry v)"
    using keyed [OF Some] by (simp add: keep_exhausted_def)
  have sticky: "lq_Exhausted r \<Longrightarrow> lq_Exhausted ?v" by (simp add: keep_exhausted_def)
  show ?thesis
  proof (cases "advanceCellOperationEntry (lq_Entry r) (lq_Entry ?v)")
    case (Inl e)
    with Some show ?thesis by (simp add: Store_UpdateCellOperation_def Store_CellOperation_def Let_def)
  next
    case (Inr advance)
    let ?row = "?v\<lparr>lq_Entry := if advance then lq_Entry ?v else lq_Entry r, lq_ReceiptJSON := []\<rparr>"
    have "operation_succeeds r ?row"
      using advance_cases [OF Inr] keyed [OF Some] key sticky by (auto simp: operation_succeeds_def split: if_splits)
    moreover have "v2_OperationID (lq_Entry ?row) = v2_OperationID (lq_Entry v)" using key keyed [OF Some] by simp
    moreover have "fst (Store_UpdateCellOperation (\<lambda>s. s) v s) \<in>
        {s, s\<lparr>cl_operations := AList.update (v2_OperationID (lq_Entry v)) ?row (cl_operations s)\<rparr>}"
      using Some Inr key by (simp add: Store_UpdateCellOperation_def Store_CellOperation_def Let_def)
    ultimately show ?thesis using Some by (auto intro!: writes_operationI)
  qed
qed

section \<open>Every step\<close>

lemma cell_step_cases:
  assumes "cell_tables_ok c s" and "cell_step c s t"
  obtains (operation) "writes_operation s t"
  | (preparation) "writes_v3 c s t"
  | (contexts) x where "t = s\<lparr>cl_contexts := x\<rparr>"
  | (execution) e x where "execution_granted s e x" "t = s\<lparr>cl_executions := AList.update (v3_PreparationID e)
         (execution_row (map_of (cl_executions s) (v3_PreparationID e)) x) (cl_executions s)\<rparr>"
  | (pins) x where "t = s\<lparr>cl_pins := x\<rparr>"
  using assms(2)
proof cases
  case (put_operation v)
  then show thesis using operation writes_put_operation by simp
next
  case (update_operation v)
  then show thesis using operation writes_update_operation [OF cell_tables_okD(4) [OF assms(1)]] by simp
next
  case (put_preparation wait p)
  then show thesis using preparation writes_put_preparation by simp
next
  case (update_preparation p)
  then show thesis using preparation writes_update_v3 by simp
next
  case (prepare_blocked i code)
  then show thesis using preparation writes_diagnostics(1) by simp
next
  case (execute_blocked i code)
  then show thesis using preparation writes_diagnostics(2) by simp
next
  case (clear_blocked i)
  then show thesis using preparation writes_diagnostics(3) by simp
next
  case (native_context e parent worktree)
  then show thesis using contexts native_context_frame by metis
next
  case (control_report e report effect)
  then show thesis using contexts control_report_frame by metis
next
  case (put_execution e x)
  show thesis
  proof (cases rule: execution_cases [of c e x s])
    case (refused r)
    with put_execution show thesis using preparation [unfolded writes_v3_def] by simp
  next
    case written
    with put_execution show thesis by (intro execution) simp_all
  qed
next
  case (pin i tuple policy)
  then show thesis using pins pin_frame by metis
qed

lemma cell_tables_ok_step:
  assumes ok: "cell_tables_ok c s" and step: "cell_step c s t"
  shows "cell_tables_ok c t"
  using ok step
proof (cases rule: cell_step_cases)
  case operation
  then show ?thesis using ok by (auto simp: writes_operation_def cell_tables_ok_iff split: if_splits)
next
  case preparation
  then show ?thesis using ok cell_tables_ok_write [OF ok] by (auto simp: writes_v3_def)
qed (use ok in \<open>simp_all add: cell_tables_ok_iff\<close>)

lemma cell_tables_ok_empty: "cell_tables_ok c no_cells"
  by (simp add: cell_tables_ok_iff no_cells_def)

section \<open>The life of a preparation and of an execution\<close>

text \<open>A grant that follows another is the same or expires later.\<close>

definition grant_follows :: "CellExecutionGrantV3 \<Rightarrow> CellExecutionGrantV3 \<Rightarrow> bool" where
  "grant_follows g h \<longleftrightarrow> h = g \<or> (\<exists>a b. parseRFC3339 (eg_ExpiresAt g) = Some a \<and> parseRFC3339 (eg_ExpiresAt h) = Some b \<and> a < b)"

lemma grant_follows_trans: "grant_follows f g \<Longrightarrow> grant_follows g h \<Longrightarrow> grant_follows f h"
  by (auto simp: grant_follows_def)

lemma renews_follows: "Renews h g \<Longrightarrow> grant_follows g h"
  by (auto simp: grant_follows_def dest: renews_expiry)

definition preparation_succeeds :: "cell_v3_row \<Rightarrow> cell_v3_row \<Rightarrow> bool" where
  "preparation_succeeds w v \<longleftrightarrow>
     SamePreparationIdentityExceptSessionMode (cw_Entry w) (cw_Entry v) \<and> cw_NativeSessionID v = cw_NativeSessionID w \<and>
     v3_DesiredRevision (cw_Entry w) \<le> v3_DesiredRevision (cw_Entry v) \<and>
     (v3_LifecyclePhase (cw_Entry w) = ''execute'' \<longrightarrow> v3_LifecyclePhase (cw_Entry v) = ''execute'') \<and>
     (\<forall>g. v3_ExecutionGrant (cw_Entry w) = Some g \<longrightarrow> (\<exists>h. v3_ExecutionGrant (cw_Entry v) = Some h \<and> grant_follows g h)) \<and>
     (cw_PreparedReceiptDigest w \<noteq> [] \<longrightarrow> cw_PreparedReceiptDigest v = cw_PreparedReceiptDigest w \<and>
        cw_ReceiptJSON v = cw_ReceiptJSON w \<and> cw_CredentialID v = cw_CredentialID w \<and>
        v3_SessionMode (cw_Entry v) = v3_SessionMode (cw_Entry w))"

lemma preparation_succeeds_refl: "preparation_succeeds w w"
  by (simp add: preparation_succeeds_def same_except_refl grant_follows_def)

lemma preparation_succeeds_trans:
  assumes a: "preparation_succeeds w v" and b: "preparation_succeeds v u"
  shows "preparation_succeeds w u"
proof -
  have "\<exists>h. v3_ExecutionGrant (cw_Entry u) = Some h \<and> grant_follows g h" if "v3_ExecutionGrant (cw_Entry w) = Some g" for g
  proof -
    from a that obtain h where "v3_ExecutionGrant (cw_Entry v) = Some h" "grant_follows g h"
      unfolding preparation_succeeds_def by blast
    moreover from b this(1) obtain k where "v3_ExecutionGrant (cw_Entry u) = Some k" "grant_follows h k"
      unfolding preparation_succeeds_def by blast
    ultimately show ?thesis using grant_follows_trans by blast
  qed
  moreover have "SamePreparationIdentityExceptSessionMode (cw_Entry w) (cw_Entry u)"
    using a b same_except_trans unfolding preparation_succeeds_def by blast
  ultimately show ?thesis using a b unfolding preparation_succeeds_def by simp
qed

lemma write_succeeds:
  assumes ok: "cell_tables_ok c s" and wr: "v3_write c s k v" and row: "map_of (cl_v3 s) k = Some w"
  shows "preparation_succeeds w v"
  using wr
proof cases
  case (inserted e n code)
  with row show ?thesis by simp
next
  case (entry e u old allow)
  with row have u: "u = w" by simp
  have old: "lv_Entry old = cw_Entry w" using read_v3 [OF entry(4)] entry(3) u by auto
  note t = transition_ok [OF entry(5), unfolded old]
  have "\<exists>h. v3_ExecutionGrant e = Some h \<and> grant_follows g h" if "v3_ExecutionGrant (cw_Entry w) = Some g" for g
    using t(4) [OF that] renews_follows by (auto simp: grant_follows_def)
  with t entry(1,2) u show ?thesis
    using same_except_fields(4) [of "cw_Entry w" e] same_session_mode [of "cw_Entry w" e]
    by (auto simp: preparation_succeeds_def)
next
  case (refreshed e u old allow)
  with row have u: "u = w" by simp
  have old: "lv_Entry old = cw_Entry w" using read_v3 [OF refreshed(4)] refreshed(3) u by auto
  note t = transition_ok [OF refreshed(5), unfolded old]
  have "\<exists>h. v3_ExecutionGrant e = Some h \<and> grant_follows g h" if "v3_ExecutionGrant (cw_Entry w) = Some g" for g
    using t(4) [OF that] renews_follows by (auto simp: grant_follows_def)
  with t refreshed(1,2,8) u show ?thesis
    using same_except_fields(4) [of "cw_Entry w" e] by (auto simp: preparation_succeeds_def)
next
  case (coded u code)
  with row show ?thesis by (simp add: preparation_succeeds_def same_except_refl grant_follows_def)
next
  case (outcome u n r json phase code)
  with row have u: "u = w" by simp
  have "v3_row_ok c k w" using cell_tables_okD(1) [OF ok row] .
  then have "cw_PreparedReceiptDigest w \<noteq> [] \<Longrightarrow> json = cw_ReceiptJSON w \<and>
      pr_PreparedReceiptDigest r = cw_PreparedReceiptDigest w \<and> pr_CredentialID r = cw_CredentialID w"
    using outcome(5) u by (auto simp: v3_row_ok_def)
  with outcome(1) u show ?thesis by (auto simp: preparation_succeeds_def same_except_refl grant_follows_def)
qed

lemma preparations_follow:
  assumes "cell_tables_ok c s" and "cell_step c s t"
  shows "rows_follow preparation_succeeds (cl_v3 s) (cl_v3 t)"
  using assms
proof (cases rule: cell_step_cases)
  case preparation
  then show ?thesis using write_succeeds [OF assms(1)]
    by (auto simp: writes_v3_def intro!: rows_follow_refl rows_follow_update preparation_succeeds_refl)
next
  case operation
  then show ?thesis by (auto simp: writes_operation_def intro!: rows_follow_refl preparation_succeeds_refl)
qed (auto intro!: rows_follow_refl preparation_succeeds_refl)

lemma operations_follow:
  assumes "cell_tables_ok c s" and "cell_step c s t"
  shows "rows_follow operation_succeeds (cl_operations s) (cl_operations t)"
  using assms
proof (cases rule: cell_step_cases)
  case preparation
  then show ?thesis by (auto simp: writes_v3_def intro!: rows_follow_refl operation_succeeds_refl)
next
  case operation
  then show ?thesis by (auto simp: writes_operation_def intro!: rows_follow_refl rows_follow_update operation_succeeds_refl)
qed (auto intro!: rows_follow_refl operation_succeeds_refl)

definition execution_succeeds :: "LocalCellV3Execution \<Rightarrow> LocalCellV3Execution \<Rightarrow> bool" where
  "execution_succeeds x y \<longleftrightarrow> xe_PreparationID y = xe_PreparationID x \<and> xe_Grant y = xe_Grant x \<and>
     xe_ParentSessionID y = xe_ParentSessionID x \<and> xe_WorktreeDir y = xe_WorktreeDir x \<and>
     (xe_Phase x = ''exhausted'' \<longrightarrow> xe_Phase y = ''exhausted'')"

lemma execution_succeeds_refl: "execution_succeeds x x"
  by (simp add: execution_succeeds_def)

lemma executions_follow:
  assumes "cell_tables_ok c s" and "cell_step c s t"
  shows "rows_follow execution_succeeds (cl_executions s) (cl_executions t)"
  using assms
proof (cases rule: cell_step_cases)
  case (execution e x)
  have "execution_succeeds y (execution_row (map_of (cl_executions s) (v3_PreparationID e)) x)"
    if "map_of (cl_executions s) (v3_PreparationID e) = Some y" for y
    using that execution(1) by (simp add: execution_granted_def execution_row_def execution_succeeds_def Let_def)
  with execution(2) show ?thesis by (auto intro!: rows_follow_update execution_succeeds_refl)
next
  case preparation
  then show ?thesis by (auto simp: writes_v3_def intro!: rows_follow_refl execution_succeeds_refl)
next
  case operation
  then show ?thesis by (auto simp: writes_operation_def intro!: rows_follow_refl execution_succeeds_refl)
qed (auto intro!: rows_follow_refl execution_succeeds_refl)

interpretation preparation_rows: followed_rows "cell_step c" "cell_tables_ok c" cl_v3 preparation_succeeds for c
  by unfold_locales (auto intro: preparation_succeeds_refl preparation_succeeds_trans cell_tables_ok_step preparations_follow)

interpretation operation_rows: followed_rows "cell_step c" "cell_tables_ok c" cl_operations operation_succeeds for c
  by unfold_locales (auto intro: operation_succeeds_refl operation_succeeds_trans cell_tables_ok_step operations_follow)

interpretation execution_rows: followed_rows "cell_step c" "cell_tables_ok c" cl_executions execution_succeeds for c
  by unfold_locales
    (auto simp: execution_succeeds_def [of _ x for x] intro: execution_succeeds_refl cell_tables_ok_step executions_follow)

end
