(* ===== verification/Store_Cell_Properties.thy ===== *)
theory Store_Cell_Properties
  imports Store_Cell_Laws Cell_Examples
begin

text \<open>
  What every run of the cell tables keeps, with a run that goes from an empty table through preparation,
  report, execution grant and renewal. The last theorem shows where that run ends: an execution that was journalled
  before its grant was renewed can never be journalled again.
\<close>

section \<open>A run\<close>

definition pcx_codec :: receipt_codec where
  "pcx_codec = \<lparr>rc_encode = (\<lambda>_. ''receipt''), rc_decode = (\<lambda>_. Some ex_receipt)\<rparr>"

definition pcx_entry :: CellServiceV3 where
  "pcx_entry = ex_cell [] ''prepare'' None None"

definition pcx_granted :: CellServiceV3 where
  "pcx_granted = ex_execute ''grant1'' ''2026-01-01T00:00:00Z''"

definition pcx_renewed :: CellServiceV3 where
  "pcx_renewed = ex_execute ''grant2'' ''2026-01-01T01:00:00Z''"

definition pcx_value :: "CellServiceV3 \<Rightarrow> string \<Rightarrow> LocalCellV3Operation" where
  "pcx_value e phase = \<lparr>lv_Entry = e, lv_Phase = phase, lv_Attempt = 0, lv_PreparedReceiptDigest = pr_PreparedReceiptDigest ex_receipt,
     lv_Receipt = ex_receipt, lv_ReceiptJSON = ''receipt'', lv_ErrorCode = [], lv_ParentSessionID = [], lv_WorktreeDir = [],
     lv_ControlReport = zero_cell_report\<rparr>"

definition pcx_execution :: "CellExecutionGrantV3 \<Rightarrow> LocalCellV3Execution" where
  "pcx_execution g = \<lparr>xe_PreparationID = ''prep1'', xe_Grant = g, xe_Phase = ''pending'', xe_ParentSessionID = ''parent'',
     xe_WorktreeDir = ''/w'', xe_EffectJSON = [], xe_Report = zero_cell_report\<rparr>"

abbreviation pcx_grant1 :: CellExecutionGrantV3 where
  "pcx_grant1 \<equiv> ex_grant ''grant1'' ''2026-01-01T00:00:00Z''"

text \<open>The state with one preparation row.\<close>

definition pcx_state :: "CellServiceV3 \<Rightarrow> string \<Rightarrow> LocalCellV3Execution tbl \<Rightarrow> cell_store" where
  "pcx_state e phase x = no_cells\<lparr>cl_v3 := [(''prep1'',
     \<lparr>cw_Entry = e, cw_NativeSessionID = fst (deriveNativeIDs ''launch1''), cw_ConnectionID = ''conn1'', cw_ConnectionRevision = 1,
      cw_CredentialID = (if phase = ''pending'' then [] else ''cred1''),
      cw_NativeCredentialID = (if phase = ''pending'' then [] else ''native1''), cw_Phase = phase, cw_Attempt = 0,
      cw_PreparedReceiptDigest = (if phase = ''pending'' then [] else pr_PreparedReceiptDigest ex_receipt),
      cw_ReceiptJSON = (if phase = ''pending'' then [] else ''receipt''), cw_ErrorCode = []\<rparr>)], cl_executions := x\<rparr>"

lemma pcx_session: "fst (deriveNativeIDs ''launch1'') \<noteq> []"
proof
  assume "fst (deriveNativeIDs ''launch1'') = []"
  then have "ValidCellNativeSessionID []" using derived_session_shape [of "''launch1''"] by simp
  moreover have "\<not> ValidCellNativeSessionID []" by code_simp
  ultimately show False by simp
qed

lemma pcx_digest: "pr_PreparedReceiptDigest ex_receipt \<noteq> []"
  by (simp add: ex_receipt_def preparedReceiptDigest_def canonicalSHA256_def sha256_string_def)

lemma pcx_fields:
  "v3_PreparationID (ex_cell [] phase r g) = ''prep1''" "v3_OperationID (ex_cell [] phase r g) = ''op1''"
  "v3_NativeSessionID (ex_cell [] phase r g) = fst (deriveNativeIDs ''launch1'')"
  "v3_CredentialBinding (ex_cell [] phase r g) = ex_credential" "v3_LifecyclePhase (ex_cell [] phase r g) = phase"
  "v3_SessionMode (ex_cell [] phase r g) = ''create_initial''" "v3_ExecutionGrant (ex_cell [] phase r g) = g"
  "v3_PreparedReceiptDigest (ex_cell [] phase r g) = r" "v3_DesiredRevision (ex_cell [] phase r g) = 1"
  "v3_ActionRevision (ex_cell [] phase r g) = 1" "v3_DesiredState (ex_cell [] phase r g) = ''active''"
  by (simp_all add: ex_cell_def)

lemma pcx_same: "SamePreparationIdentity (ex_cell [] phase r g) (ex_cell [] phase' r' g')"
  by (simp add: SamePreparationIdentity_def preparation_normalize_def ex_cell_def)

lemma pcx_authority:
  "accepted (ValidateExecutionAuthority pcx_granted ex_receipt)" "accepted (ValidateExecutionAuthority pcx_renewed ex_receipt)"
  unfolding pcx_granted_def pcx_renewed_def by (rule ex_execution_accepted; simp add: ex_patterns ex_times)+

lemma pcx_renews: "Renews (ex_grant ''grant2'' ''2026-01-01T01:00:00Z'') pcx_grant1"
  by (simp add: Renews_def) (simp add: ex_grant_def ex_times)

lemmas pcx_run = pcx_state_def pcx_value_def pcx_codec_def pcx_execution_def no_cells_def pcx_fields pcx_session pcx_digest
  Store_CellV3Operation_def Store_CellV3Execution_def ex_credential_def Let_def

lemma pcx_given: "pr_PreparedReceiptDigest (lv_Receipt (pcx_value e phase)) \<noteq> []" "lv_ReceiptJSON (pcx_value e phase) \<noteq> []"
  by (simp_all add: pcx_value_def pcx_digest)

lemma pcx_put: "putCellV3Operation pcx_codec (\<lambda>s. s) (pcx_value pcx_entry ''pending'') no_cells = (pcx_state pcx_entry ''pending'' [], ok)"
  by (simp add: putCellV3Operation_def insert_v3_def pcx_entry_def pcx_run)

lemma pcx_update:
  "Store_UpdateCellV3Operation pcx_codec (\<lambda>s. s) (pcx_value pcx_entry ''reported'') (pcx_state pcx_entry ''pending'' []) =
     (pcx_state pcx_entry ''reported'' [], ok)"
  by (simp add: Store_UpdateCellV3Operation_def update_v3_def receipt_bytes_def pcx_entry_def pcx_run)
    (simp add: ex_receipt_def)

lemma pcx_grant:
  "putCellV3Operation pcx_codec (\<lambda>s. s) (pcx_value pcx_granted ''pending'') (pcx_state pcx_entry ''reported'' []) =
     (pcx_state pcx_granted ''reported'' [], ok)"
  using pcx_authority(1)
  by (simp add: putCellV3Operation_def validateCellV3Transition_def write_entry_v3_def pcx_entry_def pcx_granted_def ex_execute_def
      pcx_same pcx_run)

lemma pcx_execute:
  "Store_PutCellV3Execution pcx_codec (\<lambda>s. s) pcx_granted (pcx_execution pcx_grant1) (pcx_state pcx_granted ''reported'' []) =
     (pcx_state pcx_granted ''reported'' [(''prep1'', pcx_execution pcx_grant1)], ok)"
  using pcx_authority(1)
  by (simp add: Store_PutCellV3Execution_def pcx_granted_def ex_execute_def pcx_run zero_cell_report_def)

lemma pcx_renew:
  "putCellV3Operation pcx_codec (\<lambda>s. s) (pcx_value pcx_renewed ''pending'')
       (pcx_state pcx_granted ''reported'' [(''prep1'', pcx_execution pcx_grant1)]) =
     (pcx_state pcx_renewed ''reported'' [(''prep1'', pcx_execution pcx_grant1)], ok)"
  using pcx_authority(2) pcx_renews
  by (simp add: putCellV3Operation_def validateCellV3Transition_def write_entry_v3_def renewal_allowed_def pcx_granted_def
      pcx_renewed_def ex_execute_def pcx_same pcx_run) metis

lemma pcx_reported_run: "cell_run pcx_codec no_cells (pcx_state pcx_entry ''reported'' [])"
proof -
  have "cell_step pcx_codec no_cells (pcx_state pcx_entry ''pending'' [])"
    using put_preparation [of pcx_codec no_cells Finished "pcx_value pcx_entry ''pending''"] by (simp add: Store_PutCellV3Operation_def pcx_put)
  moreover have "cell_step pcx_codec (pcx_state pcx_entry ''pending'' []) (pcx_state pcx_entry ''reported'' [])"
    using update_preparation [of "pcx_value pcx_entry ''reported''" pcx_codec "pcx_state pcx_entry ''pending'' []"]
    by (simp add: pcx_update pcx_given)
  ultimately show ?thesis by (rule converse_rtranclp_into_rtranclp [OF _ r_into_rtranclp])
qed

lemma pcx_granted_run: "cell_run pcx_codec (pcx_state pcx_entry ''reported'' []) (pcx_state pcx_granted ''reported'' [(''prep1'', pcx_execution pcx_grant1)])"
proof -
  have "cell_step pcx_codec (pcx_state pcx_entry ''reported'' []) (pcx_state pcx_granted ''reported'' [])"
    using put_preparation [of pcx_codec "pcx_state pcx_entry ''reported'' []" Finished "pcx_value pcx_granted ''pending''"]
    by (simp add: Store_PutCellV3Operation_def pcx_grant)
  moreover have "cell_step pcx_codec (pcx_state pcx_granted ''reported'' []) (pcx_state pcx_granted ''reported'' [(''prep1'', pcx_execution pcx_grant1)])"
    using put_execution [of pcx_codec "pcx_state pcx_granted ''reported'' []" pcx_granted "pcx_execution pcx_grant1"] by (simp add: pcx_execute)
  ultimately show ?thesis by (rule converse_rtranclp_into_rtranclp [OF _ r_into_rtranclp])
qed

lemma pcx_renewed_run:
  "cell_run pcx_codec (pcx_state pcx_granted ''reported'' [(''prep1'', pcx_execution pcx_grant1)])
     (pcx_state pcx_renewed ''reported'' [(''prep1'', pcx_execution pcx_grant1)])"
proof (rule r_into_rtranclp)
  show "cell_step pcx_codec (pcx_state pcx_granted ''reported'' [(''prep1'', pcx_execution pcx_grant1)])
      (pcx_state pcx_renewed ''reported'' [(''prep1'', pcx_execution pcx_grant1)])"
    using put_preparation [of pcx_codec "pcx_state pcx_granted ''reported'' [(''prep1'', pcx_execution pcx_grant1)]" Finished
        "pcx_value pcx_renewed ''pending''"] by (simp add: Store_PutCellV3Operation_def pcx_renew)
qed

lemmas pcx_full_run = rtranclp_trans [OF pcx_reported_run rtranclp_trans [OF pcx_granted_run pcx_renewed_run]]

lemma pcx_tables_ok: "cell_run pcx_codec no_cells s \<Longrightarrow> cell_tables_ok pcx_codec s"
  by (rule preparation_rows.run_inv [OF _ cell_tables_ok_empty])

section \<open>Preparations\<close>

text \<open>
  C21. Over any run of journal writes, refused or expired ones included, a formatVersion 3
  preparation is never lost and keeps its identity (all members but the session mode and the
  desired state, revisions and authority); its desired revision never falls, execute is
  never undone, and a grant is replaced only by one that expires later. Once the prepared
  receipt is stored, its digest, its exact bytes, the leased credential and the session mode
  never change.
\<close>

theorem cell_preparation_pinned:
  assumes "cell_tables_ok c s" and "cell_run c s t" and "map_of (cl_v3 s) i = Some w"
  shows "\<exists>v. map_of (cl_v3 t) i = Some v \<and> preparation_succeeds w v"
  by (rule preparation_rows.run_row [OF assms(2,1,3)])

theorem cell_preparation_pinned_witness:
  "\<exists>v. map_of (cl_v3 (pcx_state pcx_renewed ''reported'' [(''prep1'', pcx_execution pcx_grant1)])) ''prep1'' = Some v \<and>
     preparation_succeeds (the (map_of (cl_v3 (pcx_state pcx_entry ''reported'' [])) ''prep1'')) v \<and>
     cw_ReceiptJSON v = ''receipt'' \<and> v3_ExecutionGrant (cw_Entry v) = Some (ex_grant ''grant2'' ''2026-01-01T01:00:00Z'')"
proof -
  obtain w where w: "map_of (cl_v3 (pcx_state pcx_entry ''reported'' [])) ''prep1'' = Some w" by (simp add: pcx_state_def)
  from cell_preparation_pinned [OF pcx_tables_ok [OF pcx_reported_run] rtranclp_trans [OF pcx_granted_run pcx_renewed_run] w] w
  show ?thesis by (auto simp: pcx_state_def pcx_renewed_def ex_execute_def pcx_fields)
qed

text \<open>
  In every reachable state two preparations never share a native session, and never share a
  leased credential of the same connection revision; each is stored under its own
  preparation id, and a stored receipt digest is the digest of the stored receipt bytes.
\<close>

theorem cell_sessions_distinct:
  assumes "cell_run c no_cells s" and "map_of (cl_v3 s) i = Some w" and "map_of (cl_v3 s) j = Some v" and "i \<noteq> j"
  shows "v3_NativeSessionID (cw_Entry w) \<noteq> v3_NativeSessionID (cw_Entry v) \<and> v3_PreparationID (cw_Entry w) = i \<and>
    \<not> shares_credential w v \<and>
    (cw_PreparedReceiptDigest w = [] \<or> map_option pr_PreparedReceiptDigest (rc_decode c (cw_ReceiptJSON w)) = Some (cw_PreparedReceiptDigest w))"
proof -
  have ok: "cell_tables_ok c s" by (rule preparation_rows.run_inv [OF assms(1) cell_tables_ok_empty])
  have "v3_row_ok c i w" "v3_row_ok c j v" using cell_tables_okD(1) [OF ok] assms(2,3) by blast+
  moreover have "\<not> shares_session w v" "\<not> shares_credential w v"
    using cell_tables_okD(2,3) [OF ok assms(2,3)] assms(4) by blast+
  ultimately show ?thesis by (auto simp: v3_row_ok_def shares_session_def split: if_splits)
qed

text \<open>A second preparation, of another launch, in the same table.\<close>

definition pcx_other :: CellServiceV3 where
  "pcx_other = pcx_entry\<lparr>v3_PreparationID := ''prep2'', v3_NativeSessionID := ''other''\<rparr>"

lemma pcx_session_other: "fst (deriveNativeIDs ''launch1'') \<noteq> ''other''"
  by (simp add: deriveNativeIDs_def Let_def)

lemma pcx_other_put:
  "\<exists>w. fst (putCellV3Operation pcx_codec (\<lambda>s. s) (pcx_value pcx_other ''pending'') (pcx_state pcx_entry ''reported'' [])) =
     write_v3 ''prep2'' w (pcx_state pcx_entry ''reported'' []) \<and> cw_Entry w = pcx_other \<and> cw_CredentialID w = []"
  using pcx_session_other
  by (auto simp: putCellV3Operation_def insert_v3_def pcx_other_def pcx_entry_def pcx_run)

theorem cell_sessions_distinct_witness:
  "\<exists>s w v. cell_run pcx_codec no_cells s \<and> map_of (cl_v3 s) ''prep1'' = Some w \<and> map_of (cl_v3 s) ''prep2'' = Some v \<and>
     v3_NativeSessionID (cw_Entry w) \<noteq> v3_NativeSessionID (cw_Entry v) \<and> \<not> shares_credential w v"
proof -
  let ?s = "pcx_state pcx_entry ''reported'' []"
  obtain v where v: "fst (putCellV3Operation pcx_codec (\<lambda>s. s) (pcx_value pcx_other ''pending'') ?s) = write_v3 ''prep2'' v ?s"
    using pcx_other_put by blast
  have step: "cell_step pcx_codec ?s (write_v3 ''prep2'' v ?s)"
    using put_preparation [of pcx_codec ?s Finished "pcx_value pcx_other ''pending''"] by (simp add: Store_PutCellV3Operation_def v)
  obtain w where w: "map_of (cl_v3 (write_v3 ''prep2'' v ?s)) ''prep1'' = Some w" by (simp add: pcx_state_def)
  have run: "cell_run pcx_codec no_cells (write_v3 ''prep2'' v ?s)"
    using pcx_reported_run r_into_rtranclp [where r = "cell_step pcx_codec", OF step] by (rule rtranclp_trans)
  have v2: "map_of (cl_v3 (write_v3 ''prep2'' v ?s)) ''prep2'' = Some v" by simp
  have distinct: "''prep1'' \<noteq> ''prep2''" by simp
  note d = cell_sessions_distinct [OF run w v2 distinct]
  show ?thesis
    by (rule exI [of _ "write_v3 ''prep2'' v ?s"], rule exI [of _ w], rule exI [of _ v]) (use run w v2 d in \<open>simp only: simp_thms\<close>)
qed

text \<open>How often the session mode of a preparation changes along a run.\<close>

definition mode_changed :: "string \<Rightarrow> cell_store \<Rightarrow> cell_store \<Rightarrow> bool" where
  "mode_changed k s t \<longleftrightarrow> (\<exists>w v. map_of (cl_v3 s) k = Some w \<and> map_of (cl_v3 t) k = Some v \<and>
     v3_SessionMode (cw_Entry w) \<noteq> v3_SessionMode (cw_Entry v))"

inductive mode_changes :: "receipt_codec \<Rightarrow> string \<Rightarrow> cell_store \<Rightarrow> nat \<Rightarrow> cell_store \<Rightarrow> bool" for c k s where
  start: "mode_changes c k s 0 s"
| step: "mode_changes c k s n t \<Longrightarrow> cell_step c t u \<Longrightarrow> mode_changes c k s (if mode_changed k t u then Suc n else n) u"

lemma write_mode:
  assumes wr: "v3_write c s k v" and row: "map_of (cl_v3 s) k = Some w"
  shows "v3_SessionMode (cw_Entry w) \<noteq> v3_SessionMode (cw_Entry v) \<Longrightarrow>
      cw_PreparedReceiptDigest w = [] \<and> cw_Attempt w < 3 \<and> cw_Attempt v = cw_Attempt w + 1"
    and "cw_PreparedReceiptDigest v = [] \<Longrightarrow> cw_PreparedReceiptDigest w = [] \<and> cw_Attempt w \<le> cw_Attempt v"
proof -
  show "cw_PreparedReceiptDigest w = [] \<and> cw_Attempt w < 3 \<and> cw_Attempt v = cw_Attempt w + 1"
    if "v3_SessionMode (cw_Entry w) \<noteq> v3_SessionMode (cw_Entry v)"
    using wr
  proof cases
    case (entry e u old allow)
    with row have "lv_Entry old = cw_Entry w" using read_v3 [OF entry(4)] by auto
    then have "SamePreparationIdentity (cw_Entry w) e" using transition_ok(1) [OF entry(5)] by simp
    with that row entry(2,3) show ?thesis using same_session_mode by fastforce
  qed (use row that in \<open>auto simp: cellV3SessionModeRefreshMax_def\<close>)
  show "cw_PreparedReceiptDigest w = [] \<and> cw_Attempt w \<le> cw_Attempt v" if "cw_PreparedReceiptDigest v = []"
    using wr by cases (use row that in auto)
qed

lemma mode_changes_bound:
  assumes "mode_changes c k s n t" and "cell_tables_ok c s"
  shows "cell_tables_ok c t \<and> n \<le> 3 \<and> (map_of (cl_v3 t) k = None \<longrightarrow> n = 0) \<and>
    (\<forall>w. map_of (cl_v3 t) k = Some w \<longrightarrow> cw_PreparedReceiptDigest w = [] \<longrightarrow> int n \<le> cw_Attempt w)"
  using assms
proof (induction rule: mode_changes.induct)
  case start
  then show ?case using cell_tables_okD(1) by (fastforce simp: v3_row_ok_def)
next
  case (step n t u)
  then have ok: "cell_tables_ok c t" and n: "n \<le> 3" "map_of (cl_v3 t) k = None \<Longrightarrow> n = 0"
    and low: "\<And>w. map_of (cl_v3 t) k = Some w \<Longrightarrow> cw_PreparedReceiptDigest w = [] \<Longrightarrow> int n \<le> cw_Attempt w" by blast+
  have ok': "cell_tables_ok c u" by (rule cell_tables_ok_step [OF ok step(2)])
  have same: ?case if "cl_v3 u = cl_v3 t"
    using that ok' n low by (auto simp: mode_changed_def)
  from ok step(2) show ?case
  proof (cases rule: cell_step_cases)
    case preparation
    show ?thesis
    proof (cases "u = t")
      case False
      with preparation obtain j v where wr: "v3_write c t j v" and u: "u = write_v3 j v t" by (auto simp: writes_v3_def)
      show ?thesis
      proof (cases "j = k \<and> map_of (cl_v3 t) k \<noteq> None")
        case True
        then obtain w where w: "map_of (cl_v3 t) k = Some w" and j: "j = k" by auto
        note m = write_mode [OF wr [unfolded j] w]
        have "mode_changed k t u \<longleftrightarrow> v3_SessionMode (cw_Entry w) \<noteq> v3_SessionMode (cw_Entry v)"
          using w u j by (auto simp: mode_changed_def)
        with m low [OF w] n ok' u j show ?thesis by (cases "cw_PreparedReceiptDigest v = []") auto
      next
        case other: False
        have "\<not> mode_changed k t u" using other u by (auto simp: mode_changed_def)
        moreover have "int n \<le> cw_Attempt x" if "map_of (cl_v3 u) k = Some x" "cw_PreparedReceiptDigest x = []" for x
        proof (cases "j = k")
          case True
          with other have "n = 0" using n(2) by simp
          moreover have "0 \<le> cw_Attempt x" using cell_tables_okD(1) [OF ok' that(1)] by (simp add: v3_row_ok_def)
          ultimately show ?thesis by simp
        next
          case False
          with that u low show ?thesis by simp
        qed
        ultimately show ?thesis using ok' n u by (auto split: if_splits)
      qed
    qed (use same in simp)
  next
    case operation
    then show ?thesis using same by (auto simp: writes_operation_def)
  qed (use same in simp_all)
qed

text \<open>
  However the control plane flips the session mode of a preparation, it changes at most
  three times in any run from a consistent state, restarts included: each change uses up one
  slot of the stored attempt column, and none is admitted after a receipt is stored.
\<close>

theorem session_mode_bounded:
  assumes "mode_changes c k s n t" and "cell_tables_ok c s"
  shows "n \<le> 3"
  using mode_changes_bound [OF assms] by blast

text \<open>A preparation journalled as lookup_only and repaired once.\<close>

definition pcx_lookup :: CellServiceV3 where
  "pcx_lookup = pcx_entry\<lparr>v3_SessionMode := ''lookup_only''\<rparr>"

lemma pcx_mode_changed:
  "mode_changed ''prep1'' (pcx_state pcx_entry ''pending'' [])
     (fst (putCellV3Operation pcx_codec (\<lambda>s. s) (pcx_value pcx_lookup ''pending'') (pcx_state pcx_entry ''pending'' [])))"
proof -
  have identity: "SamePreparationIdentityExceptSessionMode pcx_entry pcx_lookup"
    by (simp add: SamePreparationIdentityExceptSessionMode_def SamePreparationIdentity_def pcx_lookup_def pcx_entry_def ex_cell_def)
  have fields: "v3_PreparationID pcx_lookup = ''prep1''" "v3_OperationID pcx_lookup = ''op1''" "v3_NativeSessionID pcx_lookup \<noteq> []"
    "v3_SessionMode pcx_entry = ''create_initial''" "v3_SessionMode pcx_lookup = ''lookup_only''"
    "v3_LifecyclePhase pcx_entry = ''prepare''" "v3_LifecyclePhase pcx_lookup = ''prepare''" "v3_ExecutionGrant pcx_entry = None"
    "v3_ExecutionGrant pcx_lookup = None" "v3_PreparedReceiptDigest pcx_lookup = None"
    "v3_DesiredRevision pcx_lookup = v3_DesiredRevision pcx_entry" "v3_ActionRevision pcx_lookup = v3_ActionRevision pcx_entry"
    by (simp_all add: pcx_lookup_def pcx_entry_def pcx_fields pcx_session)
  show ?thesis
    using identity fields
    by (simp add: mode_changed_def putCellV3Operation_def validateCellV3Transition_def cellV3SessionModeRefreshAllowed_def
        refresh_v3_def cellV3SessionModeRefreshMax_def ValidCellV3SessionMode_def pcx_state_def pcx_value_def pcx_codec_def
        no_cells_def Store_CellV3Operation_def Let_def)
qed

theorem session_mode_bounded_witness:
  "\<exists>n t. mode_changes pcx_codec ''prep1'' (pcx_state pcx_entry ''pending'' []) n t \<and> 0 < n \<and> n \<le> 3"
proof -
  let ?s = "pcx_state pcx_entry ''pending'' []"
  let ?t = "fst (putCellV3Operation pcx_codec (\<lambda>s. s) (pcx_value pcx_lookup ''pending'') ?s)"
  have "cell_step pcx_codec ?s ?t"
    using put_preparation [of pcx_codec ?s Finished "pcx_value pcx_lookup ''pending''"] by (simp add: Store_PutCellV3Operation_def)
  from mode_changes.step [OF mode_changes.start this, of "''prep1''"] pcx_mode_changed
  have run: "mode_changes pcx_codec ''prep1'' ?s (Suc 0) ?t" by simp
  have "cell_run pcx_codec no_cells ?s"
    using put_preparation [of pcx_codec no_cells Finished "pcx_value pcx_entry ''pending''"]
    by (intro r_into_rtranclp) (simp add: Store_PutCellV3Operation_def pcx_put)
  from session_mode_bounded [OF run pcx_tables_ok [OF this]] run show ?thesis by blast
qed

section \<open>Executions\<close>



text \<open>The preparation holds a grant that expires later than the one of the journalled execution.\<close>

definition outlived :: "string \<Rightarrow> LocalCellV3Execution \<Rightarrow> cell_store \<Rightarrow> bool" where
  "outlived i x s \<longleftrightarrow> Store_CellV3Execution i s = Some x \<and>
     (\<exists>w g a b. map_of (cl_v3 s) i = Some w \<and> v3_ExecutionGrant (cw_Entry w) = Some g \<and>
        parseRFC3339 (eg_ExpiresAt (xe_Grant x)) = Some a \<and> parseRFC3339 (eg_ExpiresAt g) = Some b \<and> a < b)"

lemma outlived_refused:
  assumes "outlived i x s" and "execution_granted s e y"
  shows "v3_PreparationID e \<noteq> i"
  using assms by (auto simp: outlived_def execution_granted_def Store_CellV3Execution_def)

lemma outlived_step:
  assumes ok: "cell_tables_ok c s" and out: "outlived i x s" and step: "cell_step c s t"
  shows "outlived i x t"
proof -
  obtain w g a b where w: "map_of (cl_v3 s) i = Some w" "v3_ExecutionGrant (cw_Entry w) = Some g"
    "parseRFC3339 (eg_ExpiresAt (xe_Grant x)) = Some a" "parseRFC3339 (eg_ExpiresAt g) = Some b" "a < b"
    and x: "map_of (cl_executions s) i = Some x"
    using out by (auto simp: outlived_def Store_CellV3Execution_def)
  obtain v where v: "map_of (cl_v3 t) i = Some v" "preparation_succeeds w v"
    using rows_follow_row [OF preparations_follow [OF ok step] w(1)] by blast
  then obtain h where h: "v3_ExecutionGrant (cw_Entry v) = Some h" "grant_follows g h"
    using w(2) unfolding preparation_succeeds_def by blast
  obtain d where d: "parseRFC3339 (eg_ExpiresAt h) = Some d" "a < d"
    using h(2) w(4,5) by (auto simp: grant_follows_def)
  have later: "\<exists>w g a b. map_of (cl_v3 t) i = Some w \<and> v3_ExecutionGrant (cw_Entry w) = Some g \<and>
      parseRFC3339 (eg_ExpiresAt (xe_Grant x)) = Some a \<and> parseRFC3339 (eg_ExpiresAt g) = Some b \<and> a < b"
    by (rule exI [of _ v], rule exI [of _ h], rule exI [of _ a], rule exI [of _ d]) (simp only: v(1) h(1) w(3) d simp_thms)
  have "map_of (cl_executions t) i = Some x"
    using ok step
  proof (cases rule: cell_step_cases)
    case (execution e y)
    with outlived_refused [OF out execution(1)] x show ?thesis by simp
  qed (use x in \<open>auto simp: writes_v3_def writes_operation_def\<close>)
  with later show ?thesis by (simp add: outlived_def Store_CellV3Execution_def)
qed

text \<open>
  C23. The journal adopts the renewal of an expired grant while the execution is still
  pending, but a journalled execution keeps its first grant. From then on no execution of
  this preparation can be written, whatever happens: every PutCellV3Execution is refused and
  the row stays pending with the expired grant for ever, although the renewal is meant to
  let the execution go on under the next grant.
\<close>

theorem renewed_grant_stuck:
  assumes "cell_tables_ok c s" and "outlived i x s" and "cell_run c s t" and "v3_PreparationID e = i"
  shows "Store_CellV3Execution i t = Some x \<and> snd (Store_PutCellV3Execution c (\<lambda>s. s) e y t) \<noteq> ok"
proof -
  have out: "outlived i x t"
    using assms(3)
  proof (induction rule: rtranclp_induct)
    case (step t u)
    have "cell_tables_ok c t" using step(1) assms(1) by (rule preparation_rows.run_inv)
    from outlived_step [OF this step(3,2)] show ?case .
  qed (rule assms(2))
  then have "\<not> execution_granted t e y" using outlived_refused assms(4) by blast
  then have "snd (Store_PutCellV3Execution c (\<lambda>s. s) e y t) \<noteq> ok"
    by (cases rule: execution_cases [of c e y t]) simp_all
  with out show ?thesis by (simp add: outlived_def)
qed

theorem renewed_grant_stuck_witness:
  "cell_run pcx_codec no_cells (pcx_state pcx_renewed ''reported'' [(''prep1'', pcx_execution pcx_grant1)]) \<and>
   accepted (ValidateExecutionAuthority pcx_renewed ex_receipt) \<and>
   snd (Store_PutCellV3Execution pcx_codec (\<lambda>s. s) pcx_renewed
     (pcx_execution (ex_grant ''grant2'' ''2026-01-01T01:00:00Z''))
     (pcx_state pcx_renewed ''reported'' [(''prep1'', pcx_execution pcx_grant1)])) \<noteq> ok"
proof (intro conjI)
  let ?s = "pcx_state pcx_renewed ''reported'' [(''prep1'', pcx_execution pcx_grant1)]"
  show "cell_run pcx_codec no_cells ?s" by (rule pcx_full_run)
  show "accepted (ValidateExecutionAuthority pcx_renewed ex_receipt)" by (rule pcx_authority(2))
  have "outlived ''prep1'' (pcx_execution pcx_grant1) ?s"
    by (simp add: outlived_def Store_CellV3Execution_def pcx_state_def pcx_renewed_def ex_execute_def pcx_fields pcx_execution_def)
      (simp add: ex_grant_def ex_times)
  moreover have "v3_PreparationID pcx_renewed = ''prep1''" by (simp add: pcx_renewed_def ex_execute_def pcx_fields)
  ultimately show "snd (Store_PutCellV3Execution pcx_codec (\<lambda>s. s) pcx_renewed
      (pcx_execution (ex_grant ''grant2'' ''2026-01-01T01:00:00Z'')) ?s) \<noteq> ok"
    using renewed_grant_stuck [OF pcx_tables_ok [OF pcx_full_run] _ rtranclp.rtrancl_refl] by blast
qed

section \<open>Cell operations of formatVersion 2\<close>

definition same_outcome :: "LocalCellOperation \<Rightarrow> LocalCellOperation \<Rightarrow> bool" where
  "same_outcome q p \<longleftrightarrow> lq_Entry p = lq_Entry q \<and> lq_Phase p = lq_Phase q \<and> lq_Attempt p = lq_Attempt q \<and>
     lq_Child p = lq_Child q \<and> lq_Exhausted p = lq_Exhausted q \<and> lq_Report p = lq_Report q"

lemma weaker_observation:
  assumes ok: "cell_tables_ok c t" and q: "Store_CellOperation (v2_OperationID (lq_Entry v)) t = Some q" "lq_Exhausted q" and v: "\<not> lq_Exhausted v"
  shows "\<exists>p. Store_CellOperation (v2_OperationID (lq_Entry v)) (fst (Store_UpdateCellOperation (\<lambda>s. s) v t)) = Some p \<and> same_outcome q p"
proof -
  let ?v = "keep_exhausted q v" and ?i = "v2_OperationID (lq_Entry v)"
  have key: "v2_OperationID (lq_Entry q) = ?i" using cell_tables_okD(4) [OF ok] q(1) by (simp add: Store_CellOperation_def)
  have same: "same_outcome q (?v\<lparr>lq_Entry := lq_Entry q, lq_ReceiptJSON := []\<rparr>)" "lq_Entry ?v = lq_Entry q"
    using q(2) v by (simp_all add: same_outcome_def keep_exhausted_def)
  have "advanceCellOperationEntry (lq_Entry q) (lq_Entry q) = Inr False" by (simp add: advanceCellOperationEntry_def)
  then have "fst (Store_UpdateCellOperation (\<lambda>s. s) v t) \<in>
      {t, t\<lparr>cl_operations := AList.update ?i (?v\<lparr>lq_Entry := lq_Entry q, lq_ReceiptJSON := []\<rparr>) (cl_operations t)\<rparr>}"
    using q(1) same(2) key by (simp add: Store_UpdateCellOperation_def Store_CellOperation_def Let_def)
  moreover have "same_outcome q q" by (simp add: same_outcome_def)
  ultimately show ?thesis using q(1) same(1) by (auto simp: Store_CellOperation_def)
qed

text \<open>
  A formatVersion 2 cell operation only moves forward: over any run it is never lost, keeps
  its operation and service registration, its entry changes only together with a strictly
  later pair of desired and action revision, and the exhaustion marker is never cleared. An
  update without the marker leaves the outcome of an exhausted operation (entry, phase,
  attempt, child and report) as it is.
\<close>

theorem cell_operation_forward:
  assumes "cell_tables_ok c s" and "cell_run c s t" and "Store_CellOperation (v2_OperationID (lq_Entry v)) s = Some r"
  shows "\<exists>q. Store_CellOperation (v2_OperationID (lq_Entry v)) t = Some q \<and> operation_succeeds r q \<and>
    (lq_Exhausted r \<longrightarrow> \<not> lq_Exhausted v \<longrightarrow>
      (\<exists>p. Store_CellOperation (v2_OperationID (lq_Entry v)) (fst (Store_UpdateCellOperation (\<lambda>s. s) v t)) = Some p \<and> same_outcome q p))"
proof -
  obtain q where q: "Store_CellOperation (v2_OperationID (lq_Entry v)) t = Some q" "operation_succeeds r q"
    using operation_rows.run_row [OF assms(2,1)] assms(3) unfolding Store_CellOperation_def by blast
  have ok: "cell_tables_ok c t" by (rule operation_rows.run_inv [OF assms(2,1)])
  from q weaker_observation [OF ok q(1)] show ?thesis unfolding operation_succeeds_def by blast
qed

definition pcx_v2 :: "int \<Rightarrow> ManagedServiceV2" where
  "pcx_v2 n = \<lparr>v2_FormatVersion = 2, v2_TargetKind = ''cell_session'', v2_OperationID = ''op1'', v2_LaunchOperationID = ''launch1'',
     v2_ActionRevision = 1, v2_DesiredRevision = n, v2_DesiredState = ''active'', v2_SessionMode = ''create_initial'',
     v2_ServiceRegistrationID = ''svc1'', v2_OwnerCellID = ''cell1'', v2_OwnerRole = ''manager'', v2_OwnerGeneration = 1,
     v2_SandboxID = ''sbx_alpha0001'', v2_SandboxGeneration = 3, v2_ServiceGeneration = 1, v2_ConfigDigest = [],
     v2_Fence = [], v2_Attempt = 1, v2_Instance = ''inst1'', v2_Role = ''worker'', v2_NativeSessionID = ''ses_1'',
     v2_NativeProjectID = ''global'', v2_WorkspaceEpoch = ''epoch1'', v2_Workspace = ex_workspace [],
     v2_Instructions = \<lparr>vi_InstructionRevision = 1, vi_InstructionDigest = []\<rparr>, v2_Profile = ex_profile, v2_Authority = None\<rparr>"

definition pcx_operation :: "int \<Rightarrow> string \<Rightarrow> bool \<Rightarrow> LocalCellOperation" where
  "pcx_operation n phase exhausted = \<lparr>lq_Entry = pcx_v2 n, lq_Phase = phase, lq_Attempt = 1, lq_Child = None,
     lq_Exhausted = exhausted, lq_ReceiptJSON = [], lq_Report = zero_cell_report, lq_ErrorCode = []\<rparr>"

definition pcx_exhausted :: cell_store where
  "pcx_exhausted = no_cells\<lparr>cl_operations := [(''op1'', pcx_operation 1 ''exhausted'' True)]\<rparr>"

lemmas pcx_v2_run = pcx_exhausted_def pcx_operation_def pcx_v2_def no_cells_def Store_CellOperation_def Store_PutCellOperation_def
  Store_UpdateCellOperation_def keep_exhausted_def advanceCellOperationEntry_def cell_operation_checks_def Let_def

lemma pcx_newer: "Store_PutCellOperation (\<lambda>s. s) (pcx_operation 2 ''pending'' False) pcx_exhausted =
    (no_cells\<lparr>cl_operations := [(''op1'', pcx_operation 2 ''exhausted'' True)]\<rparr>, ok)"
  by (simp add: pcx_v2_run)

theorem cell_operation_forward_witness:
  "(\<exists>q. Store_CellOperation ''op1'' (fst (Store_PutCellOperation (\<lambda>s. s) (pcx_operation 2 ''pending'' False) pcx_exhausted)) = Some q \<and>
      operation_succeeds (pcx_operation 1 ''exhausted'' True) q \<and> lq_Exhausted q \<and> v2_DesiredRevision (lq_Entry q) = 2) \<and>
   map_option lq_Phase (Store_CellOperation ''op1'' (fst (Store_UpdateCellOperation (\<lambda>s. s) (pcx_operation 3 ''terminal'' False)
      pcx_exhausted))) = Some ''exhausted''"
proof
  have good: "cell_tables_ok c pcx_exhausted" for c by (simp add: cell_tables_ok_iff pcx_v2_run)
  have row: "Store_CellOperation (v2_OperationID (lq_Entry (pcx_operation 3 ''terminal'' False))) pcx_exhausted =
      Some (pcx_operation 1 ''exhausted'' True)" by (simp add: pcx_v2_run)
  have key: "v2_OperationID (lq_Entry (pcx_operation 3 ''terminal'' False)) = ''op1''" by (simp add: pcx_v2_run)
  have run: "cell_run pcx_codec pcx_exhausted (fst (Store_PutCellOperation (\<lambda>s. s) (pcx_operation 2 ''pending'' False) pcx_exhausted))"
    by (intro r_into_rtranclp put_operation)
  from cell_operation_forward [OF good run row] obtain q where
    "Store_CellOperation ''op1'' (fst (Store_PutCellOperation (\<lambda>s. s) (pcx_operation 2 ''pending'' False) pcx_exhausted)) = Some q"
    "operation_succeeds (pcx_operation 1 ''exhausted'' True) q" unfolding key by blast
  moreover from this(1) have "q = pcx_operation 2 ''exhausted'' True" by (simp add: pcx_newer Store_CellOperation_def)
  ultimately show "\<exists>q. Store_CellOperation ''op1'' (fst (Store_PutCellOperation (\<lambda>s. s) (pcx_operation 2 ''pending'' False) pcx_exhausted)) = Some q \<and>
      operation_succeeds (pcx_operation 1 ''exhausted'' True) q \<and> lq_Exhausted q \<and> v2_DesiredRevision (lq_Entry q) = 2"
    by (auto simp: pcx_operation_def pcx_v2_def)
  have "lq_Exhausted (pcx_operation 1 ''exhausted'' True)" "\<not> lq_Exhausted (pcx_operation 3 ''terminal'' False)" by (simp_all add: pcx_operation_def)
  with cell_operation_forward [OF good [of pcx_codec] rtranclp.rtrancl_refl row] row obtain p where
    "Store_CellOperation ''op1'' (fst (Store_UpdateCellOperation (\<lambda>s. s) (pcx_operation 3 ''terminal'' False) pcx_exhausted)) = Some p"
    "same_outcome (pcx_operation 1 ''exhausted'' True) p" unfolding key by auto
  then show "map_option lq_Phase (Store_CellOperation ''op1'' (fst (Store_UpdateCellOperation (\<lambda>s. s) (pcx_operation 3 ''terminal'' False)
      pcx_exhausted))) = Some ''exhausted''"
    by (simp add: same_outcome_def pcx_operation_def)
qed

end
