(* ===== verification/Store_Manager.thy ===== *)
theory Store_Manager
  imports Model_Manager Go_Runs
begin

text \<open>
  The tables of the manager (\<open>internal/state/manager.go\<close>): capabilities, policies, findings, runs, reservations,
  takeovers and task authorities, one JSON value per row. Every put reads the row, compares, and writes in two
  statements without a transaction; \<open>between\<close> is what other callers do in between. \<open>manager_equal\<close> is
  \<open>reflect.DeepEqual\<close> on the values that hold a time or a slice. The rows are values; the compare-and-swap of
  \<open>RenewManagerRunLease\<close> on the text of the row is one on the value.
\<close>

section \<open>Data\<close>

record NativeGuardObservationV1 =
  ng_GuardVersion :: "string"
  ng_CustomVersion :: "string"
  ng_SourceRevision :: "string"
  ng_PatchDigest :: "string"
  ng_ArtifactSHA256 :: "string"
  ng_BinarySHA256 :: "string"

record InsightRecoveryV1 =
  fr_Predicate :: "string"
  fr_Sequence :: "int"
  fr_ReferenceID :: "string"

record InsightFindingV1 =
  zi_FindingID :: "string"
  zi_RuleID :: "string"
  zi_State :: "string"
  zi_Revision :: "int"
  zi_FirstSequence :: "int"
  zi_LastSequence :: "int"
  zi_Count :: "int"
  zi_Threshold :: "int"
  zi_MatchedCallIDs :: "string list"
  zi_FirstObservedAt :: "gotime"
  zi_LastObservedAt :: "gotime"
  zi_Coverage :: "string"
  zi_ToolCategory :: "string"
  zi_Phase :: "string"
  zi_PhaseStartedAt :: "gotime option"
  zi_LastProgressAt :: "gotime option"
  zi_HealthObservedAt :: "gotime option"
  zi_StallThresholdMS :: "int option"
  zi_Recovery :: "InsightRecoveryV1 option"

record InsightsManagerCapabilityV1 =
  qa_Available :: "bool"
  qa_Reason :: "string option"

record InsightsManagerRecommendCapabilityV1 =
  qb_Source :: "InsightsManagerSourceV1"
  qb_ProviderRouteDigest :: "string"
  qb_ProviderID :: "string"
  qb_ModelID :: "string"
  qb_Protocol :: "string"
  qb_RecipeIDs :: "string list"
  qb_MaxInputTokens :: "int"
  qb_MaxOutputTokens :: "int"
  qb_ToolsAllowed :: "bool"
  qb_MediaAllowed :: "bool"
  qb_ManagerProfile :: "InsightsManagerProfileV1"
  qb_Available :: "bool"
  qb_Reason :: "string option"
  qb_NativeGuard :: "NativeGuardObservationV1 option"
  qb_ManagerPluginDigest :: "string"

record InsightsManagerPolicyReportV1 =
  qc_FormatVersion :: "int"
  qc_SandboxID :: "string"
  qc_SandboxGeneration :: "int"
  qc_PolicyRevision :: "int"
  qc_RunGeneration :: "int"
  qc_Status :: "string"
  qc_Recommend :: "InsightsManagerCapabilityV1"
  qc_RecommendCapabilities :: "InsightsManagerRecommendCapabilityV1 list"
  qc_ReceiptDigest :: "string"
  qc_ErrorCode :: "string option"

record InsightsManagerReservationRequestV1 =
  qg_FormatVersion :: "int"
  qg_ReservationID :: "string"
  qg_RequestID :: "string"
  qg_Manual :: "bool"
  qg_FindingID :: "string"
  qg_FindingRevision :: "int"
  qg_PolicyRevision :: "int"
  qg_RuleID :: "string"
  qg_RecipeID :: "string"
  qg_ProviderRouteDigest :: "string"
  qg_Source :: "InsightsManagerSourceV1"
  qg_Target :: "InsightsManagerTargetV1"
  qg_Budget :: "InsightsManagerBudgetV1"
  qg_ExpiresInSeconds :: "int"

record InsightsManagerReservationExecutionV1 =
  qd_ProviderRouteDigest :: "string"
  qd_ManagerProfile :: "InsightsManagerProfileV1"

record InsightsManagerRemainingV1 =
  qe_SandboxDailyRuns :: "int"
  qe_SandboxHourlyRuns :: "int"
  qe_SandboxDailyInputTokens :: "int"
  qe_SandboxDailyOutputTokens :: "int"
  qe_SessionRuns24h :: "int"
  qe_SessionCooldownSeconds :: "int"
  qe_ServerConcurrentRuns :: "int"
  qe_ServerHourlyStarts :: "int"

record InsightsManagerReservationV1 =
  qf_FormatVersion :: "int"
  qf_ReservationID :: "string"
  qf_RunID :: "string"
  qf_RequestID :: "string"
  qf_Manual :: "bool"
  qf_State :: "string"
  qf_FindingID :: "string"
  qf_FindingRevision :: "int"
  qf_PolicyRevision :: "int"
  qf_Source :: "InsightsManagerSourceV1"
  qf_Target :: "InsightsManagerTargetV1"
  qf_ExpiresAt :: "gotime"
  qf_ReservedBudget :: "InsightsManagerBudgetV1"
  qf_Execution :: "InsightsManagerReservationExecutionV1"
  qf_Remaining :: "InsightsManagerRemainingV1"

record InsightsManagerProposalV1 =
  qh_RecipeID :: "string"
  qh_Outcome :: "string"
  qh_RationaleCode :: "string"
  qh_FirstSequence :: "int"
  qh_LastSequence :: "int"
  qh_GuidanceDigest :: "string option"

record InsightsManagerSessionV1 =
  qi_NativeSessionID :: "string"
  qi_NativeProjectID :: "string"
  qi_NativeLocationDigest :: "string"
  qi_ServiceRegistrationID :: "string"
  qi_ServiceGeneration :: "int"
  qi_ProviderRouteDigest :: "string"
  qi_ManagerProfile :: "InsightsManagerProfileV1"

record InsightsManagerUsageV1 =
  qj_ModelRequests :: "int"
  qj_InputTokens :: "int"
  qj_OutputTokens :: "int"
  qj_UsageCertain :: "bool"
  qj_UnusedProof :: "string"

record InsightsManagerRunReportV1 =
  qk_FormatVersion :: "int"
  qk_ReservationID :: "string"
  qk_RunID :: "string"
  qk_Manual :: "bool"
  qk_State :: "string"
  qk_PolicyRevision :: "int"
  qk_Source :: "InsightsManagerSourceV1"
  qk_Target :: "InsightsManagerTargetV1"
  qk_Proposal :: "InsightsManagerProposalV1 option"
  qk_ManagerSession :: "InsightsManagerSessionV1 option"
  qk_Usage :: "InsightsManagerUsageV1"
  qk_ReceiptDigest :: "string"
  qk_ErrorCode :: "string option"

record InsightsManagerGuidanceV1 =
  ql_FormatVersion :: "int"
  ql_SandboxID :: "string"
  ql_ReservationID :: "string"
  ql_RunID :: "string"
  ql_Revision :: "int"
  ql_BindingDigest :: "string"
  ql_GuidanceDigest :: "string"
  ql_GuardID :: "string"
  ql_PendingInputID :: "string"
  ql_State :: "string"
  ql_RefusalCode :: "string option"
  ql_LogCursor :: "int option"
  ql_ObservedAt :: "gotime"
  ql_AdmittedAt :: "gotime option"
  ql_AvailableAt :: "gotime option"
  ql_SettledAt :: "gotime option"
  ql_ReceiptDigest :: "string"

record InsightsTakeoverPendingInputV1 =
  qm_State :: "string"
  qm_AlreadyConsumed :: "bool"

record InsightsTakeoverReportV1 =
  qn_FormatVersion :: "int"
  qn_OperationID :: "string"
  qn_PredecessorOperationID :: "string option"
  qn_Action :: "string"
  qn_FindingID :: "string"
  qn_FindingRevision :: "int"
  qn_PolicyRevision :: "int"
  qn_RunGeneration :: "int"
  qn_HoldID :: "string"
  qn_HoldRevision :: "int"
  qn_HoldState :: "string"
  qn_Source :: "InsightsManagerSourceV1"
  qn_Target :: "InsightsManagerTargetV1"
  qn_Status :: "string"
  qn_PendingInput :: "InsightsTakeoverPendingInputV1"
  qn_ReceiptDigest :: "string"
  qn_ErrorCode :: "string option"

record LocalManagerCapability =
  hc_RegisteredSourceID :: "string"
  hc_ServiceRegistrationID :: "string"
  hc_ServiceGeneration :: "int"
  hc_WorkspaceEpoch :: "string"
  hc_NativeSessionID :: "string"
  hc_SandboxID :: "string"
  hc_SandboxGeneration :: "int"
  hc_ProfileRevision :: "int"
  hc_InstructionRevision :: "int"
  hc_NativeVersion :: "string"
  hc_NativeSourceRevision :: "string"
  hc_Protocol :: "string"
  hc_NativeProtocol :: "string"
  hc_ProviderID :: "string"
  hc_ModelID :: "string"
  hc_ProviderRouteDigest :: "string"
  hc_RecipeIDs :: "string list"
  hc_ManagerPluginDigest :: "string"
  hc_ManagerProfile :: "InsightsManagerProfileV1"
  hc_NativeGuard :: "NativeGuardObservationV1 option"
  hc_MaxInputTokens :: "int"
  hc_MaxOutputTokens :: "int"
  hc_FinalRequestMaxBytes :: "int"
  hc_ToolsAllowed :: "bool"
  hc_MediaAllowed :: "bool"
  hc_HardOutputTokenLimit :: "bool"
  hc_Available :: "bool"
  hc_Reason :: "string"

record LocalManagerAdmission =
  ha_State :: "string"
  ha_Reason :: "string"
  ha_ObservedAt :: "gotime"
  ha_EvaluatedAt :: "gotime"
  ha_BatchID :: "string"
  ha_SandboxID :: "string"
  ha_Mode :: "string"
  ha_PolicyRevision :: "int"
  ha_RunGeneration :: "int"
  ha_RuleID :: "string"
  ha_WitnessTaskID :: "string option"
  ha_WitnessTaskAttempt :: "int option"
  ha_WitnessObservedAt :: "gotime"
  ha_Target :: "InsightsManagerTargetV1 option"

record LocalManagerFinding =
  hf_Finding :: "InsightFindingV1"
  hf_Source :: "InsightsManagerSourceV1"
  hf_PolicyRevision :: "int"
  hf_JournalGeneration :: "string"
  hf_Acknowledged :: "bool"
  hf_Admission :: "LocalManagerAdmission option"

record LocalManagerPolicy =
  zp_Manifest :: "InsightsManagerPolicyManifestV1"
  zp_Report :: "InsightsManagerPolicyReportV1"

record LocalManagerRun =
  zr_Manifest :: "InsightsManagerReviewManifestV1"
  zr_ReservationRequest :: "InsightsManagerReservationRequestV1 option"
  zr_Reservation :: "InsightsManagerReservationV1 option"
  zr_Phase :: "string"
  zr_Capability :: "LocalManagerCapability"
  zr_DispatchStarted :: "bool"
  zr_Report :: "InsightsManagerRunReportV1 option"
  zr_ManagerRegisteredSourceID :: "string"
  zr_ManagerSession :: "InsightsManagerSessionV1 option"
  zr_StartedAt :: "gotime"
  zr_AutomaticOrigin :: "bool"
  zr_GuidanceAttempted :: "bool"
  zr_OriginRunGeneration :: "int"
  zr_OriginValidUntil :: "gotime"
  zr_Guidance :: "InsightsManagerGuidanceV1 option"

record LocalManagerReservation =
  hv_Request :: "InsightsManagerReservationRequestV1"
  hv_Reservation :: "InsightsManagerReservationV1 option"
  hv_Phase :: "string"

record LocalManagerTakeover =
  zt_Manifest :: "InsightsTakeoverManifestV1"
  zt_Phase :: "string"
  zt_DispatchStarted :: "bool"
  zt_Report :: "InsightsTakeoverReportV1 option"

record LocalManagedTaskAuthority =
  hu_ServiceRegistrationID :: "string"
  hu_ServiceGeneration :: "int"
  hu_SandboxGeneration :: "int"
  hu_TaskID :: "string option"
  hu_TaskAttempt :: "int option"
  hu_Busy :: "bool"
  hu_ObservedAt :: "gotime"

record manager_store =
  mt_capabilities :: "LocalManagerCapability tbl"
  mt_policies :: "LocalManagerPolicy tbl"
  mt_findings :: "LocalManagerFinding tbl"
  mt_runs :: "LocalManagerRun tbl"
  mt_reservations :: "LocalManagerReservation tbl"
  mt_takeovers :: "LocalManagerTakeover tbl"
  mt_authorities :: "LocalManagedTaskAuthority tbl"

definition no_manager :: manager_store where
  "no_manager = \<lparr>mt_capabilities = [], mt_policies = [], mt_findings = [], mt_runs = [], mt_reservations = [],
     mt_takeovers = [], mt_authorities = []\<rparr>"

record manager_equal =
  de_capability :: "LocalManagerCapability \<Rightarrow> LocalManagerCapability \<Rightarrow> bool"
  de_reservation :: "InsightsManagerReservationV1 \<Rightarrow> InsightsManagerReservationV1 \<Rightarrow> bool"
  de_review :: "InsightsManagerReviewManifestV1 \<Rightarrow> InsightsManagerReviewManifestV1 \<Rightarrow> bool"
  de_takeover :: "InsightsTakeoverManifestV1 \<Rightarrow> InsightsTakeoverManifestV1 \<Rightarrow> bool"

definition ErrManagerConflict :: goerr where
  "ErrManagerConflict = Sentinel ''ErrManagerConflict''"

definition no_target :: InsightsManagerTargetV1 where
  "no_target = \<lparr>it_TeamID = [], it_MemberID = [], it_TaskID = None, it_TaskAttempt = None, it_WorkID = None, it_WorkRevision = None,
     it_BindingID = None, it_BindingRevision = None\<rparr>"

definition zero_time :: gotime where
  "zero_time = 0"

section \<open>Reservations\<close>

definition Store_ManagerReservation :: "string \<Rightarrow> manager_store \<Rightarrow> LocalManagerReservation option" where
  "Store_ManagerReservation i s = map_of (mt_reservations s) i"

definition Store_ManagerReservations :: "manager_store \<Rightarrow> LocalManagerReservation list" where
  "Store_ManagerReservations s = map snd (order_by (\<lambda>a b. text_less (fst a) (fst b)) (mt_reservations s))"

definition reservation_clash :: "manager_equal \<Rightarrow> LocalManagerReservation \<Rightarrow> LocalManagerReservation \<Rightarrow> bool" where
  "reservation_clash eq prior value \<longleftrightarrow>
     (hv_Request prior)\<lparr>qg_Target := no_target\<rparr> \<noteq> (hv_Request value)\<lparr>qg_Target := no_target\<rparr> \<or>
     (case (hv_Reservation prior, hv_Reservation value) of (Some a, Some b) \<Rightarrow> \<not> de_reservation eq a b | _ \<Rightarrow> False)"

definition Store_PutManagerReservation ::
  "manager_equal \<Rightarrow> (manager_store \<Rightarrow> manager_store) \<Rightarrow> LocalManagerReservation \<Rightarrow> manager_store \<Rightarrow> manager_store \<times> (goerr + unit)" where
  "Store_PutManagerReservation eq between value s =
     (let i = qg_ReservationID (hv_Request value) in
      if i = [] \<or> hv_Phase value = [] then (s, Inl ErrManagerConflict)
      else if (case Store_ManagerReservation i s of None \<Rightarrow> False | Some prior \<Rightarrow> reservation_clash eq prior value)
      then (s, Inl ErrManagerConflict)
      else let u = between s in (u\<lparr>mt_reservations := AList.update i value (mt_reservations u)\<rparr>, ok))"

section \<open>Task authorities\<close>

definition Store_ManagedTaskAuthority :: "string \<Rightarrow> manager_store \<Rightarrow> LocalManagedTaskAuthority option" where
  "Store_ManagedTaskAuthority i s = map_of (mt_authorities s) i"

definition Store_PutManagedTaskAuthority :: "LocalManagedTaskAuthority \<Rightarrow> manager_store \<Rightarrow> manager_store \<times> (goerr + unit)" where
  "Store_PutManagedTaskAuthority value s =
     (if hu_ServiceRegistrationID value = [] \<or> hu_ServiceGeneration value < 1 \<or> hu_SandboxGeneration value < 1 \<or>
        hu_ObservedAt value = zero_time \<or> (hu_TaskID value = None) \<noteq> (hu_TaskAttempt value = None) \<or>
        hu_Busy value \<noteq> (hu_TaskID value \<noteq> None) then (s, Inl ErrManagerConflict)
      else if (case hu_TaskAttempt value of None \<Rightarrow> False | Some n \<Rightarrow> n < 1) then (s, Inl ErrManagerConflict)
      else (s\<lparr>mt_authorities := AList.update (hu_ServiceRegistrationID value) value (mt_authorities s)\<rparr>, ok))"

section \<open>Capabilities\<close>

definition Store_ManagerCapability :: "string \<Rightarrow> manager_store \<Rightarrow> LocalManagerCapability option" where
  "Store_ManagerCapability i s = map_of (mt_capabilities s) i"

definition Store_ManagerCapabilities :: "manager_store \<Rightarrow> LocalManagerCapability list" where
  "Store_ManagerCapabilities s = map snd (order_by (\<lambda>a b. text_less (fst a) (fst b)) (mt_capabilities s))"

definition Store_PutManagerCapability ::
  "manager_equal \<Rightarrow> (manager_store \<Rightarrow> manager_store) \<Rightarrow> LocalManagerCapability \<Rightarrow> manager_store \<Rightarrow> manager_store \<times> (goerr + unit)" where
  "Store_PutManagerCapability eq between value s =
     (let i = hc_RegisteredSourceID value in
      if i = [] \<or> hc_ServiceGeneration value < 1 \<or> hc_ProviderRouteDigest value = [] then (s, Inl ErrManagerConflict)
      else if (case Store_ManagerCapability i s of None \<Rightarrow> False
          | Some prior \<Rightarrow> hc_ServiceGeneration prior > hc_ServiceGeneration value \<or>
              hc_ServiceGeneration prior = hc_ServiceGeneration value \<and> \<not> de_capability eq prior value)
      then (s, Inl ErrManagerConflict)
      else let u = between s in (u\<lparr>mt_capabilities := AList.update i value (mt_capabilities u)\<rparr>, ok))"

section \<open>Policies and findings\<close>

definition Store_ManagerPolicy :: "string \<Rightarrow> manager_store \<Rightarrow> LocalManagerPolicy option" where
  "Store_ManagerPolicy i s = map_of (mt_policies s) i"

definition Store_ManagerPolicies :: "manager_store \<Rightarrow> LocalManagerPolicy list" where
  "Store_ManagerPolicies s = map snd (order_by (\<lambda>a b. text_less (fst a) (fst b)) (mt_policies s))"

definition Store_PutManagerPolicy ::
  "(manager_store \<Rightarrow> manager_store) \<Rightarrow> LocalManagerPolicy \<Rightarrow> manager_store \<Rightarrow> manager_store \<times> (goerr + unit)" where
  "Store_PutManagerPolicy between value s =
     (let i = im_SandboxID (zp_Manifest value) in
      if i = [] then (s, Inl ErrManagerConflict)
      else if (case Store_ManagerPolicy i s of None \<Rightarrow> False
          | Some prior \<Rightarrow> im_PolicyRevision (zp_Manifest value) < im_PolicyRevision (zp_Manifest prior) \<or>
              im_RunGeneration (zp_Manifest value) < im_RunGeneration (zp_Manifest prior))
      then (s, Inl ErrManagerConflict)
      else let u = between s in (u\<lparr>mt_policies := AList.update i value (mt_policies u)\<rparr>, ok))"

definition Store_ManagerFinding :: "string \<Rightarrow> manager_store \<Rightarrow> LocalManagerFinding option" where
  "Store_ManagerFinding i s = map_of (mt_findings s) i"

definition Store_ManagerFindings :: "manager_store \<Rightarrow> LocalManagerFinding list" where
  "Store_ManagerFindings s = map snd (order_by (\<lambda>a b. text_less (fst a) (fst b)) (mt_findings s))"

definition Store_PutManagerFinding ::
  "(manager_store \<Rightarrow> manager_store) \<Rightarrow> LocalManagerFinding \<Rightarrow> manager_store \<Rightarrow> manager_store \<times> (goerr + unit)" where
  "Store_PutManagerFinding between value s =
     (let i = zi_FindingID (hf_Finding value) in
      if i = [] \<or> zi_Revision (hf_Finding value) < 1 \<or> hf_JournalGeneration value = [] \<or> \<not> hf_Acknowledged value
      then (s, Inl ErrManagerConflict)
      else if (case Store_ManagerFinding i s of None \<Rightarrow> False
          | Some prior \<Rightarrow> zi_Revision (hf_Finding value) < zi_Revision (hf_Finding prior))
      then (s, Inl ErrManagerConflict)
      else let u = between s in (u\<lparr>mt_findings := AList.update i value (mt_findings u)\<rparr>, ok))"

section \<open>Runs\<close>

definition Store_ManagerRun :: "string \<Rightarrow> manager_store \<Rightarrow> LocalManagerRun option" where
  "Store_ManagerRun i s = map_of (mt_runs s) i"

text \<open>At most one row has the source, unless it is empty; then SQLite gives some row, here the first.\<close>

definition Store_ManagerRunBySource :: "string \<Rightarrow> manager_store \<Rightarrow> LocalManagerRun option" where
  "Store_ManagerRunBySource i s = map_option snd (find (\<lambda>p. zr_ManagerRegisteredSourceID (snd p) = i) (mt_runs s))"

definition Store_ManagerRuns :: "manager_store \<Rightarrow> LocalManagerRun list" where
  "Store_ManagerRuns s = map snd (order_by (\<lambda>a b. text_less (fst a) (fst b)) (mt_runs s))"

definition Store_PutManagerRun ::
  "manager_equal \<Rightarrow> (manager_store \<Rightarrow> manager_store) \<Rightarrow> LocalManagerRun \<Rightarrow> manager_store \<Rightarrow> manager_store \<times> (goerr + unit)" where
  "Store_PutManagerRun eq between value s =
     (let i = rv_RunID (zr_Manifest value); source = zr_ManagerRegisteredSourceID value in
      if i = [] \<or> zr_Phase value = [] then (s, Inl ErrManagerConflict)
      else if (case Store_ManagerRun i s of None \<Rightarrow> False
          | Some prior \<Rightarrow> \<not> de_review eq (zr_Manifest prior) (zr_Manifest value))
      then (s, Inl ErrManagerConflict)
      else let u = between s in
        if source \<noteq> [] \<and> list_ex (\<lambda>p. fst p \<noteq> i \<and> zr_ManagerRegisteredSourceID (snd p) = source) (mt_runs u)
        then (u, Inl constraint)
        else (u\<lparr>mt_runs := AList.update i value (mt_runs u)\<rparr>, ok))"

definition Store_RenewManagerRunLease ::
  "(manager_store \<Rightarrow> manager_store) \<Rightarrow> string \<Rightarrow> gotime \<Rightarrow> gotime \<Rightarrow> manager_store \<Rightarrow> manager_store \<times> (goerr + unit)" where
  "Store_RenewManagerRunLease between runID priorValidUntil validUntil s =
     (if runID = [] \<or> \<not> priorValidUntil < validUntil then (s, Inl ErrManagerConflict)
      else case Store_ManagerRun runID s of
        None \<Rightarrow> (s, Inl ErrManagerConflict)
      | Some prior \<Rightarrow>
          if rv_ValidUntil (zr_Manifest prior) \<noteq> priorValidUntil then (s, Inl ErrManagerConflict)
          else let u = between s;
                   renewed = prior\<lparr>zr_Manifest := (zr_Manifest prior)\<lparr>rv_ValidUntil := validUntil\<rparr>\<rparr> in
            if map_of (mt_runs u) runID = Some prior
            then (u\<lparr>mt_runs := AList.update runID renewed (mt_runs u)\<rparr>, ok)
            else (u, Inl ErrManagerConflict))"

text \<open>\<open>between\<close> is what happens between the first read and \<open>PutManagerRun\<close>, \<open>between2\<close> what happens inside it.\<close>

definition Store_PutManagerGuidance ::
  "manager_equal \<Rightarrow> (manager_store \<Rightarrow> manager_store) \<Rightarrow> (manager_store \<Rightarrow> manager_store) \<Rightarrow> string \<Rightarrow>
     InsightsManagerGuidanceV1 \<Rightarrow> int \<Rightarrow> manager_store \<Rightarrow> manager_store \<times> (goerr + unit)" where
  "Store_PutManagerGuidance eq between between2 runID value expectedRevision s =
     (case Store_ManagerRun runID s of
        None \<Rightarrow> (s, Inl ErrManagerConflict)
      | Some prior \<Rightarrow>
          let current = (case zr_Guidance prior of None \<Rightarrow> 0 | Some g \<Rightarrow> ql_Revision g) in
          if expectedRevision \<noteq> current then (s, Inl ErrManagerConflict)
          else if ql_Revision value \<noteq> wrap64 (current + 1) then (s, Inl ErrManagerConflict)
          else Store_PutManagerRun eq between2 (prior\<lparr>zr_Guidance := Some value\<rparr>) (between s))"

section \<open>Takeovers\<close>

definition Store_ManagerTakeover :: "string \<Rightarrow> manager_store \<Rightarrow> LocalManagerTakeover option" where
  "Store_ManagerTakeover i s = map_of (mt_takeovers s) i"

definition Store_ManagerTakeovers :: "manager_store \<Rightarrow> LocalManagerTakeover list" where
  "Store_ManagerTakeovers s = map snd (order_by (\<lambda>a b. text_less (fst a) (fst b)) (mt_takeovers s))"

definition takeover_clash :: "manager_equal \<Rightarrow> InsightsTakeoverManifestV1 \<Rightarrow> InsightsTakeoverManifestV1 \<Rightarrow> bool" where
  "takeover_clash eq prior value \<longleftrightarrow> \<not> de_takeover eq prior value \<and>
     (\<not> de_takeover eq (prior\<lparr>tk_ValidUntil := zero_time\<rparr>) (value\<lparr>tk_ValidUntil := zero_time\<rparr>) \<or>
      \<not> tk_ValidUntil prior < tk_ValidUntil value)"

definition Store_PutManagerTakeover ::
  "manager_equal \<Rightarrow> (manager_store \<Rightarrow> manager_store) \<Rightarrow> LocalManagerTakeover \<Rightarrow> manager_store \<Rightarrow> manager_store \<times> (goerr + unit)" where
  "Store_PutManagerTakeover eq between value s =
     (let i = tk_OperationID (zt_Manifest value) in
      if i = [] \<or> zt_Phase value = [] then (s, Inl ErrManagerConflict)
      else if (case Store_ManagerTakeover i s of None \<Rightarrow> False
          | Some prior \<Rightarrow> takeover_clash eq (zt_Manifest prior) (zt_Manifest value))
      then (s, Inl ErrManagerConflict)
      else let u = between s in (u\<lparr>mt_takeovers := AList.update i value (mt_takeovers u)\<rparr>, ok))"

end
