(* ===== verification/Store_Manager_Properties.thy ===== *)
theory Store_Manager_Properties
  imports Store_Manager
begin

text \<open>
  The rows of the manager tables only move forward over undisturbed steps; the lease renewal does so under any
  interference, since it compares what it replaces. A guidance update and a reservation do not: two updates that
  interleave both succeed, and a reservation can be erased and replaced.
\<close>

section \<open>Steps\<close>





definition capability_succeeds :: "LocalManagerCapability \<Rightarrow> LocalManagerCapability \<Rightarrow> bool" where
  "capability_succeeds a b \<longleftrightarrow> b = a \<or> hc_ServiceGeneration a < hc_ServiceGeneration b"

definition policy_succeeds :: "LocalManagerPolicy \<Rightarrow> LocalManagerPolicy \<Rightarrow> bool" where
  "policy_succeeds a b \<longleftrightarrow> im_PolicyRevision (zp_Manifest a) \<le> im_PolicyRevision (zp_Manifest b) \<and>
     im_RunGeneration (zp_Manifest a) \<le> im_RunGeneration (zp_Manifest b)"

definition finding_succeeds :: "LocalManagerFinding \<Rightarrow> LocalManagerFinding \<Rightarrow> bool" where
  "finding_succeeds a b \<longleftrightarrow> zi_Revision (hf_Finding a) \<le> zi_Revision (hf_Finding b)"

definition run_succeeds :: "LocalManagerRun \<Rightarrow> LocalManagerRun \<Rightarrow> bool" where
  "run_succeeds a b \<longleftrightarrow> (zr_Manifest b)\<lparr>rv_ValidUntil := zero_time\<rparr> = (zr_Manifest a)\<lparr>rv_ValidUntil := zero_time\<rparr> \<and>
     rv_ValidUntil (zr_Manifest a) \<le> rv_ValidUntil (zr_Manifest b)"

definition reservation_succeeds :: "LocalManagerReservation \<Rightarrow> LocalManagerReservation \<Rightarrow> bool" where
  "reservation_succeeds a b \<longleftrightarrow> (hv_Request b)\<lparr>qg_Target := no_target\<rparr> = (hv_Request a)\<lparr>qg_Target := no_target\<rparr>"

definition takeover_succeeds :: "LocalManagerTakeover \<Rightarrow> LocalManagerTakeover \<Rightarrow> bool" where
  "takeover_succeeds a b \<longleftrightarrow> (zt_Manifest b)\<lparr>tk_ValidUntil := zero_time\<rparr> = (zt_Manifest a)\<lparr>tk_ValidUntil := zero_time\<rparr> \<and>
     tk_ValidUntil (zt_Manifest a) \<le> tk_ValidUntil (zt_Manifest b)"

lemmas manager_succeeds = capability_succeeds_def policy_succeeds_def finding_succeeds_def run_succeeds_def
  reservation_succeeds_def takeover_succeeds_def

text \<open>Every step writes one table, and there at most one row, which the old row allows.\<close>

definition forward_write :: "('v \<Rightarrow> 'v \<Rightarrow> bool) \<Rightarrow> 'v tbl \<Rightarrow> 'v tbl \<Rightarrow> bool" where
  "forward_write R t u \<longleftrightarrow> u = t \<or> (\<exists>k y. u = AList.update k y t \<and> (\<forall>x. map_of t k = Some x \<longrightarrow> R x y))"

lemma forward_write_refl [simp]: "forward_write R t t"
  by (simp add: forward_write_def)














text \<open>What one step does to all tables.\<close>

definition tables_forward :: "manager_store \<Rightarrow> manager_store \<Rightarrow> bool" where
  "tables_forward s t \<longleftrightarrow>
     rows_follow capability_succeeds (mt_capabilities s) (mt_capabilities t) \<and>
     rows_follow policy_succeeds (mt_policies s) (mt_policies t) \<and>
     rows_follow finding_succeeds (mt_findings s) (mt_findings t) \<and>
     rows_follow run_succeeds (mt_runs s) (mt_runs t) \<and>
     rows_follow reservation_succeeds (mt_reservations s) (mt_reservations t) \<and>
     rows_follow takeover_succeeds (mt_takeovers s) (mt_takeovers t)"

lemma manager_refl:
  "capability_succeeds a a" "policy_succeeds b b" "finding_succeeds c c" "run_succeeds d d" "reservation_succeeds e e" "takeover_succeeds f f"
  by (simp_all add: manager_succeeds)

lemma tables_forward_refl: "tables_forward s s"
  by (simp add: tables_forward_def rows_follow_refl manager_refl)









section \<open>Examples\<close>

text \<open>The zero values of the Go types, and a store with one run.\<close>

definition zero_manager_profile :: InsightsManagerProfileV1 where
  "zero_manager_profile = \<lparr>ip_ProfileID = [], ip_ProfileRevision = 0, ip_ProfileDigest = []\<rparr>"

definition zero_manager_source :: InsightsManagerSourceV1 where
  "zero_manager_source = \<lparr>is_RegisteredSourceID = [], is_WorkspaceEpoch = [], is_NativeSessionID = [], is_ServiceRegistrationID = [],
     is_ServiceGeneration = 0, is_SandboxGeneration = 0, is_ProfileRevision = 0, is_InstructionRevision = 0\<rparr>"

definition zero_manager_target :: InsightsManagerTargetV1 where
  "zero_manager_target = \<lparr>it_TeamID = [], it_MemberID = [], it_TaskID = None, it_TaskAttempt = None, it_WorkID = None,
     it_WorkRevision = None, it_BindingID = None, it_BindingRevision = None\<rparr>"

definition zero_manager_budget :: InsightsManagerBudgetV1 where
  "zero_manager_budget = \<lparr>ib_ModelRequests = 0, ib_InputTokens = 0, ib_OutputTokens = 0\<rparr>"

definition zero_manager_review_manifest :: InsightsManagerReviewManifestV1 where
  "zero_manager_review_manifest = \<lparr>rv_FormatVersion = 0, rv_ReservationID = [], rv_RunID = [], rv_Manual = False, rv_FindingID = [],
     rv_FindingRevision = 0, rv_PolicyRevision = 0, rv_RuleID = [], rv_RecipeID = [], rv_ProviderRouteDigest = [],
     rv_ManagerProfile = zero_manager_profile, rv_Source = zero_manager_source, rv_Target = zero_manager_target,
     rv_Budget = zero_manager_budget, rv_FindingEvidence = None, rv_ValidUntil = 0\<rparr>"

definition zero_local_manager_capability :: LocalManagerCapability where
  "zero_local_manager_capability = \<lparr>hc_RegisteredSourceID = [], hc_ServiceRegistrationID = [], hc_ServiceGeneration = 0, hc_WorkspaceEpoch = [],
     hc_NativeSessionID = [], hc_SandboxID = [], hc_SandboxGeneration = 0, hc_ProfileRevision = 0,
     hc_InstructionRevision = 0, hc_NativeVersion = [], hc_NativeSourceRevision = [], hc_Protocol = [],
     hc_NativeProtocol = [], hc_ProviderID = [], hc_ModelID = [], hc_ProviderRouteDigest = [], hc_RecipeIDs = [],
     hc_ManagerPluginDigest = [], hc_ManagerProfile = zero_manager_profile, hc_NativeGuard = None,
     hc_MaxInputTokens = 0, hc_MaxOutputTokens = 0, hc_FinalRequestMaxBytes = 0, hc_ToolsAllowed = False,
     hc_MediaAllowed = False, hc_HardOutputTokenLimit = False, hc_Available = False, hc_Reason = []\<rparr>"

definition zero_local_manager_run :: LocalManagerRun where
  "zero_local_manager_run = \<lparr>zr_Manifest = zero_manager_review_manifest, zr_ReservationRequest = None, zr_Reservation = None, zr_Phase = [],
     zr_Capability = zero_local_manager_capability, zr_DispatchStarted = False, zr_Report = None,
     zr_ManagerRegisteredSourceID = [], zr_ManagerSession = None, zr_StartedAt = 0, zr_AutomaticOrigin = False,
     zr_GuidanceAttempted = False, zr_OriginRunGeneration = 0, zr_OriginValidUntil = 0, zr_Guidance = None\<rparr>"

definition zero_manager_reservation_request :: InsightsManagerReservationRequestV1 where
  "zero_manager_reservation_request = \<lparr>qg_FormatVersion = 0, qg_ReservationID = [], qg_RequestID = [], qg_Manual = False, qg_FindingID = [],
     qg_FindingRevision = 0, qg_PolicyRevision = 0, qg_RuleID = [], qg_RecipeID = [], qg_ProviderRouteDigest = [],
     qg_Source = zero_manager_source, qg_Target = zero_manager_target, qg_Budget = zero_manager_budget,
     qg_ExpiresInSeconds = 0\<rparr>"

definition zero_local_manager_reservation :: LocalManagerReservation where
  "zero_local_manager_reservation = \<lparr>hv_Request = zero_manager_reservation_request, hv_Reservation = None, hv_Phase = []\<rparr>"

definition zero_manager_guidance :: InsightsManagerGuidanceV1 where
  "zero_manager_guidance = \<lparr>ql_FormatVersion = 0, ql_SandboxID = [], ql_ReservationID = [], ql_RunID = [], ql_Revision = 0,
     ql_BindingDigest = [], ql_GuidanceDigest = [], ql_GuardID = [], ql_PendingInputID = [], ql_State = [],
     ql_RefusalCode = None, ql_LogCursor = None, ql_ObservedAt = 0, ql_AdmittedAt = None, ql_AvailableAt = None,
     ql_SettledAt = None, ql_ReceiptDigest = []\<rparr>"

definition zero_manager_reservation_execution :: InsightsManagerReservationExecutionV1 where
  "zero_manager_reservation_execution = \<lparr>qd_ProviderRouteDigest = [], qd_ManagerProfile = zero_manager_profile\<rparr>"

definition zero_manager_remaining :: InsightsManagerRemainingV1 where
  "zero_manager_remaining = \<lparr>qe_SandboxDailyRuns = 0, qe_SandboxHourlyRuns = 0, qe_SandboxDailyInputTokens = 0,
     qe_SandboxDailyOutputTokens = 0, qe_SessionRuns24h = 0, qe_SessionCooldownSeconds = 0,
     qe_ServerConcurrentRuns = 0, qe_ServerHourlyStarts = 0\<rparr>"

definition zero_manager_reservation :: InsightsManagerReservationV1 where
  "zero_manager_reservation = \<lparr>qf_FormatVersion = 0, qf_ReservationID = [], qf_RunID = [], qf_RequestID = [], qf_Manual = False,
     qf_State = [], qf_FindingID = [], qf_FindingRevision = 0, qf_PolicyRevision = 0,
     qf_Source = zero_manager_source, qf_Target = zero_manager_target, qf_ExpiresAt = 0,
     qf_ReservedBudget = zero_manager_budget, qf_Execution = zero_manager_reservation_execution,
     qf_Remaining = zero_manager_remaining\<rparr>"


definition mgx_equal :: manager_equal where
  "mgx_equal = \<lparr>de_capability = (=), de_reservation = (=), de_review = (=), de_takeover = (=)\<rparr>"

definition mgx_run :: LocalManagerRun where
  "mgx_run = zero_local_manager_run\<lparr>zr_Manifest := zero_manager_review_manifest\<lparr>rv_RunID := ''run'', rv_ValidUntil := 10\<rparr>,
     zr_Phase := ''admitted''\<rparr>"

definition mgx_guidance :: "string \<Rightarrow> InsightsManagerGuidanceV1" where
  "mgx_guidance state = zero_manager_guidance\<lparr>ql_RunID := ''run'', ql_Revision := 1, ql_State := state\<rparr>"

definition mgx_reservation :: "string \<Rightarrow> LocalManagerReservation" where
  "mgx_reservation run = zero_local_manager_reservation\<lparr>hv_Request := zero_manager_reservation_request\<lparr>qg_ReservationID := ''res''\<rparr>,
     hv_Reservation := Some (zero_manager_reservation\<lparr>qf_ReservationID := ''res'', qf_RunID := run\<rparr>), hv_Phase := ''reserved''\<rparr>"

definition mgx_store :: manager_store where
  "mgx_store = no_manager\<lparr>mt_runs := [(''run'', mgx_run)], mt_reservations := [(''res'', mgx_reservation ''one'')]\<rparr>"


lemmas mgx_defs = mgx_store_def mgx_run_def mgx_guidance_def mgx_reservation_def no_manager_def zero_local_manager_run_def
  zero_manager_review_manifest_def zero_local_manager_reservation_def zero_manager_reservation_request_def zero_manager_reservation_def
  zero_manager_guidance_def

section \<open>Properties\<close>





text \<open>
  \<open>PutManagerGuidance\<close> promises a compare-and-swap and that a final disposition is immutable. It does neither: it
  compares with the row it read and then puts the whole row, and does not look at the disposition it replaces.
\<close>

text \<open>
  two guidance updates that interleave and expect the same revision both succeed, and the
  one that is stored first is lost, so the expected revision is not a compare-and-swap
\<close>

theorem guidance_cas_lost:
  assumes "map_of (mt_runs s) i = Some prior" and "rv_RunID (zr_Manifest prior) = i" and "i \<noteq> []" and "zr_Phase prior \<noteq> []"
    and "zr_ManagerRegisteredSourceID prior = []" and "de_review eq (zr_Manifest prior) (zr_Manifest prior)"
    and "expected = (case zr_Guidance prior of None \<Rightarrow> 0 | Some g \<Rightarrow> ql_Revision g)"
    and "ql_Revision first = wrap64 (expected + 1)" and "ql_Revision second = wrap64 (expected + 1)"
  shows "snd (Store_PutManagerGuidance eq (\<lambda>s. s) (\<lambda>s. s) i first expected s) = ok \<and>
    Store_PutManagerGuidance eq (\<lambda>s. fst (Store_PutManagerGuidance eq (\<lambda>s. s) (\<lambda>s. s) i first expected s)) (\<lambda>s. s)
        i second expected s =
      (s\<lparr>mt_runs := AList.update i (prior\<lparr>zr_Guidance := Some second\<rparr>) (AList.update i (prior\<lparr>zr_Guidance := Some first\<rparr>) (mt_runs s))\<rparr>, ok)"
  using assms
  by (simp_all add: Store_PutManagerGuidance_def Store_PutManagerRun_def Store_ManagerRun_def Let_def)

lemma guidance_cas_lost_witness:
  "snd (Store_PutManagerGuidance mgx_equal (\<lambda>s. fst (Store_PutManagerGuidance mgx_equal (\<lambda>s. s) (\<lambda>s. s) ''run'' (mgx_guidance ''settled'') 0 s))
     (\<lambda>s. s) ''run'' (mgx_guidance ''refused'') 0 mgx_store) = ok"
proof -
  have run: "map_of (mt_runs mgx_store) ''run'' = Some mgx_run" by (simp add: mgx_store_def no_manager_def)
  show ?thesis
    by (subst guidance_cas_lost [OF run, THEN conjunct2]) (simp_all add: mgx_defs mgx_equal_def wrap64_def)
qed

text \<open>
  the reservation of a row can be replaced by any other in two writes with the same request,
  the first of which stores no reservation, although the code says the reservation itself
  stays immutable
\<close>

theorem reservation_replaced:
  assumes "map_of (mt_reservations s) i = Some prior" and "qg_ReservationID (hv_Request prior) = i" and "i \<noteq> []" and "phase \<noteq> []"
  shows "\<exists>t. Store_PutManagerReservation eq (\<lambda>s. s) (prior\<lparr>hv_Reservation := None, hv_Phase := phase\<rparr>) s = (t, ok) \<and>
    (\<exists>u. Store_PutManagerReservation eq (\<lambda>s. s) (prior\<lparr>hv_Reservation := Some any, hv_Phase := phase\<rparr>) t = (u, ok) \<and>
      map_of (mt_reservations u) i = Some (prior\<lparr>hv_Reservation := Some any, hv_Phase := phase\<rparr>))"
  using assms
  by (cases "hv_Reservation prior")
    (simp_all add: Store_PutManagerReservation_def Store_ManagerReservation_def reservation_clash_def Let_def)

lemma reservation_replaced_witness:
  "\<exists>t. Store_PutManagerReservation mgx_equal (\<lambda>s. s) ((mgx_reservation ''one'')\<lparr>hv_Reservation := None, hv_Phase := ''reserved''\<rparr>) mgx_store = (t, ok) \<and>
    (\<exists>u. Store_PutManagerReservation mgx_equal (\<lambda>s. s)
        ((mgx_reservation ''one'')\<lparr>hv_Reservation := hv_Reservation (mgx_reservation ''two''), hv_Phase := ''reserved''\<rparr>) t = (u, ok) \<and>
      map_of (mt_reservations u) ''res'' =
        Some ((mgx_reservation ''one'')\<lparr>hv_Reservation := hv_Reservation (mgx_reservation ''two''), hv_Phase := ''reserved''\<rparr>))"
proof -
  have row: "map_of (mt_reservations mgx_store) ''res'' = Some (mgx_reservation ''one'')"
    "qg_ReservationID (hv_Request (mgx_reservation ''one'')) = ''res''" by (simp_all add: mgx_defs)
  have two: "hv_Reservation (mgx_reservation ''two'') = Some (zero_manager_reservation\<lparr>qf_ReservationID := ''res'', qf_RunID := ''two''\<rparr>)"
    by (simp add: mgx_reservation_def)
  show ?thesis unfolding two
    by (rule reservation_replaced [OF row]) simp_all
qed

end
