(* ===== verification/Go_Effects.thy ===== *)
theory Go_Effects
  imports Go_Prelude
begin

text \<open>
  Statements with effects: a function from a state to the next state and a result or an error. The state is kept
  when a statement fails, since an error does not undo what a call has done.
\<close>

type_synonym ('s, 'a) act = "'s \<Rightarrow> 's \<times> (goerr + 'a)"

definition give :: "'a \<Rightarrow> ('s, 'a) act" where
  "give x s = (s, Inr x)"

definition raise :: "goerr \<Rightarrow> ('s, 'a) act" where
  "raise e s = (s, Inl e)"

text \<open>\<open>attempt m h k\<close> is \<open>x, err := m; if err != nil { return h(err) }; k(x)\<close>.\<close>

definition attempt :: "('s, 'a) act \<Rightarrow> (goerr \<Rightarrow> ('s, 'b) act) \<Rightarrow> ('a \<Rightarrow> ('s, 'b) act) \<Rightarrow> ('s, 'b) act" where
  "attempt m h k s = (case m s of (t, Inl e) \<Rightarrow> h e t | (t, Inr x) \<Rightarrow> k x t)"

definition andThen :: "('s, 'a) act \<Rightarrow> ('a \<Rightarrow> ('s, 'b) act) \<Rightarrow> ('s, 'b) act" where
  "andThen m k = attempt m raise k"

text \<open>A call whose error is dropped, and one whose error is wrapped.\<close>

definition quiet :: "('s, 'a) act \<Rightarrow> ('s, unit) act" where
  "quiet m s = (fst (m s), ok)"

definition wrapping :: "(goerr \<Rightarrow> goerr) \<Rightarrow> ('s, 'a) act \<Rightarrow> ('s, 'a) act" where
  "wrapping f m = attempt m (\<lambda>e. raise (f e)) give"

text \<open>A call whose error is a value for the statements that follow.\<close>

definition result_of :: "('s, 'a) act \<Rightarrow> ('s, goerr + 'a) act" where
  "result_of m s = (fst (m s), Inr (snd (m s)))"

text \<open>Statements that depend on the state they start from.\<close>

definition reading :: "('s \<Rightarrow> ('s, 'a) act) \<Rightarrow> ('s, 'a) act" where
  "reading f s = f s s"

text \<open>A loop that stops at the first error.\<close>

fun each :: "('a \<Rightarrow> ('s, unit) act) \<Rightarrow> 'a list \<Rightarrow> ('s, unit) act" where
  "each f [] = give ()"
| "each f (x # xs) = andThen (f x) (\<lambda>_. each f xs)"

text \<open>A statement on one half of the state.\<close>

definition left_of :: "('a \<Rightarrow> 'a \<times> 'r) \<Rightarrow> 'a \<times> 'b \<Rightarrow> ('a \<times> 'b) \<times> 'r" where
  "left_of f p = (let (a, r) = f (fst p) in ((a, snd p), r))"

definition right_of :: "('b \<Rightarrow> 'b \<times> 'r) \<Rightarrow> 'a \<times> 'b \<Rightarrow> ('a \<times> 'b) \<times> 'r" where
  "right_of f p = (let (b, r) = f (snd p) in ((fst p, b), r))"

section \<open>Laws\<close>

lemma give_simps: "give x s = (s, Inr x)" "raise e s = (s, Inl e)"
  by (simp_all add: give_def raise_def)

lemma attempt_Inl: "m s = (t, Inl e) \<Longrightarrow> attempt m h k s = h e t"
  by (simp add: attempt_def)

lemma attempt_Inr: "m s = (t, Inr x) \<Longrightarrow> attempt m h k s = k x t"
  by (simp add: attempt_def)

lemma attempt_give [simp]: "attempt (give x) h k = k x"
  by (rule ext) (simp add: attempt_def give_simps)

lemma attempt_raise [simp]: "attempt (raise e) h k = h e"
  by (rule ext) (simp add: attempt_def give_simps)

lemma andThen_give [simp]: "andThen (give x) k = k x"
  by (simp add: andThen_def)

lemma andThen_raise [simp]: "andThen (raise e) k = raise e"
  by (simp add: andThen_def)

text \<open>
  \<open>ends P m Q\<close>: from a state with \<open>P\<close>, \<open>m\<close> ends in a state with \<open>Q\<close> of its result. It is the Hoare
  triple of the statement, with one rule for each way to put statements together.
\<close>

definition ends :: "('s \<Rightarrow> bool) \<Rightarrow> ('s, 'a) act \<Rightarrow> (goerr + 'a \<Rightarrow> 's \<Rightarrow> bool) \<Rightarrow> bool" where
  "ends P m Q \<longleftrightarrow> (\<forall>s. P s \<longrightarrow> Q (snd (m s)) (fst (m s)))"

lemma endsI: "(\<And>s. P s \<Longrightarrow> Q (snd (m s)) (fst (m s))) \<Longrightarrow> ends P m Q"
  by (simp add: ends_def)

lemma endsD: "ends P m Q \<Longrightarrow> P s \<Longrightarrow> m s = (t, r) \<Longrightarrow> Q r t"
  unfolding ends_def by (metis fst_conv snd_conv)

lemma ends_give: "(\<And>s. P s \<Longrightarrow> Q (Inr x) s) \<Longrightarrow> ends P (give x) Q"
  by (simp add: ends_def give_simps)

lemma ends_raise: "(\<And>s. P s \<Longrightarrow> Q (Inl e) s) \<Longrightarrow> ends P (raise e) Q"
  by (simp add: ends_def give_simps)

lemma ends_attempt:
  assumes "ends P m R" and "\<And>e. ends (R (Inl e)) (h e) Q" and "\<And>x. ends (R (Inr x)) (k x) Q"
  shows "ends P (attempt m h k) Q"
proof (rule endsI)
  fix s
  assume "P s"
  obtain t r where m: "m s = (t, r)" by fastforce
  then have "R r t" by (rule endsD [OF assms(1) \<open>P s\<close>])
  then show "Q (snd (attempt m h k s)) (fst (attempt m h k s))"
    using assms(2,3) m by (cases r) (auto simp: attempt_def ends_def)
qed

lemma ends_andThen:
  assumes "ends P m R" and "\<And>e s. R (Inl e) s \<Longrightarrow> Q (Inl e) s" and "\<And>x. ends (R (Inr x)) (k x) Q"
  shows "ends P (andThen m k) Q"
  unfolding andThen_def by (rule ends_attempt [OF assms(1) ends_raise assms(3)]) (rule assms(2))

lemma ends_if: "(b \<Longrightarrow> ends P m Q) \<Longrightarrow> (\<not> b \<Longrightarrow> ends P n Q) \<Longrightarrow> ends P (if b then m else n) Q"
  by simp

lemma ends_weaken: "ends P m R \<Longrightarrow> (\<And>s. P' s \<Longrightarrow> P s) \<Longrightarrow> (\<And>r s. R r s \<Longrightarrow> Q r s) \<Longrightarrow> ends P' m Q"
  by (simp add: ends_def)

lemma ends_quiet: "ends P m (\<lambda>_. Q) \<Longrightarrow> ends P (quiet m) (\<lambda>_. Q)"
  by (simp add: ends_def quiet_def)

lemma ends_result_of: "ends P m (\<lambda>r. Q (Inr r)) \<Longrightarrow> ends P (result_of m) Q"
  by (simp add: ends_def result_of_def)

lemma ends_reading: "(\<And>t. P t \<Longrightarrow> ends (\<lambda>s. s = t) (f t) Q) \<Longrightarrow> ends P (reading f) Q"
  by (simp add: ends_def reading_def)

lemma ends_left: "(\<And>a b. P (a, b) \<Longrightarrow> Q (snd (f a)) (fst (f a), b)) \<Longrightarrow> ends P (left_of f) Q"
  by (simp add: ends_def left_of_def split_beta)

lemma ends_right: "(\<And>a b. P (a, b) \<Longrightarrow> Q (snd (f b)) (a, fst (f b))) \<Longrightarrow> ends P (right_of f) Q"
  by (simp add: ends_def right_of_def split_beta)

lemma ends_wrapping:
  assumes "ends P m R" and "\<And>e s. R (Inl e) s \<Longrightarrow> Q (Inl (f e)) s" and "\<And>x s. R (Inr x) s \<Longrightarrow> Q (Inr x) s"
  shows "ends P (wrapping f m) Q"
  unfolding wrapping_def by (rule ends_attempt [OF assms(1) ends_raise ends_give]) (rule assms(2,3), assumption)+

lemma ends_each:
  assumes "\<And>x. x \<in> set xs \<Longrightarrow> ends P (f x) (\<lambda>_. P)"
  shows "ends P (each f xs) (\<lambda>_. P)"
  using assms
proof (induction xs)
  case Nil
  show ?case by (simp add: ends_give)
next
  case (Cons x xs)
  have head: "ends P (f x) (\<lambda>_. P)" by (rule Cons.prems) simp
  have tail: "ends P (each f xs) (\<lambda>_. P)" by (rule Cons.IH) (rule Cons.prems, simp)
  show ?case unfolding each.simps by (rule ends_andThen [OF head _ tail])
qed

text \<open>
  \<open>succeeds P m Q\<close> speaks of a statement that ends without an error only. In a loop the invariant knows the
  elements that are done.
\<close>

definition succeeds :: "('s \<Rightarrow> bool) \<Rightarrow> ('s, 'a) act \<Rightarrow> ('a \<Rightarrow> 's \<Rightarrow> bool) \<Rightarrow> bool" where
  "succeeds P m Q \<longleftrightarrow> (\<forall>s t x. P s \<longrightarrow> m s = (t, Inr x) \<longrightarrow> Q x t)"

lemma succeedsI: "(\<And>s t x. P s \<Longrightarrow> m s = (t, Inr x) \<Longrightarrow> Q x t) \<Longrightarrow> succeeds P m Q"
  by (simp add: succeeds_def)

lemma succeedsD: "succeeds P m Q \<Longrightarrow> P s \<Longrightarrow> m s = (t, Inr x) \<Longrightarrow> Q x t"
  by (simp add: succeeds_def)

lemma succeeds_give: "(\<And>s. P s \<Longrightarrow> Q x s) \<Longrightarrow> succeeds P (give x) Q"
  by (simp add: succeeds_def give_simps)

lemma succeeds_raise: "succeeds P (raise e) Q"
  by (simp add: succeeds_def give_simps)

lemma succeeds_attempt:
  assumes "succeeds P m R" and "\<And>e s y. snd (h e s) \<noteq> Inr y" and "\<And>x. succeeds (R x) (k x) Q"
  shows "succeeds P (attempt m h k) Q"
proof (rule succeedsI)
  fix s t x
  assume s: "P s" and run: "attempt m h k s = (t, Inr x)"
  obtain u r where m: "m s = (u, r)" by fastforce
  show "Q x t"
  proof (cases r)
    case (Inl e)
    with run m assms(2) [of e u x] show ?thesis by (simp add: attempt_def)
  next
    case (Inr y)
    with m have "R y u" by (intro succeedsD [OF assms(1) s]) simp
    with run m Inr show ?thesis by (intro succeedsD [OF assms(3)]) (simp_all add: attempt_def)
  qed
qed

lemma andThen_InrE:
  assumes "andThen m k s = (t, Inr x)"
  obtains u y where "m s = (u, Inr y)" and "k y u = (t, Inr x)"
  using assms by (cases "m s"; cases "snd (m s)") (auto simp: andThen_def attempt_def give_simps)

lemma succeeds_andThen: "succeeds P m R \<Longrightarrow> (\<And>x. succeeds (R x) (k x) Q) \<Longrightarrow> succeeds P (andThen m k) Q"
  unfolding andThen_def by (rule succeeds_attempt) (auto simp: give_simps)

lemma succeeds_if: "(b \<Longrightarrow> succeeds P m Q) \<Longrightarrow> (\<not> b \<Longrightarrow> succeeds P n Q) \<Longrightarrow> succeeds P (if b then m else n) Q"
  by simp

lemma succeeds_weaken: "succeeds P m R \<Longrightarrow> (\<And>s. P' s \<Longrightarrow> P s) \<Longrightarrow> (\<And>x s. R x s \<Longrightarrow> Q x s) \<Longrightarrow> succeeds P' m Q"
  unfolding succeeds_def by blast

lemma succeeds_reading: "(\<And>t. P t \<Longrightarrow> succeeds (\<lambda>s. s = t) (f t) Q) \<Longrightarrow> succeeds P (reading f) Q"
  by (simp add: succeeds_def reading_def)

lemma succeeds_left: "(\<And>a b a' x. P (a, b) \<Longrightarrow> f a = (a', Inr x) \<Longrightarrow> Q x (a', b)) \<Longrightarrow> succeeds P (left_of f) Q"
  by (auto simp: succeeds_def left_of_def Let_def split_beta prod_eq_iff)

lemma succeeds_right: "(\<And>a b b' x. P (a, b) \<Longrightarrow> f b = (b', Inr x) \<Longrightarrow> Q x (a, b')) \<Longrightarrow> succeeds P (right_of f) Q"
  by (auto simp: succeeds_def right_of_def Let_def split_beta prod_eq_iff)

lemma succeeds_each:
  assumes "\<And>ys x zs. xs = ys @ x # zs \<Longrightarrow> succeeds (I ys) (f x) (\<lambda>_. I (ys @ [x]))"
  shows "succeeds (I []) (each f xs) (\<lambda>_. I xs)"
proof -
  have "succeeds (I ys) (each f zs) (\<lambda>_. I (ys @ zs))" if "xs = ys @ zs" for ys zs
    using that
  proof (induction zs arbitrary: ys)
    case Nil
    show ?case by (simp add: succeeds_give)
  next
    case (Cons x zs)
    have "succeeds (I (ys @ [x])) (each f zs) (\<lambda>_. I ((ys @ [x]) @ zs))"
      by (rule Cons.IH) (simp add: Cons.prems)
    then show ?case
      unfolding each.simps by (intro succeeds_andThen [OF assms [OF Cons.prems]]) simp
  qed
  from this [of "[]" xs] show ?thesis by simp
qed

end
