(* ===== verification/Reconcile_Sandbox.thy ===== *)
theory Reconcile_Sandbox
  imports Go_Effects Store_State Store_Projects Store_Cells Store_Manager
begin

text \<open>
  The pass over sandboxes and access grants (\<open>internal/reconcile/reconcile.go\<close>). A statement works on the store of
  sandboxes and grants, which only the reconciler writes, and on a world of arbitrary type that the engine, the
  workspaces, the SSH sessions and the clock read and change. The tables the drain fence reads belong to the world,
  since other goroutines write them while a call runs; one evaluation of the fence reads them as of one moment.
\<close>

section \<open>Interfaces\<close>

record 'w engine =
  en_Ensure :: "Sandbox \<Rightarrow> string \<Rightarrow> string \<Rightarrow> ('w, unit) act"
  en_Replace :: "Sandbox \<Rightarrow> string \<Rightarrow> string \<Rightarrow> bool \<Rightarrow> ('w, unit) act"
  en_Recreate :: "Sandbox \<Rightarrow> string \<Rightarrow> string \<Rightarrow> bool \<Rightarrow> ('w, unit) act"
  en_Start :: "string \<Rightarrow> ('w, unit) act"
  en_Stop :: "string \<Rightarrow> ('w, unit) act"
  en_Restart :: "string \<Rightarrow> ('w, unit) act"
  en_Remove :: "string \<Rightarrow> ('w, unit) act"
  en_Preflight :: "string \<Rightarrow> ('w, unit) act"
  en_ExecSetup :: "string \<Rightarrow> string \<Rightarrow> ('w, string) act"
  en_ObserveCellWitness :: "string \<Rightarrow> ('w, bool) act"
  en_VerifyCellLifecycle :: "('w, unit) act"

record 'w workspaces =
  ws_Ensure :: "string \<Rightarrow> int \<Rightarrow> ('w, string) act"
  ws_Destroy :: "string \<Rightarrow> ('w, unit) act"

record 'w sessions =
  ss_TerminateGrant :: "string \<Rightarrow> ('w, unit) act"
  ss_TerminateSandbox :: "string \<Rightarrow> ('w, unit) act"

record work_tables =
  wt_cells :: cell_store
  wt_projects :: project_store
  wt_manager :: manager_store

text \<open>
  \<open>rr_executing\<close> is the map of running managed workers, \<open>rr_tables\<close> the work tables, \<open>rr_text\<close> the method \<open>Error\<close> of an
  error, \<open>rr_codec\<close> the JSON text of a receipt.
\<close>

record 'w reconciler =
  rr_Engine :: "'w engine"
  rr_Workspaces :: "'w workspaces"
  rr_Access :: "LocalGrant list \<Rightarrow> ('w, unit) act"
  rr_Sessions :: "'w sessions option"
  rr_Now :: "'w \<Rightarrow> gotime"
  rr_Lifecycle :: "(store \<times> 'w, unit) act option"
  rr_executing :: "'w \<Rightarrow> string \<Rightarrow> bool"
  rr_tables :: "'w \<Rightarrow> work_tables"
  rr_codec :: receipt_codec
  rr_text :: "goerr \<Rightarrow> string"

type_synonym ('w, 'a) pass = "(store \<times> 'w, 'a) act"

abbreviation put :: "LocalSandbox \<Rightarrow> ('w, unit) pass" where
  "put v \<equiv> left_of (Store_PutSandbox v)"

abbreviation call :: "('w, 'a) act \<Rightarrow> ('w, 'a) pass" where
  "call f \<equiv> right_of f"

section \<open>Small functions\<close>

definition now :: "'w reconciler \<Rightarrow> 'w \<Rightarrow> gotime" where
  "now rr w = rr_Now rr w - rr_Now rr w mod seconds 1"

definition bounded :: "string \<Rightarrow> nat \<Rightarrow> string" where
  "bounded value maximum = (if maximum < length value then take maximum value else value)"

definition requested :: "Sandbox list \<Rightarrow> Resources" where
  "requested sandboxes = foldl (\<lambda>value sandbox.
     if sb_DesiredState sandbox = ''deleted'' then value
     else let disk = value\<lparr>r_WorkspaceDiskGiB := wrap64 (r_WorkspaceDiskGiB value + r_WorkspaceDiskGiB (sb_Resources sandbox))\<rparr> in
       if sb_DesiredState sandbox = ''running''
       then disk\<lparr>r_CPUMillicores := wrap64 (r_CPUMillicores disk + r_CPUMillicores (sb_Resources sandbox)),
                 r_MemoryMiB := wrap64 (r_MemoryMiB disk + r_MemoryMiB (sb_Resources sandbox))\<rparr>
       else disk) noResources sandboxes"

text \<open>\<open>errors.Is\<close> for the errors of this model: \<open>EWrap\<close> and \<open>EJoin\<close> unwrap.\<close>

fun errors_Is :: "goerr \<Rightarrow> string \<Rightarrow> bool" where
  "errors_Is (Sentinel n) target = (n = target)"
| "errors_Is (EWrap m e) target = errors_Is e target"
| "errors_Is (EJoin es) target = list_ex (\<lambda>e. errors_Is e target) es"
| "errors_Is _ target = False"

definition imageReplaceErrorCode :: "goerr \<Rightarrow> string" where
  "imageReplaceErrorCode err =
     (if errors_Is err ''ErrImagePullFailed'' then ''sandbox_image_pull_failed''
      else if errors_Is err ''ErrImageRollbackFailed'' then ''container_image_rollback_failed''
      else ''container_image_replace_failed'')"

section \<open>The drain fence\<close>

definition cellOperationActive :: "string \<Rightarrow> bool" where
  "cellOperationActive phase \<longleftrightarrow> phase \<in> {''pending'', ''admitted'', ''unknown'', ''exhausted''}"

text \<open>The bodies of the three loops; an empty reason goes on with the next element.\<close>

fun first_reason :: "('a \<Rightarrow> string) \<Rightarrow> 'a list \<Rightarrow> string" where
  "first_reason f [] = []"
| "first_reason f (x # xs) = (if f x \<noteq> [] then f x else first_reason f xs)"

definition preparation_reason :: "cell_store \<Rightarrow> string \<Rightarrow> LocalCellV3Operation \<Rightarrow> string" where
  "preparation_reason cells sandboxID preparation =
     (let i = v3_PreparationID (lv_Entry preparation) in
      if v3_SandboxID (lv_Entry preparation) \<noteq> sandboxID then []
      else case Store_CellV3Execution i cells of
        Some execution \<Rightarrow>
          if cellOperationActive (xe_Phase execution)
          then ''cell v3 execution '' @ i @ '' is '' @ xe_Phase execution else []
      | None \<Rightarrow>
          if cz_ObservedState (lv_ControlReport preparation) \<noteq> ''cancelled''
          then ''cell v3 preparation '' @ i @ '' retains ownership ('' @ lv_Phase preparation @ '')'' else [])"

definition operation_reason :: "string \<Rightarrow> LocalCellOperation \<Rightarrow> string" where
  "operation_reason sandboxID oper =
     (if v2_SandboxID (lq_Entry oper) = sandboxID \<and> cellOperationActive (lq_Phase oper)
      then ''cell execution '' @ v2_OperationID (lq_Entry oper) @ '' is '' @ lq_Phase oper else [])"

definition service_reason :: "(string \<Rightarrow> bool) \<Rightarrow> manager_store \<Rightarrow> string \<Rightarrow> LocalManagedService \<Rightarrow> string" where
  "service_reason executing manager sandboxID svc =
     (let serviceID = mi_ServiceRegistrationID (ms_Identity (lm_Manifest svc)) in
      if mi_SandboxID (ms_Identity (lm_Manifest svc)) \<noteq> sandboxID then []
      else if executing serviceID then ''managed worker '' @ serviceID @ '' is executing''
      else case Store_ManagedTaskAuthority serviceID manager of
        Some authority \<Rightarrow> if hu_Busy authority then ''managed worker '' @ serviceID @ '' is busy'' else []
      | None \<Rightarrow> [])"

definition sandboxActiveWorkReason :: "'w reconciler \<Rightarrow> string \<Rightarrow> 'w \<Rightarrow> goerr + string" where
  "sandboxActiveWorkReason rr sandboxID w =
     (let tables = rr_tables rr w; cells = wt_cells tables in
      bindE (Store_CellV3Operations (rr_codec rr) cells) (\<lambda>preparations.
        let held = first_reason (preparation_reason cells sandboxID) preparations in
        if held \<noteq> [] then Inr held
        else let held = first_reason (operation_reason sandboxID) (Store_CellOperations cells) in
          if held \<noteq> [] then Inr held
          else Inr (first_reason (service_reason (rr_executing rr w) (wt_manager tables) sandboxID)
                      (Store_ManagedServices (wt_projects tables)))))"

section \<open>Failure and removal\<close>

definition failSandbox :: "'w reconciler \<Rightarrow> LocalSandbox \<Rightarrow> string \<Rightarrow> goerr \<Rightarrow> ('w, 'a) pass" where
  "failSandbox rr local code err =
     attempt (put (local\<lparr>ls_ObservedState := ''failed'', ls_ErrorCode := code, ls_ErrorMessage := bounded (rr_text rr err) 300\<rparr>))
       (\<lambda>saveErr. raise (EJoin [err, saveErr])) (\<lambda>_. raise err)"

text \<open>\<open>if r.Sessions != nil { _ = r.Sessions.TerminateSandbox(ctx, id) }\<close>\<close>

definition terminate_sandbox :: "'w reconciler \<Rightarrow> string \<Rightarrow> ('w, unit) pass" where
  "terminate_sandbox rr i = (case rr_Sessions rr of None \<Rightarrow> give () | Some ss \<Rightarrow> quiet (call (ss_TerminateSandbox ss i)))"

definition removeSandbox :: "'w reconciler \<Rightarrow> LocalSandbox \<Rightarrow> ('w, unit) pass" where
  "removeSandbox rr local =
     (if ls_ObservedState local = ''deleted'' then give ()
      else let local = local\<lparr>ls_ObservedState := ''deleting''\<rparr> in
        andThen (put local) (\<lambda>_. andThen (terminate_sandbox rr (ls_ID local)) (\<lambda>_.
          attempt (call (en_Remove (rr_Engine rr) (ls_ID local))) (failSandbox rr local ''container_delete_failed'') (\<lambda>_.
            attempt (call (ws_Destroy (rr_Workspaces rr) (ls_ID local))) (failSandbox rr local ''workspace_delete_failed'') (\<lambda>_.
              put (local\<lparr>ls_ObservedState := ''deleted'', ls_ObservedGeneration := ls_Generation local,
                ls_ErrorCode := [], ls_ErrorMessage := []\<rparr>))))))"

section \<open>One sandbox\<close>

definition new_sandbox :: "Sandbox \<Rightarrow> LocalSandbox" where
  "new_sandbox desired = \<lparr>ls_ID = sb_ID desired, ls_Name = sb_Name desired, ls_DesiredState = [], ls_ObservedState = ''pending'',
     ls_Generation = 0, ls_ObservedGeneration = 0, ls_Lifetime = [], ls_ExpiresInSeconds = None, ls_StartedAt = None,
     ls_ExpiresAt = None, ls_Resources = noResources, ls_ImageDigest = [], ls_ErrorCode = [], ls_ErrorMessage = [],
     ls_CellReady = False, ls_Cell = False\<rparr>"

text \<open>The row as the pass adopts it from the manifest, up to the image.\<close>

definition adopt_desired :: "Sandbox \<Rightarrow> LocalSandbox \<Rightarrow> LocalSandbox" where
  "adopt_desired desired local = local\<lparr>ls_Name := sb_Name desired, ls_DesiredState := sb_DesiredState desired,
     ls_Generation := sb_Generation desired, ls_Lifetime := sb_Lifetime desired,
     ls_ExpiresInSeconds := sb_ExpiresInSeconds desired, ls_Resources := sb_Resources desired,
     ls_Cell := (if sb_Cell desired \<and> \<not> ls_Cell local then ls_Cell local else sb_Cell desired), ls_CellReady := False\<rparr>"

definition target_image :: "Sandbox \<Rightarrow> LocalSandbox \<Rightarrow> string \<Rightarrow> string" where
  "target_image desired local imageDigest =
     (if sb_ImageDigest desired \<noteq> [] then sb_ImageDigest desired
      else if ls_ImageDigest local \<noteq> [] then ls_ImageDigest local else imageDigest)"

text \<open>The start and the end of its life, and the expiry of a temporary sandbox.\<close>

definition adopt_times :: "gotime \<Rightarrow> Sandbox \<Rightarrow> LocalSandbox \<Rightarrow> LocalSandbox" where
  "adopt_times t desired local =
     (let local = local\<lparr>ls_StartedAt := (if ls_StartedAt local = None \<and> sb_StartedAt desired \<noteq> None
            then sb_StartedAt desired else ls_StartedAt local)\<rparr>;
          local = local\<lparr>ls_ExpiresAt := (if ls_ExpiresAt local = None \<and> sb_ExpiresAt desired \<noteq> None
            then sb_ExpiresAt desired else ls_ExpiresAt local)\<rparr>;
          local = (if ls_Lifetime local = ''persistent''
            then local\<lparr>ls_ExpiresInSeconds := None, ls_ExpiresAt := None\<rparr> else local) in
      case ls_ExpiresAt local of
        Some end \<Rightarrow> if ls_Lifetime local = ''temporary'' \<and> \<not> t < end then local\<lparr>ls_DesiredState := ''deleted''\<rparr> else local
      | None \<Rightarrow> local)"

text \<open>The row that the pass starts from: the stored row or a new one, with what the manifest says.\<close>

definition prior_row :: "Sandbox \<Rightarrow> store \<Rightarrow> LocalSandbox" where
  "prior_row desired s = (case Store_Sandbox (sb_ID desired) s of None \<Rightarrow> new_sandbox desired | Some local \<Rightarrow> local)"

definition pinned_row :: "Sandbox \<Rightarrow> LocalSandbox \<Rightarrow> string \<Rightarrow> LocalSandbox" where
  "pinned_row desired local imageDigest =
     (adopt_desired desired local)\<lparr>ls_ImageDigest :=
        (if ls_ImageDigest local = [] then target_image desired local imageDigest else ls_ImageDigest local)\<rparr>"

definition replace_image :: "'w reconciler \<Rightarrow> Sandbox \<Rightarrow> string \<Rightarrow> string \<Rightarrow> bool \<Rightarrow> LocalSandbox \<Rightarrow> ('w, LocalSandbox) pass" where
  "replace_image rr desired workspace target run local =
     (let local = local\<lparr>ls_ObservedState := ''restarting''\<rparr> in
      andThen (put local) (\<lambda>_. andThen (terminate_sandbox rr (ls_ID local)) (\<lambda>_.
        attempt (call (en_Replace (rr_Engine rr) desired workspace target run))
          (\<lambda>err. failSandbox rr local (imageReplaceErrorCode err) err)
          (\<lambda>_. give (local\<lparr>ls_ImageDigest := target\<rparr>)))))"

definition stop_sandbox :: "'w reconciler \<Rightarrow> Sandbox \<Rightarrow> string \<Rightarrow> bool \<Rightarrow> LocalSandbox \<Rightarrow> ('w, unit) pass" where
  "stop_sandbox rr desired target refresh local =
     andThen
       (if refresh then
          attempt (call (ws_Ensure (rr_Workspaces rr) (ls_ID local) (r_WorkspaceDiskGiB (ls_Resources local))))
            (failSandbox rr local ''workspace_create_failed'')
            (\<lambda>workspace. replace_image rr desired workspace target False local)
        else give local) (\<lambda>local.
     andThen
       (if ls_ObservedState local \<noteq> ''stopped'' then
          (let local = local\<lparr>ls_ObservedState := ''stopping''\<rparr> in andThen (put local) (\<lambda>_. give local))
        else give local) (\<lambda>local.
     andThen (terminate_sandbox rr (ls_ID local)) (\<lambda>_.
       attempt (call (en_Stop (rr_Engine rr) (ls_ID local))) (failSandbox rr local ''container_stop_failed'') (\<lambda>_.
         put (local\<lparr>ls_ObservedState := ''stopped'', ls_ObservedGeneration := ls_Generation local\<rparr>)))))"

text \<open>The observation of a running container that may be adopted as a cell in place.\<close>

definition observe_adoption :: "'w reconciler \<Rightarrow> LocalSandbox \<Rightarrow> ('w, bool) pass" where
  "observe_adoption rr local =
     (if ls_ObservedState local = ''running'' then
        attempt (call (en_VerifyCellLifecycle (rr_Engine rr))) (\<lambda>_. give False) (\<lambda>_.
          attempt (call (en_ObserveCellWitness (rr_Engine rr) (ls_ID local))) (\<lambda>_. give False) give)
      else give False)"

text \<open>
  A cell flag that arrives for an existing container: \<open>None\<close> is the held transition, which ends the pass over the
  sandbox; \<open>Some (local, observed)\<close> goes on, with the readiness if it was observed.
\<close>

definition enter_cell :: "'w reconciler \<Rightarrow> Sandbox \<Rightarrow> string \<Rightarrow> LocalSandbox \<Rightarrow> ('w, (LocalSandbox \<times> bool option) option) pass" where
  "enter_cell rr desired workspace local =
     andThen (observe_adoption rr local) (\<lambda>adopted.
       if adopted then give (Some (local, Some True))
       else reading (\<lambda>s.
         let reason = (case sandboxActiveWorkReason rr (ls_ID local) (snd s) of
                Inl _ \<Rightarrow> ''cell execution state is unverifiable'' | Inr reason \<Rightarrow> reason) in
         if reason \<noteq> [] then
            andThen (put (local\<lparr>ls_CellReady := False, ls_ErrorCode := ''cell_transition_work_pending'', ls_ErrorMessage := reason\<rparr>))
              (\<lambda>_. give None)
          else let local = local\<lparr>ls_ObservedState := ''restarting''\<rparr> in
            andThen (put local) (\<lambda>_. andThen (terminate_sandbox rr (ls_ID local)) (\<lambda>_.
              attempt (call (en_Recreate (rr_Engine rr) desired workspace (ls_ImageDigest local) True))
                (\<lambda>err. failSandbox rr local (imageReplaceErrorCode err) err)
                (\<lambda>_. give (Some (local, None)))))))"

text \<open>What is done with the container of a sandbox that shall run.\<close>

definition start_container ::
  "'w reconciler \<Rightarrow> Sandbox \<Rightarrow> string \<Rightarrow> string \<Rightarrow> bool \<Rightarrow> bool \<Rightarrow> LocalSandbox \<Rightarrow> ('w, (LocalSandbox \<times> bool option) option) pass" where
  "start_container rr desired workspace target refresh enabling local =
     (if refresh then andThen (replace_image rr desired workspace target True local) (\<lambda>local. give (Some (local, None)))
      else if enabling then enter_cell rr desired workspace local
      else if ls_ObservedState local = ''running'' \<and> ls_ObservedGeneration local < ls_Generation local then
        (let local = local\<lparr>ls_ObservedState := ''restarting''\<rparr> in
         andThen (put local) (\<lambda>_. andThen (terminate_sandbox rr (ls_ID local)) (\<lambda>_.
           attempt (call (en_Restart (rr_Engine rr) (ls_ID local))) (failSandbox rr local ''container_restart_failed'')
             (\<lambda>_. give (Some (local, None))))))
      else if ls_ObservedState local = ''stopped'' then
        attempt (call (en_Start (rr_Engine rr) (ls_ID local))) (failSandbox rr local ''container_start_failed'')
          (\<lambda>_. give (Some (local, None)))
      else if ls_ObservedState local = ''running'' then
        attempt (call (en_Ensure (rr_Engine rr) desired workspace (ls_ImageDigest local)))
          (failSandbox rr local ''container_reconcile_failed'') (\<lambda>_. give (Some (local, None)))
      else
        (let local = local\<lparr>ls_ObservedState := ''creating''\<rparr> in
         andThen (put local) (\<lambda>_.
           attempt (call (en_Ensure (rr_Engine rr) (desired\<lparr>sb_ExpiresAt := ls_ExpiresAt local\<rparr>) workspace (ls_ImageDigest local)))
             (failSandbox rr local ''container_create_failed'') (\<lambda>_. give (Some (local, None))))))"

definition started_row :: "gotime \<Rightarrow> LocalSandbox \<Rightarrow> LocalSandbox" where
  "started_row started local =
     (let local = (if ls_StartedAt local = None
            then local\<lparr>ls_StartedAt := Some started,
              ls_ExpiresAt := (case ls_ExpiresInSeconds local of
                Some n \<Rightarrow> if ls_Lifetime local = ''temporary'' then Some (started + wrap64 (seconds n)) else ls_ExpiresAt local
              | None \<Rightarrow> ls_ExpiresAt local)\<rparr>
            else local) in
      local\<lparr>ls_ObservedState := ''running'', ls_ObservedGeneration := ls_Generation local, ls_ErrorCode := [], ls_ErrorMessage := []\<rparr>)"

text \<open>The observation of the witness, unless it was observed on this pass.\<close>

definition observe_cell :: "'w reconciler \<Rightarrow> Sandbox \<Rightarrow> string \<Rightarrow> bool option \<Rightarrow> ('w, bool) pass" where
  "observe_cell rr desired i observed =
     (if \<not> sb_Cell desired then give False
      else case observed of
        Some ready \<Rightarrow> give ready
      | None \<Rightarrow> attempt (call (en_ObserveCellWitness (rr_Engine rr) i)) (\<lambda>_. give False) give)"

definition run_sandbox :: "'w reconciler \<Rightarrow> Sandbox \<Rightarrow> string \<Rightarrow> bool \<Rightarrow> bool \<Rightarrow> bool \<Rightarrow> LocalSandbox \<Rightarrow> ('w, unit) pass" where
  "run_sandbox rr desired target refresh enabling requiresSetup local =
     (if ls_ObservedState local = ''deleted'' \<and> ls_Lifetime local = ''temporary'' then give ()
      else
        let preflight = (requiresSetup \<and> (refresh \<or> ls_ObservedState local \<noteq> ''running'' \<or>
              ls_ObservedGeneration local < ls_Generation local)) in
        attempt (call (ws_Ensure (rr_Workspaces rr) (ls_ID local) (r_WorkspaceDiskGiB (ls_Resources local))))
          (failSandbox rr local ''workspace_create_failed'') (\<lambda>workspace.
        andThen (start_container rr desired workspace target refresh enabling local) (\<lambda>started. case started of
          None \<Rightarrow> give ()
        | Some (local, observed) \<Rightarrow>
            andThen
              (if preflight then
                 attempt (call (en_Preflight (rr_Engine rr) (ls_ID local)))
                   (\<lambda>err. andThen (result_of (call (en_Stop (rr_Engine rr) (ls_ID local)))) (\<lambda>stopErr.
                      failSandbox rr local ''nested_sandbox_preflight_failed'' (joinE err stopErr)))
                   give
               else give ()) (\<lambda>_. reading (\<lambda>s.
            let local = started_row (now rr (snd s)) local in
            andThen (observe_cell rr desired (ls_ID local) observed) (\<lambda>ready.
              put (local\<lparr>ls_CellReady := ready, ls_Cell := sb_Cell desired\<rparr>)))))))"

definition reconcileSandbox :: "'w reconciler \<Rightarrow> Sandbox \<Rightarrow> string \<Rightarrow> bool \<Rightarrow> ('w, unit) pass" where
  "reconcileSandbox rr desired imageDigest requiresSetup = reading (\<lambda>s.
     let prior = prior_row desired (fst s);
         isNew = (Store_Sandbox (sb_ID desired) (fst s) = None);
         cellTransition = (sb_Cell desired \<and> \<not> ls_Cell prior);
         target = target_image desired prior imageDigest;
         local = pinned_row desired prior imageDigest;
         refresh = (ls_ImageDigest local \<noteq> target) in
      if refresh \<and> sb_Generation desired < ls_ObservedGeneration local
      then raise (E ''sandbox generation moved backwards'')
      else let local = adopt_times (now rr (snd s)) desired local in
        andThen (put local) (\<lambda>_.
          if ls_DesiredState local = ''deleted'' then removeSandbox rr local
          else if ls_DesiredState local = ''stopped'' then stop_sandbox rr desired target refresh local
          else if ls_DesiredState local = ''running''
          then run_sandbox rr desired target refresh (cellTransition \<and> \<not> isNew) requiresSetup local
          else raise (E ''unsupported desired state'')))"

section \<open>All sandboxes\<close>

definition reconcile_sandboxes :: "'w reconciler \<Rightarrow> string \<Rightarrow> string list \<Rightarrow> Sandbox list \<Rightarrow> ('w, unit) pass" where
  "reconcile_sandboxes rr imageDigest setupSandboxes sandboxes =
     each (\<lambda>desired. wrapping (EWrap (''reconcile sandbox '' @ sb_ID desired @ '': ''))
       (reconcileSandbox rr desired imageDigest (sb_ID desired \<in> set setupSandboxes))) sandboxes"

definition reconcileMissingSandboxes :: "'w reconciler \<Rightarrow> Sandbox list \<Rightarrow> ('w, unit) pass" where
  "reconcileMissingSandboxes rr desired = reading (\<lambda>s.
     each (\<lambda>local.
       if ls_ID local \<in> sb_ID ` set desired then give ()
       else andThen
         (if ls_ObservedState local \<noteq> ''deleted''
          then wrapping (EWrap (''remove omitted sandbox '' @ ls_ID local @ '': '')) (removeSandbox rr (local\<lparr>ls_DesiredState := ''deleted''\<rparr>))
          else give ())
         (\<lambda>_. wrapping (EWrap (''prune sandbox tombstone '' @ ls_ID local @ '': '')) (left_of (Store_DeleteSandbox (ls_ID local)))))
       (Store_Sandboxes (fst s)))"

definition Expire :: "'w reconciler \<Rightarrow> ('w, unit) pass" where
  "Expire rr =
     andThen (case rr_Lifecycle rr of None \<Rightarrow> give ()
       | Some run \<Rightarrow> wrapping (EWrap ''collect continuity checkpoints: '') run) (\<lambda>_. reading (\<lambda>s.
     let current = now rr (snd s) in
     each (\<lambda>value.
       if ls_Lifetime value = ''temporary'' \<and> (case ls_ExpiresAt value of Some end \<Rightarrow> \<not> current < end | None \<Rightarrow> False) \<and>
          ls_ObservedState value \<noteq> ''deleted''
       then wrapping (EWrap (''expire sandbox '' @ ls_ID value @ '': '')) (removeSandbox rr (value\<lparr>ls_DesiredState := ''deleted''\<rparr>))
       else give ())
       (Store_Sandboxes (fst s))))"

section \<open>Access grants\<close>

text \<open>\<open>if r.Sessions != nil { if err := r.Sessions.TerminateGrant(ctx, id); err != nil { return err } }\<close>\<close>

definition terminate_grant :: "'w reconciler \<Rightarrow> string \<Rightarrow> ('w, unit) pass" where
  "terminate_grant rr i = (case rr_Sessions rr of None \<Rightarrow> give () | Some ss \<Rightarrow> call (ss_TerminateGrant ss i))"

definition wanted_grant :: "LocalGrant list \<Rightarrow> AccessGrant \<Rightarrow> LocalGrant" where
  "wanted_grant existing grant =
     \<lparr>lg_ID = ag_ID grant, lg_SandboxID = ag_SandboxID grant, lg_SSHPublicKey = ag_SSHPublicKey grant,
      lg_DesiredState = ag_DesiredState grant,
      lg_ObservedState = (if ag_DesiredState grant = ''revoked'' then ''revoking''
        else foldl (\<lambda>state current. if lg_ID current = ag_ID grant then lg_ObservedState current else state) ''pending'' existing),
      lg_ErrorCode = [], lg_ErrorMessage = []\<rparr>"

definition adopt_grant :: "'w reconciler \<Rightarrow> LocalGrant list \<Rightarrow> AccessGrant \<Rightarrow> ('w, unit) pass" where
  "adopt_grant rr existing grant =
     andThen (if ag_DesiredState grant = ''revoked'' then terminate_grant rr (ag_ID grant) else give ()) (\<lambda>_.
       left_of (Store_PutGrant (wanted_grant existing grant)))"

definition revoke_omitted :: "'w reconciler \<Rightarrow> string set \<Rightarrow> LocalGrant \<Rightarrow> ('w, unit) pass" where
  "revoke_omitted rr desiredIDs current =
     (if lg_ID current \<notin> desiredIDs \<and> lg_DesiredState current = ''active'' then
        andThen (terminate_grant rr (lg_ID current)) (\<lambda>_.
          left_of (Store_PutGrant (current\<lparr>lg_DesiredState := ''revoked'', lg_ObservedState := ''revoking''\<rparr>)))
      else give ())"

definition fail_grants :: "'w reconciler \<Rightarrow> goerr \<Rightarrow> LocalGrant list \<Rightarrow> ('w, unit) pass" where
  "fail_grants rr err grants =
     andThen (each (\<lambda>grant.
       if lg_DesiredState grant = ''active''
       then quiet (left_of (Store_PutGrant (grant\<lparr>lg_ObservedState := ''failed'', lg_ErrorCode := ''access_mapping_failed'',
              lg_ErrorMessage := bounded (rr_text rr err) 300\<rparr>)))
       else give ()) grants) (\<lambda>_. raise err)"

definition settle_grant :: "string set \<Rightarrow> LocalGrant \<Rightarrow> ('w, unit) pass" where
  "settle_grant desiredIDs grant =
     andThen (left_of (Store_PutGrant (grant\<lparr>
         lg_ObservedState := (if lg_DesiredState grant = ''active'' then ''applied'' else ''revoked''),
         lg_ErrorCode := [], lg_ErrorMessage := []\<rparr>))) (\<lambda>_.
       if lg_ID grant \<notin> desiredIDs \<and> lg_DesiredState grant = ''revoked'' then left_of (Store_DeleteGrant (lg_ID grant)) else give ())"

definition reconcileGrants :: "'w reconciler \<Rightarrow> AccessGrant list \<Rightarrow> ('w, unit) pass" where
  "reconcileGrants rr desired = reading (\<lambda>s.
     let existing = Store_Grants (fst s); desiredIDs = ag_ID ` set desired in
      andThen (each (adopt_grant rr existing) desired) (\<lambda>_.
      andThen (each (revoke_omitted rr desiredIDs) existing) (\<lambda>_. reading (\<lambda>s.
        let grants = Store_Grants (fst s) in
        attempt (call (rr_Access rr grants)) (\<lambda>err. fail_grants rr err grants) (\<lambda>_.
          each (settle_grant desiredIDs) grants)))))"

end
