(* ===== verification/Reconcile_Sandbox_Laws.thy ===== *)
theory Reconcile_Sandbox_Laws
  imports Reconcile_Sandbox
begin

text \<open>
  What one pass leaves in the row of its sandbox: \<open>outcome\<close> is the postcondition of \<open>reconcileSandbox\<close>, and there is
  one rule for each of its parts. \<open>W\<close> is any predicate of the world that a positive observation of the cell
  witness establishes and that the preflight keeps.
\<close>

section \<open>Statements on rows\<close>

abbreviation stored :: "string \<Rightarrow> store \<times> 'w \<Rightarrow> LocalSandbox option" where
  "stored i s \<equiv> Store_Sandbox i (fst s)"

lemma stored_put [simp]: "Store_Sandbox i (fst (Store_PutSandbox v a)) = (if ls_ID v = i then Some v else Store_Sandbox i a)"
  by (simp add: Store_Sandbox_def Store_PutSandbox_def update_conv')

lemma put_ok [simp]: "snd (Store_PutSandbox v a) = ok"
  by (simp add: Store_PutSandbox_def)

lemma ends_put: "(\<And>a b. P (a, b) \<Longrightarrow> Q ok (fst (Store_PutSandbox v a), b)) \<Longrightarrow> ends P (put v) Q"
  by (rule ends_left) simp

text \<open>Terminating sessions changes the world only.\<close>

lemma ends_terminate:
  assumes "\<And>a b b'. P (a, b) \<Longrightarrow> Q ok (a, b')"
  shows "ends P (terminate_sandbox rr i) Q"
proof (cases "rr_Sessions rr")
  case None
  then show ?thesis using assms by (auto simp: terminate_sandbox_def intro!: ends_give)
next
  case (Some ss)
  then show ?thesis using assms by (auto simp: terminate_sandbox_def quiet_def right_of_def ends_def split_beta)
qed

section \<open>Rows after a pass\<close>

definition failure_codes :: "string set" where
  "failure_codes = {''workspace_create_failed'', ''container_stop_failed'', ''container_restart_failed'', ''container_start_failed'',
     ''container_reconcile_failed'', ''container_create_failed'', ''nested_sandbox_preflight_failed'', ''container_delete_failed'',
     ''workspace_delete_failed'', ''sandbox_image_pull_failed'', ''container_image_rollback_failed'',
     ''container_image_replace_failed''}"

text \<open>The fields that a pass keeps from its start; \<open>A\<close> are the images the row may have.\<close>

definition kept_row :: "Sandbox \<Rightarrow> string set \<Rightarrow> LocalSandbox \<Rightarrow> bool" where
  "kept_row desired A v \<longleftrightarrow> ls_ID v = sb_ID desired \<and> ls_Generation v = sb_Generation desired \<and> ls_ImageDigest v \<in> A"

definition failed_row :: "'w reconciler \<Rightarrow> Sandbox \<Rightarrow> string set \<Rightarrow> goerr \<Rightarrow> LocalSandbox \<Rightarrow> bool" where
  "failed_row rr desired A e v \<longleftrightarrow> ls_ObservedState v = ''failed'' \<and> ls_ErrorCode v \<in> failure_codes \<and>
     ls_ErrorMessage v = bounded (rr_text rr e) 300 \<and> \<not> ls_CellReady v \<and> kept_row desired A v"

definition settled_row :: "Sandbox \<Rightarrow> string set \<Rightarrow> bool \<Rightarrow> LocalSandbox \<Rightarrow> bool" where
  "settled_row desired A seen v \<longleftrightarrow> kept_row desired A v \<and>
     (ls_CellReady v \<longrightarrow> sb_Cell desired \<and> ls_ObservedState v = ''running'' \<and> seen) \<and>
     (ls_ObservedState v = ls_DesiredState v \<and> ls_ObservedGeneration v = ls_Generation v \<or>
      ls_ErrorCode v = ''cell_transition_work_pending'' \<and> \<not> ls_Cell v \<or> ls_ObservedState v = ''deleted'')"

definition outcome :: "'w reconciler \<Rightarrow> Sandbox \<Rightarrow> string set \<Rightarrow> ('w \<Rightarrow> bool) \<Rightarrow> goerr + unit \<Rightarrow> store \<times> 'w \<Rightarrow> bool" where
  "outcome rr desired A W r s \<longleftrightarrow>
     (\<exists>v. stored (sb_ID desired) s = Some v \<and>
       (case r of Inl e \<Rightarrow> failed_row rr desired A e v | Inr _ \<Rightarrow> settled_row desired A (W (snd s)) v))"

text \<open>A row that a later statement may fail or settle.\<close>

definition open_row :: "Sandbox \<Rightarrow> string set \<Rightarrow> LocalSandbox \<Rightarrow> bool" where
  "open_row desired A v \<longleftrightarrow> kept_row desired A v \<and> \<not> ls_CellReady v"

lemma open_row_update [simp]:
  "open_row d A (v\<lparr>ls_ObservedState := a\<rparr>)"
  "open_row d A (v\<lparr>ls_ImageDigest := b\<rparr>) \<longleftrightarrow> b \<in> A" if "open_row d A v" for d v A a b
  using that by (auto simp: open_row_def kept_row_def)

lemma replace_code [simp]: "imageReplaceErrorCode e \<in> failure_codes"
  by (simp add: imageReplaceErrorCode_def failure_codes_def)

lemma ends_fail:
  assumes "open_row desired A v" and "code \<in> failure_codes"
    and "\<And>s w. stored (sb_ID desired) s = Some w \<Longrightarrow> failed_row rr desired A e w \<Longrightarrow> Q (Inl e) s"
  shows "ends P (failSandbox rr v code e) Q"
  unfolding failSandbox_def
  by (rule ends_attempt [where R = "\<lambda>r s. r = ok \<and> (\<exists>w. stored (sb_ID desired) s = Some w \<and> failed_row rr desired A e w)"])
    (use assms in \<open>auto simp: open_row_def kept_row_def failed_row_def intro!: ends_put ends_raise\<close>)

text \<open>The intermediate result of a statement that gives a row: failed, or a row that is open.\<close>

definition gives :: "'w reconciler \<Rightarrow> Sandbox \<Rightarrow> string set \<Rightarrow> (LocalSandbox \<Rightarrow> bool) \<Rightarrow> goerr + LocalSandbox \<Rightarrow> store \<times> 'w \<Rightarrow> bool" where
  "gives rr desired A R r s \<longleftrightarrow> (case r of
     Inl e \<Rightarrow> (\<exists>w. stored (sb_ID desired) s = Some w \<and> failed_row rr desired A e w)
   | Inr v \<Rightarrow> open_row desired A v \<and> R v)"

lemma gives_simps [simp]:
  "gives rr d A R (Inl e) s \<longleftrightarrow> (\<exists>w. stored (sb_ID d) s = Some w \<and> failed_row rr d A e w)"
  "gives rr d A R (Inr v) s \<longleftrightarrow> open_row d A v \<and> R v"
  by (simp_all add: gives_def)

lemma outcome_simps [simp]:
  "outcome rr d A W (Inl e) s \<longleftrightarrow> (\<exists>w. stored (sb_ID d) s = Some w \<and> failed_row rr d A e w)"
  "outcome rr d A W (Inr u) s \<longleftrightarrow> (\<exists>v. stored (sb_ID d) s = Some v \<and> settled_row d A (W (snd s)) v)"
  by (simp_all add: outcome_def)

abbreviation anything :: "'r \<Rightarrow> 's \<Rightarrow> bool" where
  "anything \<equiv> \<lambda>_ _. True"

lemma ends_anything: "ends P m anything"
  by (simp add: ends_def)

lemma failure_code_members [simp]:
  "''workspace_create_failed'' \<in> failure_codes" "''container_stop_failed'' \<in> failure_codes"
  "''container_restart_failed'' \<in> failure_codes" "''container_start_failed'' \<in> failure_codes"
  "''container_reconcile_failed'' \<in> failure_codes" "''container_create_failed'' \<in> failure_codes"
  "''nested_sandbox_preflight_failed'' \<in> failure_codes" "''container_delete_failed'' \<in> failure_codes"
  "''workspace_delete_failed'' \<in> failure_codes"
  by (simp_all add: failure_codes_def)

text \<open>A call that fails the sandbox on an error, in any state.\<close>

lemma ends_call_or_fail:
  assumes "open_row desired A v" and "\<And>e. code e \<in> failure_codes" and "\<And>x. ends (\<lambda>_. True) (k x) Q"
    and "\<And>e s w. stored (sb_ID desired) s = Some w \<Longrightarrow> failed_row rr desired A e w \<Longrightarrow> Q (Inl e) s"
  shows "ends P (attempt m (\<lambda>e. failSandbox rr v (code e) e) k) Q"
  by (rule ends_attempt [OF ends_anything]) (auto intro!: ends_fail [OF assms(1,2)] assms(3,4))

lemma ends_true: "ends (\<lambda>_. True) m Q \<Longrightarrow> ends P m Q"
  by (simp add: ends_def)

lemma ends_given: "(open_row d A v \<Longrightarrow> R v \<Longrightarrow> ends (\<lambda>_. True) m Q) \<Longrightarrow> ends (gives rr d A R (Inr v)) m Q"
  by (simp add: ends_def)

text \<open>A row that is stored and sessions that are ended never fail.\<close>

lemma ends_put_then: "ends (\<lambda>s. stored (ls_ID v) s = Some v) (k ()) Q \<Longrightarrow> ends P (andThen (put v) k) Q"
  by (rule ends_andThen [where R = "\<lambda>r s. r = ok \<and> stored (ls_ID v) s = Some v"]) (auto intro!: ends_put elim: ends_weaken)

lemma ends_terminate_then: "ends (\<lambda>_. True) (k ()) Q \<Longrightarrow> ends P (andThen (terminate_sandbox rr i) k) Q"
  by (rule ends_andThen [where R = "\<lambda>r s. r = ok"]) (auto intro!: ends_terminate elim: ends_weaken)

section \<open>The parts of a pass\<close>

lemma remove_ends:
  assumes "open_row desired A v" and "ls_DesiredState v = ''deleted''"
  shows "ends (\<lambda>s. stored (sb_ID desired) s = Some v) (removeSandbox rr v) (outcome rr desired A W)"
proof (cases "ls_ObservedState v = ''deleted''")
  case True
  then show ?thesis using assms by (auto simp: removeSandbox_def settled_row_def open_row_def kept_row_def intro!: ends_give)
next
  case False
  have last: "ends (\<lambda>_. True) (put (v\<lparr>ls_ObservedState := ''deleted'', ls_ObservedGeneration := ls_Generation v,
      ls_ErrorCode := [], ls_ErrorMessage := []\<rparr>)) (outcome rr desired A W)"
    using assms by (auto simp: settled_row_def open_row_def kept_row_def intro!: ends_put)
  show ?thesis
    using False last assms unfolding removeSandbox_def Let_def
    by (auto intro!: ends_put_then ends_terminate_then ends_call_or_fail [where desired = desired])
qed

lemma replace_ends:
  assumes "open_row desired A v" and "target \<in> A"
  shows "ends P (replace_image rr desired workspace target run v) (gives rr desired A (\<lambda>u. ls_DesiredState u = ls_DesiredState v \<and> ls_Cell u = ls_Cell v))"
  using assms unfolding replace_image_def Let_def
  by (auto intro!: ends_put_then ends_terminate_then ends_call_or_fail [where desired = desired] ends_give)

lemma stop_ends:
  assumes "open_row desired A v" and "ls_DesiredState v = ''stopped''" and "target \<in> A"
  shows "ends P (stop_sandbox rr desired target refresh v) (outcome rr desired A W)"
proof -
  let ?R = "\<lambda>u. ls_DesiredState u = ''stopped''"
  have first: "ends P (if refresh then
          attempt (call (ws_Ensure (rr_Workspaces rr) (ls_ID v) (r_WorkspaceDiskGiB (ls_Resources v))))
            (failSandbox rr v ''workspace_create_failed'')
            (\<lambda>workspace. replace_image rr desired workspace target False v)
        else give v) (gives rr desired A ?R)"
    using assms by (auto intro!: ends_call_or_fail [where desired = desired] ends_give
        ends_weaken [OF replace_ends [OF assms(1,3)]] simp: gives_def split: sum.splits)
  have second: "ends (gives rr desired A ?R (Inr u)) (if ls_ObservedState u \<noteq> ''stopped'' then
          (let u = u\<lparr>ls_ObservedState := ''stopping''\<rparr> in andThen (put u) (\<lambda>_. give u)) else give u)
        (gives rr desired A ?R)" for u
    by (rule ends_given) (auto simp: Let_def intro!: ends_put_then ends_give)
  show ?thesis
    unfolding stop_sandbox_def
  proof (rule ends_andThen [OF first], simp, rule ends_andThen [OF second], simp, rule ends_given)
    fix u
    assume "open_row desired A u" and "?R u"
    then show "ends (\<lambda>_. True) (andThen (terminate_sandbox rr (ls_ID u)) (\<lambda>_.
        attempt (call (en_Stop (rr_Engine rr) (ls_ID u))) (failSandbox rr u ''container_stop_failed'')
          (\<lambda>_. put (u\<lparr>ls_ObservedState := ''stopped'', ls_ObservedGeneration := ls_Generation u\<rparr>)))) (outcome rr desired A W)"
      by (auto intro!: ends_terminate_then ends_call_or_fail [where desired = desired] ends_put
          simp: settled_row_def open_row_def kept_row_def)
  qed
qed

text \<open>
  The result of the container statement: failed, held, or an open row with the readiness if it was observed. \<open>goal\<close> is
  the desired state and \<open>old\<close> the cell flag of the row that the statement starts from.
\<close>

definition starts ::
  "'w reconciler \<Rightarrow> Sandbox \<Rightarrow> string set \<Rightarrow> ('w \<Rightarrow> bool) \<Rightarrow> string \<Rightarrow> goerr + (LocalSandbox \<times> bool option) option \<Rightarrow> store \<times> 'w \<Rightarrow> bool" where
  "starts rr desired A W wanted r s \<longleftrightarrow> (case r of
     Inl e \<Rightarrow> (\<exists>w. stored (sb_ID desired) s = Some w \<and> failed_row rr desired A e w)
   | Inr None \<Rightarrow> (\<exists>v. stored (sb_ID desired) s = Some v \<and> settled_row desired A (W (snd s)) v)
   | Inr (Some (v, observed)) \<Rightarrow> open_row desired A v \<and> ls_DesiredState v = wanted \<and>
       (case observed of None \<Rightarrow> True | Some ready \<Rightarrow> ready \<longrightarrow> W (snd s)))"

lemma starts_simps [simp]:
  "starts rr d A W g (Inl e) s \<longleftrightarrow> (\<exists>w. stored (sb_ID d) s = Some w \<and> failed_row rr d A e w)"
  "starts rr d A W g (Inr None) s \<longleftrightarrow> (\<exists>v. stored (sb_ID d) s = Some v \<and> settled_row d A (W (snd s)) v)"
  "starts rr d A W g (Inr (Some (v, None))) s \<longleftrightarrow> open_row d A v \<and> ls_DesiredState v = g"
  "starts rr d A W g (Inr (Some (v, Some r))) s \<longleftrightarrow> open_row d A v \<and> ls_DesiredState v = g \<and> (r \<longrightarrow> W (snd s))"
  by (simp_all add: starts_def)

lemma adoption_ends:
  assumes "\<And>w w'. en_ObserveCellWitness (rr_Engine rr) (ls_ID v) w = (w', Inr True) \<Longrightarrow> W w'"
  shows "ends P (observe_adoption rr v) (\<lambda>r s. case r of Inl _ \<Rightarrow> False | Inr seen \<Rightarrow> seen \<longrightarrow> W (snd s))"
proof -
  have witness: "ends (\<lambda>_. True) (call (en_ObserveCellWitness (rr_Engine rr) (ls_ID v)))
      (\<lambda>r s. case r of Inl _ \<Rightarrow> True | Inr seen \<Rightarrow> seen \<longrightarrow> W (snd s))"
  proof (rule ends_right)
    fix a b
    show "case snd (en_ObserveCellWitness (rr_Engine rr) (ls_ID v) b) of Inl _ \<Rightarrow> True
        | Inr seen \<Rightarrow> seen \<longrightarrow> W (snd (a, fst (en_ObserveCellWitness (rr_Engine rr) (ls_ID v) b)))"
      using assms [of b] by (cases "en_ObserveCellWitness (rr_Engine rr) (ls_ID v) b") (auto split: sum.split)
  qed
  have observe: "ends (\<lambda>_. True) (attempt (call (en_ObserveCellWitness (rr_Engine rr) (ls_ID v))) (\<lambda>_. give False) give)
      (\<lambda>r s. case r of Inl _ \<Rightarrow> False | Inr seen \<Rightarrow> seen \<longrightarrow> W (snd s))"
    by (rule ends_attempt [OF witness]) (auto intro!: ends_give)
  show ?thesis
    unfolding observe_adoption_def
    by (auto intro!: ends_give ends_attempt [OF ends_anything] observe)
qed

lemma enter_ends:
  assumes "open_row desired A v" and "ls_DesiredState v = wanted" and "\<not> ls_Cell v"
    and "\<And>w w'. en_ObserveCellWitness (rr_Engine rr) (ls_ID v) w = (w', Inr True) \<Longrightarrow> W w'"
  shows "ends P (enter_cell rr desired workspace v) (starts rr desired A W wanted)"
  unfolding enter_cell_def
proof (rule ends_andThen [OF adoption_ends [OF assms(4)]])
  fix seen
  let ?held = "\<lambda>reason. andThen (put (v\<lparr>ls_CellReady := False, ls_ErrorCode := ''cell_transition_work_pending'', ls_ErrorMessage := reason\<rparr>))
      (\<lambda>_. give None)"
  let ?recreate = "let v = v\<lparr>ls_ObservedState := ''restarting''\<rparr> in
      andThen (put v) (\<lambda>_. andThen (terminate_sandbox rr (ls_ID v)) (\<lambda>_.
        attempt (call (en_Recreate (rr_Engine rr) desired workspace (ls_ImageDigest v) True))
          (\<lambda>err. failSandbox rr v (imageReplaceErrorCode err) err) (\<lambda>_. give (Some (v, None)))))"
  have held: "ends Q (?held reason) (starts rr desired A W wanted)" for reason and Q
    using assms by (auto intro!: ends_put_then ends_give simp: open_row_def kept_row_def settled_row_def)
  have recreate: "ends Q ?recreate (starts rr desired A W wanted)" for Q
    using assms by (auto simp: Let_def intro!: ends_put_then ends_terminate_then ends_call_or_fail [where desired = desired] ends_give)
  show "ends (\<lambda>s. case Inr seen of Inl _ \<Rightarrow> False | Inr seen \<Rightarrow> seen \<longrightarrow> W (snd s))
    (if seen then give (Some (v, Some True))
     else reading (\<lambda>s. let reason = (case sandboxActiveWorkReason rr (ls_ID v) (snd s) of
                Inl _ \<Rightarrow> ''cell execution state is unverifiable'' | Inr reason \<Rightarrow> reason) in
         if reason \<noteq> [] then ?held reason else ?recreate)) (starts rr desired A W wanted)"
  proof (cases seen)
    case True
    then show ?thesis using assms by (auto intro!: ends_give)
  next
    case False
    show ?thesis
      unfolding if_not_P [OF False]
      by (rule ends_reading, unfold Let_def, rule ends_if, rule held, rule recreate [unfolded Let_def])
  qed
qed simp_all

lemma container_ends:
  assumes "open_row desired A v" and "ls_DesiredState v = wanted" and "enabling \<longrightarrow> \<not> ls_Cell v"
    and target: "target \<in> A"
    and "\<And>w w'. en_ObserveCellWitness (rr_Engine rr) (ls_ID v) w = (w', Inr True) \<Longrightarrow> W w'"
  shows "ends P (start_container rr desired workspace target refresh enabling v) (starts rr desired A W wanted)"
proof -
  have replaced: "ends P (andThen (replace_image rr desired workspace target True v) (\<lambda>v. give (Some (v, None)))) (starts rr desired A W wanted)"
    using assms(2) by (auto intro!: ends_andThen [OF replace_ends [OF assms(1) target]] ends_given ends_give)
  show ?thesis
    using assms replaced unfolding start_container_def Let_def
    by (auto intro!: enter_ends ends_put_then ends_terminate_then ends_call_or_fail [where desired = desired] ends_give ends_if)
qed

lemma started_row_fields [simp]:
  "ls_ID (started_row t v) = ls_ID v" "ls_DesiredState (started_row t v) = ls_DesiredState v"
  "ls_ObservedState (started_row t v) = ''running''" "ls_ObservedGeneration (started_row t v) = ls_Generation v"
  "ls_Generation (started_row t v) = ls_Generation v" "ls_ImageDigest (started_row t v) = ls_ImageDigest v"
  "ls_ErrorCode (started_row t v) = []"
  by (simp_all add: started_row_def Let_def)

lemma cell_observed:
  assumes "\<And>w w'. en_ObserveCellWitness (rr_Engine rr) i w = (w', Inr True) \<Longrightarrow> W w'"
    and "\<And>s. P s \<Longrightarrow> (case observed of None \<Rightarrow> True | Some ready \<Rightarrow> ready \<longrightarrow> W (snd s))"
  shows "ends P (observe_cell rr desired i observed)
    (\<lambda>r s. case r of Inl _ \<Rightarrow> False | Inr ready \<Rightarrow> ready \<longrightarrow> sb_Cell desired \<and> W (snd s))"
proof -
  have witness: "ends P (call (en_ObserveCellWitness (rr_Engine rr) i)) (\<lambda>r s. case r of Inl _ \<Rightarrow> True | Inr seen \<Rightarrow> seen \<longrightarrow> W (snd s))"
  proof (rule ends_right)
    fix a b
    show "case snd (en_ObserveCellWitness (rr_Engine rr) i b) of Inl _ \<Rightarrow> True
        | Inr seen \<Rightarrow> seen \<longrightarrow> W (snd (a, fst (en_ObserveCellWitness (rr_Engine rr) i b)))"
      using assms(1) [of b] by (cases "en_ObserveCellWitness (rr_Engine rr) i b") (auto split: sum.split)
  qed
  have observe: "ends P (attempt (call (en_ObserveCellWitness (rr_Engine rr) i)) (\<lambda>_. give False) give)
      (\<lambda>r s. case r of Inl _ \<Rightarrow> False | Inr ready \<Rightarrow> ready \<longrightarrow> sb_Cell desired \<and> W (snd s))" if "sb_Cell desired"
    using that by (intro ends_attempt [OF witness]) (auto intro!: ends_give)
  show ?thesis
    using assms(2) observe unfolding observe_cell_def by (cases observed) (auto intro!: ends_give)
qed

text \<open>The statements after the container runs.\<close>

lemma finish_ends:
  fixes rr :: "'w reconciler"
  assumes "open_row desired A v" and "ls_DesiredState v = ''running''"
    and "\<And>w w'. en_ObserveCellWitness (rr_Engine rr) (sb_ID desired) w = (w', Inr True) \<Longrightarrow> W w'"
    and "\<And>s. P s \<Longrightarrow> (case observed of None \<Rightarrow> True | Some ready \<Rightarrow> ready \<longrightarrow> W (snd s))"
  shows "ends P (reading (\<lambda>s. let v = started_row (now rr (snd s)) v in
      andThen (observe_cell rr desired (ls_ID v) observed) (\<lambda>ready. put (v\<lparr>ls_CellReady := ready, ls_Cell := sb_Cell desired\<rparr>))))
    (outcome rr desired A W)"
proof (rule ends_reading, unfold Let_def)
  fix t :: "store \<times> 'w"
  let ?v = "started_row (now rr (snd t)) v"
  assume P: "P t"
  have i: "ls_ID ?v = sb_ID desired" using assms(1) by (simp add: open_row_def kept_row_def)
  have observed: "ends (\<lambda>s. s = t) (observe_cell rr desired (ls_ID ?v) observed)
      (\<lambda>r s. case r of Inl _ \<Rightarrow> False | Inr ready \<Rightarrow> ready \<longrightarrow> sb_Cell desired \<and> W (snd s))"
    by (rule cell_observed, unfold i, rule assms(3), assumption, simp add: assms(4) [OF P])
  show "ends (\<lambda>s. s = t) (andThen (observe_cell rr desired (ls_ID ?v) observed)
      (\<lambda>ready. put (?v\<lparr>ls_CellReady := ready, ls_Cell := sb_Cell desired\<rparr>))) (outcome rr desired A W)"
    by (rule ends_andThen [OF observed])
      (use assms(1,2) in \<open>auto intro!: ends_put simp: settled_row_def open_row_def kept_row_def\<close>)
qed

lemma preflight_ends:
  assumes "open_row desired A v"
    and "\<And>w. W w \<Longrightarrow> W (fst (en_Preflight (rr_Engine rr) (ls_ID v) w))"
    and "\<And>s. P s \<Longrightarrow> (case observed of None \<Rightarrow> True | Some ready \<Rightarrow> ready \<longrightarrow> W (snd s))"
  shows "ends P (if preflight then
        attempt (call (en_Preflight (rr_Engine rr) (ls_ID v)))
          (\<lambda>err. andThen (result_of (call (en_Stop (rr_Engine rr) (ls_ID v))))
            (\<lambda>stopErr. failSandbox rr v ''nested_sandbox_preflight_failed'' (joinE err stopErr))) give
      else give ())
    (\<lambda>r s. case r of Inl e \<Rightarrow> \<exists>w. stored (sb_ID desired) s = Some w \<and> failed_row rr desired A e w
       | Inr _ \<Rightarrow> (case observed of None \<Rightarrow> True | Some ready \<Rightarrow> ready \<longrightarrow> W (snd s)))"
    (is "ends P ?m ?Q")
proof (cases preflight)
  case True
  have call: "ends P (call (en_Preflight (rr_Engine rr) (ls_ID v)))
      (\<lambda>_ s. case observed of None \<Rightarrow> True | Some ready \<Rightarrow> ready \<longrightarrow> W (snd s))"
    by (rule ends_right) (use assms(2,3) in \<open>auto split: option.splits\<close>)
  have any: "ends R (failSandbox rr v ''nested_sandbox_preflight_failed'' e) ?Q" for R e
    by (rule ends_fail [OF assms(1)]) auto
  have stop: "ends R (andThen (result_of (call (en_Stop (rr_Engine rr) (ls_ID v))))
      (\<lambda>stopErr. failSandbox rr v ''nested_sandbox_preflight_failed'' (joinE err stopErr))) ?Q" for R err
    by (rule ends_andThen [where R = "\<lambda>r s. \<exists>x. r = Inr x", OF _ _ any]) (auto simp: result_of_def ends_def)
  show ?thesis
    unfolding if_P [OF True] by (rule ends_attempt [OF call stop]) (auto intro!: ends_give)
next
  case False
  then show ?thesis using assms(3) by (auto intro!: ends_give)
qed


lemma run_ends:
  assumes "open_row desired A v" and "ls_DesiredState v = ''running''" and "enabling \<longrightarrow> \<not> ls_Cell v"
    and target: "target \<in> A"
    and observed: "\<And>w w'. en_ObserveCellWitness (rr_Engine rr) (sb_ID desired) w = (w', Inr True) \<Longrightarrow> W w'"
    and kept: "\<And>w. W w \<Longrightarrow> W (fst (en_Preflight (rr_Engine rr) (sb_ID desired) w))"
  shows "ends (\<lambda>s. stored (sb_ID desired) s = Some v) (run_sandbox rr desired target refresh enabling requiresSetup v) (outcome rr desired A W)"
proof (cases "ls_ObservedState v = ''deleted'' \<and> ls_Lifetime v = ''temporary''")
  case True
  then show ?thesis using assms(1,2) by (auto simp: run_sandbox_def settled_row_def open_row_def kept_row_def intro!: ends_give)
next
  case False
  have i: "ls_ID v = sb_ID desired" using assms(1) by (simp add: open_row_def kept_row_def)
  show ?thesis
    unfolding run_sandbox_def if_not_P [OF False] Let_def
  proof (rule ends_call_or_fail [OF assms(1)])
    fix workspace
    show "ends (\<lambda>_. True)
      (andThen (start_container rr desired workspace target refresh enabling v) (\<lambda>started. case started of
          None \<Rightarrow> give ()
        | Some (local, observed) \<Rightarrow>
            andThen
              (if requiresSetup \<and> (refresh \<or> ls_ObservedState v \<noteq> ''running'' \<or> ls_ObservedGeneration v < ls_Generation v) then
                 attempt (call (en_Preflight (rr_Engine rr) (ls_ID local)))
                   (\<lambda>err. andThen (result_of (call (en_Stop (rr_Engine rr) (ls_ID local)))) (\<lambda>stopErr.
                      failSandbox rr local ''nested_sandbox_preflight_failed'' (joinE err stopErr)))
                   give
               else give ()) (\<lambda>_. reading (\<lambda>s.
            andThen (observe_cell rr desired (ls_ID (started_row (now rr (snd s)) local)) observed) (\<lambda>ready.
              put ((started_row (now rr (snd s)) local)\<lparr>ls_CellReady := ready, ls_Cell := sb_Cell desired\<rparr>))))))
      (outcome rr desired A W)"
    proof (rule ends_andThen [OF container_ends [OF assms(1,2,3) target, of rr W]])
      show "\<And>w w'. en_ObserveCellWitness (rr_Engine rr) (ls_ID v) w = (w', Inr True) \<Longrightarrow> W w'"
        unfolding i by (rule observed)
    next
      fix started :: "(LocalSandbox \<times> bool option) option"
      show "ends (starts rr desired A W ''running'' (Inr started)) (case started of
          None \<Rightarrow> give ()
        | Some (local, observed) \<Rightarrow>
            andThen
              (if requiresSetup \<and> (refresh \<or> ls_ObservedState v \<noteq> ''running'' \<or> ls_ObservedGeneration v < ls_Generation v) then
                 attempt (call (en_Preflight (rr_Engine rr) (ls_ID local)))
                   (\<lambda>err. andThen (result_of (call (en_Stop (rr_Engine rr) (ls_ID local)))) (\<lambda>stopErr.
                      failSandbox rr local ''nested_sandbox_preflight_failed'' (joinE err stopErr)))
                   give
               else give ()) (\<lambda>_. reading (\<lambda>s.
            andThen (observe_cell rr desired (ls_ID (started_row (now rr (snd s)) local)) observed) (\<lambda>ready.
              put ((started_row (now rr (snd s)) local)\<lparr>ls_CellReady := ready, ls_Cell := sb_Cell desired\<rparr>)))))
        (outcome rr desired A W)"
      proof (cases started)
        case None
        then show ?thesis by (auto intro!: ends_give)
      next
        case (Some r)
        obtain u seen where r: "r = (u, seen)" by fastforce
        show ?thesis
        proof (cases "open_row desired A u \<and> ls_DesiredState u = ''running''")
          case True
          then have open_u: "open_row desired A u" and run_u: "ls_DesiredState u = ''running''" by simp_all
          have iu: "ls_ID u = sb_ID desired" using open_u by (simp add: open_row_def kept_row_def)
          have seen: "ends (\<lambda>s. case seen of None \<Rightarrow> True | Some ready \<Rightarrow> ready \<longrightarrow> W (snd s))
              (reading (\<lambda>s. andThen (observe_cell rr desired (ls_ID (started_row (now rr (snd s)) u)) seen) (\<lambda>ready.
                put ((started_row (now rr (snd s)) u)\<lparr>ls_CellReady := ready, ls_Cell := sb_Cell desired\<rparr>)))) (outcome rr desired A W)"
            by (rule finish_ends [OF open_u run_u, unfolded Let_def], rule observed)
          have preflight: "ends (starts rr desired A W ''running'' (Inr (Some (u, seen)))) (if c then
                 attempt (call (en_Preflight (rr_Engine rr) (ls_ID u)))
                   (\<lambda>err. andThen (result_of (call (en_Stop (rr_Engine rr) (ls_ID u)))) (\<lambda>stopErr.
                      failSandbox rr u ''nested_sandbox_preflight_failed'' (joinE err stopErr)))
                   give else give ())
              (\<lambda>r s. case r of Inl e \<Rightarrow> \<exists>w. stored (sb_ID desired) s = Some w \<and> failed_row rr desired A e w
                | Inr _ \<Rightarrow> (case seen of None \<Rightarrow> True | Some ready \<Rightarrow> ready \<longrightarrow> W (snd s)))" for c
            by (rule preflight_ends [OF open_u, of W], unfold iu, erule kept) (simp add: starts_def)
          show ?thesis
            unfolding Some r option.case prod.case
            by (rule ends_andThen [OF preflight], simp, rule ends_weaken [OF seen], simp_all)
        next
          case False
          then show ?thesis unfolding Some r by (auto simp: ends_def starts_def)
        qed
      qed
    qed simp
  qed simp_all
qed


lemma adopt_times_fields [simp]:
  "ls_ID (adopt_times t d v) = ls_ID v" "ls_CellReady (adopt_times t d v) = ls_CellReady v" "ls_Cell (adopt_times t d v) = ls_Cell v"
  "ls_ImageDigest (adopt_times t d v) = ls_ImageDigest v" "ls_Generation (adopt_times t d v) = ls_Generation v"
  "ls_ObservedState (adopt_times t d v) = ls_ObservedState v" "ls_ObservedGeneration (adopt_times t d v) = ls_ObservedGeneration v"
  "ls_Lifetime (adopt_times t d v) = ls_Lifetime v"
  by (simp_all add: adopt_times_def Let_def split: option.split)

lemma adopt_desired_fields [simp]:
  "ls_ID (adopt_desired d v) = ls_ID v" "ls_CellReady (adopt_desired d v) = False" "ls_ImageDigest (adopt_desired d v) = ls_ImageDigest v"
  "ls_Generation (adopt_desired d v) = sb_Generation d" "ls_ObservedState (adopt_desired d v) = ls_ObservedState v"
  "ls_ObservedGeneration (adopt_desired d v) = ls_ObservedGeneration v" "ls_Lifetime (adopt_desired d v) = sb_Lifetime d"
  "ls_DesiredState (adopt_desired d v) = sb_DesiredState d"
  by (simp_all add: adopt_desired_def)

definition start_row :: "'w reconciler \<Rightarrow> Sandbox \<Rightarrow> string \<Rightarrow> store \<times> 'w \<Rightarrow> LocalSandbox" where
  "start_row rr desired imageDigest s = adopt_times (now rr (snd s)) desired (pinned_row desired (prior_row desired (fst s)) imageDigest)"

lemma start_row_fields [simp]:
  "ls_ID (start_row rr d img s) = ls_ID (prior_row d (fst s))" "ls_CellReady (start_row rr d img s) = False"
  "ls_Generation (start_row rr d img s) = sb_Generation d" "ls_ObservedState (start_row rr d img s) = ls_ObservedState (prior_row d (fst s))"
  "ls_ObservedGeneration (start_row rr d img s) = ls_ObservedGeneration (prior_row d (fst s))"
  "ls_Lifetime (start_row rr d img s) = sb_Lifetime d"
  "ls_ImageDigest (start_row rr d img s) = (if ls_ImageDigest (prior_row d (fst s)) = []
     then target_image d (prior_row d (fst s)) img else ls_ImageDigest (prior_row d (fst s)))"
  "ls_Cell (start_row rr d img s) = (if sb_Cell d \<and> \<not> ls_Cell (prior_row d (fst s)) then ls_Cell (prior_row d (fst s)) else sb_Cell d)"
  by (simp_all add: start_row_def pinned_row_def) (simp_all add: adopt_desired_def)

lemma pass_unfold:
  assumes "row = start_row rr desired imageDigest s" and "target = target_image desired (prior_row desired (fst s)) imageDigest"
    and "refresh = (ls_ImageDigest row \<noteq> target)"
    and "enabling = ((sb_Cell desired \<and> \<not> ls_Cell (prior_row desired (fst s))) \<and> stored (sb_ID desired) s \<noteq> None)"
  shows "reconcileSandbox rr desired imageDigest requiresSetup s =
    (if refresh \<and> sb_Generation desired < ls_ObservedGeneration row then (s, Inl (E ''sandbox generation moved backwards''))
     else andThen (put row) (\<lambda>_.
          if ls_DesiredState row = ''deleted'' then removeSandbox rr row
          else if ls_DesiredState row = ''stopped'' then stop_sandbox rr desired target refresh row
          else if ls_DesiredState row = ''running'' then run_sandbox rr desired target refresh enabling requiresSetup row
          else raise (E ''unsupported desired state'')) s)"
proof -
  let ?pinned = "pinned_row desired (prior_row desired (fst s)) imageDigest"
  have row: "ls_ImageDigest ?pinned = ls_ImageDigest row" "ls_ObservedGeneration ?pinned = ls_ObservedGeneration row"
    "adopt_times (now rr (snd s)) desired ?pinned = row" by (simp_all add: assms(1) start_row_def)
  show ?thesis
    unfolding reconcileSandbox_def reading_def Let_def row assms(2) [symmetric] assms(3) [symmetric] assms(4) [symmetric]
    by (simp only: if_distribR give_simps)
qed

lemma sandbox_outcome:
  fixes rr :: "'w reconciler"
  assumes key: "\<And>v. stored (sb_ID desired) s = Some v \<Longrightarrow> ls_ID v = sb_ID desired"
    and observed: "\<And>w w'. en_ObserveCellWitness (rr_Engine rr) (sb_ID desired) w = (w', Inr True) \<Longrightarrow> W w'"
    and kept: "\<And>w. W w \<Longrightarrow> W (fst (en_Preflight (rr_Engine rr) (sb_ID desired) w))"
    and run: "reconcileSandbox rr desired imageDigest requiresSetup s = (t, r)"
  defines "A \<equiv> {ls_ImageDigest (start_row rr desired imageDigest s), target_image desired (prior_row desired (fst s)) imageDigest}"
  shows "outcome rr desired A W r t \<or> (t = s \<and> r = Inl (E ''sandbox generation moved backwards'')) \<or>
    r = Inl (E ''unsupported desired state'') \<and> stored (sb_ID desired) t = Some (start_row rr desired imageDigest s)"
proof -
  define row where "row = start_row rr desired imageDigest s"
  define target where "target = target_image desired (prior_row desired (fst s)) imageDigest"
  define refresh where "refresh = (ls_ImageDigest row \<noteq> target)"
  define enabling where "enabling = ((sb_Cell desired \<and> \<not> ls_Cell (prior_row desired (fst s))) \<and> stored (sb_ID desired) s \<noteq> None)"
  note unfolded = pass_unfold [OF row_def target_def refresh_def enabling_def, of requiresSetup]
  have open_row: "open_row desired A row"
    using key by (auto simp: open_row_def kept_row_def row_def A_def) (auto simp: prior_row_def new_sandbox_def split: option.split)
  have id_row: "ls_ID row = sb_ID desired" using open_row by (simp add: open_row_def kept_row_def)
  have target: "target \<in> A" by (simp add: A_def target_def)
  have enabling: "enabling \<longrightarrow> \<not> ls_Cell row" by (simp add: enabling_def row_def)
  show ?thesis
  proof (cases "refresh \<and> sb_Generation desired < ls_ObservedGeneration row")
    case True
    then show ?thesis using run by (simp add: unfolded)
  next
    case False
    let ?Q = "\<lambda>r t. outcome rr desired A W r t \<or> r = Inl (E ''unsupported desired state'') \<and> stored (sb_ID desired) t = Some row"
    let ?rest = "if ls_DesiredState row = ''deleted'' then removeSandbox rr row
          else if ls_DesiredState row = ''stopped'' then stop_sandbox rr desired target refresh row
          else if ls_DesiredState row = ''running'' then run_sandbox rr desired target refresh enabling requiresSetup row
          else raise (E ''unsupported desired state'')"
    have runs: "ends (\<lambda>s. stored (sb_ID desired) s = Some row) (run_sandbox rr desired target refresh enabling requiresSetup row)
        (outcome rr desired A W)" if "ls_DesiredState row = ''running''"
      by (rule run_ends [OF open_row that enabling target]) (erule observed, erule kept)
    have "ends (\<lambda>s. stored (sb_ID desired) s = Some row) ?rest ?Q"
    proof (intro ends_if)
      assume "ls_DesiredState row = ''deleted''"
      from remove_ends [OF open_row this, of rr W]
      show "ends (\<lambda>s. stored (sb_ID desired) s = Some row) (removeSandbox rr row) ?Q" by (rule ends_weaken) simp_all
    next
      assume "ls_DesiredState row = ''stopped''"
      from stop_ends [OF open_row this target, of _ rr refresh W]
      show "ends (\<lambda>s. stored (sb_ID desired) s = Some row) (stop_sandbox rr desired target refresh row) ?Q" by (rule ends_weaken) simp_all
    next
      assume "ls_DesiredState row = ''running''"
      from runs [OF this]
      show "ends (\<lambda>s. stored (sb_ID desired) s = Some row) (run_sandbox rr desired target refresh enabling requiresSetup row) ?Q"
        by (rule ends_weaken) simp_all
    qed (rule ends_raise, simp)
    then have all: "ends (\<lambda>_. True) (andThen (put row) (\<lambda>_. ?rest)) ?Q"
      by (intro ends_put_then) (simp only: id_row)
    have "andThen (put row) (\<lambda>_. ?rest) s = (t, r)" using run unfolding unfolded if_not_P [OF False] .
    from endsD [OF all TrueI this] show ?thesis unfolding row_def by blast
  qed
qed

end
