(* ===== verification/Reconcile_Properties.thy ===== *)
theory Reconcile_Properties
  imports Reconcile_Sandbox_Laws Store_Cell_Properties
begin

text \<open>
  Properties of the pass over one sandbox: what it records, when it may store readiness, that it does not disturb work
  or bring back what has expired, and where the code does other than its comments say.
\<close>

section \<open>Examples\<close>

text \<open>An engine whose calls all succeed, in a world that does not change.\<close>

definition rcx_engine :: "unit engine" where
  "rcx_engine = \<lparr>en_Ensure = (\<lambda>_ _ _. give ()), en_Replace = (\<lambda>_ _ _ _. give ()), en_Recreate = (\<lambda>_ _ _ _. give ()),
     en_Start = (\<lambda>_. give ()), en_Stop = (\<lambda>_. give ()), en_Restart = (\<lambda>_. give ()), en_Remove = (\<lambda>_. give ()),
     en_Preflight = (\<lambda>_. give ()), en_ExecSetup = (\<lambda>_ _. give []), en_ObserveCellWitness = (\<lambda>_. give True),
     en_VerifyCellLifecycle = give ()\<rparr>"

text \<open>A node at second 100 whose cell tables are \<open>cells\<close>; a running sandbox that becomes a cell in generation 2.\<close>

definition rcx :: "cell_store \<Rightarrow> unit reconciler" where
  "rcx cells = \<lparr>rr_Engine = rcx_engine, rr_Workspaces = \<lparr>ws_Ensure = (\<lambda>_ _. give ''/w''), ws_Destroy = (\<lambda>_. give ())\<rparr>,
     rr_Access = (\<lambda>_. give ()), rr_Sessions = None, rr_Now = (\<lambda>_. seconds 100), rr_Lifecycle = None, rr_executing = (\<lambda>_ _. False),
     rr_tables = (\<lambda>_. \<lparr>wt_cells = cells, wt_projects = no_projects, wt_manager = no_manager\<rparr>),
     rr_codec = \<lparr>rc_encode = (\<lambda>_. []), rc_decode = (\<lambda>_. None)\<rparr>, rr_text = (\<lambda>_. ''no space'')\<rparr>"

definition rcx_sandbox :: Sandbox where
  "rcx_sandbox = \<lparr>sb_ID = ''sbx_alpha0001'', sb_Name = ''box'', sb_Size = ''small'', sb_Resources = noResources, sb_ImageDigest = [],
     sb_Lifetime = ''persistent'', sb_ExpiresInSeconds = None, sb_StartedAt = None, sb_ExpiresAt = None,
     sb_DesiredState = ''running'', sb_Generation = 2, sb_Cell = True\<rparr>"

definition rcx_row :: LocalSandbox where
  "rcx_row = (new_sandbox rcx_sandbox)\<lparr>ls_DesiredState := ''running'', ls_ObservedState := ''running'', ls_Generation := 1,
     ls_ObservedGeneration := 1, ls_Lifetime := ''persistent'', ls_ImageDigest := ''one''\<rparr>"

definition rcx_store :: "LocalSandbox \<Rightarrow> store" where
  "rcx_store row = empty_store\<lparr>st_sandboxes := [(''sbx_alpha0001'', row)]\<rparr>"

lemma rcx_stored [simp]: "Store_Sandbox ''sbx_alpha0001'' (rcx_store row) = Some row"
  by (simp add: rcx_store_def Store_Sandbox_def)

lemma rcx_fields [simp]:
  "sb_ID rcx_sandbox = ''sbx_alpha0001''" "sb_Cell rcx_sandbox" "sb_Lifetime rcx_sandbox = ''persistent''"
  "sb_DesiredState rcx_sandbox = ''running''" "sb_Generation rcx_sandbox = 2" "sb_ImageDigest rcx_sandbox = []"
  "ls_ID rcx_row = ''sbx_alpha0001''" "ls_ImageDigest rcx_row = ''one''" "ls_ObservedState rcx_row = ''running''"
  "ls_ObservedGeneration rcx_row = 1" "ls_Cell rcx_row = False" "ls_Lifetime rcx_row = ''persistent''"
  by (simp_all add: rcx_sandbox_def rcx_row_def new_sandbox_def)

text \<open>The statements of a pass, to run one.\<close>

lemmas runs = reading_def attempt_def andThen_def left_of_def right_of_def give_simps quiet_def result_of_def Let_def

section \<open>Every pass is recorded\<close>





section \<open>Readiness of cells\<close>

text \<open>
  C14. after a pass that accepted the manifest the row says that a cell is ready only if the
  manifest wants a cell, the sandbox is observed running, and the witness was observed on
  this pass: whatever a positive observation establishes and the preflight keeps holds at
  the end
\<close>

theorem cell_ready_observed:
  assumes "\<And>v. Store_Sandbox (sb_ID desired) (fst s) = Some v \<Longrightarrow> ls_ID v = sb_ID desired"
    and "\<And>w w'. en_ObserveCellWitness (rr_Engine rr) (sb_ID desired) w = (w', Inr True) \<Longrightarrow> W w'"
    and "\<And>w. W w \<Longrightarrow> W (fst (en_Preflight (rr_Engine rr) (sb_ID desired) w))"
    and "reconcileSandbox rr desired imageDigest requiresSetup s = (t, r)" and "r \<noteq> Inl (E ''sandbox generation moved backwards'')"
    and "Store_Sandbox (sb_ID desired) (fst t) = Some v" and "ls_CellReady v"
  shows "r = ok \<and> sb_Cell desired \<and> ls_ObservedState v = ''running'' \<and> W (snd t)"
  using sandbox_outcome [where W = W, OF assms(1-4)] assms(5-7)
  by (cases r) (auto simp: failed_row_def settled_row_def)

text \<open>A world that remembers whether the witness was observed.\<close>

definition rcx_seen :: "cell_store \<Rightarrow> bool reconciler" where
  "rcx_seen cells = \<lparr>rr_Engine = \<lparr>en_Ensure = (\<lambda>_ _ _. give ()), en_Replace = (\<lambda>_ _ _ _. give ()), en_Recreate = (\<lambda>_ _ _ _. give ()),
       en_Start = (\<lambda>_. give ()), en_Stop = (\<lambda>_. give ()), en_Restart = (\<lambda>_. give ()), en_Remove = (\<lambda>_. give ()),
       en_Preflight = (\<lambda>_. give ()), en_ExecSetup = (\<lambda>_ _. give []), en_ObserveCellWitness = (\<lambda>_ _. (True, Inr True)),
       en_VerifyCellLifecycle = give ()\<rparr>,
     rr_Workspaces = \<lparr>ws_Ensure = (\<lambda>_ _. give ''/w''), ws_Destroy = (\<lambda>_. give ())\<rparr>,
     rr_Access = (\<lambda>_. give ()), rr_Sessions = None, rr_Now = (\<lambda>_. seconds 100), rr_Lifecycle = None, rr_executing = (\<lambda>_ _. False),
     rr_tables = (\<lambda>_. \<lparr>wt_cells = cells, wt_projects = no_projects, wt_manager = no_manager\<rparr>),
     rr_codec = \<lparr>rc_encode = (\<lambda>_. []), rc_decode = (\<lambda>_. None)\<rparr>, rr_text = (\<lambda>_. ''no space'')\<rparr>"

lemma rcx_seen_engine [simp]: "en_ObserveCellWitness (rr_Engine (rcx_seen c)) i w = (True, Inr True)"
  "en_Preflight (rr_Engine (rcx_seen c)) i w = (w, ok)"
  by (simp_all add: rcx_seen_def give_simps)

lemma cell_ready_observed_witness:
  "case reconcileSandbox (rcx_seen no_cells) rcx_sandbox ''new'' True (rcx_store rcx_row, False) of
     (t, r) \<Rightarrow> map_option ls_CellReady (Store_Sandbox ''sbx_alpha0001'' (fst t)) = Some True \<and> r = ok \<and> snd t"
proof -
  let ?p = "reconcileSandbox (rcx_seen no_cells) rcx_sandbox ''new'' True (rcx_store rcx_row, False)"
  have ready: "map_option ls_CellReady (Store_Sandbox ''sbx_alpha0001'' (fst (fst ?p))) = Some True" by code_simp
  then obtain v where v: "Store_Sandbox ''sbx_alpha0001'' (fst (fst ?p)) = Some v" "ls_CellReady v" by auto
  have accepted: "snd ?p = ok" by code_simp
  have "snd ?p = ok \<and> sb_Cell rcx_sandbox \<and> ls_ObservedState v = ''running'' \<and> snd (fst ?p)"
    by (rule cell_ready_observed [where W = "\<lambda>w. w" and rr = "rcx_seen no_cells" and desired = rcx_sandbox and imageDigest = "''new''"
          and requiresSetup = True and s = "(rcx_store rcx_row, False)" and t = "fst ?p" and r = "snd ?p"])
      (use v accepted in \<open>auto simp: prod_eq_iff\<close>)
  with ready show ?thesis by (auto simp: split_beta)
qed

section \<open>Images\<close>

text \<open>
  without an explicit digest in the manifest the default image of the node has no influence
  on a sandbox that has an image: the pass is the same whatever the default is, and the
  image of the row stays
\<close>

theorem default_image_pinned:
  assumes "Store_Sandbox (sb_ID desired) (fst s) = Some v" and "ls_ID v = sb_ID desired" and "ls_ImageDigest v \<noteq> []"
    and "sb_ImageDigest desired = []"
  shows "reconcileSandbox rr desired imageDigest requiresSetup s = reconcileSandbox rr desired otherDigest requiresSetup s \<and>
    (\<exists>u. Store_Sandbox (sb_ID desired) (fst (fst (reconcileSandbox rr desired imageDigest requiresSetup s))) = Some u \<and>
      ls_ImageDigest u = ls_ImageDigest v)"
proof
  have target: "target_image desired (prior_row desired (fst s)) d = ls_ImageDigest v" for d
    using assms by (simp add: target_image_def prior_row_def)
  have pinned: "pinned_row desired (prior_row desired (fst s)) imageDigest = pinned_row desired (prior_row desired (fst s)) otherDigest"
    unfolding pinned_row_def target ..
  show "reconcileSandbox rr desired imageDigest requiresSetup s = reconcileSandbox rr desired otherDigest requiresSetup s"
    unfolding reconcileSandbox_def reading_def Let_def target pinned ..
  have image: "ls_ImageDigest (start_row rr desired imageDigest s) = ls_ImageDigest v"
    using assms by (simp add: prior_row_def)
  obtain t r where run: "reconcileSandbox rr desired imageDigest requiresSetup s = (t, r)" by fastforce
  have key: "\<And>u. stored (sb_ID desired) s = Some u \<Longrightarrow> ls_ID u = sb_ID desired" using assms(1,2) by simp
  show "\<exists>u. Store_Sandbox (sb_ID desired) (fst (fst (reconcileSandbox rr desired imageDigest requiresSetup s))) = Some u \<and>
      ls_ImageDigest u = ls_ImageDigest v"
    using sandbox_outcome [where W = "\<lambda>_. True", OF key _ _ run] image target assms(1)
    by (cases r) (auto simp: run failed_row_def settled_row_def kept_row_def)
qed

lemma default_image_pinned_witness:
  "reconcileSandbox (rcx no_cells) rcx_sandbox ''new'' False (rcx_store rcx_row, ()) =
     reconcileSandbox (rcx no_cells) rcx_sandbox ''newer'' False (rcx_store rcx_row, ())"
  by (rule default_image_pinned [THEN conjunct1, of _ _ rcx_row]) simp_all


section \<open>Expiry\<close>

text \<open>The calls that give a sandbox a running container, exchanged for any others.\<close>

definition other_starts :: "(Sandbox \<Rightarrow> string \<Rightarrow> string \<Rightarrow> ('w, unit) act) \<Rightarrow> (string \<Rightarrow> ('w, unit) act) \<Rightarrow> (string \<Rightarrow> ('w, unit) act) \<Rightarrow>
     (Sandbox \<Rightarrow> string \<Rightarrow> string \<Rightarrow> bool \<Rightarrow> ('w, unit) act) \<Rightarrow> (Sandbox \<Rightarrow> string \<Rightarrow> string \<Rightarrow> bool \<Rightarrow> ('w, unit) act) \<Rightarrow> 'w reconciler \<Rightarrow> 'w reconciler" where
  "other_starts ensure start restart replace recreate rr = rr\<lparr>rr_Engine := (rr_Engine rr)\<lparr>en_Ensure := ensure, en_Start := start,
     en_Restart := restart, en_Replace := replace, en_Recreate := recreate\<rparr>\<rparr>"

lemma other_starts_fields [simp]:
  "now (other_starts a b c d e rr) = now rr" "rr_Workspaces (other_starts a b c d e rr) = rr_Workspaces rr"
  "en_Remove (rr_Engine (other_starts a b c d e rr)) = en_Remove (rr_Engine rr)"
  "terminate_sandbox (other_starts a b c d e rr) i = terminate_sandbox rr i"
  "failSandbox (other_starts a b c d e rr) v m = failSandbox rr v m"
  by (auto simp: other_starts_def now_def terminate_sandbox_def failSandbox_def fun_eq_iff)

lemma remove_other_starts: "removeSandbox (other_starts a b c d e rr) v = removeSandbox rr v"
  by (simp add: removeSandbox_def)

lemma fail_fails: "ends P (failSandbox rr v code e) (\<lambda>r _. \<exists>e. r = Inl e)"
  unfolding failSandbox_def by (rule ends_attempt [OF ends_anything]) (auto intro!: ends_raise)

lemma remove_deletes:
  assumes "ls_ID v = i"
  shows "ends (\<lambda>s. stored i s = Some v) (removeSandbox rr v)
    (\<lambda>r t. r = ok \<longrightarrow> (\<exists>u. stored i t = Some u \<and> ls_ObservedState u = ''deleted''))" (is "ends _ _ ?Q")
proof (cases "ls_ObservedState v = ''deleted''")
  case True
  then show ?thesis by (auto simp: removeSandbox_def intro!: ends_give)
next
  case False
  have failed: "ends P (failSandbox rr u code e) ?Q" for P u code e
    by (rule ends_weaken [OF fail_fails]) auto
  show ?thesis
    unfolding removeSandbox_def if_not_P [OF False] Let_def
    by (intro ends_put_then ends_terminate_then ends_attempt [OF ends_anything] failed) (auto intro!: ends_put simp: assms)
qed

text \<open>
  C26. a temporary sandbox whose stored end has come is removed whatever the manifest wants
  and whatever end it now carries: no call that could give it a running container is made
  (the pass is the same for any such calls), and a pass that succeeds leaves it deleted
\<close>

theorem expired_never_started:
  assumes "Store_Sandbox (sb_ID desired) (fst s) = Some v" and "ls_ID v = sb_ID desired" and "ls_ExpiresAt v = Some over"
    and "sb_Lifetime desired = ''temporary''" and "over \<le> now rr (snd s)"
    and "reconcileSandbox rr desired imageDigest requiresSetup s = (t, r)"
  shows "reconcileSandbox (other_starts ensure start restart replace recreate rr) desired imageDigest requiresSetup s = (t, r) \<and>
    (r = ok \<longrightarrow> (\<exists>u. Store_Sandbox (sb_ID desired) (fst t) = Some u \<and> ls_ObservedState u = ''deleted''))"
proof -
  define row where "row = start_row rr desired imageDigest s"
  have wanted: "ls_DesiredState row = ''deleted''"
    using assms(1,3,4,5)
    by (simp add: row_def start_row_def pinned_row_def prior_row_def adopt_times_def Let_def adopt_desired_def)
  have same: "row = start_row (other_starts ensure start restart replace recreate rr) desired imageDigest s"
    by (simp add: row_def start_row_def)
  note pass = pass_unfold [OF row_def refl refl refl, of requiresSetup] pass_unfold [OF same refl refl refl, of requiresSetup]
  have equal: "reconcileSandbox (other_starts ensure start restart replace recreate rr) desired imageDigest requiresSetup s = (t, r)"
    using assms(6) unfolding pass wanted remove_other_starts by (simp only: simp_thms if_True)
  have settled: "\<exists>u. Store_Sandbox (sb_ID desired) (fst t) = Some u \<and> ls_ObservedState u = ''deleted''" if "r = ok"
  proof -
    have i: "ls_ID row = sb_ID desired" using assms(1,2) by (simp add: row_def prior_row_def)
    have kept: "\<not> (ls_ImageDigest row \<noteq> target_image desired (prior_row desired (fst s)) imageDigest \<and>
        sb_Generation desired < ls_ObservedGeneration row)"
    proof
      assume backwards: "ls_ImageDigest row \<noteq> target_image desired (prior_row desired (fst s)) imageDigest \<and>
        sb_Generation desired < ls_ObservedGeneration row"
      show False using assms(6) that unfolding pass(1) if_P [OF backwards] by simp
    qed
    have run: "andThen (put row) (\<lambda>_. removeSandbox rr row) s = (t, r)"
      using assms(6) unfolding pass(1) if_not_P [OF kept] wanted by (simp only: simp_thms if_True)
    have "ends (\<lambda>_. True) (andThen (put row) (\<lambda>_. removeSandbox rr row))
        (\<lambda>r t. r = ok \<longrightarrow> (\<exists>u. stored (sb_ID desired) t = Some u \<and> ls_ObservedState u = ''deleted''))"
      using remove_deletes [OF i] by (intro ends_put_then) (simp only: i)
    from endsD [OF this TrueI run] that show ?thesis by blast
  qed
  with equal show ?thesis by blast
qed


text \<open>A temporary sandbox that ended at second 90.\<close>

definition rcx_temporary :: Sandbox where
  "rcx_temporary = rcx_sandbox\<lparr>sb_Lifetime := ''temporary'', sb_Cell := False, sb_ExpiresAt := Some (seconds 1000)\<rparr>"

definition rcx_ended :: LocalSandbox where
  "rcx_ended = rcx_row\<lparr>ls_Lifetime := ''temporary'', ls_ExpiresAt := Some (seconds 90)\<rparr>"

lemma expired_never_started_witness:
  "\<exists>u. Store_Sandbox ''sbx_alpha0001'' (fst (fst (reconcileSandbox (rcx no_cells) rcx_temporary ''new'' False (rcx_store rcx_ended, ())))) = Some u \<and>
     ls_ObservedState u = ''deleted''"
proof -
  let ?p = "reconcileSandbox (rcx no_cells) rcx_temporary ''new'' False (rcx_store rcx_ended, ())"
  have accepted: "snd ?p = ok" by code_simp
  have i: "sb_ID rcx_temporary = ''sbx_alpha0001''" by (simp add: rcx_temporary_def)
  have "snd ?p = ok \<longrightarrow> (\<exists>u. Store_Sandbox (sb_ID rcx_temporary) (fst (fst ?p)) = Some u \<and> ls_ObservedState u = ''deleted'')"
    by (rule expired_never_started [of rcx_temporary "(rcx_store rcx_ended, ())" rcx_ended "seconds 90" "rcx no_cells", THEN conjunct2])
      (simp_all add: i, simp_all add: rcx_ended_def rcx_temporary_def now_def rcx_def seconds_def)
  then show ?thesis using accepted by (simp add: i)
qed


section \<open>The drain fence\<close>

text \<open>The calls that end, replace or disturb what runs, exchanged for any others.\<close>

definition other_disruptions :: "'w engine \<Rightarrow> 'w sessions option \<Rightarrow> 'w reconciler \<Rightarrow> 'w reconciler" where
  "other_disruptions other ss rr = rr\<lparr>rr_Engine := other\<lparr>en_VerifyCellLifecycle := en_VerifyCellLifecycle (rr_Engine rr),
     en_ObserveCellWitness := en_ObserveCellWitness (rr_Engine rr)\<rparr>, rr_Sessions := ss\<rparr>"

lemma other_disruptions_reads: "rr_tables (other_disruptions e ss rr) = rr_tables rr" "rr_codec (other_disruptions e ss rr) = rr_codec rr"
  "rr_executing (other_disruptions e ss rr) = rr_executing rr"
  by (simp_all add: other_disruptions_def)

lemma other_disruptions_fields [simp]:
  "now (other_disruptions e ss rr) = now rr" "rr_Workspaces (other_disruptions e ss rr) = rr_Workspaces rr"
  "failSandbox (other_disruptions e ss rr) v m = failSandbox rr v m"
  "observe_adoption (other_disruptions e ss rr) v = observe_adoption rr v"
  by (auto simp: other_disruptions_def now_def failSandbox_def fun_eq_iff observe_adoption_def)

lemma other_disruptions_reason [simp]: "sandboxActiveWorkReason (other_disruptions e ss rr) i w = sandboxActiveWorkReason rr i w"
  unfolding sandboxActiveWorkReason_def other_disruptions_reads ..

text \<open>What a cell transition does when it cannot adopt and the fence gives a reason in every world that has \<open>B\<close>.\<close>

definition hold_row :: "string \<Rightarrow> LocalSandbox \<Rightarrow> LocalSandbox" where
  "hold_row reason v = v\<lparr>ls_CellReady := False, ls_ErrorCode := ''cell_transition_work_pending'', ls_ErrorMessage := reason\<rparr>"

definition fence :: "'w reconciler \<Rightarrow> string \<Rightarrow> 'w \<Rightarrow> string" where
  "fence rr i w = (case sandboxActiveWorkReason rr i w of Inl _ \<Rightarrow> ''cell execution state is unverifiable'' | Inr reason \<Rightarrow> reason)"

lemma adoption_refused:
  assumes "\<And>w. snd (en_ObserveCellWitness (rr_Engine rr) (ls_ID v) w) \<noteq> Inr True"
  shows "\<exists>w'. observe_adoption rr v (a, w) = ((a, w'), Inr False) \<and>
    (w' = w \<or> w' = fst (en_VerifyCellLifecycle (rr_Engine rr) w) \<or>
     w' = fst (en_ObserveCellWitness (rr_Engine rr) (ls_ID v) (fst (en_VerifyCellLifecycle (rr_Engine rr) w))))"
proof (cases "ls_ObservedState v = ''running''")
  case False
  then show ?thesis by (simp add: observe_adoption_def give_simps)
next
  case True
  obtain w1 r1 where verify: "en_VerifyCellLifecycle (rr_Engine rr) w = (w1, r1)" by fastforce
  obtain w2 r2 where observe: "en_ObserveCellWitness (rr_Engine rr) (ls_ID v) w1 = (w2, r2)" by fastforce
  from assms [of w1] have "r2 \<noteq> Inr True" by (simp add: observe)
  then show ?thesis
    using True by (cases r1; cases r2) (auto simp: observe_adoption_def runs verify observe)
qed

lemma transition_held:
  assumes "\<And>w. snd (en_ObserveCellWitness (rr_Engine rr) (ls_ID v) w) \<noteq> Inr True"
    and "\<And>w. B w \<Longrightarrow> B (fst (en_VerifyCellLifecycle (rr_Engine rr) w))"
    and "\<And>w. B w \<Longrightarrow> B (fst (en_ObserveCellWitness (rr_Engine rr) (ls_ID v) w))"
    and "\<And>w. B w \<Longrightarrow> fence rr (ls_ID v) w \<noteq> []" and "B w"
  shows "\<exists>w'. enter_cell rr desired workspace v (a, w) =
    ((fst (Store_PutSandbox (hold_row (fence rr (ls_ID v) w') v) a), w'), Inr None) \<and> B w' \<and>
    observe_adoption rr v (a, w) = ((a, w'), Inr False)"
proof -
  from adoption_refused [OF assms(1), of a w] obtain w' where w': "observe_adoption rr v (a, w) = ((a, w'), Inr False)"
    and "w' = w \<or> w' = fst (en_VerifyCellLifecycle (rr_Engine rr) w) \<or>
      w' = fst (en_ObserveCellWitness (rr_Engine rr) (ls_ID v) (fst (en_VerifyCellLifecycle (rr_Engine rr) w)))" by blast
  then have B: "B w'" using assms(2,3,5) by metis
  with assms(4) have reason: "fence rr (ls_ID v) w' \<noteq> []" by blast
  have "put (hold_row (fence rr (ls_ID v) w') v) (a, w') = ((fst (Store_PutSandbox (hold_row (fence rr (ls_ID v) w') v) a), w'), ok)"
    by (simp add: left_of_def Let_def split_beta)
  then have "enter_cell rr desired workspace v (a, w) =
      ((fst (Store_PutSandbox (hold_row (fence rr (ls_ID v) w') v) a), w'), Inr None)"
    using reason unfolding enter_cell_def fence_def hold_row_def
    by (simp add: andThen_def attempt_Inr [where m = "observe_adoption rr v", OF w'] reading_def Let_def) (simp add: attempt_def give_simps)
  with w' B show ?thesis by blast
qed


text \<open>The two ways such a pass can end: the workspace could not be made, or the transition is held.\<close>

definition held_run ::
  "'w reconciler \<Rightarrow> Sandbox \<Rightarrow> ('w \<Rightarrow> bool) \<Rightarrow> LocalSandbox \<Rightarrow> store \<times> 'w \<Rightarrow> (store \<times> 'w) \<times> (goerr + unit) \<Rightarrow> bool" where
  "held_run rr desired B row s p \<longleftrightarrow>
     (let a = fst (Store_PutSandbox row (fst s));
          made = ws_Ensure (rr_Workspaces rr) (sb_ID desired) (r_WorkspaceDiskGiB (ls_Resources row)) (snd s) in
      (\<exists>e. snd made = Inl e \<and> p = failSandbox rr row ''workspace_create_failed'' e (a, fst made)) \<or>
      ((\<forall>e. snd made \<noteq> Inl e) \<and> (\<exists>w. B w \<and> observe_adoption rr row (a, fst made) = ((a, w), Inr False) \<and>
        p = ((fst (Store_PutSandbox (hold_row (fence rr (sb_ID desired) w) row) a), w), ok))))"

lemma held_pass:
  assumes row: "row = start_row rr desired imageDigest s"
    and prior: "Store_Sandbox (sb_ID desired) (fst s) = Some v" "ls_ID v = sb_ID desired" "\<not> ls_Cell v" "ls_ImageDigest v \<noteq> []"
    and wanted: "sb_Cell desired" "sb_ImageDigest desired \<in> {[], ls_ImageDigest v}" "ls_DesiredState row = ''running''"
      "\<not> (ls_ObservedState v = ''deleted'' \<and> sb_Lifetime desired = ''temporary'')"
    and unseen: "\<And>w. snd (en_ObserveCellWitness (rr_Engine rr) (sb_ID desired) w) \<noteq> Inr True"
    and kept: "\<And>w. B w \<Longrightarrow> B (fst (en_VerifyCellLifecycle (rr_Engine rr) w))"
      "\<And>w. B w \<Longrightarrow> B (fst (en_ObserveCellWitness (rr_Engine rr) (sb_ID desired) w))"
      "\<And>w i n. B w \<Longrightarrow> B (fst (ws_Ensure (rr_Workspaces rr) i n w))"
    and busy: "\<And>w. B w \<Longrightarrow> fence rr (sb_ID desired) w \<noteq> []" "B (snd s)"
  shows "held_run rr desired B row s (reconcileSandbox rr desired imageDigest requiresSetup s)"
proof -
  let ?a = "fst (Store_PutSandbox row (fst s))"
  let ?ensure = "ws_Ensure (rr_Workspaces rr) (sb_ID desired) (r_WorkspaceDiskGiB (ls_Resources row))"
  have prior_row: "prior_row desired (fst s) = v" by (simp add: prior_row_def prior(1))
  have target: "target_image desired (prior_row desired (fst s)) imageDigest = ls_ImageDigest row"
    using prior wanted by (auto simp: target_image_def prior_row row)
  have i: "ls_ID row = sb_ID desired" by (simp add: row prior_row prior)
  have live: "\<not> (ls_ObservedState row = ''deleted'' \<and> ls_Lifetime row = ''temporary'')" using wanted(4) by (simp add: row prior_row)
  have put: "put row s = ((?a, snd s), ok)" by (simp add: left_of_def Let_def split_beta)
  have enabling: "((sb_Cell desired \<and> \<not> ls_Cell (prior_row desired (fst s))) \<and> stored (sb_ID desired) s \<noteq> None) = True"
    using prior wanted by (simp add: prior_row)
  have "reconcileSandbox rr desired imageDigest requiresSetup s =
      andThen (put row) (\<lambda>_. run_sandbox rr desired (ls_ImageDigest row) False True requiresSetup row) s"
    unfolding pass_unfold [OF row refl refl refl, of requiresSetup] target enabling wanted(3) by simp
  then have pass: "reconcileSandbox rr desired imageDigest requiresSetup s =
      run_sandbox rr desired (ls_ImageDigest row) False True requiresSetup row (?a, snd s)"
    by (simp add: andThen_def attempt_Inr [where m = "put row", OF put])
  obtain w r where made: "?ensure (snd s) = (w, r)" by fastforce
  have call: "call ?ensure (?a, snd s) = ((?a, w), r)" by (simp add: right_of_def made)
  show ?thesis
  proof (cases r)
    case (Inl e)
    have "reconcileSandbox rr desired imageDigest requiresSetup s = failSandbox rr row ''workspace_create_failed'' e (?a, w)"
      unfolding pass run_sandbox_def if_not_P [OF live] Let_def i
      by (rule attempt_Inl) (simp add: call Inl)
    then show ?thesis using made Inl by (simp add: held_run_def Let_def)
  next
    case (Inr workspace)
    have "B w" using kept(3) [OF busy(2)] made by (metis fst_conv)
    from transition_held [of rr row B w desired workspace ?a] obtain w' where held:
      "enter_cell rr desired workspace row (?a, w) = ((fst (Store_PutSandbox (hold_row (fence rr (sb_ID desired) w') row) ?a), w'), Inr None)"
      "B w'" "observe_adoption rr row (?a, w) = ((?a, w'), Inr False)"
      using unseen kept busy(1) \<open>B w\<close> unfolding i by blast
    have entered: "start_container rr desired workspace (ls_ImageDigest row) False True row = enter_cell rr desired workspace row"
      by (simp add: start_container_def)
    have "reconcileSandbox rr desired imageDigest requiresSetup s =
        ((fst (Store_PutSandbox (hold_row (fence rr (sb_ID desired) w') row) ?a), w'), ok)"
      unfolding pass run_sandbox_def if_not_P [OF live] Let_def i entered
      by (simp add: andThen_def attempt_def call Inr entered held(1) give_simps)
    then show ?thesis using made Inr held(2,3) unfolding held_run_def Let_def
      by (intro disjI2 conjI exI [of _ w']) simp_all
  qed
qed


text \<open>
  C9. while the drain fence sees work (or cannot read the state of work), a sandbox whose
  container cannot be adopted as a cell is not disturbed by the cell flag: no container is
  started, stopped, replaced or removed and no session ended (the pass is the same for any
  such calls), and a pass that succeeds holds the transition with the reason, the old
  generation and the observed state in the row
\<close>

theorem transition_waits_for_work:
  assumes "Store_Sandbox (sb_ID desired) (fst s) = Some v" and "ls_ID v = sb_ID desired" and "\<not> ls_Cell v" and "ls_ImageDigest v \<noteq> []"
    and "sb_Cell desired" and "sb_ImageDigest desired \<in> {[], ls_ImageDigest v}" and "ls_DesiredState (start_row rr desired imageDigest s) = ''running''"
    and "\<not> (ls_ObservedState v = ''deleted'' \<and> sb_Lifetime desired = ''temporary'')"
    and "\<And>w. snd (en_ObserveCellWitness (rr_Engine rr) (sb_ID desired) w) \<noteq> Inr True"
    and "\<And>w. B w \<Longrightarrow> B (fst (en_VerifyCellLifecycle (rr_Engine rr) w))"
    and "\<And>w. B w \<Longrightarrow> B (fst (en_ObserveCellWitness (rr_Engine rr) (sb_ID desired) w))"
    and "\<And>w i n. B w \<Longrightarrow> B (fst (ws_Ensure (rr_Workspaces rr) i n w))"
    and "\<And>w. B w \<Longrightarrow> sandboxActiveWorkReason rr (sb_ID desired) w \<noteq> Inr []" and "B (snd s)"
  shows "reconcileSandbox (other_disruptions other ss rr) desired imageDigest requiresSetup s = reconcileSandbox rr desired imageDigest requiresSetup s \<and>
    (snd (reconcileSandbox rr desired imageDigest requiresSetup s) = ok \<longrightarrow>
      (\<exists>u. Store_Sandbox (sb_ID desired) (fst (fst (reconcileSandbox rr desired imageDigest requiresSetup s))) = Some u \<and>
        ls_ErrorCode u = ''cell_transition_work_pending'' \<and> ls_ErrorMessage u \<noteq> [] \<and> \<not> ls_Cell u \<and> \<not> ls_CellReady u \<and>
        ls_ObservedState u = ls_ObservedState v \<and> ls_ObservedGeneration u = ls_ObservedGeneration v))"
proof -
  let ?rr = "other_disruptions other ss rr"
  define row where "row = start_row rr desired imageDigest s"
  have row': "row = start_row ?rr desired imageDigest s" by (simp add: row_def start_row_def)
  have wanted: "ls_DesiredState row = ''running''" using assms(7) by (simp add: row_def)
  have busy: "\<And>w. B w \<Longrightarrow> fence rr (sb_ID desired) w \<noteq> []"
    using assms(13) by (auto simp: fence_def split: sum.split)
  have fences: "fence ?rr = fence rr" by (simp add: fence_def fun_eq_iff)
  have calls: "en_ObserveCellWitness (rr_Engine ?rr) = en_ObserveCellWitness (rr_Engine rr)"
    "en_VerifyCellLifecycle (rr_Engine ?rr) = en_VerifyCellLifecycle (rr_Engine rr)" by (simp_all add: other_disruptions_def)
  have one: "held_run rr desired B row s (reconcileSandbox rr desired imageDigest requiresSetup s)"
    by (rule held_pass [OF row_def assms(1-6) wanted assms(8)]) (fact assms(9-12,14) busy)+
  have "held_run ?rr desired B row s (reconcileSandbox ?rr desired imageDigest requiresSetup s)"
    by (rule held_pass [OF row' assms(1-6) wanted assms(8)]; (unfold fences calls other_disruptions_fields)?) (fact assms(9-12,14) busy)+
  then have "held_run rr desired B row s (reconcileSandbox ?rr desired imageDigest requiresSetup s)"
    by (simp add: held_run_def fences)
  with one have same: "reconcileSandbox ?rr desired imageDigest requiresSetup s = reconcileSandbox rr desired imageDigest requiresSetup s"
    by (auto simp: held_run_def Let_def)
  have "ls_ID row = sb_ID desired" "ls_ObservedState row = ls_ObservedState v" "ls_ObservedGeneration row = ls_ObservedGeneration v" "\<not> ls_Cell row"
    using assms(1-5) by (simp_all add: row_def prior_row_def)
  then have "snd (reconcileSandbox rr desired imageDigest requiresSetup s) = ok \<longrightarrow>
      (\<exists>u. Store_Sandbox (sb_ID desired) (fst (fst (reconcileSandbox rr desired imageDigest requiresSetup s))) = Some u \<and>
        ls_ErrorCode u = ''cell_transition_work_pending'' \<and> ls_ErrorMessage u \<noteq> [] \<and> \<not> ls_Cell u \<and> \<not> ls_CellReady u \<and>
        ls_ObservedState u = ls_ObservedState v \<and> ls_ObservedGeneration u = ls_ObservedGeneration v)"
    using one busy unfolding held_run_def Let_def
    by (elim disjE exE conjE) (auto simp: hold_row_def failSandbox_def runs split_beta)
  with same show ?thesis by blast
qed


text \<open>The same node, where the witness is not observed and an execution of the sandbox is exhausted but not settled.\<close>

definition rcx_blind :: "unit reconciler" where
  "rcx_blind = (rcx pcx_exhausted)\<lparr>rr_Engine := rcx_engine\<lparr>en_ObserveCellWitness := (\<lambda>_. give False)\<rparr>\<rparr>"

lemma rcx_blind_busy: "sandboxActiveWorkReason rcx_blind ''sbx_alpha0001'' w \<noteq> Inr []"
  by (simp add: rcx_blind_def rcx_def sandboxActiveWorkReason_def Store_CellV3Operations_def Store_CellOperations_def order_by_def
      operation_reason_def cellOperationActive_def pcx_v2_run)

lemma transition_waits_for_work_witness:
  "\<exists>u. Store_Sandbox ''sbx_alpha0001'' (fst (fst (reconcileSandbox rcx_blind rcx_sandbox ''new'' True (rcx_store rcx_row, ())))) = Some u \<and>
     ls_ErrorCode u = ''cell_transition_work_pending'' \<and> ls_ObservedState u = ''running'' \<and> ls_ObservedGeneration u = 1"
proof -
  let ?p = "reconcileSandbox rcx_blind rcx_sandbox ''new'' True (rcx_store rcx_row, ())"
  have accepted: "snd ?p = ok" by code_simp
  have wanted: "ls_DesiredState (start_row rcx_blind rcx_sandbox ''new'' (rcx_store rcx_row, ())) = ''running''" by code_simp
  have "snd ?p = ok \<longrightarrow> (\<exists>u. Store_Sandbox (sb_ID rcx_sandbox) (fst (fst ?p)) = Some u \<and>
        ls_ErrorCode u = ''cell_transition_work_pending'' \<and> ls_ErrorMessage u \<noteq> [] \<and> \<not> ls_Cell u \<and> \<not> ls_CellReady u \<and>
        ls_ObservedState u = ls_ObservedState rcx_row \<and> ls_ObservedGeneration u = ls_ObservedGeneration rcx_row)"
    by (rule transition_waits_for_work [of rcx_sandbox "(rcx_store rcx_row, ())" rcx_row rcx_blind "''new''" "\<lambda>_. True", THEN conjunct2])
      (simp_all add: wanted rcx_blind_busy, simp add: rcx_blind_def give_simps)
  with accepted show ?thesis by auto
qed

section \<open>Generations\<close>




text \<open>
  a manifest with a lower generation than the one observed is refused only when it also
  changes the image; otherwise a running sandbox takes the lower generation, in its row and
  as the generation observed
\<close>

theorem backwards_generation_accepted:
  assumes "Store_Sandbox (sb_ID desired) (fst s) = Some v" and "ls_ID v = sb_ID desired" and "ls_ImageDigest v \<noteq> []"
    and "\<not> sb_Cell desired" and "sb_ImageDigest desired \<in> {[], ls_ImageDigest v}" and "ls_DesiredState (start_row rr desired imageDigest s) = ''running''"
    and "ls_ObservedState v = ''running''" and "sb_Generation desired < ls_ObservedGeneration v"
    and "ws_Ensure (rr_Workspaces rr) (sb_ID desired) (r_WorkspaceDiskGiB (ls_Resources (start_row rr desired imageDigest s))) (snd s) = (w1, Inr workspace)"
    and "en_Ensure (rr_Engine rr) desired workspace (ls_ImageDigest v) w1 = (w2, ok)"
  shows "snd (reconcileSandbox rr desired imageDigest False s) = ok \<and>
    (\<exists>u. Store_Sandbox (sb_ID desired) (fst (fst (reconcileSandbox rr desired imageDigest False s))) = Some u \<and>
      ls_Generation u = sb_Generation desired \<and> ls_ObservedGeneration u = sb_Generation desired \<and> ls_ObservedGeneration u < ls_ObservedGeneration v)"
proof -
  define row where "row = start_row rr desired imageDigest s"
  let ?a = "fst (Store_PutSandbox row (fst s))"
  have prior_row: "prior_row desired (fst s) = v" by (simp add: prior_row_def assms(1))
  have target: "target_image desired (prior_row desired (fst s)) imageDigest = ls_ImageDigest row"
    using assms(3,5) by (auto simp: target_image_def prior_row row_def)
  have fields: "ls_ID row = sb_ID desired" "ls_ObservedState row = ''running''" "ls_ObservedGeneration row = ls_ObservedGeneration v"
    "ls_Generation row = sb_Generation desired" "ls_ImageDigest row = ls_ImageDigest v" "ls_DesiredState row = ''running''"
    using assms(2,3,6,7) by (simp_all add: row_def prior_row)
  have put: "put u (a, w) = ((fst (Store_PutSandbox u a), w), ok)" for u a and w :: 'a by (simp add: left_of_def Let_def split_beta)
  have live: "\<not> (ls_ObservedState row = ''deleted'' \<and> ls_Lifetime row = ''temporary'')" by (simp add: fields)
  have enabling: "((sb_Cell desired \<and> \<not> ls_Cell (prior_row desired (fst s))) \<and> stored (sb_ID desired) s \<noteq> None) = False"
    using assms(4) by simp
  have pass: "reconcileSandbox rr desired imageDigest False s =
      andThen (put row) (\<lambda>_. run_sandbox rr desired (ls_ImageDigest row) False False False row) s"
    unfolding pass_unfold [OF row_def refl refl refl, of False] target enabling fields(6) by simp
  have ensured: "start_container rr desired workspace (ls_ImageDigest row) False False row (?a, w1) = ((?a, w2), Inr (Some (row, None)))"
    using assms(8) by (simp add: start_container_def fields attempt_def right_of_def Let_def assms(10) give_simps)
  have "run_sandbox rr desired (ls_ImageDigest row) False False False row (?a, snd s) =
      ((fst (Store_PutSandbox ((started_row (now rr w2) row)\<lparr>ls_CellReady := False, ls_Cell := False\<rparr>) ?a), w2), ok)"
    unfolding run_sandbox_def if_not_P [OF live] fields(1)
    by (simp add: andThen_def attempt_def right_of_def Let_def assms(9) [folded row_def] ensured give_simps reading_def observe_cell_def
        assms(4) put)
  then have "reconcileSandbox rr desired imageDigest False s =
      ((fst (Store_PutSandbox ((started_row (now rr w2) row)\<lparr>ls_CellReady := False, ls_Cell := False\<rparr>) ?a), w2), ok)"
    unfolding pass andThen_def by (cases s) (simp add: attempt_def put)
  then show ?thesis using fields assms(8) by simp
qed

definition rcx_older :: Sandbox where
  "rcx_older = rcx_sandbox\<lparr>sb_Cell := False, sb_Generation := 0\<rparr>"

lemma backwards_generation_accepted_witness:
  "\<exists>u. Store_Sandbox ''sbx_alpha0001'' (fst (fst (reconcileSandbox (rcx no_cells) rcx_older ''new'' False (rcx_store rcx_row, ())))) = Some u \<and>
     ls_ObservedGeneration u = 0"
proof -
  have wanted: "ls_DesiredState (start_row (rcx no_cells) rcx_older ''new'' (rcx_store rcx_row, ())) = ''running''" by code_simp
  have fields: "sb_ID rcx_older = ''sbx_alpha0001''" "\<not> sb_Cell rcx_older" "sb_ImageDigest rcx_older = []" "sb_Generation rcx_older = 0"
    by (simp_all add: rcx_older_def)
  from backwards_generation_accepted [of rcx_older "(rcx_store rcx_row, ())" rcx_row "rcx no_cells" "''new''" "()" "''/w''" "()"]
  show ?thesis using wanted fields by (auto simp: rcx_def rcx_engine_def give_simps)
qed

end
