(* ===== verification/Go_Invariants.thy ===== *)
theory Go_Invariants
  imports Go_Effects
begin

text \<open>
  Invariants of statements. \<open>keeping I m G\<close>: from a state with \<open>I\<close> the statement ends in a state with \<open>I\<close>, whether it fails
  or not, and \<open>G\<close> holds of its result. One rule for each way to put statements together.
\<close>

definition keeping :: "('s \<Rightarrow> bool) \<Rightarrow> ('s, 'a) act \<Rightarrow> ('a \<Rightarrow> bool) \<Rightarrow> bool" where
  "keeping I m G \<longleftrightarrow> ends I m (\<lambda>r s. I s \<and> (\<forall>x. r = Inr x \<longrightarrow> G x))"

lemma keepingI: "(\<And>s. I s \<Longrightarrow> I (fst (m s)) \<and> (\<forall>x. snd (m s) = Inr x \<longrightarrow> G x)) \<Longrightarrow> keeping I m G"
  by (simp add: keeping_def ends_def)

lemma keepingD: "keeping I m G \<Longrightarrow> I s \<Longrightarrow> m s = (t, r) \<Longrightarrow> I t"
  by (drule endsD [of I m, rotated 1, rotated 1]) (auto simp: keeping_def ends_def)

lemma keeping_give: "G x \<Longrightarrow> keeping I (give x) G"
  by (simp add: keeping_def ends_give)

lemma keeping_raise: "keeping I (raise e) G"
  by (simp add: keeping_def ends_raise)

lemma keeping_attempt:
  assumes "keeping I m H" and "\<And>e. keeping I (h e) G" and "\<And>x. H x \<Longrightarrow> keeping I (k x) G"
  shows "keeping I (attempt m h k) G"
proof (rule keepingI)
  fix s
  assume "I s"
  then have m: "I (fst (m s)) \<and> (\<forall>x. snd (m s) = Inr x \<longrightarrow> H x)"
    using assms(1) by (simp add: keeping_def ends_def)
  obtain t r where p: "m s = (t, r)" by fastforce
  show "I (fst (attempt m h k s)) \<and> (\<forall>x. snd (attempt m h k s) = Inr x \<longrightarrow> G x)"
    using assms(2) [unfolded keeping_def ends_def] assms(3) [unfolded keeping_def ends_def] m p by (cases r) (auto simp: attempt_def)
qed

lemma keeping_andThen: "keeping I m H \<Longrightarrow> (\<And>x. H x \<Longrightarrow> keeping I (k x) G) \<Longrightarrow> keeping I (andThen m k) G"
  unfolding andThen_def by (rule keeping_attempt [OF _ keeping_raise])

lemma keeping_if: "(b \<Longrightarrow> keeping I m G) \<Longrightarrow> (\<not> b \<Longrightarrow> keeping I n G) \<Longrightarrow> keeping I (if b then m else n) G"
  by simp

lemma keeping_reading: "(\<And>s. I s \<Longrightarrow> keeping I (f s) G) \<Longrightarrow> keeping I (reading f) G"
  by (simp add: keeping_def ends_def reading_def)

text \<open>The statement is known together with the state it reads.\<close>

lemma keeping_here: "(\<And>s. I s \<Longrightarrow> I (fst (f s s)) \<and> (\<forall>x. snd (f s s) = Inr x \<longrightarrow> G x)) \<Longrightarrow> keeping I (reading f) G"
  by (rule keepingI) (simp add: reading_def)

lemma keeping_quiet: "keeping I m H \<Longrightarrow> keeping I (quiet m) (\<lambda>_. True)"
  by (simp add: keeping_def ends_def quiet_def)

lemma keeping_result: "keeping I m H \<Longrightarrow> keeping I (result_of m) (\<lambda>r. \<forall>x. r = Inr x \<longrightarrow> H x)"
  by (simp add: keeping_def ends_def result_of_def)

lemma keeping_wrapping: "keeping I m G \<Longrightarrow> keeping I (wrapping f m) G"
  unfolding wrapping_def by (erule keeping_attempt) (auto intro: keeping_raise keeping_give)

lemma keeping_each: "(\<And>x. x \<in> set xs \<Longrightarrow> keeping I (f x) H) \<Longrightarrow> keeping I (each f xs) (\<lambda>_. True)"
  by (induction xs) (auto intro!: keeping_give keeping_andThen)

lemma keeping_left: "(\<And>a b. I (a, b) \<Longrightarrow> I (fst (f a), b)) \<Longrightarrow> keeping I (left_of f) (\<lambda>_. True)"
  by (simp add: keeping_def ends_def left_of_def split_beta)

lemma keeping_right: "(\<And>a b. I (a, b) \<Longrightarrow> I (a, fst (f b)) \<and> (\<forall>x. snd (f b) = Inr x \<longrightarrow> G x)) \<Longrightarrow> keeping I (right_of f) G"
  by (simp add: keeping_def ends_def right_of_def split_beta)

lemma keeping_weaken: "keeping I m H \<Longrightarrow> (\<And>x. H x \<Longrightarrow> G x) \<Longrightarrow> keeping I m G"
  by (simp add: keeping_def ends_def)

end
