(* ===== verification/Reconcile_Rows.thy ===== *)
theory Reconcile_Rows
  imports Reconcile_Properties Go_Invariants
begin

text \<open>
  The rows of sandboxes over whole runs of the reconciler: their states, codes and flags stay in their vocabulary
  whatever the calls do, and what the expiry of temporary sandboxes leaves.
\<close>

section \<open>The vocabulary of a row\<close>

definition observed_states :: "string set" where
  "observed_states = {''pending'', ''creating'', ''running'', ''restarting'', ''stopping'', ''stopped'', ''deleting'', ''deleted'', ''failed''}"

definition typed_row :: "LocalSandbox \<Rightarrow> bool" where
  "typed_row v \<longleftrightarrow> validDesired (ls_DesiredState v) \<and> ls_ObservedState v \<in> observed_states \<and>
     (ls_Lifetime v = ''persistent'' \<and> ls_ExpiresInSeconds v = None \<and> ls_ExpiresAt v = None \<or> ls_Lifetime v = ''temporary'') \<and>
     (ls_ErrorCode v = [] \<and> ls_ErrorMessage v = [] \<or> ls_ErrorCode v \<in> failure_codes \<and> length (ls_ErrorMessage v) \<le> 300 \<or>
      ls_ErrorCode v = ''cell_transition_work_pending'') \<and>
     (ls_CellReady v \<longrightarrow> ls_Cell v) \<and> 1 \<le> ls_Generation v"









section \<open>Changes of one row\<close>


lemma typed_fields [simp]:
  "typed_row (v\<lparr>ls_ImageDigest := x\<rparr>) = typed_row v" "typed_row (v\<lparr>ls_ObservedGeneration := y\<rparr>) = typed_row v"
  by (simp_all add: typed_row_def)

lemma states [simp]:
  "''creating'' \<in> observed_states" "''running'' \<in> observed_states" "''restarting'' \<in> observed_states" "''stopping'' \<in> observed_states"
  "''stopped'' \<in> observed_states" "''deleting'' \<in> observed_states" "''deleted'' \<in> observed_states" "''failed'' \<in> observed_states"
  "''pending'' \<in> observed_states"
  by (simp_all add: observed_states_def)


lemma codes [simp]:
  "''workspace_create_failed'' \<in> failure_codes" "''container_stop_failed'' \<in> failure_codes" "''container_restart_failed'' \<in> failure_codes"
  "''container_start_failed'' \<in> failure_codes" "''container_reconcile_failed'' \<in> failure_codes" "''container_create_failed'' \<in> failure_codes"
  "''nested_sandbox_preflight_failed'' \<in> failure_codes" "''container_delete_failed'' \<in> failure_codes"
  "''workspace_delete_failed'' \<in> failure_codes" "imageReplaceErrorCode e \<in> failure_codes"
  by (simp_all add: failure_codes_def imageReplaceErrorCode_def)




section \<open>The pass\<close>

text \<open>A row that has adopted the manifest is not ready until the witness was observed.\<close>

definition fresh_row :: "LocalSandbox \<Rightarrow> bool" where
  "fresh_row v \<longleftrightarrow> typed_row v \<and> \<not> ls_CellReady v"

lemma fresh_fields [simp]:
  "fresh_row (v\<lparr>ls_ImageDigest := x\<rparr>) = fresh_row v" "fresh_row (v\<lparr>ls_ObservedGeneration := y\<rparr>) = fresh_row v"
  by (simp_all add: fresh_row_def)















lemma pinned_fields [simp]:
  "ls_ObservedState (pinned_row desired v i) = ls_ObservedState v" "ls_ErrorCode (pinned_row desired v i) = ls_ErrorCode v"
  "ls_ErrorMessage (pinned_row desired v i) = ls_ErrorMessage v" "ls_CellReady (pinned_row desired v i) = False"
  "ls_Generation (pinned_row desired v i) = sb_Generation desired" "ls_Lifetime (pinned_row desired v i) = sb_Lifetime desired"
  "ls_DesiredState (pinned_row desired v i) = sb_DesiredState desired"
  by (simp_all add: pinned_row_def) (simp_all add: adopt_desired_def)

lemma adopt_times_errors [simp]:
  "ls_ErrorCode (adopt_times t desired v) = ls_ErrorCode v" "ls_ErrorMessage (adopt_times t desired v) = ls_ErrorMessage v"
  unfolding adopt_times_def Let_def by (simp_all split: option.split)



section \<open>Runs of the reconciler\<close>









section \<open>Expiry\<close>









end
