(* ===== verification/Reconcile_Grants.thy ===== *)
theory Reconcile_Grants
  imports Reconcile_Sandbox_Laws
begin

text \<open>
  What a successful pass over the access grants establishes: the table is exactly what the manifest says, the mapping
  that the gateway serves was written from it, and the sessions of what is revoked were ended before.
\<close>

section \<open>The table after each loop\<close>

lemma grant_key: "sandbox_refs a \<Longrightarrow> Store_Grant i a = Some x \<Longrightarrow> lg_ID x = i"
  by (simp add: sandbox_refs_def keyed_by_def Store_Grant_def)

lemma listed_once:
  assumes "keyed_by key t"
  shows "distinct (map snd (order_by R t))"
proof -
  have key: "key (snd p) = fst p" if "p \<in> set t" for p
    using assms that by (cases p) (auto simp: keyed_by_def wf_tbl_def)
  have "distinct (map fst t)" using assms by (simp add: keyed_by_def wf_tbl_def)
  moreover have "map fst t = map key (map snd t)" using key by simp
  ultimately have "distinct (map snd t)" by (metis distinct_map)
  then show ?thesis by simp
qed

lemma Grants_once: "sandbox_refs s \<Longrightarrow> distinct (Store_Grants s)"
  unfolding Store_Grants_def sandbox_refs_def by (intro listed_once [where key = lg_ID]) simp

definition settled_grant :: "LocalGrant \<Rightarrow> LocalGrant" where
  "settled_grant g = g\<lparr>lg_ObservedState := (if lg_DesiredState g = ''active'' then ''applied'' else ''revoked''),
     lg_ErrorCode := [], lg_ErrorMessage := []\<rparr>"

definition revoked_grant :: "LocalGrant \<Rightarrow> LocalGrant" where
  "revoked_grant g = g\<lparr>lg_DesiredState := ''revoked'', lg_ObservedState := ''revoking''\<rparr>"

lemma grant_put:
  "Store_PutGrant v a = (a', Inr x) \<Longrightarrow> Store_Grant i a' = (if i = lg_ID v then Some v else Store_Grant i a)"
  "Store_PutGrant v a = (a', Inr x) \<Longrightarrow> sandbox_refs a \<Longrightarrow> sandbox_refs a'"
  using sandbox_refs_PutGrant [of a v]
  by (auto simp: Store_PutGrant_def Store_Grant_def split: if_splits)

lemma grant_delete:
  "Store_DeleteGrant k a = (a', Inr x) \<Longrightarrow> Store_Grant i a' = (if i = k then None else Store_Grant i a)"
  "Store_DeleteGrant k a = (a', Inr x) \<Longrightarrow> sandbox_refs a \<Longrightarrow> sandbox_refs a'"
  using sandbox_refs_DeleteGrant [of a k]
  by (auto simp: Store_DeleteGrant_def Store_Grant_def)

text \<open>The sessions of a grant are ended: \<open>T i\<close> holds once \<open>TerminateGrant\<close> succeeded for \<open>i\<close> and stays.\<close>

definition ends_sessions :: "'w sessions \<Rightarrow> (string \<Rightarrow> 'w \<Rightarrow> bool) \<Rightarrow> bool" where
  "ends_sessions ss T \<longleftrightarrow> (\<forall>i w w'. ss_TerminateGrant ss i w = (w', ok) \<longrightarrow> T i w') \<and>
     (\<forall>i j w. T i w \<longrightarrow> T i (fst (ss_TerminateGrant ss j w)))"

lemma terminate_succeeds:
  assumes "rr_Sessions rr = Some ss" and "ends_sessions ss T"
  shows "succeeds (\<lambda>s. Q (fst s) \<and> (\<forall>i\<in>A. T i (snd s))) (terminate_grant rr j) (\<lambda>_ s. Q (fst s) \<and> (\<forall>i\<in>insert j A. T i (snd s)))"
  unfolding terminate_grant_def assms(1) option.case
proof (rule succeeds_right)
  fix a b b' x
  assume s: "Q (fst (a, b)) \<and> (\<forall>i\<in>A. T i (snd (a, b)))" and run: "ss_TerminateGrant ss j b = (b', Inr x)"
  have "T j b'" using assms(2) run by (simp add: ends_sessions_def)
  moreover have "T i b'" if "i \<in> A" for i
    using assms(2) s that run unfolding ends_sessions_def by (metis fst_conv snd_conv)
  ultimately show "Q (fst (a, b')) \<and> (\<forall>i\<in>insert j A. T i (snd (a, b')))" using s by simp
qed

lemma put_grant_succeeds:
  assumes "\<And>a. Q a \<Longrightarrow> sandbox_refs a"
    and "\<And>a a'. Q a \<Longrightarrow> sandbox_refs a' \<Longrightarrow> (\<And>i. Store_Grant i a' = (if i = lg_ID v then Some v else Store_Grant i a)) \<Longrightarrow> R a'"
  shows "succeeds (\<lambda>s. Q (fst s) \<and> X (snd s)) (left_of (Store_PutGrant v)) (\<lambda>_ s. R (fst s) \<and> X (snd s))"
proof (rule succeeds_left)
  fix a b a' x
  assume "Q (fst (a, b)) \<and> X (snd (a, b))" and run: "Store_PutGrant v a = (a', Inr x)"
  then have "Q a" "X b" by simp_all
  from grant_put(2) [OF run assms(1) [OF \<open>Q a\<close>]] assms(2) [OF \<open>Q a\<close> _ grant_put(1) [OF run]] \<open>X b\<close>
  show "R (fst (a', b)) \<and> X (snd (a', b))" by simp
qed

text \<open>The three loops; \<open>g\<close> is the table before.\<close>

definition adopted :: "LocalGrant list \<Rightarrow> (string \<Rightarrow> LocalGrant option) \<Rightarrow> AccessGrant list \<Rightarrow> store \<Rightarrow> bool" where
  "adopted existing g ys a \<longleftrightarrow> sandbox_refs a \<and>
     (\<forall>i. Store_Grant i a = (g ++ map_of (map (\<lambda>x. (ag_ID x, wanted_grant existing x)) (rev ys))) i)"

definition dropped :: "string set \<Rightarrow> (string \<Rightarrow> LocalGrant option) \<Rightarrow> LocalGrant list \<Rightarrow> store \<Rightarrow> bool" where
  "dropped ids g ys a \<longleftrightarrow> sandbox_refs a \<and>
     (\<forall>i. Store_Grant i a = (g ++ map_of (map (\<lambda>x. (lg_ID x, revoked_grant x))
        (rev (filter (\<lambda>x. lg_ID x \<notin> ids \<and> lg_DesiredState x = ''active'') ys)))) i)"

definition finished :: "string set \<Rightarrow> (string \<Rightarrow> LocalGrant option) \<Rightarrow> LocalGrant list \<Rightarrow> store \<Rightarrow> bool" where
  "finished ids g ys a \<longleftrightarrow> sandbox_refs a \<and>
     (\<forall>i. Store_Grant i a = (case g i of None \<Rightarrow> None
        | Some x \<Rightarrow> if x \<in> set ys then (if i \<notin> ids \<and> lg_DesiredState x = ''revoked'' then None else Some (settled_grant x)) else Some x))"

lemma adopt_loop:
  assumes "rr_Sessions rr = Some ss" and "ends_sessions ss T"
  shows "succeeds (\<lambda>s. adopted existing g [] (fst s)) (each (adopt_grant rr existing) desired)
    (\<lambda>_ s. adopted existing g desired (fst s) \<and> (\<forall>i\<in>ag_ID ` {x \<in> set desired. ag_DesiredState x = ''revoked''}. T i (snd s)))"
proof -
  let ?I = "\<lambda>ys s. adopted existing g ys (fst s) \<and> (\<forall>i\<in>ag_ID ` {x \<in> set ys. ag_DesiredState x = ''revoked''}. T i (snd s))"
  have "succeeds (?I ys) (adopt_grant rr existing x) (\<lambda>_. ?I (ys @ [x]))" for ys x
  proof -
    let ?A = "ag_ID ` {y \<in> set (ys @ [x]). ag_DesiredState y = ''revoked''}"
    have ended: "succeeds (?I ys) (if ag_DesiredState x = ''revoked'' then terminate_grant rr (ag_ID x) else give ())
        (\<lambda>_ s. adopted existing g ys (fst s) \<and> (\<forall>i\<in>?A. T i (snd s)))"
      using terminate_succeeds [OF assms, of "adopted existing g ys" "ag_ID ` {x \<in> set ys. ag_DesiredState x = ''revoked''}" "ag_ID x"]
      by (auto intro!: succeeds_if succeeds_give elim!: succeeds_weaken)
    show ?thesis
      unfolding adopt_grant_def
      by (rule succeeds_andThen [OF ended], rule put_grant_succeeds [where X = "\<lambda>w. \<forall>i\<in>?A. T i w"])
        (auto simp: adopted_def wanted_grant_def)
  qed
  from succeeds_each [of desired ?I, OF this] show ?thesis by simp
qed

lemma revoke_loop:
  assumes "rr_Sessions rr = Some ss" and "ends_sessions ss T"
  shows "succeeds (\<lambda>s. dropped ids g [] (fst s) \<and> (\<forall>i\<in>A. T i (snd s))) (each (revoke_omitted rr ids) existing)
    (\<lambda>_ s. dropped ids g existing (fst s) \<and>
       (\<forall>i\<in>A \<union> lg_ID ` {x \<in> set existing. lg_ID x \<notin> ids \<and> lg_DesiredState x = ''active''}. T i (snd s)))"
proof -
  let ?B = "\<lambda>ys. A \<union> lg_ID ` {x \<in> set ys. lg_ID x \<notin> ids \<and> lg_DesiredState x = ''active''}"
  let ?I = "\<lambda>ys s. dropped ids g ys (fst s) \<and> (\<forall>i\<in>?B ys. T i (snd s))"
  have "succeeds (?I ys) (revoke_omitted rr ids x) (\<lambda>_. ?I (ys @ [x]))" for ys x
  proof (cases "lg_ID x \<notin> ids \<and> lg_DesiredState x = ''active''")
    case True
    then have B: "insert (lg_ID x) (?B ys) = ?B (ys @ [x])" by auto
    have ended: "succeeds (?I ys) (terminate_grant rr (lg_ID x)) (\<lambda>_ s. dropped ids g ys (fst s) \<and> (\<forall>i\<in>?B (ys @ [x]). T i (snd s)))"
      using terminate_succeeds [OF assms, of "dropped ids g ys" "?B ys" "lg_ID x"] unfolding B .
    show ?thesis
      unfolding revoke_omitted_def if_P [OF True]
      by (rule succeeds_andThen [OF ended], fold revoked_grant_def,
          rule put_grant_succeeds [where X = "\<lambda>w. \<forall>i\<in>?B (ys @ [x]). T i w"])
        (use True in \<open>auto simp: dropped_def revoked_grant_def\<close>)
  next
    case False
    then have B: "?B ys = ?B (ys @ [x])" by auto
    show ?thesis
      unfolding revoke_omitted_def if_not_P [OF False] B using False
      by (intro succeeds_give) (auto simp: dropped_def)
  qed
  from succeeds_each [of existing ?I, OF this] show ?thesis by simp
qed

lemma settle_loop:
  assumes "\<And>x. x \<in> set xs \<Longrightarrow> g (lg_ID x) = Some x" and "\<And>i x. g i = Some x \<Longrightarrow> lg_ID x = i" and "distinct xs"
  shows "succeeds (\<lambda>s. finished ids g [] (fst s) \<and> X (snd s)) (each (settle_grant ids) xs) (\<lambda>_ s. finished ids g xs (fst s) \<and> X (snd s))"
proof -
  have "succeeds (\<lambda>s. finished ids g ys (fst s) \<and> X (snd s)) (settle_grant ids x) (\<lambda>_ s. finished ids g (ys @ [x]) (fst s) \<and> X (snd s))"
    if split: "xs = ys @ x # zs" for ys x zs
  proof -
    let ?drop = "lg_ID x \<notin> ids \<and> lg_DesiredState x = ''revoked''"
    let ?mid = "\<lambda>a. sandbox_refs a \<and> (\<forall>i. Store_Grant i a = (if i = lg_ID x then Some (settled_grant x)
        else (case g i of None \<Rightarrow> None | Some y \<Rightarrow> if y \<in> set ys then (if i \<notin> ids \<and> lg_DesiredState y = ''revoked'' then None else Some (settled_grant y)) else Some y)))"
    have gx: "g (lg_ID x) = Some x" using split by (intro assms(1)) simp
    have other: "y \<noteq> x" if "g i = Some y" "i \<noteq> lg_ID x" for i y using assms(2) [OF that(1)] that(2) by auto
    have put: "succeeds (\<lambda>s. finished ids g ys (fst s) \<and> X (snd s)) (left_of (Store_PutGrant (settled_grant x))) (\<lambda>_ s. ?mid (fst s) \<and> X (snd s))"
      by (rule put_grant_succeeds) (auto simp: finished_def settled_grant_def)
    have last: "finished ids g (ys @ [x]) a'" if "?mid a" "sandbox_refs a'"
        "\<And>i. Store_Grant i a' = (if ?drop \<and> i = lg_ID x then None else Store_Grant i a)" for a a'
      unfolding finished_def
    proof (intro conjI allI)
      fix i
      show "Store_Grant i a' = (case g i of None \<Rightarrow> None
        | Some y \<Rightarrow> if y \<in> set (ys @ [x]) then (if i \<notin> ids \<and> lg_DesiredState y = ''revoked'' then None else Some (settled_grant y)) else Some y)"
        using that(1,3) gx other [of i] by (cases "i = lg_ID x") (auto split: option.split)
    qed (rule that(2))
    have drop: "succeeds (\<lambda>s. ?mid (fst s) \<and> X (snd s)) (if ?drop then left_of (Store_DeleteGrant (lg_ID x)) else give ())
        (\<lambda>_ s. finished ids g (ys @ [x]) (fst s) \<and> X (snd s))"
    proof (rule succeeds_if)
      assume dropped: ?drop
      show "succeeds (\<lambda>s. ?mid (fst s) \<and> X (snd s)) (left_of (Store_DeleteGrant (lg_ID x))) (\<lambda>_ s. finished ids g (ys @ [x]) (fst s) \<and> X (snd s))"
      proof (rule succeeds_left)
        fix a b a' r
        assume s: "?mid (fst (a, b)) \<and> X (snd (a, b))" and run: "Store_DeleteGrant (lg_ID x) a = (a', Inr r)"
        have "finished ids g (ys @ [x]) a'"
          by (rule last [of a]) (use s grant_delete [OF run] dropped in auto)
        with s show "finished ids g (ys @ [x]) (fst (a', b)) \<and> X (snd (a', b))" by simp
      qed
    next
      assume "\<not> ?drop"
      then show "succeeds (\<lambda>s. ?mid (fst s) \<and> X (snd s)) (give ()) (\<lambda>_ s. finished ids g (ys @ [x]) (fst s) \<and> X (snd s))"
        by (intro succeeds_give) (use last in auto)
    qed
    show ?thesis
      unfolding settle_grant_def by (fold settled_grant_def, rule succeeds_andThen [OF put drop])
  qed
  from succeeds_each [of xs "\<lambda>ys s. finished ids g ys (fst s) \<and> X (snd s)", OF this] show ?thesis by simp
qed

section \<open>A successful pass\<close>

text \<open>What the manifest makes of a grant, and the rows of the mapping: the active grants with their keys.\<close>

definition granted :: "AccessGrant \<Rightarrow> LocalGrant" where
  "granted g = \<lparr>lg_ID = ag_ID g, lg_SandboxID = ag_SandboxID g, lg_SSHPublicKey = ag_SSHPublicKey g, lg_DesiredState = ag_DesiredState g,
     lg_ObservedState = (if ag_DesiredState g = ''active'' then ''applied'' else ''revoked''), lg_ErrorCode = [], lg_ErrorMessage = []\<rparr>"

definition active_keys :: "LocalGrant list \<Rightarrow> (string \<times> string) set" where
  "active_keys gs = (\<lambda>g. (lg_ID g, lg_SSHPublicKey g)) ` {g \<in> set gs. lg_DesiredState g = ''active''}"

definition granted_keys :: "AccessGrant list \<Rightarrow> (string \<times> string) set" where
  "granted_keys gs = (\<lambda>g. (ag_ID g, ag_SSHPublicKey g)) ` {g \<in> set gs. ag_DesiredState g = ''active''}"

lemma settled_wanted: "settled_grant (wanted_grant existing g) = granted g"
  by (simp add: settled_grant_def wanted_grant_def granted_def)

lemma map_of_rev_distinct: "distinct (map fst xs) \<Longrightarrow> map_of (rev xs) = map_of xs"
  by (rule map_of_eqI) (simp_all, metis map_of_eq_Some_iff distinct_rev rev_map set_rev option.exhaust map_of_eq_None_iff)

text \<open>The table after the first two loops.\<close>

lemma after_loops:
  assumes distinct: "distinct (map ag_ID desired)" and refs: "sandbox_refs s0" and existing: "existing = Store_Grants s0"
    and states: "\<And>i x. Store_Grant i s0 = Some x \<Longrightarrow> lg_DesiredState x \<in> {''active'', ''revoked''}"
    and "adopted existing (\<lambda>i. Store_Grant i s0) desired a1" and "dropped (ag_ID ` set desired) (\<lambda>i. Store_Grant i a1) existing a2"
  shows "g \<in> set desired \<Longrightarrow> Store_Grant (ag_ID g) a2 = Some (wanted_grant existing g)"
    and "i \<notin> ag_ID ` set desired \<Longrightarrow> Store_Grant i a2 = Some x \<Longrightarrow> lg_DesiredState x = ''revoked''"
    and "Store_Grant i a2 = Some x \<Longrightarrow> lg_ID x = i"
proof -
  let ?ids = "ag_ID ` set desired"
  let ?omit = "filter (\<lambda>x. lg_ID x \<notin> ?ids \<and> lg_DesiredState x = ''active'') existing"
  let ?m = "map_of (map (\<lambda>x. (lg_ID x, revoked_grant x)) (rev ?omit))"
  let ?w = "map_of (map (\<lambda>x. (ag_ID x, wanted_grant existing x)) (rev desired))"
  have a2: "Store_Grant i a2 = ((\<lambda>i. Store_Grant i a1) ++ ?m) i" and a1: "Store_Grant i a1 = ((\<lambda>i. Store_Grant i s0) ++ ?w) i" for i
    using assms(5,6) by (simp_all add: adopted_def dropped_def)
  have keys: "\<And>i x. ?m i = Some x \<Longrightarrow> i \<notin> ?ids \<and> lg_DesiredState x = ''revoked'' \<and> lg_ID x = i"
    by (auto dest!: map_of_SomeD simp: revoked_grant_def) (metis image_eqI)
  have wanted: "\<And>i x. ?w i = Some x \<Longrightarrow> i \<in> ?ids \<and> lg_ID x = i"
    by (auto dest!: map_of_SomeD simp: wanted_grant_def)
  have w: "?w (ag_ID g) = Some (wanted_grant existing g)" if "g \<in> set desired" for g
    by (rule map_of_is_SomeI) (use distinct that in \<open>auto simp: comp_def distinct_map rev_map [symmetric]\<close>)
  show "Store_Grant (ag_ID g) a2 = Some (wanted_grant existing g)" if "g \<in> set desired"
  proof -
    have "?m (ag_ID g) = None" using keys [of "ag_ID g"] that by (cases "?m (ag_ID g)") blast+
    then show ?thesis using w [OF that] by (simp add: a2 a1 map_add_def)
  qed
  show "lg_DesiredState x = ''revoked''" if i: "i \<notin> ?ids" and x: "Store_Grant i a2 = Some x"
  proof (cases "?m i")
    case (Some y)
    then have "x = y" using x by (simp add: a2 map_add_def)
    with keys [OF Some] show ?thesis by simp
  next
    case None
    have "?w i = None" using wanted i by (cases "?w i") auto
    then have row: "Store_Grant i s0 = Some x" using x None by (simp add: a2 a1 map_add_def)
    have key: "lg_ID x = i" by (rule grant_key [OF refs row])
    have "x \<in> set existing" unfolding existing using Grants_set [OF refs, of x] row key by simp
    have "lg_DesiredState x \<noteq> ''active''"
    proof
      assume "lg_DesiredState x = ''active''"
      with \<open>x \<in> set existing\<close> i key have "x \<in> set ?omit" by simp
      then have "lg_ID x \<in> fst ` set (map (\<lambda>x. (lg_ID x, revoked_grant x)) (rev ?omit))" by (simp only: set_map set_rev image_image fst_conv imageI)
      with None key show False by (simp only: map_of_eq_None_iff simp_thms)
    qed
    with states [OF row] show ?thesis by simp
  qed
  have "sandbox_refs a2" using assms(6) by (simp only: dropped_def)
  then show "lg_ID x = i" if "Store_Grant i a2 = Some x" using that by (rule grant_key)
qed

lemma grants_pass:
  assumes "distinct (map ag_ID desired)" and "sandbox_refs (fst s)"
    and "\<And>i x. Store_Grant i (fst s) = Some x \<Longrightarrow> lg_DesiredState x \<in> {''active'', ''revoked''}"
    and "rr_Sessions rr = Some ss" and "ends_sessions ss T"
    and "\<And>gs w w'. rr_Access rr gs w = (w', ok) \<Longrightarrow> M (active_keys gs) w'" and "\<And>i gs w. T i w \<Longrightarrow> T i (fst (rr_Access rr gs w))"
    and "reconcileGrants rr desired s = (t, ok)"
  shows "(\<forall>i. Store_Grant i (fst t) = map_option granted (find (\<lambda>g. ag_ID g = i) desired)) \<and> M (granted_keys desired) (snd t) \<and>
    (\<forall>g\<in>set desired. ag_DesiredState g = ''revoked'' \<longrightarrow> T (ag_ID g) (snd t)) \<and>
    (\<forall>i x. Store_Grant i (fst s) = Some x \<longrightarrow> lg_DesiredState x = ''active'' \<longrightarrow> i \<notin> ag_ID ` set desired \<longrightarrow> T i (snd t))"
proof -
  let ?ids = "ag_ID ` set desired" and ?existing = "Store_Grants (fst s)"
  let ?R = "ag_ID ` {x \<in> set desired. ag_DesiredState x = ''revoked''}"
  let ?O = "lg_ID ` {x \<in> set ?existing. lg_ID x \<notin> ?ids \<and> lg_DesiredState x = ''active''}"
  from assms(8) [unfolded reconcileGrants_def reading_def Let_def] obtain s1 y where one: "each (adopt_grant rr ?existing) desired s = (s1, Inr y)"
    and rest1: "andThen (each (revoke_omitted rr ?ids) ?existing) (\<lambda>_ s.
        attempt (call (rr_Access rr (Store_Grants (fst s)))) (\<lambda>err. fail_grants rr err (Store_Grants (fst s)))
          (\<lambda>_. each (settle_grant ?ids) (Store_Grants (fst s))) s) s1 = (t, ok)"
    by (rule andThen_InrE)
  from rest1 obtain s2 z where two: "each (revoke_omitted rr ?ids) ?existing s1 = (s2, Inr z)"
    and rest2: "attempt (call (rr_Access rr (Store_Grants (fst s2)))) (\<lambda>err. fail_grants rr err (Store_Grants (fst s2)))
        (\<lambda>_. each (settle_grant ?ids) (Store_Grants (fst s2))) s2 = (t, ok)"
    by (rule andThen_InrE)
  let ?grants = "Store_Grants (fst s2)"
  have adopted: "adopted ?existing (\<lambda>i. Store_Grant i (fst s)) desired (fst s1)" and T1: "\<forall>i\<in>?R. T i (snd s1)"
    using succeedsD [OF adopt_loop [OF assms(4,5), of ?existing "\<lambda>i. Store_Grant i (fst s)" desired] _ one] assms(2)
    by (simp_all add: adopted_def)
  have dropped: "dropped ?ids (\<lambda>i. Store_Grant i (fst s1)) ?existing (fst s2)" and T2: "\<forall>i\<in>?R \<union> ?O. T i (snd s2)"
    using succeedsD [OF revoke_loop [OF assms(4,5), of ?ids "\<lambda>i. Store_Grant i (fst s1)" ?R ?existing] _ two] adopted T1
    by (simp_all add: dropped_def adopted_def)
  have wanted: "\<And>g. g \<in> set desired \<Longrightarrow> Store_Grant (ag_ID g) (fst s2) = Some (wanted_grant ?existing g)"
    by (rule after_loops(1) [OF assms(1,2) refl _ adopted dropped]) (erule assms(3))
  have others: "\<And>i x. i \<notin> ?ids \<Longrightarrow> Store_Grant i (fst s2) = Some x \<Longrightarrow> lg_DesiredState x = ''revoked''"
    by (rule after_loops(2) [OF assms(1,2) refl _ adopted dropped]) (erule assms(3))
  have keyed: "\<And>i x. Store_Grant i (fst s2) = Some x \<Longrightarrow> lg_ID x = i"
    by (rule after_loops(3) [OF assms(1,2) refl _ adopted dropped]) (erule assms(3))
  have refs2: "sandbox_refs (fst s2)" using dropped by (simp add: dropped_def)
  have failed: "snd (fail_grants rr e gs u) \<noteq> ok" for e gs u
    unfolding fail_grants_def andThen_def attempt_def by (auto simp: give_simps split: prod.split sum.split)
  obtain w where mapped: "rr_Access rr ?grants (snd s2) = (w, ok)" and three: "each (settle_grant ?ids) ?grants (fst s2, w) = (t, ok)"
  proof (cases "rr_Access rr ?grants (snd s2)")
    case (Pair w r)
    show ?thesis
    proof (cases r)
      case (Inl e)
      with rest2 Pair failed [of e ?grants "(fst s2, w)"] show ?thesis by (simp add: attempt_def right_of_def)
    next
      case (Inr u)
      with rest2 Pair show ?thesis by (intro that [of w]) (simp_all add: attempt_def right_of_def)
    qed
  qed
  have active: "active_keys ?grants = granted_keys desired"
  proof (intro set_eqI iffI)
    fix p
    assume "p \<in> active_keys ?grants"
    then obtain x where x: "x \<in> set ?grants" "lg_DesiredState x = ''active''" "p = (lg_ID x, lg_SSHPublicKey x)"
      by (auto simp: active_keys_def)
    from x(1) have row: "Store_Grant (lg_ID x) (fst s2) = Some x" using Grants_set [OF refs2] by simp
    with x(2) others [of "lg_ID x" x] obtain g where g: "g \<in> set desired" "ag_ID g = lg_ID x" by fastforce
    with wanted [OF g(1)] row have "x = wanted_grant ?existing g" by simp
    with x g(1) show "p \<in> granted_keys desired" by (auto simp: granted_keys_def wanted_grant_def)
  next
    fix p
    assume "p \<in> granted_keys desired"
    then obtain g where g: "g \<in> set desired" "ag_DesiredState g = ''active''" "p = (ag_ID g, ag_SSHPublicKey g)"
      by (auto simp: granted_keys_def)
    let ?x = "wanted_grant ?existing g"
    have "lg_ID ?x = ag_ID g" by (simp add: wanted_grant_def)
    with wanted [OF g(1)] have "?x \<in> set ?grants" using Grants_set [OF refs2, of ?x] by simp
    moreover have "lg_DesiredState ?x = ''active''" "p = (lg_ID ?x, lg_SSHPublicKey ?x)" using g by (simp_all add: wanted_grant_def)
    ultimately show "p \<in> active_keys ?grants" by (auto simp: active_keys_def)
  qed
  have M: "M (granted_keys desired) w" using assms(6) [OF mapped] unfolding active .
  have T3: "T i w" if "i \<in> ?R \<union> ?O" for i
    using assms(7) [of i "snd s2" ?grants] T2 that mapped by simp
  let ?X = "\<lambda>w. M (granted_keys desired) w \<and> (\<forall>i\<in>?R \<union> ?O. T i w)"
  have listed: "\<And>x. x \<in> set ?grants \<Longrightarrow> Store_Grant (lg_ID x) (fst s2) = Some x" using Grants_set [OF refs2] by simp
  have once: "distinct ?grants" by (rule Grants_once [OF refs2])
  have settled: "finished ?ids (\<lambda>i. Store_Grant i (fst s2)) ?grants (fst t) \<and> ?X (snd t)"
  proof (rule succeedsD [OF settle_loop [OF listed keyed once, of ?ids ?X] _ three])
    show "finished ?ids (\<lambda>i. Store_Grant i (fst s2)) [] (fst (fst s2, w)) \<and> ?X (snd (fst s2, w))"
      using refs2 M T3 by (simp add: finished_def split: option.split)
  qed
  have table: "Store_Grant i (fst t) = map_option granted (find (\<lambda>g. ag_ID g = i) desired)" for i
  proof (cases "find (\<lambda>g. ag_ID g = i) desired")
    case (Some g)
    then have g: "g \<in> set desired" "ag_ID g = i" by (auto simp: find_Some_iff)
    have "wanted_grant ?existing g \<in> set ?grants"
      using Grants_set [OF refs2, of "wanted_grant ?existing g"] wanted [OF g(1)] by (simp add: wanted_grant_def)
    with settled wanted [OF g(1)] g show ?thesis
      by (auto simp: finished_def Some settled_wanted)
  next
    case None
    then have i: "i \<notin> ?ids" by (auto simp: find_None_iff)
    show ?thesis
    proof (cases "Store_Grant i (fst s2)")
      case (Some x)
      have "x \<in> set ?grants" using Grants_set [OF refs2, of x] Some keyed [OF Some] by simp
      with settled Some others [OF i Some] i None show ?thesis by (auto simp: finished_def)
    next
      case no: None
      with settled None show ?thesis by (auto simp: finished_def)
    qed
  qed
  have omitted: "T i (snd t)" if "Store_Grant i (fst s) = Some x" "lg_DesiredState x = ''active''" "i \<notin> ?ids" for i x
  proof -
    have key: "lg_ID x = i" by (rule grant_key [OF assms(2) that(1)])
    have "x \<in> set ?existing" using Grants_set [OF assms(2), of x] that(1) key by simp
    then have "i \<in> ?O" using that(2,3) key by auto
    then show ?thesis using settled by blast
  qed
  from settled table omitted show ?thesis by auto
qed

text \<open>
  C8. after a successful pass over the access grants the table holds exactly the grants of
  the manifest, applied or revoked; the mapping was written from exactly the active ones;
  and the sessions of every grant that the manifest revokes or omits were ended
\<close>

theorem grants_converge:
  assumes "distinct (map ag_ID desired)" and "sandbox_refs (fst s)"
    and "\<And>i x. Store_Grant i (fst s) = Some x \<Longrightarrow> lg_DesiredState x \<in> {''active'', ''revoked''}"
    and "rr_Sessions rr = Some ss" and "ends_sessions ss T"
    and "\<And>gs w w'. rr_Access rr gs w = (w', ok) \<Longrightarrow> M (active_keys gs) w'" and "\<And>i gs w. T i w \<Longrightarrow> T i (fst (rr_Access rr gs w))"
    and "reconcileGrants rr desired s = (t, ok)"
  shows "(\<forall>i. Store_Grant i (fst t) = map_option granted (find (\<lambda>g. ag_ID g = i) desired)) \<and> M (granted_keys desired) (snd t) \<and>
    (\<forall>g\<in>set desired. ag_DesiredState g = ''revoked'' \<longrightarrow> T (ag_ID g) (snd t)) \<and>
    (\<forall>i x. Store_Grant i (fst s) = Some x \<longrightarrow> lg_DesiredState x = ''active'' \<longrightarrow> i \<notin> ag_ID ` set desired \<longrightarrow> T i (snd t))"
  by (rule grants_pass [where M = M and T = T, OF assms])


text \<open>A world that remembers the grants whose sessions were ended and the mapping; one grant is kept, one revoked and one omitted.\<close>

definition grx_sessions :: "(string list \<times> LocalGrant list) sessions" where
  "grx_sessions = \<lparr>ss_TerminateGrant = (\<lambda>i w. ((i # fst w, snd w), ok)), ss_TerminateSandbox = (\<lambda>_. give ())\<rparr>"

definition grx :: "(string list \<times> LocalGrant list) reconciler" where
  "grx = \<lparr>rr_Engine = \<lparr>en_Ensure = (\<lambda>_ _ _. give ()), en_Replace = (\<lambda>_ _ _ _. give ()), en_Recreate = (\<lambda>_ _ _ _. give ()),
       en_Start = (\<lambda>_. give ()), en_Stop = (\<lambda>_. give ()), en_Restart = (\<lambda>_. give ()), en_Remove = (\<lambda>_. give ()),
       en_Preflight = (\<lambda>_. give ()), en_ExecSetup = (\<lambda>_ _. give []), en_ObserveCellWitness = (\<lambda>_. give False),
       en_VerifyCellLifecycle = give ()\<rparr>,
     rr_Workspaces = \<lparr>ws_Ensure = (\<lambda>_ _. give []), ws_Destroy = (\<lambda>_. give ())\<rparr>,
     rr_Access = (\<lambda>gs w. ((fst w, gs), ok)), rr_Sessions = Some grx_sessions, rr_Now = (\<lambda>_. 0), rr_Lifecycle = None,
     rr_executing = (\<lambda>_ _. False),
     rr_tables = (\<lambda>_. \<lparr>wt_cells = no_cells, wt_projects = no_projects, wt_manager = no_manager\<rparr>),
     rr_codec = \<lparr>rc_encode = (\<lambda>_. []), rc_decode = (\<lambda>_. None)\<rparr>, rr_text = (\<lambda>_. [])\<rparr>"

definition grx_desired :: "AccessGrant list" where
  "grx_desired = [\<lparr>ag_ID = ''kept'', ag_SandboxID = ''box'', ag_SSHPublicKey = ''key1'', ag_SSHFingerprint = [], ag_DesiredState = ''active''\<rparr>,
     \<lparr>ag_ID = ''gone'', ag_SandboxID = ''box'', ag_SSHPublicKey = ''key2'', ag_SSHFingerprint = [], ag_DesiredState = ''revoked''\<rparr>]"

definition grx_omitted :: LocalGrant where
  "grx_omitted = \<lparr>lg_ID = ''old'', lg_SandboxID = ''box'', lg_SSHPublicKey = ''key3'', lg_DesiredState = ''active'',
     lg_ObservedState = ''applied'', lg_ErrorCode = [], lg_ErrorMessage = []\<rparr>"

definition grx_store :: store where
  "grx_store = empty_store\<lparr>st_sandboxes := [(''box'', (new_sandbox \<lparr>sb_ID = ''box'', sb_Name = ''box'', sb_Size = [], sb_Resources = noResources,
       sb_ImageDigest = [], sb_Lifetime = [], sb_ExpiresInSeconds = None, sb_StartedAt = None, sb_ExpiresAt = None,
       sb_DesiredState = ''running'', sb_Generation = 1, sb_Cell = False\<rparr>))],
     st_grants := [(''old'', grx_omitted)]\<rparr>"

lemma grx_store_refs: "sandbox_refs grx_store"
  by (simp add: grx_store_def sandbox_refs_def empty_store_def keyed_by_def refers_def wf_tbl_def new_sandbox_def grx_omitted_def)

lemma grx_old: "Store_Grant i grx_store = Some x \<Longrightarrow> x = grx_omitted \<and> i = ''old''"
  by (simp add: grx_store_def Store_Grant_def split: if_splits)

lemma grants_converge_witness:
  "case reconcileGrants grx grx_desired (grx_store, [], []) of (t, r) \<Rightarrow>
     r = ok \<and> Store_Grant ''old'' (fst t) = None \<and> active_keys (snd (snd t)) = {(''kept'', ''key1'')} \<and>
     ''gone'' \<in> set (fst (snd t)) \<and> ''old'' \<in> set (fst (snd t))"
proof -
  let ?p = "reconcileGrants grx grx_desired (grx_store, [], [])"
  obtain t r where p: "?p = (t, r)" by fastforce
  have "snd ?p = ok" by code_simp
  with p have run: "?p = (t, ok)" by simp
  have fields: "rr_Sessions grx = Some grx_sessions" "rr_Access grx gs w = ((fst w, gs), ok)" for gs w by (simp_all add: grx_def)
  have sessions: "ends_sessions grx_sessions (\<lambda>i w. i \<in> set (fst w))" by (simp add: ends_sessions_def grx_sessions_def)
  have old: "lg_DesiredState grx_omitted = ''active''" by (simp add: grx_omitted_def)
  have result: "(\<forall>i. Store_Grant i (fst t) = map_option granted (find (\<lambda>g. ag_ID g = i) grx_desired)) \<and>
      active_keys (snd (snd t)) = granted_keys grx_desired \<and>
      (\<forall>g\<in>set grx_desired. ag_DesiredState g = ''revoked'' \<longrightarrow> ag_ID g \<in> set (fst (snd t))) \<and>
      (\<forall>i x. Store_Grant i (fst (grx_store, [] :: string list, [] :: LocalGrant list)) = Some x \<longrightarrow> lg_DesiredState x = ''active'' \<longrightarrow> i \<notin> ag_ID ` set grx_desired \<longrightarrow> i \<in> set (fst (snd t)))"
    by (rule grants_converge [where M = "\<lambda>p w. active_keys (snd w) = p" and T = "\<lambda>i w. i \<in> set (fst w)", OF _ _ _ fields(1) sessions _ _ run])
      (auto simp: grx_desired_def grx_store_refs fields old dest: grx_old)
  have "Store_Grant ''old'' grx_store = Some grx_omitted" by (simp add: grx_store_def Store_Grant_def)
  with result old have "''old'' \<in> set (fst (snd t))" by (auto simp: grx_desired_def)
  moreover have "granted_keys grx_desired = {(''kept'', ''key1'')}" unfolding granted_keys_def grx_desired_def by force
  moreover have "find (\<lambda>g. ag_ID g = ''old'') grx_desired = None" by (simp add: grx_desired_def)
  moreover have "''gone'' \<in> set (fst (snd t))" using result by (simp add: grx_desired_def)
  ultimately show ?thesis unfolding run prod.case using result by simp
qed

end
