(* ===== verification/Access_Mapping.thy ===== *)
theory Access_Mapping
  imports Model_Patterns Go_Strings Reconcile_Grants
begin

text \<open>
  The file of authorized keys that the SSH server reads (\<open>internal/access/access.go\<close>): one forced command for each
  active grant. \<open>atomicWrite\<close>, which replaces the file by a rename, is an argument.
\<close>

section \<open>The functions of Go's strings package\<close>

text \<open>
  \<open>strings.Fields\<close> cuts around runs of \<open>unicode.IsSpace\<close>. The UTF-8 encodings of these characters start with a byte
  that no other encoding contains, so they are recognised on bytes; the value is the length of the encoding.
\<close>

definition space_len :: "string \<Rightarrow> nat" where
  "space_len s = (case map byte (take 3 s) of
     [] \<Rightarrow> 0
   | a # r \<Rightarrow>
       if a \<in> {9, 10, 11, 12, 13, 32} then 1
       else case r of
         [] \<Rightarrow> 0
       | b # r \<Rightarrow>
           if a = 194 \<and> b \<in> {133, 160} then 2
           else case r of
             [] \<Rightarrow> 0
           | c # _ \<Rightarrow>
               if a = 225 \<and> b = 154 \<and> c = 128 \<or> a = 226 \<and> b = 128 \<and> (128 \<le> c \<and> c \<le> 138 \<or> c \<in> {168, 169, 175}) \<or>
                  a = 226 \<and> b = 129 \<and> c = 159 \<or> a = 227 \<and> b = 128 \<and> c = 128
               then 3 else 0)"

function fields_from :: "string \<Rightarrow> string \<Rightarrow> string list" where
  "fields_from word [] = (if word = [] then [] else [word])"
| "fields_from word (c # cs) =
     (if space_len (c # cs) = 0 then fields_from (word @ [c]) cs
      else (if word = [] then [] else [word]) @ fields_from [] (drop (space_len (c # cs) - 1) cs))"
  by pat_completeness auto

termination
  by (relation "measure (length o snd)") auto

definition Fields :: "string \<Rightarrow> string list" where
  "Fields s = fields_from [] s"

definition ContainsAny :: "string \<Rightarrow> string \<Rightarrow> bool" where
  "ContainsAny s cs \<longleftrightarrow> list_ex (\<lambda>c. c \<in> set cs) s"

section \<open>The mapping\<close>

record Renderer =
  rn_Path :: "string"
  rn_Gateway :: "string"

definition grantID :: rexp where
  "grantID = Seq (Lit ''grant_'') (Rep (Cls (alnum @ chars ''_-'')) 8 60)"

definition normalizePublicKey :: "string \<Rightarrow> goerr + string" where
  "normalizePublicKey value =
     (if ContainsAny value [CHR 0x0D, CHR 0x0A] \<or> sublist ''PRIVATE KEY'' value then Inl (E ''invalid SSH public key'')
      else case Fields value of
        kind # material # _ \<Rightarrow>
          if \<not> (prefix ''ssh-'' kind \<or> prefix ''ecdsa-sha2-'' kind) then Inl (E ''unsupported SSH public key'')
          else if base64_decode material = None then Inl (E ''invalid SSH public key material'')
          else Inr (kind @ '' '' @ material)
      | _ \<Rightarrow> Inl (E ''invalid SSH public key''))"

definition gateway_of :: "Renderer \<Rightarrow> string" where
  "gateway_of r = (if rn_Gateway r = [] then ''/usr/libexec/warpmetal-sandbox-gateway'' else rn_Gateway r)"

definition restrictions :: string where
  "restrictions = '',no-agent-forwarding,no-port-forwarding,no-X11-forwarding,no-user-rc''"

definition grant_line :: "Renderer \<Rightarrow> string \<Rightarrow> string \<Rightarrow> string" where
  "grant_line r i key = ''command='' @ [CHR 0x22] @ gateway_of r @ '' '' @ i @ [CHR 0x22] @ restrictions @ '' '' @ key"

definition line_step :: "Renderer \<Rightarrow> string list \<Rightarrow> LocalGrant \<Rightarrow> goerr + string list" where
  "line_step r lines grant =
     (if lg_DesiredState grant \<noteq> ''active'' then Inr lines
      else if \<not> matchString grantID (lg_ID grant) then Inl (EQuoted ''invalid grant ID '' (lg_ID grant))
      else case normalizePublicKey (lg_SSHPublicKey grant) of
        Inl err \<Rightarrow> Inl (EWrap (''grant '' @ lg_ID grant @ '': '') err)
      | Inr key \<Rightarrow> Inr (lines @ [grant_line r (lg_ID grant) key]))"

definition newline :: char where
  "newline = CHR 0x0A"

definition mapping_content :: "Renderer \<Rightarrow> LocalGrant list \<Rightarrow> goerr + string" where
  "mapping_content r grants = bindE (foldE (line_step r) [] grants) (\<lambda>lines.
     let content = join newline lines in Inr (if content \<noteq> [] then content @ [newline] else content))"

definition Renderer_Write :: "(string \<Rightarrow> string \<Rightarrow> ('w, unit) act) \<Rightarrow> Renderer \<Rightarrow> LocalGrant list \<Rightarrow> ('w, unit) act" where
  "Renderer_Write atomicWrite r grants =
     (case mapping_content r grants of Inl err \<Rightarrow> raise err | Inr content \<Rightarrow> atomicWrite (rn_Path r) content)"

section \<open>Reading the file back\<close>

text \<open>The forced command and the key of a line, as the SSH server takes it apart: the options end with the quoted command.\<close>

definition read_line :: "string \<Rightarrow> string \<Rightarrow> (string \<times> string) option" where
  "read_line gateway l =
     (let p = ''command='' @ [CHR 0x22] @ gateway @ '' '' in
      if \<not> prefix p l then None
      else let (i, rest) = cut (CHR 0x22) (drop (length p) l); q = restrictions @ '' '' in
        if prefix q rest then Some (i, drop (length q) rest) else None)"

definition read_mapping :: "string \<Rightarrow> string \<Rightarrow> (string \<times> string) option list" where
  "read_mapping gateway content = map (read_line gateway) (butlast (splitOn newline content))"

definition normalized :: "LocalGrant \<Rightarrow> string \<times> string" where
  "normalized g = (lg_ID g, case normalizePublicKey (lg_SSHPublicKey g) of Inr key \<Rightarrow> key | Inl _ \<Rightarrow> [])"

lemma fields_from_chars: "w \<in> set (fields_from word s) \<Longrightarrow> set w \<subseteq> set word \<union> set s"
proof (induction word s rule: fields_from.induct)
  case (1 word)
  then show ?case by (auto split: if_splits)
next
  case (2 word c cs)
  show ?case
  proof (cases "space_len (c # cs) = 0")
    case True
    with 2 show ?thesis by auto
  next
    case False
    have "set w \<subseteq> set word \<or> w \<in> set (fields_from [] (drop (space_len (c # cs) - 1) cs))"
      using 2(3) False by (auto split: if_splits)
    then show ?thesis
    proof
      assume "w \<in> set (fields_from [] (drop (space_len (c # cs) - 1) cs))"
      from 2(2) [OF False this] show ?thesis using set_drop_subset [of "space_len (c # cs) - 1" cs] by auto
    qed auto
  qed
qed

lemma key_one_line: "normalizePublicKey v = Inr key \<Longrightarrow> newline \<notin> set key"
proof -
  assume v: "normalizePublicKey v = Inr key"
  then obtain a b r where f: "Fields v = a # b # r" and key: "key = a @ '' '' @ b" and clean: "\<not> ContainsAny v [CHR 0x0D, CHR 0x0A]"
    by (auto simp: normalizePublicKey_def split: if_splits list.splits)
  have "set a \<subseteq> set v" "set b \<subseteq> set v"
    using fields_from_chars [of a "[]" v] fields_from_chars [of b "[]" v] f by (simp_all add: Fields_def)
  moreover have "newline \<notin> set v" using clean by (auto simp: ContainsAny_def list_ex_iff newline_def)
  ultimately show ?thesis by (auto simp: key newline_def)
qed

lemma grantID_plain:
  assumes "matchString grantID i"
  shows "newline \<notin> set i" and "CHR 0x22 \<notin> set i"
proof -
  obtain v where i: "i = ''grant_'' @ v" and v: "\<And>c. c \<in> set v \<Longrightarrow> in_cls (alnum @ chars ''_-'') c"
    using assms by (auto simp: grantID_def matchString_iff mat_shapes list_all_iff)
  have "\<not> in_cls (alnum @ chars ''_-'') newline" "\<not> in_cls (alnum @ chars ''_-'') (CHR 0x22)" by code_simp+
  then have "newline \<notin> set v" "CHR 0x22 \<notin> set v" using v by blast+
  then show "newline \<notin> set i" "CHR 0x22 \<notin> set i" by (simp_all add: i newline_def)
qed

text \<open>What the loop has made of the grants.\<close>

lemma lines_of:
  assumes "foldE (line_step r) lines gs = Inr out"
  shows "out = lines @ map (\<lambda>g. grant_line r (fst (normalized g)) (snd (normalized g))) (filter (\<lambda>g. lg_DesiredState g = ''active'') gs) \<and>
    (\<forall>g\<in>set gs. lg_DesiredState g = ''active'' \<longrightarrow> matchString grantID (lg_ID g) \<and> (\<exists>key. normalizePublicKey (lg_SSHPublicKey g) = Inr key))"
  using assms
proof (induction gs arbitrary: lines)
  case Nil
  then show ?case by simp
next
  case (Cons g gs)
  from Cons.prems obtain mid where mid: "line_step r lines g = Inr mid" "foldE (line_step r) mid gs = Inr out"
    by (auto simp: bindE_Inr_iff)
  from Cons.IH [OF mid(2)] mid(1) show ?case
    by (auto simp: line_step_def normalized_def split: if_splits sum.splits)
qed

lemma cut_at:
  assumes "c \<notin> set i"
  shows "cut c (i @ c # rest) = (i, rest)"
  using assms by (induction i) (auto simp: cut_def)

lemma grant_line_reads:
  assumes "CHR 0x22 \<notin> set i"
  shows "read_line (gateway_of r) (grant_line r i key) = Some (i, key)"
proof -
  let ?p = "''command='' @ [CHR 0x22] @ gateway_of r @ '' ''" and ?q = "restrictions @ '' ''"
  have line: "grant_line r i key = ?p @ i @ CHR 0x22 # ?q @ key" by (simp add: grant_line_def)
  have cut: "cut (CHR 0x22) (i @ CHR 0x22 # ?q @ key) = (i, ?q @ key)"
    using assms by (rule cut_at)
  show ?thesis unfolding line read_line_def Let_def by (simp add: cut [simplified])
qed

lemma grant_line_plain:
  assumes "newline \<notin> set (gateway_of r)" "newline \<notin> set i" "newline \<notin> set key"
  shows "newline \<notin> set (grant_line r i key)"
  using assms by (simp add: grant_line_def restrictions_def newline_def)

lemma split_lines:
  assumes "\<And>l. l \<in> set ls \<Longrightarrow> newline \<notin> set l" and "\<And>l. l \<in> set ls \<Longrightarrow> l \<noteq> []"
  shows "butlast (splitOn newline (let content = join newline ls in if content \<noteq> [] then content @ [newline] else content)) = ls"
proof (cases ls)
  case Nil
  then show ?thesis by (simp add: join_def)
next
  case (Cons l rest)
  have nonempty: "join newline ls \<noteq> []" using assms(2) [of l] Cons by (simp add: join_def)
  have "join newline ls @ [newline] = join newline (ls @ [[]])" by (simp add: Cons join_def)
  moreover have "splitOn newline (join newline (ls @ [[]])) = ls @ [[]]" by (rule splitOn_join) (use assms(1) in auto)
  ultimately show ?thesis using nonempty by (simp add: Let_def)
qed

lemma mapping_read:
  assumes "mapping_content r grants = Inr content" and "newline \<notin> set (gateway_of r)"
  shows "read_mapping (gateway_of r) content = map (\<lambda>g. Some (normalized g)) (filter (\<lambda>g. lg_DesiredState g = ''active'') grants) \<and>
    (\<forall>g\<in>set grants. lg_DesiredState g = ''active'' \<longrightarrow> normalizePublicKey (lg_SSHPublicKey g) = Inr (snd (normalized g)))"
proof -
  let ?active = "filter (\<lambda>g. lg_DesiredState g = ''active'') grants"
  from assms(1) obtain ls where ls: "foldE (line_step r) [] grants = Inr ls"
    and content: "content = (let content = join newline ls in if content \<noteq> [] then content @ [newline] else content)"
    by (auto simp: mapping_content_def bindE_Inr_iff Let_def)
  from lines_of [OF ls] have lines: "ls = map (\<lambda>g. grant_line r (fst (normalized g)) (snd (normalized g))) ?active"
    and valid: "\<And>g. g \<in> set ?active \<Longrightarrow> matchString grantID (lg_ID g) \<and> (\<exists>key. normalizePublicKey (lg_SSHPublicKey g) = Inr key)" by auto
  have key: "normalizePublicKey (lg_SSHPublicKey g) = Inr (snd (normalized g))" "fst (normalized g) = lg_ID g" if "g \<in> set ?active" for g
    using valid [OF that] by (auto simp: normalized_def)
  have split: "butlast (splitOn newline content) = ls"
    unfolding content
  proof (rule split_lines)
    fix l
    assume "l \<in> set ls"
    then obtain g where g: "g \<in> set ?active" "l = grant_line r (fst (normalized g)) (snd (normalized g))" unfolding lines by auto
    show "newline \<notin> set l"
      using grant_line_plain [OF assms(2) grantID_plain(1) key_one_line] valid [OF g(1)] key [OF g(1)] g(2) by metis
    show "l \<noteq> []" using g(2) by (simp add: grant_line_def)
  qed
  have "read_line (gateway_of r) (grant_line r (fst (normalized g)) (snd (normalized g))) = Some (normalized g)" if "g \<in> set ?active" for g
    using grant_line_reads [OF grantID_plain(2)] valid [OF that] key [OF that] by (metis prod.collapse)
  then have "read_mapping (gateway_of r) content = map (\<lambda>g. Some (normalized g)) ?active"
    unfolding read_mapping_def split lines by simp
  then show ?thesis using key by auto
qed

text \<open>
  C25. the file of authorized keys that is rendered reads back as exactly the active grants
  in their order, each with its own forced command and its normalized key on one line:
  nothing in a grant can add a line, end the forced command or reach its options
\<close>

theorem mapping_reads_back:
  assumes "mapping_content r grants = Inr content" and "newline \<notin> set (gateway_of r)"
  shows "read_mapping (gateway_of r) content = map (\<lambda>g. Some (normalized g)) (filter (\<lambda>g. lg_DesiredState g = ''active'') grants) \<and>
    (\<forall>g\<in>set grants. lg_DesiredState g = ''active'' \<longrightarrow> normalizePublicKey (lg_SSHPublicKey g) = Inr (snd (normalized g)))"
  by (rule mapping_read [OF assms])

definition amx_grant :: "string \<Rightarrow> string \<Rightarrow> LocalGrant" where
  "amx_grant i state = \<lparr>lg_ID = i, lg_SandboxID = ''box'', lg_SSHPublicKey = ''ssh-ed25519  AAAA  me@host'', lg_DesiredState = state,
     lg_ObservedState = ''pending'', lg_ErrorCode = [], lg_ErrorMessage = []\<rparr>"

definition amx_renderer :: Renderer where
  "amx_renderer = \<lparr>rn_Path = ''/etc/keys'', rn_Gateway = ''/gw''\<rparr>"

definition amx_content :: string where
  "amx_content = ''command='' @ [CHR 0x22] @ ''/gw grant_abcdefgh'' @ [CHR 0x22] @ restrictions @ '' ssh-ed25519 AAAA'' @ [newline]"

lemma amx_plain: "matchString grantID ''grant_abcdefgh''"
  by (simp add: grantID_def matchString_iff mat_shapes cls_defs alnum_def of_char_def)

lemma amx_split: "Fields ''ssh-ed25519  AAAA  me@host'' = [''ssh-ed25519'', ''AAAA'', ''me@host'']"
  by (simp add: Fields_def space_len_def byte_def of_char_def)

lemma amx_material: "base64_decode ''AAAA'' \<noteq> None" by (simp add: base64_decode_def b64_val_def b64_alphabet_def)

lemma amx_public: "normalizePublicKey ''ssh-ed25519  AAAA  me@host'' = Inr ''ssh-ed25519 AAAA''"
  using amx_material by (simp add: normalizePublicKey_def amx_split ContainsAny_def sublist_code)

lemma mapping_reads_back_witness:
  "read_mapping ''/gw'' amx_content = [Some (''grant_abcdefgh'', ''ssh-ed25519 AAAA'')]"
proof -
  have made: "mapping_content amx_renderer [amx_grant ''grant_abcdefgh'' ''active'', amx_grant ''grant_revoked1'' ''revoked''] = Inr amx_content"
    by (simp add: mapping_content_def line_step_def amx_grant_def amx_plain amx_public amx_content_def grant_line_def gateway_of_def
        amx_renderer_def newline_def join_def Let_def)
  have gateway: "gateway_of amx_renderer = ''/gw''" by (simp add: gateway_of_def amx_renderer_def)
  have key: "normalized (amx_grant ''grant_abcdefgh'' ''active'') = (''grant_abcdefgh'', ''ssh-ed25519 AAAA'')"
    by (simp add: normalized_def amx_grant_def amx_public)
  from mapping_reads_back [OF made] show ?thesis by (simp add: gateway newline_def key) (simp add: amx_grant_def)
qed


section \<open>The pass over the grants with its file\<close>

definition normal_key :: "string \<Rightarrow> string" where
  "normal_key v = (case normalizePublicKey v of Inr key \<Rightarrow> key | Inl _ \<Rightarrow> [])"

lemma normalized_key: "normalized g = (lg_ID g, normal_key (lg_SSHPublicKey g))"
  by (simp add: normalized_def normal_key_def)

lemma rendered_keys:
  assumes "mapping_content r gs = Inr content" and "newline \<notin> set (gateway_of r)"
  shows "set (read_mapping (gateway_of r) content) = (\<lambda>p. Some (fst p, normal_key (snd p))) ` active_keys gs"
  using mapping_read [OF assms] by (auto simp: normalized_key active_keys_def image_image)

lemma rendered_file:
  assumes "Renderer_Write atomicWrite r gs w = (w', ok)" and "\<And>p c u u'. atomicWrite p c u = (u', ok) \<Longrightarrow> disk u' p = c"
  shows "mapping_content r gs = Inr (disk w' (rn_Path r))"
  using assms(1) assms(2) by (cases "mapping_content r gs") (auto simp: Renderer_Write_def give_simps)

text \<open>
  C4. with the renderer as its access mapping, a successful pass over the grants leaves a
  file that the SSH server reads as exactly the active grants of the manifest, each with its
  forced command and its normalized key: a revoked or omitted grant has no line left
\<close>

theorem access_current:
  assumes "distinct (map ag_ID desired)" and "sandbox_refs (fst s)"
    and "\<And>i x. Store_Grant i (fst s) = Some x \<Longrightarrow> lg_DesiredState x \<in> {''active'', ''revoked''}"
    and "rr_Sessions rr = Some ss" and "rr_Access rr = Renderer_Write atomicWrite r"
    and "\<And>p c w w'. atomicWrite p c w = (w', ok) \<Longrightarrow> disk w' p = c" and "newline \<notin> set (gateway_of r)"
    and "reconcileGrants rr desired s = (t, ok)"
  shows "set (read_mapping (gateway_of r) (disk (snd t) (rn_Path r))) =
    (\<lambda>g. Some (ag_ID g, normal_key (ag_SSHPublicKey g))) ` {g \<in> set desired. ag_DesiredState g = ''active''}"
proof -
  let ?M = "\<lambda>p w. set (read_mapping (gateway_of r) (disk w (rn_Path r))) = (\<lambda>p. Some (fst p, normal_key (snd p))) ` p"
  have written: "?M (active_keys gs) w'" if "rr_Access rr gs w = (w', ok)" for gs w w'
  proof -
    have "mapping_content r gs = Inr (disk w' (rn_Path r))"
      by (rule rendered_file [where atomicWrite = atomicWrite and w = w]) (use that assms(5,6) in auto)
    then show ?thesis by (rule rendered_keys [OF _ assms(7)])
  qed
  have "?M (granted_keys desired) (snd t)"
    using grants_pass [where M = ?M and T = "\<lambda>_ _. True", OF assms(1-4) _ written _ assms(8)] by (simp add: ends_sessions_def)
  then show ?thesis by (simp add: granted_keys_def image_image)
qed

text \<open>A world that is the file.\<close>

definition amx_reconciler :: "string reconciler" where
  "amx_reconciler = \<lparr>rr_Engine = \<lparr>en_Ensure = (\<lambda>_ _ _. give ()), en_Replace = (\<lambda>_ _ _ _. give ()), en_Recreate = (\<lambda>_ _ _ _. give ()),
       en_Start = (\<lambda>_. give ()), en_Stop = (\<lambda>_. give ()), en_Restart = (\<lambda>_. give ()), en_Remove = (\<lambda>_. give ()),
       en_Preflight = (\<lambda>_. give ()), en_ExecSetup = (\<lambda>_ _. give []), en_ObserveCellWitness = (\<lambda>_. give False),
       en_VerifyCellLifecycle = give ()\<rparr>,
     rr_Workspaces = \<lparr>ws_Ensure = (\<lambda>_ _. give []), ws_Destroy = (\<lambda>_. give ())\<rparr>,
     rr_Access = Renderer_Write (\<lambda>p c w. (c, ok)) amx_renderer,
     rr_Sessions = Some \<lparr>ss_TerminateGrant = (\<lambda>_. give ()), ss_TerminateSandbox = (\<lambda>_. give ())\<rparr>, rr_Now = (\<lambda>_. 0), rr_Lifecycle = None,
     rr_executing = (\<lambda>_ _. False),
     rr_tables = (\<lambda>_. \<lparr>wt_cells = no_cells, wt_projects = no_projects, wt_manager = no_manager\<rparr>),
     rr_codec = \<lparr>rc_encode = (\<lambda>_. []), rc_decode = (\<lambda>_. None)\<rparr>, rr_text = (\<lambda>_. [])\<rparr>"

definition amx_desired :: "AccessGrant list" where
  "amx_desired = [\<lparr>ag_ID = ''grant_abcdefgh'', ag_SandboxID = ''box'', ag_SSHPublicKey = ''ssh-ed25519  AAAA  me@host'', ag_SSHFingerprint = [],
     ag_DesiredState = ''active''\<rparr>]"

definition amx_store :: store where
  "amx_store = grx_store\<lparr>st_grants := []\<rparr>"

lemma amx_made: "mapping_content amx_renderer [amx_grant ''grant_abcdefgh'' ''active''] = Inr amx_content"
  by (simp add: mapping_content_def line_step_def amx_grant_def amx_plain amx_public amx_content_def grant_line_def gateway_of_def
      amx_renderer_def newline_def join_def Let_def)

lemma amx_run: "snd (reconcileGrants amx_reconciler amx_desired (amx_store, [])) = ok"
proof -
  let ?g = "amx_grant ''grant_abcdefgh'' ''active''"
  have refs: "map_of (st_sandboxes amx_store) ''box'' \<noteq> None" by (simp add: amx_store_def grx_store_def)
  have wanted: "wanted_grant [] (hd amx_desired) = ?g" by (simp add: wanted_grant_def amx_desired_def amx_grant_def)
  have listed: "Store_Grants (amx_store\<lparr>st_grants := [(''grant_abcdefgh'', ?g)]\<rparr>) = [?g]"
    by (simp add: Store_Grants_def order_by_def)
  have none: "Store_Grants amx_store = []" by (simp add: Store_Grants_def order_by_def amx_store_def)
  have put: "Store_PutGrant ?g amx_store = (amx_store\<lparr>st_grants := [(''grant_abcdefgh'', ?g)]\<rparr>, ok)"
    using refs by (simp add: Store_PutGrant_def amx_grant_def amx_store_def)
  have mapped: "rr_Access amx_reconciler [?g] w = (amx_content, ok)" for w
    by (simp add: amx_reconciler_def Renderer_Write_def amx_made)
  have settled: "settle_grant {''grant_abcdefgh''} ?g (amx_store\<lparr>st_grants := [(''grant_abcdefgh'', ?g)]\<rparr>, w) = (t, r) \<Longrightarrow> r = ok" for w t r
    using refs by (auto simp: settle_grant_def andThen_def attempt_def left_of_def give_simps Store_PutGrant_def amx_grant_def)
  show ?thesis
    using wanted by (auto simp: reconcileGrants_def reading_def Let_def none amx_desired_def adopt_grant_def andThen_def attempt_def give_simps
        left_of_def right_of_def put listed mapped dest: settled split: prod.split sum.split)
qed

lemma access_current_witness:
  "set (read_mapping ''/gw'' (snd (fst (reconcileGrants amx_reconciler amx_desired (amx_store, []))))) =
     {Some (''grant_abcdefgh'', ''ssh-ed25519 AAAA'')}"
proof -
  let ?p = "reconcileGrants amx_reconciler amx_desired (amx_store, [])"
  have run: "?p = (fst ?p, ok)" using amx_run by (metis prod.collapse)
  have refs: "sandbox_refs (fst (amx_store, []))"
    by (simp add: amx_store_def grx_store_def sandbox_refs_def empty_store_def keyed_by_def refers_def wf_tbl_def new_sandbox_def)
  have gateway: "gateway_of amx_renderer = ''/gw''" by (simp add: gateway_of_def amx_renderer_def)
  have "set (read_mapping (gateway_of amx_renderer) ((\<lambda>w _. w) (snd (fst ?p)) (rn_Path amx_renderer))) =
      (\<lambda>g. Some (ag_ID g, normal_key (ag_SSHPublicKey g))) ` {g \<in> set amx_desired. ag_DesiredState g = ''active''}"
    by (rule access_current [where disk = "\<lambda>w _. w" and atomicWrite = "\<lambda>p c w. (c, ok)" and rr = amx_reconciler, OF _ refs _ _ _ _ _ run])
      (simp_all add: amx_desired_def amx_store_def Store_Grant_def amx_reconciler_def gateway newline_def)
  moreover have "{g \<in> set amx_desired. ag_DesiredState g = ''active''} = set amx_desired" by (auto simp: amx_desired_def)
  moreover have "normal_key ''ssh-ed25519  AAAA  me@host'' = ''ssh-ed25519 AAAA''" by (simp add: normal_key_def amx_public)
  ultimately show ?thesis by (simp add: gateway amx_desired_def)
qed

end
