(* ===== verification/Store_Insights.thy ===== *)
theory Store_Insights
  imports Store_Manager
begin

text \<open>
  The outbox of insight batches, the cursors of the sources, the retired batches and the policy leases
  (\<open>internal/state/store.go\<close>), in a record of their own. A row holds its values; \<open>ic_batch\<close> and \<open>ic_cursor\<close> give
  their JSON text, which the code compares and counts. \<open>between\<close> is what other callers do between the reads and
  the write of a method without a transaction.
\<close>

section \<open>Data\<close>

record InsightPolicySourceV1 =
  jr_RegisteredSourceID :: "string"
  jr_ServiceRegistrationID :: "string"
  jr_SandboxGeneration :: "int"
  jr_ServiceGeneration :: "int"
  jr_WorkspaceEpoch :: "string"
  jr_NativeSessionID :: "string"

record InsightPolicyV1 =
  jp_SandboxID :: "string"
  jp_Revision :: "int"
  jp_Enabled :: "bool"
  jp_ExpiresAt :: "gotime"
  jp_Sources :: "InsightPolicySourceV1 list"

record InsightBatchV1 =
  jb_FormatVersion :: "int"
  jb_BatchID :: "string"
  jb_SandboxID :: "string"
  jb_SandboxGeneration :: "int"
  jb_PolicyRevision :: "int"
  jb_RegisteredSourceID :: "string"
  jb_ServiceRegistrationID :: "string"
  jb_ServiceGeneration :: "int"
  jb_WorkspaceEpoch :: "string"
  jb_NativeSessionID :: "string"
  jb_JournalGeneration :: "string"
  jb_ThroughSequence :: "int"
  jb_ObservedAt :: "gotime"
  jb_Status :: "string"
  jb_GapReason :: "string option"
  jb_Findings :: "InsightFindingV1 list"

record InsightBatchReceiptV1 =
  jt_BatchID :: "string"
  jt_Accepted :: "int"
  jt_ThroughSequence :: "int"

record InsightCursor =
  ju_RegisteredSourceID :: "string"
  ju_PolicyRevision :: "int"
  ju_WorkspaceEpoch :: "string"
  ju_JournalGeneration :: "string"
  ju_ChangeSequence :: "int"
  ju_ThroughSequence :: "int"
  ju_Status :: "string"
  ju_GapReason :: "string"
  ju_ProjectionDigest :: "string"

record InsightOutboxItem =
  jo_Batch :: "InsightBatchV1"
  jo_BodyDigest :: "string"
  jo_NextCursor :: "InsightCursor"

record InsightPolicyState =
  js_RegisteredSourceID :: "string"
  js_Revision :: "int"
  js_Enabled :: "bool"

record InsightPolicyLease =
  jl_Policy :: "InsightPolicyV1"

record InsightOutboxRetirement =
  jx_Item :: InsightOutboxItem
  jx_Reason :: string
  jx_RetiredAt :: gotime

text \<open>A row of the outbox with the column of its unique index and the time of its insertion.\<close>

record insight_row =
  nw_source :: string
  nw_item :: InsightOutboxItem
  nw_created :: gotime

record insight_store =
  nn_outbox :: "insight_row tbl"
  nn_retired :: "InsightOutboxRetirement tbl"
  nn_cursors :: "InsightCursor tbl"
  nn_states :: "InsightPolicyState tbl"
  nn_leases :: "InsightPolicyV1 tbl"

definition no_insights :: insight_store where
  "no_insights = \<lparr>nn_outbox = [], nn_retired = [], nn_cursors = [], nn_states = [], nn_leases = []\<rparr>"

record insight_codec =
  ic_batch :: "InsightBatchV1 \<Rightarrow> string"
  ic_cursor :: "InsightCursor \<Rightarrow> string"

definition ErrInsightOutboxConflict :: goerr where
  "ErrInsightOutboxConflict = Sentinel ''ErrInsightOutboxConflict''"

definition ErrInsightOutboxCapacity :: goerr where
  "ErrInsightOutboxCapacity = Sentinel ''ErrInsightOutboxCapacity''"

definition outboxRows :: nat where "outboxRows = 256"

definition outboxBytes :: int where "outboxBytes = 16 * 1024 * 1024"

text \<open>\<open>count(*)\<close> and \<open>sum(length(batch_json))\<close> against the bounds, with one more batch.\<close>

definition full :: "insight_codec \<Rightarrow> InsightBatchV1 list \<Rightarrow> InsightBatchV1 \<Rightarrow> bool" where
  "full codec batches batch \<longleftrightarrow> outboxRows \<le> length batches \<or>
     outboxBytes < wrap64 (int (sum_list (map (length \<circ> ic_batch codec) batches)) + int (length (ic_batch codec batch)))"

definition pending_batches :: "insight_store \<Rightarrow> InsightBatchV1 list" where
  "pending_batches s = map (jo_Batch \<circ> nw_item \<circ> snd) (nn_outbox s)"

definition retired_batches :: "insight_store \<Rightarrow> InsightBatchV1 list" where
  "retired_batches s = map (jo_Batch \<circ> jx_Item \<circ> snd) (nn_retired s)"

section \<open>The outbox\<close>

definition same_item :: "insight_codec \<Rightarrow> InsightOutboxItem \<Rightarrow> InsightOutboxItem \<Rightarrow> bool" where
  "same_item codec a b \<longleftrightarrow> jo_BodyDigest a = jo_BodyDigest b \<and>
     ic_batch codec (jo_Batch a) = ic_batch codec (jo_Batch b) \<and> ic_cursor codec (jo_NextCursor a) = ic_cursor codec (jo_NextCursor b)"

definition Store_PutInsightOutbox ::
  "insight_codec \<Rightarrow> (insight_store \<Rightarrow> insight_store) \<Rightarrow> gotime \<Rightarrow> InsightOutboxItem \<Rightarrow> insight_store \<Rightarrow> insight_store \<times> (goerr + unit)" where
  "Store_PutInsightOutbox codec between t value s =
     (let batch = jo_Batch value; i = jb_BatchID batch; source = jb_RegisteredSourceID batch in
      if i = [] \<or> jb_FormatVersion batch \<noteq> 1 \<or> jo_BodyDigest value = [] then (s, Inl ErrInsightOutboxConflict)
      else case map_of (nn_outbox s) i of
        Some row \<Rightarrow> if same_item codec (nw_item row) value then (s, ok) else (s, Inl ErrInsightOutboxConflict)
      | None \<Rightarrow>
          if full codec (pending_batches s) batch then (s, Inl ErrInsightOutboxCapacity)
          else let u = between s in
            if map_of (nn_outbox u) i \<noteq> None \<or> source \<noteq> [] \<and> list_ex (\<lambda>p. nw_source (snd p) = source) (nn_outbox u)
            then (u, Inl ErrInsightOutboxConflict)
            else (u\<lparr>nn_outbox := AList.update i \<lparr>nw_source = source, nw_item = value, nw_created = t\<rparr> (nn_outbox u)\<rparr>, ok))"

definition Store_InsightOutbox :: "insight_store \<Rightarrow> InsightOutboxItem list" where
  "Store_InsightOutbox s = map (nw_item \<circ> snd)
     (order_by (\<lambda>a b. text_less (formatNano (nw_created (snd a))) (formatNano (nw_created (snd b))) \<or>
        formatNano (nw_created (snd a)) = formatNano (nw_created (snd b)) \<and> text_less (fst a) (fst b)) (nn_outbox s))"

text \<open>A retirement is one transaction: the tombstone and the deletion.\<close>

definition Store_RetireInsightOutbox ::
  "insight_codec \<Rightarrow> gotime \<Rightarrow> string \<Rightarrow> string \<Rightarrow> insight_store \<Rightarrow> insight_store \<times> (goerr + unit)" where
  "Store_RetireInsightOutbox codec t i reason s =
     (if reason \<noteq> ''policy_superseded'' \<and> reason \<noteq> ''source_rotated'' then (s, Inl ErrInsightOutboxConflict)
      else case map_of (nn_retired s) i of
        Some tombstone \<Rightarrow> if jx_Reason tombstone \<noteq> reason then (s, Inl ErrInsightOutboxConflict) else (s, ok)
      | None \<Rightarrow>
          (case map_of (nn_outbox s) i of
             None \<Rightarrow> (s, Inl (Sentinel ''sql.ErrNoRows''))
           | Some row \<Rightarrow>
               if full codec (retired_batches s) (jo_Batch (nw_item row)) then (s, Inl ErrInsightOutboxCapacity)
               else (s\<lparr>nn_retired := AList.update i \<lparr>jx_Item = nw_item row, jx_Reason = reason, jx_RetiredAt = t\<rparr> (nn_retired s),
                      nn_outbox := AList.delete i (nn_outbox s)\<rparr>, ok)))"

definition Store_InsightOutboxRetirements :: "insight_store \<Rightarrow> InsightOutboxRetirement list" where
  "Store_InsightOutboxRetirements s = map snd
     (order_by (\<lambda>a b. text_less (formatNano (jx_RetiredAt (snd a))) (formatNano (jx_RetiredAt (snd b))) \<or>
        formatNano (jx_RetiredAt (snd a)) = formatNano (jx_RetiredAt (snd b)) \<and> text_less (fst a) (fst b)) (nn_retired s))"

definition Store_AcknowledgeInsightBatch :: "string \<Rightarrow> InsightBatchReceiptV1 \<Rightarrow> insight_store \<Rightarrow> insight_store \<times> (goerr + unit)" where
  "Store_AcknowledgeInsightBatch i receipt s =
     (case map_of (nn_outbox s) i of
        None \<Rightarrow> (s, Inl (Sentinel ''sql.ErrNoRows''))
      | Some row \<Rightarrow>
          let batch = jo_Batch (nw_item row); cursor = jo_NextCursor (nw_item row) in
          if jt_BatchID receipt \<noteq> i \<or> jt_Accepted receipt \<noteq> int (length (jb_Findings batch)) \<or>
             jt_ThroughSequence receipt \<noteq> jb_ThroughSequence batch
          then (s, Inl ErrInsightOutboxConflict)
          else (s\<lparr>nn_cursors := (if ju_RegisteredSourceID cursor = [] then nn_cursors s
                   else AList.update (ju_RegisteredSourceID cursor) cursor (nn_cursors s)),
                 nn_outbox := AList.delete i (nn_outbox s)\<rparr>, ok))"

definition Store_InsightCursor :: "string \<Rightarrow> insight_store \<Rightarrow> InsightCursor option" where
  "Store_InsightCursor i s = map_of (nn_cursors s) i"

section \<open>Policies\<close>

definition Store_InsightPolicyState :: "string \<Rightarrow> insight_store \<Rightarrow> InsightPolicyState option" where
  "Store_InsightPolicyState i s = map_of (nn_states s) i"

definition Store_PutInsightPolicyState :: "InsightPolicyState \<Rightarrow> insight_store \<Rightarrow> insight_store \<times> (goerr + unit)" where
  "Store_PutInsightPolicyState value s =
     (if js_RegisteredSourceID value = [] \<or> js_Revision value < 1 then (s, Inl (E ''invalid insight policy state''))
      else (s\<lparr>nn_states := AList.update (js_RegisteredSourceID value) value (nn_states s)\<rparr>, ok))"

definition Store_PutInsightPolicyLease ::
  "(insight_store \<Rightarrow> insight_store) \<Rightarrow> InsightPolicyLease \<Rightarrow> insight_store \<Rightarrow> insight_store \<times> (goerr + unit)" where
  "Store_PutInsightPolicyLease between value s =
     (let policy = jl_Policy value; i = jp_SandboxID policy in
      if i = [] \<or> jp_Revision policy < 1 \<or> isZero (jp_ExpiresAt policy) then (s, Inl (E ''invalid insight policy lease''))
      else if (case map_of (nn_leases s) i of None \<Rightarrow> False | Some prior \<Rightarrow> jp_Revision policy < jp_Revision prior)
      then (s, Inl (E ''insight policy lease regressed''))
      else let u = between s in (u\<lparr>nn_leases := AList.update i policy (nn_leases u)\<rparr>, ok))"

definition Store_InsightPolicyLeases :: "insight_store \<Rightarrow> InsightPolicyLease list" where
  "Store_InsightPolicyLeases s = map (\<lambda>p. \<lparr>jl_Policy = snd p\<rparr>) (order_by (\<lambda>a b. text_less (fst a) (fst b)) (nn_leases s))"

end
