(* ===== verification/Store_Sources.thy ===== *)
theory Store_Sources
  imports Model_Cell Store_State
begin

text \<open>
  The tables of continuity sources, registrations and barriers, and the outbox of operation reports with the tombstones of
  what the control plane acknowledged (\<open>internal/state/store.go\<close>). The tables are a record of their own; the
  retirement reads the operations of the store record in its transaction. A row of the outbox holds the digest and the JSON text of
  its report, which \<open>oc_decode\<close> reads; reports of sources and registrations are values.
\<close>

section \<open>Data\<close>

record ItemError =
  ie_Code :: "string"
  ie_Message :: "string"

record ContinuitySourceReportV1 =
  cs_FormatVersion :: "int"
  cs_RegisteredSourceID :: "string"
  cs_ServiceRegistrationID :: "string"
  cs_ServiceGeneration :: "int"
  cs_ProjectID :: "string"
  cs_SandboxID :: "string"
  cs_SandboxGeneration :: "int"
  cs_WorkspaceEpoch :: "string"
  cs_NativeSessionID :: "string"
  cs_NativeProjectID :: "string"
  cs_NativeLocationDigest :: "string"
  cs_ScopeRevision :: "int"
  cs_Role :: "string"
  cs_ProfileRevision :: "int"
  cs_InstructionRevision :: "int"
  cs_Availability :: "string"
  cs_Reason :: "string option"
  cs_LastObservedAt :: "gotime"

record ContinuityOperationReportV1 =
  rq_FormatVersion :: "int"
  rq_OperationID :: "string"
  rq_Action :: "string"
  rq_ScopeRevision :: "int"
  rq_BoundaryKind :: "string"
  rq_Identity :: "ContinuityIdentityV1"
  rq_Binding :: "ContinuityBindingV1"
  rq_Status :: "string"
  rq_CheckpointID :: "string"
  rq_CaptureID :: "string"
  rq_ManifestDigest :: "string"
  rq_Bytes :: "int"
  rq_ObjectCount :: "int"
  rq_ReceiptDigest :: "string"
  rq_LastError :: "ItemError option"
  rq_RequestDigest :: "string"

record LocalContinuitySource =
  ll_Report :: "ContinuitySourceReportV1"
  ll_Root :: "string"
  ll_Instance :: "string"
  ll_Lifecycle :: "string"
  ll_LifecycleRevision :: "int"
  ll_NoAdmittedExecution :: "bool"

record LocalContinuityRegistration =
  lr_Manifest :: "ContinuityRegistrationV1"
  lr_ObservedStatus :: "string"
  lr_ServiceGeneration :: "int"
  lr_ReceiptDigest :: "string"
  lr_ErrorCode :: "string"

record ContinuityOperationCandidate =
  kd_Report :: "ContinuityOperationReportV1"
  kd_BarrierPresent :: "bool"
  kd_LocalOperationLive :: "bool"

record ContinuityBarrier =
  br_OperationID :: string
  br_Request :: string
  br_Receipt :: string

record ContinuityOperationRetirement =
  tr_Report :: "ContinuityOperationReportV1"
  tr_Reason :: "string"
  tr_RetiredAt :: "gotime"

record outbox_row =
  ob_digest :: string
  ob_payload :: string

record tombstone_row =
  tb_digest :: string
  tb_payload :: string
  tb_reason :: string
  tb_at :: gotime

record source_store =
  ts_sources :: "LocalContinuitySource tbl"
  ts_registrations :: "LocalContinuityRegistration tbl"
  ts_barriers :: "(string \<times> string) tbl"
  ts_reports :: "outbox_row tbl"
  ts_retired :: "tombstone_row tbl"

definition no_sources :: source_store where
  "no_sources = \<lparr>ts_sources = [], ts_registrations = [], ts_barriers = [], ts_reports = [], ts_retired = []\<rparr>"

record report_codec =
  oc_source :: "ContinuitySourceReportV1 \<Rightarrow> string"
  oc_encode :: "ContinuityOperationReportV1 \<Rightarrow> string"
  oc_decode :: "string \<Rightarrow> ContinuityOperationReportV1 option"

abbreviation by_id :: "'r tbl \<Rightarrow> 'r tbl" where
  "by_id t \<equiv> order_by (\<lambda>a b. text_less (fst a) (fst b)) t"

section \<open>Sources\<close>

definition Store_PutContinuitySource :: "LocalContinuitySource \<Rightarrow> source_store \<Rightarrow> source_store \<times> (goerr + unit)" where
  "Store_PutContinuitySource value s =
     (if ll_Root value = [] \<or> ll_Instance value = [] \<or> ll_LifecycleRevision value < 1 \<or>
         ll_Lifecycle value \<noteq> ''running'' \<and> ll_Lifecycle value \<noteq> ''stopped'' \<or> cs_FormatVersion (ll_Report value) \<noteq> 1
      then (s, Inl (E ''invalid host continuity source''))
      else (s\<lparr>ts_sources := AList.update (cs_RegisteredSourceID (ll_Report value)) value (ts_sources s)\<rparr>, ok))"

text \<open>The \<open>UPDATE\<close> changes the execution flag of the row that was read, compared by the text of its report.\<close>

definition Store_MarkContinuitySourceIdle ::
  "report_codec \<Rightarrow> LocalContinuitySource \<Rightarrow> source_store \<Rightarrow> source_store \<times> (goerr + unit)" where
  "Store_MarkContinuitySourceIdle codec observed s =
     (if ll_Lifecycle observed \<noteq> ''running'' \<or> ll_LifecycleRevision observed < 1 \<or> cs_FormatVersion (ll_Report observed) \<noteq> 1
      then (s, Inl (E ''invalid idle continuity observation''))
      else
        let i = cs_RegisteredSourceID (ll_Report observed) in
        (case map_of (ts_sources s) i of
           None \<Rightarrow> (s, ok)
         | Some row \<Rightarrow>
             if oc_source codec (ll_Report row) = oc_source codec (ll_Report observed) \<and> ll_Root row = ll_Root observed \<and>
                ll_Instance row = ll_Instance observed \<and> ll_Lifecycle row = ''running'' \<and>
                ll_LifecycleRevision row = ll_LifecycleRevision observed
             then (s\<lparr>ts_sources := AList.update i (row\<lparr>ll_NoAdmittedExecution := True\<rparr>) (ts_sources s)\<rparr>, ok)
             else (s, ok)))"

definition Store_ContinuitySource :: "string \<Rightarrow> source_store \<Rightarrow> LocalContinuitySource option" where
  "Store_ContinuitySource i s = map_of (ts_sources s) i"

definition Store_ContinuitySources :: "source_store \<Rightarrow> LocalContinuitySource list" where
  "Store_ContinuitySources s = map snd (by_id (ts_sources s))"

definition Store_AdvanceContinuityLifecycle :: "string \<Rightarrow> int \<Rightarrow> string \<Rightarrow> source_store \<Rightarrow> source_store \<times> (goerr + unit)" where
  "Store_AdvanceContinuityLifecycle i expected lifecycle s =
     (if lifecycle \<noteq> ''running'' \<and> lifecycle \<noteq> ''stopped'' then (s, Inl (E ''invalid continuity lifecycle''))
      else case map_of (ts_sources s) i of
        None \<Rightarrow> (s, Inl (E ''continuity lifecycle fence changed''))
      | Some row \<Rightarrow>
          if ll_LifecycleRevision row \<noteq> expected then (s, Inl (E ''continuity lifecycle fence changed''))
          else (s\<lparr>ts_sources := AList.update i
                 (row\<lparr>ll_Lifecycle := lifecycle, ll_LifecycleRevision := ll_LifecycleRevision row + 1\<rparr>) (ts_sources s)\<rparr>, ok))"

section \<open>Registrations\<close>

definition Store_PutContinuityRegistration :: "LocalContinuityRegistration \<Rightarrow> source_store \<Rightarrow> source_store \<times> (goerr + unit)" where
  "Store_PutContinuityRegistration value s =
     (let i = cb_BindingID (cr_Binding (lr_Manifest value)) in
      if cr_FormatVersion (lr_Manifest value) \<noteq> 1 \<or> i = [] \<or>
         lr_ObservedStatus value \<noteq> ''verified'' \<and> lr_ObservedStatus value \<noteq> ''revoked'' \<and> lr_ObservedStatus value \<noteq> ''failed''
      then (s, Inl (E ''invalid continuity registration''))
      else (s\<lparr>ts_registrations := AList.update i value (ts_registrations s)\<rparr>, ok))"

definition Store_ContinuityRegistration :: "string \<Rightarrow> source_store \<Rightarrow> LocalContinuityRegistration option" where
  "Store_ContinuityRegistration i s = map_of (ts_registrations s) i"

definition Store_ContinuityRegistrations :: "source_store \<Rightarrow> LocalContinuityRegistration list" where
  "Store_ContinuityRegistrations s = map snd (by_id (ts_registrations s))"

section \<open>Barriers\<close>

definition Store_PutContinuityBarrier :: "string \<Rightarrow> string \<Rightarrow> string \<Rightarrow> source_store \<Rightarrow> source_store \<times> (goerr + unit)" where
  "Store_PutContinuityBarrier i request receipt s = (s\<lparr>ts_barriers := AList.update i (request, receipt) (ts_barriers s)\<rparr>, ok)"

definition Store_DeleteContinuityBarrier :: "string \<Rightarrow> source_store \<Rightarrow> source_store \<times> (goerr + unit)" where
  "Store_DeleteContinuityBarrier i s = (s\<lparr>ts_barriers := AList.delete i (ts_barriers s)\<rparr>, ok)"

definition Store_ContinuityBarriers :: "source_store \<Rightarrow> ContinuityBarrier list" where
  "Store_ContinuityBarriers s =
     map (\<lambda>(i, request, receipt). \<lparr>br_OperationID = i, br_Request = request, br_Receipt = receipt\<rparr>) (by_id (ts_barriers s))"

section \<open>The outbox of operation reports\<close>

definition Store_PutContinuityOperationReport ::
  "report_codec \<Rightarrow> ContinuityOperationReportV1 \<Rightarrow> source_store \<Rightarrow> source_store \<times> (goerr + unit)" where
  "Store_PutContinuityOperationReport codec report s =
     (if rq_RequestDigest report = [] then (s, Inl (E ''continuity operation report is missing its host replay digest''))
      else (s\<lparr>ts_reports := AList.update (rq_OperationID report)
             \<lparr>ob_digest = rq_RequestDigest report, ob_payload = oc_encode codec report\<rparr> (ts_reports s)\<rparr>, ok))"

text \<open>\<open>json.Unmarshal\<close> into the value that already has the digest, which the text does not hold.\<close>

definition read_report :: "report_codec \<Rightarrow> string \<Rightarrow> string \<Rightarrow> ContinuityOperationReportV1 option" where
  "read_report codec digest payload = map_option (\<lambda>r. r\<lparr>rq_RequestDigest := digest\<rparr>) (oc_decode codec payload)"

definition Store_ContinuityOperationReports :: "report_codec \<Rightarrow> source_store \<Rightarrow> goerr + ContinuityOperationReportV1 list" where
  "Store_ContinuityOperationReports codec s =
     foldE (\<lambda>values (i, row). case read_report codec (ob_digest row) (ob_payload row) of
       None \<Rightarrow> Inl (E ''report_json'') | Some v \<Rightarrow> Inr (values @ [v])) [] (by_id (ts_reports s))"

text \<open>An operation of the store that has not ended.\<close>

definition live_operation :: "store \<Rightarrow> string \<Rightarrow> bool" where
  "live_operation st i \<longleftrightarrow> (case map_of (st_operations st) i of None \<Rightarrow> False
     | Some row \<Rightarrow> lo_State row \<notin> {''captured'', ''succeeded'', ''failed''})"

definition candidate :: "store \<Rightarrow> source_store \<Rightarrow> string \<Rightarrow> ContinuityOperationReportV1 \<Rightarrow> ContinuityOperationCandidate" where
  "candidate st s i report = \<lparr>kd_Report = report, kd_BarrierPresent = (map_of (ts_barriers s) i \<noteq> None),
     kd_LocalOperationLive = (live_operation st (i @ ''_capture'') \<or> live_operation st (i @ ''_checkpoint''))\<rparr>"

definition conflicting :: "outbox_row \<Rightarrow> tombstone_row option \<Rightarrow> bool" where
  "conflicting row existing \<longleftrightarrow> (case existing of None \<Rightarrow> False
     | Some t \<Rightarrow> tb_digest t \<noteq> ob_digest row \<or> tb_payload t \<noteq> ob_payload row)"

text \<open>\<open>INSERT OR IGNORE\<close> of the tombstone and the deletion of the row.\<close>

definition retire_row :: "string \<Rightarrow> gotime \<Rightarrow> string \<Rightarrow> outbox_row \<Rightarrow> source_store \<Rightarrow> source_store" where
  "retire_row reason t i row s = s\<lparr>ts_retired := (if map_of (ts_retired s) i = None
       then AList.update i \<lparr>tb_digest = ob_digest row, tb_payload = ob_payload row, tb_reason = reason, tb_at = t\<rparr> (ts_retired s)
       else ts_retired s),
     ts_reports := AList.delete i (ts_reports s)\<rparr>"

definition retire_step ::
  "report_codec \<Rightarrow> (ContinuityOperationCandidate \<Rightarrow> goerr + bool) \<Rightarrow> string \<Rightarrow> gotime \<Rightarrow> store \<Rightarrow> source_store \<Rightarrow>
     source_store \<times> ContinuityOperationReportV1 list \<Rightarrow> string \<times> outbox_row \<Rightarrow>
     goerr + source_store \<times> ContinuityOperationReportV1 list" where
  "retire_step codec eligible reason t st before acc p =
     (let (s, retired) = acc; (i, row) = p in
      case read_report codec (ob_digest row) (ob_payload row) of
        None \<Rightarrow> Inr acc
      | Some report \<Rightarrow>
          if rq_OperationID report \<noteq> i then Inr acc
          else bindE (eligible (candidate st before i report)) (\<lambda>decision.
            if \<not> decision \<or> conflicting row (map_of (ts_retired s) i) then Inr acc
            else Inr (retire_row reason t i row s, retired @ [report])))"

definition Store_RetireContinuityOperationReports ::
  "report_codec \<Rightarrow> (ContinuityOperationCandidate \<Rightarrow> goerr + bool) \<Rightarrow> string \<Rightarrow> gotime \<Rightarrow> store \<Rightarrow> source_store \<Rightarrow>
     source_store \<times> (goerr + ContinuityOperationReportV1 list)" where
  "Store_RetireContinuityOperationReports codec eligible reason t st s =
     (if blank (map byte reason) \<or> 160 < length reason then (s, Inl (E ''invalid continuity operation retirement request''))
      else case foldE (retire_step codec eligible reason t st s) (s, []) (by_id (ts_reports s)) of
        Inl err \<Rightarrow> (s, Inl err)
      | Inr (u, retired) \<Rightarrow> (u, Inr retired))"

text \<open>The tombstones are listed by the text of their time; one is read by its operation.\<close>

definition read_tombstone :: "report_codec \<Rightarrow> tombstone_row \<Rightarrow> ContinuityOperationRetirement option" where
  "read_tombstone codec row = map_option (\<lambda>r. \<lparr>tr_Report = r, tr_Reason = tb_reason row, tr_RetiredAt = tb_at row\<rparr>)
     (read_report codec (tb_digest row) (tb_payload row))"

definition Store_ContinuityOperationRetirements :: "report_codec \<Rightarrow> source_store \<Rightarrow> goerr + ContinuityOperationRetirement list" where
  "Store_ContinuityOperationRetirements codec s =
     foldE (\<lambda>values (i, row). case read_tombstone codec row of None \<Rightarrow> Inl (E ''report_json'') | Some v \<Rightarrow> Inr (values @ [v])) []
       (order_by (\<lambda>a b. text_less (formatNano (tb_at (snd a))) (formatNano (tb_at (snd b))) \<or>
          formatNano (tb_at (snd a)) = formatNano (tb_at (snd b)) \<and> text_less (fst a) (fst b)) (ts_retired s))"

definition Store_ContinuityOperationRetirement :: "report_codec \<Rightarrow> string \<Rightarrow> source_store \<Rightarrow> goerr + ContinuityOperationRetirement option" where
  "Store_ContinuityOperationRetirement codec i s =
     (case map_of (ts_retired s) i of
        None \<Rightarrow> Inr None
      | Some row \<Rightarrow> (case read_tombstone codec row of None \<Rightarrow> Inl (E ''report_json'') | Some v \<Rightarrow> Inr (Some v)))"

section \<open>Laws\<close>

text \<open>What the transaction does with a row of the outbox.\<close>

definition retires ::
  "report_codec \<Rightarrow> (ContinuityOperationCandidate \<Rightarrow> goerr + bool) \<Rightarrow> store \<Rightarrow> source_store \<Rightarrow> string \<Rightarrow> outbox_row \<Rightarrow> bool" where
  "retires codec eligible st s i row \<longleftrightarrow>
     (case read_report codec (ob_digest row) (ob_payload row) of None \<Rightarrow> False
      | Some report \<Rightarrow> rq_OperationID report = i \<and> eligible (candidate st s i report) = Inr True \<and>
          \<not> conflicting row (map_of (ts_retired s) i))"

definition retired_state ::
  "report_codec \<Rightarrow> (ContinuityOperationCandidate \<Rightarrow> goerr + bool) \<Rightarrow> string \<Rightarrow> gotime \<Rightarrow> store \<Rightarrow> source_store \<Rightarrow>
     (string \<times> outbox_row) list \<Rightarrow> source_store \<Rightarrow> bool" where
  "retired_state codec eligible reason t st s seen u \<longleftrightarrow>
     (\<forall>i. map_of (ts_reports u) i = (case map_of (ts_reports s) i of None \<Rightarrow> None
        | Some row \<Rightarrow> if (i, row) \<in> set seen \<and> retires codec eligible st s i row then None else Some row)) \<and>
     (\<forall>i. map_of (ts_retired u) i = (case map_of (ts_retired s) i of Some x \<Rightarrow> Some x
        | None \<Rightarrow> (case map_of (ts_reports s) i of None \<Rightarrow> None
           | Some row \<Rightarrow> if (i, row) \<in> set seen \<and> retires codec eligible st s i row
               then Some \<lparr>tb_digest = ob_digest row, tb_payload = ob_payload row, tb_reason = reason, tb_at = t\<rparr> else None))) \<and>
     ts_sources u = ts_sources s \<and> ts_registrations u = ts_registrations s \<and> ts_barriers u = ts_barriers s"


lemma retire_step_state:
  assumes "retired_state codec eligible reason t st s seen (fst acc)" and "map_of (ts_reports s) (fst p) = Some (snd p)"
    and "fst p \<notin> fst ` set seen" and "retire_step codec eligible reason t st s acc p = Inr acc'"
  shows "retired_state codec eligible reason t st s (seen @ [p]) (fst acc')"
proof -
  obtain u retired where acc: "acc = (u, retired)" by fastforce
  obtain i row where p: "p = (i, row)" by fastforce
  have fresh: "(i, r) \<notin> set seen" for r using assms(3) by (force simp: p)
  have row: "map_of (ts_reports s) i = Some row" using assms(2) by (simp add: p)
  have tomb: "map_of (ts_retired u) i = map_of (ts_retired s) i" "map_of (ts_reports u) i = Some row"
    using assms(1) row fresh by (auto simp: retired_state_def acc split: option.split)
  show ?thesis
  proof (cases "retires codec eligible st s i row")
    case True
    then obtain report where report: "read_report codec (ob_digest row) (ob_payload row) = Some report" "rq_OperationID report = i"
      "eligible (candidate st s i report) = Inr True" "\<not> conflicting row (map_of (ts_retired s) i)"
      by (auto simp: retires_def split: option.splits)
    then have acc': "fst acc' = retire_row reason t i row u"
      using assms(4) by (auto simp: retire_step_def acc p tomb)
    show ?thesis
      using assms(1) True row tomb
      by (auto simp: retired_state_def acc acc' p retire_row_def split: option.splits if_splits)
  next
    case False
    then have "fst acc' = u"
      using assms(4) by (auto simp: retire_step_def acc p tomb retires_def bindE_Inr_iff split: option.splits if_splits)
    moreover have same: "(j, r) \<in> set (seen @ [p]) \<and> retires codec eligible st s j r \<longleftrightarrow> (j, r) \<in> set seen \<and> retires codec eligible st s j r" for j r
      using False by (auto simp: p)
    ultimately show ?thesis using assms(1) unfolding retired_state_def same by (simp only: acc fst_conv simp_thms)
  qed
qed

lemma retirement_state:
  assumes "wf_tbl (ts_reports s)" and "Store_RetireContinuityOperationReports codec eligible reason t st s = (u, Inr retired)"
  shows "retired_state codec eligible reason t st s (by_id (ts_reports s)) u"
proof -
  have run: "foldE (retire_step codec eligible reason t st s) (s, []) (by_id (ts_reports s)) = Inr (u, retired)"
    using assms(2) by (auto simp: Store_RetireContinuityOperationReports_def split: if_splits sum.splits)
  have "retired_state codec eligible reason t st s (seen @ rest) (fst acc')"
    if "foldE (retire_step codec eligible reason t st s) acc rest = Inr acc'" "retired_state codec eligible reason t st s seen (fst acc)"
      "distinct (map fst (seen @ rest))" "\<And>p. p \<in> set rest \<Longrightarrow> map_of (ts_reports s) (fst p) = Some (snd p)" for seen rest acc acc'
    using that
  proof (induction rest arbitrary: seen acc)
    case Nil
    then show ?case by simp
  next
    case (Cons p rest)
    from Cons.prems(1) obtain mid where mid: "retire_step codec eligible reason t st s acc p = Inr mid"
      "foldE (retire_step codec eligible reason t st s) mid rest = Inr acc'" by (auto simp: bindE_Inr_iff)
    have "fst p \<notin> fst ` set seen" using Cons.prems(3) by auto
    from retire_step_state [OF Cons.prems(2) Cons.prems(4) this mid(1)]
    have "retired_state codec eligible reason t st s (seen @ [p]) (fst mid)" by simp
    from Cons.IH [OF mid(2) this] Cons.prems(3,4) show ?case by simp
  qed
  moreover have "retired_state codec eligible reason t st s [] (fst (s, []))"
    by (auto simp: retired_state_def split: option.split)
  moreover have "distinct (map fst (by_id (ts_reports s)))" and "\<And>p. p \<in> set (by_id (ts_reports s)) \<Longrightarrow> map_of (ts_reports s) (fst p) = Some (snd p)"
    using assms(1) by (auto simp: wf_tbl_def)
  ultimately show ?thesis using run by fastforce
qed


lemma retirement_registrations:
  assumes "Store_RetireContinuityOperationReports codec eligible reason t st s = (u, Inr retired)"
  shows "ts_registrations u = ts_registrations s"
proof -
  have run: "foldE (retire_step codec eligible reason t st s) (s, []) (by_id (ts_reports s)) = Inr (u, retired)"
    using assms by (auto simp: Store_RetireContinuityOperationReports_def split: if_splits sum.splits)
  have "ts_registrations (fst (u, retired)) = ts_registrations s"
    by (rule foldE_invariant [OF run]) (auto simp: retire_step_def retire_row_def bindE_Inr_iff split: prod.splits option.splits if_splits)
  then show ?thesis by simp
qed

end
