(* ===== verification/Continuity_Acknowledge.thy ===== *)
theory Continuity_Acknowledge
  imports Store_Sources Manifest_Examples Go_Effects
begin

text \<open>
  The acknowledgement phase of the continuity coordinator (\<open>internal/continuity/coordinator.go\<close>): the registration state of
  the manifest is stored, then the terminal operation reports that the manifest no longer carries are retired. With it the
  freshness of sources (\<open>report_freshness.go\<close>) and the resolution of a workspace (\<open>registry.go\<close>). The clock and the digest of a
  registration with its source are arguments.
\<close>

section \<open>Freshness of sources\<close>

definition SourceFreshness :: int where
  "SourceFreshness = seconds 120"

definition DecideStaleSourceSet :: "ContinuitySourceReportV1 list \<Rightarrow> gotime \<Rightarrow> string set" where
  "DecideStaleSourceSet sources t =
     foldl (\<lambda>stale source. if SourceFreshness < time_sub t (cs_LastObservedAt source)
       then insert (cs_RegisteredSourceID source) stale else stale) {} sources"

definition DeriveSourceReport :: "string set \<Rightarrow> ContinuitySourceReportV1 \<Rightarrow> ContinuitySourceReportV1" where
  "DeriveSourceReport stale report =
     (if cs_RegisteredSourceID report \<notin> stale \<or> cs_Availability report \<noteq> ''available'' then report
      else report\<lparr>cs_Availability := ''unavailable'', cs_Reason := Some ''source_unavailable''\<rparr>)"

text \<open>The fields in which a registration and an observation of its source have to agree, and its age.\<close>

definition sourceMatchesRegistration :: "LocalContinuitySource \<Rightarrow> ContinuityRegistrationV1 \<Rightarrow> gotime \<Rightarrow> bool" where
  "sourceMatchesRegistration source desired t \<longleftrightarrow>
     (let r = ll_Report source; b = cr_Binding desired; i = cr_Identity desired; age = time_sub t (cs_LastObservedAt r) in
      0 \<le> age \<and> age \<le> SourceFreshness \<and> cs_Availability r = ''available'' \<and>
      cs_RegisteredSourceID r = cb_RegisteredSourceID b \<and> cs_ServiceRegistrationID r = cb_ServiceRegistrationID b \<and>
      cs_NativeSessionID r = cb_NativeSessionID b \<and> cs_NativeProjectID r = cb_NativeProjectID b \<and>
      cs_NativeLocationDigest r = cb_NativeLocationDigest b \<and> cs_ProjectID r = ci_ProjectID i \<and>
      cs_SandboxID r = ci_SandboxID i \<and> cs_SandboxGeneration r = ci_SandboxGeneration i \<and>
      cs_WorkspaceEpoch r = ci_WorkspaceEpoch i \<and> cs_ScopeRevision r = cr_ScopeRevision desired)"

section \<open>The workspace of a Work\<close>

type_synonym BoundaryBindingV1 = ContinuityBindingV1

record RegisteredWorkspace =
  rw_Identity :: "ContinuityIdentityV1"
  rw_Root :: "string"
  rw_Instance :: "string"
  rw_Lifecycle :: "string"
  rw_LifecycleRevision :: "int"
  rw_Fresh :: "bool"
  rw_Designation :: "string"
  rw_NoAdmittedExecution :: "bool"
  rw_BoundaryBinding :: "BoundaryBindingV1"

definition ErrTargetChanged :: goerr where
  "ErrTargetChanged = Sentinel ''ErrTargetChanged''"

definition resolvable :: "ContinuityIdentityV1 \<Rightarrow> LocalContinuityRegistration \<Rightarrow> bool" where
  "resolvable identity registration \<longleftrightarrow> lr_ObservedStatus registration = ''verified'' \<and>
     cr_DesiredState (lr_Manifest registration) = ''active'' \<and> cr_ContinuityEnabled (lr_Manifest registration) \<and>
     SameContinuityWorkFence (cr_Identity (lr_Manifest registration)) identity"

definition StateRegistry_Resolve :: "gotime \<Rightarrow> ContinuityIdentityV1 \<Rightarrow> source_store \<Rightarrow> goerr + RegisteredWorkspace" where
  "StateRegistry_Resolve t identity s =
     (case find (resolvable identity) (Store_ContinuityRegistrations s) of
        None \<Rightarrow> Inl ErrTargetChanged
      | Some registration \<Rightarrow>
          let binding = cr_Binding (lr_Manifest registration) in
          (case Store_ContinuitySource (cb_RegisteredSourceID binding) s of
             None \<Rightarrow> Inl ErrTargetChanged
           | Some source \<Rightarrow>
               let report = ll_Report source; age = time_sub t (cs_LastObservedAt report) in
               if age < 0 \<or> SourceFreshness < age \<or> cs_RegisteredSourceID report \<noteq> cb_RegisteredSourceID binding \<or>
                  cs_ServiceRegistrationID report \<noteq> cb_ServiceRegistrationID binding \<or>
                  cs_NativeSessionID report \<noteq> cb_NativeSessionID binding \<or> cs_NativeProjectID report \<noteq> cb_NativeProjectID binding \<or>
                  cs_NativeLocationDigest report \<noteq> cb_NativeLocationDigest binding \<or> cs_ProjectID report \<noteq> ci_ProjectID identity \<or>
                  cs_SandboxID report \<noteq> ci_SandboxID identity \<or> cs_SandboxGeneration report \<noteq> ci_SandboxGeneration identity \<or>
                  cs_WorkspaceEpoch report \<noteq> ci_WorkspaceEpoch identity \<or> cs_ScopeRevision report \<noteq> cr_ScopeRevision (lr_Manifest registration) \<or>
                  cs_ServiceGeneration report \<noteq> lr_ServiceGeneration registration \<or> cs_Availability report \<noteq> ''available''
               then Inl ErrTargetChanged
               else Inr \<lparr>rw_Identity = identity, rw_Root = ll_Root source, rw_Instance = ll_Instance source,
                   rw_Lifecycle = ll_Lifecycle source, rw_LifecycleRevision = ll_LifecycleRevision source,
                   rw_Fresh = False, rw_Designation = [],
                   rw_NoAdmittedExecution = ll_NoAdmittedExecution source, rw_BoundaryBinding = binding\<rparr>))"

section \<open>Terminal reports\<close>

definition safeIdentifier :: rexp where
  "safeIdentifier = Seq (Cls alnum) (Rep (Cls (alnum @ chars ''_-'')) 0 127)"

definition boundaryDigestPattern :: rexp where
  "boundaryDigestPattern = Seq (Lit ''sha256:'') (Rep (Cls hex) 64 64)"

definition validBoundaryBinding :: "ContinuityBindingV1 \<Rightarrow> bool" where
  "validBoundaryBinding binding \<longleftrightarrow> \<not> cb_BindingRevision binding < 1 \<and>
     list_all (matchString safeIdentifier) [cb_BindingID binding, cb_RegisteredSourceID binding, cb_ServiceRegistrationID binding,
       cb_NativeSessionID binding, cb_NativeProjectID binding] \<and>
     matchString boundaryDigestPattern (cb_NativeLocationDigest binding)"

definition terminalContinuityOperationExact :: "ContinuityOperationReportV1 \<Rightarrow> bool" where
  "terminalContinuityOperationExact report =
     (let identity = rq_Identity report; safe = matchString safeIdentifier; digest = matchString boundaryDigestPattern in
      if rq_FormatVersion report \<noteq> 1 \<or> rq_Action report \<noteq> ''capture_checkpoint'' \<or> rq_ScopeRevision report < 1 \<or>
         \<not> safe (rq_OperationID report) \<or> \<not> validBoundaryBinding (rq_Binding report) \<or> \<not> digest (rq_RequestDigest report) \<or>
         \<not> safe (ci_WorkID identity) \<or> \<not> safe (ci_ProjectID identity) \<or> \<not> safe (ci_SandboxID identity) \<or>
         \<not> safe (ci_WorkspaceEpoch identity) \<or> ci_SandboxGeneration identity < 1 \<or> ci_ExpectedRevision identity < 1 \<or>
         (ci_TaskID identity = None) \<noteq> (ci_TaskAttempt identity = None) \<or>
         (case ci_TaskAttempt identity of None \<Rightarrow> False | Some n \<Rightarrow> n < 1 \<or> \<not> safe (case ci_TaskID identity of Some x \<Rightarrow> x | None \<Rightarrow> [])) \<or>
         rq_BoundaryKind report \<notin> {''initial'', ''task'', ''stopped''} \<or>
         rq_BoundaryKind report = ''initial'' \<and> ci_TaskID identity \<noteq> None \<or>
         rq_BoundaryKind report = ''task'' \<and> ci_TaskID identity = None
      then False
      else if rq_Status report = ''accepted'' then
        rq_LastError report = None \<and> digest (rq_ReceiptDigest report) \<and> digest (rq_ManifestDigest report) \<and>
        safe (rq_CheckpointID report) \<and> safe (rq_CaptureID report) \<and> 0 \<le> rq_Bytes report \<and> 0 \<le> rq_ObjectCount report
      else if rq_Status report = ''failed'' \<or> rq_Status report = ''outcome_unknown'' then
        (case rq_LastError report of None \<Rightarrow> False | Some e \<Rightarrow> safe (ie_Code e) \<and> length (ie_Message e) \<le> 500)
      else False)"

definition acknowledgedOperationOwnedByRegistration :: "ContinuityOperationReportV1 \<Rightarrow> ContinuityRegistrationV1 list \<Rightarrow> bool" where
  "acknowledgedOperationOwnedByRegistration report owners \<longleftrightarrow>
     list_ex (\<lambda>owner. cr_Binding owner = rq_Binding report \<and> cr_ScopeRevision owner = rq_ScopeRevision report \<and>
       SameContinuityWorkFence (cr_Identity owner) (rq_Identity report)) owners"

definition acknowledgedTerminalOperation :: "ContinuityOperationReportV1 \<Rightarrow> ContinuityRegistrationV1 list \<Rightarrow> bool" where
  "acknowledgedTerminalOperation report owners \<longleftrightarrow>
     terminalContinuityOperationExact report \<and> acknowledgedOperationOwnedByRegistration report owners"

section \<open>Registrations of the manifest\<close>

text \<open>The state a registration is given: \<open>clock\<close> gives the time at which it is compared with its source.\<close>

definition observed_registration ::
  "(string \<Rightarrow> gotime) \<Rightarrow> (ContinuityRegistrationV1 \<Rightarrow> ContinuitySourceReportV1 \<Rightarrow> string) \<Rightarrow> source_store \<Rightarrow> ContinuityRegistrationV1 \<Rightarrow>
     LocalContinuityRegistration" where
  "observed_registration clock receipt s desired =
     (let local = \<lparr>lr_Manifest = desired, lr_ObservedStatus = ''failed'', lr_ServiceGeneration = 0, lr_ReceiptDigest = [],
            lr_ErrorCode = ''source_unavailable''\<rparr> in
      if cr_DesiredState desired = ''revoked'' then local\<lparr>lr_ObservedStatus := ''revoked'', lr_ErrorCode := []\<rparr>
      else case Store_ContinuitySource (cb_RegisteredSourceID (cr_Binding desired)) s of
        None \<Rightarrow> local
      | Some source \<Rightarrow>
          if sourceMatchesRegistration source desired (clock (binding_of desired))
          then local\<lparr>lr_ObservedStatus := ''verified'', lr_ErrorCode := [], lr_ServiceGeneration := cs_ServiceGeneration (ll_Report source),
                 lr_ReceiptDigest := receipt desired (ll_Report source)\<rparr>
          else local)"

definition unchanged_registration :: "source_store \<Rightarrow> ContinuityRegistrationV1 \<Rightarrow> bool" where
  "unchanged_registration s desired \<longleftrightarrow> (case Store_ContinuityRegistration (binding_of desired) s of None \<Rightarrow> False
     | Some existing \<Rightarrow> lr_ObservedStatus existing \<noteq> ''pending'' \<and> lr_Manifest existing = desired)"

definition apply_registration ::
  "(string \<Rightarrow> gotime) \<Rightarrow> (ContinuityRegistrationV1 \<Rightarrow> ContinuitySourceReportV1 \<Rightarrow> string) \<Rightarrow> ContinuityRegistrationV1 \<Rightarrow>
     (source_store, unit) act" where
  "apply_registration clock receipt desired = reading (\<lambda>s.
     if unchanged_registration s desired then give ()
     else Store_PutContinuityRegistration (observed_registration clock receipt s desired))"

definition applyRegistrationMetadata ::
  "(string \<Rightarrow> gotime) \<Rightarrow> (ContinuityRegistrationV1 \<Rightarrow> ContinuitySourceReportV1 \<Rightarrow> string) \<Rightarrow> ContinuityRegistrationV1 list \<Rightarrow>
     (source_store, unit) act" where
  "applyRegistrationMetadata clock receipt registrations =
     (case EffectiveContinuityRegistrations registrations of
        Inl err \<Rightarrow> raise err
      | Inr effective \<Rightarrow> each (apply_registration clock receipt)
          (order_by (\<lambda>a b. text_less (binding_of a) (binding_of b)) effective))"

section \<open>Acknowledgement\<close>

definition may_retire :: "string set \<Rightarrow> ContinuityRegistrationV1 list \<Rightarrow> ContinuityOperationCandidate \<Rightarrow> goerr + bool" where
  "may_retire present owners c =
     (let report = kd_Report c in
      if kd_BarrierPresent c \<or> kd_LocalOperationLive c \<or> rq_OperationID report \<in> present then Inr False
      else Inr (acknowledgedTerminalOperation report owners))"

definition retireAcknowledgedOperations ::
  "report_codec \<Rightarrow> gotime \<Rightarrow> store \<Rightarrow> ContinuityOperationV1 list \<Rightarrow> ContinuityRegistrationV1 list \<Rightarrow> (source_store, unit) act" where
  "retireAcknowledgedOperations codec t st operations owners =
     andThen (Store_RetireContinuityOperationReports codec (may_retire (co_OperationID ` set operations) owners)
       ''manifest_absent_terminal_acknowledged'' t st) (\<lambda>_. give ())"

definition Acknowledge ::
  "report_codec \<Rightarrow> (string \<Rightarrow> gotime) \<Rightarrow> (ContinuityRegistrationV1 \<Rightarrow> ContinuitySourceReportV1 \<Rightarrow> string) \<Rightarrow> gotime \<Rightarrow> store \<Rightarrow> Manifest \<Rightarrow>
     (source_store, unit) act" where
  "Acknowledge codec clock receipt t st manifest = reading (\<lambda>s.
     let prior = Store_ContinuityRegistrations s in
     andThen (applyRegistrationMetadata clock receipt (mf_ContinuityRegistrations manifest)) (\<lambda>_.
       retireAcknowledgedOperations codec t st (mf_ContinuityOperations manifest)
         (map lr_Manifest prior @ mf_ContinuityRegistrations manifest)))"


section \<open>Laws\<close>

text \<open>The loop over registrations changes their table only.\<close>

lemma apply_registration_step:
  assumes "apply_registration clock receipt d s = (u, Inr x)"
  shows "Store_ContinuityRegistration b u = (if b = binding_of d \<and> \<not> unchanged_registration s d
      then Some (observed_registration clock receipt s d) else Store_ContinuityRegistration b s)"
    and "ts_sources u = ts_sources s" "ts_barriers u = ts_barriers s" "ts_reports u = ts_reports s" "ts_retired u = ts_retired s"
proof -
  have m: "lr_Manifest (observed_registration clock receipt s d) = d"
    by (simp add: observed_registration_def Let_def split: option.split)
  from assms show "Store_ContinuityRegistration b u = (if b = binding_of d \<and> \<not> unchanged_registration s d
      then Some (observed_registration clock receipt s d) else Store_ContinuityRegistration b s)"
    "ts_sources u = ts_sources s" "ts_barriers u = ts_barriers s" "ts_reports u = ts_reports s" "ts_retired u = ts_retired s"
    by (auto simp: apply_registration_def reading_def Store_PutContinuityRegistration_def Store_ContinuityRegistration_def m Let_def give_simps
        split: if_splits)
qed

lemma apply_registrations:
  assumes "distinct (map binding_of ds)" and "each (apply_registration clock receipt) ds s = (u, ok)"
  shows "Store_ContinuityRegistration b u =
      (if \<exists>d\<in>set ds. binding_of d = b \<and> \<not> unchanged_registration s d
       then Some (observed_registration clock receipt s (THE d. d \<in> set ds \<and> binding_of d = b)) else Store_ContinuityRegistration b s) \<and>
    ts_sources u = ts_sources s \<and> ts_barriers u = ts_barriers s \<and> ts_reports u = ts_reports s \<and> ts_retired u = ts_retired s"
  using assms
proof (induction ds arbitrary: s)
  case Nil
  then show ?case by (simp add: give_simps)
next
  case (Cons d ds)
  from Cons.prems(2) obtain m x where m: "apply_registration clock receipt d s = (m, Inr x)" and rest: "each (apply_registration clock receipt) ds m = (u, ok)"
    by (auto elim!: andThen_InrE)
  note step = apply_registration_step [OF m]
  from Cons.IH [OF _ rest] Cons.prems(1) have ih: "Store_ContinuityRegistration b u =
      (if \<exists>d\<in>set ds. binding_of d = b \<and> \<not> unchanged_registration m d
       then Some (observed_registration clock receipt m (THE d. d \<in> set ds \<and> binding_of d = b)) else Store_ContinuityRegistration b m)"
    "ts_sources u = ts_sources m" "ts_barriers u = ts_barriers m" "ts_reports u = ts_reports m" "ts_retired u = ts_retired m" by auto
  have observed: "observed_registration clock receipt m e = observed_registration clock receipt s e" for e
    by (simp only: observed_registration_def Store_ContinuitySource_def step(2))
  have same: "unchanged_registration m e = unchanged_registration s e" if "e \<in> set ds" for e
  proof -
    have "binding_of e \<noteq> binding_of d" using Cons.prems(1) imageI [OF that, of binding_of] by auto
    then show ?thesis by (simp add: unchanged_registration_def step(1))
  qed
  show ?case
  proof (cases "binding_of d = b")
    case True
    have "b \<notin> binding_of ` set ds" using Cons.prems(1) True by simp
    then have none: "\<not> (\<exists>e\<in>set ds. binding_of e = b)" by blast
    have "(THE e. e \<in> set (d # ds) \<and> binding_of e = b) = d" using True none by (intro the_equality) auto
    then show ?thesis using ih step True none by auto
  next
    case False
    then have "(THE e. e \<in> set (d # ds) \<and> binding_of e = b) = (THE e. e \<in> set ds \<and> binding_of e = b)"
      by (intro arg_cong [where f = The]) auto
    then show ?thesis using ih step same False by (auto simp: observed)
  qed
qed




lemma acknowledge_runs:
  assumes "Acknowledge codec clock receipt t st manifest s = (u, ok)"
  obtains effective v retired where "EffectiveContinuityRegistrations (mf_ContinuityRegistrations manifest) = Inr effective"
    and "each (apply_registration clock receipt) (order_by (\<lambda>a b. text_less (binding_of a) (binding_of b)) effective) s = (v, ok)"
    and "Store_RetireContinuityOperationReports codec (may_retire (co_OperationID ` set (mf_ContinuityOperations manifest))
      (map lr_Manifest (Store_ContinuityRegistrations s) @ mf_ContinuityRegistrations manifest)) ''manifest_absent_terminal_acknowledged'' t st v =
      (u, Inr retired)"
proof -
  from assms obtain v x where first: "applyRegistrationMetadata clock receipt (mf_ContinuityRegistrations manifest) s = (v, Inr x)"
    and second: "retireAcknowledgedOperations codec t st (mf_ContinuityOperations manifest)
         (map lr_Manifest (Store_ContinuityRegistrations s) @ mf_ContinuityRegistrations manifest) v = (u, ok)"
    unfolding Acknowledge_def reading_def Let_def by (rule andThen_InrE)
  from second obtain retired where "Store_RetireContinuityOperationReports codec (may_retire (co_OperationID ` set (mf_ContinuityOperations manifest))
      (map lr_Manifest (Store_ContinuityRegistrations s) @ mf_ContinuityRegistrations manifest)) ''manifest_absent_terminal_acknowledged'' t st v =
      (u, Inr retired)"
    unfolding retireAcknowledgedOperations_def by (auto elim!: andThen_InrE simp: give_simps)
  moreover from first obtain effective where "EffectiveContinuityRegistrations (mf_ContinuityRegistrations manifest) = Inr effective"
    "each (apply_registration clock receipt) (order_by (\<lambda>a b. text_less (binding_of a) (binding_of b)) effective) s = (v, ok)"
    by (auto simp: applyRegistrationMetadata_def give_simps split: sum.splits)
  ultimately show ?thesis using that by blast
qed

lemma effective_once:
  assumes "EffectiveContinuityRegistrations rs = Inr effective"
  shows "distinct (map binding_of (order_by R effective))"
  using effective_bindings [OF assms] distinct_firsts by simp

section \<open>Properties\<close>



text \<open>One failed report of a registration from before, which the manifest does not carry any more.\<close>

definition aex_report :: ContinuityOperationReportV1 where
  "aex_report = \<lparr>rq_FormatVersion = 1, rq_OperationID = ''op1'', rq_Action = ''capture_checkpoint'', rq_ScopeRevision = 4,
     rq_BoundaryKind = ''initial'', rq_Identity = ex_identity, rq_Binding = ex_binding 1, rq_Status = ''failed'', rq_CheckpointID = [],
     rq_CaptureID = [], rq_ManifestDigest = [], rq_Bytes = 0, rq_ObjectCount = 0, rq_ReceiptDigest = [],
     rq_LastError = Some \<lparr>ie_Code = ''helper_refused'', ie_Message = ''no''\<rparr>, rq_RequestDigest = []\<rparr>"

definition aex_codec :: report_codec where
  "aex_codec = \<lparr>oc_source = (\<lambda>_. []), oc_encode = (\<lambda>_. ''text''), oc_decode = (\<lambda>_. Some aex_report)\<rparr>"

definition aex_row :: outbox_row where
  "aex_row = \<lparr>ob_digest = ex_digest CHR ''e'', ob_payload = ''text''\<rparr>"

definition aex_store :: source_store where
  "aex_store = no_sources\<lparr>ts_reports := [(''op1'', aex_row)],
     ts_registrations := [(''bind1'', \<lparr>lr_Manifest = ex_registration ''active'' 1, lr_ObservedStatus = ''verified'', lr_ServiceGeneration = 1,
       lr_ReceiptDigest = [], lr_ErrorCode = []\<rparr>)]\<rparr>"








text \<open>
  C16. after a successful acknowledgement the row of a binding is the effective registration
  of the manifest, so the revoked predecessor that is listed beside its successor never
  replaces it; a row that already holds this registration keeps its receipt, every other row
  is as its source was observed, and bindings that the manifest does not name keep their row
\<close>

theorem effective_registration_stored:
  assumes "EffectiveContinuityRegistrations (mf_ContinuityRegistrations manifest) = Inr effective"
    and "Acknowledge codec clock receipt t st manifest s = (u, ok)"
  shows "(\<forall>d\<in>set effective. Store_ContinuityRegistration (binding_of d) u =
      (if unchanged_registration s d then Store_ContinuityRegistration (binding_of d) s else Some (observed_registration clock receipt s d))) \<and>
    (\<forall>b. b \<notin> binding_of ` set effective \<longrightarrow> Store_ContinuityRegistration b u = Store_ContinuityRegistration b s)"
proof -
  from assms(2) obtain e v retired where eff: "EffectiveContinuityRegistrations (mf_ContinuityRegistrations manifest) = Inr e"
    and loop: "each (apply_registration clock receipt) (order_by (\<lambda>a b. text_less (binding_of a) (binding_of b)) e) s = (v, ok)"
    and retire: "Store_RetireContinuityOperationReports codec (may_retire (co_OperationID ` set (mf_ContinuityOperations manifest))
      (map lr_Manifest (Store_ContinuityRegistrations s) @ mf_ContinuityRegistrations manifest)) ''manifest_absent_terminal_acknowledged'' t st v =
      (u, Inr retired)" by (rule acknowledge_runs)
  have e: "e = effective" using eff assms(1) by simp
  have "ts_registrations u = ts_registrations v" by (rule retirement_registrations [OF retire])
  then have uv: "Store_ContinuityRegistration b u = Store_ContinuityRegistration b v" for b by (simp add: Store_ContinuityRegistration_def)
  note v = apply_registrations [OF effective_once [OF eff] loop, unfolded e, THEN conjunct1]
  have once: "distinct (map binding_of effective)" using effective_once [OF assms(1), of "\<lambda>_ _. False"] by simp
  have pick: "(THE d'. d' \<in> set effective \<and> binding_of d' = binding_of d) = d" if "d \<in> set effective" for d
    using once that by (intro the_equality) (auto simp: distinct_map inj_on_def)
  have only: "(\<exists>d'\<in>set effective. binding_of d' = binding_of d \<and> \<not> unchanged_registration s d') \<longleftrightarrow> \<not> unchanged_registration s d" if "d \<in> set effective" for d
    using once that by (auto simp: distinct_map inj_on_def)
  show ?thesis
  proof (intro conjI ballI allI impI)
    fix d
    assume d: "d \<in> set effective"
    show "Store_ContinuityRegistration (binding_of d) u =
      (if unchanged_registration s d then Store_ContinuityRegistration (binding_of d) s else Some (observed_registration clock receipt s d))"
      using v [of "binding_of d"] only [OF d] pick [OF d] by (simp add: uv)
  next
    fix b
    assume "b \<notin> binding_of ` set effective"
    then show "Store_ContinuityRegistration b u = Store_ContinuityRegistration b s" using v [of b] by (auto simp: uv)
  qed
qed

text \<open>The manifest lists the successor of the stored binding beside its revoked predecessor.\<close>

definition aex_manifest :: Manifest where
  "aex_manifest = (ex_manifest [])\<lparr>mf_ContinuityRegistrations := [ex_registration ''active'' 2, ex_registration ''revoked'' 1]\<rparr>"

lemma effective_registration_stored_witness:
  "map_option lr_Manifest (Store_ContinuityRegistration ''bind1'' (fst (Acknowledge aex_codec (\<lambda>_. 0) (\<lambda>_ _. []) 0 empty_store aex_manifest
     (aex_store\<lparr>ts_reports := []\<rparr>)))) = Some (ex_registration ''active'' 2)"
proof -
  let ?s = "aex_store\<lparr>ts_reports := []\<rparr>" and ?d = "ex_registration ''active'' 2"
  let ?p = "Acknowledge aex_codec (\<lambda>_. 0) (\<lambda>_ _. []) 0 empty_store aex_manifest ?s"
  have eff: "EffectiveContinuityRegistrations (mf_ContinuityRegistrations aex_manifest) = Inr [?d]" by code_simp
  have "snd ?p = ok" by code_simp
  then have run: "?p = (fst ?p, ok)" by (metis prod.collapse)
  have changed: "\<not> unchanged_registration ?s ?d" by code_simp
  have binding: "binding_of ?d = ''bind1''" by (simp add: ex_registration_def ex_binding_def)
  have "lr_Manifest (observed_registration (\<lambda>_. 0) (\<lambda>_ _. []) ?s ?d) = ?d"
    by (simp add: observed_registration_def Let_def split: option.split)
  then show ?thesis using effective_registration_stored [OF eff run] changed by (simp add: binding)
qed

end
