(* ===== verification/Insights_Collector.thy ===== *)
theory Insights_Collector
  imports Store_Insights Continuity_Acknowledge
begin

text \<open>
  The insights collector (\<open>internal/insights/collector.go\<close>). A statement works on the tables of the insights, which only the
  collector writes, and on a world of arbitrary type: the control plane, the monitor in the sandbox, the lifecycle, the
  manager, the clocks, and the tables of sources and sandboxes, which other goroutines write.
\<close>

section \<open>Data\<close>

record monitorRequest =
  xq_FormatVersion :: int
  xq_Action :: string
  xq_Instance :: string
  xq_SourceInstanceID :: string
  xq_WorkspaceEpoch :: string
  xq_NativeSessionID :: string
  xq_ExpectedJournalGeneration :: "string option"
  xq_AfterChangeSequence :: int
  xq_Limit :: int

record monitorHealth =
  xh_ClockGeneration :: "string"
  xh_ClockID :: "string"
  xh_Enabled :: "bool"
  xh_JournalGeneration :: "string"
  xh_RequiresFreshWindow :: "bool"

record monitorIncidentChange =
  xc_ChangeSequence :: "int"
  xc_Finding :: "InsightFindingV1"

record monitorResponse =
  xr_FormatVersion :: "int"
  xr_Action :: "string"
  xr_Status :: "string"
  xr_SourceInstanceID :: "string"
  xr_WorkspaceEpoch :: "string"
  xr_NativeSessionID :: "string"
  xr_JournalGeneration :: "string"
  xr_ThroughSequence :: "int"
  xr_Coverage :: "string"
  xr_GapReason :: "string option"
  xr_FromChangeSequence :: "int"
  xr_ThroughChangeSequence :: "int"
  xr_NextChangeSequence :: "int"
  xr_IncidentChanges :: "monitorIncidentChange list"
  xr_Health :: "monitorHealth"

text \<open>
  The members of \<open>Collector\<close>; \<open>nk_code\<close> is \<open>api.ErrorCode\<close>, \<open>nk_wall\<close> the clock of the database, \<open>nk_request\<close>, \<open>nk_decode\<close> and
  \<open>nk_id_text\<close> the JSON text of a request, the closed decoding of a response and the text a batch identifier is hashed from.
\<close>

record 'w collector =
  nk_Policies :: "('w, InsightPolicyV1 list) act"
  nk_Submit :: "InsightBatchV1 \<Rightarrow> ('w, InsightBatchReceiptV1) act"
  nk_Exec :: "string \<Rightarrow> string \<Rightarrow> ('w, string) act"
  nk_Apply :: "InsightPolicyV1 \<Rightarrow> ('w, unit) act"
  nk_Observe :: "(InsightBatchV1 \<Rightarrow> InsightBatchReceiptV1 \<Rightarrow> ('w, unit) act) option"
  nk_Now :: "'w \<Rightarrow> gotime"
  nk_wall :: "'w \<Rightarrow> gotime"
  nk_source :: "'w \<Rightarrow> string \<Rightarrow> LocalContinuitySource option"
  nk_sandbox :: "'w \<Rightarrow> string \<Rightarrow> LocalSandbox option"
  nk_code :: "goerr \<Rightarrow> string"
  nk_codec :: insight_codec
  nk_request :: "monitorRequest \<Rightarrow> string"
  nk_decode :: "string \<Rightarrow> goerr + monitorResponse"
  nk_id_text :: "InsightBatchV1 \<Rightarrow> int \<Rightarrow> string"

type_synonym ('w, 'a) collect = "(insight_store \<times> 'w, 'a) act"

text \<open>A loop that carries a value.\<close>

fun fold_act :: "('acc \<Rightarrow> 'x \<Rightarrow> ('s, 'acc) act) \<Rightarrow> 'acc \<Rightarrow> 'x list \<Rightarrow> ('s, 'acc) act" where
  "fold_act f acc [] = give acc"
| "fold_act f acc (x # xs) = andThen (f acc x) (\<lambda>acc. fold_act f acc xs)"

definition failed :: "goerr + 'a \<Rightarrow> goerr list" where
  "failed r = (case r of Inl err \<Rightarrow> [err] | Inr _ \<Rightarrow> [])"

section \<open>Validation\<close>

definition insightOpaque :: rexp where
  "insightOpaque = Seq (Cls alnum) (Rep (Cls (alnum @ chars ''._:-'')) 0 127)"

definition insightFindingID :: rexp where
  "insightFindingID = Seq (Lit ''finding_'') (Rep (Cls (alnum @ chars ''_-'')) 4 96)"

definition recovery_predicate :: "string \<Rightarrow> string option" where
  "recovery_predicate rule =
     map_of [(''repeated_identical_failure@1'', ''matching_operation_succeeded''), (''repeated_identical_call@1'', ''qualified_progress_resumed''),
       (''empty_result_loop@1'', ''nonempty_refined_query''), (''suspected_stall@1'', ''qualified_progress_resumed'')] rule"

definition validateFinding :: "InsightFindingV1 \<Rightarrow> int \<Rightarrow> goerr + unit" where
  "validateFinding value through =
     (let predicate = recovery_predicate (zi_RuleID value) in
      if \<not> matchString insightFindingID (zi_FindingID value) \<or> predicate = None \<or> zi_State value \<notin> {''open'', ''resolved''} \<or>
         zi_Revision value < 1 \<or> zi_FirstSequence value < 1 \<or> zi_LastSequence value < zi_FirstSequence value \<or>
         through < zi_LastSequence value \<or> zi_Count value < 1 \<or> zi_Threshold value < 1 \<or> zi_Count value < zi_Threshold value \<or>
         16 < length (zi_MatchedCallIDs value) \<or> isZero (zi_FirstObservedAt value) \<or> zi_LastObservedAt value < zi_FirstObservedAt value \<or>
         zi_Coverage value \<notin> {''complete'', ''partial''} \<or>
         zi_ToolCategory value \<notin> {''shell'', ''search'', ''file'', ''network'', ''other'', ''unknown''} \<or>
         zi_Phase value \<notin> {''unknown'', ''idle'', ''running_model'', ''running_tool'', ''running_background'', ''waiting_permission'',
           ''waiting_input'', ''waiting_retry'', ''compacting''}
      then Inl (E ''monitor exporter finding is invalid'')
      else if \<not> list_all (matchString insightOpaque) (zi_MatchedCallIDs value) \<or> \<not> distinct (zi_MatchedCallIDs value)
      then Inl (E ''monitor exporter finding references are invalid'')
      else if (case zi_StallThresholdMS value of None \<Rightarrow> False | Some n \<Rightarrow> n < 1)
      then Inl (E ''monitor exporter stall threshold is invalid'')
      else if zi_State value = ''open'' \<and> zi_Recovery value \<noteq> None then Inl (E ''open monitor finding carries recovery proof'')
      else if zi_State value = ''resolved'' \<and>
        (case zi_Recovery value of None \<Rightarrow> True
         | Some proof \<Rightarrow> Some (fr_Predicate proof) \<noteq> predicate \<or> fr_Sequence proof \<le> zi_LastSequence value \<or> through < fr_Sequence proof \<or>
             \<not> matchString insightOpaque (fr_ReferenceID proof))
      then Inl (E ''resolved monitor finding lacks exact recovery proof'')
      else ok)"

definition backendGapReason :: "string option \<Rightarrow> string option" where
  "backendGapReason value = (case value of None \<Rightarrow> None
     | Some v \<Rightarrow> Some (if v = ''journal_generation_changed'' then ''journal_generation_changed''
         else if v = ''change_cursor_ahead'' then ''cursor_ahead'' else ''monitor_gap''))"

definition stringValue :: "string option \<Rightarrow> string" where
  "stringValue value = (case value of None \<Rightarrow> [] | Some v \<Rightarrow> v)"

definition insightBatchID :: "'w collector \<Rightarrow> InsightBatchV1 \<Rightarrow> int \<Rightarrow> string" where
  "insightBatchID c batch changeSequence =
     ''batch_'' @ hex_string (take 12 (sha256 (nk_id_text c (batch\<lparr>jb_BatchID := []\<rparr>) changeSequence)))"

text \<open>The size limits before the closed decoding.\<close>

definition decodeMonitorResponse :: "'w collector \<Rightarrow> string \<Rightarrow> goerr + monitorResponse" where
  "decodeMonitorResponse c payload =
     (if payload = [] \<or> 256 * 1024 < length payload then Inl (E ''monitor exporter response size is invalid'') else nk_decode c payload)"

section \<open>Policies\<close>

definition same_source :: "InsightBatchV1 \<Rightarrow> InsightPolicySourceV1 \<Rightarrow> bool" where
  "same_source batch source \<longleftrightarrow> jr_RegisteredSourceID source = jb_RegisteredSourceID batch \<and>
     jr_ServiceRegistrationID source = jb_ServiceRegistrationID batch \<and> jr_SandboxGeneration source = jb_SandboxGeneration batch \<and>
     jr_ServiceGeneration source = jb_ServiceGeneration batch \<and> jr_WorkspaceEpoch source = jb_WorkspaceEpoch batch \<and>
     jr_NativeSessionID source = jb_NativeSessionID batch"

definition pendingDisposition :: "InsightBatchV1 \<Rightarrow> InsightPolicyV1 list \<Rightarrow> gotime \<Rightarrow> string \<times> bool" where
  "pendingDisposition batch policies t =
     (case find (\<lambda>policy. jp_SandboxID policy = jb_SandboxID batch) policies of
        None \<Rightarrow> ([], False)
      | Some policy \<Rightarrow>
          if jp_Revision policy \<noteq> jb_PolicyRevision batch \<or> \<not> t < jp_ExpiresAt policy \<or>
             seconds 120 < time_sub (jp_ExpiresAt policy) t \<or> \<not> jp_Enabled policy \<and> jb_Status batch \<noteq> ''disabled''
          then (''policy_superseded'', False)
          else if list_ex (same_source batch) (jp_Sources policy) then ([], True)
          else (''source_rotated'', False))"

definition cachePolicies :: "InsightPolicyV1 list \<Rightarrow> ('w, unit) collect" where
  "cachePolicies policies = each (\<lambda>policy. left_of (Store_PutInsightPolicyLease (\<lambda>u. u) \<lparr>jl_Policy = policy\<rparr>)) policies"

definition disableExpiredCachedPolicies :: "'w collector \<Rightarrow> InsightPolicyV1 list \<Rightarrow> gotime \<Rightarrow> ('w, goerr list) collect" where
  "disableExpiredCachedPolicies c fresh t = reading (\<lambda>s.
     fold_act (\<lambda>failures lease.
       let policy = jl_Policy lease in
       if jp_SandboxID policy \<in> jp_SandboxID ` set fresh \<or> \<not> jp_Enabled policy \<or> t < jp_ExpiresAt policy then give failures
       else andThen (result_of (right_of (nk_Apply c (policy\<lparr>jp_Enabled := False\<rparr>)))) (\<lambda>r. give (failures @ failed r)))
       [] (Store_InsightPolicyLeases (fst s)))"

section \<open>Delivery of one batch\<close>

definition acknowledge :: "'w collector \<Rightarrow> InsightBatchV1 \<Rightarrow> InsightBatchReceiptV1 \<Rightarrow> ('w, unit) collect" where
  "acknowledge c batch receipt =
     andThen (case nk_Observe c of None \<Rightarrow> give () | Some observe \<Rightarrow> right_of (observe batch receipt)) (\<lambda>_.
       left_of (Store_AcknowledgeInsightBatch (jb_BatchID batch) receipt))"

text \<open>The outbox row, the submission and the acknowledgement of a new batch.\<close>

definition deliver :: "'w collector \<Rightarrow> InsightOutboxItem \<Rightarrow> ('w, unit) collect" where
  "deliver c item = reading (\<lambda>s.
     andThen (left_of (Store_PutInsightOutbox (nk_codec c) (\<lambda>u. u) (nk_wall c (snd s)) item)) (\<lambda>_.
       andThen (right_of (nk_Submit c (jo_Batch item))) (acknowledge c (jo_Batch item))))"

definition authority_holds ::
  "InsightPolicyV1 \<Rightarrow> InsightPolicySourceV1 \<Rightarrow> gotime \<Rightarrow> LocalContinuitySource \<Rightarrow> LocalSandbox \<Rightarrow> bool" where
  "authority_holds policy ref t source sandbox \<longleftrightarrow>
     (let report = ll_Report source; age = time_sub t (cs_LastObservedAt report) in
      ls_ObservedState sandbox = ''running'' \<and> ls_ObservedGeneration sandbox = jr_SandboxGeneration ref \<and>
      ll_Lifecycle source = ''running'' \<and> cs_Availability report = ''available'' \<and> cs_SandboxID report = jp_SandboxID policy \<and>
      cs_SandboxGeneration report = jr_SandboxGeneration ref \<and> cs_ServiceRegistrationID report = jr_ServiceRegistrationID ref \<and>
      cs_ServiceGeneration report = jr_ServiceGeneration ref \<and> cs_WorkspaceEpoch report = jr_WorkspaceEpoch ref \<and>
      cs_NativeSessionID report = jr_NativeSessionID ref \<and> \<not> isZero (cs_LastObservedAt report) \<and>
      - seconds 1 \<le> age \<and> age \<le> seconds 120)"

definition currentAuthority ::
  "'w collector \<Rightarrow> InsightPolicyV1 \<Rightarrow> InsightPolicySourceV1 \<Rightarrow> gotime \<Rightarrow> 'w \<Rightarrow> goerr + LocalContinuitySource" where
  "currentAuthority c policy ref t w =
     (case (nk_source c w (jr_RegisteredSourceID ref), nk_sandbox c w (jp_SandboxID policy)) of
        (Some source, Some sandbox) \<Rightarrow>
          if authority_holds policy ref t source sandbox then Inr source
          else Inl (E ''insights policy does not match current host source authority'')
      | _ \<Rightarrow> Inl (E ''insights policy does not match current host source authority''))"

text \<open>The batch of a source without its identifier, and the item with its digests.\<close>

definition batch_for :: "InsightPolicyV1 \<Rightarrow> InsightPolicySourceV1 \<Rightarrow> string \<Rightarrow> int \<Rightarrow> gotime \<Rightarrow> string \<Rightarrow> string option \<Rightarrow>
    InsightFindingV1 list \<Rightarrow> InsightBatchV1" where
  "batch_for policy ref journal through t status gap findings =
     \<lparr>jb_FormatVersion = 1, jb_BatchID = [], jb_SandboxID = jp_SandboxID policy, jb_SandboxGeneration = jr_SandboxGeneration ref,
      jb_PolicyRevision = jp_Revision policy, jb_RegisteredSourceID = jr_RegisteredSourceID ref,
      jb_ServiceRegistrationID = jr_ServiceRegistrationID ref, jb_ServiceGeneration = jr_ServiceGeneration ref,
      jb_WorkspaceEpoch = jr_WorkspaceEpoch ref, jb_NativeSessionID = jr_NativeSessionID ref, jb_JournalGeneration = journal,
      jb_ThroughSequence = through, jb_ObservedAt = t, jb_Status = status, jb_GapReason = gap, jb_Findings = findings\<rparr>"

definition cursor_for :: "InsightBatchV1 \<Rightarrow> int \<Rightarrow> InsightCursor" where
  "cursor_for batch change =
     \<lparr>ju_RegisteredSourceID = jb_RegisteredSourceID batch, ju_PolicyRevision = jb_PolicyRevision batch,
      ju_WorkspaceEpoch = jb_WorkspaceEpoch batch, ju_JournalGeneration = jb_JournalGeneration batch, ju_ChangeSequence = change,
      ju_ThroughSequence = jb_ThroughSequence batch, ju_Status = jb_Status batch, ju_GapReason = stringValue (jb_GapReason batch),
      ju_ProjectionDigest = sha256_string (jb_Status batch @ CHR 0x00 # stringValue (jb_GapReason batch))\<rparr>"

definition item_for :: "'w collector \<Rightarrow> InsightBatchV1 \<Rightarrow> int \<Rightarrow> InsightOutboxItem" where
  "item_for c batch change =
     (let batch = batch\<lparr>jb_BatchID := insightBatchID c batch change\<rparr> in
      \<lparr>jo_Batch = batch, jo_BodyDigest = sha256_string (ic_batch (nk_codec c) batch), jo_NextCursor = cursor_for batch change\<rparr>)"

definition publishDisabled :: "'w collector \<Rightarrow> InsightPolicyV1 \<Rightarrow> InsightPolicySourceV1 \<Rightarrow> gotime \<Rightarrow> ('w, unit) collect" where
  "publishDisabled c policy ref t = reading (\<lambda>s.
     case currentAuthority c policy ref t (snd s) of
       Inl err \<Rightarrow> raise err
     | Inr _ \<Rightarrow>
         let cursor = Store_InsightCursor (jr_RegisteredSourceID ref) (fst s) in
         if (case cursor of None \<Rightarrow> False | Some cu \<Rightarrow> ju_PolicyRevision cu = jp_Revision policy \<and> ju_Status cu = ''disabled'') then give ()
         else
           let (journal, change, through) = (case cursor of None \<Rightarrow> (''journal_unobserved'', 0, 0)
                | Some cu \<Rightarrow> (ju_JournalGeneration cu, ju_ChangeSequence cu, ju_ThroughSequence cu)) in
           deliver c (item_for c (batch_for policy ref journal through t ''disabled'' (Some ''monitor_disabled'') []) change))"

section \<open>Collection from one source\<close>

definition monitor_request :: "LocalContinuitySource \<Rightarrow> InsightPolicySourceV1 \<Rightarrow> InsightCursor option \<Rightarrow> monitorRequest" where
  "monitor_request source ref cursor =
     \<lparr>xq_FormatVersion = 1, xq_Action = ''report_incident_changes'', xq_Instance = ll_Instance source,
      xq_SourceInstanceID = jr_RegisteredSourceID ref, xq_WorkspaceEpoch = jr_WorkspaceEpoch ref, xq_NativeSessionID = jr_NativeSessionID ref,
      xq_ExpectedJournalGeneration = (case cursor of None \<Rightarrow> None
         | Some cu \<Rightarrow> if ju_JournalGeneration cu = [] then None else Some (ju_JournalGeneration cu)),
      xq_AfterChangeSequence = (case cursor of None \<Rightarrow> 0 | Some cu \<Rightarrow> ju_ChangeSequence cu), xq_Limit = 64\<rparr>"

definition check_response :: "InsightPolicySourceV1 \<Rightarrow> monitorRequest \<Rightarrow> monitorResponse \<Rightarrow> goerr + unit" where
  "check_response ref request response =
     (if xr_FormatVersion response \<noteq> 1 \<or> xr_Action response \<noteq> ''report_incident_changes'' \<or> xr_Status response \<noteq> ''ok'' \<or>
         xr_SourceInstanceID response \<noteq> jr_RegisteredSourceID ref \<or> xr_WorkspaceEpoch response \<noteq> jr_WorkspaceEpoch ref \<or>
         xr_NativeSessionID response \<noteq> jr_NativeSessionID ref \<or> \<not> matchString insightOpaque (xr_JournalGeneration response) \<or>
         xh_JournalGeneration (xr_Health response) \<noteq> xr_JournalGeneration response \<or>
         xr_FromChangeSequence response \<noteq> xq_AfterChangeSequence request \<or>
         xr_NextChangeSequence response < xq_AfterChangeSequence request \<or>
         xr_ThroughChangeSequence response < xr_NextChangeSequence response \<or> xr_ThroughSequence response < 0
      then Inl (E ''monitor exporter response is invalid'')
      else if (xr_Coverage response = ''complete'') \<noteq> (xr_GapReason response = None)
      then Inl (E ''monitor exporter coverage is invalid'')
      else if (case xq_ExpectedJournalGeneration request of None \<Rightarrow> False
          | Some generation \<Rightarrow> xr_JournalGeneration response \<noteq> generation \<and>
              (xr_GapReason response \<noteq> Some ''journal_generation_changed'' \<or> xr_IncidentChanges response \<noteq> [] \<or>
               xr_NextChangeSequence response \<noteq> xr_ThroughChangeSequence response))
      then Inl (E ''monitor exporter changed journal without a durable generation floor'')
      else ok)"

definition change_step :: "monitorResponse \<Rightarrow> int \<times> InsightFindingV1 list \<Rightarrow> monitorIncidentChange \<Rightarrow> goerr + int \<times> InsightFindingV1 list" where
  "change_step response acc change =
     (let (previous, findings) = acc in
      if xc_ChangeSequence change \<le> previous \<or> xr_NextChangeSequence response < xc_ChangeSequence change
      then Inl (E ''monitor exporter change sequence is invalid'')
      else bindE (validateFinding (xc_Finding change) (xr_ThroughSequence response)) (\<lambda>_.
        Inr (xc_ChangeSequence change, findings @ [xc_Finding change])))"

definition collect_findings :: "int \<Rightarrow> monitorResponse \<Rightarrow> goerr + InsightFindingV1 list" where
  "collect_findings after response =
     bindE (foldE (change_step response) (after, []) (xr_IncidentChanges response)) (\<lambda>(previous, findings).
       if 64 < length (xr_IncidentChanges response) \<or> xr_IncidentChanges response \<noteq> [] \<and> previous \<noteq> xr_NextChangeSequence response
       then Inl (E ''monitor exporter returned an invalid change page'') else Inr findings)"

definition nothing_new :: "InsightPolicyV1 \<Rightarrow> InsightCursor option \<Rightarrow> monitorResponse \<Rightarrow> string \<Rightarrow> string option \<Rightarrow> bool" where
  "nothing_new policy cursor response status gap \<longleftrightarrow> xr_IncidentChanges response = [] \<and>
     (case cursor of None \<Rightarrow> False
      | Some cu \<Rightarrow> ju_PolicyRevision cu = jp_Revision policy \<and> ju_Status cu = status \<and> ju_GapReason cu = stringValue gap)"

text \<open>The answer of the monitor as the item that is delivered; \<open>None\<close> when there is nothing to report.\<close>

definition response_item ::
  "'w collector \<Rightarrow> InsightPolicyV1 \<Rightarrow> InsightPolicySourceV1 \<Rightarrow> gotime \<Rightarrow> InsightCursor option \<Rightarrow> int \<Rightarrow> monitorResponse \<Rightarrow>
     goerr + InsightOutboxItem option" where
  "response_item c policy ref t cursor after response =
     (let gap = backendGapReason (xr_GapReason response); status = (if gap \<noteq> None then ''degraded'' else ''ready'') in
      if nothing_new policy cursor response status gap then Inr None
      else bindE (collect_findings after response) (\<lambda>findings.
        let item = item_for c (batch_for policy ref (xr_JournalGeneration response) (xr_ThroughSequence response) t status gap findings)
              (xr_NextChangeSequence response) in
        if 64 * 1024 < length (ic_batch (nk_codec c) (jo_Batch item))
        then Inl (E ''sanitized insight batch exceeds the allowed size'') else Inr (Some item)))"

definition collectSource :: "'w collector \<Rightarrow> InsightPolicyV1 \<Rightarrow> InsightPolicySourceV1 \<Rightarrow> gotime \<Rightarrow> ('w, unit) collect" where
  "collectSource c policy ref t = reading (\<lambda>s.
     case currentAuthority c policy ref t (snd s) of
       Inl err \<Rightarrow> raise err
     | Inr source \<Rightarrow>
         let cursor = Store_InsightCursor (jr_RegisteredSourceID ref) (fst s); request = monitor_request source ref cursor in
         andThen (right_of (nk_Exec c (jp_SandboxID policy) (nk_request c request))) (\<lambda>stdout.
           case bindE (decodeMonitorResponse c stdout) (\<lambda>response. bindE (check_response ref request response) (\<lambda>_.
               response_item c policy ref t cursor (xq_AfterChangeSequence request) response)) of
             Inl err \<Rightarrow> raise err
           | Inr None \<Rightarrow> give ()
           | Inr (Some item) \<Rightarrow> deliver c item))"

section \<open>One run\<close>

text \<open>The value of the loop over pending items: the policies, the failures and the sources that were delivered.\<close>

type_synonym progress = "InsightPolicyV1 list \<times> goerr list \<times> string set"

definition retire :: "'w collector \<Rightarrow> string \<Rightarrow> string \<Rightarrow> ('w, unit) collect" where
  "retire c i reason = reading (\<lambda>s. left_of (Store_RetireInsightOutbox (nk_codec c) (nk_wall c (snd s)) i reason))"

definition refresh_pending :: "'w collector \<Rightarrow> gotime \<Rightarrow> InsightBatchV1 \<Rightarrow> goerr \<Rightarrow> progress \<Rightarrow> ('w, progress) collect" where
  "refresh_pending c t batch submitErr acc =
     (let (policies, failures, skipped) = acc in
      andThen (result_of (right_of (nk_Policies c))) (\<lambda>r. case r of
        Inl refreshErr \<Rightarrow> give (policies, failures @ [submitErr, refreshErr], skipped)
      | Inr refreshed \<Rightarrow> andThen (result_of (cachePolicies refreshed)) (\<lambda>r. case r of
          Inl err \<Rightarrow> give (policies, failures @ [err], skipped)
        | Inr _ \<Rightarrow>
            let reason = fst (pendingDisposition batch refreshed t) in
            if reason = [] then give (refreshed, failures @ [submitErr], skipped)
            else andThen (result_of (retire c (jb_BatchID batch) reason)) (\<lambda>r. give (refreshed, failures @ failed r, skipped)))))"

definition pending_step :: "'w collector \<Rightarrow> gotime \<Rightarrow> progress \<Rightarrow> InsightOutboxItem \<Rightarrow> ('w, progress) collect" where
  "pending_step c t acc item =
     (let (policies, failures, skipped) = acc; batch = jo_Batch item; (reason, exact) = pendingDisposition batch policies t in
      if reason \<noteq> [] then andThen (result_of (retire c (jb_BatchID batch) reason)) (\<lambda>r. give (policies, failures @ failed r, skipped))
      else if \<not> exact then give acc
      else andThen (result_of (right_of (nk_Submit c batch))) (\<lambda>r. case r of
        Inr receipt \<Rightarrow> andThen (result_of (acknowledge c batch receipt)) (\<lambda>a. case a of
            Inl err \<Rightarrow> give (policies, failures @ [err], skipped)
          | Inr _ \<Rightarrow> give (policies, failures, insert (jb_RegisteredSourceID batch) skipped))
      | Inl submitErr \<Rightarrow>
          if nk_code c submitErr \<noteq> ''insights_policy_conflict'' \<and> nk_code c submitErr \<noteq> ''insights_source_conflict''
          then give (policies, failures @ [submitErr], skipped)
          else refresh_pending c t batch submitErr acc))"

definition policy_step_insights :: "'w collector \<Rightarrow> gotime \<Rightarrow> string set \<Rightarrow> goerr list \<Rightarrow> InsightPolicyV1 \<Rightarrow> ('w, goerr list) collect" where
  "policy_step_insights c t skipped failures policy =
     (if jp_Revision policy < 1 \<or> jp_SandboxID policy = [] then give (failures @ [E ''insights policy is invalid''])
      else
        let validUntil = time_sub (jp_ExpiresAt policy) t;
            enabled = (jp_Enabled policy \<and> 0 < validUntil \<and> validUntil \<le> seconds 120) in
        andThen (result_of (right_of (nk_Apply c (policy\<lparr>jp_Enabled := enabled\<rparr>)))) (\<lambda>r. case r of
          Inl err \<Rightarrow> give (failures @ [err])
        | Inr _ \<Rightarrow>
            fold_act (\<lambda>failures source.
              if jr_RegisteredSourceID source \<in> skipped then give failures
              else andThen (result_of (if enabled then collectSource c policy source t else publishDisabled c policy source t))
                (\<lambda>r. give (failures @ failed r))) failures (jp_Sources policy)))"

definition RunOnce :: "'w collector \<Rightarrow> ('w, unit) collect" where
  "RunOnce c =
     andThen (result_of (right_of (nk_Policies c))) (\<lambda>r. case r of
       Inl err \<Rightarrow> reading (\<lambda>s. andThen (disableExpiredCachedPolicies c [] (nk_Now c (snd s))) (\<lambda>failures. raise (EJoin (err # failures))))
     | Inr policies \<Rightarrow> reading (\<lambda>s.
         let t = nk_Now c (snd s) in
         andThen (cachePolicies policies) (\<lambda>_. reading (\<lambda>s.
           andThen (fold_act (pending_step c t) (policies, [], {}) (Store_InsightOutbox (fst s))) (\<lambda>(policies, failures, skipped).
             andThen (disableExpiredCachedPolicies c policies t) (\<lambda>expired.
               andThen (fold_act (policy_step_insights c t skipped) (failures @ (if expired = [] then [] else [EJoin expired])) policies)
                 (\<lambda>failures. if failures = [] then give () else raise (EJoin failures))))))))"

end
