(* ===== verification/Insights_Laws.thy ===== *)
theory Insights_Laws
  imports Insights_Collector Go_Invariants
begin

text \<open>
  Runs of the collector: the form of its tables, and one rule that reduces an invariant of whole runs to the calls of the
  world and to the three writes of the outbox.
\<close>

section \<open>The tables\<close>

text \<open>A row is stored under the identifier and the source of its batch, one row for a source, and a cursor under its source.\<close>

definition sound_row :: "string \<Rightarrow> insight_row \<Rightarrow> bool" where
  "sound_row i row \<longleftrightarrow> jb_BatchID (jo_Batch (nw_item row)) = i \<and> nw_source row = jb_RegisteredSourceID (jo_Batch (nw_item row)) \<and>
     ju_RegisteredSourceID (jo_NextCursor (nw_item row)) = nw_source row"

definition sound :: "insight_store \<Rightarrow> bool" where
  "sound s \<longleftrightarrow> distinct (map fst (nn_outbox s)) \<and> (\<forall>i row. map_of (nn_outbox s) i = Some row \<longrightarrow> sound_row i row) \<and>
     (\<forall>i j row other. map_of (nn_outbox s) i = Some row \<longrightarrow> map_of (nn_outbox s) j = Some other \<longrightarrow> nw_source row = nw_source other \<longrightarrow>
        nw_source row \<noteq> [] \<longrightarrow> i = j)"

text \<open>An item as \<open>collectSource\<close> and \<open>publishDisabled\<close> build it for a policy with \<open>G\<close>.\<close>

definition authorised :: "(InsightPolicyV1 \<Rightarrow> bool) \<Rightarrow> InsightBatchV1 \<Rightarrow> bool" where
  "authorised G batch \<longleftrightarrow> (\<exists>policy. G policy \<and> jp_SandboxID policy = jb_SandboxID batch \<and> jp_Revision policy = jb_PolicyRevision batch)"

definition made :: "InsightOutboxItem \<Rightarrow> bool" where
  "made item \<longleftrightarrow> ju_RegisteredSourceID (jo_NextCursor item) = jb_RegisteredSourceID (jo_Batch item)"

text \<open>The item does not fall behind the cursor of its source.\<close>

definition ahead :: "InsightOutboxItem \<Rightarrow> insight_store \<Rightarrow> bool" where
  "ahead item s \<longleftrightarrow> (\<forall>cu. Store_InsightCursor (jb_RegisteredSourceID (jo_Batch item)) s = Some cu \<longrightarrow>
     ju_ChangeSequence cu \<le> ju_ChangeSequence (jo_NextCursor item))"

text \<open>What the three writes of the outbox leave.\<close>

lemma retire_cases:
  obtains "fst (Store_RetireInsightOutbox codec t i reason s) = s"
  | row where "map_of (nn_outbox s) i = Some row" and "map_of (nn_retired s) i = None"
      and "\<not> full codec (retired_batches s) (jo_Batch (nw_item row))" and "reason \<in> {''policy_superseded'', ''source_rotated''}"
      and "fst (Store_RetireInsightOutbox codec t i reason s) =
        s\<lparr>nn_retired := AList.update i \<lparr>jx_Item = nw_item row, jx_Reason = reason, jx_RetiredAt = t\<rparr> (nn_retired s),
          nn_outbox := AList.delete i (nn_outbox s)\<rparr>"
proof (cases "fst (Store_RetireInsightOutbox codec t i reason s) = s")
  case False
  then show thesis
    by (intro that(2) [of "the (map_of (nn_outbox s) i)"])
      (auto simp: Store_RetireInsightOutbox_def Let_def split: if_splits option.splits)
qed (rule that(1))

lemma acknowledge_cases:
  obtains "fst (Store_AcknowledgeInsightBatch i receipt s) = s"
  | row where "map_of (nn_outbox s) i = Some row" and "jt_BatchID receipt = i"
      and "jt_Accepted receipt = int (length (jb_Findings (jo_Batch (nw_item row))))"
      and "jt_ThroughSequence receipt = jb_ThroughSequence (jo_Batch (nw_item row))"
      and "fst (Store_AcknowledgeInsightBatch i receipt s) =
        s\<lparr>nn_cursors := (if ju_RegisteredSourceID (jo_NextCursor (nw_item row)) = [] then nn_cursors s
            else AList.update (ju_RegisteredSourceID (jo_NextCursor (nw_item row))) (jo_NextCursor (nw_item row)) (nn_cursors s)),
          nn_outbox := AList.delete i (nn_outbox s)\<rparr>"
proof (cases "fst (Store_AcknowledgeInsightBatch i receipt s) = s")
  case False
  then show thesis
    by (intro that(2) [of "the (map_of (nn_outbox s) i)"])
      (auto simp: Store_AcknowledgeInsightBatch_def Let_def split: if_splits option.splits)
qed (rule that(1))

lemma put_cases:
  obtains "fst (Store_PutInsightOutbox codec (\<lambda>u. u) t item s) = s"
  | "map_of (nn_outbox s) (jb_BatchID (jo_Batch item)) = None" and "\<not> full codec (pending_batches s) (jo_Batch item)"
      and "\<And>j row. map_of (nn_outbox s) j = Some row \<Longrightarrow> nw_source row = jb_RegisteredSourceID (jo_Batch item) \<Longrightarrow> nw_source row = []"
      and "fst (Store_PutInsightOutbox codec (\<lambda>u. u) t item s) =
        s\<lparr>nn_outbox := AList.update (jb_BatchID (jo_Batch item))
          \<lparr>nw_source = jb_RegisteredSourceID (jo_Batch item), nw_item = item, nw_created = t\<rparr> (nn_outbox s)\<rparr>"
proof (cases "fst (Store_PutInsightOutbox codec (\<lambda>u. u) t item s) = s")
  case False
  then have new: "map_of (nn_outbox s) (jb_BatchID (jo_Batch item)) = None" "\<not> full codec (pending_batches s) (jo_Batch item)"
      "\<not> (jb_RegisteredSourceID (jo_Batch item) \<noteq> [] \<and>
          list_ex (\<lambda>p. nw_source (snd p) = jb_RegisteredSourceID (jo_Batch item)) (nn_outbox s))"
      "fst (Store_PutInsightOutbox codec (\<lambda>u. u) t item s) =
        s\<lparr>nn_outbox := AList.update (jb_BatchID (jo_Batch item))
          \<lparr>nw_source = jb_RegisteredSourceID (jo_Batch item), nw_item = item, nw_created = t\<rparr> (nn_outbox s)\<rparr>"
    by (auto simp: Store_PutInsightOutbox_def Let_def split: if_splits option.splits)
  from new(3) have "nw_source row = []" if "map_of (nn_outbox s) j = Some row" "nw_source row = jb_RegisteredSourceID (jo_Batch item)" for j row
    using that map_of_SomeD [OF that(1)] by (auto simp: list_ex_iff)
  then show thesis by (rule that(2) [OF new(1,2) _ new(4)])
qed (rule that(1))

lemma sound_delete: "sound s \<Longrightarrow> nn_outbox u = AList.delete i (nn_outbox s) \<Longrightarrow> sound u"
  unfolding sound_def by (auto simp: delete_conv' distinct_delete split: if_splits)

lemma sound_leases [simp]: "sound (s\<lparr>nn_leases := x\<rparr>) = sound s"
  by (simp add: sound_def)

lemma sound_retire: "sound s \<Longrightarrow> sound (fst (Store_RetireInsightOutbox codec t i reason s))"
  by (rule retire_cases [of codec t i reason s]) (simp_all add: sound_delete)

lemma sound_acknowledge: "sound s \<Longrightarrow> sound (fst (Store_AcknowledgeInsightBatch i receipt s))"
  by (rule acknowledge_cases [of i receipt s]) (simp_all add: sound_delete)

lemma sound_put:
  assumes "sound s" and "made item"
  shows "sound (fst (Store_PutInsightOutbox codec (\<lambda>u. u) t item s))"
proof (rule put_cases [of codec t item s])
  assume "fst (Store_PutInsightOutbox codec (\<lambda>u. u) t item s) = s"
  then show ?thesis using assms(1) by simp
next
  assume new: "\<And>j row. map_of (nn_outbox s) j = Some row \<Longrightarrow> nw_source row = jb_RegisteredSourceID (jo_Batch item) \<Longrightarrow> nw_source row = []"
    and stored: "fst (Store_PutInsightOutbox codec (\<lambda>u. u) t item s) =
        s\<lparr>nn_outbox := AList.update (jb_BatchID (jo_Batch item))
          \<lparr>nw_source = jb_RegisteredSourceID (jo_Batch item), nw_item = item, nw_created = t\<rparr> (nn_outbox s)\<rparr>"
  show ?thesis unfolding stored sound_def
    using assms new by (auto simp: sound_def sound_row_def made_def update_conv' distinct_update split: if_splits)
qed

section \<open>Invariants of a run\<close>

lemma keeping_fold:
  assumes "\<And>acc x. x \<in> set xs \<Longrightarrow> H acc \<Longrightarrow> keeping I (f acc x) H" and "H acc"
  shows "keeping I (fold_act f acc xs) H"
  using assms by (induction xs arbitrary: acc) (auto intro!: keeping_give keeping_andThen)

text \<open>Every call of the world keeps \<open>D\<close>.\<close>

definition world_keeps :: "'w collector \<Rightarrow> ('w \<Rightarrow> bool) \<Rightarrow> bool" where
  "world_keeps c D \<longleftrightarrow> (\<forall>w. D w \<longrightarrow> D (fst (nk_Policies c w)) \<and> (\<forall>b. D (fst (nk_Submit c b w))) \<and> (\<forall>i x. D (fst (nk_Exec c i x w))) \<and>
     (\<forall>p. D (fst (nk_Apply c p w))) \<and> (\<forall>f b r. nk_Observe c = Some f \<longrightarrow> D (fst (f b r w))))"

lemma world_keepsD:
  assumes "world_keeps c D" and "D w"
  shows "D (fst (nk_Policies c w))" "D (fst (nk_Submit c b w))" "D (fst (nk_Exec c i x w))" "D (fst (nk_Apply c p w))"
    "nk_Observe c = Some f \<Longrightarrow> D (fst (f b r w))"
  using assms by (auto simp: world_keeps_def)

text \<open>The world after the submission and the observation of a batch.\<close>

definition observed_to :: "'w collector \<Rightarrow> InsightBatchV1 \<Rightarrow> InsightBatchReceiptV1 \<Rightarrow> 'w \<Rightarrow> 'w \<Rightarrow> bool" where
  "observed_to c batch receipt w v \<longleftrightarrow> (\<exists>u. nk_Submit c batch w = (u, Inr receipt) \<and>
     (case nk_Observe c of None \<Rightarrow> v = u | Some f \<Rightarrow> f batch receipt u = (v, ok)))"

text \<open>The row that a submitted batch is acknowledged against has its text.\<close>

definition same_text :: "'w collector \<Rightarrow> InsightBatchV1 \<Rightarrow> insight_store \<Rightarrow> bool" where
  "same_text c batch s \<longleftrightarrow> (\<forall>row. map_of (nn_outbox s) (jb_BatchID batch) = Some row \<longrightarrow>
     ic_batch (nk_codec c) (jo_Batch (nw_item row)) = ic_batch (nk_codec c) batch)"

lemma same_text_put:
  "snd (Store_PutInsightOutbox (nk_codec c) (\<lambda>u. u) t item s) = ok \<Longrightarrow>
   same_text c (jo_Batch item) (fst (Store_PutInsightOutbox (nk_codec c) (\<lambda>u. u) t item s))"
  by (auto simp: Store_PutInsightOutbox_def same_text_def same_item_def Let_def update_conv' split: if_splits option.splits)

text \<open>
  What an invariant of the collector is asked: the calls of the world, the policy leases, and the three writes of the
  outbox keep it. \<open>G\<close> holds of every policy the control plane gives.
\<close>

locale collector_invariant =
  fixes c :: "'w collector" and G :: "InsightPolicyV1 \<Rightarrow> bool" and I :: "insight_store \<Rightarrow> 'w \<Rightarrow> bool"
  assumes policies: "\<And>w ps. snd (nk_Policies c w) = Inr ps \<Longrightarrow> list_all G ps"
    and world: "\<And>s. sound s \<Longrightarrow> world_keeps c (I s)"
    and leases: "\<And>s w x. I s w \<Longrightarrow> I (s\<lparr>nn_leases := x\<rparr>) w"
    and retired: "\<And>s w t i reason. sound s \<Longrightarrow> I s w \<Longrightarrow> I (fst (Store_RetireInsightOutbox (nk_codec c) t i reason s)) w"
    and put: "\<And>s w t item. sound s \<Longrightarrow> I s w \<Longrightarrow> made item \<Longrightarrow> ahead item s \<Longrightarrow> authorised G (jo_Batch item) \<Longrightarrow>
      I (fst (Store_PutInsightOutbox (nk_codec c) (\<lambda>u. u) t item s)) w"
    and acknowledged: "\<And>s w v batch receipt. sound s \<Longrightarrow> I s w \<Longrightarrow> I s v \<Longrightarrow> observed_to c batch receipt w v \<Longrightarrow>
      same_text c batch s \<Longrightarrow> authorised G batch \<Longrightarrow> I (fst (Store_AcknowledgeInsightBatch (jb_BatchID batch) receipt s)) v"
begin

text \<open>The loop over the pending items changes no row that was there at its start, and adds none.\<close>

definition inside :: "insight_store option \<Rightarrow> insight_store \<times> 'w \<Rightarrow> bool" where
  "inside start s \<longleftrightarrow> sound (fst s) \<and> I (fst s) (snd s) \<and>
     (\<forall>s1. start = Some s1 \<longrightarrow> map_of (nn_outbox (fst s)) \<subseteq>\<^sub>m map_of (nn_outbox s1))"

lemma call_inside:
  "keeping (inside start) (right_of (nk_Policies c)) (list_all G)"
  "keeping (inside start) (right_of (nk_Exec c i x)) (\<lambda>_. True)"
  "keeping (inside start) (right_of (nk_Apply c p)) (\<lambda>_. True)"
  by (auto simp: inside_def intro!: keeping_right policies world_keepsD [OF world])

lemma lease_put: "\<exists>x. fst (Store_PutInsightPolicyLease (\<lambda>u. u) value s) = s\<lparr>nn_leases := x\<rparr>"
proof (cases "fst (Store_PutInsightPolicyLease (\<lambda>u. u) value s) = s")
  case True
  then show ?thesis by (intro exI [of _ "nn_leases s"]) simp
qed (auto simp: Store_PutInsightPolicyLease_def Let_def split: if_splits)

lemma lease_inside: "inside start (a, b) \<Longrightarrow> inside start (fst (Store_PutInsightPolicyLease (\<lambda>u. u) value a), b)"
  using lease_put [of "value" a] by (auto simp: inside_def leases)

lemma cache_inside: "keeping (inside start) (cachePolicies ps) (\<lambda>_. True)"
  unfolding cachePolicies_def by (intro keeping_each [where H = "\<lambda>_. True"] keeping_left lease_inside)

lemma retire_inside: "keeping (inside start) (retire c i reason) (\<lambda>_. True)"
  unfolding retire_def
proof (rule keeping_reading, rule keeping_left)
  fix s a and b :: 'w
  assume ab: "inside start (a, b)"
  let ?u = "fst (Store_RetireInsightOutbox (nk_codec c) (nk_wall c (snd s)) i reason a)"
  have "map_of (nn_outbox ?u) \<subseteq>\<^sub>m map_of (nn_outbox a)"
    by (rule retire_cases [of "nk_codec c" "nk_wall c (snd s)" i reason a]) (auto simp: delete_conv' map_le_def)
  with ab show "inside start (?u, b)"
    by (auto simp: inside_def sound_retire retired intro: map_le_trans)
qed

text \<open>The submission of a batch and what follows its receipt.\<close>

lemma acknowledge_shrinks: "map_of (nn_outbox (fst (Store_AcknowledgeInsightBatch i receipt a))) \<subseteq>\<^sub>m map_of (nn_outbox a)"
  by (rule acknowledge_cases [of i receipt a]) (auto simp: delete_conv' map_le_def)

lemma submitted:
  assumes s: "inside start (a, w)" and submit: "nk_Submit c batch w = (u, r)"
  shows "inside start (a, u)"
    and "r = Inr receipt \<Longrightarrow> same_text c batch a \<Longrightarrow> authorised G batch \<Longrightarrow> inside start (fst (acknowledge c batch receipt (a, u)))"
proof -
  have sound: "sound a" and I: "I a w" and sub: "\<And>s1. start = Some s1 \<Longrightarrow> map_of (nn_outbox a) \<subseteq>\<^sub>m map_of (nn_outbox s1)" using s by (simp_all add: inside_def)
  have u: "I a u" using world_keepsD(2) [OF world [OF sound], of w batch] I submit by simp
  then show "inside start (a, u)" using sound sub by (simp add: inside_def)
  assume r: "r = Inr receipt" and same: "same_text c batch a" and auth: "authorised G batch"
  have final: "inside start (fst (Store_AcknowledgeInsightBatch (jb_BatchID batch) receipt a), v)"
    if "observed_to c batch receipt w v" "I a v" for v
    using acknowledged [OF sound I that(2,1) same auth] acknowledge_shrinks [of "jb_BatchID batch" receipt a] sub sound
    by (auto simp: inside_def sound_acknowledge intro: map_le_trans)
  show "inside start (fst (acknowledge c batch receipt (a, u)))"
  proof (cases "nk_Observe c")
    case None
    then have "observed_to c batch receipt w u" using submit r by (simp add: observed_to_def)
    from final [OF this u] None show ?thesis by (simp add: acknowledge_def left_of_def split_beta)
  next
    case (Some f)
    obtain v q where f: "f batch receipt u = (v, q)" by fastforce
    have v: "I a v" using world_keepsD(5) [OF world [OF sound] u Some, of batch receipt] f by simp
    show ?thesis
    proof (cases q)
      case (Inl e)
      with f Some v sound sub show ?thesis
        by (simp add: acknowledge_def andThen_def attempt_def right_of_def give_simps inside_def)
    next
      case (Inr x)
      then have "observed_to c batch receipt w v" using submit r f Some by (simp add: observed_to_def)
      from final [OF this v] Inr f Some show ?thesis
        by (simp add: acknowledge_def andThen_def attempt_def right_of_def left_of_def split_beta)
    qed
  qed
qed

text \<open>A new item.\<close>

lemma put_inside:
  assumes "inside None (a, w)" and "made item" and "ahead item a" and "authorised G (jo_Batch item)"
  shows "inside None (fst (Store_PutInsightOutbox (nk_codec c) (\<lambda>u. u) t item a), w)"
  using assms by (simp add: inside_def sound_put put)

lemma deliver_inside:
  assumes "inside None (a, w)" and "made item" and "ahead item a" and auth: "authorised G (jo_Batch item)"
  shows "inside None (fst (deliver c item (a, w)))"
proof -
  let ?p = "Store_PutInsightOutbox (nk_codec c) (\<lambda>u. u) (nk_wall c w) item a"
  obtain b q where p: "?p = (b, q)" by fastforce
  have b: "inside None (b, w)" using put_inside [OF assms, of "nk_wall c w"] p by simp
  obtain u r where submit: "nk_Submit c (jo_Batch item) w = (u, r)" by fastforce
  show ?thesis
  proof (cases q)
    case (Inl e)
    with b p show ?thesis by (simp add: deliver_def reading_def andThen_def attempt_def left_of_def give_simps)
  next
    case (Inr x)
    with p have same: "same_text c (jo_Batch item) b" using same_text_put [of c "nk_wall c w" item a] by simp
    note steps = submitted [OF b submit]
    show ?thesis
      using steps(1) steps(2) [OF _ same auth] Inr p submit
      by (cases r) (simp_all add: deliver_def reading_def andThen_def attempt_def left_of_def right_of_def give_simps)
  qed
qed

lemma built_item:
  "made (item_for c (batch_for policy ref journal through t status gap findings) change)"
  "G policy \<Longrightarrow> authorised G (jo_Batch (item_for c (batch_for policy ref journal through t status gap findings) change))"
  by (auto simp: item_for_def batch_for_def cursor_for_def made_def authorised_def Let_def)

lemma built_fields:
  "jb_RegisteredSourceID (jo_Batch (item_for c (batch_for policy ref journal through t status gap findings) change)) = jr_RegisteredSourceID ref"
  "ju_ChangeSequence (jo_NextCursor (item_for c (batch_for policy ref journal through t status gap findings) change)) = change"
  by (simp_all add: item_for_def batch_for_def cursor_for_def Let_def)

lemma disabled_inside:
  assumes "G policy"
  shows "keeping (inside None) (publishDisabled c policy ref t) (\<lambda>_. True)"
proof -
  have item: "inside None (fst (deliver c (item_for c (batch_for policy ref journal through t ''disabled'' (Some ''monitor_disabled'') []) change) s))"
    if "inside None s" "\<And>cu. Store_InsightCursor (jr_RegisteredSourceID ref) (fst s) = Some cu \<Longrightarrow> change = ju_ChangeSequence cu"
    for s journal change through
    using that assms by (cases s) (auto intro!: deliver_inside built_item simp: ahead_def built_fields)
  show ?thesis
    unfolding publishDisabled_def by (rule keepingI) (auto simp: reading_def give_simps Let_def intro!: item split: sum.split option.split)
qed

text \<open>What the answer of the monitor can build.\<close>

lemma response_item_built:
  assumes "bindE (decodeMonitorResponse c stdout) (\<lambda>response. bindE (check_response ref request response) (\<lambda>_.
      response_item c policy ref t cursor after response)) = Inr (Some item)"
  obtains journal through status gap findings change
  where "item = item_for c (batch_for policy ref journal through t status gap findings) change" and "xq_AfterChangeSequence request \<le> change"
proof -
  from assms obtain response where response: "check_response ref request response = Inr ()"
      "response_item c policy ref t cursor after response = Inr (Some item)"
    by (auto simp: bindE_def split: sum.splits)
  from response(1) have "xq_AfterChangeSequence request \<le> xr_NextChangeSequence response"
    by (auto simp: check_response_def split: if_splits)
  with response(2) show thesis
    by (auto simp: response_item_def bindE_def Let_def split: if_splits sum.splits intro!: that)
qed

lemma collect_inside:
  assumes "G policy"
  shows "keeping (inside None) (collectSource c policy ref t) (\<lambda>_. True)"
proof (rule keepingI)
  fix s
  assume s: "inside None s"
  show "inside None (fst (collectSource c policy ref t s)) \<and> (\<forall>x. snd (collectSource c policy ref t s) = Inr x \<longrightarrow> True)"
  proof (cases "currentAuthority c policy ref t (snd s)")
    case (Inl e)
    with s show ?thesis by (simp add: collectSource_def reading_def give_simps)
  next
    case (Inr source)
    let ?cursor = "Store_InsightCursor (jr_RegisteredSourceID ref) (fst s)"
    let ?request = "monitor_request source ref ?cursor"
    let ?item = "\<lambda>stdout. bindE (decodeMonitorResponse c stdout) (\<lambda>response. bindE (check_response ref ?request response) (\<lambda>_.
        response_item c policy ref t ?cursor (xq_AfterChangeSequence ?request) response))"
    have exec: "inside None (fst s, fst (nk_Exec c i x (snd s)))" for i x
      using call_inside(2) [of None i x] s by (cases s) (simp add: keeping_def ends_def right_of_def split_beta)
    have item: "inside None (fst (deliver c item (fst s, fst (nk_Exec c i x (snd s)))))" if built: "?item stdout = Inr (Some item)" for stdout item i x
      using built
    proof (rule response_item_built)
      fix journal through status gap findings change
      assume "item = item_for c (batch_for policy ref journal through t status gap findings) change" "xq_AfterChangeSequence ?request \<le> change"
      then show ?thesis
        using exec assms by (auto intro!: deliver_inside built_item simp: ahead_def built_fields monitor_request_def)
    qed
    show ?thesis
      using Inr exec item
      by (auto simp: collectSource_def reading_def Let_def andThen_def attempt_def right_of_def split_beta give_simps split: sum.split option.split)
  qed
qed

text \<open>The loop over the pending items. \<open>listed\<close> says that an item is a row of the store at the start of the loop.\<close>

definition listed :: "insight_store \<Rightarrow> InsightOutboxItem \<Rightarrow> bool" where
  "listed s1 item \<longleftrightarrow> (\<exists>row. map_of (nn_outbox s1) (jb_BatchID (jo_Batch item)) = Some row \<and> nw_item row = item)"

lemma outbox_listed:
  assumes "sound s1" and "item \<in> set (Store_InsightOutbox s1)"
  shows "listed s1 item"
proof -
  from assms(2) obtain i row where row: "(i, row) \<in> set (nn_outbox s1)" "item = nw_item row"
    by (auto simp: Store_InsightOutbox_def)
  then have "map_of (nn_outbox s1) i = Some row" using assms(1) by (simp add: sound_def)
  moreover from this have "i = jb_BatchID (jo_Batch item)" using assms(1) row(2) by (auto simp: sound_def sound_row_def)
  ultimately show ?thesis using row(2) by (simp add: listed_def)
qed

lemma exact_authorised: "pendingDisposition batch ps t = (reason, True) \<Longrightarrow> list_all G ps \<Longrightarrow> authorised G batch"
  by (auto simp: pendingDisposition_def authorised_def find_Some_iff list_all_length split: option.splits if_splits)

lemma listed_text: "inside (Some s1) s \<Longrightarrow> listed s1 item \<Longrightarrow> same_text c (jo_Batch item) (fst s)"
  by (auto simp: inside_def listed_def same_text_def map_le_def dom_def)

lemma refresh_inside:
  assumes "list_all G (fst acc)"
  shows "keeping (inside start) (refresh_pending c t batch err acc) (\<lambda>acc. list_all G (fst acc))"
  using assms unfolding refresh_pending_def Let_def
  by (auto intro!: keeping_andThen [OF keeping_result [OF call_inside(1)]] keeping_andThen [OF keeping_result [OF cache_inside]]
      keeping_andThen [OF keeping_result [OF retire_inside]] keeping_give split: sum.split prod.split)

lemma pending_inside:
  assumes item: "listed s1 item" and acc: "list_all G (fst acc)"
  shows "keeping (inside (Some s1)) (pending_step c t acc item) (\<lambda>acc. list_all G (fst acc))"
proof -
  obtain ps failures skipped where p: "acc = (ps, failures, skipped)" by (cases acc)
  obtain reason exact where d: "pendingDisposition (jo_Batch item) ps t = (reason, exact)" by fastforce
  let ?b = "jo_Batch item"
  let ?send = "andThen (result_of (right_of (nk_Submit c ?b))) (\<lambda>r. case r of
        Inr receipt \<Rightarrow> andThen (result_of (acknowledge c ?b receipt)) (\<lambda>a. case a of
            Inl err \<Rightarrow> give (ps, failures @ [err], skipped)
          | Inr _ \<Rightarrow> give (ps, failures, insert (jb_RegisteredSourceID ?b) skipped))
      | Inl submitErr \<Rightarrow>
          if nk_code c submitErr \<noteq> ''insights_policy_conflict'' \<and> nk_code c submitErr \<noteq> ''insights_source_conflict''
          then give (ps, failures @ [submitErr], skipped)
          else refresh_pending c t ?b submitErr (ps, failures, skipped))"
  have send: "keeping (inside (Some s1)) ?send (\<lambda>acc. list_all G (fst acc))" if "exact"
  proof (rule keepingI)
    fix s
    assume s: "inside (Some s1) s"
    obtain u r where submit: "nk_Submit c ?b (snd s) = (u, r)" by fastforce
    have auth: "authorised G ?b" using exact_authorised [OF _ acc] d that p by simp
    from s have "inside (Some s1) (fst s, snd s)" by simp
    note steps = submitted [OF this submit]
    show "inside (Some s1) (fst (?send s)) \<and> (\<forall>x. snd (?send s) = Inr x \<longrightarrow> list_all G (fst x))"
    proof (cases r)
      case (Inl e)
      then have "?send s = (if nk_code c e \<noteq> ''insights_policy_conflict'' \<and> nk_code c e \<noteq> ''insights_source_conflict''
          then give (ps, failures @ [e], skipped) else refresh_pending c t ?b e (ps, failures, skipped)) (fst s, u)"
        using submit by (simp add: andThen_def attempt_def result_of_def right_of_def)
      then show ?thesis
        using steps(1) acc p refresh_inside [OF acc, of "Some s1" t ?b e] by (auto simp: give_simps keeping_def ends_def)
    next
      case (Inr receipt)
      have "inside (Some s1) (fst (acknowledge c ?b receipt (fst s, u)))"
        by (rule steps(2) [OF Inr listed_text [OF s item] auth])
      then show ?thesis
        using submit Inr acc p by (auto simp: andThen_def attempt_def result_of_def right_of_def give_simps split: sum.split)
    qed
  qed
  show ?thesis
  proof (cases "reason = []")
    case False
    then have "pending_step c t acc item = andThen (result_of (retire c (jb_BatchID ?b) reason)) (\<lambda>r. give (ps, failures @ failed r, skipped))"
      using p d by (simp add: pending_step_def Let_def)
    then show ?thesis using acc p by (auto intro!: keeping_andThen [OF keeping_result [OF retire_inside]] keeping_give)
  next
    case True
    then have "pending_step c t acc item = (if \<not> exact then give acc else ?send)" using p d by (simp add: pending_step_def Let_def)
    then show ?thesis using send acc by (auto intro: keeping_give)
  qed
qed

lemma expired_inside: "keeping (inside start) (disableExpiredCachedPolicies c ps t) (\<lambda>_. True)"
  unfolding disableExpiredCachedPolicies_def Let_def
  by (intro keeping_reading keeping_fold keeping_if keeping_andThen [OF keeping_result [OF call_inside(3)]] keeping_give) simp_all

lemma policy_inside:
  assumes "G policy"
  shows "keeping (inside None) (policy_step_insights c t skipped failures policy) (\<lambda>_. True)"
  unfolding policy_step_insights_def Let_def
    by (auto intro!: keeping_andThen [OF keeping_result [OF call_inside(3)]] keeping_fold [where H = "\<lambda>_. True"]
        keeping_andThen [OF keeping_result [OF collect_inside [OF assms]]] keeping_andThen [OF keeping_result [OF disabled_inside [OF assms]]] keeping_give
        split: sum.split)

lemma start_inside: "inside None s \<longleftrightarrow> sound (fst s) \<and> I (fst s) (snd s)" "inside (Some (fst s)) s \<longleftrightarrow> inside None s"
  by (auto simp: inside_def)

lemma inside_weaken: "inside (Some s1) s \<Longrightarrow> inside None s"
  by (simp add: inside_def)

lemma loop_inside:
  assumes "list_all G ps"
  shows "keeping (inside None) (reading (\<lambda>s. fold_act (pending_step c t) (ps, [], {}) (Store_InsightOutbox (fst s)))) (\<lambda>acc. list_all G (fst acc))"
proof (rule keeping_here)
  fix s
  assume s: "inside None s"
  then have start: "inside (Some (fst s)) s" by (simp add: start_inside)
  from s have "keeping (inside (Some (fst s))) (fold_act (pending_step c t) (ps, [], {}) (Store_InsightOutbox (fst s))) (\<lambda>acc. list_all G (fst acc))"
    using assms by (intro keeping_fold pending_inside outbox_listed) (simp_all add: start_inside)
  note this [unfolded keeping_def ends_def, THEN spec, THEN mp, OF start]
  then show "inside None (fst (fold_act (pending_step c t) (ps, [], {}) (Store_InsightOutbox (fst s)) s)) \<and>
      (\<forall>x. snd (fold_act (pending_step c t) (ps, [], {}) (Store_InsightOutbox (fst s)) s) = Inr x \<longrightarrow> list_all G (fst x))"
    using inside_weaken by blast
qed

lemma reading_andThen: "reading (\<lambda>s. andThen (f s) k) = andThen (reading f) k"
  by (rule ext) (simp add: reading_def andThen_def attempt_def)

lemma run_inside: "keeping (inside None) (RunOnce c) (\<lambda>_. True)"
proof -
  have rest: "keeping (inside None) (andThen (cachePolicies ps) (\<lambda>_. reading (\<lambda>s.
           andThen (fold_act (pending_step c t) (ps, [], {}) (Store_InsightOutbox (fst s))) (\<lambda>(policies, failures, skipped).
             andThen (disableExpiredCachedPolicies c policies t) (\<lambda>expired.
               andThen (fold_act (policy_step_insights c t skipped) (failures @ (if expired = [] then [] else [EJoin expired])) policies)
                 (\<lambda>failures. if failures = [] then give () else raise (EJoin failures))))))) (\<lambda>_. True)"
    if ps: "list_all G ps" for ps t
    unfolding reading_andThen
  proof (rule keeping_andThen [OF cache_inside], rule keeping_andThen [OF loop_inside [OF ps]])
    fix acc :: progress
    assume acc: "list_all G (fst acc)"
    obtain policies failures skipped where p: "acc = (policies, failures, skipped)" by (cases acc)
    with acc have each: "keeping (inside None) (policy_step_insights c t skipped fs policy) (\<lambda>_. True)" if "policy \<in> set policies" for policy fs
      using that by (auto intro: policy_inside simp: list_all_iff)
    show "keeping (inside None) (case acc of (policies, failures, skipped) \<Rightarrow>
             andThen (disableExpiredCachedPolicies c policies t) (\<lambda>expired.
               andThen (fold_act (policy_step_insights c t skipped) (failures @ (if expired = [] then [] else [EJoin expired])) policies)
                 (\<lambda>failures. if failures = [] then give () else raise (EJoin failures)))) (\<lambda>_. True)"
      unfolding p prod.case
      by (intro keeping_andThen [OF expired_inside] keeping_andThen [OF keeping_fold [where H = "\<lambda>_. True"]] keeping_if keeping_give keeping_raise
          each) simp_all
  qed
  show ?thesis
    unfolding RunOnce_def Let_def
  proof (rule keeping_andThen [OF keeping_result [OF call_inside(1)]])
    fix r :: "goerr + InsightPolicyV1 list"
    assume r: "\<forall>x. r = Inr x \<longrightarrow> list_all G x"
    then show "keeping (inside None) (case r of
       Inl err \<Rightarrow> reading (\<lambda>s. andThen (disableExpiredCachedPolicies c [] (nk_Now c (snd s))) (\<lambda>failures. raise (EJoin (err # failures))))
     | Inr policies \<Rightarrow> reading (\<lambda>s.
         andThen (cachePolicies policies) (\<lambda>_. reading (\<lambda>sa.
           andThen (fold_act (pending_step c (nk_Now c (snd s))) (policies, [], {}) (Store_InsightOutbox (fst sa))) (\<lambda>(policies, failures, skipped).
             andThen (disableExpiredCachedPolicies c policies (nk_Now c (snd s))) (\<lambda>expired.
               andThen (fold_act (policy_step_insights c (nk_Now c (snd s)) skipped) (failures @ (if expired = [] then [] else [EJoin expired])) policies)
                 (\<lambda>failures. if failures = [] then give () else raise (EJoin failures)))))))) (\<lambda>_. True)"
      by (cases r) (auto intro!: keeping_reading rest keeping_andThen [OF expired_inside] keeping_raise)
  qed
qed

text \<open>The rule: what holds of the start of a run holds of its end, whether the run failed or not.\<close>

lemma run_keeps: "sound (fst s) \<Longrightarrow> I (fst s) (snd s) \<Longrightarrow> RunOnce c s = (t, r) \<Longrightarrow> sound (fst t) \<and> I (fst t) (snd t)"
  using keepingD [OF run_inside, of s t r] by (simp add: start_inside)

end

end
