(* ===== verification/Insights_Properties.thy ===== *)
theory Insights_Properties
  imports Insights_Laws
begin

text \<open>
  Properties of the insights collector over its runs: no finding is lost, cursors never fall, the tables stay within
  their bounds, and what a full table of retirements does.
\<close>

text \<open>One run of the collector, failed or not; between two runs the world changes by \<open>env\<close>.\<close>

inductive collector_step :: "'w collector \<Rightarrow> ('w \<Rightarrow> 'w \<Rightarrow> bool) \<Rightarrow> insight_store \<times> 'w \<Rightarrow> insight_store \<times> 'w \<Rightarrow> bool" for c env where
  step_run: "RunOnce c s = (t, r) \<Longrightarrow> collector_step c env s t"
| step_env: "env w v \<Longrightarrow> collector_step c env (a, w) (a, v)"

text \<open>An invariant of one run is an invariant of all of them.\<close>

lemma runs_keep:
  assumes inv: "collector_invariant c G I" and env: "\<And>a w v. env w v \<Longrightarrow> I a w \<Longrightarrow> I a v"
    and run: "(collector_step c env)\<^sup>*\<^sup>* s t" and start: "sound (fst s)" "I (fst s) (snd s)"
  shows "sound (fst t) \<and> I (fst t) (snd t)"
  using run
proof (induction rule: rtranclp_induct)
  case base
  show ?case using start by simp
next
  case (step t u)
  from step.hyps(2) step.IH show ?case
    by (cases rule: collector_step.cases) (auto dest: collector_invariant.run_keeps [OF inv, rotated 2] env)
qed

section \<open>The bounds of the tables\<close>

definition text_bytes :: "insight_codec \<Rightarrow> InsightBatchV1 list \<Rightarrow> int" where
  "text_bytes codec batches = int (sum_list (map (length \<circ> ic_batch codec) batches))"

text \<open>A text is much shorter than the range of the sums.\<close>

definition short_texts :: "insight_codec \<Rightarrow> bool" where
  "short_texts codec \<longleftrightarrow> (\<forall>b. int (length (ic_batch codec b)) < 2 ^ 62)"

definition within_bounds :: "insight_codec \<Rightarrow> insight_store \<Rightarrow> bool" where
  "within_bounds codec s \<longleftrightarrow> length (nn_outbox s) \<le> outboxRows \<and> length (nn_retired s) \<le> outboxRows \<and>
     (short_texts codec \<longrightarrow> text_bytes codec (pending_batches s) \<le> outboxBytes \<and> text_bytes codec (retired_batches s) \<le> outboxBytes)"

lemma not_full:
  assumes "\<not> full codec batches batch" and "short_texts codec" and "text_bytes codec batches \<le> outboxBytes"
  shows "text_bytes codec (batches @ [batch]) \<le> outboxBytes"
proof -
  have "int (length (ic_batch codec batch)) < 2 ^ 62" using assms(2) by (simp add: short_texts_def)
  then have "wrap64 (text_bytes codec batches + int (length (ic_batch codec batch))) = text_bytes codec batches + int (length (ic_batch codec batch))"
    using assms(3) by (intro wrap64_id) (simp_all add: text_bytes_def outboxBytes_def in64_def min64_def max64_def)
  then show ?thesis using assms(1) by (simp add: full_def text_bytes_def)
qed

lemma bytes_delete: "text_bytes codec (map f (AList.delete i xs)) \<le> text_bytes codec (map f xs)"
  by (induction xs) (auto simp: text_bytes_def)

lemma delete_length: "length (AList.delete i xs) \<le> length xs"
  by (simp add: AList.delete_eq)

lemma bounds_delete:
  assumes "within_bounds codec s" and "nn_retired u = nn_retired s" and "nn_outbox u = AList.delete i (nn_outbox s)"
  shows "within_bounds codec u"
proof -
  have "length (nn_outbox u) \<le> length (nn_outbox s)" using assms(3) by (simp add: delete_length)
  moreover have "text_bytes codec (pending_batches u) \<le> text_bytes codec (pending_batches s)"
    using assms(3) by (simp add: pending_batches_def bytes_delete)
  ultimately show ?thesis using assms(1,2) by (auto simp: within_bounds_def retired_batches_def)
qed

interpretation table_bounds: collector_invariant c "\<lambda>_. True" "\<lambda>s w. within_bounds (nk_codec c) s" for c
proof (unfold_locales, goal_cases)
  case (1 w ps)
  show ?case by (simp add: list_all_iff)
next
  case (2 s)
  show ?case by (simp add: world_keeps_def)
next
  case (3 s w x)
  then show ?case by (simp add: within_bounds_def pending_batches_def retired_batches_def)
next
  case (4 s w t i reason)
  show ?case
  proof (rule retire_cases [of "nk_codec c" t i reason s])
    fix row
    assume new: "map_of (nn_retired s) i = None" "\<not> full (nk_codec c) (retired_batches s) (jo_Batch (nw_item row))"
      and u: "fst (Store_RetireInsightOutbox (nk_codec c) t i reason s) =
        s\<lparr>nn_retired := AList.update i \<lparr>jx_Item = nw_item row, jx_Reason = reason, jx_RetiredAt = t\<rparr> (nn_retired s),
          nn_outbox := AList.delete i (nn_outbox s)\<rparr>"
    have "within_bounds (nk_codec c) (s\<lparr>nn_outbox := AList.delete i (nn_outbox s)\<rparr>)" by (rule bounds_delete [OF 4(2)]) simp_all
    then show ?thesis
      using new not_full [OF new(2)] unfolding u by (simp add: within_bounds_def update_fresh retired_batches_def pending_batches_def full_def)
  qed (simp add: 4)
next
  case (5 s w t item)
  show ?case
  proof (rule put_cases [of "nk_codec c" t item s])
    assume new: "map_of (nn_outbox s) (jb_BatchID (jo_Batch item)) = None" "\<not> full (nk_codec c) (pending_batches s) (jo_Batch item)"
      and u: "fst (Store_PutInsightOutbox (nk_codec c) (\<lambda>u. u) t item s) =
        s\<lparr>nn_outbox := AList.update (jb_BatchID (jo_Batch item))
          \<lparr>nw_source = jb_RegisteredSourceID (jo_Batch item), nw_item = item, nw_created = t\<rparr> (nn_outbox s)\<rparr>"
    show ?thesis
      using 5(2) new not_full [OF new(2)] unfolding u by (simp add: within_bounds_def update_fresh retired_batches_def pending_batches_def full_def)
  qed (simp add: 5)
next
  case (6 s w v batch receipt)
  show ?case
    by (rule acknowledge_cases [of "jb_BatchID batch" receipt s]) (use 6(2) in \<open>auto intro: bounds_delete\<close>)
qed

section \<open>The cursors\<close>

text \<open>Every pending row is at or after the cursor of its source, and no cursor of \<open>s0\<close> has fallen.\<close>

definition rows_ahead :: "insight_store \<Rightarrow> bool" where
  "rows_ahead s \<longleftrightarrow> (\<forall>i row. map_of (nn_outbox s) i = Some row \<longrightarrow> nw_source row \<noteq> [] \<longrightarrow> ahead (nw_item row) s)"

definition cursors_from :: "insight_store \<Rightarrow> insight_store \<Rightarrow> bool" where
  "cursors_from s0 s \<longleftrightarrow> rows_ahead s \<and> (\<forall>source cu. Store_InsightCursor source s0 = Some cu \<longrightarrow>
     (\<exists>cu'. Store_InsightCursor source s = Some cu' \<and> ju_ChangeSequence cu \<le> ju_ChangeSequence cu'))"

lemma cursors_same:
  assumes "cursors_from s0 s" and "nn_cursors u = nn_cursors s" and "map_of (nn_outbox u) \<subseteq>\<^sub>m map_of (nn_outbox s)"
  shows "cursors_from s0 u"
proof -
  have cursor: "Store_InsightCursor i u = Store_InsightCursor i s" for i using assms(2) by (simp add: Store_InsightCursor_def)
  have "ahead item u = ahead item s" for item by (simp add: ahead_def cursor)
  moreover have "map_of (nn_outbox s) i = Some row" if "map_of (nn_outbox u) i = Some row" for i row
    using that assms(3) by (force simp: map_le_def)
  ultimately show ?thesis using assms(1) unfolding cursors_from_def rows_ahead_def cursor by blast
qed

lemma cursors_acknowledge:
  assumes "sound s" and begun: "cursors_from s0 s"
  shows "cursors_from s0 (fst (Store_AcknowledgeInsightBatch i receipt s))"
proof (rule acknowledge_cases [of i receipt s])
  fix row :: insight_row
  let ?source = "ju_RegisteredSourceID (jo_NextCursor (nw_item row))"
  assume row: "map_of (nn_outbox s) i = Some row"
    and u: "fst (Store_AcknowledgeInsightBatch i receipt s) =
      s\<lparr>nn_cursors := (if ?source = [] then nn_cursors s else AList.update ?source (jo_NextCursor (nw_item row)) (nn_cursors s)),
        nn_outbox := AList.delete i (nn_outbox s)\<rparr>"
  have source: "?source = nw_source row" "jb_RegisteredSourceID (jo_Batch (nw_item row)) = nw_source row"
    using assms(1) row by (auto simp: sound_def sound_row_def)
  have other: "nw_source r \<noteq> nw_source row" "jb_RegisteredSourceID (jo_Batch (nw_item r)) = nw_source r"
    if "map_of (nn_outbox s) j = Some r" "j \<noteq> i" "nw_source r \<noteq> []" for j r
    using assms(1) row that by (auto simp: sound_def sound_row_def)
  have old: "ju_ChangeSequence cu \<le> ju_ChangeSequence (jo_NextCursor (nw_item row))"
    if "Store_InsightCursor (nw_source row) s = Some cu" "nw_source row \<noteq> []" for cu
    using begun row that source(2) by (auto simp: cursors_from_def rows_ahead_def ahead_def)
  show ?thesis
    unfolding u cursors_from_def
  proof (intro conjI allI impI)
    show "rows_ahead (s\<lparr>nn_cursors := (if ?source = [] then nn_cursors s else AList.update ?source (jo_NextCursor (nw_item row)) (nn_cursors s)),
        nn_outbox := AList.delete i (nn_outbox s)\<rparr>)"
      using begun other unfolding source(1)
      by (auto simp: rows_ahead_def cursors_from_def ahead_def Store_InsightCursor_def delete_conv' update_conv' split: if_splits)
  next
    fix src cu
    assume "Store_InsightCursor src s0 = Some cu"
    with begun obtain cu' where cu': "Store_InsightCursor src s = Some cu'" "ju_ChangeSequence cu \<le> ju_ChangeSequence cu'"
      by (auto simp: cursors_from_def)
    with old show "\<exists>cu'. Store_InsightCursor src (s\<lparr>nn_cursors := (if ?source = [] then nn_cursors s
        else AList.update ?source (jo_NextCursor (nw_item row)) (nn_cursors s)), nn_outbox := AList.delete i (nn_outbox s)\<rparr>) = Some cu' \<and>
        ju_ChangeSequence cu \<le> ju_ChangeSequence cu'"
      unfolding source(1) by (auto simp: Store_InsightCursor_def update_conv')
  qed
qed (simp add: begun)

interpretation cursors: collector_invariant c "\<lambda>_. True" "\<lambda>s w. cursors_from s0 s" for c s0
proof (unfold_locales, goal_cases)
  case (1 w ps)
  show ?case by (simp add: list_all_iff)
next
  case (2 s)
  show ?case by (simp add: world_keeps_def)
next
  case (3 s w x)
  then show ?case by (rule cursors_same) simp_all
next
  case (4 s w t i reason)
  show ?case
    by (rule retire_cases [of "nk_codec c" t i reason s]) (use 4(2) in \<open>auto intro!: cursors_same [OF 4(2)] simp: map_le_def delete_conv'\<close>)
next
  case (5 s w t item)
  show ?case
  proof (rule put_cases [of "nk_codec c" t item s])
    assume "fst (Store_PutInsightOutbox (nk_codec c) (\<lambda>u. u) t item s) =
        s\<lparr>nn_outbox := AList.update (jb_BatchID (jo_Batch item))
          \<lparr>nw_source = jb_RegisteredSourceID (jo_Batch item), nw_item = item, nw_created = t\<rparr> (nn_outbox s)\<rparr>"
    then show ?thesis
      using 5(2,4) by (auto simp: cursors_from_def rows_ahead_def ahead_def Store_InsightCursor_def update_conv' split: if_splits)
  qed (simp add: 5)
next
  case (6 s w v batch receipt)
  then show ?case by (intro cursors_acknowledge)
qed

section \<open>The rows\<close>

text \<open>
  What became of a row: it is pending, or it was retired with its content, or the control plane has taken its text and gave a
  receipt for all of it, and the observer, where there is one, has seen both. \<open>took\<close> and \<open>saw\<close> say so of the world.
\<close>

definition delivered_row ::
  "'w collector \<Rightarrow> ('w \<Rightarrow> string \<Rightarrow> InsightBatchReceiptV1 \<Rightarrow> bool) \<Rightarrow> ('w \<Rightarrow> string \<Rightarrow> InsightBatchReceiptV1 \<Rightarrow> bool) \<Rightarrow> 'w \<Rightarrow> InsightBatchV1 \<Rightarrow> bool" where
  "delivered_row c took saw w batch \<longleftrightarrow> (\<exists>receipt. jt_BatchID receipt = jb_BatchID batch \<and>
     jt_Accepted receipt = int (length (jb_Findings batch)) \<and> jt_ThroughSequence receipt = jb_ThroughSequence batch \<and>
     took w (ic_batch (nk_codec c) batch) receipt \<and> (nk_Observe c = None \<or> saw w (ic_batch (nk_codec c) batch) receipt))"

definition retired_row :: "InsightOutboxItem \<Rightarrow> string \<Rightarrow> insight_store \<Rightarrow> bool" where
  "retired_row item i s \<longleftrightarrow> (\<exists>tombstone. map_of (nn_retired s) i = Some tombstone \<and> jx_Item tombstone = item \<and>
     jx_Reason tombstone \<in> {''policy_superseded'', ''source_rotated''})"

definition accounted where
  "accounted c took saw s0 s w \<longleftrightarrow> (\<forall>i row. map_of (nn_outbox s0) i = Some row \<longrightarrow>
     map_of (nn_outbox s) i = Some row \<or> retired_row (nw_item row) i s \<or> delivered_row c took saw w (jo_Batch (nw_item row)))"

text \<open>The world remembers what it took and saw, and a call that succeeds is remembered.\<close>

definition remembers :: "'w collector \<Rightarrow> ('w \<Rightarrow> string \<Rightarrow> InsightBatchReceiptV1 \<Rightarrow> bool) \<Rightarrow> ('w \<Rightarrow> string \<Rightarrow> InsightBatchReceiptV1 \<Rightarrow> bool) \<Rightarrow> bool" where
  "remembers c took saw \<longleftrightarrow> (\<forall>x receipt. world_keeps c (\<lambda>w. took w x receipt) \<and> world_keeps c (\<lambda>w. saw w x receipt)) \<and>
     (\<forall>batch receipt w u. nk_Submit c batch w = (u, Inr receipt) \<longrightarrow> took u (ic_batch (nk_codec c) batch) receipt) \<and>
     (\<forall>f batch receipt w v. nk_Observe c = Some f \<longrightarrow> f batch receipt w = (v, ok) \<longrightarrow> saw v (ic_batch (nk_codec c) batch) receipt)"

lemma accounted_world:
  assumes "remembers c took saw"
  shows "world_keeps c (\<lambda>w. accounted c took saw s0 s w)"
proof -
  have "world_keeps c (\<lambda>w. took w x receipt)" "world_keeps c (\<lambda>w. saw w x receipt)" for x receipt
    using assms by (simp_all add: remembers_def)
  note keep = world_keepsD [OF this(1)] world_keepsD [OF this(2)]
  have step: "accounted c took saw s0 s v"
    if "accounted c took saw s0 s w" "\<And>x receipt. took w x receipt \<Longrightarrow> took v x receipt" "\<And>x receipt. saw w x receipt \<Longrightarrow> saw v x receipt" for w v
    using that unfolding accounted_def delivered_row_def by meson
  show ?thesis
    unfolding world_keeps_def by (intro allI impI conjI) (erule step; rule keep; assumption)+
qed

text \<open>A write keeps the account when it keeps it for each row that was pending, and no tombstone goes.\<close>

lemma accounted_write:
  assumes "accounted c took saw s0 s w"
    and "\<And>i row. map_of (nn_outbox s) i = Some row \<Longrightarrow>
      map_of (nn_outbox u) i = Some row \<or> retired_row (nw_item row) i u \<or> delivered_row c took saw w (jo_Batch (nw_item row))"
    and "map_of (nn_retired s) \<subseteq>\<^sub>m map_of (nn_retired u)"
  shows "accounted c took saw s0 u w"
proof -
  have "retired_row item i u" if "retired_row item i s" for item i
    using that assms(3) unfolding retired_row_def by (force simp: map_le_def)
  with assms(1,2) show ?thesis unfolding accounted_def by blast
qed

lemma accounted_retire:
  assumes "accounted c took saw s0 s w"
  shows "accounted c took saw s0 (fst (Store_RetireInsightOutbox codec t i reason s)) w"
proof (rule retire_cases [of codec t i reason s])
  fix row
  assume "map_of (nn_outbox s) i = Some row" "map_of (nn_retired s) i = None" "reason \<in> {''policy_superseded'', ''source_rotated''}"
    and "fst (Store_RetireInsightOutbox codec t i reason s) =
      s\<lparr>nn_retired := AList.update i \<lparr>jx_Item = nw_item row, jx_Reason = reason, jx_RetiredAt = t\<rparr> (nn_retired s),
        nn_outbox := AList.delete i (nn_outbox s)\<rparr>"
  then show ?thesis
    by (intro accounted_write [OF assms]) (auto simp: retired_row_def update_conv' delete_conv' map_le_def)
qed (simp add: assms)

lemma accounted_acknowledge:
  assumes "remembers c took saw" and "sound s" and "accounted c took saw s0 s v" and "observed_to c batch receipt w v" and "same_text c batch s"
  shows "accounted c took saw s0 (fst (Store_AcknowledgeInsightBatch (jb_BatchID batch) receipt s)) v"
proof (rule acknowledge_cases [of "jb_BatchID batch" receipt s])
  fix row
  assume row: "map_of (nn_outbox s) (jb_BatchID batch) = Some row" "jt_BatchID receipt = jb_BatchID batch"
      "jt_Accepted receipt = int (length (jb_Findings (jo_Batch (nw_item row))))"
      "jt_ThroughSequence receipt = jb_ThroughSequence (jo_Batch (nw_item row))"
    and u: "fst (Store_AcknowledgeInsightBatch (jb_BatchID batch) receipt s) =
      s\<lparr>nn_cursors := (if ju_RegisteredSourceID (jo_NextCursor (nw_item row)) = [] then nn_cursors s
          else AList.update (ju_RegisteredSourceID (jo_NextCursor (nw_item row))) (jo_NextCursor (nw_item row)) (nn_cursors s)),
        nn_outbox := AList.delete (jb_BatchID batch) (nn_outbox s)\<rparr>"
  obtain u where u': "nk_Submit c batch w = (u, Inr receipt)" "case nk_Observe c of None \<Rightarrow> v = u | Some f \<Rightarrow> f batch receipt u = (v, ok)"
    using assms(4) by (auto simp: observed_to_def)
  then have took: "took u (ic_batch (nk_codec c) batch) receipt" using assms(1) by (simp add: remembers_def)
  have "took v (ic_batch (nk_codec c) batch) receipt \<and> (nk_Observe c = None \<or> saw v (ic_batch (nk_codec c) batch) receipt)"
  proof (cases "nk_Observe c")
    case None
    with u' took show ?thesis by simp
  next
    case (Some f)
    have keep: "world_keeps c (\<lambda>w. took w (ic_batch (nk_codec c) batch) receipt)" using assms(1) by (simp add: remembers_def)
    have "took (fst (f batch receipt u)) (ic_batch (nk_codec c) batch) receipt" by (rule world_keepsD(5) [OF keep took Some])
    with u'(2) Some assms(1) show ?thesis by (auto simp: remembers_def)
  qed
  moreover have "ic_batch (nk_codec c) (jo_Batch (nw_item row)) = ic_batch (nk_codec c) batch" "jb_BatchID (jo_Batch (nw_item row)) = jb_BatchID batch"
    using assms(2,5) row(1) by (auto simp: same_text_def sound_def sound_row_def)
  ultimately have "delivered_row c took saw v (jo_Batch (nw_item row))"
    using row unfolding delivered_row_def by (intro exI [of _ receipt]) simp
  then show ?thesis
    using row(1) unfolding u by (intro accounted_write [OF assms(3)]) (auto simp: delete_conv')
qed (simp add: assms)

lemma accounted_invariant:
  assumes "remembers c took saw"
  shows "collector_invariant c (\<lambda>_. True) (accounted c took saw s0)"
proof (unfold_locales, goal_cases)
  case (1 w ps)
  show ?case by (simp add: list_all_iff)
next
  case (2 s)
  show ?case by (rule accounted_world [OF assms])
next
  case (3 s w x)
  then show ?case by (rule accounted_write) simp_all
next
  case (4 s w t i reason)
  from 4(2) show ?case by (rule accounted_retire)
next
  case (5 s w t item)
  show ?case
  proof (rule put_cases [of "nk_codec c" t item s])
    assume "map_of (nn_outbox s) (jb_BatchID (jo_Batch item)) = None"
      and "fst (Store_PutInsightOutbox (nk_codec c) (\<lambda>u. u) t item s) =
        s\<lparr>nn_outbox := AList.update (jb_BatchID (jo_Batch item))
          \<lparr>nw_source = jb_RegisteredSourceID (jo_Batch item), nw_item = item, nw_created = t\<rparr> (nn_outbox s)\<rparr>"
    then show ?thesis by (intro accounted_write [OF 5(2)]) (auto simp: update_conv')
  qed (simp add: 5)
next
  case (6 s w v batch receipt)
  then show ?case by (intro accounted_acknowledge [OF assms])
qed

section \<open>A full table of retirements\<close>

text \<open>The policies speak of another revision than the batch, so that the row can only be retired.\<close>

definition moved_on :: "InsightBatchV1 \<Rightarrow> InsightPolicyV1 \<Rightarrow> bool" where
  "moved_on batch policy \<longleftrightarrow> jp_SandboxID policy = jb_SandboxID batch \<longrightarrow> jp_Revision policy \<noteq> jb_PolicyRevision batch"

definition policies_moved_on :: "'w collector \<Rightarrow> InsightBatchV1 \<Rightarrow> bool" where
  "policies_moved_on c batch \<longleftrightarrow> (\<forall>w ps. snd (nk_Policies c w) = Inr ps \<longrightarrow> list_all (moved_on batch) ps)"

definition stuck_row :: "string \<Rightarrow> insight_row \<Rightarrow> InsightCursor option \<Rightarrow> insight_store \<Rightarrow> bool" where
  "stuck_row i row cursor s \<longleftrightarrow> map_of (nn_outbox s) i = Some row \<and> outboxRows \<le> length (nn_retired s) \<and>
     Store_InsightCursor (nw_source row) s = cursor"

text \<open>The text of a batch shows its sandbox and its revision.\<close>

definition shows_policy :: "insight_codec \<Rightarrow> InsightBatchV1 \<Rightarrow> bool" where
  "shows_policy codec batch \<longleftrightarrow> (\<forall>b. ic_batch codec b = ic_batch codec batch \<longrightarrow>
     jb_SandboxID b = jb_SandboxID batch \<and> jb_PolicyRevision b = jb_PolicyRevision batch)"

lemma stuck_acknowledge:
  assumes "sound s" and stuck: "stuck_row i row cursor s" and "same_text c batch s" and "shows_policy (nk_codec c) (jo_Batch (nw_item row))"
    and "authorised (moved_on (jo_Batch (nw_item row))) batch"
  shows "stuck_row i row cursor (fst (Store_AcknowledgeInsightBatch (jb_BatchID batch) receipt s))"
proof -
  have other: "jb_BatchID batch \<noteq> i"
  proof
    assume "jb_BatchID batch = i"
    then have "ic_batch (nk_codec c) batch = ic_batch (nk_codec c) (jo_Batch (nw_item row))"
      using stuck assms(3) by (simp add: stuck_row_def same_text_def)
    then have "jb_SandboxID batch = jb_SandboxID (jo_Batch (nw_item row)) \<and> jb_PolicyRevision batch = jb_PolicyRevision (jo_Batch (nw_item row))"
      using assms(4) unfolding shows_policy_def by blast
    with assms(5) show False by (auto simp: authorised_def moved_on_def)
  qed
  show ?thesis
  proof (rule acknowledge_cases [of "jb_BatchID batch" receipt s])
    fix r :: insight_row
    let ?source = "ju_RegisteredSourceID (jo_NextCursor (nw_item r))"
    assume r: "map_of (nn_outbox s) (jb_BatchID batch) = Some r"
      and u: "fst (Store_AcknowledgeInsightBatch (jb_BatchID batch) receipt s) =
        s\<lparr>nn_cursors := (if ?source = [] then nn_cursors s else AList.update ?source (jo_NextCursor (nw_item r)) (nn_cursors s)),
          nn_outbox := AList.delete (jb_BatchID batch) (nn_outbox s)\<rparr>"
    have "?source = [] \<or> ?source \<noteq> nw_source row"
      using assms(1) r stuck other unfolding sound_def sound_row_def stuck_row_def by metis
    then show ?thesis
      using stuck other unfolding u by (auto simp: stuck_row_def Store_InsightCursor_def delete_conv' update_conv')
  qed (simp add: stuck)
qed

lemma stuck_invariant:
  assumes "shows_policy (nk_codec c) (jo_Batch (nw_item row))" and "policies_moved_on c (jo_Batch (nw_item row))"
  shows "collector_invariant c (moved_on (jo_Batch (nw_item row))) (\<lambda>s w. stuck_row i row cursor s)"
proof (unfold_locales, goal_cases)
  case (1 w ps)
  then show ?case using assms(2) by (simp add: policies_moved_on_def)
next
  case (2 s)
  show ?case by (simp add: world_keeps_def)
next
  case (3 s w x)
  then show ?case by (simp add: stuck_row_def Store_InsightCursor_def)
next
  case (4 s w t j reason)
  then have "full (nk_codec c) (retired_batches s) batch" for batch by (simp add: stuck_row_def full_def retired_batches_def)
  with 4(2) show ?case by (cases rule: retire_cases [of "nk_codec c" t j reason s]) simp_all
next
  case (5 s w t item)
  show ?case
    by (rule put_cases [of "nk_codec c" t item s]) (use 5(2) in \<open>auto simp: stuck_row_def Store_InsightCursor_def update_conv'\<close>)
next
  case (6 s w v batch receipt)
  then show ?case by (intro stuck_acknowledge [OF _ _ _ assms(1)])
qed

section \<open>Properties\<close>

text \<open>A collector whose control plane takes every batch, and a store with one pending row.\<close>

definition igx_batch :: "string \<Rightarrow> int \<Rightarrow> InsightBatchV1" where
  "igx_batch i revision =
     \<lparr>jb_FormatVersion = 1, jb_BatchID = i, jb_SandboxID = ''sbx_1'', jb_SandboxGeneration = 1, jb_PolicyRevision = revision,
      jb_RegisteredSourceID = ''source_1'', jb_ServiceRegistrationID = ''registration_1'', jb_ServiceGeneration = 1,
      jb_WorkspaceEpoch = ''epoch_1'', jb_NativeSessionID = ''session_1'', jb_JournalGeneration = ''journal_1'', jb_ThroughSequence = 9,
      jb_ObservedAt = seconds 90, jb_Status = ''ready'', jb_GapReason = None, jb_Findings = []\<rparr>"

definition igx_cursor :: "int \<Rightarrow> InsightCursor" where
  "igx_cursor change =
     \<lparr>ju_RegisteredSourceID = ''source_1'', ju_PolicyRevision = 1, ju_WorkspaceEpoch = ''epoch_1'', ju_JournalGeneration = ''journal_1'',
      ju_ChangeSequence = change, ju_ThroughSequence = 9, ju_Status = ''ready'', ju_GapReason = [], ju_ProjectionDigest = ''digest''\<rparr>"

definition igx_item :: "string \<Rightarrow> int \<Rightarrow> InsightOutboxItem" where
  "igx_item i revision = \<lparr>jo_Batch = igx_batch i revision, jo_BodyDigest = ''digest'', jo_NextCursor = igx_cursor 5\<rparr>"

definition igx_row :: insight_row where
  "igx_row = \<lparr>nw_source = ''source_1'', nw_item = igx_item ''batch_1'' 1, nw_created = seconds 90\<rparr>"

definition igx_store :: insight_store where
  "igx_store = no_insights\<lparr>nn_outbox := [(''batch_1'', igx_row)], nn_cursors := [(''source_1'', igx_cursor 3)]\<rparr>"

definition igx_policy :: "int \<Rightarrow> InsightPolicySourceV1 list \<Rightarrow> InsightPolicyV1" where
  "igx_policy revision sources =
     \<lparr>jp_SandboxID = ''sbx_1'', jp_Revision = revision, jp_Enabled = True, jp_ExpiresAt = seconds 160, jp_Sources = sources\<rparr>"

definition igx_source :: InsightPolicySourceV1 where
  "igx_source = \<lparr>jr_RegisteredSourceID = ''source_1'', jr_ServiceRegistrationID = ''registration_1'', jr_SandboxGeneration = 1,
     jr_ServiceGeneration = 1, jr_WorkspaceEpoch = ''epoch_1'', jr_NativeSessionID = ''session_1''\<rparr>"

definition igx_receipt :: "InsightBatchV1 \<Rightarrow> InsightBatchReceiptV1" where
  "igx_receipt batch = \<lparr>jt_BatchID = jb_BatchID batch, jt_Accepted = int (length (jb_Findings batch)), jt_ThroughSequence = jb_ThroughSequence batch\<rparr>"

definition igx_codec :: insight_codec where
  "igx_codec = \<lparr>ic_batch = (\<lambda>b. (if jb_PolicyRevision b = 1 then CHR ''a'' else CHR ''b'') # jb_SandboxID b), ic_cursor = ju_RegisteredSourceID\<rparr>"

definition igx :: "InsightPolicyV1 list \<Rightarrow> (string \<times> InsightBatchReceiptV1) list collector" where
  "igx ps = \<lparr>nk_Policies = give ps, nk_Submit = (\<lambda>b w. ((ic_batch igx_codec b, igx_receipt b) # w, Inr (igx_receipt b))),
     nk_Exec = (\<lambda>_ _. raise (E ''no sandbox'')), nk_Apply = (\<lambda>_. give ()), nk_Observe = None, nk_Now = (\<lambda>_. seconds 100), nk_wall = (\<lambda>_. seconds 100),
     nk_source = (\<lambda>_ _. None), nk_sandbox = (\<lambda>_ _. None), nk_code = (\<lambda>_. []), nk_codec = igx_codec, nk_request = (\<lambda>_. []),
     nk_decode = (\<lambda>_. Inl (E ''no response'')), nk_id_text = (\<lambda>_ _. [])\<rparr>"

definition igx_run :: "insight_store \<times> (string \<times> InsightBatchReceiptV1) list" where
  "igx_run = fst (RunOnce (igx [igx_policy 1 [igx_source]]) (igx_store, []))"

lemma igx_steps: "(collector_step (igx [igx_policy 1 [igx_source]]) (\<lambda>_ _. False))\<^sup>*\<^sup>* (igx_store, []) igx_run"
  unfolding igx_run_def by (rule r_into_rtranclp, rule step_run) (rule prod.collapse [symmetric])

lemma igx_sound: "sound (fst (igx_store, []))"
  by (auto simp: sound_def sound_row_def igx_store_def igx_row_def igx_item_def igx_cursor_def igx_batch_def no_insights_def split: if_splits)

text \<open>
  C10. over any number of runs of the insights collector, failed or not, no pending batch is
  lost: it is still pending, or was retired with its content and a reason, or the control
  plane took exactly its text and gave a receipt for all its findings, which the observer
  has seen
\<close>

theorem insight_not_lost:
  assumes "remembers c took saw" and "\<And>w v x receipt. env w v \<Longrightarrow> took w x receipt \<Longrightarrow> took v x receipt"
    and "\<And>w v x receipt. env w v \<Longrightarrow> saw w x receipt \<Longrightarrow> saw v x receipt"
    and "sound (fst s)" and "(collector_step c env)\<^sup>*\<^sup>* s t" and "map_of (nn_outbox (fst s)) i = Some row"
  shows "map_of (nn_outbox (fst t)) i = Some row \<or> retired_row (nw_item row) i (fst t) \<or>
    delivered_row c took saw (snd t) (jo_Batch (nw_item row))"
proof -
  have env: "accounted c took saw (fst s) a v" if "env w v" "accounted c took saw (fst s) a w" for a w v
    using that assms(2,3) unfolding accounted_def delivered_row_def by meson
  have "accounted c took saw (fst s) (fst s) (snd s)" by (simp add: accounted_def)
  from runs_keep [OF accounted_invariant [OF assms(1)] env assms(5,4) this] assms(6) show ?thesis by (simp add: accounted_def)
qed

lemma insight_not_lost_witness:
  "delivered_row (igx [igx_policy 1 [igx_source]]) (\<lambda>w x r. (x, r) \<in> set w) (\<lambda>_ _ _. False) (snd igx_run) (igx_batch ''batch_1'' 1)"
proof -
  let ?c = "igx [igx_policy 1 [igx_source]]"
  have remembers: "remembers ?c (\<lambda>w x r. (x, r) \<in> set w) (\<lambda>_ _ _. False)"
    by (auto simp: remembers_def world_keeps_def igx_def give_simps)
  have row: "map_of (nn_outbox (fst (igx_store, []))) ''batch_1'' = Some igx_row" by (simp add: igx_store_def)
  have "nn_outbox (fst igx_run) = [] \<and> nn_retired (fst igx_run) = []"
    by code_simp
  with insight_not_lost [OF remembers _ _ igx_sound igx_steps row] show ?thesis
    by (simp add: retired_row_def igx_row_def igx_item_def)
qed

text \<open>
  C15. over any number of runs of the collector, whatever the monitor, the control plane and
  the observer answer, the change sequence of a source's cursor never falls
\<close>

theorem cursor_monotone:
  assumes "sound (fst s)" and "rows_ahead (fst s)" and "(collector_step c env)\<^sup>*\<^sup>* s t" and "Store_InsightCursor source (fst s) = Some cu"
  shows "\<exists>cu'. Store_InsightCursor source (fst t) = Some cu' \<and> ju_ChangeSequence cu \<le> ju_ChangeSequence cu'"
proof -
  have "cursors_from (fst s) (fst s)" using assms(2) by (auto simp: cursors_from_def)
  from runs_keep [OF cursors.collector_invariant_axioms _ assms(3,1) this] assms(4) show ?thesis by (simp add: cursors_from_def)
qed

lemma cursor_monotone_witness: "\<exists>cu. Store_InsightCursor ''source_1'' (fst igx_run) = Some cu \<and> 3 \<le> ju_ChangeSequence cu"
proof -
  have cursor: "Store_InsightCursor ''source_1'' (fst (igx_store, [])) = Some (igx_cursor 3)"
    by (simp add: igx_store_def Store_InsightCursor_def)
  have "rows_ahead (fst (igx_store, []))"
    by (auto simp: rows_ahead_def ahead_def igx_store_def igx_row_def igx_item_def igx_cursor_def igx_batch_def no_insights_def Store_InsightCursor_def
        split: if_splits)
  from cursor_monotone [OF igx_sound this igx_steps cursor] show ?thesis by (simp add: igx_cursor_def)
qed

text \<open>
  C33. over any number of runs the outbox and the table of retirements hold at most 256 rows
  each and at most 16 MiB of batch text, the sums taken in 64 bits
\<close>

theorem outbox_bounded:
  assumes "sound (fst s)" and "within_bounds (nk_codec c) (fst s)" and "short_texts (nk_codec c)" and "(collector_step c env)\<^sup>*\<^sup>* s t"
  shows "length (nn_outbox (fst t)) \<le> 256 \<and> length (nn_retired (fst t)) \<le> 256 \<and>
    text_bytes (nk_codec c) (pending_batches (fst t)) \<le> 16 * 1024 * 1024 \<and>
    text_bytes (nk_codec c) (retired_batches (fst t)) \<le> 16 * 1024 * 1024"
  using runs_keep [OF table_bounds.collector_invariant_axioms _ assms(4,1,2)] assms(3)
  by (simp add: within_bounds_def outboxRows_def outboxBytes_def)

text \<open>A collector whose texts are one byte long.\<close>

definition igx_short :: "(string \<times> InsightBatchReceiptV1) list collector" where
  "igx_short = igx [igx_policy 1 [igx_source]]\<lparr>nk_codec := \<lparr>ic_batch = (\<lambda>_. ''x''), ic_cursor = ju_RegisteredSourceID\<rparr>\<rparr>"

lemma outbox_bounded_witness: "length (nn_outbox (fst (fst (RunOnce igx_short (igx_store, []))))) \<le> 256"
proof -
  have bounds: "within_bounds (nk_codec igx_short) (fst (igx_store, []))"
    by (simp add: within_bounds_def igx_store_def no_insights_def outboxRows_def outboxBytes_def text_bytes_def pending_batches_def
        retired_batches_def igx_short_def)
  have short: "short_texts (nk_codec igx_short)" by (simp add: short_texts_def igx_short_def)
  have run: "(collector_step igx_short (\<lambda>_ _. False))\<^sup>*\<^sup>* (igx_store, []) (fst (RunOnce igx_short (igx_store, [])))"
    by (rule r_into_rtranclp, rule step_run) (rule prod.collapse [symmetric])
  from outbox_bounded [OF igx_sound bounds short run] show ?thesis by blast
qed

text \<open>
  C24. nothing deletes a retirement, so once the table of retirements holds 256 rows a batch
  of a superseded policy stays pending over every further run, the cursor of its source
  stands still, and no new batch of that source can be stored
\<close>

theorem retirement_wedge:
  assumes "sound (fst s)" and "map_of (nn_outbox (fst s)) i = Some row" and "outboxRows \<le> length (nn_retired (fst s))"
    and "policies_moved_on c (jo_Batch (nw_item row))" and "shows_policy (nk_codec c) (jo_Batch (nw_item row))"
    and "(collector_step c env)\<^sup>*\<^sup>* s t"
  shows "map_of (nn_outbox (fst t)) i = Some row \<and>
    Store_InsightCursor (nw_source row) (fst t) = Store_InsightCursor (nw_source row) (fst s) \<and>
    (\<forall>item now. nw_source row \<noteq> [] \<and> jb_RegisteredSourceID (jo_Batch item) = nw_source row \<and>
       map_of (nn_outbox (fst t)) (jb_BatchID (jo_Batch item)) = None \<longrightarrow>
       snd (Store_PutInsightOutbox (nk_codec c) (\<lambda>u. u) now item (fst t)) \<noteq> ok)"
proof -
  have "stuck_row i row (Store_InsightCursor (nw_source row) (fst s)) (fst s)" using assms(2,3) by (simp add: stuck_row_def)
  from runs_keep [OF stuck_invariant [OF assms(5,4)] _ assms(6,1) this]
  have t: "stuck_row i row (Store_InsightCursor (nw_source row) (fst s)) (fst t)" by blast
  then have "(i, row) \<in> set (nn_outbox (fst t))" by (auto simp: stuck_row_def dest: map_of_SomeD)
  then have "list_ex (\<lambda>p. nw_source (snd p) = nw_source row) (nn_outbox (fst t))" by (force simp: list_ex_iff)
  with t show ?thesis by (auto simp: stuck_row_def Store_PutInsightOutbox_def Let_def)
qed

text \<open>A table of retirements that is full.\<close>

definition igx_retired :: "InsightOutboxRetirement tbl" where
  "igx_retired = map (\<lambda>n. (replicate n CHR ''x'', \<lparr>jx_Item = igx_item (replicate n CHR ''x'') 1, jx_Reason = ''policy_superseded'', jx_RetiredAt = seconds 80\<rparr>)) [0..<256]"

lemma retirement_wedge_witness:
  "map_of (nn_outbox (fst (fst (RunOnce (igx [igx_policy 2 [igx_source]]) (igx_store\<lparr>nn_retired := igx_retired\<rparr>, []))))) ''batch_1'' = Some igx_row"
proof -
  let ?s = "(igx_store\<lparr>nn_retired := igx_retired\<rparr>, [])" and ?c = "igx [igx_policy 2 [igx_source]]"
  have sound: "sound (fst ?s)" using igx_sound by (simp add: sound_def)
  have row: "map_of (nn_outbox (fst ?s)) ''batch_1'' = Some igx_row" by (simp add: igx_store_def)
  have rows: "outboxRows \<le> length (nn_retired (fst ?s))" by (simp add: outboxRows_def igx_retired_def)
  have policies: "policies_moved_on ?c (jo_Batch (nw_item igx_row))"
    by (auto simp: policies_moved_on_def igx_def give_simps igx_policy_def moved_on_def igx_row_def igx_item_def igx_batch_def)
  have codec: "shows_policy (nk_codec ?c) (jo_Batch (nw_item igx_row))"
    by (auto simp: shows_policy_def igx_def igx_codec_def igx_row_def igx_item_def igx_batch_def split: if_splits)
  have run: "(collector_step ?c (\<lambda>_ _. False))\<^sup>*\<^sup>* ?s (fst (RunOnce ?c ?s))"
    by (rule r_into_rtranclp, rule step_run) (rule prod.collapse [symmetric])
  from retirement_wedge [OF sound row rows policies codec run] show ?thesis by blast
qed

end
