(* ===== verification/Spec2Isabelle.thy ===== *)
theory Spec2Isabelle
  imports Model_Properties Store_Collection_Properties Report_Sync_Properties Store_Project_Properties
    Store_Cell_Properties Store_Manager_Properties Reconcile_Rows Access_Mapping
    Insights_Properties
begin

text \<open>
  \<^bold>\<open>warpmetal-agent-runtime: model and correctness of the validation core, the local store, the pass over sandboxes and grants, the acknowledgement of continuity reports and the insights collector.\<close>

  The agent runtime is a daemon on a rented machine. It fetches a signed \<^emph>\<open>manifest\<close> (the desired
  state) from the control plane, validates it (internal/model), and brings the machine to that
  state (internal/reconcile), keeping what it has done in a SQLite database (internal/state). Every
  later decision trusts these two parts: nothing runs that the manifest does not allow, and nothing
  the store has acknowledged is lost or changed.

  \<^bold>\<open>Language and library.\<close> Go_Prelude (results, the error type, wrap64, small loops and the locale of
  the loops that collect distinct keys), Go_Regexp (the regular expressions of the patterns, as
  derivatives, with their meaning), Go_Strings (strings as byte lists, the functions of package
  strings, path cleaning), Go_Crypto (SHA-256 on 32-bit words with its published test vectors, hexadecimal and base32), Go_Json (the JSON
  text of values the code hashes), Go_Time (time.Time as nanoseconds, RFC3339Nano), Go_Sql (tables,
  ORDER BY, and the locales insert_or_verify and fenced_states that the store operations provide).

  \<^bold>\<open>internal/model and internal/capacity.\<close> Model_Patterns holds the patterns of model.go;
  Model_Sandbox the resources, allocatable capacity, sandboxes and grants; Model_Setup the setup
  operations with the npm and archive materializers; Model_Continuity the registrations, their
  resolution (EffectiveContinuityRegistrations) and the capture operations; Model_Continuation the
  continuations, restores and handoffs; Model_Service and Model_Cell the managed services and the
  formatVersion 2 and 3 cells with their digests and authority (model.go, cell.go, cell_v3.go);
  Model_Parent controller_parent.go; Model_Manager the manager policies, reviews and takeovers;
  Model_Session the session and Foreman chat handoffs; Model_Manifest the whole of ValidateManifest.
  Each step definition is the body of one loop of ValidateManifest; its result carries the loop
  variables (the sets of seen identifiers, the totals) or the error of the early return.

  \<^bold>\<open>internal/state.\<close> Store_State has the rows and the store record (one field per table);
  Store_Setup, Store_Operations, Store_Checkpoints and Store_Continuations have the operations of store.go, each a
  function from the store to an error or a result with the new store: a statement that fails leaves the
  store as it was, which is what the transaction gives. A method that runs several statements without a
  transaction takes an argument for what other callers do between them. Store_Gc has the collection of
  checkpoints (checkpoint_lifecycle.go). The laws of each are in Store_Checkpoint_Laws, Store_Retention,
  Store_Continuation_Laws (with the abstract specification of the tuples) and Store_Gc_Laws. Store_Run is the step
  relation of the store: any sequence of operations, refused ones included, with interruptions;
  Store_Invariants collects what every run keeps.

  Store_Projects has the managed projects and the managed services of store.go in a record of their
  own, since no other operation touches these tables; Store_Project_Properties their steps and laws.
  Store_Cells has the cell operations, the preparations with their native context, the executions and the
  qualification pins (cell_store.go, cell_v3_store.go, cell_v3_execution_store.go); Store_Cell_Laws reduces the
  writes of a preparation to five and shows the invariant and the succession of rows of these, and
  Store_Cell_Properties has the properties with a run from the empty table to a renewed grant. Go_Runs is
  the locale of the succession of rows over runs, which projects, services, the three cell tables and six of the
  manager tables provide. Store_Manager has the tables of manager.go, also in a record of their own;
  Store_Manager_Properties their succession of rows and what their two-statement writes lose.
  Store_Sources has the continuity sources, registrations, barriers and the outbox of operation reports with its
  retirement; Store_Insights the outbox of insight batches, its retirements, cursors, policy states and leases; both
  in records of their own.

  \<^bold>\<open>internal/reconcile.\<close> Report_Sync is the report sender (report_sync.go): one definition per
  attempt, per answer and per change of the stored block, over arbitrary functions for the network, the
  clock and the cancellation, which work on a world of their own. The recursion of its loop is justified by the
  attempts left and by the resync generation that can still rise. Report_Sync_Laws follows one send,
  Report_Sync_Properties a sequence of sends by restarted daemons.

  Reconcile_Sandbox is the part of reconcile.go that brings sandboxes and access grants to the manifest: one
  statement monad (Go_Effects, with Hoare rules for runs and for successful runs) over the store and a world of
  arbitrary type; the engine, the workspaces, the SSH sessions, the clock, the access mapping and the tables the
  drain fence reads are members of the record reconciler, as they are of the struct Reconciler. reconcileSandbox is cut
  where the code has its branches (replace_image, enter_cell, start_container, run_sandbox, stop_sandbox);
  the loops, the removal of omitted sandboxes, Expire and reconcileGrants follow. Reconcile_Sandbox_Laws has the
  postcondition of a pass, one rule for each part; Reconcile_Properties its properties; Reconcile_Rows runs of
  the daemon, with the vocabulary of the rows as a type, and the expiry; Reconcile_Grants the convergence of the grants.
  Access_Mapping is the renderer of authorized keys (internal/access/access.go), how its file reads back, and the
  renderer as the access mapping of reconcileGrants.

  \<^bold>\<open>internal/continuity and internal/insights.\<close> Continuity_Acknowledge is the acknowledgement of a manifest
  (coordinator.go, registry.go, report_freshness.go, service.go): the freshness of sources, the registration metadata and
  the retirement of operation reports that the manifest no longer carries, with its two properties.
  Insights_Collector is collector.go: one run as a statement over the insight tables and a world, with the delivery of a
  batch (deliver, acknowledge), the pending items (pending_step, refresh_pending), the collection from one source
  (collectSource) and the policy leases. Go_Invariants has the rules for invariants of statements; Insights_Laws
  the locale collector_invariant, which reduces an invariant of whole runs to the three writes of the outbox and the
  calls of the world; Insights_Properties interprets it for the bounds and the cursors, and instantiates it for
  the account of every batch.

  \<^bold>\<open>What is proved.\<close> Model_Properties and this theory: the validator is equivalent to an unordered
  specification, references are current, capacity is respected (and the exact bound under which it
  is), captures name the one effective registration, cells are bound to their authority. Store_Properties:
  referential integrity of the whole store as an invariant of every run, immutability of
  acknowledged rows, termination of every state machine, exact budgets, safety and bounds of
  retention. Store_Collection_Properties: the tuples refine their specification, sources are owned by one handoff,
  a checkpoint whose object may be removed is not rooted, its collection completes and is never
  undone. Report_Sync_Properties: report numbers are used once while sends end by themselves, and a send
  posts a bounded number of times. Store_Project_Properties: the identity of a project is pinned and a
  service is created once per generation. Store_Cell_Properties: a preparation, its receipt and its execution
  are pinned, its session mode changes at most three times. Reconcile_Properties, Reconcile_Rows: every pass is recorded, a cell is
  ready only when its witness was observed, a container with work is not replaced for a cell, what has expired is not started,
  rows keep their vocabulary. Reconcile_Grants, Access_Mapping: after a successful pass the table, the sessions and the file of keys
  are what the manifest says. Continuity_Acknowledge: an acknowledgement retires exactly the reports it may and stores the
  effective registrations. Insights_Properties: no batch is lost, cursors never fall, the tables keep their bounds, and a
  full table of retirements stops a source for good. The bounds that fail are proved to fail: capacity, quota and retention order, and the
  collection of a capture that is accepted while it is planned; so are a report number that is used
  twice, a block that any manifest clears and a bound image that a concurrent write erases, and a renewed grant under which nothing can be journalled; a guidance
  update that is lost and a reservation that is replaced; a restart that an adopted cell skips, a lower generation that is
  accepted, and a removed cell that stays recorded as ready.

  \<^bold>\<open>Bounds and fuel.\<close> No definition uses fuel: loops are structural or have a proved measure. Go's
  int and int64 are int with wrap64 written after the operations that can overflow.

  \<^bold>\<open>Parameters.\<close> The JSON decoding of a stored receipt (digestOf), reflect.DeepEqual on reports that
  hold a time or a slice (deepEqual), the JSON text of a report (marshal) and of a
  prepared receipt (receipt_codec), the calls of the report
  sender (rx_Post, rx_Sleep, rx_Jitter and so on), the members of the record reconciler, the atomic replacement of a
  file (atomicWrite), the JSON text of operation reports and insight batches (report_codec, insight_codec), the members of the record
  collector, and what other callers do between two statements (between) are arguments.

  \<^bold>\<open>Not modelled.\<close> JSON decoding of the wire form, input and output failures of the database, years
  outside 0 to 9999 in time text, and the packages listed in the manifest as not modelled: they are
  mainly calls to podman, the kernel, the file system and HTTP.
\<close>

section \<open>The manifest gate\<close>

text \<open>
  C1. ValidateManifest, with its loops, its loop variables and its early returns, accepts a
  manifest exactly when the manifest meets the specification, which is a conjunction without
  order: server identity, revision that does not move back, image, list sizes, sandboxes,
  capacity, registrations, captures, setup operations, services, cells, continuations,
  manager records and grants, with the uniqueness of every identifier.
\<close>

theorem manifest_accepted_iff: "accepted (ValidateManifest m srv prev) = manifest_ok m srv prev"
  by (rule manifest_refines)

text \<open>
  C7. In an accepted manifest everything that names a sandbox names one of the manifest's
  sandboxes at its present generation: setup operations, continuity registrations, workspace
  requests, live services, controller parents, formatVersion 3 cells, continuations,
  restores, handoffs with their targets, and manager policies.
\<close>

theorem manifest_references_current:
  assumes "accepted (ValidateManifest m srv prev)"
  shows "(\<forall>p\<in>set (mf_SetupOperations m). current m (so_SandboxID p) (so_SandboxGeneration p)) \<and>
    (\<forall>r\<in>set (mf_ContinuityRegistrations m). current m (ci_SandboxID (cr_Identity r)) (ci_SandboxGeneration (cr_Identity r))) \<and>
    (\<forall>r\<in>set (mf_ManagedWorkspaceRequests m). current m (mw_SandboxID r) (mw_SandboxGeneration r)) \<and>
    (\<forall>s\<in>set (mf_ManagedServices m). live s \<longrightarrow> current m (mi_SandboxID (ms_Identity s)) (mi_SandboxGeneration (ms_Identity s))) \<and>
    (\<forall>p\<in>set (mf_ParentServices m). current m (po_SandboxID (pi_Owner p)) (po_SandboxGeneration (pi_Owner p))) \<and>
    (\<forall>e\<in>set (mf_CellEntriesV3 m). current m (v3_SandboxID e) (v3_SandboxGeneration e)) \<and>
    (\<forall>c\<in>set (mf_ContinuityContinuations m). current m (ni_SandboxID (cm_Identity c)) (ni_SandboxGeneration (cm_Identity c))) \<and>
    (\<forall>r\<in>set (mf_ContinuityRestores m). current m (ni_SandboxID (rm_Identity r)) (ni_SandboxGeneration (rm_Identity r))) \<and>
    (\<forall>h\<in>set (mf_ContinuityHandoffs m). current m (ni_SandboxID (hm_Identity h)) (ni_SandboxGeneration (hm_Identity h)) \<and>
       current m (ht_SandboxID (hm_TargetPolicy h)) (ht_SandboxGeneration (hm_TargetPolicy h))) \<and>
    (\<forall>p\<in>set (mf_InsightsManagerPolicies m). current m (im_SandboxID p) (im_SandboxGeneration p))"
  by (intro conjI manifest_current [OF assms])

theorem manifest_references_current_witness:
  "current ex_full (so_SandboxID ex_setup) (so_SandboxGeneration ex_setup)"
proof -
  have "ex_setup \<in> set (mf_SetupOperations ex_full)" by (simp add: ex_full_def)
  with manifest_references_current [OF ex_full_accepted] show ?thesis by blast
qed

text \<open>
  C32. In an accepted manifest whose sandboxes each ask for at most 2^57 units of a
  resource, the true sums of CPU and memory over the running sandboxes and of disk over
  those not deleted are within the purchased capacity: the 64-bit counters have not wrapped.
\<close>

theorem manifest_within_capacity:
  assumes "accepted (ValidateManifest m srv prev)" and "modest m"
  shows "sum_list (map cpu_demand (mf_Sandboxes m)) \<le> r_CPUMillicores (mf_Capacity m) \<and>
    sum_list (map memory_demand (mf_Sandboxes m)) \<le> r_MemoryMiB (mf_Capacity m) \<and>
    sum_list (map disk_demand (mf_Sandboxes m)) \<le> r_WorkspaceDiskGiB (mf_Capacity m)"
  by (intro conjI manifest_sums [OF assms])

theorem manifest_within_capacity_witness:
  "sum_list (map cpu_demand (mf_Sandboxes ex_full)) = 1000 \<and>
   sum_list (map cpu_demand (mf_Sandboxes ex_full)) \<le> r_CPUMillicores (mf_Capacity ex_full)"
proof -
  have "modest ex_full" "sum_list (map cpu_demand (mf_Sandboxes ex_full)) = 1000" by code_simp+
  with manifest_within_capacity [OF ex_full_accepted] show ?thesis by blast
qed

text \<open>
  C34. A capture operation of an accepted manifest names the one effective registration of
  its binding: EffectiveContinuityRegistrations succeeds, and among its results there is
  exactly one for the binding, which is active, has continuity enabled, and has the binding,
  scope revision and Work fence of the operation.
\<close>

theorem manifest_capture_effective:
  assumes "accepted (ValidateManifest m srv prev)" and "c \<in> set (mf_ContinuityOperations m)"
  shows "\<exists>es r. EffectiveContinuityRegistrations (mf_ContinuityRegistrations m) = Inr es \<and> r \<in> set es \<and>
     cr_Binding r = co_Binding c \<and> cr_DesiredState r = ''active'' \<and> cr_ContinuityEnabled r \<and>
     cr_ScopeRevision r = co_ScopeRevision c \<and> SameContinuityWorkFence (cr_Identity r) (co_Identity c) \<and>
     (\<forall>q\<in>set es. binding_of q = binding_of r \<longrightarrow> q = r)"
  by (rule manifest_capture [OF assms])

theorem manifest_capture_effective_witness:
  "\<exists>es r. EffectiveContinuityRegistrations [ex_registration ''active'' 2, ex_registration ''revoked'' 1] = Inr es \<and>
     r \<in> set es \<and> cr_Binding r = ex_binding 2 \<and> cr_DesiredState r = ''active''"
proof -
  have "ex_capture \<in> set (mf_ContinuityOperations ex_full)" by (simp add: ex_full_def)
  from manifest_capture_effective [OF ex_full_accepted this] show ?thesis
    by (auto simp: ex_full_def ex_capture_def)
qed


end
